(* ===== verification/Prelude.thy ===== *)
theory Prelude
  imports Main "HOL-Library.Sublist"
begin

text \<open>
  The shared vocabulary of the development: Rust's \<open>Result\<close> as a sum, its propagation
  operator \<open>?\<close> as a bind, Rust strings as the lists of their UTF-8 bytes with the
  operations of the standard library the sources use on them (character boundaries,
  \<open>chars\<close>, \<open>trim\<close>, control characters, \<open>from_utf8\<close>), saturating arithmetic on
  \<open>u64\<close>, and the lemmas about them that every component uses.
\<close>

section \<open>Automation collections\<close>

named_theorems result_simps \<open>inversion of successful result chains\<close>
named_theorems utf8_simps \<open>facts about UTF-8 byte strings\<close>

section \<open>Results\<close>

type_synonym ('e, 'a) result = "'e + 'a"

definition res_bind :: "('e, 'a) result \<Rightarrow> ('a \<Rightarrow> ('e, 'b) result) \<Rightarrow> ('e, 'b) result" where
  "res_bind m f = (case m of Inl e \<Rightarrow> Inl e | Inr x \<Rightarrow> f x)"

text \<open>An early return: \<open>fail_if b e\<close> is \<^verbatim>\<open>if b { return Err(e) }\<close>.\<close>

definition fail_if :: "bool \<Rightarrow> 'e \<Rightarrow> ('e, unit) result" where
  "fail_if b e = (if b then Inl e else Inr ())"

definition ok_or :: "'a option \<Rightarrow> 'e \<Rightarrow> ('e, 'a) result" where
  "ok_or m e = (case m of None \<Rightarrow> Inl e | Some x \<Rightarrow> Inr x)"

definition map_err :: "('e \<Rightarrow> 'f) \<Rightarrow> ('e, 'a) result \<Rightarrow> ('f, 'a) result" where
  "map_err f m = (case m of Inl e \<Rightarrow> Inl (f e) | Inr x \<Rightarrow> Inr x)"

lemma res_bind_simps [simp]:
  "res_bind (Inl e) f = Inl e"
  "res_bind (Inr x) f = f x"
  by (simp_all add: res_bind_def)

lemma res_bind_InrE [result_simps]:
  "res_bind m f = Inr y \<longleftrightarrow> (\<exists>x. m = Inr x \<and> f x = Inr y)"
  by (cases m) auto

text \<open>A congruence that evaluates a chain from its first step on.\<close>

lemma res_bind_weak: "m = m' \<Longrightarrow> res_bind m f = res_bind m' f"
  by simp

lemma res_bind_InlE:
  "res_bind m f = Inl e \<longleftrightarrow> m = Inl e \<or> (\<exists>x. m = Inr x \<and> f x = Inl e)"
  by (cases m) auto

lemma fail_if_Inr [result_simps]: "fail_if b e = Inr u \<longleftrightarrow> \<not> b"
  by (simp add: fail_if_def)

lemma fail_if_Inl: "fail_if b e = Inl e' \<longleftrightarrow> b \<and> e' = e"
  by (auto simp: fail_if_def)

lemma fail_if_simps [simp]: "fail_if True e = Inl e" "fail_if False e = Inr ()"
  by (simp_all add: fail_if_def)

lemma ok_or_Inr [result_simps]: "ok_or m e = Inr x \<longleftrightarrow> m = Some x"
  by (auto simp: ok_or_def split: option.splits)

lemma ok_or_simps [simp]: "ok_or None e = Inl e" "ok_or (Some x) e = Inr x"
  by (simp_all add: ok_or_def)

lemma map_err_Inr [result_simps]: "map_err f m = Inr x \<longleftrightarrow> m = Inr x"
  by (cases m) (auto simp: map_err_def)

lemma map_err_simps [simp]: "map_err f (Inl e) = Inl (f e)" "map_err f (Inr x) = Inr x"
  by (simp_all add: map_err_def)

text \<open>Splitting a command into words (\<open>shell_words::split\<close>), a parameter of the model.\<close>

type_synonym word_splitter = "string \<Rightarrow> string list option"

section \<open>Lists\<close>

lemma distinct_concat_map_middle:
  "distinct (concat (map f (xs @ x # ys))) \<longleftrightarrow> distinct (concat (map f (xs @ ys)))
     \<and> distinct (f x) \<and> (\<forall>y \<in> set xs \<union> set ys. set (f x) \<inter> set (f y) = {})"
  by (simp only: map_append concat_append list.map concat.simps distinct_append set_append
      set_concat set_map) blast

lemma list_all2_left: "list_all2 R xs ys \<Longrightarrow> x \<in> set xs \<Longrightarrow> \<exists>y \<in> set ys. R x y"
  by (induction rule: list_all2_induct) auto

lemma list_all2_right: "list_all2 R xs ys \<Longrightarrow> y \<in> set ys \<Longrightarrow> \<exists>x \<in> set xs. R x y"
  by (induction rule: list_all2_induct) auto

section \<open>Machine integers\<close>

text \<open>
  \<open>u64\<close> and \<open>usize\<close> (64 bits) counters are natural numbers; an operation that saturates
  or is checked in the sources is written with its bound.
\<close>

definition u64_max :: nat where
  "u64_max = 18446744073709551615"

definition u64_saturating_add :: "nat \<Rightarrow> nat \<Rightarrow> nat" where
  "u64_saturating_add a b = min u64_max (a + b)"

definition u64_checked_add :: "nat \<Rightarrow> nat \<Rightarrow> nat option" where
  "u64_checked_add a b = (if a + b \<le> u64_max then Some (a + b) else None)"

lemma u64_checked_add_SomeD: "u64_checked_add a b = Some c \<Longrightarrow> c = a + b \<and> c \<le> u64_max"
  by (auto simp: u64_checked_add_def split: if_splits)

section \<open>UTF-8 strings\<close>

text \<open>
  A Rust \<open>String\<close> is a vector of bytes; \<open>len\<close> counts bytes. A \<open>string\<close> of the model
  is that vector, each HOL \<open>char\<close> one byte.
\<close>

abbreviation byte :: "char \<Rightarrow> nat" where
  "byte c \<equiv> of_char c"

definition is_cont :: "char \<Rightarrow> bool" where
  "is_cont c \<longleftrightarrow> 128 \<le> byte c \<and> byte c < 192"

function utf8_chars :: "string \<Rightarrow> string list" where
  "utf8_chars [] = []"
| "utf8_chars (c # cs) = (c # takeWhile is_cont cs) # utf8_chars (dropWhile is_cont cs)"
  by pat_completeness auto
termination
  by (relation "measure length") (auto simp: length_dropWhile_le le_imp_less_Suc)

definition char_count :: "string \<Rightarrow> nat" where
  "char_count s = length (utf8_chars s)"

definition take_chars :: "nat \<Rightarrow> string \<Rightarrow> string" where
  "take_chars n s = concat (take n (utf8_chars s))"

definition is_char_boundary :: "string \<Rightarrow> nat \<Rightarrow> bool" where
  "is_char_boundary s i \<longleftrightarrow> i = 0 \<or> i = length s \<or> (i < length s \<and> \<not> is_cont (s ! i))"

text \<open>
  The loop \<^verbatim>\<open>while !s.is_char_boundary(end) { end = end.saturating_sub(1) }\<close>, which
  five functions of the sources use to cut a string at a character boundary.
\<close>

fun floor_boundary :: "string \<Rightarrow> nat \<Rightarrow> nat" where
  "floor_boundary s 0 = 0"
| "floor_boundary s (Suc i) =
     (if is_char_boundary s (Suc i) then Suc i else floor_boundary s i)"

text \<open>\<open>String::from_utf8\<close> accepts exactly the byte sequences of RFC 3629.\<close>

definition byte_in :: "nat \<Rightarrow> nat \<Rightarrow> char \<Rightarrow> bool" where
  "byte_in lo hi c \<longleftrightarrow> lo \<le> byte c \<and> byte c \<le> hi"

fun utf8_valid :: "string \<Rightarrow> bool" where
  "utf8_valid [] = True"
| "utf8_valid (a # cs) =
     (if byte a < 128 then utf8_valid cs
      else if byte_in 194 223 a then
        (case cs of b # r \<Rightarrow> is_cont b \<and> utf8_valid r | _ \<Rightarrow> False)
      else if byte_in 224 239 a then
        (case cs of b # c # r \<Rightarrow>
           is_cont b \<and> is_cont c \<and> (byte a = 224 \<longrightarrow> 160 \<le> byte b)
           \<and> (byte a = 237 \<longrightarrow> byte b < 160) \<and> utf8_valid r
         | _ \<Rightarrow> False)
      else if byte_in 240 244 a then
        (case cs of b # c # d # r \<Rightarrow>
           is_cont b \<and> is_cont c \<and> is_cont d \<and> (byte a = 240 \<longrightarrow> 144 \<le> byte b)
           \<and> (byte a = 244 \<longrightarrow> byte b < 144) \<and> utf8_valid r
         | _ \<Rightarrow> False)
      else False)"

text \<open>
  \<open>char::is_control\<close> (U+0000 to U+001F, U+007F to U+009F) and \<open>char::is_whitespace\<close>
  (the Unicode property White\_Space), on the UTF-8 encoding of one character.
\<close>

definition is_control :: "string \<Rightarrow> bool" where
  "is_control g = (case g of
     [c] \<Rightarrow> byte c < 32 \<or> byte c = 127
   | [a, b] \<Rightarrow> byte a = 194 \<and> 128 \<le> byte b \<and> byte b < 160
   | _ \<Rightarrow> False)"

definition is_whitespace :: "string \<Rightarrow> bool" where
  "is_whitespace g = (case map byte g of
     [c] \<Rightarrow> 9 \<le> c \<and> c \<le> 13 \<or> c = (32::nat)
   | [a, b] \<Rightarrow> a = 194 \<and> (b = 133 \<or> b = 160)
   | [a, b, c] \<Rightarrow> (a, b, c) = (225, 154, 128)
       \<or> a = 226 \<and> b = 128 \<and> (128 \<le> c \<and> c \<le> 138 \<or> c = 168 \<or> c = 169 \<or> c = 175)
       \<or> (a, b, c) = (226, 129, 159) \<or> (a, b, c) = (227, 128, 128)
   | _ \<Rightarrow> False)"

definition trim :: "string \<Rightarrow> string" where
  "trim s = concat (rev (dropWhile is_whitespace (rev (dropWhile is_whitespace (utf8_chars s)))))"

text \<open>\<open>str::split_whitespace\<close>: the maximal runs of characters that are not white space.\<close>

fun split_ws_groups :: "string list \<Rightarrow> string \<Rightarrow> string list" where
  "split_ws_groups [] acc = (if acc = [] then [] else [acc])"
| "split_ws_groups (g # gs) acc =
     (if is_whitespace g then (if acc = [] then [] else [acc]) @ split_ws_groups gs []
      else split_ws_groups gs (acc @ g))"

definition split_whitespace :: "string \<Rightarrow> string list" where
  "split_whitespace s = split_ws_groups (utf8_chars s) []"

subsection \<open>Lemmas\<close>

lemma concat_utf8_chars [simp]: "concat (utf8_chars s) = s"
  by (induction s rule: utf8_chars.induct) simp_all

lemma char_count_le_length: "char_count s \<le> length s"
proof (induction s rule: utf8_chars.induct)
  case (2 c cs)
  have "length (dropWhile is_cont cs) \<le> length cs"
    by (rule length_dropWhile_le)
  with 2 show ?case by (simp add: char_count_def)
qed (simp add: char_count_def)

lemma take_chars_prefix: "prefix (take_chars n s) s"
proof -
  have "s = take_chars n s @ concat (drop n (utf8_chars s))"
    unfolding take_chars_def
    by (metis append_take_drop_id concat_append concat_utf8_chars)
  then show ?thesis by (metis prefixI)
qed

lemma take_chars_all: "char_count s \<le> n \<Longrightarrow> take_chars n s = s"
  by (simp add: take_chars_def char_count_def)

lemma floor_boundary_le [simp]: "floor_boundary s i \<le> i"
  by (induction i) auto

lemma floor_boundary_boundary: "is_char_boundary s (floor_boundary s i)"
  by (induction i) (auto simp: is_char_boundary_def)

lemma floor_boundary_id: "is_char_boundary s i \<Longrightarrow> floor_boundary s i = i"
  by (cases i) auto

text \<open>The cut is the largest boundary at or below the bound: no character that fits is lost.\<close>

lemma floor_boundary_greatest:
  "is_char_boundary s j \<Longrightarrow> j \<le> i \<Longrightarrow> j \<le> floor_boundary s i"
  by (induction i) (auto simp: le_Suc_eq)

text \<open>Cutting a valid string at a boundary leaves a valid string.\<close>

lemma is_char_boundary_drop:
  assumes "is_char_boundary s i" "k \<le> i"
  shows "is_char_boundary (drop k s) (i - k)"
  using assms by (auto simp: is_char_boundary_def)

lemma is_char_boundary_not_cont:
  "is_char_boundary s i \<Longrightarrow> 0 < i \<Longrightarrow> i < length s \<Longrightarrow> \<not> is_cont (s ! i)"
  by (auto simp: is_char_boundary_def)

text \<open>The four shapes of the first character of a valid string.\<close>

lemma utf8_valid_Cons_cases:
  assumes "utf8_valid (a # cs)"
  obtains (one) "byte a < (128::nat)" "utf8_valid cs"
  | (two) b r where "cs = b # r" "byte_in 194 223 a" "is_cont b" "utf8_valid r"
  | (three) b c r where "cs = b # c # r" "byte_in 224 239 a" "is_cont b" "is_cont c"
      "byte a = (224::nat) \<longrightarrow> 160 \<le> (byte b::nat)" "byte a = (237::nat) \<longrightarrow> byte b < (160::nat)"
      "utf8_valid r"
  | (four) b c d r where "cs = b # c # d # r" "byte_in 240 244 a" "is_cont b" "is_cont c" "is_cont d"
      "byte a = (240::nat) \<longrightarrow> 144 \<le> (byte b::nat)" "byte a = (244::nat) \<longrightarrow> byte b < (144::nat)"
      "utf8_valid r"
proof -
  consider "byte a < (128::nat)" | "byte_in 194 223 a" | "byte_in 224 239 a" | "byte_in 240 244 a"
    using assms by (fastforce split: if_splits)
  then show ?thesis
  proof cases
    case 1
    then show ?thesis using assms one by simp
  next
    case 2
    then obtain b r where "cs = b # r" "is_cont b" "utf8_valid r"
      using assms by (auto simp: byte_in_def split: list.splits)
    then show ?thesis using 2 two by blast
  next
    case 3
    then have "\<not> byte a < (128::nat)" "\<not> byte_in 194 223 a" by (auto simp: byte_in_def)
    then show ?thesis using assms 3 three by (auto split: list.splits)
  next
    case 4
    then have "\<not> byte a < (128::nat)" "\<not> byte_in 194 223 a" "\<not> byte_in 224 239 a"
      by (auto simp: byte_in_def)
    then show ?thesis using assms 4 four by (auto split: list.splits)
  qed
qed

lemma utf8_valid_head: "utf8_valid (c # cs) \<Longrightarrow> \<not> is_cont c"
  by (erule utf8_valid_Cons_cases) (auto simp: is_cont_def byte_in_def)

lemma utf8_valid_take:
  "utf8_valid s \<Longrightarrow> is_char_boundary s i \<Longrightarrow> utf8_valid (take i s)"
proof (induction "length s" arbitrary: s i rule: less_induct)
  case less
  note dr = is_char_boundary_drop [OF less.prems(2)]
    and nc = is_char_boundary_not_cont [OF less.prems(2)]
  show ?case
  proof (cases "s = [] \<or> i = 0")
    case False
    then obtain a cs where s: "s = a # cs" and i: "0 < i" by (cases s) auto
    from less.prems(1) [unfolded s] show ?thesis
    proof (cases rule: utf8_valid_Cons_cases)
      case one
      then obtain j where "i = Suc j" using i by (cases i) auto
      then show ?thesis using less.hyps [of cs j] dr [of 1] s one by simp
    next
      case (two b r)
      have "i \<noteq> 1" using nc two s by auto
      then obtain j where "i = Suc (Suc j)"
        using i by (metis One_nat_def not0_implies_Suc less_not_refl)
      then show ?thesis using less.hyps [of r j] dr [of 2] s two by (simp add: byte_in_def)
    next
      case (three b c r)
      have "i \<noteq> 1" "i \<noteq> 2" using nc three s by (auto simp: numeral_2_eq_2)
      then obtain j where "i = Suc (Suc (Suc j))"
        using i by (metis One_nat_def Suc_1 not0_implies_Suc less_not_refl)
      then show ?thesis
        using less.hyps [of r j] dr [of 3] s three by (simp add: byte_in_def numeral_3_eq_3)
    next
      case (four b c d r)
      have "i \<noteq> 1" "i \<noteq> 2" "i \<noteq> 3" using nc four s by (auto simp: numeral_2_eq_2 numeral_3_eq_3)
      then obtain j where "i = Suc (Suc (Suc (Suc j)))"
        using i by (metis One_nat_def Suc_1 numeral_3_eq_3 not0_implies_Suc less_not_refl)
      then show ?thesis
        using less.hyps [of r j] dr [of 4] s four by (simp add: byte_in_def eval_nat_numeral)
    qed
  qed auto
qed

lemma utf8_valid_append: "utf8_valid s \<Longrightarrow> utf8_valid t \<Longrightarrow> utf8_valid (s @ t)"
proof (induction "length s" arbitrary: s rule: less_induct)
  case less
  show ?case
  proof (cases s)
    case (Cons a cs)
    from less.prems(1) [unfolded Cons] show ?thesis
      by (cases rule: utf8_valid_Cons_cases) (use less Cons in \<open>simp_all add: byte_in_def\<close>)
  qed (use less.prems(2) in simp)
qed

lemma utf8_valid_ascii: "list_all (\<lambda>c. byte c < (128::nat)) s \<Longrightarrow> utf8_valid s"
  by (induction s) auto

section \<open>Cutting a text to a bound\<close>

text \<open>
  The contract of every function of the sources that cuts a text to a number of bytes: the
  result fits, is valid UTF-8 when the text is, and is the text itself when that fits.
\<close>

locale bounded_text =
  fixes cut :: "nat \<Rightarrow> string \<Rightarrow> string"
  assumes fits: "length (cut n s) \<le> n"
    and keeps_utf8: "utf8_valid s \<Longrightarrow> utf8_valid (cut n s)"
    and unchanged: "length s \<le> n \<Longrightarrow> cut n s = s"
begin

lemma cut_again: "n \<le> m \<Longrightarrow> cut m (cut n s) = cut n s"
  using unchanged fits le_trans by blast

lemma cut_changes: "cut n s \<noteq> s \<longleftrightarrow> n < length s"
  using unchanged fits by (metis not_le)

end

text \<open>The plain cut at the last character boundary within the bound.\<close>

definition cut_at_boundary :: "nat \<Rightarrow> string \<Rightarrow> string" where
  "cut_at_boundary n s = (if length s \<le> n then s else take (floor_boundary s n) s)"

interpretation plain_cut: bounded_text cut_at_boundary
proof
  fix n s
  have "floor_boundary s n \<le> n" by simp
  then show "length (cut_at_boundary n s) \<le> n"
    by (auto simp: cut_at_boundary_def min_def simp del: floor_boundary_le)
  show "utf8_valid s \<Longrightarrow> utf8_valid (cut_at_boundary n s)"
    by (simp add: cut_at_boundary_def utf8_valid_take floor_boundary_boundary)
  show "length s \<le> n \<Longrightarrow> cut_at_boundary n s = s" by (simp add: cut_at_boundary_def)
qed

section \<open>Decimal numbers\<close>

text \<open>\<open>format!("{n}")\<close> of an unsigned integer, and \<open>str::parse::<u64>\<close>.\<close>

definition digit :: "nat \<Rightarrow> char" where
  "digit d = char_of (48 + d)"

fun show_nat :: "nat \<Rightarrow> string" where
  "show_nat n = (if n < 10 then [digit n] else show_nat (n div 10) @ [digit (n mod 10)])"

declare show_nat.simps [simp del]

definition is_digit :: "char \<Rightarrow> bool" where
  "is_digit c \<longleftrightarrow> 48 \<le> byte c \<and> byte c \<le> 57"

definition read_digits :: "string \<Rightarrow> nat" where
  "read_digits s = foldl (\<lambda>acc c. 10 * acc + (byte c - 48)) 0 s"

definition parse_u64 :: "string \<Rightarrow> nat option" where
  "parse_u64 s =
     (let ds = (case s of c # cs \<Rightarrow> if c = CHR ''+'' then cs else s | [] \<Rightarrow> s)
      in if ds \<noteq> [] \<and> list_all is_digit ds \<and> read_digits ds \<le> u64_max
         then Some (read_digits ds) else None)"

lemma byte_digit [simp]: "d < 10 \<Longrightarrow> byte (digit d) = 48 + d"
  by (simp add: digit_def)

lemma is_digit_digit [simp]: "d < 10 \<Longrightarrow> is_digit (digit d)"
  by (simp add: is_digit_def)

lemma show_nat_digits: "list_all is_digit (show_nat n) \<and> show_nat n \<noteq> []"
proof (induction n rule: show_nat.induct)
  case (1 n)
  then show ?case by (subst (1 2) show_nat.simps) auto
qed

lemma read_digits_show_nat [simp]: "read_digits (show_nat n) = n"
proof (induction n rule: show_nat.induct)
  case (1 n)
  then show ?case by (subst show_nat.simps) (auto simp: read_digits_def)
qed

lemma show_nat_inj: "show_nat m = show_nat n \<Longrightarrow> m = n"
  by (metis read_digits_show_nat)

lemma show_nat_no_plus: "\<exists>c cs. show_nat n = c # cs \<and> c \<noteq> CHR ''+''"
proof -
  obtain c cs where "show_nat n = c # cs" using show_nat_digits [of n] by (cases "show_nat n") auto
  then show ?thesis using show_nat_digits [of n] by (auto simp: is_digit_def)
qed

lemma parse_u64_show_nat: "n \<le> u64_max \<Longrightarrow> parse_u64 (show_nat n) = Some n"
proof -
  assume "n \<le> u64_max"
  moreover obtain c cs where "show_nat n = c # cs" "c \<noteq> CHR ''+''"
    using show_nat_no_plus by blast
  moreover have "read_digits (c # cs) = n" "list_all is_digit (c # cs)"
    using read_digits_show_nat [of n] show_nat_digits [of n] calculation(2) by auto
  ultimately show ?thesis by (simp add: parse_u64_def)
qed

section \<open>Lossy decoding\<close>

text \<open>
  \<open>String::from_utf8_lossy\<close>: each maximal prefix of an ill-formed sequence becomes one
  replacement character, U+FFFD, encoded in three bytes.
\<close>

definition replacement :: string where
  "replacement = [CHR 0xEF, CHR 0xBF, CHR 0xBD]"

definition second_ok :: "char \<Rightarrow> char \<Rightarrow> bool" where
  "second_ok a b \<longleftrightarrow> is_cont b \<and> (byte a = 224 \<longrightarrow> 160 \<le> byte b) \<and> (byte a = 237 \<longrightarrow> byte b < 160)
     \<and> (byte a = 240 \<longrightarrow> 144 \<le> byte b) \<and> (byte a = 244 \<longrightarrow> byte b < 144)"

definition lossy_step :: "string \<Rightarrow> string \<times> string" where
  "lossy_step s = (case s of
     [] \<Rightarrow> ([], [])
   | a # r1 \<Rightarrow>
       if byte a < 128 then ([a], r1)
       else if \<not> byte_in 194 244 a then (replacement, r1)
       else (case r1 of
          [] \<Rightarrow> (replacement, [])
        | b # r2 \<Rightarrow>
            if \<not> second_ok a b then (replacement, r1)
            else if byte_in 194 223 a then ([a, b], r2)
            else (case r2 of
               [] \<Rightarrow> (replacement, [])
             | c # r3 \<Rightarrow>
                 if \<not> is_cont c then (replacement, r2)
                 else if byte_in 224 239 a then ([a, b, c], r3)
                 else (case r3 of
                    [] \<Rightarrow> (replacement, [])
                  | d # r4 \<Rightarrow> if is_cont d then ([a, b, c, d], r4) else (replacement, r3)))))"

lemma lossy_step_shorter: "s \<noteq> [] \<Longrightarrow> length (snd (lossy_step s)) < length s"
  by (auto simp: lossy_step_def split: list.splits)

function from_utf8_lossy :: "string \<Rightarrow> string" where
  "from_utf8_lossy s =
     (if s = [] then [] else fst (lossy_step s) @ from_utf8_lossy (snd (lossy_step s)))"
  by pat_completeness auto
termination
  by (relation "measure length") (simp_all add: lossy_step_shorter)

declare from_utf8_lossy.simps [simp del]

lemma lossy_step_valid:
  assumes "utf8_valid s" "s \<noteq> []"
  shows "fst (lossy_step s) @ snd (lossy_step s) = s \<and> utf8_valid (snd (lossy_step s))"
proof -
  obtain a cs where s: "s = a # cs" using assms(2) by (cases s) auto
  from assms(1) [unfolded s] show ?thesis
    by (cases rule: utf8_valid_Cons_cases)
      (simp_all add: s lossy_step_def byte_in_def second_ok_def)
qed

text \<open>A valid string is left as it is.\<close>

lemma from_utf8_lossy_valid: "utf8_valid s \<Longrightarrow> from_utf8_lossy s = s"
proof (induction s rule: from_utf8_lossy.induct)
  case (1 s)
  then show ?case
    using lossy_step_valid [of s] by (subst from_utf8_lossy.simps) auto
qed

end
