(* ===== verification/Paths.thy ===== *)
theory Paths
  imports Prelude
begin

text \<open>
  Rust's \<open>std::path\<close> on Unix, as far as the sources use it: the parsing of a path string
  into components, absolute paths, component-wise prefixes and the joining of names with
  slashes. The variant \<open>Component::Prefix\<close> occurs on Windows only and is left out. A
  canonical path (an absolute path without dots and symbolic links) is the list of its
  names below the root directory.
\<close>

section \<open>Components\<close>

datatype component = RootDir | CurDir | ParentDir | Normal string

type_synonym spath = "string list"

abbreviation slash :: char where
  "slash \<equiv> CHR ''/''"

fun split_slash :: "string \<Rightarrow> string list" where
  "split_slash [] = [[]]"
| "split_slash (c # cs) =
     (if c = slash then [] # split_slash cs
      else (case split_slash cs of s # ss \<Rightarrow> (c # s) # ss | [] \<Rightarrow> [[c]]))"

definition is_absolute :: "string \<Rightarrow> bool" where
  "is_absolute s = (case s of c # _ \<Rightarrow> c = slash | [] \<Rightarrow> False)"

definition segment_components :: "string \<Rightarrow> component list" where
  "segment_components seg =
     (if seg = '''' \<or> seg = ''.'' then [] else if seg = ''..'' then [ParentDir] else [Normal seg])"

text \<open>\<open>Path::components\<close>: a leading dot of a relative path is kept, other dots are dropped.\<close>

definition path_components :: "string \<Rightarrow> component list" where
  "path_components s =
     (if is_absolute s then [RootDir] else if hd (split_slash s) = ''.'' then [CurDir] else [])
     @ concat (map segment_components (split_slash s))"

text \<open>
  What the kernel walks when it resolves a path string: an empty or a dot segment stays in
  the directory reached so far, which has to be one.
\<close>

definition kernel_components :: "string \<Rightarrow> component list" where
  "kernel_components s =
     (if is_absolute s then [RootDir] else [])
     @ map (\<lambda>seg. if seg = '''' \<or> seg = ''.'' then CurDir
                  else if seg = ''..'' then ParentDir else Normal seg) (split_slash s)"

definition path_starts_with :: "string \<Rightarrow> string \<Rightarrow> bool" where
  "path_starts_with p base = prefix (path_components base) (path_components p)"

fun join_slash :: "string list \<Rightarrow> string" where
  "join_slash [] = ''''"
| "join_slash [n] = n"
| "join_slash (n # ns) = n @ ''/'' @ join_slash ns"

text \<open>A name that one directory entry can have.\<close>

definition valid_name :: "string \<Rightarrow> bool" where
  "valid_name n \<longleftrightarrow> n \<noteq> '''' \<and> n \<noteq> ''.'' \<and> n \<noteq> ''..'' \<and> slash \<notin> set n"

section \<open>Lemmas\<close>

lemma split_slash_nonempty [simp]: "split_slash s \<noteq> []"
  by (induction s) (auto split: list.splits)

lemma split_slash_no_slash: "seg \<in> set (split_slash s) \<Longrightarrow> slash \<notin> set seg"
  by (induction s arbitrary: seg) (fastforce split: list.splits if_splits)+

lemma split_slash_single: "slash \<notin> set s \<Longrightarrow> split_slash s = [s]"
  by (induction s) auto

lemma split_slash_append: "slash \<notin> set n \<Longrightarrow> split_slash (n @ slash # s) = n # split_slash s"
  by (induction n) auto

lemma Normal_segment_valid:
  "Normal n \<in> set (segment_components seg) \<Longrightarrow> slash \<notin> set seg \<Longrightarrow> valid_name n"
  by (auto simp: segment_components_def valid_name_def split: if_splits)

lemma Normal_component_valid: "Normal n \<in> set (path_components s) \<Longrightarrow> valid_name n"
  unfolding path_components_def
  by (auto dest: Normal_segment_valid split_slash_no_slash split: if_splits)

lemma segment_components_valid [simp]: "valid_name n \<Longrightarrow> segment_components n = [Normal n]"
  by (simp add: segment_components_def valid_name_def)

lemma split_join_slash:
  "\<forall>n \<in> set ns. valid_name n \<Longrightarrow> ns \<noteq> [] \<Longrightarrow> split_slash (join_slash ns) = ns"
proof (induction ns rule: join_slash.induct)
  case (3 n v va)
  then show ?case by (auto simp: split_slash_append valid_name_def)
qed (auto simp: split_slash_single valid_name_def)

lemma is_absolute_split: "is_absolute s \<longleftrightarrow> s \<noteq> [] \<and> hd (split_slash s) = ''''"
  by (cases s) (auto simp: is_absolute_def split: list.splits)

lemma not_absolute_join_slash:
  "\<forall>n \<in> set ns. valid_name n \<Longrightarrow> ns \<noteq> [] \<Longrightarrow> \<not> is_absolute (join_slash ns)"
  by (auto simp: is_absolute_split split_join_slash valid_name_def)

lemma concat_map_segment_components:
  "\<forall>n \<in> set ns. valid_name n \<Longrightarrow> concat (map segment_components ns) = map Normal ns"
  by (induction ns) auto

text \<open>Printing and parsing a relative path of valid names gives the names back.\<close>

lemma path_components_join_slash:
  assumes "\<forall>n \<in> set ns. valid_name n" "ns \<noteq> []"
  shows "path_components (join_slash ns) = map Normal ns"
  using assms
  by (auto simp: path_components_def split_join_slash not_absolute_join_slash
      concat_map_segment_components) (simp add: valid_name_def)

lemma join_slash_inj:
  assumes "\<forall>n \<in> set ns. valid_name n" "\<forall>m \<in> set ms. valid_name m" "ns \<noteq> []" "ms \<noteq> []"
    "join_slash ns = join_slash ms"
  shows "ns = ms"
  using split_join_slash assms by metis

lemma RootDir_iff_absolute: "RootDir \<in> set (path_components s) \<longleftrightarrow> is_absolute s"
  by (auto simp: path_components_def segment_components_def split: if_splits)

end
