(* ===== verification/Sensitive_Paths.thy ===== *)
theory Sensitive_Paths
  imports Paths
begin

text \<open>
  The sensitive-file policy of \<^verbatim>\<open>yach-backend/src/sensitive_paths.rs\<close>: the built-in
  deny and allow patterns, the resolution of user and project configuration into one
  policy, and the decision \<open>denies\<close> that every provider-visible file tool asks for. Glob
  compilation and matching belong to the \<open>globset\<close> package and are parameters; a compiled
  glob set is represented by its \<open>is_match\<close>.
\<close>

section \<open>Data\<close>

definition DEFAULT_SENSITIVE_DENY_PATTERNS :: "string list" where
  "DEFAULT_SENSITIVE_DENY_PATTERNS =
     [''.env'', ''.env.*'', ''*.env'', ''*.pem'', ''*.key'', ''*.p12'', ''*.pfx'', ''id_rsa*'',
      ''id_ecdsa*'', ''id_ed25519*'', ''*.keystore'', ''.netrc'', ''.npmrc'', ''.pypirc'',
      ''**/.aws/credentials'', ''**/.ssh/**'', ''**/.config/gcloud/**'', ''**/.azure/**'',
      ''secrets/**'', ''credentials.json'']"

definition DEFAULT_SENSITIVE_ALLOW_PATTERNS :: "string list" where
  "DEFAULT_SENSITIVE_ALLOW_PATTERNS =
     [''.env.example'', ''.env.sample'', ''.env.template'', ''*.env.example'']"

record files_config =
  fc_deny :: "string list"
  fc_allow :: "string list"
  fc_use_default_deny :: "bool option"

datatype sensitive_path_warning =
    InvalidConfig (warning_path: string) (warning_reason: string)
  | InvalidPattern (warning_pattern: string)

record sensitive_policy =
  deny_patterns :: "string list"
  allow_patterns :: "string list"
  deny_set :: "string \<Rightarrow> bool"
  allow_set :: "string \<Rightarrow> bool"

text \<open>The \<open>globset\<close> package: \<open>Glob::new\<close> and \<open>GlobSetBuilder::build\<close>.\<close>

record 'g glob_lib =
  glob_new :: "string \<Rightarrow> 'g option"
  globset_build :: "'g list \<Rightarrow> (string \<Rightarrow> bool) option"

section \<open>Compilation\<close>

definition expand_pattern :: "string \<Rightarrow> string" where
  "expand_pattern pattern =
     (if slash \<in> set pattern then pattern
      else ''{'' @ pattern @ '',**/'' @ pattern @ ''}'')"

fun compile_globs ::
  "('g, 'z) glob_lib_scheme \<Rightarrow> string list \<Rightarrow> (sensitive_path_warning, 'g list) result" where
  "compile_globs lib [] = Inr []"
| "compile_globs lib (p # ps) =
     (case glob_new lib (expand_pattern p) of
        None \<Rightarrow> Inl (InvalidPattern p)
      | Some g \<Rightarrow> res_bind (compile_globs lib ps) (\<lambda>gs. Inr (g # gs)))"

definition compile_patterns ::
  "('g, 'z) glob_lib_scheme \<Rightarrow> string list \<Rightarrow> (sensitive_path_warning, string \<Rightarrow> bool) result" where
  "compile_patterns lib ps =
     res_bind (compile_globs lib ps)
       (\<lambda>gs. ok_or (globset_build lib gs) (InvalidPattern ''<pattern set>''))"

definition from_patterns ::
  "('g, 'z) glob_lib_scheme \<Rightarrow> string list \<Rightarrow> string list
   \<Rightarrow> (sensitive_path_warning, sensitive_policy) result" where
  "from_patterns lib deny allow =
     res_bind (compile_patterns lib deny) (\<lambda>ds.
     res_bind (compile_patterns lib allow) (\<lambda>as.
       Inr \<lparr>deny_patterns = deny, allow_patterns = allow, deny_set = ds, allow_set = as\<rparr>))"

definition deny_nothing :: sensitive_policy where
  "deny_nothing =
     \<lparr>deny_patterns = [], allow_patterns = [], deny_set = (\<lambda>_. False), allow_set = (\<lambda>_. False)\<rparr>"

definition default_policy :: "('g, 'z) glob_lib_scheme \<Rightarrow> sensitive_policy" where
  "default_policy lib =
     (case from_patterns lib DEFAULT_SENSITIVE_DENY_PATTERNS DEFAULT_SENSITIVE_ALLOW_PATTERNS of
        Inr policy \<Rightarrow> policy
      | Inl _ \<Rightarrow> deny_nothing)"

section \<open>Resolution of the configuration\<close>

definition use_defaults :: "files_config option \<Rightarrow> files_config option \<Rightarrow> bool" where
  "use_defaults user project =
     (case Option.bind project fc_use_default_deny of
        Some b \<Rightarrow> b
      | None \<Rightarrow> (case Option.bind user fc_use_default_deny of Some b \<Rightarrow> b | None \<Rightarrow> True))"

definition effective_patterns ::
  "(files_config \<Rightarrow> string list) \<Rightarrow> string list \<Rightarrow> files_config option \<Rightarrow> files_config option
   \<Rightarrow> string list" where
  "effective_patterns sel defaults user project =
     (if use_defaults user project then defaults else [])
     @ (case user of Some c \<Rightarrow> sel c | None \<Rightarrow> [])
     @ (case project of Some c \<Rightarrow> sel c | None \<Rightarrow> [])"

definition resolve_policy ::
  "('g, 'z) glob_lib_scheme \<Rightarrow> files_config option \<Rightarrow> files_config option
   \<Rightarrow> sensitive_policy \<times> sensitive_path_warning list" where
  "resolve_policy lib user project =
     (case from_patterns lib
        (effective_patterns fc_deny DEFAULT_SENSITIVE_DENY_PATTERNS user project)
        (effective_patterns fc_allow DEFAULT_SENSITIVE_ALLOW_PATTERNS user project) of
        Inr policy \<Rightarrow> (policy, [])
      | Inl warning \<Rightarrow> (default_policy lib, [warning]))"

text \<open>
  One configuration file: its path, its content when it can be read, and the JSON decoder
  of the \<open>files\<close> section, which gives the error text of a document it rejects.
\<close>

definition load_files_config ::
  "(string \<Rightarrow> (string, files_config) result) \<Rightarrow> string \<Rightarrow> string option
   \<Rightarrow> sensitive_path_warning list \<Rightarrow> files_config option \<times> sensitive_path_warning list" where
  "load_files_config from_str path raw warnings =
     (case raw of
        None \<Rightarrow> (None, warnings)
      | Some doc \<Rightarrow>
          (case from_str doc of
             Inr config \<Rightarrow> (Some config, warnings)
           | Inl err \<Rightarrow> (None, warnings @ [InvalidConfig path err])))"

definition load_for_project ::
  "('g, 'z) glob_lib_scheme \<Rightarrow> (string \<Rightarrow> (string, files_config) result)
   \<Rightarrow> (string \<times> string option) option \<Rightarrow> (string \<times> string option) option
   \<Rightarrow> sensitive_policy \<times> sensitive_path_warning list" where
  "load_for_project lib from_str user_file project_file =
     (let (user, w1) = (case user_file of
            None \<Rightarrow> (None, []) | Some (p, raw) \<Rightarrow> load_files_config from_str p raw []);
          (project, w2) = (case project_file of
            None \<Rightarrow> (None, w1) | Some (p, raw) \<Rightarrow> load_files_config from_str p raw w1);
          (policy, w3) = resolve_policy lib user project
      in (policy, w2 @ w3))"

definition denies :: "sensitive_policy \<Rightarrow> string \<Rightarrow> bool" where
  "denies policy path \<longleftrightarrow> deny_set policy path \<and> \<not> allow_set policy path"

section \<open>What a policy refuses\<close>

text \<open>The globs of a list of patterns, when all of them compile.\<close>

lemma compile_globs_Inr:
  "compile_globs lib ps = Inr gs \<Longrightarrow> map (\<lambda>p. glob_new lib (expand_pattern p)) ps = map Some gs"
  by (induction ps arbitrary: gs) (auto simp: result_simps split: option.splits)

lemma compile_globs_valid:
  assumes "\<forall>p \<in> set ps. glob_new lib (expand_pattern p) \<noteq> None"
  shows "\<exists>gs. compile_globs lib ps = Inr gs"
  using assms by (induction ps) auto

lemma compile_globs_invalid:
  assumes "\<exists>p \<in> set ps. glob_new lib (expand_pattern p) = None"
  shows "\<exists>w. compile_globs lib ps = Inl w"
  using assms by (induction ps) (force split: option.splits)+

text \<open>The documented behaviour of a glob set: it matches when one of its globs does.\<close>

definition globset_law :: "('g, 'z) glob_lib_scheme \<Rightarrow> ('g \<Rightarrow> string \<Rightarrow> bool) \<Rightarrow> bool" where
  "globset_law lib glob_matches \<longleftrightarrow>
     (\<forall>gs f p. globset_build lib gs = Some f \<longrightarrow> f p = list_ex (\<lambda>g. glob_matches g p) gs)"

definition pattern_matches ::
  "('g, 'z) glob_lib_scheme \<Rightarrow> ('g \<Rightarrow> string \<Rightarrow> bool) \<Rightarrow> string \<Rightarrow> string \<Rightarrow> bool" where
  "pattern_matches lib glob_matches pattern path =
     (case glob_new lib (expand_pattern pattern) of
        Some g \<Rightarrow> glob_matches g path | None \<Rightarrow> False)"

lemma compile_patterns_matches:
  assumes "globset_law lib gm" "compile_patterns lib ps = Inr f"
  shows "f path \<longleftrightarrow> list_ex (\<lambda>p. pattern_matches lib gm p path) ps"
proof -
  obtain gs where gs: "compile_globs lib ps = Inr gs" and b: "globset_build lib gs = Some f"
    using assms(2) by (auto simp: compile_patterns_def result_simps)
  have "list_ex (\<lambda>g. gm g path) gs \<longleftrightarrow> list_ex (\<lambda>p. pattern_matches lib gm p path) ps"
    using compile_globs_Inr [OF gs]
    by (induction ps arbitrary: gs) (auto simp: pattern_matches_def split: option.splits)
  then show ?thesis using assms(1) b by (simp add: globset_law_def)
qed

lemma from_patterns_denies:
  assumes "globset_law lib gm" "from_patterns lib deny allow = Inr policy"
  shows "denies policy path \<longleftrightarrow>
    list_ex (\<lambda>p. pattern_matches lib gm p path) deny
    \<and> \<not> list_ex (\<lambda>p. pattern_matches lib gm p path) allow"
  using assms compile_patterns_matches [OF assms(1)]
  by (auto simp: from_patterns_def result_simps denies_def)

end
