(* ===== verification/Filesystem.thy ===== *)
theory Filesystem
  imports Paths
begin

text \<open>
  The parts of \<open>std::fs\<close> the sources call, over an explicit file-system state. A state maps
  canonical paths to nodes; symbolic links are nodes whose target is followed by a bounded
  walk (Linux follows at most 40). The writing calls can fail at any call: the state holds
  a clock that counts them and an oracle \<open>fault\<close> that decides which of them fail, and a
  failed write leaves a prefix of its data whose length the oracle \<open>short_write\<close> gives.
  Nobody else writes to the tree while one call of the modelled code runs; states before
  different calls are unrelated.
\<close>

section \<open>State\<close>

datatype node =
    File (file_content: string) (file_mode: nat)
  | Directory
  | Symlink string
  | Other

type_synonym tree = "spath \<Rightarrow> node option"

record fs =
  nodes :: tree
  deny_read :: "spath \<Rightarrow> bool"
  new_mode :: nat
  tick :: nat
  fault :: "nat \<Rightarrow> bool"
  short_write :: "nat \<Rightarrow> nat"

definition max_symlinks :: nat where
  "max_symlinks = 40"

section \<open>Resolution\<close>

function walk :: "nat \<Rightarrow> tree \<Rightarrow> spath \<Rightarrow> component list \<Rightarrow> spath option" where
  "walk k N cur [] = (if N cur = None then None else Some cur)"
| "walk k N cur (c # cs) =
     (if N cur \<noteq> Some Directory then None
      else (case c of
        RootDir \<Rightarrow> walk k N [] cs
      | CurDir \<Rightarrow> walk k N cur cs
      | ParentDir \<Rightarrow> walk k N (butlast cur) cs
      | Normal n \<Rightarrow>
          (case N (cur @ [n]) of
             None \<Rightarrow> None
           | Some (Symlink target) \<Rightarrow>
               (if k = 0 \<or> target = '''' then None
                else walk (k - 1) N cur (kernel_components target @ cs))
           | Some _ \<Rightarrow> walk k N (cur @ [n]) cs)))"
  by pat_completeness auto
termination
  by (relation "measures [\<lambda>(k, N, cur, cs). k, \<lambda>(k, N, cur, cs). length cs]") auto

text \<open>\<open>canonicalize\<close> of an absolute path given by its components.\<close>

definition canonicalize :: "tree \<Rightarrow> component list \<Rightarrow> spath option" where
  "canonicalize N cs = walk max_symlinks N [] cs"

text \<open>\<open>metadata\<close> follows symbolic links, \<open>symlink_metadata\<close> does not follow the last one.\<close>

definition fs_metadata :: "tree \<Rightarrow> spath \<Rightarrow> node option" where
  "fs_metadata N p = (case canonicalize N (map Normal p) of None \<Rightarrow> None | Some q \<Rightarrow> N q)"

definition symlink_metadata :: "tree \<Rightarrow> spath \<Rightarrow> node option" where
  "symlink_metadata N p =
     (if p = [] then N []
      else (case canonicalize N (map Normal (butlast p)) of
              None \<Rightarrow> None
            | Some d \<Rightarrow> if N d = Some Directory then N (d @ [last p]) else None))"

definition is_dir :: "tree \<Rightarrow> spath \<Rightarrow> bool" where
  "is_dir N p \<longleftrightarrow> fs_metadata N p = Some Directory"

definition is_file :: "tree \<Rightarrow> spath \<Rightarrow> bool" where
  "is_file N p = (case fs_metadata N p of Some (File _ _) \<Rightarrow> True | _ \<Rightarrow> False)"

definition fs_len :: "node \<Rightarrow> nat" where
  "fs_len nd = (case nd of File c _ \<Rightarrow> length c | _ \<Rightarrow> 0)"

definition fs_read :: "fs \<Rightarrow> spath \<Rightarrow> string option" where
  "fs_read s p = (case fs_metadata (nodes s) p of
     Some (File c _) \<Rightarrow> if deny_read s p then None else Some c
   | _ \<Rightarrow> None)"

section \<open>Writing calls\<close>

text \<open>
  The writing calls take canonical paths, the only ones the modelled code passes to them,
  and return whether they succeeded with the next state.
\<close>

definition entry_name :: "string \<Rightarrow> bool" where
  "entry_name n \<longleftrightarrow> valid_name n \<and> CHR 0x00 \<notin> set n \<and> length n \<le> 255"

definition can_hold :: "tree \<Rightarrow> spath \<Rightarrow> bool" where
  "can_hold N p \<longleftrightarrow> p \<noteq> [] \<and> N (butlast p) = Some Directory \<and> entry_name (last p)"

abbreviation ticked :: "fs \<Rightarrow> fs" where
  "ticked s \<equiv> s\<lparr>tick := Suc (tick s)\<rparr>"

abbreviation put :: "spath \<Rightarrow> node option \<Rightarrow> fs \<Rightarrow> fs" where
  "put p nd s \<equiv> s\<lparr>nodes := (nodes s)(p := nd)\<rparr>"

definition fs_create_new :: "spath \<Rightarrow> fs \<Rightarrow> bool \<times> fs" where
  "fs_create_new p s =
     (if fault s (tick s) \<or> nodes s p \<noteq> None \<or> \<not> can_hold (nodes s) p then (False, ticked s)
      else (True, put p (Some (File '''' (new_mode s))) (ticked s)))"

definition fs_set_permissions :: "spath \<Rightarrow> nat \<Rightarrow> fs \<Rightarrow> bool \<times> fs" where
  "fs_set_permissions p m s =
     (case nodes s p of
        Some (File c _) \<Rightarrow>
          if fault s (tick s) then (False, ticked s)
          else (True, put p (Some (File c m)) (ticked s))
      | _ \<Rightarrow> (False, ticked s))"

definition fs_write_all :: "spath \<Rightarrow> string \<Rightarrow> fs \<Rightarrow> bool \<times> fs" where
  "fs_write_all p bytes s =
     (case nodes s p of
        Some (File c m) \<Rightarrow>
          if fault s (tick s)
          then (False, put p (Some (File (c @ take (short_write s (tick s)) bytes) m)) (ticked s))
          else (True, put p (Some (File (c @ bytes) m)) (ticked s))
      | _ \<Rightarrow> (False, ticked s))"

definition fs_sync_all :: "fs \<Rightarrow> bool \<times> fs" where
  "fs_sync_all s = (\<not> fault s (tick s), ticked s)"

definition fs_hard_link :: "spath \<Rightarrow> spath \<Rightarrow> fs \<Rightarrow> bool \<times> fs" where
  "fs_hard_link src dst s =
     (if fault s (tick s) \<or> nodes s src = None \<or> nodes s src = Some Directory
         \<or> nodes s dst \<noteq> None \<or> \<not> can_hold (nodes s) dst
      then (False, ticked s)
      else (True, put dst (nodes s src) (ticked s)))"

text \<open>The code renames regular files only; renaming a directory is not modelled and fails.\<close>

definition fs_rename :: "spath \<Rightarrow> spath \<Rightarrow> fs \<Rightarrow> bool \<times> fs" where
  "fs_rename src dst s =
     (if fault s (tick s) \<or> nodes s src = None \<or> nodes s src = Some Directory
         \<or> nodes s dst = Some Directory \<or> \<not> can_hold (nodes s) dst
      then (False, ticked s)
      else (True, put dst (nodes s src) (put src None (ticked s))))"

definition fs_remove_file :: "spath \<Rightarrow> fs \<Rightarrow> bool \<times> fs" where
  "fs_remove_file p s =
     (if fault s (tick s) \<or> nodes s p = None \<or> nodes s p = Some Directory
      then (False, ticked s)
      else (True, put p None (ticked s)))"

text \<open>\<open>OpenOptions::create(true).truncate(true).write(true).mode(m)\<close>\<close>

definition fs_open_truncate :: "spath \<Rightarrow> nat \<Rightarrow> fs \<Rightarrow> bool \<times> fs" where
  "fs_open_truncate p m s =
     (if fault s (tick s) then (False, ticked s)
      else (case nodes s p of
          Some (File _ old) \<Rightarrow> (True, put p (Some (File '''' old)) (ticked s))
        | Some _ \<Rightarrow> (False, ticked s)
        | None \<Rightarrow> if can_hold (nodes s) p then (True, put p (Some (File '''' m)) (ticked s))
            else (False, ticked s)))"

text \<open>\<open>DirBuilder::recursive(true).create\<close>: the missing directories from the outermost on.\<close>

definition fs_mkdir :: "spath \<Rightarrow> fs \<Rightarrow> bool \<times> fs" where
  "fs_mkdir p s =
     (if fault s (tick s) \<or> nodes s p \<noteq> None \<or> \<not> can_hold (nodes s) p then (False, ticked s)
      else (True, put p (Some Directory) (ticked s)))"

fun fs_create_dirs :: "spath list \<Rightarrow> fs \<Rightarrow> bool \<times> fs" where
  "fs_create_dirs [] s = (True, s)"
| "fs_create_dirs (p # ps) s =
     (if nodes s p = Some Directory then fs_create_dirs ps s
      else (case fs_mkdir p s of (True, t) \<Rightarrow> fs_create_dirs ps t | (False, t) \<Rightarrow> (False, t)))"

text \<open>
  \<open>read_to_string\<close> of a path without symbolic links: it tells a missing file from one that
  cannot be read or is not UTF-8.
\<close>

datatype read_outcome = ReadOk string | ReadNotFound | ReadFailed

definition fs_read_to_string :: "fs \<Rightarrow> spath \<Rightarrow> read_outcome" where
  "fs_read_to_string s p =
     (case nodes s p of
        Some (File c _) \<Rightarrow> if deny_read s p \<or> \<not> utf8_valid c then ReadFailed else ReadOk c
      | Some _ \<Rightarrow> ReadFailed
      | None \<Rightarrow> if list_ex (\<lambda>q. nodes s q \<noteq> None \<and> nodes s q \<noteq> Some Directory) (prefixes (butlast p))
          then ReadFailed else ReadNotFound)"

lemmas fs_calls = fs_open_truncate_def fs_create_new_def fs_set_permissions_def fs_write_all_def fs_sync_all_def
  fs_hard_link_def fs_rename_def fs_remove_file_def

text \<open>Calls in sequence, the next one only after a success.\<close>

definition and_then :: "(fs \<Rightarrow> bool \<times> fs) \<Rightarrow> (fs \<Rightarrow> bool \<times> fs) \<Rightarrow> fs \<Rightarrow> bool \<times> fs" where
  "and_then f g s = (case f s of (True, t) \<Rightarrow> g t | (False, t) \<Rightarrow> (False, t))"

lemma and_then_True: "and_then f g s = (True, u) \<longleftrightarrow> (\<exists>t. f s = (True, t) \<and> g t = (True, u))"
  by (auto simp: and_then_def split: prod.splits bool.splits)

lemma and_then_False:
  "and_then f g s = (False, u) \<longleftrightarrow> f s = (False, u) \<or> (\<exists>t. f s = (True, t) \<and> g t = (False, u))"
  by (auto simp: and_then_def split: prod.splits bool.splits)

section \<open>Well-formed trees\<close>

definition wf_tree :: "tree \<Rightarrow> bool" where
  "wf_tree N \<longleftrightarrow> N [] = Some Directory
     \<and> (\<forall>p n. N (p @ [n]) \<noteq> None \<longrightarrow> N p = Some Directory \<and> entry_name n)"

lemma wf_tree_parent: "wf_tree N \<Longrightarrow> N p \<noteq> None \<Longrightarrow> p \<noteq> [] \<Longrightarrow> N (butlast p) = Some Directory"
  by (metis append_butlast_last_id wf_tree_def)

lemma wf_tree_prefix:
  assumes "wf_tree N" "N (p @ q) \<noteq> None" "q \<noteq> []"
  shows "N p = Some Directory"
  using assms(2,3)
proof (induction q rule: rev_induct)
  case (snoc x q)
  have "N (p @ q) = Some Directory"
    using assms(1) snoc.prems(1) wf_tree_def by (metis append_assoc)
  then show ?case using snoc.IH by (cases "q = []") auto
qed simp

definition real_path :: "tree \<Rightarrow> spath \<Rightarrow> bool" where
  "real_path N p \<longleftrightarrow> N p \<noteq> None \<and> (\<forall>t. N p \<noteq> Some (Symlink t))"

lemma real_path_Directory [simp]: "N p = Some Directory \<Longrightarrow> real_path N p"
  by (simp add: real_path_def)

lemma real_path_prefix:
  assumes "wf_tree N" "real_path N c" "prefix p c"
  shows "real_path N p"
proof -
  obtain q where c: "c = p @ q" using assms(3) by (auto elim: prefixE)
  show ?thesis
  proof (cases "q = []")
    case False
    then have "N p = Some Directory"
      using wf_tree_prefix [OF assms(1), of p q] assms(2) c by (simp add: real_path_def)
    then show ?thesis by simp
  qed (use assms(2) c in simp)
qed

text \<open>A path that is neither missing nor a symbolic link is walked as it is written.\<close>

lemma walk_real_append:
  assumes "wf_tree N" "real_path N (cur @ ns)"
  shows "walk k N cur (map Normal ns @ cs) = walk k N (cur @ ns) cs"
  using assms(2)
proof (induction ns arbitrary: cur)
  case (Cons n ns)
  have "N cur = Some Directory"
    using wf_tree_prefix [OF assms(1), of cur "n # ns"] Cons.prems by (simp add: real_path_def)
  moreover have "real_path N (cur @ [n])"
    using real_path_prefix [OF assms(1) Cons.prems, of "cur @ [n]"] by simp
  moreover have "walk k N (cur @ [n]) (map Normal ns @ cs) = walk k N (cur @ n # ns) cs"
    using Cons.IH [of "cur @ [n]"] Cons.prems by simp
  ultimately show ?case by (auto simp: real_path_def split: option.splits node.splits)
qed simp

lemma canonicalize_real_append:
  assumes "wf_tree N" "real_path N p"
  shows "canonicalize N (map Normal p @ cs) = walk max_symlinks N p cs"
  using walk_real_append [OF assms(1), of "[]" p] assms(2) by (simp add: canonicalize_def)

lemma canonicalize_real:
  assumes "wf_tree N" "real_path N p"
  shows "canonicalize N (map Normal p) = Some p"
  using canonicalize_real_append [OF assms, of "[]"] assms(2) by (auto simp: real_path_def)

text \<open>Whatever a walk returns exists and is no symbolic link.\<close>

lemma walk_result:
  assumes "walk k N cur cs = Some p" "wf_tree N" "\<forall>t. N cur \<noteq> Some (Symlink t)"
  shows "real_path N p"
  using assms unfolding real_path_def
proof (induction k N cur cs rule: walk.induct)
  case (1 k N cur)
  then show ?case by (auto split: if_splits)
next
  case (2 k N cur c cs)
  have cur: "N cur = Some Directory" using "2.prems"(1) by (auto split: if_splits)
  have bl: "N (butlast cur) = Some Directory"
    using wf_tree_parent [OF "2.prems"(2), of cur] cur by (cases "cur = []") auto
  have root: "N [] = Some Directory" using "2.prems"(2) by (simp add: wf_tree_def)
  show ?case
  proof (cases c)
    case (Normal n)
    then show ?thesis
      using "2.prems" "2.IH"(4,5,6,7) cur by (auto split: option.splits node.splits if_splits)
  next
    case RootDir
    then show ?thesis using "2.prems" "2.IH"(1) cur root by simp
  next
    case CurDir
    then show ?thesis using "2.prems" "2.IH"(2) cur by simp
  next
    case ParentDir
    then show ?thesis using "2.prems" "2.IH"(3) cur bl by simp
  qed
qed

lemma canonicalize_result:
  assumes "wf_tree N" "canonicalize N cs = Some p"
  shows "real_path N p"
  using walk_result [OF assms(2) [unfolded canonicalize_def] assms(1)] assms(1)
  by (simp add: wf_tree_def)

lemma canonicalize_idem:
  assumes "wf_tree N" "canonicalize N cs = Some p"
  shows "canonicalize N (map Normal p) = Some p"
  using canonicalize_real [OF assms(1) canonicalize_result [OF assms]] .

lemma fs_metadata_real: "wf_tree N \<Longrightarrow> real_path N p \<Longrightarrow> fs_metadata N p = N p"
  by (simp add: canonicalize_real fs_metadata_def)

lemma symlink_metadata_real:
  assumes "wf_tree N" "p \<noteq> []" "N (butlast p) = Some Directory"
  shows "symlink_metadata N p = N p"
  using canonicalize_real [OF assms(1), of "butlast p"] assms
  by (simp add: symlink_metadata_def)

lemma wf_tree_can_hold: "wf_tree N \<Longrightarrow> N p \<noteq> None \<Longrightarrow> p \<noteq> [] \<Longrightarrow> can_hold N p"
  unfolding can_hold_def by (metis append_butlast_last_id wf_tree_def)

text \<open>A tree given by the list of its nodes is checked by looking at each of them.\<close>

definition wf_listing :: "(spath \<times> node) list \<Rightarrow> bool" where
  "wf_listing xs \<longleftrightarrow> map_of xs [] = Some Directory
     \<and> list_all (\<lambda>(p, _). p = [] \<or> can_hold (map_of xs) p) xs"

lemma wf_listing_tree:
  assumes "wf_listing xs"
  shows "wf_tree (map_of xs)"
  unfolding wf_tree_def
proof (intro conjI allI impI)
  fix p n
  assume "map_of xs (p @ [n]) \<noteq> None"
  then obtain nd where "(p @ [n], nd) \<in> set xs" by (auto dest: map_of_SomeD)
  then have "can_hold (map_of xs) (p @ [n])"
    using assms by (auto simp: wf_listing_def list_all_iff)
  then show "map_of xs p = Some Directory" "entry_name n" by (simp_all add: can_hold_def)
qed (use assms in \<open>simp add: wf_listing_def\<close>)

section \<open>The contract of a writing call\<close>

text \<open>
  What the callers rely on: a writing call changes the nodes it names and no others, makes
  and removes no directory, creates an entry only where a directory can hold it, and lets
  the clock run; the oracles stay what they are.
\<close>

definition same_oracles :: "fs \<Rightarrow> fs \<Rightarrow> bool" where
  "same_oracles s t \<longleftrightarrow> deny_read t = deny_read s \<and> new_mode t = new_mode s \<and> fault t = fault s
     \<and> short_write t = short_write s \<and> tick s \<le> tick t"

lemma same_oracles_refl [simp]: "same_oracles s s"
  by (simp add: same_oracles_def)

lemma same_oracles_trans: "same_oracles s t \<Longrightarrow> same_oracles t u \<Longrightarrow> same_oracles s u"
  by (simp add: same_oracles_def)

locale fs_call =
  fixes call :: "fs \<Rightarrow> fs" and touches :: "spath set"
  assumes frame: "p \<notin> touches \<Longrightarrow> nodes (call s) p = nodes s p"
    and directories: "nodes (call s) p = Some Directory \<longleftrightarrow> nodes s p = Some Directory"
    and entries: "nodes (call s) p \<noteq> None \<Longrightarrow> nodes s p \<noteq> None \<or> can_hold (nodes s) p"
    and oracles: "same_oracles s (call s)"
begin

lemma keeps_can_hold: "can_hold (nodes (call s)) p = can_hold (nodes s) p"
  by (simp add: can_hold_def directories)

lemma keeps_wf: "wf_tree (nodes s) \<Longrightarrow> wf_tree (nodes (call s))"
  unfolding wf_tree_def
  by (metis butlast_snoc can_hold_def directories entries last_snoc)

end

text \<open>Calls compose: a sequence touches what its parts touch.\<close>

lemma fs_call_comp:
  assumes "fs_call f A" "fs_call g B"
  shows "fs_call (\<lambda>s. g (f s)) (A \<union> B)"
proof
  fix p s
  show "p \<notin> A \<union> B \<Longrightarrow> nodes (g (f s)) p = nodes s p"
    using assms by (simp add: fs_call.frame)
  show "nodes (g (f s)) p = Some Directory \<longleftrightarrow> nodes s p = Some Directory"
    using assms by (simp add: fs_call.directories)
  show "nodes s p \<noteq> None \<or> can_hold (nodes s) p" if "nodes (g (f s)) p \<noteq> None"
    using that fs_call.entries [OF assms(2)] fs_call.entries [OF assms(1)]
      fs_call.keeps_can_hold [OF assms(1)] by blast
  show "same_oracles s (g (f s))"
    using assms by (meson fs_call.oracles same_oracles_trans)
qed

lemma fs_call_id: "fs_call (\<lambda>s. s) A"
  by unfold_locales simp_all

lemma fs_call_mono: "fs_call f A \<Longrightarrow> A \<subseteq> B \<Longrightarrow> fs_call f B"
  by (auto simp: fs_call_def)

text \<open>A call that depends on the state is a call when every branch is one.\<close>

lemma fs_call_branch:
  assumes "\<And>x. fs_call (f x) A"
  shows "fs_call (\<lambda>s. f (h s) s) A"
  using assms by (auto simp: fs_call_def)

interpretation create_new_call: fs_call "\<lambda>s. snd (fs_create_new p s)" "{p}" for p
  by unfold_locales (auto simp: fs_create_new_def same_oracles_def split: if_splits)

interpretation open_truncate_call: fs_call "\<lambda>s. snd (fs_open_truncate p m s)" "{p}" for p m
  by unfold_locales
    (auto simp: fs_open_truncate_def same_oracles_def split: if_splits option.splits node.splits)

interpretation set_permissions_call: fs_call "\<lambda>s. snd (fs_set_permissions p m s)" "{p}" for p m
  by unfold_locales
    (auto simp: fs_set_permissions_def same_oracles_def split: if_splits option.splits node.splits)

interpretation write_all_call: fs_call "\<lambda>s. snd (fs_write_all p b s)" "{p}" for p b
  by unfold_locales
    (auto simp: fs_write_all_def same_oracles_def split: if_splits option.splits node.splits)

interpretation sync_all_call: fs_call "\<lambda>s. snd (fs_sync_all s)" "{}"
  by unfold_locales (auto simp: fs_sync_all_def same_oracles_def)

interpretation hard_link_call: fs_call "\<lambda>s. snd (fs_hard_link src dst s)" "{dst}" for src dst
  by unfold_locales (auto simp: fs_hard_link_def same_oracles_def split: if_splits)

interpretation rename_call: fs_call "\<lambda>s. snd (fs_rename src dst s)" "{src, dst}" for src dst
  by unfold_locales (auto simp: fs_rename_def same_oracles_def split: if_splits)

interpretation remove_file_call: fs_call "\<lambda>s. snd (fs_remove_file p s)" "{p}" for p
  by unfold_locales (auto simp: fs_remove_file_def same_oracles_def split: if_splits)

section \<open>What a successful call does\<close>

lemma create_new_ok:
  assumes "fs_create_new p s = (True, t)"
  shows "nodes t p = Some (File '''' (new_mode s))" "nodes s p = None" "can_hold (nodes s) p"
  using assms by (auto simp: fs_create_new_def split: if_splits)

lemma set_permissions_ok:
  assumes "fs_set_permissions p m s = (True, t)" "nodes s p = Some (File c m')"
  shows "nodes t p = Some (File c m)"
  using assms by (auto simp: fs_set_permissions_def split: if_splits)

lemma write_all_ok:
  assumes "fs_write_all p bytes s = (True, t)" "nodes s p = Some (File c m)"
  shows "nodes t p = Some (File (c @ bytes) m)"
  using assms by (auto simp: fs_write_all_def split: if_splits)

lemma sync_all_ok: "fs_sync_all s = (b, t) \<Longrightarrow> nodes t = nodes s"
  by (auto simp: fs_sync_all_def)

lemma hard_link_ok:
  assumes "fs_hard_link src dst s = (True, t)"
  shows "nodes t = (nodes s)(dst := nodes s src)" "nodes s dst = None"
  using assms by (auto simp: fs_hard_link_def split: if_splits)

lemma rename_ok:
  assumes "fs_rename src dst s = (True, t)" "src \<noteq> dst"
  shows "nodes t = (nodes s)(src := None, dst := nodes s src)"
  using assms by (auto simp: fs_rename_def split: if_splits)

lemma open_truncate_ok:
  assumes "fs_open_truncate p m s = (True, t)"
  shows "\<exists>m'. nodes t p = Some (File [] m')"
  using assms by (auto simp: fs_open_truncate_def split: if_splits option.splits node.splits)

lemma rename_failed: "fs_rename src dst s = (False, t) \<Longrightarrow> nodes t = nodes s"
  by (auto simp: fs_rename_def split: if_splits)

end
