(* ===== verification/Resource.thy ===== *)
theory Resource
  imports Sensitive_Paths Filesystem
begin

text \<open>
  Resource roots of \<^verbatim>\<open>yach-backend/src/resource.rs\<close>: the project root and the exact-target
  root, path resolution confined to them, bounded text reads and the assembly of a context
  package. Directory listing and search are in \<open>Resource_Search\<close>.
\<close>

section \<open>Data\<close>

datatype resource_root_kind = Project | ExactTarget

record resource_root =
  root_kind :: resource_root_kind
  canonical_path :: spath
  sensitive_policy :: sensitive_policy
  granted_target :: "spath option"

datatype resource_path_error =
    RootUnavailable
  | Missing
  | EscapesRoot
  | SymlinkEscapesRoot
  | ExpectedFile
  | ExpectedDirectory
  | SensitiveDenied

datatype resource_read_error =
    PathError resource_path_error
  | TooLarge (read_max_bytes: nat) (read_actual_bytes: nat)
  | NotUtf8
  | IoError

record resource_read =
  read_path :: spath
  read_text :: string
  read_byte_count :: nat
  read_redacted :: bool
  read_truncated :: bool

section \<open>Roots\<close>

text \<open>A path is taken relative to the working directory, which an absolute path leaves.\<close>

definition project_root ::
  "sensitive_policy \<Rightarrow> tree \<Rightarrow> spath \<Rightarrow> string
   \<Rightarrow> (resource_path_error, resource_root) result" where
  "project_root builtin N cwd path =
     res_bind (ok_or (canonicalize N (map Normal cwd @ kernel_components path)) RootUnavailable) (\<lambda>canonical.
     res_bind (fail_if (\<not> is_dir N canonical) RootUnavailable) (\<lambda>_.
       Inr \<lparr>root_kind = Project, canonical_path = canonical, sensitive_policy = builtin,
            granted_target = None\<rparr>))"

definition control_plane_names :: "string list" where
  "control_plane_names = [''.git'', ''.jj'', ''.yach'', ''target'', ''.hg'', ''.svn'']"

definition for_review_target ::
  "tree \<Rightarrow> spath \<Rightarrow> spath \<Rightarrow> (resource_path_error, resource_root) result" where
  "for_review_target N target grant_target =
     res_bind (fail_if (target \<noteq> grant_target) EscapesRoot) (\<lambda>_.
     res_bind (fail_if (list_ex (\<lambda>n. n \<in> set control_plane_names) target) SensitiveDenied) (\<lambda>_.
     res_bind (fail_if (target = []) RootUnavailable) (\<lambda>_.
     res_bind (fail_if (\<not> is_dir N (butlast target)) RootUnavailable) (\<lambda>_.
       Inr \<lparr>root_kind = ExactTarget, canonical_path = butlast target,
            sensitive_policy = deny_nothing, granted_target = Some target\<rparr>))))"

definition with_sensitive_policy :: "resource_root \<Rightarrow> sensitive_policy \<Rightarrow> resource_root" where
  "with_sensitive_policy root policy = root\<lparr>sensitive_policy := policy\<rparr>"

definition sensitive_denies :: "resource_root \<Rightarrow> string \<Rightarrow> bool" where
  "sensitive_denies root path = denies (sensitive_policy root) path"

section \<open>Resolution\<close>

definition resolve_existing ::
  "resource_root \<Rightarrow> tree \<Rightarrow> string \<Rightarrow> (resource_path_error, spath) result" where
  "resolve_existing root N requested =
     res_bind (fail_if (is_absolute requested) EscapesRoot) (\<lambda>_.
     res_bind (ok_or (canonicalize N (map Normal (canonical_path root) @ kernel_components requested))
                 Missing) (\<lambda>canonical.
     res_bind (fail_if (\<not> prefix (canonical_path root) canonical)
                 (if ParentDir \<in> set (path_components requested) then EscapesRoot
                  else SymlinkEscapesRoot)) (\<lambda>_.
     res_bind (fail_if (root_kind root = ExactTarget \<and> granted_target root \<noteq> Some canonical)
                 EscapesRoot) (\<lambda>_.
       Inr canonical))))"

definition resolve_file ::
  "resource_root \<Rightarrow> tree \<Rightarrow> string \<Rightarrow> (resource_path_error, spath) result" where
  "resolve_file root N requested =
     res_bind (resolve_existing root N requested) (\<lambda>path.
     res_bind (fail_if (\<not> is_file N path) ExpectedFile) (\<lambda>_. Inr path))"

definition resolve_directory ::
  "resource_root \<Rightarrow> tree \<Rightarrow> string \<Rightarrow> (resource_path_error, spath) result" where
  "resolve_directory root N requested =
     res_bind (resolve_existing root N requested) (\<lambda>path.
     res_bind (fail_if (\<not> is_dir N path) ExpectedDirectory) (\<lambda>_. Inr path))"

definition normalized_relative_path ::
  "resource_root \<Rightarrow> spath \<Rightarrow> (resource_path_error, string) result" where
  "normalized_relative_path root path =
     res_bind (fail_if (\<not> prefix (canonical_path root) path) EscapesRoot) (\<lambda>_.
       Inr (join_slash (map from_utf8_lossy (drop (length (canonical_path root)) path))))"

section \<open>Reading\<close>

definition read_text_file ::
  "resource_root \<Rightarrow> fs \<Rightarrow> string \<Rightarrow> nat \<Rightarrow> (resource_read_error, resource_read) result" where
  "read_text_file root s requested max_bytes =
     res_bind (map_err PathError (resolve_file root (nodes s) requested)) (\<lambda>path.
     res_bind (map_err PathError (normalized_relative_path root path)) (\<lambda>relative.
     res_bind (fail_if (sensitive_denies root relative) (PathError SensitiveDenied)) (\<lambda>_.
     res_bind (ok_or (fs_metadata (nodes s) path) IoError) (\<lambda>metadata.
     res_bind (fail_if (fs_len metadata > max_bytes) (TooLarge max_bytes (fs_len metadata))) (\<lambda>_.
     res_bind (ok_or (fs_read s path) IoError) (\<lambda>bytes.
     res_bind (fail_if (length bytes > max_bytes) (TooLarge max_bytes (length bytes))) (\<lambda>_.
     res_bind (fail_if (\<not> utf8_valid bytes) NotUtf8) (\<lambda>_.
       Inr \<lparr>read_path = path, read_text = bytes, read_byte_count = length bytes,
            read_redacted = False, read_truncated = False\<rparr>))))))))"

datatype resource_context_error =
    TooManyFiles (max_files: nat) (actual_files: nat)
  | ContextRead (context_path: string) (context_error: resource_read_error)

record resource_context_item =
  item_relative_path :: string
  item_text :: string
  item_byte_count :: nat

fun read_context_items ::
  "resource_root \<Rightarrow> fs \<Rightarrow> nat \<Rightarrow> string list
   \<Rightarrow> (resource_context_error, resource_context_item list) result" where
  "read_context_items root s max_file_bytes [] = Inr []"
| "read_context_items root s max_file_bytes (path # paths) =
     res_bind (map_err (ContextRead path) (read_text_file root s path max_file_bytes)) (\<lambda>read.
     res_bind (map_err (\<lambda>e. ContextRead path (PathError e))
                 (normalized_relative_path root (read_path read))) (\<lambda>relative.
     res_bind (read_context_items root s max_file_bytes paths) (\<lambda>items.
       Inr (\<lparr>item_relative_path = relative, item_text = read_text read,
             item_byte_count = read_byte_count read\<rparr> # items))))"

definition read_context_package ::
  "resource_root \<Rightarrow> fs \<Rightarrow> nat \<Rightarrow> nat \<Rightarrow> string list
   \<Rightarrow> (resource_context_error, resource_context_item list) result" where
  "read_context_package root s max_file_bytes max_n paths =
     res_bind (fail_if (length paths > max_n) (TooManyFiles max_n (length paths))) (\<lambda>_.
       read_context_items root s max_file_bytes paths)"

section \<open>Containment\<close>

lemma resolve_existing_contained:
  assumes "wf_tree N" "resolve_existing root N requested = Inr p"
  shows "prefix (canonical_path root) p" "real_path N p"
    "root_kind root = ExactTarget \<Longrightarrow> granted_target root = Some p"
  using assms canonicalize_result [OF assms(1)]
  by (auto simp: resolve_existing_def result_simps)

lemma is_file_real:
  "wf_tree N \<Longrightarrow> real_path N p \<Longrightarrow> is_file N p \<longleftrightarrow> (\<exists>c m. N p = Some (File c m))"
  by (auto simp: is_file_def fs_metadata_real split: option.splits node.splits)

lemma is_dir_real: "wf_tree N \<Longrightarrow> real_path N p \<Longrightarrow> is_dir N p \<longleftrightarrow> N p = Some Directory"
  by (simp add: is_dir_def fs_metadata_real)

lemma resolve_file_contained:
  assumes "wf_tree N" "resolve_file root N requested = Inr p"
  shows "prefix (canonical_path root) p" "\<exists>c m. N p = Some (File c m)"
    "root_kind root = ExactTarget \<Longrightarrow> granted_target root = Some p"
  using assms(2) resolve_existing_contained [OF assms(1)] is_file_real [OF assms(1)]
  by (auto simp: resolve_file_def result_simps)

lemma kernel_components_join_slash:
  assumes "\<forall>n \<in> set ns. valid_name n" "ns \<noteq> []"
  shows "kernel_components (join_slash ns) = map Normal ns"
proof -
  have "map (\<lambda>seg. if seg = '''' \<or> seg = ''.'' then CurDir
               else if seg = ''..'' then ParentDir else Normal seg) ns = map Normal ns"
    using assms(1) by (auto simp: valid_name_def)
  then show ?thesis
    using assms by (simp add: kernel_components_def split_join_slash not_absolute_join_slash)
qed

end
