(* ===== verification/Edit.thy ===== *)
theory Edit
  imports Resource
begin

text \<open>
  The first half of the edit engine of \<^verbatim>\<open>yach-backend/src/edit.rs\<close>: edit transactions, the
  policy and the errors, the validation of target paths, the reading of an existing target,
  exact-match hunks, the bounded diff summary, and the preview that turns a request into a
  prepared transaction without writing anything. The digest, the length of the serialized
  request, the unified diff and the process id come from other packages and from the
  operating system and are parameters.
\<close>

section \<open>Data\<close>

record edit_hunk =
  hunk_find :: string
  hunk_replace :: string

datatype edit_operation =
    ModifyTextFile string string "edit_hunk list"
  | ReplaceTextFile string string string
  | CreateTextFile string string

datatype prepared_operation =
    PreparedModify (p_relative_path: string) (p_resolved_path: spath) (p_before_sha256: string)
      (p_after_sha256: string) (p_before_bytes: nat) (p_after_bytes: nat) (p_hunk_count: nat)
  | PreparedCreate (p_relative_path: string) (p_resolved_path: spath) (p_after_sha256: string)
      (p_after_bytes: nat)

datatype apply_payload = ModifyPayload (payload_content: string) | CreatePayload (payload_content: string)

record prepared_transaction =
  transaction_id :: string
  operations :: "prepared_operation list"
  operation_count :: nat
  diff_summary :: string
  diff_summary_truncated :: bool
  diff_summary_bytes :: nat
  apply_payloads :: "apply_payload list"

record edit_policy =
  max_operations :: nat
  max_file_bytes :: nat
  max_transaction_bytes :: nat
  max_diff_summary_bytes :: nat
  allow_create :: bool
  allow_modify :: bool

definition conservative :: edit_policy where
  "conservative = \<lparr>max_operations = 1, max_file_bytes = 256 * 1024,
     max_transaction_bytes = 128 * 1024, max_diff_summary_bytes = 32 * 1024,
     allow_create = True, allow_modify = True\<rparr>"

definition extension_proposal :: edit_policy where
  "extension_proposal = \<lparr>max_operations = 16, max_file_bytes = 512 * 1024,
     max_transaction_bytes = 2 * 1024 * 1024, max_diff_summary_bytes = 64 * 1024,
     allow_create = False, allow_modify = True\<rparr>"

datatype edit_error =
    EmptyTransaction
  | TooManyOperations nat nat
  | TransactionTooLarge nat nat
  | CreateDisabled
  | ModifyDisabled
  | AbsolutePath string
  | PathTraversal string
  | PathOutsideRoot string
  | ParentMissing string
  | TargetMissing string
  | TargetExists string
  | DuplicateTarget string
  | SymlinkRejected string
  | EditExpectedFile string
  | UnsupportedMetadataPath string
  | SensitivePathDenied string
  | UnsupportedFileType string
  | EditNotUtf8 string
  | FileTooLarge string nat nat
  | HunkNotFound string
  | HunkAmbiguous string
  | EmptyHunks string
  | EmptyFind string
  | HashMismatch string string string
  | Io string

fun edit_error_label :: "edit_error \<Rightarrow> string" where
  "edit_error_label EmptyTransaction = ''empty_transaction''"
| "edit_error_label (TooManyOperations _ _) = ''too_many_operations''"
| "edit_error_label (TransactionTooLarge _ _) = ''transaction_too_large''"
| "edit_error_label CreateDisabled = ''create_disabled''"
| "edit_error_label ModifyDisabled = ''modify_disabled''"
| "edit_error_label (AbsolutePath _) = ''absolute_path''"
| "edit_error_label (PathTraversal _) = ''path_traversal''"
| "edit_error_label (PathOutsideRoot _) = ''path_outside_root''"
| "edit_error_label (ParentMissing _) = ''parent_missing''"
| "edit_error_label (TargetMissing _) = ''target_missing''"
| "edit_error_label (TargetExists _) = ''target_exists''"
| "edit_error_label (DuplicateTarget _) = ''duplicate_target''"
| "edit_error_label (SymlinkRejected _) = ''symlink_rejected''"
| "edit_error_label (EditExpectedFile _) = ''expected_file''"
| "edit_error_label (UnsupportedMetadataPath _) = ''unsupported_metadata_path''"
| "edit_error_label (SensitivePathDenied _) = ''sensitive_path_denied''"
| "edit_error_label (UnsupportedFileType _) = ''unsupported_file_type''"
| "edit_error_label (EditNotUtf8 _) = ''not_utf8''"
| "edit_error_label (FileTooLarge _ _ _) = ''file_too_large''"
| "edit_error_label (HunkNotFound _) = ''hunk_not_found''"
| "edit_error_label (HunkAmbiguous _) = ''hunk_ambiguous''"
| "edit_error_label (EmptyHunks _) = ''empty_hunks''"
| "edit_error_label (EmptyFind _) = ''empty_find''"
| "edit_error_label (HashMismatch _ _ _) = ''hash_mismatch''"
| "edit_error_label (Io _) = ''io''"

text \<open>What comes from outside the sources.\<close>

record edit_env =
  digest :: "string \<Rightarrow> string"
  request_json_len :: "edit_operation list \<Rightarrow> nat option"
  unified_diff :: "string \<Rightarrow> string \<Rightarrow> string \<Rightarrow> string"
  process_id :: nat

definition hex_digit :: "nat \<Rightarrow> char" where
  "hex_digit d = (if d < 10 then char_of (48 + d) else char_of (87 + d))"

definition sha256_hex :: "edit_env \<Rightarrow> string \<Rightarrow> string" where
  "sha256_hex env bytes =
     concat (map (\<lambda>b. [hex_digit (byte b div 16), hex_digit (byte b mod 16)]) (digest env bytes))"

definition estimate_request_bytes :: "edit_env \<Rightarrow> edit_operation list \<Rightarrow> nat" where
  "estimate_request_bytes env ops =
     (case request_json_len env ops of Some n \<Rightarrow> n | None \<Rightarrow> u64_max)"

definition next_edit_transaction_id :: "nat \<Rightarrow> string \<times> nat" where
  "next_edit_transaction_id counter =
     (''edit-'' @ show_nat counter, (counter + 1) mod (u64_max + 1))"

section \<open>Target paths\<close>

definition reject_metadata_path :: "string \<Rightarrow> spath \<Rightarrow> (edit_error, unit) result" where
  "reject_metadata_path original comps =
     fail_if (prefix [''.git''] comps \<or> prefix [''target''] comps
              \<or> prefix [''.yach'', ''sessions''] comps \<or> comps = [''.yach'', ''config.json'']
              \<or> prefix [''.yach'', ''permissions''] comps)
       (UnsupportedMetadataPath original)"

fun normalize_components ::
  "string \<Rightarrow> spath \<Rightarrow> component list \<Rightarrow> (edit_error, spath) result" where
  "normalize_components original acc [] = Inr acc"
| "normalize_components original acc (Normal n # cs) = normalize_components original (acc @ [n]) cs"
| "normalize_components original acc (CurDir # cs) = normalize_components original acc cs"
| "normalize_components original acc (ParentDir # cs) = Inl (PathTraversal original)"
| "normalize_components original acc (RootDir # cs) = Inl (AbsolutePath original)"

definition validate_relative_path :: "string \<Rightarrow> (edit_error, spath) result" where
  "validate_relative_path path =
     res_bind (fail_if (is_absolute path) (AbsolutePath path)) (\<lambda>_.
     res_bind (normalize_components path [] (path_components path)) (\<lambda>normalized.
     res_bind (fail_if (normalized = []) (PathTraversal path)) (\<lambda>_.
     res_bind (reject_metadata_path path normalized) (\<lambda>_.
       Inr normalized))))"

definition reject_sensitive_path :: "resource_root \<Rightarrow> string \<Rightarrow> spath \<Rightarrow> (edit_error, unit) result" where
  "reject_sensitive_path root original normalized =
     fail_if (sensitive_denies root (join_slash normalized)) (SensitivePathDenied original)"

fun symlinked_parent_from ::
  "tree \<Rightarrow> string \<Rightarrow> spath \<Rightarrow> spath \<Rightarrow> (edit_error, unit) result" where
  "symlinked_parent_from N original current [] = Inr ()"
| "symlinked_parent_from N original current (part # parts) =
     (case symlink_metadata N (current @ [part]) of
        None \<Rightarrow> Inl (ParentMissing original)
      | Some (Symlink _) \<Rightarrow> Inl (SymlinkRejected original)
      | Some _ \<Rightarrow> symlinked_parent_from N original (current @ [part]) parts)"

definition reject_symlinked_parent ::
  "resource_root \<Rightarrow> tree \<Rightarrow> string \<Rightarrow> spath \<Rightarrow> (edit_error, unit) result" where
  "reject_symlinked_parent root N original parent =
     symlinked_parent_from N original (canonical_path root) parent"

definition path_to_slash_string :: "spath \<Rightarrow> string" where
  "path_to_slash_string path = join_slash path"

definition resolve_create_target ::
  "resource_root \<Rightarrow> tree \<Rightarrow> string \<Rightarrow> (edit_error, string \<times> spath) result" where
  "resolve_create_target root N path =
     res_bind (validate_relative_path path) (\<lambda>normalized.
     res_bind (reject_sensitive_path root path normalized) (\<lambda>_.
     res_bind (reject_symlinked_parent root N path (butlast normalized)) (\<lambda>_.
     res_bind (ok_or (canonicalize N (map Normal (canonical_path root)
                 @ kernel_components (join_slash (butlast normalized))))
                 (ParentMissing path)) (\<lambda>canonical_parent.
     res_bind (fail_if (\<not> prefix (canonical_path root) canonical_parent) (PathOutsideRoot path)) (\<lambda>_.
     res_bind (fail_if (\<not> is_dir N canonical_parent) (UnsupportedFileType path)) (\<lambda>_.
     let resolved = canonical_parent @ [last normalized] in
     res_bind (fail_if (symlink_metadata N resolved \<noteq> None) (TargetExists path)) (\<lambda>_.
       Inr (path_to_slash_string normalized, resolved))))))))"

fun edit_error_of_path_error :: "string \<Rightarrow> resource_path_error \<Rightarrow> edit_error" where
  "edit_error_of_path_error path Missing = TargetMissing path"
| "edit_error_of_path_error path EscapesRoot = PathOutsideRoot path"
| "edit_error_of_path_error path SymlinkEscapesRoot = PathOutsideRoot path"
| "edit_error_of_path_error path ExpectedFile = EditExpectedFile path"
| "edit_error_of_path_error path SensitiveDenied = SensitivePathDenied path"
| "edit_error_of_path_error path RootUnavailable = Io path"
| "edit_error_of_path_error path ExpectedDirectory = Io path"

definition is_symlink :: "node \<Rightarrow> bool" where
  "is_symlink nd = (case nd of Symlink _ \<Rightarrow> True | _ \<Rightarrow> False)"

definition read_existing_text ::
  "resource_root \<Rightarrow> fs \<Rightarrow> string \<Rightarrow> edit_policy
   \<Rightarrow> (edit_error, string \<times> spath \<times> string) result" where
  "read_existing_text root s path policy =
     res_bind (validate_relative_path path) (\<lambda>normalized.
     res_bind (reject_sensitive_path root path normalized) (\<lambda>_.
     res_bind (reject_symlinked_parent root (nodes s) path (butlast normalized)) (\<lambda>_.
     res_bind (ok_or (symlink_metadata (nodes s) (canonical_path root @ normalized))
                 (TargetMissing path)) (\<lambda>link_metadata.
     res_bind (fail_if (is_symlink link_metadata) (SymlinkRejected path)) (\<lambda>_.
     res_bind (map_err (edit_error_of_path_error path)
                 (resolve_file root (nodes s) (join_slash normalized))) (\<lambda>resolved.
     res_bind (ok_or (fs_metadata (nodes s) resolved) (Io path)) (\<lambda>metadata.
     res_bind (fail_if (fs_len metadata > max_file_bytes policy)
                 (FileTooLarge path (max_file_bytes policy) (fs_len metadata))) (\<lambda>_.
     res_bind (ok_or (fs_read s resolved) (Io path)) (\<lambda>bytes.
     res_bind (fail_if (length bytes > max_file_bytes policy)
                 (FileTooLarge path (max_file_bytes policy) (length bytes))) (\<lambda>_.
     res_bind (fail_if (\<not> utf8_valid bytes) (EditNotUtf8 path)) (\<lambda>_.
       Inr (path_to_slash_string normalized, resolved, bytes))))))))))))"

definition edit_read_existing_text ::
  "resource_root \<Rightarrow> fs \<Rightarrow> string \<Rightarrow> edit_policy \<Rightarrow> (edit_error, string \<times> string) result" where
  "edit_read_existing_text root s path policy =
     res_bind (read_existing_text root s path policy) (\<lambda>(relative, _, bytes). Inr (relative, bytes))"

section \<open>Hunks\<close>

definition overlapping_match_indices :: "string \<Rightarrow> string \<Rightarrow> nat list" where
  "overlapping_match_indices src pat =
     filter (\<lambda>i. is_char_boundary src i \<and> prefix pat (drop i src)) [0..<length src]"

text \<open>\<open>str::replacen\<close> with count 1 and a non-empty pattern.\<close>

fun replace_first :: "string \<Rightarrow> string \<Rightarrow> string \<Rightarrow> string" where
  "replace_first pat repl [] = []"
| "replace_first pat repl (c # cs) =
     (if prefix pat (c # cs) then repl @ drop (length pat) (c # cs)
      else c # replace_first pat repl cs)"

fun apply_hunks_from ::
  "string \<Rightarrow> string \<Rightarrow> edit_hunk list \<Rightarrow> (edit_error, string) result" where
  "apply_hunks_from path src [] = Inr src"
| "apply_hunks_from path src (h # hs) =
     (if hunk_find h = '''' then Inl (EmptyFind path)
      else (case overlapping_match_indices src (hunk_find h) of
              [] \<Rightarrow> Inl (HunkNotFound path)
            | [_] \<Rightarrow> apply_hunks_from path (replace_first (hunk_find h) (hunk_replace h) src) hs
            | _ \<Rightarrow> Inl (HunkAmbiguous path)))"

definition apply_hunks :: "string \<Rightarrow> string \<Rightarrow> edit_hunk list \<Rightarrow> (edit_error, string) result" where
  "apply_hunks path original hunks =
     (if hunks = [] then Inl (EmptyHunks path) else apply_hunks_from path original hunks)"

section \<open>Diff summary\<close>

definition diff_marker :: string where
  "diff_marker = CHR 0x0A # ''[diff truncated]'' @ [CHR 0x0A]"

definition render_diff_summary :: "edit_env \<Rightarrow> string \<Rightarrow> string \<Rightarrow> string \<Rightarrow> string" where
  "render_diff_summary env relative before after = unified_diff env relative before after"

definition truncate_diff_summary :: "string \<Rightarrow> nat \<Rightarrow> string \<times> bool \<times> nat" where
  "truncate_diff_summary summary max_bytes =
     (if length summary \<le> max_bytes then (summary, False, length summary)
      else if max_bytes \<le> length diff_marker then
        (let truncated = take (floor_boundary diff_marker max_bytes) diff_marker
         in (truncated, True, length truncated))
      else
        (let truncated = take (floor_boundary summary (max_bytes - length diff_marker)) summary
           @ diff_marker
         in (truncated, True, length truncated)))"

section \<open>Preview\<close>

definition reject_duplicate_target ::
  "string list \<Rightarrow> string \<Rightarrow> (edit_error, string list) result" where
  "reject_duplicate_target seen relative =
     (if relative \<in> set seen then Inl (DuplicateTarget relative) else Inr (relative # seen))"

text \<open>One operation: what it prepares, what it will write, its diff, and the targets seen.\<close>

fun preview_operation ::
  "edit_env \<Rightarrow> resource_root \<Rightarrow> fs \<Rightarrow> edit_policy \<Rightarrow> string list \<Rightarrow> edit_operation
   \<Rightarrow> (edit_error, prepared_operation \<times> apply_payload \<times> string \<times> string list) result" where
  "preview_operation env root s policy seen (CreateTextFile path content) =
     res_bind (fail_if (\<not> allow_create policy) CreateDisabled) (\<lambda>_.
     res_bind (fail_if (length content > max_file_bytes policy)
                 (FileTooLarge path (max_file_bytes policy) (length content))) (\<lambda>_.
     res_bind (resolve_create_target root (nodes s) path) (\<lambda>(relative, resolved).
     res_bind (reject_duplicate_target seen relative) (\<lambda>seen'.
       Inr (PreparedCreate relative resolved (sha256_hex env content) (length content),
            CreatePayload content,
            render_diff_summary env relative '''' content, seen')))))"
| "preview_operation env root s policy seen (ModifyTextFile path expected hunks) =
     res_bind (fail_if (\<not> allow_modify policy) ModifyDisabled) (\<lambda>_.
     res_bind (read_existing_text root s path policy) (\<lambda>(relative, resolved, before).
     res_bind (reject_duplicate_target seen relative) (\<lambda>seen'.
     let before_sha = sha256_hex env before in
     res_bind (fail_if (before_sha \<noteq> expected) (HashMismatch relative expected before_sha)) (\<lambda>_.
     res_bind (apply_hunks relative before hunks) (\<lambda>after.
     res_bind (fail_if (length after > max_file_bytes policy)
                 (FileTooLarge relative (max_file_bytes policy) (length after))) (\<lambda>_.
       Inr (PreparedModify relative resolved before_sha (sha256_hex env after)
              (length before) (length after) (length hunks),
            ModifyPayload after,
            render_diff_summary env relative before after, seen')))))))"
| "preview_operation env root s policy seen (ReplaceTextFile path expected content) =
     res_bind (fail_if (\<not> allow_modify policy) ModifyDisabled) (\<lambda>_.
     res_bind (fail_if (length content > max_file_bytes policy)
                 (FileTooLarge path (max_file_bytes policy) (length content))) (\<lambda>_.
     res_bind (read_existing_text root s path policy) (\<lambda>(relative, resolved, before).
     res_bind (reject_duplicate_target seen relative) (\<lambda>seen'.
     let before_sha = sha256_hex env before in
     res_bind (fail_if (before_sha \<noteq> expected) (HashMismatch relative expected before_sha)) (\<lambda>_.
       Inr (PreparedModify relative resolved before_sha (sha256_hex env content)
              (length before) (length content) 1,
            ModifyPayload content,
            render_diff_summary env relative before content, seen'))))))"

fun preview_operations ::
  "edit_env \<Rightarrow> resource_root \<Rightarrow> fs \<Rightarrow> edit_policy \<Rightarrow> string list \<Rightarrow> edit_operation list
   \<Rightarrow> (edit_error, prepared_operation list \<times> apply_payload list \<times> string) result" where
  "preview_operations env root s policy seen [] = Inr ([], [], '''')"
| "preview_operations env root s policy seen (op # ops) =
     res_bind (preview_operation env root s policy seen op) (\<lambda>(prepared, payload, diff, seen').
     res_bind (preview_operations env root s policy seen' ops) (\<lambda>(prepareds, payloads, diffs).
       Inr (prepared # prepareds, payload # payloads, diff @ diffs)))"

text \<open>The counter of transaction ids advances once the request has passed the size checks.\<close>

definition preview ::
  "edit_env \<Rightarrow> resource_root \<Rightarrow> fs \<Rightarrow> edit_policy \<Rightarrow> nat \<Rightarrow> edit_operation list
   \<Rightarrow> (edit_error, prepared_transaction) result \<times> nat" where
  "preview env root s policy counter ops =
     (if ops = [] then (Inl EmptyTransaction, counter)
      else if length ops > max_operations policy
      then (Inl (TooManyOperations (max_operations policy) (length ops)), counter)
      else if estimate_request_bytes env ops > max_transaction_bytes policy
      then (Inl (TransactionTooLarge (max_transaction_bytes policy)
                   (estimate_request_bytes env ops)), counter)
      else
        (let (tx, counter') = next_edit_transaction_id counter in
         (res_bind (preview_operations env root s policy [] ops) (\<lambda>(prepared, payloads, diff).
            let (summary, truncated, bytes) =
                  truncate_diff_summary diff (max_diff_summary_bytes policy)
            in Inr \<lparr>transaction_id = tx, operations = prepared, operation_count = length ops,
                    diff_summary = summary, diff_summary_truncated = truncated,
                    diff_summary_bytes = bytes, apply_payloads = payloads\<rparr>),
          counter')))"

section \<open>Facts about target paths\<close>

lemma normalize_components_Inr:
  "normalize_components original acc cs = Inr ns \<Longrightarrow>
   \<exists>ms. ns = acc @ ms \<and> (\<forall>n \<in> set ms. Normal n \<in> set cs) \<and> ParentDir \<notin> set cs \<and> RootDir \<notin> set cs"
  by (induction original acc cs rule: normalize_components.induct) auto

lemma normalize_components_Normal:
  "normalize_components original acc (map Normal ns) = Inr (acc @ ns)"
  by (induction ns arbitrary: acc) auto

lemma validate_relative_path_Inr:
  assumes "validate_relative_path path = Inr ns"
  shows "ns \<noteq> []" "\<forall>n \<in> set ns. valid_name n" "\<not> is_absolute path"
    "ParentDir \<notin> set (path_components path)" "reject_metadata_path original ns = Inr ()"
  using assms normalize_components_Inr [of path "[]" "path_components path" ns]
    Normal_component_valid
  by (auto simp: validate_relative_path_def result_simps reject_metadata_path_def)

text \<open>The relative path a preview records is read back to the same components.\<close>

lemma validate_relative_path_join_slash:
  assumes "validate_relative_path path = Inr ns"
  shows "validate_relative_path (join_slash ns) = Inr ns"
proof -
  note v = validate_relative_path_Inr [OF assms]
  have "reject_metadata_path (join_slash ns) ns = Inr ()" by (rule v(5))
  then show ?thesis
    using v normalize_components_Normal [of "join_slash ns" "[]" ns]
    by (simp add: validate_relative_path_def path_components_join_slash not_absolute_join_slash)
qed

lemma symlink_metadata_below:
  assumes "wf_tree N" "N d = Some Directory"
  shows "symlink_metadata N (d @ [n]) = N (d @ [n])"
  using symlink_metadata_real [OF assms(1), of "d @ [n]"] assms(2) by simp

lemma symlinked_parent_from_real:
  assumes "wf_tree N" "real_path N current" "symlinked_parent_from N original current parts = Inr ()"
  shows "real_path N (current @ parts)"
  using assms(2-)
proof (induction parts arbitrary: current)
  case (Cons part parts)
  have "symlink_metadata N (current @ [part]) =
      (if N current = Some Directory then N (current @ [part]) else None)"
    using canonicalize_real [OF assms(1) Cons.prems(1)] by (simp add: symlink_metadata_def)
  then have "real_path N (current @ [part])"
    "symlinked_parent_from N original (current @ [part]) parts = Inr ()"
    using Cons.prems(2) by (auto simp: real_path_def split: option.splits node.splits if_splits)
  then show ?case using Cons.IH [of "current @ [part]"] by simp
qed simp

text \<open>
  With no symbolic link among the parents, a resolved directory is the root followed by the
  parents, whatever else the tree holds.
\<close>

lemma walk_parent:
  assumes "wf_tree N" "\<forall>n \<in> set parent. valid_name n" "real_path N (root @ parent)"
    "canonicalize N (map Normal root @ kernel_components (join_slash parent)) = Some c"
  shows "c = root @ parent"
proof -
  have r: "real_path N root" using real_path_prefix [OF assms(1,3)] by simp
  show ?thesis
  proof (cases "parent = []")
    case True
    then have "kernel_components (join_slash parent) = [CurDir]"
      by (simp add: kernel_components_def is_absolute_def)
    then show ?thesis
      using canonicalize_real_append [OF assms(1) r] assms(4) True by (auto split: if_splits)
  next
    case False
    then show ?thesis
      using canonicalize_real [OF assms(1,3)] assms(2,4) by (simp add: kernel_components_join_slash)
  qed
qed

lemma resolve_create_target_Inr:
  assumes wf: "wf_tree N" and res: "resolve_create_target root N path = Inr (relative, p)"
  obtains ns where "validate_relative_path path = Inr ns" "relative = join_slash ns"
    "p = canonical_path root @ ns" "N p = None" "N (butlast p) = Some Directory"
    "\<not> sensitive_denies root relative"
proof -
  let ?root = "canonical_path root"
  obtain ns c where v: "validate_relative_path path = Inr ns"
    and sens: "\<not> sensitive_denies root (join_slash ns)"
    and sym: "symlinked_parent_from N path ?root (butlast ns) = Inr ()"
    and c: "canonicalize N (map Normal ?root @ kernel_components (join_slash (butlast ns))) = Some c"
    and pre: "prefix ?root c" and dir: "is_dir N c"
    and none: "symlink_metadata N (c @ [last ns]) = None"
    and out: "relative = join_slash ns" "p = c @ [last ns]"
    using res by (auto simp: resolve_create_target_def result_simps Let_def
        reject_sensitive_path_def reject_symlinked_parent_def path_to_slash_string_def)
  note vv = validate_relative_path_Inr [OF v]
  have real: "real_path N ?root"
    using real_path_prefix [OF wf canonicalize_result [OF wf c] pre] .
  have valid: "\<forall>n \<in> set (butlast ns). valid_name n" using vv(2) by (meson in_set_butlastD)
  have ceq: "c = ?root @ butlast ns"
    using walk_parent [OF wf valid symlinked_parent_from_real [OF wf real sym] c] .
  have cdir: "N c = Some Directory" using is_dir_real [OF wf canonicalize_result [OF wf c]] dir by simp
  have "p = ?root @ ns" using ceq out vv(1) by simp
  moreover have "N p = None" using none out symlink_metadata_below [OF wf cdir] by simp
  moreover have "N (butlast p) = Some Directory" using out cdir by simp
  ultimately show thesis using that [of ns] v sens out by simp
qed

lemma read_existing_text_Inr:
  assumes wf: "wf_tree (nodes s)" and res: "read_existing_text root s path policy = Inr (relative, p, src)"
  obtains ns m where "validate_relative_path path = Inr ns" "relative = join_slash ns"
    "p = canonical_path root @ ns" "nodes s p = Some (File src m)"
    "\<not> sensitive_denies root relative" "length src \<le> max_file_bytes policy" "utf8_valid src"
proof -
  let ?root = "canonical_path root"
  obtain ns nd where v: "validate_relative_path path = Inr ns"
    and sens: "\<not> sensitive_denies root (join_slash ns)"
    and sym: "symlinked_parent_from (nodes s) path ?root (butlast ns) = Inr ()"
    and link: "symlink_metadata (nodes s) (?root @ ns) = Some nd" "\<not> is_symlink nd"
    and rf: "resolve_file root (nodes s) (join_slash ns) = Inr p"
    and rd: "fs_read s p = Some src" and len: "length src \<le> max_file_bytes policy"
    and utf: "utf8_valid src" and out: "relative = join_slash ns"
    using res by (auto simp: read_existing_text_def result_simps
        reject_sensitive_path_def reject_symlinked_parent_def path_to_slash_string_def not_less)
  note vv = validate_relative_path_Inr [OF v] and rc = resolve_file_contained [OF wf rf]
  obtain c m where p: "nodes s p = Some (File c m)" using rc(2) by blast
  have preal: "real_path (nodes s) p" using p by (simp add: real_path_def)
  have real: "real_path (nodes s) ?root" using real_path_prefix [OF wf preal rc(1)] .
  have par: "real_path (nodes s) (?root @ butlast ns)"
    using symlinked_parent_from_real [OF wf real sym] .
  have "canonicalize (nodes s) (map Normal (?root @ butlast ns)) = Some (?root @ butlast ns)"
    using canonicalize_real [OF wf par] .
  then have "nodes s (?root @ ns) = Some nd"
    using link(1) vv(1) by (auto simp: symlink_metadata_def butlast_append split: if_splits)
  then have treal: "real_path (nodes s) (?root @ ns)"
    using link(2) by (auto simp: real_path_def is_symlink_def split: node.splits)
  have "canonicalize (nodes s) (map Normal ?root @ kernel_components (join_slash ns)) = Some p"
    using rf by (auto simp: resolve_file_def resolve_existing_def result_simps)
  then have peq: "p = ?root @ ns" using walk_parent [OF wf vv(2) treal] by blast
  have "src = c"
    using rd p fs_metadata_real [OF wf preal] by (auto simp: fs_read_def split: if_splits)
  then show thesis using that [of ns m] v sens peq p len utf out by simp
qed
section \<open>Facts about hunks\<close>

text \<open>A non-empty valid pattern starts with a lead byte, so it matches at boundaries only.\<close>

lemma match_boundary:
  assumes "utf8_valid pat" "pat \<noteq> []" "prefix pat (drop i src)" "i < length src"
  shows "is_char_boundary src i"
proof -
  have "src ! i = hd pat"
    using assms(2-) by (metis Cons_nth_drop_Suc hd_append2 list.sel(1) prefixE)
  then show ?thesis
    using utf8_valid_head assms(1,2,4) by (cases pat) (auto simp: is_char_boundary_def)
qed

lemma match_positions:
  assumes "utf8_valid pat" "pat \<noteq> []"
  shows "i \<in> set (overlapping_match_indices src pat) \<longleftrightarrow>
    (\<exists>pre post. src = pre @ pat @ post \<and> length pre = i)"
proof
  assume "i \<in> set (overlapping_match_indices src pat)"
  then have "i < length src" "prefix pat (drop i src)"
    by (auto simp: overlapping_match_indices_def)
  then show "\<exists>pre post. src = pre @ pat @ post \<and> length pre = i"
    by (metis append_take_drop_id length_take min.absorb4 prefixE)
next
  assume "\<exists>pre post. src = pre @ pat @ post \<and> length pre = i"
  then obtain pre post where t: "src = pre @ pat @ post" "length pre = i" by blast
  then have "prefix pat (drop i src)" "i < length src" using assms(2) by auto
  then show "i \<in> set (overlapping_match_indices src pat)"
    using match_boundary [OF assms] by (simp add: overlapping_match_indices_def)
qed

lemma replace_first_at:
  assumes "src = pre @ pat @ post" "pat \<noteq> []"
    "\<And>pre' post'. src = pre' @ pat @ post' \<Longrightarrow> length pre \<le> length pre'"
  shows "replace_first pat repl src = pre @ repl @ post"
  using assms
proof (induction pre arbitrary: src)
  case Nil
  then show ?case by (cases pat) auto
next
  case (Cons c pre)
  have np: "\<not> prefix pat src"
  proof
    assume "prefix pat src"
    then obtain z where "src = [] @ pat @ z" by (auto elim: prefixE)
    then show False using Cons.prems(3) [of "[]" z] by simp
  qed
  have "replace_first pat repl (pre @ pat @ post) = pre @ repl @ post"
  proof (rule Cons.IH [OF refl Cons.prems(2)])
    fix pre' post'
    assume "pre @ pat @ post = pre' @ pat @ post'"
    then show "length pre \<le> length pre'"
      using Cons.prems(3) [of "c # pre'" post'] Cons.prems(1) by simp
  qed
  then show ?case using np Cons.prems(1) by simp
qed

text \<open>
  The specification of a hunk sequence: every hunk finds its text at exactly one position of
  what the hunks before it produced, and only that occurrence is replaced.
\<close>

definition occurs_once :: "string \<Rightarrow> string \<Rightarrow> string \<Rightarrow> string \<Rightarrow> bool" where
  "occurs_once src pat pre post \<longleftrightarrow> src = pre @ pat @ post
     \<and> (\<forall>pre' post'. src = pre' @ pat @ post' \<longrightarrow> pre' = pre)"

inductive hunks_applied :: "string \<Rightarrow> edit_hunk list \<Rightarrow> string \<Rightarrow> bool" where
  no_hunk: "hunks_applied src [] src"
| one_hunk: "hunk_find h \<noteq> '''' \<Longrightarrow> occurs_once src (hunk_find h) pre post
    \<Longrightarrow> hunks_applied (pre @ hunk_replace h @ post) hs out
    \<Longrightarrow> hunks_applied src (h # hs) out"

inductive_cases hunks_applied_Nil: "hunks_applied src [] out"
inductive_cases hunks_applied_Cons: "hunks_applied src (h # hs) out"

lemma single_match:
  assumes "utf8_valid pat" "pat \<noteq> []" "overlapping_match_indices src pat = [i]"
  shows "\<exists>pre post. occurs_once src pat pre post
    \<and> (\<forall>repl. replace_first pat repl src = pre @ repl @ post)"
proof -
  note mp = match_positions [OF assms(1,2), of _ src, unfolded assms(3)]
  obtain pre post where t: "src = pre @ pat @ post" "length pre = i" using mp [of i] by auto
  have u: "length pre' = i" if "src = pre' @ pat @ post'" for pre' post'
    using mp [of "length pre'"] that by auto
  have "pre' = pre" if "src = pre' @ pat @ post'" for pre' post'
    using u [OF that] t that by simp
  moreover have "replace_first pat repl src = pre @ repl @ post" for repl
    using replace_first_at [OF t(1) assms(2)] u t(2) by simp
  ultimately show ?thesis using t(1) unfolding occurs_once_def by blast
qed

lemma unique_match:
  assumes "utf8_valid pat" "pat \<noteq> []" "occurs_once src pat pre post"
  shows "overlapping_match_indices src pat = [length pre]"
proof -
  let ?is = "overlapping_match_indices src pat"
  have occ: "(\<exists>pre' post'. src = pre' @ pat @ post' \<and> length pre' = i) \<longleftrightarrow> i = length pre" for i
    using assms(3) unfolding occurs_once_def by metis
  have set: "set ?is = {length pre}"
    unfolding set_eq_iff match_positions [OF assms(1,2)] occ by simp
  moreover have "distinct ?is" by (simp add: overlapping_match_indices_def)
  ultimately have "length ?is = 1" using distinct_card by fastforce
  then show ?thesis using set by (cases ?is) auto
qed

lemma apply_hunks_from_iff:
  assumes "\<forall>h \<in> set hs. utf8_valid (hunk_find h)"
  shows "apply_hunks_from path src hs = Inr out \<longleftrightarrow> hunks_applied src hs out"
  using assms
proof (induction hs arbitrary: src)
  case Nil
  then show ?case by (auto intro: no_hunk elim: hunks_applied_Nil)
next
  case (Cons h hs)
  have v: "utf8_valid (hunk_find h)"
    and IH: "\<And>t. apply_hunks_from path t hs = Inr out \<longleftrightarrow> hunks_applied t hs out"
    using Cons by simp_all
  show ?case
  proof
    assume "apply_hunks_from path src (h # hs) = Inr out"
    then obtain i where ne: "hunk_find h \<noteq> ''''"
      and one: "overlapping_match_indices src (hunk_find h) = [i]"
      and rest: "hunks_applied (replace_first (hunk_find h) (hunk_replace h) src) hs out"
      by (auto simp: IH split: if_splits list.splits)
    then show "hunks_applied src (h # hs) out"
      using single_match [OF v ne one] by (metis one_hunk)
  next
    assume "hunks_applied src (h # hs) out"
    then obtain pre post where ne: "hunk_find h \<noteq> ''''"
      and u: "occurs_once src (hunk_find h) pre post"
      and rest: "hunks_applied (pre @ hunk_replace h @ post) hs out"
      by (auto elim: hunks_applied_Cons)
    have one: "overlapping_match_indices src (hunk_find h) = [length pre]"
      by (rule unique_match [OF v ne u])
    have "replace_first (hunk_find h) (hunk_replace h) src = pre @ hunk_replace h @ post"
      using replace_first_at [of src pre "hunk_find h" post] u ne
      unfolding occurs_once_def by blast
    then show "apply_hunks_from path src (h # hs) = Inr out"
      using ne one rest by (simp add: IH)
  qed
qed
section \<open>Facts about previews\<close>

lemma length_diff_marker [simp]: "length diff_marker = 18"
  by (simp add: diff_marker_def)

lemma truncate_diff_summary_bounds:
  assumes "truncate_diff_summary summary max_bytes = (out, truncated, bytes)"
  shows "length out \<le> max_bytes" "bytes = length out" "truncated \<longleftrightarrow> length summary > max_bytes"
    "\<not> truncated \<Longrightarrow> out = summary"
proof -
  have a: "floor_boundary diff_marker max_bytes \<le> max_bytes"
    and b: "floor_boundary summary (max_bytes - 18) \<le> max_bytes - 18" by simp_all
  show "length out \<le> max_bytes"
    using assms a b by (auto simp: truncate_diff_summary_def Let_def min_def simp del: floor_boundary_le split: if_splits)
qed (use assms in \<open>auto simp: truncate_diff_summary_def Let_def split: if_splits\<close>)

text \<open>What a prepared operation records of the content it will write.\<close>

fun payload_agrees :: "edit_env \<Rightarrow> prepared_operation \<Rightarrow> apply_payload \<Rightarrow> bool" where
  "payload_agrees env (PreparedModify _ _ _ sha _ n _) (ModifyPayload c) \<longleftrightarrow>
     sha = sha256_hex env c \<and> n = length c"
| "payload_agrees env (PreparedCreate _ _ sha n) (CreatePayload c) \<longleftrightarrow>
     sha = sha256_hex env c \<and> n = length c"
| "payload_agrees env _ _ \<longleftrightarrow> False"

text \<open>Where the target of a prepared operation is: below the root, at no protected place.\<close>

definition target_confined :: "resource_root \<Rightarrow> prepared_operation \<Rightarrow> bool" where
  "target_confined root op \<longleftrightarrow>
     (\<exists>ns. ns \<noteq> [] \<and> (\<forall>n \<in> set ns. valid_name n) \<and> p_relative_path op = join_slash ns
        \<and> p_resolved_path op = canonical_path root @ ns
        \<and> \<not> sensitive_denies root (join_slash ns)
        \<and> reject_metadata_path (join_slash ns) ns = Inr ())"

text \<open>What a prepared operation promises about the file system it was prepared in.\<close>

inductive operation_previewed ::
  "edit_env \<Rightarrow> fs \<Rightarrow> edit_policy \<Rightarrow> edit_operation \<Rightarrow> prepared_operation \<Rightarrow> apply_payload \<Rightarrow> bool"
  for env s policy where
  previewed_create: "allow_create policy \<Longrightarrow> nodes s (p_resolved_path op) = None
    \<Longrightarrow> op = PreparedCreate relative p sha n
    \<Longrightarrow> operation_previewed env s policy (CreateTextFile path c) op (CreatePayload c)"
| previewed_modify: "allow_modify policy \<Longrightarrow> nodes s p = Some (File before m)
    \<Longrightarrow> expected = sha256_hex env before \<Longrightarrow> apply_hunks relative before hunks = Inr after
    \<Longrightarrow> operation_previewed env s policy (ModifyTextFile path expected hunks)
          (PreparedModify relative p expected sha (length before) n (length hunks))
          (ModifyPayload after)"
| previewed_replace: "allow_modify policy \<Longrightarrow> nodes s p = Some (File before m)
    \<Longrightarrow> expected = sha256_hex env before
    \<Longrightarrow> operation_previewed env s policy (ReplaceTextFile path expected c)
          (PreparedModify relative p expected sha (length before) n (Suc 0))
          (ModifyPayload c)"

lemma reject_duplicate_target_Inr [result_simps]:
  "reject_duplicate_target seen r = Inr seen' \<longleftrightarrow> r \<notin> set seen \<and> seen' = r # seen"
  by (auto simp: reject_duplicate_target_def)

definition operation_ok where
  "operation_ok env root s policy op prepared payload \<longleftrightarrow>
     operation_previewed env s policy op prepared payload \<and> target_confined root prepared
     \<and> payload_agrees env prepared payload \<and> length (payload_content payload) \<le> max_file_bytes policy"

lemma confined_target:
  assumes "validate_relative_path path = Inr ns" "\<not> sensitive_denies root (join_slash ns)"
    "p_relative_path op = join_slash ns" "p_resolved_path op = canonical_path root @ ns"
  shows "target_confined root op"
  unfolding target_confined_def
  using validate_relative_path_Inr [OF assms(1)] assms(2-) by blast

lemma preview_operation_Inr:
  assumes wf: "wf_tree (nodes s)"
    and res: "preview_operation env root s policy seen op = Inr (prepared, payload, diff, seen')"
  shows "operation_ok env root s policy op prepared payload"
    "p_relative_path prepared \<notin> set seen" "seen' = p_relative_path prepared # seen"
proof -
  have "operation_ok env root s policy op prepared payload
    \<and> p_relative_path prepared \<notin> set seen \<and> seen' = p_relative_path prepared # seen"
  proof (cases op)
    case (CreateTextFile path c)
    then obtain relative p where r: "resolve_create_target root (nodes s) path = Inr (relative, p)"
      and b: "allow_create policy" "length c \<le> max_file_bytes policy" "relative \<notin> set seen"
      and out: "prepared = PreparedCreate relative p (sha256_hex env c) (length c)"
        "payload = CreatePayload c" "seen' = relative # seen"
      using res by (auto simp: result_simps)
    from r show ?thesis
      by (rule resolve_create_target_Inr [OF wf])
        (use b out CreateTextFile in \<open>auto simp: operation_ok_def intro!: confined_target previewed_create\<close>)
  next
    case (ModifyTextFile path expected hunks)
    then obtain relative p before after where
      r: "read_existing_text root s path policy = Inr (relative, p, before)"
      and b: "allow_modify policy" "length after \<le> max_file_bytes policy" "relative \<notin> set seen"
        "sha256_hex env before = expected" "apply_hunks relative before hunks = Inr after"
      and out: "prepared = PreparedModify relative p expected (sha256_hex env after)
          (length before) (length after) (length hunks)"
        "payload = ModifyPayload after" "seen' = relative # seen"
      using res by (auto simp: result_simps Let_def)
    from r show ?thesis
      by (rule read_existing_text_Inr [OF wf])
        (use b out ModifyTextFile in \<open>auto simp: operation_ok_def intro!: confined_target previewed_modify\<close>)
  next
    case (ReplaceTextFile path expected c)
    then obtain relative p before where
      r: "read_existing_text root s path policy = Inr (relative, p, before)"
      and b: "allow_modify policy" "length c \<le> max_file_bytes policy" "relative \<notin> set seen"
        "sha256_hex env before = expected"
      and out: "prepared = PreparedModify relative p expected (sha256_hex env c)
          (length before) (length c) 1"
        "payload = ModifyPayload c" "seen' = relative # seen"
      using res by (auto simp: result_simps Let_def)
    from r show ?thesis
      by (rule read_existing_text_Inr [OF wf])
        (use b out ReplaceTextFile in \<open>auto simp: operation_ok_def intro!: confined_target previewed_replace\<close>)
  qed
  then show "operation_ok env root s policy op prepared payload"
    "p_relative_path prepared \<notin> set seen" "seen' = p_relative_path prepared # seen"
    by simp_all
qed

text \<open>The loop over the operations of a request, one line per operation.\<close>

inductive all_previewed ::
  "edit_env \<Rightarrow> resource_root \<Rightarrow> fs \<Rightarrow> edit_policy
   \<Rightarrow> edit_operation list \<Rightarrow> prepared_operation list \<Rightarrow> apply_payload list \<Rightarrow> bool"
  for env root s policy where
  previewed_none: "all_previewed env root s policy [] [] []"
| previewed_more: "operation_ok env root s policy op prepared payload
    \<Longrightarrow> all_previewed env root s policy ops prepareds payloads
    \<Longrightarrow> all_previewed env root s policy (op # ops) (prepared # prepareds) (payload # payloads)"

lemma all_previewed_lengths:
  "all_previewed env root s policy ops prepareds payloads \<Longrightarrow>
   length prepareds = length ops \<and> length payloads = length ops"
  by (induction rule: all_previewed.induct) auto

lemma preview_operations_Inr:
  assumes "wf_tree (nodes s)"
    and "preview_operations env root s policy seen ops = Inr (prepareds, payloads, diff)"
  shows "all_previewed env root s policy ops prepareds payloads
    \<and> distinct (map p_relative_path prepareds)
    \<and> set (map p_relative_path prepareds) \<inter> set seen = {}"
  using assms(2)
proof (induction ops arbitrary: seen prepareds payloads diff)
  case Nil
  then show ?case by (auto intro: previewed_none)
next
  case (Cons op ops)
  then obtain a b c seen' as bs cs where
    h: "preview_operation env root s policy seen op = Inr (a, b, c, seen')"
    and t: "preview_operations env root s policy seen' ops = Inr (as, bs, cs)"
    and out: "prepareds = a # as" "payloads = b # bs"
    by (auto simp: result_simps)
  show ?case
    using preview_operation_Inr [OF assms(1) h] Cons.IH [OF t] out
    by (auto intro: previewed_more)
qed

lemma target_confined_distinct:
  assumes "\<forall>op \<in> set ops. target_confined root op" "distinct (map p_relative_path ops)"
  shows "distinct (map p_resolved_path ops)"
proof -
  have "p_relative_path a = p_relative_path b"
    if ab: "target_confined root a" "target_confined root b" "p_resolved_path a = p_resolved_path b" for a b
    using ab by (auto simp: target_confined_def)
  then have "inj_on p_resolved_path (set ops)"
    using assms by (auto simp: distinct_map inj_on_def)
  then show ?thesis
    using assms(2) by (simp add: distinct_map)
qed

text \<open>The diff summary is a bounded text.\<close>

interpretation diff_cut: bounded_text "\<lambda>n s. fst (truncate_diff_summary s n)"
proof
  fix n s
  have marker: "utf8_valid diff_marker" by (rule utf8_valid_ascii) (simp add: diff_marker_def)
  show "length (fst (truncate_diff_summary s n)) \<le> n"
    using truncate_diff_summary_bounds(1) by (metis prod.collapse)
  show "utf8_valid (fst (truncate_diff_summary s n))" if "utf8_valid s"
    using that marker by (simp add: truncate_diff_summary_def Let_def utf8_valid_append
        utf8_valid_take floor_boundary_boundary)
  show "length s \<le> n \<Longrightarrow> fst (truncate_diff_summary s n) = s"
    by (simp add: truncate_diff_summary_def)
qed

lemma all_previewed_confined:
  "all_previewed env root s policy ops prepareds payloads \<Longrightarrow> \<forall>op \<in> set prepareds. target_confined root op"
  by (induction rule: all_previewed.induct) (auto simp: operation_ok_def)

end
