(* ===== verification/Edit_Apply.thy ===== *)
theory Edit_Apply
  imports Edit
begin

text \<open>
  The second half of \<^verbatim>\<open>yach-backend/src/edit.rs\<close>: how a prepared transaction is applied.
  One operation is written to a temporary file and published by a hard link (create) or a
  rename (modify); several operations are staged first, revalidated, published one after
  the other and rolled back from backups when a publication fails. Every call can fail. A
  hard link copies the node: no modelled call writes into a file that has been linked, so
  the two names cannot be told apart later.
\<close>

section \<open>Steps with errors\<close>

type_synonym 'a io = "fs \<Rightarrow> (edit_error, 'a) result \<times> fs"

definition io_bind :: "'a io \<Rightarrow> ('a \<Rightarrow> 'b io) \<Rightarrow> 'b io" where
  "io_bind m f s = (case m s of (Inl e, t) \<Rightarrow> (Inl e, t) | (Inr x, t) \<Rightarrow> f x t)"

text \<open>A computation that only reads, and a writing call whose failure is an error.\<close>

definition reading :: "(fs \<Rightarrow> (edit_error, 'a) result) \<Rightarrow> 'a io" where
  "reading f s = (f s, s)"

definition attempt :: "edit_error \<Rightarrow> (fs \<Rightarrow> bool \<times> fs) \<Rightarrow> unit io" where
  "attempt e call s = (case call s of (ok, t) \<Rightarrow> (fail_if (\<not> ok) e, t))"

definition failing :: "edit_error \<Rightarrow> 'a io" where
  "failing e = reading (\<lambda>_. Inl e)"

definition guard :: "bool \<Rightarrow> edit_error \<Rightarrow> unit io" where
  "guard bad e = reading (\<lambda>_. fail_if bad e)"

text \<open>\<^verbatim>\<open>if let Err(error) = m { cleanup; return Err(error) }\<close>\<close>

definition on_error :: "'a io \<Rightarrow> (fs \<Rightarrow> fs) \<Rightarrow> 'a io" where
  "on_error m undo s = (case m s of (Inl e, t) \<Rightarrow> (Inl e, undo t) | (Inr x, t) \<Rightarrow> (Inr x, t))"

section \<open>Data\<close>

datatype applied_operation =
    AppliedModify (a_relative_path: string) (a_before_sha256: string) (a_after_sha256: string)
      (a_before_bytes: nat) (a_after_bytes: nat) (a_hunk_count: nat) (a_bytes_written: nat)
  | AppliedCreate (a_relative_path: string) (a_after_sha256: string) (a_after_bytes: nat)
      (a_bytes_written: nat)

datatype edit_apply_outcome = Completed

record edit_apply_result =
  r_transaction_id :: string
  r_outcome :: edit_apply_outcome
  r_operations :: "applied_operation list"
  r_operation_count :: nat
  r_diff_summary :: string
  r_diff_summary_truncated :: bool
  r_diff_summary_bytes :: nat

datatype staged_operation_kind = StagedCreate | StagedModify (backup_path: spath)

record staged_operation =
  s_relative_path :: string
  s_resolved_path :: spath
  s_temp_path :: spath
  s_expected_before_sha256 :: "string option"
  s_kind :: staged_operation_kind
  s_applied :: applied_operation

section \<open>Temporary files\<close>

definition file_name_or_target :: "spath \<Rightarrow> string" where
  "file_name_or_target p = (if p = [] \<or> \<not> utf8_valid (last p) then ''target'' else last p)"

definition temp_path_for :: "edit_env \<Rightarrow> spath \<Rightarrow> string \<Rightarrow> spath" where
  "temp_path_for env target tx = butlast target
     @ [''.'' @ file_name_or_target target @ ''.'' @ tx @ ''.'' @ show_nat (process_id env) @ ''.tmp'']"

definition backup_path_for :: "edit_env \<Rightarrow> spath \<Rightarrow> string \<Rightarrow> spath" where
  "backup_path_for env target tx = butlast target
     @ [''.'' @ file_name_or_target target @ ''.'' @ tx @ ''.'' @ show_nat (process_id env) @ ''.bak'']"

definition write_temp_file :: "spath \<Rightarrow> string \<Rightarrow> nat option \<Rightarrow> string \<Rightarrow> unit io" where
  "write_temp_file temp bytes permissions relative =
     io_bind (attempt (Io relative) (fs_create_new temp)) (\<lambda>_.
     io_bind (case permissions of
                None \<Rightarrow> guard False (Io relative)
              | Some m \<Rightarrow> attempt (Io relative) (fs_set_permissions temp m)) (\<lambda>_.
     io_bind (attempt (Io relative) (fs_write_all temp bytes)) (\<lambda>_.
       attempt (Io relative) fs_sync_all)))"

definition cleanup_temp_file :: "spath \<Rightarrow> fs \<Rightarrow> fs" where
  "cleanup_temp_file p s = snd (fs_remove_file p s)"

section \<open>One operation\<close>

definition fresh_create_target :: "resource_root \<Rightarrow> string \<Rightarrow> (string \<times> spath) io" where
  "fresh_create_target root path = reading (\<lambda>s. resolve_create_target root (nodes s) path)"

definition fresh_text ::
  "resource_root \<Rightarrow> string \<Rightarrow> edit_policy \<Rightarrow> (string \<times> spath \<times> string) io" where
  "fresh_text root path policy = reading (\<lambda>s. read_existing_text root s path policy)"

definition file_permissions :: "spath \<Rightarrow> string \<Rightarrow> nat io" where
  "file_permissions p relative = reading (\<lambda>s. ok_or (case fs_metadata (nodes s) p of
     Some (File _ m) \<Rightarrow> Some m | Some _ \<Rightarrow> Some 0 | None \<Rightarrow> None) (Io relative))"

definition publish_created :: "string \<Rightarrow> spath \<Rightarrow> spath \<Rightarrow> unit io" where
  "publish_created relative temp resolved s =
     (let (linked, t) = fs_hard_link temp resolved s; u = cleanup_temp_file temp t in
      if linked then (Inr (), u)
      else if symlink_metadata (nodes u) resolved \<noteq> None then (Inl (TargetExists relative), u)
      else (Inl (Io relative), u))"

definition apply_create_operation ::
  "edit_env \<Rightarrow> resource_root \<Rightarrow> string \<Rightarrow> string \<Rightarrow> spath \<Rightarrow> string \<Rightarrow> nat \<Rightarrow> string \<Rightarrow> edit_policy
   \<Rightarrow> applied_operation io" where
  "apply_create_operation env root tx relative resolved after_sha after_len src policy =
     io_bind (guard (\<not> allow_create policy) CreateDisabled) (\<lambda>_.
     io_bind (guard (length src > max_file_bytes policy)
                (FileTooLarge relative (max_file_bytes policy) (length src))) (\<lambda>_.
     io_bind (fresh_create_target root relative) (\<lambda>(fresh_relative, fresh_resolved).
     io_bind (guard (fresh_relative \<noteq> relative \<or> fresh_resolved \<noteq> resolved)
                (PathOutsideRoot relative)) (\<lambda>_.
     io_bind (guard (sha256_hex env src \<noteq> after_sha \<or> length src \<noteq> after_len)
                (HashMismatch relative after_sha (sha256_hex env src))) (\<lambda>_.
     io_bind (fresh_create_target root relative) (\<lambda>(_, fresh_resolved).
     io_bind (guard (fresh_resolved \<noteq> resolved) (PathOutsideRoot relative)) (\<lambda>_.
     let temp = temp_path_for env resolved tx in
     io_bind (on_error (write_temp_file temp src None relative) (cleanup_temp_file temp)) (\<lambda>_.
     io_bind (fresh_create_target root relative) (\<lambda>(_, fresh_resolved).
     io_bind (on_error (guard (fresh_resolved \<noteq> resolved) (PathOutsideRoot relative))
                (cleanup_temp_file temp)) (\<lambda>_.
     io_bind (publish_created relative temp resolved) (\<lambda>_.
     reading (\<lambda>_. Inr (AppliedCreate relative after_sha after_len (length src))))))))))))))"

definition apply_modify_operation ::
  "edit_env \<Rightarrow> resource_root \<Rightarrow> string \<Rightarrow> string \<Rightarrow> spath \<Rightarrow> string \<Rightarrow> string \<Rightarrow> nat \<Rightarrow> nat \<Rightarrow> nat
   \<Rightarrow> string \<Rightarrow> edit_policy \<Rightarrow> applied_operation io" where
  "apply_modify_operation env root tx relative resolved before_sha after_sha before_len after_len
       hunk_count src policy =
     io_bind (guard (\<not> allow_modify policy) ModifyDisabled) (\<lambda>_.
     io_bind (fresh_text root relative policy) (\<lambda>(fresh_relative, fresh_resolved, current).
     io_bind (guard (fresh_relative \<noteq> relative \<or> fresh_resolved \<noteq> resolved)
                (PathOutsideRoot relative)) (\<lambda>_.
     io_bind (guard (sha256_hex env current \<noteq> before_sha)
                (HashMismatch relative before_sha (sha256_hex env current))) (\<lambda>_.
     io_bind (guard (length current \<noteq> before_len)
                (HashMismatch relative before_sha (sha256_hex env current))) (\<lambda>_.
     io_bind (guard (sha256_hex env src \<noteq> after_sha \<or> length src \<noteq> after_len)
                (HashMismatch relative after_sha (sha256_hex env src))) (\<lambda>_.
     io_bind (guard (length src > max_file_bytes policy)
                (FileTooLarge relative (max_file_bytes policy) (length src))) (\<lambda>_.
     io_bind (fresh_text root relative policy) (\<lambda>(_, final_resolved, final_text).
     io_bind (guard (final_resolved \<noteq> resolved) (PathOutsideRoot relative)) (\<lambda>_.
     io_bind (guard (sha256_hex env final_text \<noteq> before_sha)
                (HashMismatch relative before_sha (sha256_hex env final_text))) (\<lambda>_.
     io_bind (file_permissions resolved relative) (\<lambda>permissions.
     let temp = temp_path_for env resolved tx in
     io_bind (on_error (write_temp_file temp src (Some permissions) relative)
                (cleanup_temp_file temp)) (\<lambda>_.
     io_bind (fresh_text root relative policy) (\<lambda>(_, final_resolved, final_text).
     io_bind (on_error (guard (final_resolved \<noteq> resolved) (PathOutsideRoot relative))
                (cleanup_temp_file temp)) (\<lambda>_.
     io_bind (on_error (guard (sha256_hex env final_text \<noteq> before_sha)
                (HashMismatch relative before_sha (sha256_hex env final_text)))
                (cleanup_temp_file temp)) (\<lambda>_.
     io_bind (on_error (attempt (Io relative) (fs_rename temp resolved))
                (cleanup_temp_file temp)) (\<lambda>_.
     reading (\<lambda>_. Inr (AppliedModify relative before_sha after_sha before_len after_len
       hunk_count (length src)))))))))))))))))))"

section \<open>Several operations\<close>

fun stage_operation ::
  "edit_env \<Rightarrow> resource_root \<Rightarrow> string \<Rightarrow> edit_policy \<Rightarrow> prepared_operation \<Rightarrow> apply_payload
   \<Rightarrow> staged_operation io" where
  "stage_operation env root tx policy
       (PreparedCreate relative resolved after_sha after_len) (CreatePayload src) =
     io_bind (guard (\<not> allow_create policy) CreateDisabled) (\<lambda>_.
     io_bind (fresh_create_target root relative) (\<lambda>(fresh_relative, fresh_resolved).
     io_bind (guard (fresh_relative \<noteq> relative \<or> fresh_resolved \<noteq> resolved)
                (PathOutsideRoot relative)) (\<lambda>_.
     io_bind (guard (sha256_hex env src \<noteq> after_sha \<or> length src \<noteq> after_len)
                (HashMismatch relative after_sha (sha256_hex env src))) (\<lambda>_.
     let temp = temp_path_for env resolved tx in
     io_bind (on_error (write_temp_file temp src None relative) (cleanup_temp_file temp)) (\<lambda>_.
     reading (\<lambda>_. Inr \<lparr>s_relative_path = relative, s_resolved_path = resolved,
       s_temp_path = temp, s_expected_before_sha256 = None, s_kind = StagedCreate,
       s_applied = AppliedCreate relative after_sha after_len (length src)\<rparr>))))))"
| "stage_operation env root tx policy
       (PreparedModify relative resolved before_sha after_sha before_len after_len hunk_count)
       (ModifyPayload src) =
     io_bind (guard (\<not> allow_modify policy) ModifyDisabled) (\<lambda>_.
     io_bind (fresh_text root relative policy) (\<lambda>(fresh_relative, fresh_resolved, current).
     io_bind (guard (fresh_relative \<noteq> relative \<or> fresh_resolved \<noteq> resolved)
                (PathOutsideRoot relative)) (\<lambda>_.
     io_bind (guard (sha256_hex env current \<noteq> before_sha \<or> length current \<noteq> before_len)
                (HashMismatch relative before_sha (sha256_hex env current))) (\<lambda>_.
     io_bind (guard (sha256_hex env src \<noteq> after_sha \<or> length src \<noteq> after_len)
                (HashMismatch relative after_sha (sha256_hex env src))) (\<lambda>_.
     io_bind (file_permissions resolved relative) (\<lambda>permissions.
     let temp = temp_path_for env resolved tx; backup = backup_path_for env resolved tx in
     io_bind (on_error (write_temp_file temp src (Some permissions) relative)
                (cleanup_temp_file temp)) (\<lambda>_.
     io_bind (on_error (attempt (Io relative) (fs_hard_link resolved backup))
                (\<lambda>s. cleanup_temp_file backup (cleanup_temp_file temp s))) (\<lambda>_.
     reading (\<lambda>_. Inr \<lparr>s_relative_path = relative, s_resolved_path = resolved,
       s_temp_path = temp, s_expected_before_sha256 = Some before_sha,
       s_kind = StagedModify backup,
       s_applied = AppliedModify relative before_sha after_sha before_len after_len hunk_count
         (length src)\<rparr>)))))))))"
| "stage_operation env root tx policy _ _ = failing (Io ''<edit-transaction>'')"

definition revalidate_staged_operation ::
  "edit_env \<Rightarrow> resource_root \<Rightarrow> edit_policy \<Rightarrow> staged_operation \<Rightarrow> unit io" where
  "revalidate_staged_operation env root policy op =
     (case s_expected_before_sha256 op of
        None \<Rightarrow>
          io_bind (fresh_create_target root (s_relative_path op)) (\<lambda>(relative, resolved).
            guard (relative \<noteq> s_relative_path op \<or> resolved \<noteq> s_resolved_path op)
              (PathOutsideRoot (s_relative_path op)))
      | Some expected \<Rightarrow>
          io_bind (fresh_text root (s_relative_path op) policy) (\<lambda>(relative, resolved, current).
          io_bind (guard (relative \<noteq> s_relative_path op \<or> resolved \<noteq> s_resolved_path op)
              (PathOutsideRoot (s_relative_path op))) (\<lambda>_.
            guard (sha256_hex env current \<noteq> expected)
              (HashMismatch (s_relative_path op) expected (sha256_hex env current)))))"

definition cleanup_staged_operation :: "staged_operation \<Rightarrow> fs \<Rightarrow> fs" where
  "cleanup_staged_operation op s =
     (case s_kind op of
        StagedCreate \<Rightarrow> cleanup_temp_file (s_temp_path op) s
      | StagedModify backup \<Rightarrow> cleanup_temp_file backup (cleanup_temp_file (s_temp_path op) s))"

definition cleanup_staged_operations :: "staged_operation list \<Rightarrow> fs \<Rightarrow> fs" where
  "cleanup_staged_operations ops s = fold cleanup_staged_operation ops s"

definition rollback_staged_operation :: "staged_operation \<Rightarrow> fs \<Rightarrow> fs" where
  "rollback_staged_operation op s =
     (case s_kind op of
        StagedCreate \<Rightarrow> snd (fs_remove_file (s_resolved_path op) s)
      | StagedModify backup \<Rightarrow> snd (fs_rename backup (s_resolved_path op) s))"

definition rollback_staged_operations :: "staged_operation list \<Rightarrow> fs \<Rightarrow> fs" where
  "rollback_staged_operations ops s = fold rollback_staged_operation (rev ops) s"

fun stage_operations ::
  "edit_env \<Rightarrow> resource_root \<Rightarrow> string \<Rightarrow> edit_policy \<Rightarrow> staged_operation list
   \<Rightarrow> (prepared_operation \<times> apply_payload) list \<Rightarrow> staged_operation list io" where
  "stage_operations env root tx policy staged [] = reading (\<lambda>_. Inr staged)"
| "stage_operations env root tx policy staged ((op, payload) # rest) =
     io_bind (on_error (stage_operation env root tx policy op payload)
                (cleanup_staged_operations staged)) (\<lambda>st.
       stage_operations env root tx policy (staged @ [st]) rest)"

fun revalidate_staged ::
  "edit_env \<Rightarrow> resource_root \<Rightarrow> edit_policy \<Rightarrow> staged_operation list \<Rightarrow> staged_operation list
   \<Rightarrow> unit io" where
  "revalidate_staged env root policy staged [] = guard False (Io '''')"
| "revalidate_staged env root policy staged (op # ops) =
     io_bind (on_error (revalidate_staged_operation env root policy op)
                (cleanup_staged_operations staged)) (\<lambda>_.
       revalidate_staged env root policy staged ops)"

definition publish_operation :: "staged_operation \<Rightarrow> fs \<Rightarrow> bool \<times> fs" where
  "publish_operation op =
     (case s_kind op of
        StagedCreate \<Rightarrow> fs_hard_link (s_temp_path op) (s_resolved_path op)
      | StagedModify _ \<Rightarrow> fs_rename (s_temp_path op) (s_resolved_path op))"

fun publish_staged ::
  "staged_operation list \<Rightarrow> staged_operation list \<Rightarrow> staged_operation list \<Rightarrow> unit io" where
  "publish_staged staged published [] = guard False (Io '''')"
| "publish_staged staged published (op # ops) =
     io_bind (on_error (attempt (Io (s_relative_path op)) (publish_operation op))
                (\<lambda>s. cleanup_staged_operations staged (rollback_staged_operations published s))) (\<lambda>_.
       publish_staged staged (published @ [op]) ops)"

definition apply_result ::
  "prepared_transaction \<Rightarrow> applied_operation list \<Rightarrow> edit_apply_result" where
  "apply_result tx applied =
     \<lparr>r_transaction_id = transaction_id tx, r_outcome = Completed, r_operations = applied,
      r_operation_count = length (operations tx), r_diff_summary = diff_summary tx,
      r_diff_summary_truncated = diff_summary_truncated tx,
      r_diff_summary_bytes = diff_summary_bytes tx\<rparr>"

definition apply_multiple_operations_atomically ::
  "edit_env \<Rightarrow> resource_root \<Rightarrow> prepared_transaction \<Rightarrow> edit_policy \<Rightarrow> edit_apply_result io" where
  "apply_multiple_operations_atomically env root tx policy =
     io_bind (guard (length (operations tx) > max_operations policy)
                (TooManyOperations (max_operations policy) (length (operations tx)))) (\<lambda>_.
     io_bind (guard (length (apply_payloads tx) \<noteq> length (operations tx))
                (Io ''<edit-transaction>'')) (\<lambda>_.
     io_bind (stage_operations env root (transaction_id tx) policy []
                (zip (operations tx) (apply_payloads tx))) (\<lambda>staged.
     io_bind (revalidate_staged env root policy staged staged) (\<lambda>_.
     io_bind (publish_staged staged [] staged) (\<lambda>_ s.
       (Inr (apply_result tx (map s_applied staged)), cleanup_staged_operations staged s))))))"

fun apply_operation ::
  "edit_env \<Rightarrow> resource_root \<Rightarrow> string \<Rightarrow> edit_policy \<Rightarrow> prepared_operation \<Rightarrow> apply_payload
   \<Rightarrow> applied_operation io" where
  "apply_operation env root tx policy
       (PreparedCreate relative resolved after_sha after_len) (CreatePayload src) =
     apply_create_operation env root tx relative resolved after_sha after_len src policy"
| "apply_operation env root tx policy
       (PreparedModify relative resolved before_sha after_sha before_len after_len hunk_count)
       (ModifyPayload src) =
     apply_modify_operation env root tx relative resolved before_sha after_sha before_len
       after_len hunk_count src policy"
| "apply_operation env root tx policy _ _ = failing (Io ''<edit-transaction>'')"

definition edit_apply ::
  "edit_env \<Rightarrow> resource_root \<Rightarrow> prepared_transaction \<Rightarrow> edit_policy \<Rightarrow> edit_apply_result io" where
  "edit_apply env root tx policy =
     (if operations tx = [] then failing EmptyTransaction
      else if length (operations tx) > 1 then apply_multiple_operations_atomically env root tx policy
      else
        io_bind (guard (length (operations tx) > max_operations policy)
                   (TooManyOperations (max_operations policy) (length (operations tx)))) (\<lambda>_.
        io_bind (guard (length (apply_payloads tx) \<noteq> length (operations tx))
                   (Io ''<edit-transaction>'')) (\<lambda>_.
        io_bind (apply_operation env root (transaction_id tx) policy
                   (hd (operations tx)) (hd (apply_payloads tx))) (\<lambda>applied.
        reading (\<lambda>_. Inr (apply_result tx [applied]))))))"

section \<open>Reasoning about steps\<close>

text \<open>Successful chains are inverted by \<open>result_simps\<close>, as for pure results.\<close>

lemma io_bind_Inr [result_simps]:
  "io_bind m f s = (Inr y, t) \<longleftrightarrow> (\<exists>x u. m s = (Inr x, u) \<and> f x u = (Inr y, t))"
  by (auto simp: io_bind_def split: prod.splits sum.splits)

lemma io_bind_Inl:
  "io_bind m f s = (Inl e, t) \<longleftrightarrow>
   m s = (Inl e, t) \<or> (\<exists>x u. m s = (Inr x, u) \<and> f x u = (Inl e, t))"
  by (auto simp: io_bind_def split: prod.splits sum.splits)

lemma reading_Inr [result_simps]: "reading f s = (r, t) \<longleftrightarrow> f s = r \<and> t = s"
  by (auto simp: reading_def)

lemma guard_Inr [result_simps]: "guard b e s = (Inr u, t) \<longleftrightarrow> \<not> b \<and> t = s"
  by (auto simp: guard_def result_simps)

lemma guard_False [simp]: "guard False e s = (Inr (), s)"
  by (simp add: guard_def reading_def)

lemma failing_Inr [result_simps]: "failing e s \<noteq> (Inr u, t)"
  by (simp add: failing_def reading_def)

lemma attempt_Inr [result_simps]: "attempt e call s = (Inr u, t) \<longleftrightarrow> call s = (True, t)"
  by (cases "call s") (auto simp: attempt_def fail_if_def)

lemma on_error_Inr [result_simps]: "on_error m undo s = (Inr x, t) \<longleftrightarrow> m s = (Inr x, t)"
  by (auto simp: on_error_def split: prod.splits sum.splits)

text \<open>What a step touches follows from its parts.\<close>

definition io_touches :: "'a io \<Rightarrow> spath set \<Rightarrow> bool" where
  "io_touches m A \<longleftrightarrow> fs_call (\<lambda>s. snd (m s)) A"

named_theorems touch_intros \<open>introduction rules for the paths a step touches\<close>

lemma touches_reading [touch_intros]: "io_touches (reading f) A"
  by (simp add: io_touches_def reading_def fs_call_id)

lemma touches_guard [touch_intros]: "io_touches (guard b e) A"
  by (simp add: guard_def touches_reading)

lemma touches_failing [touch_intros]: "io_touches (failing e) A"
  by (simp add: failing_def touches_reading)

lemma touches_attempt [touch_intros]:
  "fs_call (\<lambda>s. snd (call s)) A \<Longrightarrow> io_touches (attempt e call) A"
  by (simp add: io_touches_def attempt_def case_prod_beta)

lemma fs_call_after:
  assumes "fs_call (\<lambda>s. snd (m s)) A" "\<And>x. fs_call (g x) A"
  shows "fs_call (\<lambda>s. g (fst (m s)) (snd (m s))) A"
proof -
  have "fs_call (\<lambda>s. g x (snd (m s))) A" for x
    using fs_call_comp [OF assms(1) assms(2)] by simp
  then show ?thesis by (rule fs_call_branch)
qed

lemma touches_bind [touch_intros]:
  assumes "io_touches m A" "\<And>x. io_touches (f x) A"
  shows "io_touches (io_bind m f) A"
proof -
  let ?g = "\<lambda>r t. case r of Inl e \<Rightarrow> t | Inr x \<Rightarrow> snd (f x t)"
  have "fs_call (?g r) A" for r
    using assms(2) by (cases r) (auto simp: io_touches_def fs_call_id)
  then have "fs_call (\<lambda>s. ?g (fst (m s)) (snd (m s))) A"
    by (rule fs_call_after [where g = ?g and m = m, OF assms(1) [unfolded io_touches_def]])
  moreover have "snd (io_bind m f s) = ?g (fst (m s)) (snd (m s))" for s
    by (auto simp: io_bind_def split: prod.splits sum.splits)
  ultimately show ?thesis by (simp add: io_touches_def)
qed

lemma touches_on_error [touch_intros]:
  assumes "io_touches m A" "fs_call undo A"
  shows "io_touches (on_error m undo) A"
proof -
  let ?g = "\<lambda>r t. case r of Inl e \<Rightarrow> undo t | Inr x \<Rightarrow> t"
  have "fs_call (?g r) A" for r
    using assms(2) by (cases r) (auto simp: fs_call_id)
  then have "fs_call (\<lambda>s. ?g (fst (m s)) (snd (m s))) A"
    by (rule fs_call_after [where g = ?g and m = m, OF assms(1) [unfolded io_touches_def]])
  moreover have "snd (on_error m undo s) = ?g (fst (m s)) (snd (m s))" for s
    by (auto simp: on_error_def split: prod.splits sum.splits)
  ultimately show ?thesis by (simp add: io_touches_def)
qed

lemma touches_prod [touch_intros]:
  "(\<And>a b. io_touches (f a b) A) \<Longrightarrow> io_touches (case x of (a, b) \<Rightarrow> f a b) A"
  by (cases x) simp

text \<open>
  \<open>error_keeps m A\<close>: when \<open>m\<close> fails, only paths of \<open>A\<close> have changed, although \<open>m\<close> may
  touch more of them when it succeeds.
\<close>

definition error_keeps :: "'a io \<Rightarrow> spath set \<Rightarrow> bool" where
  "error_keeps m A \<longleftrightarrow> (\<forall>s e t p. m s = (Inl e, t) \<longrightarrow> p \<notin> A \<longrightarrow> nodes t p = nodes s p)"

named_theorems keep_intros \<open>introduction rules for what a failing step keeps\<close>

lemma touches_frame: "io_touches m A \<Longrightarrow> m s = (r, t) \<Longrightarrow> p \<notin> A \<Longrightarrow> nodes t p = nodes s p"
  unfolding io_touches_def by (metis fs_call.frame snd_conv)

lemma keeps_touches: "io_touches m A \<Longrightarrow> error_keeps m A"
  unfolding error_keeps_def using touches_frame by blast

lemma keeps_bind [keep_intros]:
  "io_touches m A \<Longrightarrow> (\<And>x. error_keeps (f x) A) \<Longrightarrow> error_keeps (io_bind m f) A"
  unfolding error_keeps_def io_bind_Inl using touches_frame by metis

lemma keeps_bind_return:
  assumes "error_keeps m A"
  shows "error_keeps (io_bind m (\<lambda>_. reading (\<lambda>_. Inr v))) A"
  using assms by (auto simp: error_keeps_def io_bind_Inl reading_def)

lemma keeps_prod [keep_intros]:
  "(\<And>a b. error_keeps (f a b) A) \<Longrightarrow> error_keeps (case x of (a, b) \<Rightarrow> f a b) A"
  by (cases x) simp

text \<open>Successes keep well-formedness and the oracles.\<close>

lemma touches_wf: "io_touches m A \<Longrightarrow> m s = (r, t) \<Longrightarrow> wf_tree (nodes s) \<Longrightarrow> wf_tree (nodes t)"
  unfolding io_touches_def using fs_call.keeps_wf by (metis snd_conv)

lemma touches_oracles: "io_touches m A \<Longrightarrow> m s = (r, t) \<Longrightarrow> same_oracles s t"
  unfolding io_touches_def by (metis fs_call.oracles snd_conv)

lemma touches_directories:
  "io_touches m A \<Longrightarrow> m s = (r, t) \<Longrightarrow> nodes t p = Some Directory \<longleftrightarrow> nodes s p = Some Directory"
  unfolding io_touches_def by (metis fs_call.directories snd_conv)

section \<open>Temporary files\<close>

lemma cleanup_touches [touch_intros]: "p \<in> A \<Longrightarrow> fs_call (cleanup_temp_file p) A"
  unfolding cleanup_temp_file_def
  using fs_call_mono [OF remove_file_call.fs_call_axioms, of p A] by simp

lemma cleanup_touches_two [touch_intros]:
  "p \<in> A \<Longrightarrow> q \<in> A \<Longrightarrow> fs_call (\<lambda>s. cleanup_temp_file p (cleanup_temp_file q s)) A"
  using fs_call_comp [OF cleanup_touches cleanup_touches, of q A p A] by simp

lemma write_temp_file_touches [touch_intros]:
  "p \<in> A \<Longrightarrow> io_touches (write_temp_file p bytes permissions relative) A"
  unfolding write_temp_file_def
  by (cases permissions)
    (auto intro!: touch_intros fs_call_mono [OF create_new_call.fs_call_axioms]
      fs_call_mono [OF set_permissions_call.fs_call_axioms]
      fs_call_mono [OF write_all_call.fs_call_axioms] fs_call_mono [OF sync_all_call.fs_call_axioms])

lemma write_temp_file_Inr:
  assumes "write_temp_file p bytes permissions relative s = (Inr u, t)"
  shows "nodes t p = Some (File bytes (case permissions of None \<Rightarrow> new_mode s | Some m \<Rightarrow> m))"
    "nodes s p = None" "can_hold (nodes s) p"
proof -
  let ?m = "case permissions of None \<Rightarrow> new_mode s | Some m \<Rightarrow> m"
  obtain s1 s2 s3 u2 where c: "fs_create_new p s = (True, s1)"
    and perm: "(case permissions of None \<Rightarrow> guard False (Io relative)
        | Some m \<Rightarrow> attempt (Io relative) (fs_set_permissions p m)) s1 = (Inr u2, s2)"
    and w: "fs_write_all p bytes s2 = (True, s3)" and y: "fs_sync_all s3 = (True, t)"
    using assms by (auto simp: write_temp_file_def result_simps)
  note cn = create_new_ok [OF c]
  have "nodes s2 p = Some (File '''' ?m)"
  proof (cases permissions)
    case None
    then show ?thesis using perm cn(1) by simp
  next
    case (Some m)
    then show ?thesis using perm set_permissions_ok [OF _ cn(1)] by (auto simp: attempt_Inr)
  qed
  then show "nodes t p = Some (File bytes ?m)"
    using write_all_ok [OF w] sync_all_ok [OF y] by simp
  show "nodes s p = None" "can_hold (nodes s) p" using cn(2,3) .
qed

section \<open>Complete resolution\<close>

text \<open>
  The converse of the inversion lemmas: a target that is there, readable and allowed is read,
  and one that is not there but could be is resolved. So reads depend only on the target
  and its directory.
\<close>

lemma symlinked_parent_from_complete:
  assumes "wf_tree N" "N (current @ parts) = Some Directory"
  shows "symlinked_parent_from N original current parts = Inr ()"
  using assms(2)
proof (induction parts arbitrary: current)
  case (Cons part parts)
  have "N (current @ [part]) = Some Directory"
    using Cons.prems wf_tree_prefix [OF assms(1), of "current @ [part]" parts]
    by (cases "parts = []") auto
  moreover have "N current = Some Directory"
    using Cons.prems wf_tree_prefix [OF assms(1), of current "part # parts"] by simp
  ultimately show ?case
    using Cons.IH [of "current @ [part]"] Cons.prems symlink_metadata_below [OF assms(1)] by simp
qed simp

lemma canonicalize_parent:
  assumes "wf_tree N" "\<forall>n \<in> set ns. valid_name n" "real_path N (root @ ns)" "ns = [] \<Longrightarrow> N root = Some Directory"
  shows "canonicalize N (map Normal root @ kernel_components (join_slash ns)) = Some (root @ ns)"
proof (cases "ns = []")
  case True
  then have "kernel_components (join_slash ns) = [CurDir]"
    by (simp add: kernel_components_def is_absolute_def)
  then show ?thesis
    using canonicalize_real_append [OF assms(1), of root "[CurDir]"] assms(3,4) True by simp
next
  case False
  then show ?thesis
    using canonicalize_real [OF assms(1,3)] assms(2) by (simp add: kernel_components_join_slash)
qed

lemma resolve_create_target_complete:
  assumes wf: "wf_tree N" and v: "validate_relative_path path = Inr ns"
    and sens: "\<not> sensitive_denies root (join_slash ns)"
    and none: "N (canonical_path root @ ns) = None"
    and dir: "N (butlast (canonical_path root @ ns)) = Some Directory"
  shows "resolve_create_target root N path = Inr (join_slash ns, canonical_path root @ ns)"
proof -
  let ?root = "canonical_path root"
  note vv = validate_relative_path_Inr [OF v]
  have d: "N (?root @ butlast ns) = Some Directory" using dir vv(1) by (simp add: butlast_append)
  have valid: "\<forall>n \<in> set (butlast ns). valid_name n" using vv(2) by (meson in_set_butlastD)
  have "canonicalize N (map Normal ?root @ kernel_components (join_slash (butlast ns)))
      = Some (?root @ butlast ns)"
    by (rule canonicalize_parent [OF wf valid]) (use d in auto)
  moreover have "symlinked_parent_from N path ?root (butlast ns) = Inr ()"
    by (rule symlinked_parent_from_complete [OF wf d])
  moreover have "is_dir N (?root @ butlast ns)" using d is_dir_real [OF wf] by simp
  moreover have "symlink_metadata N ((?root @ butlast ns) @ [last ns]) = None"
    using symlink_metadata_below [OF wf d, of "last ns"] none vv(1) by simp
  ultimately show ?thesis
    using v sens vv(1) by (simp add: resolve_create_target_def reject_sensitive_path_def
        reject_symlinked_parent_def path_to_slash_string_def Let_def)
qed

text \<open>A root that grants one file only serves that file.\<close>

definition root_grants :: "resource_root \<Rightarrow> spath \<Rightarrow> bool" where
  "root_grants root p \<longleftrightarrow> (root_kind root = ExactTarget \<longrightarrow> granted_target root = Some p)"

lemma read_existing_text_complete:
  assumes wf: "wf_tree (nodes s)" and v: "validate_relative_path path = Inr ns"
    and sens: "\<not> sensitive_denies root (join_slash ns)"
    and fil: "nodes s (canonical_path root @ ns) = Some (File src m)"
    and read: "\<not> deny_read s (canonical_path root @ ns)"
    and grants: "root_grants root (canonical_path root @ ns)"
    and fits: "length src \<le> max_file_bytes policy" "utf8_valid src"
  shows "read_existing_text root s path policy = Inr (join_slash ns, canonical_path root @ ns, src)"
proof -
  let ?root = "canonical_path root" and ?N = "nodes s"
  note vv = validate_relative_path_Inr [OF v]
  have real: "real_path ?N (?root @ ns)" using fil by (simp add: real_path_def)
  have d: "?N (?root @ butlast ns) = Some Directory"
    using wf_tree_parent [OF wf, of "?root @ ns"] fil vv(1) by (simp add: butlast_append)
  have c: "canonicalize ?N (map Normal ?root @ kernel_components (join_slash ns)) = Some (?root @ ns)"
    by (rule canonicalize_parent [OF wf vv(2) real]) (use vv(1) in simp)
  have "resolve_file root ?N (join_slash ns) = Inr (?root @ ns)"
    using c grants is_file_real [OF wf real] fil vv
    by (simp add: resolve_file_def resolve_existing_def not_absolute_join_slash root_grants_def
        fail_if_def)
  moreover have "symlinked_parent_from ?N path ?root (butlast ns) = Inr ()"
    by (rule symlinked_parent_from_complete [OF wf d])
  moreover have "symlink_metadata ?N (?root @ ns) = Some (File src m)"
    using symlink_metadata_real [OF wf, of "?root @ ns"] d fil vv(1) by (simp add: butlast_append)
  moreover have "fs_metadata ?N (?root @ ns) = Some (File src m)"
    using fs_metadata_real [OF wf real] fil by simp
  ultimately show ?thesis
    using v sens read fits
    by (simp add: read_existing_text_def reject_sensitive_path_def reject_symlinked_parent_def
        is_symlink_def fs_len_def fs_read_def path_to_slash_string_def)
qed

section \<open>One operation\<close>

lemma publish_created_error: "error_keeps (publish_created relative temp resolved) {temp}"
proof -
  have "nodes (cleanup_temp_file temp t) p = nodes s p"
    if "fs_hard_link temp resolved s = (False, t)" "p \<noteq> temp" for s t p
    using that fs_call.frame [OF cleanup_touches [of temp "{temp}"], of p t]
    by (auto simp: fs_hard_link_def split: if_splits)
  then show ?thesis
    by (auto simp: error_keeps_def publish_created_def Let_def split: prod.splits if_splits)
qed

lemma rename_error: "error_keeps (attempt e (fs_rename src dst)) A"
  by (auto simp: error_keeps_def attempt_def fs_rename_def fail_if_def split: if_splits)

lemma keeps_on_error:
  assumes "error_keeps m A" "fs_call undo A"
  shows "error_keeps (on_error m undo) A"
  using assms fs_call.frame [OF assms(2)]
  by (auto simp: error_keeps_def on_error_def split: prod.splits sum.splits)

lemmas single_defs = apply_create_operation_def apply_modify_operation_def fresh_create_target_def
  fresh_text_def file_permissions_def Let_def

lemma apply_operation_error:
  "error_keeps (apply_operation env root tx policy op payload)
     {temp_path_for env (p_resolved_path op) tx}"
proof (cases "(env, root, tx, policy, op, payload)" rule: apply_operation.cases)
  case (1 env root tx policy relative resolved after_sha after_len src)
  then show ?thesis
    by (auto simp: single_defs intro!: keep_intros keeps_bind_return publish_created_error touch_intros)
next
  case (2 env root tx policy relative resolved before_sha after_sha before_len after_len hunk_count src)
  then show ?thesis
    by (auto simp: single_defs
        intro!: keep_intros keeps_bind_return keeps_on_error rename_error touch_intros)
qed (auto intro: keeps_touches touch_intros)

text \<open>
  What it means that an operation is committed: the target held what the preview saw (for a
  modification) or nothing (for a creation), and now holds the payload with the old mode or
  the mode of a new file.
\<close>

inductive committed :: "edit_env \<Rightarrow> fs \<Rightarrow> fs \<Rightarrow> prepared_operation \<Rightarrow> apply_payload \<Rightarrow> bool"
  for env s t where
  created: "nodes s p = None \<Longrightarrow> nodes t p = Some (File c (new_mode s))
    \<Longrightarrow> committed env s t (PreparedCreate relative p sha n) (CreatePayload c)"
| modified: "nodes s p = Some (File before m) \<Longrightarrow> sha256_hex env before = before_sha
    \<Longrightarrow> length before = before_len \<Longrightarrow> nodes t p = Some (File c m)
    \<Longrightarrow> committed env s t (PreparedModify relative p before_sha sha before_len n h) (ModifyPayload c)"

lemma publish_created_Inr:
  assumes "publish_created relative temp resolved s = (Inr u, t)" "temp \<noteq> resolved"
  shows "nodes t resolved = nodes s temp"
proof -
  obtain t' where "fs_hard_link temp resolved s = (True, t')" "t = cleanup_temp_file temp t'"
    using assms(1) by (auto simp: publish_created_def Let_def split: prod.splits if_splits)
  then show ?thesis
    using hard_link_ok(1) fs_call.frame [OF cleanup_touches [of temp "{temp}"], of resolved t'] assms(2)
    by simp
qed

lemma metadata_permissions:
  assumes "wf_tree (nodes s)" "nodes s p = Some (File c m)"
    "file_permissions p relative s = (Inr m', t)"
  shows "m' = m" "t = s"
  using assms fs_metadata_real [OF assms(1), of p]
  by (auto simp: file_permissions_def result_simps real_path_def)

lemma apply_create_Inr:
  assumes wf: "wf_tree (nodes s)"
    and ok: "apply_create_operation env root tx relative p sha n src policy s = (Inr a, t)"
  shows "committed env s t (PreparedCreate relative p sha n) (CreatePayload src)"
    "target_confined root (PreparedCreate relative p sha n)"
    "payload_agrees env (PreparedCreate relative p sha n) (CreatePayload src)"
    "a = AppliedCreate relative sha n (length src)"
proof -
  let ?temp = "temp_path_for env p tx"
  obtain s1 u1 u2 r where r: "resolve_create_target root (nodes s) relative = Inr (relative, p)"
    and sha: "sha256_hex env src = sha" "length src = n"
    and w: "write_temp_file ?temp src None relative s = (Inr u1, s1)"
    and r1: "resolve_create_target root (nodes s1) relative = Inr (r, p)"
    and pub: "publish_created relative ?temp p s1 = (Inr u2, t)"
    and a: "a = AppliedCreate relative sha n (length src)"
    using ok by (auto simp: single_defs result_simps)
  note wt = write_temp_file_Inr [OF w]
  have wf1: "wf_tree (nodes s1)" using touches_wf [OF write_temp_file_touches [OF insertI1] w wf] .
  have n1: "nodes s1 p = None" using resolve_create_target_Inr [OF wf1 r1] by metis
  have "?temp \<noteq> p" using n1 wt(1) by auto
  then have "nodes t p = Some (File src (new_mode s))"
    using publish_created_Inr [OF pub] wt(1) by simp
  moreover from r have "nodes s p = None \<and> target_confined root (PreparedCreate relative p sha n)"
    by (rule resolve_create_target_Inr [OF wf]) (auto intro: confined_target)
  ultimately show "committed env s t (PreparedCreate relative p sha n) (CreatePayload src)"
    "target_confined root (PreparedCreate relative p sha n)"
    by (auto intro: created)
qed (use ok in \<open>auto simp: single_defs result_simps\<close>)

lemma apply_modify_Inr:
  fixes policy
  defines "op \<equiv> \<lambda>relative p bsha sha bn n h. PreparedModify relative p bsha sha bn n h"
  assumes wf: "wf_tree (nodes s)"
    and ok: "apply_modify_operation env root tx relative p bsha sha bn n h src policy s = (Inr a, t)"
  shows "committed env s t (op relative p bsha sha bn n h) (ModifyPayload src)"
    "target_confined root (op relative p bsha sha bn n h)"
    "payload_agrees env (op relative p bsha sha bn n h) (ModifyPayload src)"
    "a = AppliedModify relative bsha sha bn n h (length src)"
proof -
  let ?temp = "temp_path_for env p tx"
  obtain s1 u1 before m' where
    r: "read_existing_text root s relative policy = Inr (relative, p, before)"
    and sha: "sha256_hex env before = bsha" "length before = bn"
    and m: "file_permissions p relative s = (Inr m', s)"
    and w: "write_temp_file ?temp src (Some m') relative s = (Inr u1, s1)"
    and pub: "fs_rename ?temp p s1 = (True, t)"
    using ok by (auto simp: apply_modify_operation_def fresh_text_def Let_def result_simps
        file_permissions_def)
  note wt = write_temp_file_Inr [OF w]
  from r have "(\<exists>m. nodes s p = Some (File before m)) \<and> target_confined root (op relative p bsha sha bn n h)"
    by (rule read_existing_text_Inr [OF wf]) (auto simp: op_def intro: confined_target)
  then obtain m where f: "nodes s p = Some (File before m)"
    and c: "target_confined root (op relative p bsha sha bn n h)"
    by blast
  have "?temp \<noteq> p" using f wt(2) by auto
  then have "nodes t p = Some (File src m)"
    using rename_ok [OF pub] wt(1) metadata_permissions [OF wf f m] by simp
  then show "committed env s t (op relative p bsha sha bn n h) (ModifyPayload src)"
    "target_confined root (op relative p bsha sha bn n h)"
    using f c sha by (auto simp: op_def intro: modified)
qed (use ok in \<open>auto simp: op_def single_defs result_simps\<close>)

lemma apply_operation_touches:
  "io_touches (apply_operation env root tx policy op payload)
     {temp_path_for env (p_resolved_path op) tx, p_resolved_path op}"
proof (cases "(env, root, tx, policy, op, payload)" rule: apply_operation.cases)
  case (1 env root tx policy relative resolved after_sha after_len src)
  have "io_touches (publish_created relative temp p) {temp, p}" for temp p
  proof -
    have "snd (publish_created relative temp p s) = cleanup_temp_file temp (snd (fs_hard_link temp p s))" for s
      by (simp add: publish_created_def case_prod_beta Let_def)
    then show ?thesis
      using fs_call_comp [OF hard_link_call.fs_call_axioms [of temp p] cleanup_touches [of temp "{temp}"]]
      by (simp add: io_touches_def insert_commute)
  qed
  with 1 show ?thesis by (auto simp: single_defs intro!: touch_intros)
next
  case (2 env root tx policy relative resolved before_sha after_sha before_len after_len hunk_count src)
  then show ?thesis
    by (auto simp: single_defs intro!: touch_intros rename_call.fs_call_axioms)
qed (auto intro: touch_intros)

section \<open>Publishing and rolling back\<close>

definition at_most_one_fault :: "fs \<Rightarrow> bool" where
  "at_most_one_fault s \<longleftrightarrow>
     (\<forall>i j. tick s \<le> i \<longrightarrow> tick s \<le> j \<longrightarrow> fault s i \<longrightarrow> fault s j \<longrightarrow> i = j)"

definition no_fault :: "fs \<Rightarrow> bool" where
  "no_fault s \<longleftrightarrow> (\<forall>i \<ge> tick s. \<not> fault s i)"

lemma at_most_one_fault_later: "at_most_one_fault s \<Longrightarrow> same_oracles s t \<Longrightarrow> at_most_one_fault t"
  unfolding at_most_one_fault_def same_oracles_def by (metis le_trans)

lemma no_fault_later: "no_fault s \<Longrightarrow> same_oracles s t \<Longrightarrow> no_fault t"
  unfolding no_fault_def same_oracles_def by (metis le_trans)

lemma no_fault_after_fault: "at_most_one_fault s \<Longrightarrow> fault s (tick s) \<Longrightarrow> no_fault (ticked s)"
  by (auto simp: at_most_one_fault_def no_fault_def dest: Suc_leD)
    (metis Suc_leD Suc_n_not_le_n le_refl)

text \<open>The paths a staged operation owns: its target, and the scratch files beside it.\<close>

definition staged_scratch :: "staged_operation \<Rightarrow> spath list" where
  "staged_scratch st = s_temp_path st #
     (case s_kind st of StagedCreate \<Rightarrow> [] | StagedModify backup \<Rightarrow> [backup])"

definition staged_apart :: "staged_operation list \<Rightarrow> bool" where
  "staged_apart sts \<longleftrightarrow> distinct (concat (map (\<lambda>st. s_resolved_path st # staged_scratch st) sts))"

definition all_scratch :: "staged_operation list \<Rightarrow> spath set" where
  "all_scratch sts = (\<Union>st \<in> set sts. set (staged_scratch st))"

abbreviation regular :: "node option \<Rightarrow> bool" where
  "regular nd \<equiv> (\<exists>c m. nd = Some (File c m))"

text \<open>Ready to be published, and published but still restorable, relative to the state before.\<close>

definition ready :: "fs \<Rightarrow> fs \<Rightarrow> staged_operation \<Rightarrow> bool" where
  "ready s0 s st \<longleftrightarrow> regular (nodes s (s_temp_path st)) \<and>
     (case s_kind st of
        StagedCreate \<Rightarrow> nodes s0 (s_resolved_path st) = None \<and> can_hold (nodes s0) (s_resolved_path st)
      | StagedModify backup \<Rightarrow> regular (nodes s0 (s_resolved_path st))
          \<and> nodes s backup = nodes s0 (s_resolved_path st))"

definition published :: "fs \<Rightarrow> fs \<Rightarrow> staged_operation \<Rightarrow> bool" where
  "published s0 s st \<longleftrightarrow> regular (nodes s (s_resolved_path st)) \<and>
     (case s_kind st of
        StagedCreate \<Rightarrow> nodes s0 (s_resolved_path st) = None
      | StagedModify backup \<Rightarrow> regular (nodes s0 (s_resolved_path st))
          \<and> nodes s backup = nodes s0 (s_resolved_path st))"

lemma publish_operation_ok:
  assumes "publish_operation st s = (True, t)" "s_temp_path st \<noteq> s_resolved_path st"
  shows "nodes t (s_resolved_path st) = nodes s (s_temp_path st)"
    "p \<noteq> s_resolved_path st \<Longrightarrow> p \<noteq> s_temp_path st \<Longrightarrow> nodes t p = nodes s p"
  using assms hard_link_ok(1) rename_ok
  by (auto simp: publish_operation_def split: staged_operation_kind.splits)

lemma publish_operation_fails:
  assumes "publish_operation st s = (False, t)"
    and "ready s0 s st" "nodes s (s_resolved_path st) = nodes s0 (s_resolved_path st)"
    "wf_tree (nodes s)" "\<And>p. can_hold (nodes s) p = can_hold (nodes s0) p"
  shows "fault s (tick s)" "t = ticked s"
proof -
  have "can_hold (nodes s) (s_resolved_path st)" if "regular (nodes s (s_resolved_path st))"
    using that wf_tree_can_hold [OF assms(4), of "s_resolved_path st"] assms(4)
    by (cases "s_resolved_path st = []") (auto simp: wf_tree_def)
  then show "fault s (tick s)" "t = ticked s"
    using assms by (auto simp: publish_operation_def ready_def fs_hard_link_def fs_rename_def
        split: staged_operation_kind.splits if_splits)
qed

lemma publish_operation_touches:
  "io_touches (attempt e (publish_operation st)) {s_temp_path st, s_resolved_path st}"
proof (cases "s_kind st")
  case StagedCreate
  then show ?thesis
    by (auto simp: publish_operation_def
        intro!: touch_intros fs_call_mono [OF hard_link_call.fs_call_axioms])
next
  case (StagedModify backup)
  then show ?thesis
    by (auto simp: publish_operation_def intro!: touch_intros rename_call.fs_call_axioms)
qed

lemma cleanup_staged_touches [touch_intros]:
  "fs_call (cleanup_staged_operations sts) (all_scratch sts)"
proof (induction sts rule: rev_induct)
  case Nil
  then show ?case by (simp add: cleanup_staged_operations_def fs_call_id)
next
  case (snoc st sts)
  have "fs_call (cleanup_staged_operation st) (set (staged_scratch st))"
    unfolding cleanup_staged_operation_def staged_scratch_def
    by (cases "s_kind st") (auto intro!: cleanup_touches cleanup_touches_two)
  from fs_call_comp [OF snoc this] show ?case
    by (simp add: cleanup_staged_operations_def all_scratch_def Un_commute)
qed

lemma rollback_one:
  assumes "published s0 s st" "no_fault s" "wf_tree (nodes s)" "s_resolved_path st \<notin> set (staged_scratch st)"
  shows "nodes (rollback_staged_operation st s) (s_resolved_path st) = nodes s0 (s_resolved_path st)"
    "p \<noteq> s_resolved_path st \<Longrightarrow> p \<notin> set (staged_scratch st)
      \<Longrightarrow> nodes (rollback_staged_operation st s) p = nodes s p"
proof -
  have "can_hold (nodes s) (s_resolved_path st)"
    using assms(1) wf_tree_can_hold [OF assms(3), of "s_resolved_path st"] assms(3)
    by (cases "s_resolved_path st = []") (auto simp: wf_tree_def published_def)
  then show "nodes (rollback_staged_operation st s) (s_resolved_path st) = nodes s0 (s_resolved_path st)"
    using assms by (auto simp: rollback_staged_operation_def published_def no_fault_def fs_remove_file_def
        fs_rename_def staged_scratch_def split: staged_operation_kind.splits)
  show "nodes (rollback_staged_operation st s) p = nodes s p"
    if "p \<noteq> s_resolved_path st" "p \<notin> set (staged_scratch st)"
    using that by (auto simp: rollback_staged_operation_def fs_remove_file_def fs_rename_def
        staged_scratch_def split: staged_operation_kind.splits)
qed

lemma rollback_call:
  "fs_call (rollback_staged_operation st) (insert (s_resolved_path st) (set (staged_scratch st)))"
  unfolding rollback_staged_operation_def
  by (cases "s_kind st")
    (auto simp: staged_scratch_def intro: fs_call_mono [OF remove_file_call.fs_call_axioms]
      fs_call_mono [OF rename_call.fs_call_axioms])

lemma staged_apart_snoc:
  "staged_apart (sts @ [st]) \<longleftrightarrow> staged_apart sts \<and> distinct (s_resolved_path st # staged_scratch st)
     \<and> (\<forall>st' \<in> set sts. set (s_resolved_path st # staged_scratch st)
          \<inter> set (s_resolved_path st' # staged_scratch st') = {})"
  by (auto simp: staged_apart_def)

text \<open>Undisturbed, the rollback of the published operations restores every target.\<close>

lemma rollback_restores:
  assumes "\<forall>st \<in> set sts. published s0 s st" "no_fault s" "wf_tree (nodes s)" "staged_apart sts"
    "\<And>p. p \<notin> A \<Longrightarrow> p \<notin> s_resolved_path ` set sts \<Longrightarrow> nodes s p = nodes s0 p" "all_scratch sts \<subseteq> A"
    "p \<notin> A"
  shows "nodes (rollback_staged_operations sts s) p = nodes s0 p"
  using assms
proof (induction sts arbitrary: s rule: rev_induct)
  case Nil
  then show ?case by (simp add: rollback_staged_operations_def)
next
  case (snoc st sts)
  let ?t = "rollback_staged_operation st s"
  note apart = snoc.prems(4) [unfolded staged_apart_snoc]
  have one: "nodes ?t (s_resolved_path st) = nodes s0 (s_resolved_path st)"
    "\<And>p. p \<noteq> s_resolved_path st \<Longrightarrow> p \<notin> set (staged_scratch st) \<Longrightarrow> nodes ?t p = nodes s p"
    using rollback_one [of s0 s st] snoc.prems(1-3) apart by auto
  have "published s0 ?t st'" if st': "st' \<in> set sts" for st'
  proof -
    have "nodes ?t q = nodes s q" if "q \<in> set (s_resolved_path st' # staged_scratch st')" for q
      using one(2) [of q] apart st' that by auto
    moreover have "published s0 s st'" using snoc.prems(1) st' by simp
    ultimately show ?thesis
      by (auto simp: published_def staged_scratch_def split: staged_operation_kind.splits)
  qed
  moreover have "nodes ?t q = nodes s0 q" if "q \<notin> A" "q \<notin> s_resolved_path ` set sts" for q
  proof (cases "q = s_resolved_path st")
    case False
    moreover have "q \<notin> set (staged_scratch st)" using that snoc.prems(6) by (auto simp: all_scratch_def)
    ultimately show ?thesis using one(2) [of q] that snoc.prems(5) [of q] by simp
  qed (use one(1) in simp)
  ultimately have "nodes (rollback_staged_operations sts ?t) p = nodes s0 p"
    using snoc.IH [of ?t] snoc.prems(2,3,6,7) apart
      no_fault_later [OF _ fs_call.oracles [OF rollback_call]]
      fs_call.keeps_wf [OF rollback_call]
    by (auto simp: all_scratch_def)
  then show ?case by (simp add: rollback_staged_operations_def)
qed

lemma staged_apart_Cons:
  "staged_apart (st # sts) \<longleftrightarrow> staged_apart sts \<and> distinct (s_resolved_path st # staged_scratch st)
     \<and> (\<forall>st' \<in> set sts. set (s_resolved_path st # staged_scratch st)
          \<inter> set (s_resolved_path st' # staged_scratch st') = {})"
  by (auto simp: staged_apart_def)

lemma publish_success:
  assumes "publish_staged staged done rest s = (Inr u, t)" "staged_apart rest"
  shows "\<forall>st \<in> set rest. nodes t (s_resolved_path st) = nodes s (s_temp_path st)"
    "\<forall>p. p \<notin> s_resolved_path ` set rest \<longrightarrow> p \<notin> s_temp_path ` set rest \<longrightarrow> nodes t p = nodes s p"
  using assms
proof (induction rest arbitrary: "done" s)
  case (Cons st rest)
  case 1
  then obtain s' where p: "publish_operation st s = (True, s')"
    and r: "publish_staged staged (done @ [st]) rest s' = (Inr u, t)"
    by (auto simp: result_simps)
  have apart: "staged_apart rest" "s_temp_path st \<noteq> s_resolved_path st"
    "\<forall>st' \<in> set rest. s_temp_path st' \<noteq> s_resolved_path st \<and> s_temp_path st' \<noteq> s_temp_path st
       \<and> s_resolved_path st \<noteq> s_resolved_path st'"
    using 1(2) by (auto simp: staged_apart_Cons staged_scratch_def)
  note ok = publish_operation_ok [OF p apart(2)]
  have "s_resolved_path st \<notin> s_resolved_path ` set rest" "s_resolved_path st \<notin> s_temp_path ` set rest"
    using apart(3) by fastforce+
  then have "nodes t (s_resolved_path st) = nodes s (s_temp_path st)"
    using Cons.IH(2) [OF r apart(1)] ok(1) by simp
  then show ?case
    using Cons.IH(1) [OF r apart(1)] ok(2) apart(3) by auto
next
  case (Cons st rest)
  case 2
  then obtain s' where p: "publish_operation st s = (True, s')"
    and r: "publish_staged staged (done @ [st]) rest s' = (Inr u, t)"
    by (auto simp: result_simps)
  have apart: "staged_apart rest" "s_temp_path st \<noteq> s_resolved_path st"
    using 2(2) by (auto simp: staged_apart_Cons staged_scratch_def)
  show ?case
    using Cons.IH(2) [OF r apart(1)] publish_operation_ok(2) [OF p apart(2)] by auto
qed (auto simp: result_simps)

lemma staged_apart_middle:
  "staged_apart (sts @ st # sts') \<longleftrightarrow> staged_apart (sts @ sts')
     \<and> distinct (s_resolved_path st # staged_scratch st)
     \<and> (\<forall>st' \<in> set sts \<union> set sts'. set (s_resolved_path st # staged_scratch st)
          \<inter> set (s_resolved_path st' # staged_scratch st') = {})"
  unfolding staged_apart_def distinct_concat_map_middle by simp

text \<open>The invariant of the publication loop, between the operations done and those to do.\<close>

definition publishing :: "fs \<Rightarrow> staged_operation list \<Rightarrow> staged_operation list \<Rightarrow> fs \<Rightarrow> bool" where
  "publishing s0 done rest s \<longleftrightarrow> staged_apart (done @ rest) \<and> at_most_one_fault s
     \<and> wf_tree (nodes s) \<and> (\<forall>p. can_hold (nodes s) p = can_hold (nodes s0) p)
     \<and> (\<forall>st \<in> set done. published s0 s st) \<and> (\<forall>st \<in> set rest. ready s0 s st)
     \<and> (\<forall>p. p \<notin> all_scratch (done @ rest) \<longrightarrow> p \<notin> s_resolved_path ` set done
          \<longrightarrow> nodes s p = nodes s0 p)"

lemma published_ticked [simp]: "published s0 (ticked s) st = published s0 s st"
  by (simp add: published_def split: staged_operation_kind.split)

lemma publishing_apart:
  assumes "publishing s0 done (st # rest) s"
  shows "s_resolved_path st \<notin> all_scratch (done @ st # rest)"
    "s_resolved_path st \<notin> s_resolved_path ` set done" "s_temp_path st \<noteq> s_resolved_path st"
    "s_kind st = StagedModify b \<Longrightarrow> b \<noteq> s_temp_path st \<and> b \<noteq> s_resolved_path st"
    "st' \<in> set done \<union> set rest \<Longrightarrow> set (s_resolved_path st # staged_scratch st)
          \<inter> set (s_resolved_path st' # staged_scratch st') = {}"
    "staged_apart done"
proof -
  have apart: "staged_apart (done @ st # rest)" using assms by (simp add: publishing_def)
  note middle = apart [unfolded staged_apart_middle]
  show "staged_apart done" using apart by (simp add: staged_apart_def)
  show "s_resolved_path st \<notin> all_scratch (done @ st # rest)"
    using middle by (auto simp: all_scratch_def)
  show "s_resolved_path st \<notin> s_resolved_path ` set done" using middle by auto
  show "s_temp_path st \<noteq> s_resolved_path st" using middle by (auto simp: staged_scratch_def)
  show "s_kind st = StagedModify b \<Longrightarrow> b \<noteq> s_temp_path st \<and> b \<noteq> s_resolved_path st"
    using middle by (auto simp: staged_scratch_def)
  show "st' \<in> set done \<union> set rest \<Longrightarrow> set (s_resolved_path st # staged_scratch st)
          \<inter> set (s_resolved_path st' # staged_scratch st') = {}"
    using middle by blast
qed

lemma publishing_step:
  assumes inv: "publishing s0 done (st # rest) s" and pub: "publish_operation st s = (True, s')"
  shows "publishing s0 (done @ [st]) rest s'"
proof -
  note apart = publishing_apart [OF inv] and ok = publish_operation_ok [OF pub publishing_apart(3) [OF inv]]
  have att: "attempt (Io []) (publish_operation st) s = (Inr (), s')"
    using pub by (simp add: attempt_Inr)
  note touched = publish_operation_touches [of "Io []" st]
  have unchanged: "nodes s' q = nodes s q"
    if "q \<in> set (s_resolved_path st' # staged_scratch st')" "st' \<in> set done \<union> set rest" for q st'
    using ok(2) [of q] apart(5) [OF that(2)] that(1) by (auto simp: staged_scratch_def)
  have "ready s0 s st" using inv by (simp add: publishing_def)
  moreover have "nodes s' q = nodes s q" if "s_kind st = StagedModify q" for q
    using ok(2) [of q] apart(4) [OF that] by blast
  ultimately have "published s0 s' st"
    using ok(1) by (auto simp: published_def ready_def split: staged_operation_kind.splits)
  moreover have "published s0 s' st'" if "st' \<in> set done" for st'
    using unchanged [of _ st'] inv that
    by (auto simp: publishing_def published_def staged_scratch_def split: staged_operation_kind.splits)
  moreover have "ready s0 s' st'" if "st' \<in> set rest" for st'
    using unchanged [of _ st'] inv that
    by (auto simp: publishing_def ready_def staged_scratch_def split: staged_operation_kind.splits)
  moreover have "can_hold (nodes s') q = can_hold (nodes s0) q" for q
    using inv touches_directories [OF touched att] by (simp add: publishing_def can_hold_def)
  moreover have "nodes s' q = nodes s0 q"
    if "q \<notin> all_scratch (done @ st # rest)" "q \<notin> s_resolved_path ` set (done @ [st])" for q
    using ok(2) [of q] inv that by (auto simp: publishing_def all_scratch_def staged_scratch_def)
  ultimately show ?thesis
    using inv touches_wf [OF touched att] at_most_one_fault_later [OF _ touches_oracles [OF touched att]]
    by (auto simp: publishing_def)
qed

lemma publishing_abort:
  assumes inv: "publishing s0 done (st # rest) s" and pub: "publish_operation st s = (False, s')"
    and p: "p \<notin> all_scratch (done @ st # rest)"
  shows "nodes (cleanup_staged_operations (done @ st # rest) (rollback_staged_operations done s')) p
    = nodes s0 p"
proof -
  let ?S = "all_scratch (done @ st # rest)"
  have same: "nodes s (s_resolved_path st) = nodes s0 (s_resolved_path st)"
    using inv publishing_apart(1,2) [OF inv] by (simp add: publishing_def)
  have failed: "fault s (tick s)" "s' = ticked s"
    using publish_operation_fails [OF pub _ same] inv by (auto simp: publishing_def)
  have "nodes (rollback_staged_operations done s') p = nodes s0 p"
  proof (rule rollback_restores [where A = ?S, OF _ _ _ publishing_apart(6) [OF inv] _ _ p])
    show "\<forall>st \<in> set done. published s0 s' st"
      using inv failed(2) by (simp add: publishing_def)
    show "no_fault s'" using no_fault_after_fault [of s] inv failed by (simp add: publishing_def)
    show "wf_tree (nodes s')" using inv failed(2) by (simp add: publishing_def)
    show "nodes s' q = nodes s0 q" if "q \<notin> ?S" "q \<notin> s_resolved_path ` set done" for q
      using inv failed(2) that by (simp add: publishing_def)
    show "all_scratch done \<subseteq> ?S" by (auto simp: all_scratch_def)
  qed
  then show ?thesis using fs_call.frame [OF cleanup_staged_touches p] by simp
qed

lemma publish_failure:
  assumes "publish_staged (done @ rest) done rest s = (Inl e, t)" "publishing s0 done rest s"
    "p \<notin> all_scratch (done @ rest)"
  shows "nodes t p = nodes s0 p"
  using assms
proof (induction rest arbitrary: "done" s)
  case (Cons st rest)
  obtain b s' where b: "publish_operation st s = (b, s')" by fastforce
  show ?case
  proof (cases b)
    case True
    then have "publish_staged ((done @ [st]) @ rest) (done @ [st]) rest s' = (Inl e, t)"
      using Cons.prems(1) b by (simp add: io_bind_def on_error_def attempt_def)
    then show ?thesis
      using Cons.IH [of "done @ [st]" s'] publishing_step [OF Cons.prems(2)] b True Cons.prems(3) by simp
  next
    case False
    then show ?thesis
      using Cons.prems publishing_abort [OF Cons.prems(2)] b
      by (auto simp: io_bind_def on_error_def attempt_def)
  qed
qed (simp add: guard_def reading_def)

section \<open>Staging\<close>

definition scratch_paths :: "edit_env \<Rightarrow> string \<Rightarrow> prepared_operation \<Rightarrow> spath list" where
  "scratch_paths env tx op =
     temp_path_for env (p_resolved_path op) tx #
     (case op of PreparedCreate _ _ _ _ \<Rightarrow> []
      | PreparedModify _ _ _ _ _ _ _ \<Rightarrow> [backup_path_for env (p_resolved_path op) tx])"

text \<open>
  The targets of a transaction and the scratch files beside them are different paths, and
  the targets have UTF-8 names (the sources take them from a \<open>String\<close>).
\<close>

definition scratch_apart :: "edit_env \<Rightarrow> string \<Rightarrow> prepared_operation list \<Rightarrow> bool" where
  "scratch_apart env tx ops \<longleftrightarrow>
     distinct (concat (map (\<lambda>op. p_resolved_path op # scratch_paths env tx op) ops))
     \<and> list_all (\<lambda>op. utf8_valid (last (p_resolved_path op))) ops"

definition scratch_of :: "edit_env \<Rightarrow> string \<Rightarrow> prepared_operation list \<Rightarrow> spath set" where
  "scratch_of env tx ops = (\<Union>op \<in> set ops. set (scratch_paths env tx op))"

text \<open>
  What staging an operation has achieved: its scratch files hold the new content and the old
  file, and the target is still what it was.
\<close>

inductive staged_ok ::
  "edit_env \<Rightarrow> resource_root \<Rightarrow> string \<Rightarrow> fs \<Rightarrow> fs \<Rightarrow> staged_operation \<Rightarrow> prepared_operation \<times> apply_payload \<Rightarrow> bool"
  for env root tx s0 s where
  staged_create: "nodes s0 p = None \<Longrightarrow> can_hold (nodes s0) p
    \<Longrightarrow> s_resolved_path st = p \<Longrightarrow> s_temp_path st = temp_path_for env p tx \<Longrightarrow> s_kind st = StagedCreate
    \<Longrightarrow> nodes s (temp_path_for env p tx) = Some (File c (new_mode s0))
    \<Longrightarrow> s_applied st = AppliedCreate relative sha n (length c)
    \<Longrightarrow> target_confined root (PreparedCreate relative p sha n)
    \<Longrightarrow> payload_agrees env (PreparedCreate relative p sha n) (CreatePayload c)
    \<Longrightarrow> staged_ok env root tx s0 s st (PreparedCreate relative p sha n, CreatePayload c)"
| staged_modify: "nodes s0 p = Some (File before m) \<Longrightarrow> sha256_hex env before = bsha
    \<Longrightarrow> length before = bn
    \<Longrightarrow> s_resolved_path st = p \<Longrightarrow> s_temp_path st = temp_path_for env p tx
    \<Longrightarrow> s_kind st = StagedModify (backup_path_for env p tx)
    \<Longrightarrow> nodes s (temp_path_for env p tx) = Some (File c m)
    \<Longrightarrow> nodes s (backup_path_for env p tx) = nodes s0 p
    \<Longrightarrow> s_applied st = AppliedModify relative bsha sha bn n h (length c)
    \<Longrightarrow> target_confined root (PreparedModify relative p bsha sha bn n h)
    \<Longrightarrow> payload_agrees env (PreparedModify relative p bsha sha bn n h) (ModifyPayload c)
    \<Longrightarrow> staged_ok env root tx s0 s st (PreparedModify relative p bsha sha bn n h, ModifyPayload c)"

lemma staged_ok_frame:
  assumes "staged_ok env root tx s0 s st x"
    "\<And>p. p \<in> set (scratch_paths env tx (fst x)) \<Longrightarrow> nodes t p = nodes s p"
  shows "staged_ok env root tx s0 t st x"
  using assms(1)
proof cases
  case (staged_create p c relative sha n)
  then have "nodes t (temp_path_for env p tx) = nodes s (temp_path_for env p tx)"
    by (intro assms(2)) (simp add: scratch_paths_def)
  then show ?thesis using staged_create by (simp add: staged_ok.staged_create)
next
  case (staged_modify p before m bsha bn c relative sha n h)
  then have "nodes t (temp_path_for env p tx) = nodes s (temp_path_for env p tx)"
    "nodes t (backup_path_for env p tx) = nodes s (backup_path_for env p tx)"
    by (intro assms(2), simp add: scratch_paths_def)+
  then show ?thesis using staged_modify by (simp add: staged_ok.staged_modify)
qed

lemma staged_ok_ready: "staged_ok env root tx s0 s st x \<Longrightarrow> ready s0 s st"
  by (cases rule: staged_ok.cases) (auto simp: ready_def)

lemma staged_ok_paths:
  assumes "staged_ok env root tx s0 s st x"
  shows "s_resolved_path st = p_resolved_path (fst x)"
    "staged_scratch st = scratch_paths env tx (fst x)"
  using assms by (cases; auto simp: staged_scratch_def scratch_paths_def)+

text \<open>A name that fits with the affixes of a temporary file fits without them.\<close>

lemma temp_path_can_hold:
  assumes "can_hold N (temp_path_for env p tx)" "p \<noteq> []" "utf8_valid (last p)" "valid_name (last p)"
  shows "can_hold N p"
  using assms by (auto simp: can_hold_def temp_path_for_def file_name_or_target_def entry_name_def)

lemma stage_operation_touches:
  "io_touches (stage_operation env root tx policy op payload) (set (scratch_paths env tx op))"
proof (cases "(env, root, tx, policy, op, payload)" rule: stage_operation.cases)
  case (1 env root tx policy relative resolved after_sha after_len src)
  then show ?thesis by (auto simp: single_defs scratch_paths_def intro!: touch_intros)
next
  case (2 env root tx policy relative resolved before_sha after_sha before_len after_len hunk_count src)
  then show ?thesis
    by (auto simp: single_defs scratch_paths_def
        intro!: touch_intros fs_call_mono [OF hard_link_call.fs_call_axioms])
qed (auto intro: touch_intros)

lemma target_confined_name:
  assumes "target_confined root op"
  shows "p_resolved_path op \<noteq> []" "valid_name (last (p_resolved_path op))"
  using assms by (auto simp: target_confined_def)

lemma stage_create_Inr:
  assumes wf: "wf_tree (nodes s)" and mode: "new_mode s = new_mode s0"
    and same: "nodes s p = nodes s0 p" "\<And>q. can_hold (nodes s) q = can_hold (nodes s0) q"
    and utf: "utf8_valid (last p)"
    and ok: "stage_operation env root tx policy (PreparedCreate relative p sha n) (CreatePayload c) s
      = (Inr st, t)"
  shows "staged_ok env root tx s0 t st (PreparedCreate relative p sha n, CreatePayload c)"
proof -
  let ?temp = "temp_path_for env p tx"
  obtain u where r: "resolve_create_target root (nodes s) relative = Inr (relative, p)"
    and sha: "sha256_hex env c = sha" "length c = n"
    and w: "write_temp_file ?temp c None relative s = (Inr u, t)"
    and st: "st = \<lparr>s_relative_path = relative, s_resolved_path = p, s_temp_path = ?temp,
      s_expected_before_sha256 = None, s_kind = StagedCreate,
      s_applied = AppliedCreate relative sha n (length c)\<rparr>"
    using ok by (auto simp: single_defs result_simps)
  note wt = write_temp_file_Inr [OF w]
  from r have n: "nodes s p = None" and c: "target_confined root (PreparedCreate relative p sha n)"
    by (rule resolve_create_target_Inr [OF wf], auto intro: confined_target)+
  then show ?thesis
    using temp_path_can_hold [OF wt(3) _ utf] target_confined_name [OF c] wt(1) same st sha mode
    by (intro staged_create) auto
qed

lemma stage_modify_Inr:
  assumes wf: "wf_tree (nodes s)"
    and same: "nodes s p = nodes s0 p" and apart: "backup_path_for env p tx \<noteq> temp_path_for env p tx"
      "p \<noteq> temp_path_for env p tx"
    and ok: "stage_operation env root tx policy (PreparedModify relative p bsha sha bn n h) (ModifyPayload c) s
      = (Inr st, t)"
  shows "staged_ok env root tx s0 t st (PreparedModify relative p bsha sha bn n h, ModifyPayload c)"
proof -
  let ?temp = "temp_path_for env p tx" and ?backup = "backup_path_for env p tx"
  obtain u s1 before m' where
    r: "read_existing_text root s relative policy = Inr (relative, p, before)"
    and sha: "sha256_hex env before = bsha" "length before = bn" "sha256_hex env c = sha" "length c = n"
    and m: "file_permissions p relative s = (Inr m', s)"
    and w: "write_temp_file ?temp c (Some m') relative s = (Inr u, s1)"
    and l: "fs_hard_link p ?backup s1 = (True, t)"
    and st: "st = \<lparr>s_relative_path = relative, s_resolved_path = p, s_temp_path = ?temp,
      s_expected_before_sha256 = Some bsha, s_kind = StagedModify ?backup,
      s_applied = AppliedModify relative bsha sha bn n h (length c)\<rparr>"
    using ok by (auto simp: fresh_text_def Let_def file_permissions_def result_simps)
  note wt = write_temp_file_Inr [OF w] and hl = hard_link_ok [OF l]
  from r have "(\<exists>m. nodes s p = Some (File before m))
      \<and> target_confined root (PreparedModify relative p bsha sha bn n h)"
    by (rule read_existing_text_Inr [OF wf]) (auto intro: confined_target)
  then obtain m where f: "nodes s p = Some (File before m)"
    and c: "target_confined root (PreparedModify relative p bsha sha bn n h)" by blast
  have "nodes s1 p = nodes s p"
    using touches_frame [OF write_temp_file_touches [of ?temp "{?temp}"] w, of p] apart(2) by simp
  then show ?thesis
    using f c same wt(1) hl apart sha st metadata_permissions [OF wf f m]
    by (intro staged_modify [where m = m and before = before]) auto
qed

text \<open>The invariant of the staging loop: what is staged so far, and that nothing else changed.\<close>

definition staging ::
  "edit_env \<Rightarrow> resource_root \<Rightarrow> string \<Rightarrow> fs \<Rightarrow> (prepared_operation \<times> apply_payload) list
   \<Rightarrow> (prepared_operation \<times> apply_payload) list \<Rightarrow> staged_operation list \<Rightarrow> fs \<Rightarrow> bool" where
  "staging env root tx s0 done rest staged s \<longleftrightarrow>
     list_all2 (staged_ok env root tx s0 s) staged done \<and> wf_tree (nodes s) \<and> same_oracles s0 s
     \<and> (\<forall>p. can_hold (nodes s) p = can_hold (nodes s0) p)
     \<and> (\<forall>p. p \<notin> scratch_of env tx (map fst (done @ rest)) \<longrightarrow> nodes s p = nodes s0 p)"

lemma scratch_apart_middle:
  "scratch_apart env tx (xs @ x # ys) \<longleftrightarrow> scratch_apart env tx (xs @ ys)
     \<and> distinct (p_resolved_path x # scratch_paths env tx x) \<and> utf8_valid (last (p_resolved_path x))
     \<and> (\<forall>y \<in> set xs \<union> set ys. set (p_resolved_path x # scratch_paths env tx x)
          \<inter> set (p_resolved_path y # scratch_paths env tx y) = {})"
  unfolding scratch_apart_def distinct_concat_map_middle by (simp, blast)

lemma scratch_apart_target:
  assumes "scratch_apart env tx (xs @ x # ys)"
  shows "p_resolved_path x \<notin> scratch_of env tx (xs @ x # ys)"
  using assms unfolding scratch_apart_middle scratch_of_def by auto

lemma staging_step:
  assumes inv: "staging env root tx s0 done ((op, payload) # rest) staged s"
    and apart: "scratch_apart env tx (map fst (done @ (op, payload) # rest))"
    and ok: "stage_operation env root tx policy op payload s = (Inr st, t)"
  shows "staging env root tx s0 (done @ [(op, payload)]) rest (staged @ [st]) t"
proof -
  let ?p = "p_resolved_path op" and ?S = "set (scratch_paths env tx op)"
  note middle = apart [simplified, unfolded scratch_apart_middle] and
    touched = stage_operation_touches [of env root tx policy op payload]
  have s: "wf_tree (nodes s)" "new_mode s = new_mode s0" "nodes s ?p = nodes s0 ?p"
    "\<And>q. can_hold (nodes s) q = can_hold (nodes s0) q"
    using inv scratch_apart_target [of env tx "map fst done" op "map fst rest"] apart
    by (auto simp: staging_def same_oracles_def)
  have "staged_ok env root tx s0 t st (op, payload)"
  proof (cases "(env, root, tx, policy, op, payload)" rule: stage_operation.cases)
    case (1 env' root' tx' policy' relative resolved sha n c)
    then show ?thesis using stage_create_Inr [of s s0 resolved] s ok middle by simp
  next
    case (2 env' root' tx' policy' relative resolved bsha sha bn n h c)
    then show ?thesis
      using stage_modify_Inr [of s resolved s0] s ok middle by (auto simp: scratch_paths_def)
  qed (use ok in \<open>auto simp: result_simps\<close>)
  moreover have "list_all2 (staged_ok env root tx s0 t) staged done"
  proof (rule list.rel_mono_strong)
    show "list_all2 (staged_ok env root tx s0 s) staged done" using inv by (simp add: staging_def)
    show "staged_ok env root tx s0 t st' y"
      if "y \<in> set done" "staged_ok env root tx s0 s st' y" for st' y
    proof (rule staged_ok_frame [OF that(2)])
      fix q
      assume "q \<in> set (scratch_paths env tx (fst y))"
      moreover have "set (p_resolved_path op # scratch_paths env tx op)
          \<inter> set (p_resolved_path (fst y) # scratch_paths env tx (fst y)) = {}"
        using middle that(1) by (metis UnI1 image_eqI list.set_map)
      ultimately have "q \<notin> ?S" by auto
      then show "nodes t q = nodes s q" using touches_frame [OF touched ok] by blast
    qed
  qed
  moreover have "nodes t q = nodes s0 q"
    if "q \<notin> scratch_of env tx (map fst (done @ (op, payload) # rest))" for q
    using touches_frame [OF touched ok, of q] inv that by (simp add: staging_def scratch_of_def)
  ultimately show ?thesis
    using inv touches_wf [OF touched ok] touches_oracles [OF touched ok] touches_directories [OF touched ok]
    by (auto simp: staging_def can_hold_def intro: same_oracles_trans list_all2_appendI)
qed

lemma staged_scratch_of:
  assumes "list_all2 (staged_ok env root tx s0 s) staged done"
  shows "all_scratch staged = scratch_of env tx (map fst done)"
  using assms
proof (induction rule: list_all2_induct)
  case (Cons st sts x xs)
  then show ?case using staged_ok_paths(2) [OF Cons.hyps(1)]
    by (auto simp: all_scratch_def scratch_of_def)
qed (simp add: all_scratch_def scratch_of_def)

lemma staging_cleanup:
  assumes "staging env root tx s0 done rest staged s"
    "\<And>q. q \<notin> scratch_of env tx (map fst (done @ rest)) \<Longrightarrow> nodes t q = nodes s q"
    "p \<notin> scratch_of env tx (map fst (done @ rest))"
  shows "nodes (cleanup_staged_operations staged t) p = nodes s0 p"
proof -
  have "all_scratch staged \<subseteq> scratch_of env tx (map fst (done @ rest))"
    using staged_scratch_of assms(1) by (fastforce simp: staging_def scratch_of_def)
  then show ?thesis
    using fs_call.frame [OF cleanup_staged_touches, of p staged t] assms by (auto simp: staging_def)
qed

lemma stage_operations_result:
  assumes "staging env root tx s0 done rest staged s" "scratch_apart env tx (map fst (done @ rest))"
    "stage_operations env root tx policy staged rest s = (r, t)"
  shows "(\<forall>staged'. r = Inr staged' \<longrightarrow> staging env root tx s0 (done @ rest) [] staged' t)
    \<and> (\<forall>e p. r = Inl e \<longrightarrow> p \<notin> scratch_of env tx (map fst (done @ rest)) \<longrightarrow> nodes t p = nodes s0 p)"
  using assms
proof (induction rest arbitrary: "done" staged s)
  case Nil
  then show ?case by (auto simp: result_simps)
next
  case (Cons x rest)
  obtain op payload where x: "x = (op, payload)" by fastforce
  obtain r1 s1 where one: "stage_operation env root tx policy op payload s = (r1, s1)" by fastforce
  show ?case
  proof (cases r1)
    case (Inl e)
    then have t: "r = Inl e" "t = cleanup_staged_operations staged s1"
      using Cons.prems(3) one x by (auto simp: io_bind_def on_error_def)
    moreover have "nodes s1 q = nodes s q" if "q \<notin> scratch_of env tx (map fst (done @ x # rest))" for q
      using touches_frame [OF stage_operation_touches one] that x by (auto simp: scratch_of_def)
    ultimately show ?thesis using staging_cleanup [OF Cons.prems(1)] by auto
  next
    case (Inr st)
    then have "stage_operations env root tx policy (staged @ [st]) rest s1 = (r, t)"
      using Cons.prems(3) one x by (auto simp: io_bind_def on_error_def)
    moreover have "staging env root tx s0 (done @ [x]) rest (staged @ [st]) s1"
      using staging_step [of env root tx s0 "done" op payload rest staged s policy st s1]
        Cons.prems(1,2) one Inr x by simp
    ultimately show ?thesis using Cons.IH [of "done @ [x]" "staged @ [st]" s1] Cons.prems(2) by simp
  qed
qed

lemma staging_start:
  "wf_tree (nodes s) \<Longrightarrow> staging env root tx s [] xs [] s"
  by (simp add: staging_def)

lemma revalidate_touches: "io_touches (revalidate_staged_operation env root policy op) {}"
  unfolding revalidate_staged_operation_def fresh_create_target_def fresh_text_def
  by (auto intro!: touch_intros split: option.split)

lemma revalidate_staged_nodes:
  assumes "revalidate_staged env root policy staged ops s = (r, t)"
  shows "case r of Inr _ \<Rightarrow> t = s | Inl _ \<Rightarrow> t = cleanup_staged_operations staged s"
  using assms
proof (induction ops)
  case (Cons op ops)
  have "snd (revalidate_staged_operation env root policy op s) = s"
    by (auto simp: revalidate_staged_operation_def fresh_create_target_def fresh_text_def reading_def
        guard_def io_bind_def split: option.split sum.split prod.split)
  then show ?case
    using Cons by (auto simp: io_bind_def on_error_def split: prod.splits sum.splits)
qed (auto simp: guard_def reading_def)

section \<open>Whole transactions\<close>

lemma guard_Inl: "guard b e s = (Inl e', t) \<longleftrightarrow> b \<and> e' = e \<and> t = s"
  by (auto simp: guard_def reading_def fail_if_def)


lemma staged_paths:
  assumes "list_all2 (staged_ok env root tx s0 s) staged xs"
  shows "map (\<lambda>st. s_resolved_path st # staged_scratch st) staged
    = map (\<lambda>op. p_resolved_path op # scratch_paths env tx op) (map fst xs)"
    "map s_resolved_path staged = map p_resolved_path (map fst xs)"
  using assms by (induction rule: list_all2_induct) (simp_all add: staged_ok_paths)

lemma staged_apart_of:
  assumes "list_all2 (staged_ok env root tx s0 s) staged xs" "scratch_apart env tx (map fst xs)"
  shows "staged_apart staged"
  using assms(2) unfolding staged_apart_def scratch_apart_def staged_paths(1) [OF assms(1)] by simp

lemma staging_publishing:
  assumes "staging env root tx s0 xs [] staged s" "scratch_apart env tx (map fst xs)"
    "at_most_one_fault s0"
  shows "publishing s0 [] staged s"
proof -
  have "\<forall>st \<in> set staged. \<exists>x. staged_ok env root tx s0 s st x"
    using assms(1) by (auto simp: staging_def simp del: split_paired_Ex dest!: list_all2_left)
  then have "\<forall>st \<in> set staged. ready s0 s st" using staged_ok_ready by blast
  moreover have "all_scratch staged = scratch_of env tx (map fst xs)"
    using assms(1) staged_scratch_of by (auto simp: staging_def)
  ultimately show ?thesis
    using assms staged_apart_of at_most_one_fault_later by (auto simp: staging_def publishing_def)
qed

text \<open>What a committed transaction is: every operation took effect, and nothing else did.\<close>

definition transaction_committed ::
  "edit_env \<Rightarrow> resource_root \<Rightarrow> prepared_transaction \<Rightarrow> fs \<Rightarrow> fs \<Rightarrow> bool" where
  "transaction_committed env root tx s t \<longleftrightarrow>
     length (apply_payloads tx) = length (operations tx)
     \<and> (\<forall>x \<in> set (zip (operations tx) (apply_payloads tx)).
          committed env s t (fst x) (snd x) \<and> target_confined root (fst x) \<and> payload_agrees env (fst x) (snd x))
     \<and> (\<forall>p. p \<notin> scratch_of env (transaction_id tx) (operations tx)
          \<longrightarrow> p \<notin> p_resolved_path ` set (operations tx) \<longrightarrow> nodes t p = nodes s p)"

lemma staged_committed:
  assumes "staged_ok env root tx s0 s st x" "nodes t (p_resolved_path (fst x)) = nodes s (s_temp_path st)"
  shows "committed env s0 t (fst x) (snd x) \<and> target_confined root (fst x)
    \<and> payload_agrees env (fst x) (snd x)"
  using assms by cases (auto intro: created modified)

lemma apply_multiple_Inr:
  assumes wf: "wf_tree (nodes s)" and apart: "scratch_apart env (transaction_id tx) (operations tx)"
    and ok: "apply_multiple_operations_atomically env root tx policy s = (Inr res, t)"
  shows "transaction_committed env root tx s t"
proof -
  let ?ops = "operations tx" and ?id = "transaction_id tx"
  let ?xs = "zip ?ops (apply_payloads tx)"
  obtain staged s1 s2 u where len: "length (apply_payloads tx) = length ?ops"
    and st: "stage_operations env root ?id policy [] ?xs s = (Inr staged, s1)"
    and rv: "revalidate_staged env root policy staged staged s1 = (Inr u, s1)"
    and pub: "publish_staged staged [] staged s1 = (Inr (), s2)"
    and t: "t = cleanup_staged_operations staged s2"
    using ok revalidate_staged_nodes
    by (fastforce simp: apply_multiple_operations_atomically_def result_simps)
  have fst: "map fst ?xs = ?ops" using len by simp
  have "staging env root ?id s ?xs [] staged s1"
    using stage_operations_result [OF staging_start [OF wf] _ st] apart fst by simp
  then have ok: "list_all2 (staged_ok env root ?id s s1) staged ?xs"
    and frame: "\<And>p. p \<notin> scratch_of env ?id ?ops \<Longrightarrow> nodes s1 p = nodes s p"
    using fst by (auto simp: staging_def)
  have scratch: "all_scratch staged = scratch_of env ?id ?ops"
    using staged_scratch_of [OF ok] fst by simp
  note pubd = publish_success [OF pub staged_apart_of [OF ok]]
  have targets: "s_resolved_path ` set staged = p_resolved_path ` set ?ops"
    using staged_paths(2) [OF ok] fst by (metis list.set_map)
  have temps: "s_temp_path ` set staged \<subseteq> scratch_of env ?id ?ops"
    using scratch by (auto simp: all_scratch_def staged_scratch_def)
  have t2: "nodes t p = nodes s2 p" if "p \<notin> scratch_of env ?id ?ops" for p
    using fs_call.frame [OF cleanup_staged_touches, of p staged s2] that t scratch by simp
  have "nodes t p = nodes s p"
    if "p \<notin> scratch_of env ?id ?ops" "p \<notin> p_resolved_path ` set ?ops" for p
  proof -
    have "nodes s2 p = nodes s1 p" using pubd(2) apart fst that targets temps by (metis subsetD)
    then show ?thesis using t2 [OF that(1)] frame [OF that(1)] by simp
  qed
  moreover have "committed env s t (fst x) (snd x) \<and> target_confined root (fst x)
      \<and> payload_agrees env (fst x) (snd x)" if mem: "x \<in> set ?xs" for x
  proof -
    obtain st where x: "st \<in> set staged" "staged_ok env root ?id s s1 st x"
      using list_all2_right [OF ok mem] by blast
    have "fst x \<in> set ?ops" using mem by (metis fst image_eqI list.set_map)
    then have "p_resolved_path (fst x) \<notin> scratch_of env ?id ?ops"
      using scratch_apart_target apart by (metis split_list)
    then have "nodes t (p_resolved_path (fst x)) = nodes s1 (s_temp_path st)"
      using t2 pubd(1) apart fst x(1) staged_ok_paths(1) [OF x(2)] by auto
    then show ?thesis using staged_committed [OF x(2)] by blast
  qed
  ultimately show ?thesis using len unfolding transaction_committed_def by blast
qed

lemma apply_multiple_Inl:
  assumes wf: "wf_tree (nodes s)" and apart: "scratch_apart env (transaction_id tx) (operations tx)"
    and one: "at_most_one_fault s"
    and err: "apply_multiple_operations_atomically env root tx policy s = (Inl e, t)"
    and p: "p \<notin> scratch_of env (transaction_id tx) (operations tx)"
  shows "nodes t p = nodes s p"
proof -
  let ?ops = "operations tx" and ?id = "transaction_id tx"
  let ?xs = "zip ?ops (apply_payloads tx)"
  from err consider "t = s"
    | "map fst ?xs = ?ops" "stage_operations env root ?id policy [] ?xs s = (Inl e, t)"
    | sts s1 where "map fst ?xs = ?ops" "stage_operations env root ?id policy [] ?xs s = (Inr sts, s1)"
        "revalidate_staged env root policy sts sts s1 = (Inl e, t)
         \<or> publish_staged sts [] sts s1 = (Inl e, t)"
    using revalidate_staged_nodes
    by (fastforce simp: apply_multiple_operations_atomically_def io_bind_Inl guard_Inl guard_Inr)
  then show ?thesis
  proof cases
    case 2
    then show ?thesis
      using stage_operations_result [OF staging_start [OF wf] _ 2(2)] apart p by simp
  next
    case 3
    have inv: "staging env root ?id s ?xs [] sts s1"
      using stage_operations_result [OF staging_start [OF wf] _ 3(2)] apart 3(1) by simp
    have scratch: "all_scratch sts = scratch_of env ?id ?ops"
      using staged_scratch_of inv 3(1) by (auto simp: staging_def)
    have pub: "publishing s [] sts s1"
      using staging_publishing [OF inv _ one] apart 3(1) by simp
    from 3(3) show ?thesis
    proof
      assume "revalidate_staged env root policy sts sts s1 = (Inl e, t)"
      then show ?thesis
        using revalidate_staged_nodes staging_cleanup [OF inv, of s1 p] 3(1) p by fastforce
    next
      assume "publish_staged sts [] sts s1 = (Inl e, t)"
      then show ?thesis using publish_failure [of "[]" sts s1 e t s p] pub p scratch by simp
    qed
  qed simp
qed

lemma scratch_of_single:
  "temp_path_for env (p_resolved_path op) tx \<in> scratch_of env tx [op]"
  by (simp add: scratch_of_def scratch_paths_def)

lemma edit_apply_Inr:
  assumes "wf_tree (nodes s)" "scratch_apart env (transaction_id tx) (operations tx)"
    and ok: "edit_apply env root tx policy s = (Inr res, t)"
  shows "transaction_committed env root tx s t"
proof (cases "length (operations tx) > 1")
  case True
  then have "apply_multiple_operations_atomically env root tx policy s = (Inr res, t)"
    using ok by (auto simp: edit_apply_def split: if_splits)
  then show ?thesis by (rule apply_multiple_Inr [OF assms(1,2)])
next
  case False
  then obtain op payload a where ops: "operations tx = [op]" "apply_payloads tx = [payload]"
    and a: "apply_operation env root (transaction_id tx) policy op payload s = (Inr a, t)"
    using ok by (auto simp: edit_apply_def result_simps length_Suc_conv not_less le_Suc_eq split: if_splits)
  have "committed env s t op payload \<and> target_confined root op \<and> payload_agrees env op payload"
  proof (cases "(env, root, transaction_id tx, policy, op, payload)" rule: apply_operation.cases)
    case (1 env' root' tx' policy' relative resolved sha n c)
    then show ?thesis using apply_create_Inr [OF assms(1)] a by simp
  next
    case (2 env' root' tx' policy' relative resolved bsha sha bn n h c)
    then show ?thesis using apply_modify_Inr [OF assms(1)] a by simp
  qed (use a in \<open>auto simp: result_simps\<close>)
  moreover have "nodes t p = nodes s p"
    if "p \<notin> scratch_of env (transaction_id tx) [op]" "p \<noteq> p_resolved_path op" for p
    using touches_frame [OF apply_operation_touches a, of p] that by (auto simp: scratch_of_def scratch_paths_def)
  ultimately show ?thesis by (simp add: transaction_committed_def ops)
qed

lemma edit_apply_Inl:
  assumes "wf_tree (nodes s)" "scratch_apart env (transaction_id tx) (operations tx)"
    "at_most_one_fault s" and err: "edit_apply env root tx policy s = (Inl e, t)"
    and p: "p \<notin> scratch_of env (transaction_id tx) (operations tx)"
  shows "nodes t p = nodes s p"
proof (cases "length (operations tx) > 1")
  case True
  then have "apply_multiple_operations_atomically env root tx policy s = (Inl e, t)"
    using err by (auto simp: edit_apply_def failing_def reading_def split: if_splits)
  then show ?thesis by (rule apply_multiple_Inl [OF assms(1-3) _ p])
next
  case False
  then consider "t = s" | op payload where "operations tx = [op]"
      "apply_operation env root (transaction_id tx) policy op payload s = (Inl e, t)"
    using err by (auto simp: edit_apply_def failing_def io_bind_Inl guard_Inl result_simps
        length_Suc_conv not_less le_Suc_eq split: if_splits)
  then show ?thesis
  proof cases
    case 2
    then show ?thesis
      using apply_operation_error p scratch_of_single unfolding error_keeps_def by (metis singletonD)
  qed simp
qed

section \<open>Undisturbed transactions succeed\<close>

lemma io_bind_step: "m s = (Inr x, t) \<Longrightarrow> io_bind m f s = f x t"
  by (simp add: io_bind_def)

lemma on_error_step: "m s = (Inr x, t) \<Longrightarrow> on_error m undo s = (Inr x, t)"
  by (simp add: on_error_def)

lemma write_temp_file_succeeds:
  assumes "no_fault s" "nodes s p = None" "can_hold (nodes s) p"
  shows "\<exists>t. write_temp_file p bytes permissions relative s = (Inr (), t)"
proof -
  have nf: "\<not> fault s (tick s + k)" for k using assms(1) by (simp add: no_fault_def)
  show ?thesis
    using assms(2,3) nf [of 0] nf [of 1] nf [of 2] nf [of 3]
    by (cases permissions)
      (simp_all add: write_temp_file_def io_bind_def attempt_def fs_calls fail_if_def numeral_eq_Suc)
qed

lemma read_existing_text_again:
  assumes wf: "wf_tree (nodes s)" "wf_tree (nodes t)"
    and res: "read_existing_text root s path policy = Inr (relative, p, src)"
    and same: "nodes t p = nodes s p" "deny_read t = deny_read s"
  shows "read_existing_text root t relative policy = Inr (relative, p, src)"
proof -
  have "resolve_file root (nodes s) relative = Inr p" "fs_read s p = Some src"
    using res by (auto simp: read_existing_text_def result_simps path_to_slash_string_def)
  then have "root_grants root p" "\<not> deny_read s p"
    using resolve_file_contained [OF wf(1)]
    by (auto simp: root_grants_def fs_read_def split: option.splits node.splits if_splits)
  with res show ?thesis
    by (elim read_existing_text_Inr [OF wf(1)])
      (metis read_existing_text_complete [OF wf(2)] same validate_relative_path_join_slash)
qed

lemma resolve_create_target_again:
  assumes wf: "wf_tree N" "wf_tree N'"
    and res: "resolve_create_target root N path = Inr (relative, p)"
    and same: "N' p = N p" "N' (butlast p) = N (butlast p)"
  shows "resolve_create_target root N' relative = Inr (relative, p)"
  using res
  by (elim resolve_create_target_Inr [OF wf(1)])
    (metis resolve_create_target_complete [OF wf(2)] same validate_relative_path_join_slash)

lemma apply_modify_succeeds:
  assumes wf: "wf_tree (nodes s)" and nf: "no_fault s" and allowed: "allow_modify policy"
    and r: "read_existing_text root s path policy = Inr (relative, p, before)"
    and len: "length src \<le> max_file_bytes policy"
    and temp: "nodes s (temp_path_for env p tx) = None" "can_hold (nodes s) (temp_path_for env p tx)"
  shows "\<exists>a t. apply_modify_operation env root tx relative p (sha256_hex env before) (sha256_hex env src)
      (length before) (length src) h src policy s = (Inr a, t) \<and> nodes t (temp_path_for env p tx) = None"
proof -
  let ?temp = "temp_path_for env p tx"
  have r0: "read_existing_text root s relative policy = Inr (relative, p, before)"
    by (rule read_existing_text_again [OF wf wf r]) simp_all
  obtain m where f: "nodes s p = Some (File before m)"
    using read_existing_text_Inr [OF wf r] by metis
  have perm: "file_permissions p relative s = (Inr m, s)"
    using f fs_metadata_real [OF wf, of p] by (simp add: file_permissions_def reading_def real_path_def)
  obtain s1 where w: "write_temp_file ?temp src (Some m) relative s = (Inr (), s1)"
    using write_temp_file_succeeds [OF nf temp] by blast
  note touched = write_temp_file_touches [of ?temp "{?temp}" src "Some m" relative, simplified]
  have ne: "?temp \<noteq> p" using f temp(1) by auto
  have s1: "wf_tree (nodes s1)" "same_oracles s s1" "nodes s1 p = Some (File before m)"
    using touches_wf [OF touched w wf] touches_oracles [OF touched w] touches_frame [OF touched w, of p]
      f ne by auto
  have r1: "read_existing_text root s1 relative policy = Inr (relative, p, before)"
    using read_existing_text_again [OF wf s1(1) r] s1 f by (simp add: same_oracles_def)
  have "\<not> fault s1 (tick s1)" using no_fault_later [OF nf s1(2)] by (simp add: no_fault_def)
  moreover have "can_hold (nodes s1) p"
    using wf_tree_can_hold [OF s1(1)] s1(1,3) by (cases "p = []") (auto simp: wf_tree_def)
  ultimately obtain t where "fs_rename ?temp p s1 = (True, t)" "nodes t ?temp = None"
    using s1(3) write_temp_file_Inr(1) [OF w] ne by (auto simp: fs_rename_def)
  then show ?thesis
    using allowed len perm w r0 r1 not_less
    by (simp add: apply_modify_operation_def fresh_text_def reading_def Let_def io_bind_step
        on_error_step attempt_Inr)
qed

lemma publish_created_succeeds:
  assumes "no_fault s" "nodes s temp = Some (File c m)" "nodes s p = None" "can_hold (nodes s) p"
  shows "\<exists>t. publish_created relative temp p s = (Inr (), t) \<and> nodes t temp = None"
proof -
  have nf: "\<not> fault s (tick s + k)" for k using assms(1) by (simp add: no_fault_def)
  show ?thesis
    using assms(2-) nf [of 0] nf [of 1]
    by (auto simp: publish_created_def fs_hard_link_def cleanup_temp_file_def fs_remove_file_def)
qed

lemma apply_create_succeeds:
  assumes wf: "wf_tree (nodes s)" and nf: "no_fault s" and allowed: "allow_create policy"
    and r: "resolve_create_target root (nodes s) path = Inr (relative, p)" and utf: "utf8_valid (last p)"
    and len: "length src \<le> max_file_bytes policy"
    and temp: "nodes s (temp_path_for env p tx) = None" "can_hold (nodes s) (temp_path_for env p tx)"
      "temp_path_for env p tx \<noteq> p"
  shows "\<exists>a t. apply_create_operation env root tx relative p (sha256_hex env src) (length src) src policy s
      = (Inr a, t) \<and> nodes t (temp_path_for env p tx) = None"
proof -
  let ?temp = "temp_path_for env p tx"
  have r0: "resolve_create_target root (nodes s) relative = Inr (relative, p)"
    by (rule resolve_create_target_again [OF wf wf r]) simp_all
  from r have p: "nodes s p = None" "nodes s (butlast p) = Some Directory"
    "target_confined root (PreparedCreate relative p [] 0)"
    by (rule resolve_create_target_Inr [OF wf], auto intro: confined_target)+
  obtain s1 where w: "write_temp_file ?temp src None relative s = (Inr (), s1)"
    using write_temp_file_succeeds [OF nf temp(1,2)] by blast
  note touched = write_temp_file_touches [of ?temp "{?temp}" src None relative, simplified]
  have s1: "wf_tree (nodes s1)" "same_oracles s s1" "nodes s1 p = None" "nodes s1 (butlast p) = Some Directory"
    using touches_wf [OF touched w wf] touches_oracles [OF touched w] touches_frame [OF touched w, of p]
      touches_directories [OF touched w] p temp(3) by auto
  have r1: "resolve_create_target root (nodes s1) relative = Inr (relative, p)"
    using resolve_create_target_again [OF wf s1(1) r] s1 p by simp
  have "can_hold (nodes s1) p"
    using temp_path_can_hold [OF temp(2) _ utf] target_confined_name [OF p(3)] s1(4)
    by (auto simp: can_hold_def)
  then obtain t where "publish_created relative ?temp p s1 = (Inr (), t)" "nodes t ?temp = None"
    using publish_created_succeeds [OF no_fault_later [OF nf s1(2)] write_temp_file_Inr(1) [OF w] s1(3)]
    by blast
  then show ?thesis
    using allowed len w r0 r1
    by (simp add: apply_create_operation_def fresh_create_target_def reading_def Let_def io_bind_step
        on_error_step)
qed

lemma temp_path_differs:
  assumes "p \<noteq> []" "utf8_valid (last p)"
  shows "temp_path_for env p tx \<noteq> p"
proof
  assume "temp_path_for env p tx = p"
  then have "length (last (temp_path_for env p tx)) = length (last p)" by simp
  then show False using assms by (simp add: temp_path_for_def file_name_or_target_def)
qed

lemma backup_path_differs:
  assumes "p \<noteq> []" "utf8_valid (last p)"
  shows "backup_path_for env p tx \<noteq> p"
proof
  assume "backup_path_for env p tx = p"
  then have "length (last (backup_path_for env p tx)) = length (last p)" by simp
  then show False using assms by (simp add: backup_path_for_def file_name_or_target_def)
qed

lemma scratch_apart_single:
  assumes "p_resolved_path op \<noteq> []" "utf8_valid (last (p_resolved_path op))"
  shows "scratch_apart env tx [op]"
  using temp_path_differs [OF assms, of env tx] backup_path_differs [OF assms, of env tx] assms(2)
  by (cases op) (auto simp: scratch_apart_def scratch_paths_def temp_path_for_def backup_path_for_def)

lemma apply_previewed:
  assumes wf: "wf_tree (nodes s)" and nf: "no_fault s"
    and pre: "preview_operation env root s policy [] op = Inr (prepared, payload, diff, seen)"
    and utf: "utf8_valid (last (p_resolved_path prepared))"
    and temp: "nodes s (temp_path_for env (p_resolved_path prepared) tx) = None"
      "entry_name (last (temp_path_for env (p_resolved_path prepared) tx))"
  shows "\<exists>a t. apply_operation env root tx policy prepared payload s = (Inr a, t)
    \<and> nodes t (temp_path_for env (p_resolved_path prepared) tx) = None"
proof -
  let ?p = "p_resolved_path prepared"
  let ?temp = "temp_path_for env ?p tx"
  have ok: "operation_ok env root s policy op prepared payload" by (rule preview_operation_Inr [OF wf pre])
  then have p: "?p \<noteq> []" using target_confined_name by (auto simp: operation_ok_def)
  have ne: "?temp \<noteq> ?p" by (rule temp_path_differs [OF p utf])
  have bl: "butlast ?temp = butlast ?p" "?temp \<noteq> []" by (simp_all add: temp_path_for_def)
  show ?thesis
  proof (cases op)
    case (CreateTextFile path c)
    then obtain relative where r: "resolve_create_target root (nodes s) path = Inr (relative, ?p)"
      and b: "allow_create policy" "length c \<le> max_file_bytes policy"
      and out: "prepared = PreparedCreate relative ?p (sha256_hex env c) (length c)" "payload = CreatePayload c"
      using pre by (auto simp: result_simps)
    have "can_hold (nodes s) ?temp"
      using r temp(2) bl by (elim resolve_create_target_Inr [OF wf]) (simp add: can_hold_def)
    from apply_create_succeeds [OF wf nf b(1) r utf b(2) temp(1) this ne] out show ?thesis
      by (metis apply_operation.simps(1))
  next
    case (ModifyTextFile path expected hunks)
    then obtain relative before after where
      r: "read_existing_text root s path policy = Inr (relative, ?p, before)"
      and b: "allow_modify policy" "length after \<le> max_file_bytes policy"
      and out: "prepared = PreparedModify relative ?p (sha256_hex env before) (sha256_hex env after)
          (length before) (length after) (length hunks)" "payload = ModifyPayload after"
      using pre by (auto simp: result_simps Let_def)
    have "can_hold (nodes s) ?temp"
      using r temp(2) bl p wf_tree_parent [OF wf, of ?p]
      by (elim read_existing_text_Inr [OF wf]) (simp add: can_hold_def)
    from apply_modify_succeeds [OF wf nf b(1) r b(2) temp(1) this] out show ?thesis
      by (metis apply_operation.simps(2))
  next
    case (ReplaceTextFile path expected c)
    then obtain relative before where
      r: "read_existing_text root s path policy = Inr (relative, ?p, before)"
      and b: "allow_modify policy" "length c \<le> max_file_bytes policy"
      and out: "prepared = PreparedModify relative ?p (sha256_hex env before) (sha256_hex env c)
          (length before) (length c) 1" "payload = ModifyPayload c"
      using pre by (auto simp: result_simps Let_def)
    have "can_hold (nodes s) ?temp"
      using r temp(2) bl p wf_tree_parent [OF wf, of ?p]
      by (elim read_existing_text_Inr [OF wf]) (simp add: can_hold_def)
    from apply_modify_succeeds [OF wf nf b(1) r b(2) temp(1) this] out show ?thesis
      by (metis apply_operation.simps(2))
  qed
qed

lemma preview_Inr:
  assumes "preview env root s policy counter ops = (Inr tx, counter')"
  obtains diff where "preview_operations env root s policy [] ops = Inr (operations tx, apply_payloads tx, diff)"
    "truncate_diff_summary diff (max_diff_summary_bytes policy)
       = (diff_summary tx, diff_summary_truncated tx, diff_summary_bytes tx)"
    "ops \<noteq> []" "length ops \<le> max_operations policy" "operation_count tx = length ops"
    "estimate_request_bytes env ops \<le> max_transaction_bytes policy"
    "transaction_id tx = ''edit-'' @ show_nat counter"
    "counter' = (counter + 1) mod (u64_max + 1)"
proof -
  obtain diff where "preview_operations env root s policy [] ops = Inr (operations tx, apply_payloads tx, diff)"
    "truncate_diff_summary diff (max_diff_summary_bytes policy)
       = (diff_summary tx, diff_summary_truncated tx, diff_summary_bytes tx)"
    "ops \<noteq> []" "length ops \<le> max_operations policy" "operation_count tx = length ops"
    "estimate_request_bytes env ops \<le> max_transaction_bytes policy"
    "transaction_id tx = ''edit-'' @ show_nat counter"
    "counter' = (counter + 1) mod (u64_max + 1)"
    using assms by (auto simp: preview_def Let_def result_simps next_edit_transaction_id_def
        case_prod_beta not_less split: if_splits)
  then show thesis by (rule that)
qed

lemma preview_apply_succeeds:
  assumes wf: "wf_tree (nodes s)" and nf: "no_fault s"
    and pre: "preview env root s policy counter [op] = (Inr tx, counter')"
    and fresh: "\<forall>q \<in> set (operations tx). utf8_valid (last (p_resolved_path q))
       \<and> nodes s (temp_path_for env (p_resolved_path q) (transaction_id tx)) = None
       \<and> entry_name (last (temp_path_for env (p_resolved_path q) (transaction_id tx)))"
  shows "\<exists>res t. edit_apply env root tx policy s = (Inr res, t) \<and> transaction_committed env root tx s t
    \<and> (\<forall>q \<in> set (operations tx).
         nodes t (temp_path_for env (p_resolved_path q) (transaction_id tx)) = None)"
proof -
  obtain prepared payload diff seen where
    ops: "operations tx = [prepared]" "apply_payloads tx = [payload]" "max_operations policy \<noteq> 0"
    and one: "preview_operation env root s policy [] op = Inr (prepared, payload, diff, seen)"
    using pre by (elim preview_Inr) (auto simp: result_simps eq_commute [of "[_]"])
  obtain a t where a: "apply_operation env root (transaction_id tx) policy prepared payload s = (Inr a, t)"
    and clean: "nodes t (temp_path_for env (p_resolved_path prepared) (transaction_id tx)) = None"
    using apply_previewed [OF wf nf one, of "transaction_id tx"] fresh ops(1) by auto
  have "edit_apply env root tx policy s = (Inr (apply_result tx [a]), t)"
    using a ops by (simp add: edit_apply_def io_bind_def reading_def)
  moreover have "p_resolved_path prepared \<noteq> []"
    using preview_operation_Inr(1) [OF wf one] target_confined_name(1) by (auto simp: operation_ok_def)
  then have "scratch_apart env (transaction_id tx) (operations tx)"
    using scratch_apart_single fresh ops by simp
  ultimately show ?thesis using edit_apply_Inr [OF wf] clean ops by fastforce
qed

end
