(* ===== verification/Edit_Properties.thy ===== *)
theory Edit_Properties
  imports Edit_Apply
begin

text \<open>
  The properties of the edit engine: what a preview promises, what an application does to
  the file system when it succeeds and when it fails, and that an undisturbed application
  of a preview succeeds. Each property with a hypothesis is followed by an instance on a
  small project.
\<close>

section \<open>A small project\<close>

definition demo_listing :: "(spath \<times> node) list" where
  "demo_listing = [([], Directory), ([''p''], Directory),
     ([''p'', ''a''], File ''hello'' 420), ([''p'', ''b''], File ''x y'' 384)]"

definition demo_fs :: "(nat \<Rightarrow> bool) \<Rightarrow> fs" where
  "demo_fs f = \<lparr>nodes = map_of demo_listing, deny_read = (\<lambda>_. False), new_mode = 420, tick = 0,
     fault = f, short_write = (\<lambda>_. 1)\<rparr>"

definition demo_root :: resource_root where
  "demo_root = \<lparr>root_kind = Project, canonical_path = [''p''], sensitive_policy = deny_nothing,
     granted_target = None\<rparr>"

definition demo_env :: edit_env where
  "demo_env = \<lparr>digest = (\<lambda>s. s), request_json_len = (\<lambda>_. Some 60), unified_diff = (\<lambda>_ _ c. c),
     process_id = 7\<rparr>"

definition demo_policy :: edit_policy where
  "demo_policy = extension_proposal\<lparr>allow_create := True\<rparr>"

definition demo_a :: spath where
  "demo_a = [''p'', ''a'']"

definition demo_a_tmp :: spath where
  "demo_a_tmp = [''p'', ''.a.edit-0.7.tmp'']"

definition demo_modify :: prepared_operation where
  "demo_modify = PreparedModify ''a'' demo_a (sha256_hex demo_env ''hello'')
     (sha256_hex demo_env ''hullo'') 5 5 1"

definition demo_tx :: prepared_transaction where
  "demo_tx = \<lparr>transaction_id = ''edit-0'', operations = [demo_modify],
     operation_count = 1, diff_summary = '''', diff_summary_truncated = False,
     diff_summary_bytes = 0, apply_payloads = [ModifyPayload ''hullo'']\<rparr>"

lemma demo_wf: "wf_tree (nodes (demo_fs f))"
proof -
  have "wf_listing demo_listing" by code_simp
  then show ?thesis by (simp add: demo_fs_def wf_listing_tree)
qed

lemma demo_apart: "scratch_apart demo_env (transaction_id demo_tx) (operations demo_tx)"
  by code_simp

lemma demo_scratch: "temp_path_for demo_env demo_a ''edit-0'' = demo_a_tmp"
  by code_simp

lemma demo_paths:
  "distinct [[], [''p''], demo_a, demo_a_tmp]"
  "list_all (\<lambda>p. p \<noteq> [] \<and> butlast p = [''p''] \<and> entry_name (last p)) [demo_a, demo_a_tmp]"
  by code_simp+

lemma demo_utf8: "utf8_valid (last demo_a)"
  by code_simp

lemma demo_start:
  "nodes (demo_fs f) [] = Some Directory" "nodes (demo_fs f) [''p''] = Some Directory"
  "nodes (demo_fs f) demo_a = Some (File ''hello'' 420)" "nodes (demo_fs f) demo_a_tmp = None"
  "fault (demo_fs f) = f" "tick (demo_fs f) = 0" "deny_read (demo_fs f) = (\<lambda>_. False)"
  by (simp_all add: demo_fs_def demo_listing_def demo_a_def demo_a_tmp_def)

lemma demo_flags:
  "allow_modify demo_policy" "max_operations demo_policy = 16" "max_file_bytes demo_policy = 524288"
  "max_transaction_bytes demo_policy = 2097152" "max_diff_summary_bytes demo_policy = 65536"
  "request_json_len demo_env ops = Some 60" "unified_diff demo_env r b c = c"
  by (simp_all add: demo_policy_def extension_proposal_def demo_env_def)

text \<open>
  Running an example: the congruences evaluate the state before a step and nothing else, so
  the steps are unfolded in the order they run.
\<close>

lemma io_bind_lazy: "s = s' \<Longrightarrow> io_bind m f s = io_bind m f s'"
  by simp

lemma on_error_lazy: "s = s' \<Longrightarrow> on_error m undo s = on_error m undo s'"
  by simp

lemmas path_defs = validate_relative_path_def path_components_def is_absolute_def
  segment_components_def reject_metadata_path_def reject_sensitive_path_def sensitive_denies_def
  denies_def deny_nothing_def reject_symlinked_parent_def symlink_metadata_def canonicalize_def
  is_symlink_def resolve_file_def resolve_existing_def kernel_components_def fs_metadata_def
  is_file_def is_dir_def fs_len_def fs_read_def path_to_slash_string_def byte_in_def
  read_existing_text_def resolve_create_target_def

lemmas run_defs = io_bind_def reading_def guard_def attempt_def on_error_def fail_if_def
  write_temp_file_def [THEN fun_cong] cleanup_temp_file_def fresh_text_def [THEN fun_cong]
  file_permissions_def [THEN fun_cong] apply_modify_operation_def [THEN fun_cong]
  apply_operation.simps [THEN fun_cong] edit_apply_def [THEN fun_cong] Let_def fs_calls can_hold_def

lemma demo_read:
  assumes "nodes s [] = Some Directory" "nodes s [''p''] = Some Directory"
    "nodes s demo_a = Some (File ''hello'' m)" "\<not> deny_read s demo_a"
  shows "read_existing_text demo_root s ''a'' demo_policy = Inr (''a'', demo_a, ''hello'')"
  using assms unfolding demo_a_def by (simp add: path_defs demo_root_def demo_policy_def extension_proposal_def cong: res_bind_weak)

lemma demo_metadata:
  assumes "N [] = Some Directory" "N [''p''] = Some Directory" "N demo_a = Some (File c m)"
  shows "fs_metadata N demo_a = Some (File c m)"
  using assms unfolding demo_a_def by (simp add: fs_metadata_def canonicalize_def)

lemma demo_apply:
  "edit_apply demo_env demo_root demo_tx demo_policy (demo_fs f) =
     io_bind (apply_modify_operation demo_env demo_root ''edit-0'' ''a'' demo_a
       (sha256_hex demo_env ''hello'') (sha256_hex demo_env ''hullo'') 5 5 1 ''hullo'' demo_policy)
       (\<lambda>a. reading (\<lambda>_. Inr (apply_result demo_tx [a]))) (demo_fs f)"
  by (simp add: edit_apply_def demo_tx_def demo_modify_def io_bind_def guard_def reading_def demo_flags)

lemma demo_preview:
  "\<exists>tx. preview demo_env demo_root (demo_fs (\<lambda>_. False)) demo_policy 0
       [ReplaceTextFile ''a'' (sha256_hex demo_env ''hello'') ''hullo''] = (Inr tx, 1)
     \<and> operations tx = [demo_modify] \<and> transaction_id tx = ''edit-0''"
proof -
  have "show_nat 0 = ''0''" by code_simp
  then show ?thesis
    by (simp add: preview_def demo_start demo_read demo_flags estimate_request_bytes_def Let_def
        next_edit_transaction_id_def reject_duplicate_target_def truncate_diff_summary_def
        render_diff_summary_def demo_modify_def u64_max_def cong: res_bind_weak)
qed

lemma demo_applies: "\<exists>res t. edit_apply demo_env demo_root demo_tx demo_policy (demo_fs (\<lambda>_. False)) = (Inr res, t)"
  unfolding demo_apply using demo_paths
  by (simp add: demo_scratch demo_start demo_read demo_metadata demo_flags run_defs
      cong: res_bind_weak io_bind_lazy on_error_lazy)

section \<open>Application\<close>

text \<open>
  C1. A transaction that is applied commits exactly what was previewed: every modified
  target still held the text whose digest the preview recorded and now holds the new text
  with the old permissions, every created target did not exist and now holds its content,
  all targets lie below the root at allowed places, and no other path outside the scratch
  files of the transaction has changed, whichever calls failed on the way.
\<close>

theorem edit_commits_exactly:
  assumes "wf_tree (nodes s)" "scratch_apart env (transaction_id tx) (operations tx)"
    and "edit_apply env root tx policy s = (Inr res, t)"
  shows "transaction_committed env root tx s t"
  using edit_apply_Inr [OF assms] .

theorem edit_commits_exactly_witness:
  "\<exists>res t. edit_apply demo_env demo_root demo_tx demo_policy (demo_fs (\<lambda>_. False)) = (Inr res, t)
     \<and> transaction_committed demo_env demo_root demo_tx (demo_fs (\<lambda>_. False)) t"
  using demo_applies edit_commits_exactly [OF demo_wf demo_apart] by blast

text \<open>
  C2. A transaction that fails leaves every path outside its scratch files as it was, when
  at most one of the writing calls fails: what was already published is rolled back.
\<close>

theorem edit_failure_is_atomic:
  assumes "wf_tree (nodes s)" "scratch_apart env (transaction_id tx) (operations tx)"
    "at_most_one_fault s" and "edit_apply env root tx policy s = (Inl e, t)"
    and "p \<notin> scratch_of env (transaction_id tx) (operations tx)"
  shows "nodes t p = nodes s p"
  using edit_apply_Inl [OF assms] .

theorem edit_failure_is_atomic_witness:
  "\<exists>e t. edit_apply demo_env demo_root demo_tx demo_policy (demo_fs (\<lambda>i. i = 4)) = (Inl e, t)
     \<and> nodes t demo_a = Some (File ''hello'' 420)"
proof -
  let ?s = "demo_fs (\<lambda>i. i = 4)"
  have one: "at_most_one_fault ?s" by (simp add: at_most_one_fault_def demo_start)
  obtain e t where r: "edit_apply demo_env demo_root demo_tx demo_policy ?s = (Inl e, t)"
    unfolding demo_apply using demo_paths
    by (simp add: demo_scratch demo_start demo_read demo_metadata demo_flags run_defs
        cong: res_bind_weak io_bind_lazy on_error_lazy)
  have "demo_a \<notin> scratch_of demo_env (transaction_id demo_tx) (operations demo_tx)" by code_simp
  then show ?thesis
    using edit_failure_is_atomic [OF demo_wf demo_apart one r] r demo_start(3) by auto
qed

text \<open>
  C12. The preview of a single operation is applied successfully when nothing fails and the
  name of the temporary file is free: the commit is exact and no temporary file is left.
\<close>

theorem previewed_edit_applies:
  assumes "wf_tree (nodes s)" "no_fault s" "preview env root s policy counter [op] = (Inr tx, counter')"
    "\<forall>q \<in> set (operations tx). utf8_valid (last (p_resolved_path q))
       \<and> nodes s (temp_path_for env (p_resolved_path q) (transaction_id tx)) = None
       \<and> entry_name (last (temp_path_for env (p_resolved_path q) (transaction_id tx)))"
  shows "\<exists>res t. edit_apply env root tx policy s = (Inr res, t) \<and> transaction_committed env root tx s t
    \<and> (\<forall>q \<in> set (operations tx).
         nodes t (temp_path_for env (p_resolved_path q) (transaction_id tx)) = None)"
  using preview_apply_succeeds [OF assms] .

theorem previewed_edit_applies_witness:
  "\<exists>tx res t. preview demo_env demo_root (demo_fs (\<lambda>_. False)) demo_policy 0
       [ReplaceTextFile ''a'' (sha256_hex demo_env ''hello'') ''hullo''] = (Inr tx, 1)
     \<and> edit_apply demo_env demo_root tx demo_policy (demo_fs (\<lambda>_. False)) = (Inr res, t)
     \<and> nodes t demo_a_tmp = None"
proof -
  let ?op = "ReplaceTextFile ''a'' (sha256_hex demo_env ''hello'') ''hullo''"
  let ?s = "demo_fs (\<lambda>_. False)"
  obtain tx where p: "preview demo_env demo_root ?s demo_policy 0 [?op] = (Inr tx, 1)"
    and tx: "operations tx = [demo_modify]" "transaction_id tx = ''edit-0''"
    using demo_preview by blast
  have "\<forall>q \<in> set (operations tx). utf8_valid (last (p_resolved_path q))
       \<and> nodes ?s (temp_path_for demo_env (p_resolved_path q) (transaction_id tx)) = None
       \<and> entry_name (last (temp_path_for demo_env (p_resolved_path q) (transaction_id tx)))"
    using demo_paths(2) by (simp add: tx demo_modify_def demo_scratch demo_start demo_utf8)
  then show ?thesis
    using previewed_edit_applies [OF demo_wf _ p] p
    by (auto simp: no_fault_def demo_start tx demo_modify_def demo_scratch)
qed

section \<open>Preview\<close>

text \<open>
  C9. A preview respects the policy and binds every operation: the request is not larger
  than allowed, every prepared operation agrees with the request and the file system it was
  made in (a modified file exists and has the expected digest, a created one does not
  exist, hunks are the exact replacement), its target lies below the root and is neither
  sensitive nor protected, the recorded digest and length are those of the payload, no two
  operations have the same target, and the summary fits its bound.
\<close>

theorem preview_sound:
  assumes "wf_tree (nodes s)" "preview env root s policy counter ops = (Inr tx, counter')"
  shows "all_previewed env root s policy ops (operations tx) (apply_payloads tx)
    \<and> distinct (map p_resolved_path (operations tx)) \<and> operation_count tx = length ops
    \<and> length ops \<le> max_operations policy \<and> ops \<noteq> []
    \<and> estimate_request_bytes env ops \<le> max_transaction_bytes policy
    \<and> length (diff_summary tx) \<le> max_diff_summary_bytes policy
    \<and> diff_summary_bytes tx = length (diff_summary tx)"
  using assms(2)
proof (rule preview_Inr)
  fix diff
  assume p: "preview_operations env root s policy [] ops = Inr (operations tx, apply_payloads tx, diff)"
    and d: "truncate_diff_summary diff (max_diff_summary_bytes policy)
       = (diff_summary tx, diff_summary_truncated tx, diff_summary_bytes tx)"
    and rest: "ops \<noteq> []" "length ops \<le> max_operations policy" "operation_count tx = length ops"
      "estimate_request_bytes env ops \<le> max_transaction_bytes policy"
  note all = preview_operations_Inr [OF assms(1) p]
  have "distinct (map p_resolved_path (operations tx))"
    using all all_previewed_confined target_confined_distinct by blast
  then show ?thesis using all rest truncate_diff_summary_bounds [OF d] by blast
qed

theorem preview_sound_witness:
  "\<exists>tx. preview demo_env demo_root (demo_fs (\<lambda>_. False)) demo_policy 0
       [ReplaceTextFile ''a'' (sha256_hex demo_env ''hello'') ''hullo''] = (Inr tx, 1)
     \<and> all_previewed demo_env demo_root (demo_fs (\<lambda>_. False)) demo_policy
         [ReplaceTextFile ''a'' (sha256_hex demo_env ''hello'') ''hullo'']
         (operations tx) (apply_payloads tx)"
  using demo_preview preview_sound [OF demo_wf] by blast

text \<open>
  C15. Hunks are applied exactly: the result is the one where every hunk in turn found its
  text at exactly one position of what the hunks before it produced, overlapping positions
  included, and only that occurrence was replaced; when there is no such result, an error is
  returned.
\<close>

theorem apply_hunks_exact:
  assumes "\<forall>h \<in> set hunks. utf8_valid (hunk_find h)"
  shows "apply_hunks path original hunks = Inr out \<longleftrightarrow> hunks \<noteq> [] \<and> hunks_applied original hunks out"
  using apply_hunks_from_iff [OF assms] by (simp add: apply_hunks_def)

theorem apply_hunks_exact_witness:
  "hunks_applied ''abcb'' [\<lparr>hunk_find = ''ab'', hunk_replace = ''x''\<rparr>,
     \<lparr>hunk_find = ''xc'', hunk_replace = ''''\<rparr>] ''b''"
proof -
  let ?hs = "[\<lparr>hunk_find = ''ab'', hunk_replace = ''x''\<rparr>, \<lparr>hunk_find = ''xc'', hunk_replace = ''''\<rparr>]"
  have "\<forall>h \<in> set ?hs. utf8_valid (hunk_find h)" by (simp add: byte_in_def)
  moreover have "apply_hunks ''f'' ''abcb'' ?hs = Inr ''b''" by code_simp
  ultimately show ?thesis using apply_hunks_exact by blast
qed

text \<open>
  The diff summary is cut to its bound at a character boundary: it fits, stays valid
  UTF-8, is flagged exactly when the diff is larger than the bound, and is the whole diff
  otherwise.
\<close>

lemma diff_summary_bounded:
  assumes "truncate_diff_summary summary max_bytes = (out, truncated, bytes)" "utf8_valid summary"
  shows "length out \<le> max_bytes \<and> bytes = length out \<and> utf8_valid out
    \<and> (truncated \<longleftrightarrow> length summary > max_bytes) \<and> (\<not> truncated \<longrightarrow> out = summary)"
  using truncate_diff_summary_bounds [OF assms(1)] diff_cut.keeps_utf8 [OF assms(2), of max_bytes] assms(1)
  by simp

lemma diff_summary_bounded_witness:
  "\<exists>out n. truncate_diff_summary (replicate 30 CHR ''a'') 20 = (out, True, n) \<and> n \<le> 20 \<and> utf8_valid out"
proof -
  obtain out b n where r: "truncate_diff_summary (replicate 30 CHR ''a'') 20 = (out, b, n)"
    by (metis prod.collapse)
  have "utf8_valid (replicate 30 CHR ''a'')" by (simp add: eval_nat_numeral)
  from diff_summary_bounded [OF r this] r show ?thesis by auto
qed

text \<open>
  C18. A relative target path that is accepted is a list of proper names: it is not absolute,
  has no parent component and names no protected metadata (\<^verbatim>\<open>.git\<close>, \<^verbatim>\<open>target\<close>, the
  sessions, the configuration and the permissions of the program itself); the slash form
  that is recorded of it is accepted again with the same names.
\<close>

theorem validated_path_safe:
  assumes "validate_relative_path path = Inr names"
  shows "names \<noteq> [] \<and> list_all valid_name names \<and> \<not> is_absolute path
    \<and> ParentDir \<notin> set (path_components path)
    \<and> hd names \<notin> {''.git'', ''target''} \<and> \<not> prefix [''.yach'', ''sessions''] names
    \<and> \<not> prefix [''.yach'', ''permissions''] names \<and> names \<noteq> [''.yach'', ''config.json'']
    \<and> validate_relative_path (path_to_slash_string names) = Inr names"
proof -
  note v = validate_relative_path_Inr [OF assms]
  have "hd names \<notin> {''.git'', ''target''} \<and> \<not> prefix [''.yach'', ''sessions''] names
    \<and> \<not> prefix [''.yach'', ''permissions''] names \<and> names \<noteq> [''.yach'', ''config.json'']"
    using v(5) [of path] v(1) by (cases names) (auto simp: reject_metadata_path_def result_simps)
  then show ?thesis
    using v validate_relative_path_join_slash [OF assms] by (simp add: list_all_iff path_to_slash_string_def)
qed

theorem validated_path_safe_witness:
  "validate_relative_path ''./src//main.rs'' = Inr [''src'', ''main.rs'']
   \<and> validate_relative_path (path_to_slash_string [''src'', ''main.rs'']) = Inr [''src'', ''main.rs'']"
proof -
  have "validate_relative_path ''./src//main.rs'' = Inr [''src'', ''main.rs'']" by code_simp
  then show ?thesis using validated_path_safe by blast
qed

section \<open>Reads\<close>

text \<open>
  C31. A text read returns a file below the root that is not sensitive, is valid UTF-8 and
  not larger than the limit, as it is in the file system; a root granted for one target
  reads that target only.
\<close>

theorem read_text_file_confined:
  assumes "wf_tree (nodes s)" "read_text_file root s requested max_bytes = Inr out"
  shows "prefix (canonical_path root) (read_path out)
    \<and> (\<exists>m. nodes s (read_path out) = Some (File (read_text out) m))
    \<and> (root_kind root = ExactTarget \<longrightarrow> granted_target root = Some (read_path out))
    \<and> utf8_valid (read_text out) \<and> read_byte_count out = length (read_text out)
    \<and> length (read_text out) \<le> max_bytes
    \<and> (\<exists>relative. normalized_relative_path root (read_path out) = Inr relative
         \<and> \<not> sensitive_denies root relative)"
proof -
  obtain p relative where r: "resolve_file root (nodes s) requested = Inr p"
    "normalized_relative_path root p = Inr relative" "\<not> sensitive_denies root relative"
    and rd: "fs_read s p = Some (read_text out)" "utf8_valid (read_text out)"
      "length (read_text out) \<le> max_bytes"
    and out: "read_path out = p" "read_byte_count out = length (read_text out)"
    using assms(2) by (auto simp: read_text_file_def result_simps not_less)
  note c = resolve_file_contained [OF assms(1) r(1)]
  obtain b m where f: "nodes s p = Some (File b m)" using c(2) by blast
  then have "b = read_text out"
    using rd(1) fs_metadata_real [OF assms(1), of p]
    by (auto simp: fs_read_def real_path_def split: if_splits)
  then show ?thesis using c r rd out f by blast
qed

theorem read_text_file_confined_witness:
  "\<exists>out. read_text_file demo_root (demo_fs (\<lambda>_. False)) ''./a'' 100 = Inr out
     \<and> prefix [''p''] (read_path out) \<and> length (read_text out) \<le> 100"
proof -
  have "\<exists>out. read_text_file demo_root (demo_fs (\<lambda>_. False)) ''./a'' 100 = Inr out"
    by (simp add: read_text_file_def path_defs normalized_relative_path_def demo_root_def demo_fs_def
        demo_listing_def cong: res_bind_weak)
  then show ?thesis using read_text_file_confined [OF demo_wf] by (fastforce simp: demo_root_def)
qed

section \<open>Sensitive paths\<close>

text \<open>
  The resolved sensitive-path policy decides by the patterns of the configuration: with
  no warning a path is denied when one of the effective deny patterns matches it and none of
  the effective allow patterns does, the defaults being part of both unless they are switched
  off; when a configured pattern is invalid, exactly the default patterns decide.
\<close>

lemma sensitive_policy_decides:
  assumes "globset_law lib glob_matches" "resolve_policy lib user project = (policy, warnings)"
    and "from_patterns lib DEFAULT_SENSITIVE_DENY_PATTERNS DEFAULT_SENSITIVE_ALLOW_PATTERNS = Inr builtin"
  defines "deny \<equiv> if warnings = [] then effective_patterns fc_deny DEFAULT_SENSITIVE_DENY_PATTERNS user project
      else DEFAULT_SENSITIVE_DENY_PATTERNS"
    and "allow \<equiv> if warnings = [] then effective_patterns fc_allow DEFAULT_SENSITIVE_ALLOW_PATTERNS user project
      else DEFAULT_SENSITIVE_ALLOW_PATTERNS"
  shows "denies policy path \<longleftrightarrow> list_ex (\<lambda>p. pattern_matches lib glob_matches p path) deny
    \<and> \<not> list_ex (\<lambda>p. pattern_matches lib glob_matches p path) allow"
proof -
  have "from_patterns lib deny allow = Inr policy"
    using assms(2,3) unfolding deny_def allow_def
    by (auto simp: resolve_policy_def default_policy_def split: sum.splits)
  then show ?thesis by (rule from_patterns_denies [OF assms(1)])
qed

definition literal_globs :: "string glob_lib" where
  "literal_globs = \<lparr>glob_new = Some, globset_build = (\<lambda>gs. Some (\<lambda>p. list_ex (\<lambda>g. g = p) gs))\<rparr>"

lemma sensitive_policy_decides_witness:
  "denies (fst (resolve_policy literal_globs
     (Some \<lparr>fc_deny = [''a/b'', ''a/c''], fc_allow = [''a/c''], fc_use_default_deny = Some False\<rparr>) None)) ''a/b''"
proof -
  let ?u = "Some \<lparr>fc_deny = [''a/b'', ''a/c''], fc_allow = [''a/c''], fc_use_default_deny = Some False\<rparr>"
  have law: "globset_law literal_globs (\<lambda>g p. g = p)"
    by (simp add: globset_law_def literal_globs_def)
  have total: "\<exists>policy. from_patterns literal_globs deny allow = Inr policy" for deny allow
    using compile_globs_valid [of deny literal_globs] compile_globs_valid [of allow literal_globs]
    by (auto simp: from_patterns_def compile_patterns_def literal_globs_def)
  then have w: "snd (resolve_policy literal_globs ?u None) = []"
    by (auto simp: resolve_policy_def split: sum.splits) (metis Inr_Inl_False)
  obtain builtin where b: "from_patterns literal_globs DEFAULT_SENSITIVE_DENY_PATTERNS
      DEFAULT_SENSITIVE_ALLOW_PATTERNS = Inr builtin"
    using total by blast
  show ?thesis
    unfolding sensitive_policy_decides [OF law prod.collapse [symmetric] b] w
    by (simp add: effective_patterns_def use_defaults_def pattern_matches_def literal_globs_def
        expand_pattern_def)
qed

end
