(* ===== verification/Review_Policy.thy ===== *)
theory Review_Policy
  imports Filesystem
begin

text \<open>
  The user's standing restrictions of \<^verbatim>\<open>yach-backend/src/review/policy.rs\<close>: their data, the
  policy a project sees, and the store that loads and replaces the policy file. The file is
  written to a temporary file that is renamed over it. JSON encoding and decoding come from
  another package and are parameters. The policy path has no symbolic link in it.
\<close>

section \<open>Data\<close>

datatype action_class =
  PersistentInstall | HostActivation | ExternalPublish | DestructiveDelete | SensitiveDisclosure

datatype restriction_matcher =
    CommandPrefix (prefix_text: string)
  | PathPrefix (prefix_text: string)
  | ActionClass action_class

datatype review_restriction =
    AskFirst (r_matcher: restriction_matcher) (r_note: string)
  | HumanPerforms (r_matcher: restriction_matcher) (r_note: string)

record review_policy =
  policy_revision :: nat
  policy_global :: "review_restriction list"
  policy_project :: "review_restriction list"

definition empty_review_policy :: review_policy where
  "empty_review_policy = \<lparr>policy_revision = 0, policy_global = [], policy_project = []\<rparr>"

datatype review_policy_error = PolicyIo | PolicyMalformed | HomeUnavailable

definition policy_schema :: string where
  "policy_schema = ''yach.review-policy.v1''"

record stored_review_policy =
  stored_schema :: string
  stored_revision :: nat
  stored_global :: "review_restriction list"
  stored_projects :: "string \<rightharpoonup> review_restriction list"

definition stored_empty :: stored_review_policy where
  "stored_empty = \<lparr>stored_schema = policy_schema, stored_revision = 0, stored_global = [],
     stored_projects = Map.empty\<rparr>"

definition view :: "stored_review_policy \<Rightarrow> string \<Rightarrow> review_policy" where
  "view doc key = \<lparr>policy_revision = stored_revision doc, policy_global = stored_global doc,
     policy_project = (case stored_projects doc key of Some rs \<Rightarrow> rs | None \<Rightarrow> [])\<rparr>"

record review_policy_store =
  store_path :: spath
  store_cached :: "stored_review_policy option"

text \<open>The JSON package, the process id, and the newline after a document.\<close>

record policy_env =
  policy_to_json :: "stored_review_policy \<Rightarrow> string"
  policy_from_json :: "string \<Rightarrow> stored_review_policy option"
  policy_pid :: nat

definition newline :: string where
  "newline = [CHR 0x0A]"

section \<open>Files\<close>

text \<open>\<open>Path::with_extension\<close> on the last name: what follows its last dot is replaced.\<close>

definition file_stem :: "string \<Rightarrow> string" where
  "file_stem name = (let before = rev (tl (dropWhile (\<lambda>c. c \<noteq> CHR ''.'') (rev name))) in
     if CHR ''.'' \<notin> set name \<or> before = '''' then name else before)"

definition with_extension :: "spath \<Rightarrow> string \<Rightarrow> spath" where
  "with_extension p ext = butlast p @ [file_stem (last p) @ ''.'' @ ext]"

definition temp_document :: "nat \<Rightarrow> spath \<Rightarrow> spath" where
  "temp_document pid p = with_extension p (''tmp-'' @ show_nat pid)"

definition create_private_dir :: "spath \<Rightarrow> fs \<Rightarrow> bool \<times> fs" where
  "create_private_dir p s =
     (if nodes s p \<noteq> None then (True, s) else fs_create_dirs (prefixes p) s)"

text \<open>The document is written beside its place and renamed over it.\<close>

definition write_document :: "spath \<Rightarrow> spath \<Rightarrow> string \<Rightarrow> fs \<Rightarrow> bool \<times> fs" where
  "write_document temp path bytes =
     and_then (fs_open_truncate temp 384)
     (and_then (fs_write_all temp bytes)
     (and_then (fs_write_all temp newline)
     (and_then fs_sync_all
       (fs_rename temp path))))"

definition read_document ::
  "policy_env \<Rightarrow> fs \<Rightarrow> spath \<Rightarrow> (review_policy_error, stored_review_policy option) result" where
  "read_document env s path =
     (case fs_read_to_string s path of
        ReadNotFound \<Rightarrow> Inr None
      | ReadFailed \<Rightarrow> Inl PolicyIo
      | ReadOk raw \<Rightarrow>
          res_bind (ok_or (policy_from_json env raw) PolicyMalformed) (\<lambda>doc.
          res_bind (fail_if (stored_schema doc \<noteq> policy_schema) PolicyMalformed) (\<lambda>_.
            Inr (Some doc))))"

definition write_atomic ::
  "policy_env \<Rightarrow> spath \<Rightarrow> stored_review_policy \<Rightarrow> fs \<Rightarrow> (review_policy_error, unit) result \<times> fs" where
  "write_atomic env path doc s =
     (if path = [] then (Inl PolicyIo, s)
      else (case create_private_dir (butlast path) s of
          (False, t) \<Rightarrow> (Inl PolicyIo, t)
        | (True, t) \<Rightarrow>
            let temp = temp_document (policy_pid env) path in
            (case write_document temp path (policy_to_json env doc) t of
               (True, u) \<Rightarrow> (Inr (), u)
             | (False, u) \<Rightarrow> (Inl PolicyIo, snd (fs_remove_file temp u)))))"

section \<open>The store\<close>

definition in_home :: "spath \<Rightarrow> review_policy_store" where
  "in_home home = \<lparr>store_path = home @ [''.yach'', ''review-policy.json''], store_cached = None\<rparr>"

definition for_current_user :: "spath option \<Rightarrow> (review_policy_error, review_policy_store) result" where
  "for_current_user home =
     (case home of Some h \<Rightarrow> Inr (in_home h) | None \<Rightarrow> Inl HomeUnavailable)"

definition cached_revision :: "review_policy_store \<Rightarrow> nat" where
  "cached_revision store =
     (case store_cached store of Some doc \<Rightarrow> stored_revision doc | None \<Rightarrow> 0)"

definition base_document ::
  "policy_env \<Rightarrow> review_policy_store \<Rightarrow> fs \<Rightarrow> (review_policy_error, stored_review_policy) result" where
  "base_document env store s =
     res_bind (read_document env s (store_path store)) (\<lambda>found. Inr (case found of
         Some doc \<Rightarrow> doc
       | None \<Rightarrow> (case store_cached store of Some doc \<Rightarrow> doc | None \<Rightarrow> stored_empty)))"

definition load_policy ::
  "policy_env \<Rightarrow> review_policy_store \<Rightarrow> fs \<Rightarrow> string
   \<Rightarrow> (review_policy_error, review_policy) result \<times> review_policy_store" where
  "load_policy env store s key =
     (case read_document env s (store_path store) of
        Inl e \<Rightarrow> (Inl e, store)
      | Inr found \<Rightarrow>
          let doc = (case found of Some d \<Rightarrow> d | None \<Rightarrow> stored_empty)
          in (Inr (view doc key), store\<lparr>store_cached := Some doc\<rparr>))"

definition replaced_document ::
  "stored_review_policy \<Rightarrow> nat \<Rightarrow> string \<Rightarrow> review_policy \<Rightarrow> stored_review_policy" where
  "replaced_document doc next key policy =
     doc\<lparr>stored_schema := policy_schema, stored_revision := next,
         stored_global := policy_global policy,
         stored_projects := (if policy_project policy = [] then (stored_projects doc)(key := None)
                             else (stored_projects doc)(key \<mapsto> policy_project policy))\<rparr>"

definition replace_policy ::
  "policy_env \<Rightarrow> review_policy_store \<Rightarrow> string \<Rightarrow> review_policy \<Rightarrow> fs
   \<Rightarrow> (review_policy_error, nat) result \<times> review_policy_store \<times> fs" where
  "replace_policy env store key policy s =
     (case base_document env store s of
        Inl e \<Rightarrow> (Inl e, store, s)
      | Inr doc \<Rightarrow>
          (case u64_checked_add (max (stored_revision doc) (cached_revision store)) 1 of
             None \<Rightarrow> (Inl PolicyIo, store, s)
           | Some next \<Rightarrow>
               let doc' = replaced_document doc next key policy in
               (case write_atomic env (store_path store) doc' s of
                  (Inl e, t) \<Rightarrow> (Inl e, store, t)
                | (Inr _, t) \<Rightarrow> (Inr next, store\<lparr>store_cached := Some doc'\<rparr>, t))))"

section \<open>What is written is what is read\<close>

text \<open>What the store relies on: a document is read back from its encoding and a newline.\<close>

definition policy_json_law :: "policy_env \<Rightarrow> stored_review_policy \<Rightarrow> bool" where
  "policy_json_law env doc \<longleftrightarrow> policy_from_json env (policy_to_json env doc @ newline) = Some doc
     \<and> utf8_valid (policy_to_json env doc)"

lemma write_document_calls:
  "fs_call (\<lambda>s. snd (write_document temp path bytes s)) {temp, path}"
proof -
  have seq: "fs_call (\<lambda>s. snd (and_then f g s)) A"
    if "fs_call (\<lambda>s. snd (f s)) A" "fs_call (\<lambda>s. snd (g s)) A" for f g A
  proof -
    have "fs_call (\<lambda>s. (if b then snd (g (snd (f s))) else snd (f s))) A" for b
      using that fs_call_comp [OF that] by (cases b) simp_all
    from fs_call_branch [where f = "\<lambda>b s. if b then snd (g (snd (f s))) else snd (f s)", OF this]
    have "fs_call (\<lambda>s. (if fst (f s) then snd (g (snd (f s))) else snd (f s))) A" .
    moreover have "(\<lambda>s. snd (and_then f g s)) = (\<lambda>s. if fst (f s) then snd (g (snd (f s))) else snd (f s))"
      by (auto simp: and_then_def fun_eq_iff split: prod.splits bool.splits)
    ultimately show ?thesis by simp
  qed
  show ?thesis unfolding write_document_def
    by (intro seq fs_call_mono [OF open_truncate_call.fs_call_axioms]
        fs_call_mono [OF write_all_call.fs_call_axioms] fs_call_mono [OF sync_all_call.fs_call_axioms]
        rename_call.fs_call_axioms) auto
qed

interpretation document_call: fs_call "\<lambda>s. snd (write_document temp path bytes s)" "{temp, path}"
  for temp path bytes
  by (rule write_document_calls)

lemma write_document_ok:
  assumes "write_document temp path bytes s = (True, t)" "temp \<noteq> path"
  shows "\<exists>m. nodes t path = Some (File (bytes @ newline) m)"
proof -
  obtain s1 s2 s3 s4 where o: "fs_open_truncate temp 384 s = (True, s1)"
    and w: "fs_write_all temp bytes s1 = (True, s2)" and n: "fs_write_all temp newline s2 = (True, s3)"
    and y: "fs_sync_all s3 = (True, s4)" and r: "fs_rename temp path s4 = (True, t)"
    using assms(1) by (auto simp: write_document_def and_then_True)
  obtain m where "nodes s1 temp = Some (File '''' m)" using open_truncate_ok [OF o] by auto
  from write_all_ok [OF n write_all_ok [OF w this]] show ?thesis
    using sync_all_ok [OF y] rename_ok [OF r assms(2)] by auto
qed

lemma write_document_failed:
  assumes "write_document temp path bytes s = (False, t)" "p \<noteq> temp"
  shows "nodes t p = nodes s p"
proof -
  have o: "nodes u p = nodes v p" if "fs_open_truncate temp m v = (b, u)" for b m u v
    using open_truncate_call.frame [of p temp m v] that assms(2) by simp
  have w: "nodes u p = nodes v p" if "fs_write_all temp c v = (b, u)" for b c u v
    using write_all_call.frame [of p temp c v] that assms(2) by simp
  show ?thesis
    using assms(1) o w sync_all_ok rename_failed
    by (auto simp: write_document_def and_then_False dest!: sync_all_ok rename_failed)
qed

text \<open>Creating directories adds directories where nothing was, and nothing else.\<close>

definition dirs_added :: "fs \<Rightarrow> fs \<Rightarrow> bool" where
  "dirs_added s t \<longleftrightarrow> (\<forall>p. nodes t p = nodes s p \<or> nodes s p = None \<and> nodes t p = Some Directory)
     \<and> same_oracles s t"

lemma dirs_added_refl: "dirs_added s s"
  by (simp add: dirs_added_def)

lemma dirs_added_trans: "dirs_added s t \<Longrightarrow> dirs_added t u \<Longrightarrow> dirs_added s u"
  unfolding dirs_added_def by (metis same_oracles_trans)

lemma fs_create_dirs_added: "fs_create_dirs ps s = (b, t) \<Longrightarrow> dirs_added s t"
proof (induction ps arbitrary: s)
  case (Cons p ps)
  have "dirs_added s (snd (fs_mkdir p s))"
    by (auto simp: fs_mkdir_def dirs_added_def same_oracles_def)
  then show ?case
    using Cons dirs_added_trans
    by (auto split: if_splits prod.splits bool.splits)
qed (simp add: dirs_added_refl)

lemma create_private_dir_added: "create_private_dir p s = (b, t) \<Longrightarrow> dirs_added s t"
  by (auto simp: create_private_dir_def dirs_added_refl dest: fs_create_dirs_added split: if_splits)

lemma fs_create_dirs_inside:
  "fs_create_dirs ps s = (b, t) \<Longrightarrow> p \<notin> set ps \<Longrightarrow> nodes t p = nodes s p"
proof (induction ps arbitrary: s)
  case (Cons q ps)
  have "nodes (snd (fs_mkdir q s)) p = nodes s p" using Cons.prems(2) by (simp add: fs_mkdir_def)
  then show ?case using Cons by (auto split: if_splits prod.splits bool.splits)
qed simp

lemma create_private_dir_beside:
  assumes "create_private_dir (butlast p) s = (b, t)" "p \<noteq> []"
  shows "nodes t p = nodes s p"
proof -
  have "\<not> prefix p (butlast p)" using prefix_length_le [of p "butlast p"] assms(2) by (cases p) auto
  then show ?thesis
    using assms(1) fs_create_dirs_inside by (auto simp: create_private_dir_def split: if_splits)
qed

text \<open>The place of the policy file, and the temporary file beside it.\<close>

abbreviation policy_path :: "spath \<Rightarrow> spath" where
  "policy_path home \<equiv> home @ [''.yach'', ''review-policy.json'']"

lemma policy_temp_differs: "temp_document pid (policy_path home) \<noteq> policy_path home"
proof -
  have "file_stem ''review-policy.json'' = ''review-policy''" by code_simp
  then show ?thesis by (simp add: temp_document_def with_extension_def)
qed

lemma fs_read_to_string_same:
  assumes "nodes t p = nodes s p" "deny_read t = deny_read s"
    "\<And>q. q \<in> set (prefixes (butlast p)) \<Longrightarrow> (nodes t q \<noteq> None \<and> nodes t q \<noteq> Some Directory)
       = (nodes s q \<noteq> None \<and> nodes s q \<noteq> Some Directory)"
  shows "fs_read_to_string t p = fs_read_to_string s p"
  using assms by (auto simp: fs_read_to_string_def list_ex_iff split: option.splits node.splits)

lemma write_atomic_Inl:
  assumes "write_atomic env (policy_path home) doc s = (Inl e, t)"
  shows "read_document env t (policy_path home) = read_document env s (policy_path home)"
proof -
  let ?p = "policy_path home"
  let ?temp = "temp_document (policy_pid env) ?p"
  obtain b u where c: "create_private_dir (butlast ?p) s = (b, u)" by fastforce
  have tmp: "?temp \<notin> set (prefixes (butlast ?p))"
    by (auto simp: temp_document_def with_extension_def butlast_append dest: prefix_length_le)
  have "(\<forall>q. q \<noteq> ?temp \<longrightarrow> nodes t q = nodes u q) \<and> same_oracles u t"
  proof (cases b)
    case True
    then obtain v where w: "write_document ?temp ?p (policy_to_json env doc) u = (False, v)"
      and t: "t = snd (fs_remove_file ?temp v)"
      using assms c by (auto simp: write_atomic_def Let_def split: prod.splits bool.splits)
    then show ?thesis
      using write_document_failed [OF w] remove_file_call.frame [of _ ?temp v]
        same_oracles_trans [of u v t] remove_file_call.oracles [of v ?temp]
        document_call.oracles [of u ?temp ?p "policy_to_json env doc"] by simp
  qed (use assms c in \<open>auto simp: write_atomic_def\<close>)
  then have frame: "\<And>q. q \<noteq> ?temp \<Longrightarrow> nodes t q = nodes u q" and orc: "same_oracles u t" by blast+
  have "fs_read_to_string t ?p = fs_read_to_string s ?p"
  proof (rule fs_read_to_string_same)
    show "nodes t ?p = nodes s ?p"
      using frame [of ?p] create_private_dir_beside [OF c] policy_temp_differs [of "policy_pid env" home] by simp
    show "deny_read t = deny_read s"
      using orc create_private_dir_added [OF c] by (simp add: dirs_added_def same_oracles_def)
    fix q
    assume "q \<in> set (prefixes (butlast ?p))"
    with tmp have "q \<noteq> ?temp" by metis
    then have "nodes t q = nodes u q" by (rule frame)
    moreover have "nodes u q = nodes s q \<or> nodes s q = None \<and> nodes u q = Some Directory"
      using create_private_dir_added [OF c] by (simp add: dirs_added_def)
    ultimately show "(nodes t q \<noteq> None \<and> nodes t q \<noteq> Some Directory)
        = (nodes s q \<noteq> None \<and> nodes s q \<noteq> Some Directory)" by (elim disjE) simp_all
  qed
  then show ?thesis by (simp add: read_document_def)
qed

lemma write_atomic_Inr:
  assumes "write_atomic env (policy_path home) doc s = (Inr u, t)" "policy_json_law env doc"
    "\<not> deny_read s (policy_path home)" "stored_schema doc = policy_schema"
  shows "read_document env t (policy_path home) = Inr (Some doc)"
proof -
  let ?p = "policy_path home"
  let ?temp = "temp_document (policy_pid env) ?p"
  obtain s1 where c: "create_private_dir (butlast ?p) s = (True, s1)"
    and w: "write_document ?temp ?p (policy_to_json env doc) s1 = (True, t)"
    using assms(1) by (auto simp: write_atomic_def Let_def split: prod.splits bool.splits)
  have "deny_read t = deny_read s"
    using create_private_dir_added [OF c] document_call.oracles [of s1 ?temp ?p "policy_to_json env doc"] w
    by (simp add: dirs_added_def same_oracles_def)
  moreover obtain m where "nodes t ?p = Some (File (policy_to_json env doc @ newline) m)"
    using write_document_ok [OF w policy_temp_differs] by blast
  moreover have "utf8_valid (policy_to_json env doc @ newline)"
    using assms(2) by (intro utf8_valid_append) (auto simp: policy_json_law_def newline_def)
  ultimately have "fs_read_to_string t ?p = ReadOk (policy_to_json env doc @ newline)"
    using assms(3) by (simp add: fs_read_to_string_def)
  then show ?thesis using assms(2,4) by (simp add: read_document_def policy_json_law_def)
qed

lemma replace_policy_Inr:
  assumes "replace_policy env store key policy s = (Inr next_rev, store', t)"
  obtains doc where "base_document env store s = Inr doc" "stored_revision doc < next_rev"
    "cached_revision store < next_rev" "next_rev \<le> u64_max"
    "write_atomic env (store_path store) (replaced_document doc next_rev key policy) s = (Inr (), t)"
    "store' = store\<lparr>store_cached := Some (replaced_document doc next_rev key policy)\<rparr>"
  using assms by (auto simp: replace_policy_def Let_def u64_checked_add_def
      split: sum.splits option.splits prod.splits if_splits)

lemma view_replaced:
  "view (replaced_document doc next_rev key policy) k = \<lparr>policy_revision = next_rev, policy_global = policy_global policy,
     policy_project = (if k = key then policy_project policy else policy_project (view doc k))\<rparr>"
  by (auto simp: view_def replaced_document_def)

section \<open>Properties\<close>

text \<open>
  C27. A replaced policy is durable: every later load, by this store or another one of the
  same user, sees the new global restrictions, the new restrictions of the project and the
  old ones of every other project, under a revision that is larger than the one the file
  and the cache had.
\<close>

theorem policy_replace_persists:
  assumes "replace_policy env store key policy s = (Inr next_rev, store', t)"
    and "store_path store = policy_path home" "base_document env store s = Inr doc"
    and "policy_json_law env (replaced_document doc next_rev key policy)" "\<not> deny_read s (policy_path home)"
    and "store_path any = policy_path home"
  shows "stored_revision doc < next_rev \<and> cached_revision store < next_rev
    \<and> cached_revision store' = next_rev
    \<and> fst (load_policy env any t k) = Inr \<lparr>policy_revision = next_rev, policy_global = policy_global policy,
         policy_project = (if k = key then policy_project policy else policy_project (view doc k))\<rparr>"
  using assms(1)
proof (rule replace_policy_Inr)
  fix doc'
  let ?new = "replaced_document doc next_rev key policy"
  assume "base_document env store s = Inr doc'" "stored_revision doc' < next_rev"
    and "write_atomic env (store_path store) (replaced_document doc' next_rev key policy) s = (Inr (), t)"
    and "store' = store\<lparr>store_cached := Some (replaced_document doc' next_rev key policy)\<rparr>"
    and c: "cached_revision store < next_rev"
  then have d: "stored_revision doc < next_rev"
    and w: "write_atomic env (store_path store) ?new s = (Inr (), t)"
    and st: "store' = store\<lparr>store_cached := Some ?new\<rparr>"
    using assms(3) by simp_all
  have "stored_schema ?new = policy_schema" by (simp add: replaced_document_def)
  with w have "read_document env t (policy_path home) = Inr (Some ?new)"
    using write_atomic_Inr assms(2,4,5) by metis
  then have "fst (load_policy env any t k) = Inr (view ?new k)"
    using assms(6) by (simp add: load_policy_def Let_def)
  moreover have "cached_revision store' = next_rev" by (simp add: st cached_revision_def replaced_document_def)
  ultimately show ?thesis using d c by (simp add: view_replaced)
qed

definition demo_restriction :: review_restriction where
  "demo_restriction = HumanPerforms (ActionClass HostActivation) ''rebuilds''"

definition demo_review_policy :: review_policy where
  "demo_review_policy = \<lparr>policy_revision = 0, policy_global = [demo_restriction], policy_project = []\<rparr>"

definition demo_document :: stored_review_policy where
  "demo_document = replaced_document stored_empty 1 ''k'' demo_review_policy"

definition demo_policy_env :: policy_env where
  "demo_policy_env = \<lparr>policy_to_json = (\<lambda>_. ''d''), policy_from_json = (\<lambda>_. Some demo_document), policy_pid = 7\<rparr>"

definition demo_home :: "(nat \<Rightarrow> bool) \<Rightarrow> fs" where
  "demo_home f = \<lparr>nodes = [[] \<mapsto> Directory], deny_read = (\<lambda>_. False), new_mode = 420, tick = 0, fault = f,
     short_write = (\<lambda>_. 0)\<rparr>"

lemma demo_policy_names:
  "temp_document 7 [''.yach'', ''review-policy.json''] = [''.yach'', ''review-policy.tmp-7'']"
  "entry_name ''.yach''" "entry_name ''review-policy.tmp-7''" "entry_name ''review-policy.json''"
  by code_simp+

lemmas demo_replace_defs = replace_policy_def base_document_def read_document_def fs_read_to_string_def
  demo_home_def in_home_def cached_revision_def stored_empty_def u64_checked_add_def u64_max_def
  write_atomic_def demo_policy_env_def create_private_dir_def fs_mkdir_def can_hold_def Let_def
  write_document_def and_then_def fs_calls newline_def demo_policy_names

theorem policy_replace_persists_witness:
  "\<exists>store t. replace_policy demo_policy_env (in_home []) ''k'' demo_review_policy (demo_home (\<lambda>_. False)) = (Inr 1, store, t)
     \<and> fst (load_policy demo_policy_env (in_home []) t ''other'') =
         Inr \<lparr>policy_revision = 1, policy_global = [demo_restriction], policy_project = []\<rparr>"
proof -
  have "\<exists>store t. replace_policy demo_policy_env (in_home []) ''k'' demo_review_policy (demo_home (\<lambda>_. False))
      = (Inr 1, store, t)"
    by (simp add: demo_replace_defs)
  then obtain store t where r: "replace_policy demo_policy_env (in_home []) ''k'' demo_review_policy
      (demo_home (\<lambda>_. False)) = (Inr 1, store, t)" by blast
  have b: "base_document demo_policy_env (in_home []) (demo_home (\<lambda>_. False)) = Inr stored_empty"
    by (simp add: demo_replace_defs)
  have j: "policy_json_law demo_policy_env (replaced_document stored_empty 1 ''k'' demo_review_policy)"
    by (simp add: policy_json_law_def demo_policy_env_def demo_document_def)
  have p: "store_path (in_home []) = policy_path []" "\<not> deny_read (demo_home (\<lambda>_. False)) (policy_path [])"
    by (simp_all add: in_home_def demo_home_def)
  from policy_replace_persists [OF r p(1) b j p(2) p(1), of "''other''"] r show ?thesis
    by (simp add: view_def stored_empty_def demo_review_policy_def)
qed

text \<open>
  A policy that could not be replaced stays active: the store keeps what it had cached
  and the next load reads from the file what a load would have read before.
\<close>

lemma policy_replace_failure_keeps:
  assumes "replace_policy env store key policy s = (Inl e, store', t)"
    and "store_path store = policy_path home"
  shows "store' = store \<and> load_policy env store t k = load_policy env store s k"
proof -
  have "store' = store \<and> read_document env t (policy_path home) = read_document env s (policy_path home)"
    using assms write_atomic_Inl
    by (fastforce simp: replace_policy_def Let_def split: sum.splits option.splits prod.splits)
  then show ?thesis using assms(2) by (simp add: load_policy_def)
qed

lemma policy_replace_failure_keeps_witness:
  "\<exists>t. replace_policy demo_policy_env (in_home []) ''k'' demo_review_policy (demo_home (\<lambda>i. i = 3)) = (Inl PolicyIo, in_home [], t)
     \<and> load_policy demo_policy_env (in_home []) t ''k'' = load_policy demo_policy_env (in_home []) (demo_home (\<lambda>i. i = 3)) ''k''"
proof -
  have "\<exists>store t. replace_policy demo_policy_env (in_home []) ''k'' demo_review_policy (demo_home (\<lambda>i. i = 3))
      = (Inl PolicyIo, store, t)"
    by (simp add: demo_replace_defs)
  then obtain store t where r: "replace_policy demo_policy_env (in_home []) ''k'' demo_review_policy
      (demo_home (\<lambda>i. i = 3)) = (Inl PolicyIo, store, t)" by blast
  have "store_path (in_home []) = policy_path []" by (simp add: in_home_def)
  from policy_replace_failure_keeps [OF r this] r show ?thesis by simp
qed

end
