(* ===== verification/Permission.thy ===== *)
theory Permission
  imports Review_Policy
begin

text \<open>
  The permission engine of \<^verbatim>\<open>yach-backend/src/permission.rs\<close>: requests and decisions, the
  selection of the standing restriction that applies to a request, the two decision
  procedures (edits and host commands), the redacted summaries that go into evidence, and
  the persisted approval mode of a project. Word splitting of a command
  (\<open>shell_words::split\<close>), JSON and the digest come from other packages and are parameters;
  the counter of decision ids is passed along.
\<close>

section \<open>Data\<close>

datatype approval_mode = Review | AcceptEdits | AutoReview | FullAccess

datatype permission_capability =
    EditTransaction | ShellCommand | NetworkAccess | VerificationAction | ExtensionTool
  | ProviderVisibleTool

datatype permission_actor = UserLocalUi | Core | Provider | ExtensionActor string

datatype permission_mode = Allow | Ask | Deny | ModeAutoReview

datatype permission_reviewer = NoReviewer | UserReviewer | AutoReviewer | ExtensionReviewer string

datatype permission_risk = ReadOnly | WorkspaceWrite | ExternalWrite | Network | ProcessExecution

record permission_target_summary =
  operation :: string
  resource :: string

record permission_request =
  request_id :: string
  actor :: permission_actor
  capability :: permission_capability
  target :: permission_target_summary
  risk :: permission_risk
  requested_reviewer :: "permission_reviewer option"
  command :: "string option"

record permission_prompt =
  title :: string
  body :: string

datatype permission_decision =
    Allowed (decision_id: string) (d_reviewer: permission_reviewer) (d_mode: permission_mode)
      (d_reason: string) (d_rationale: "string option") (d_revision: nat)
  | Denied (decision_id: string) (d_reviewer: permission_reviewer) (d_mode: permission_mode)
      (d_reason: string) (d_rationale: "string option") (d_revision: nat)
  | NeedsUserReview (decision_id: string) (d_reviewer: permission_reviewer) (d_mode: permission_mode)
      (d_reason: string) (d_prompt: permission_prompt) (d_revision: nat)

datatype permission_decision_outcome = OutcomeAllowed | OutcomeDenied | OutcomeNeedsUserReview

record permission_decision_summary =
  sum_request_id :: string
  sum_decision_id :: string
  sum_actor :: permission_actor
  sum_capability :: permission_capability
  sum_target :: permission_target_summary
  sum_risk :: permission_risk
  sum_configured_mode :: permission_mode
  sum_approval_mode :: "approval_mode option"
  sum_reviewer :: permission_reviewer
  sum_outcome :: permission_decision_outcome
  sum_reason :: string
  sum_rationale :: "string option"
  sum_user_override :: bool
  sum_policy_revision :: nat
  sum_authorization_revision :: nat

definition next_permission_decision_id :: "nat \<Rightarrow> string \<times> nat" where
  "next_permission_decision_id n = (''permission-decision-'' @ show_nat n, (n + 1) mod (u64_max + 1))"

section \<open>Texts\<close>

definition truncate_chars :: "string \<Rightarrow> nat \<Rightarrow> string" where
  "truncate_chars s n = (if char_count s \<le> n then s else take_chars n s @ ''...'')"

definition has_control :: "string \<Rightarrow> bool" where
  "has_control s = list_ex is_control (utf8_chars s)"

definition sanitized_label :: "string \<Rightarrow> string" where
  "sanitized_label label = (let trimmed = trim label in
     if trimmed = '''' then ''<empty>''
     else if has_control trimmed then ''<redacted>''
     else truncate_chars trimmed 128)"

definition sanitized_resource :: "string \<Rightarrow> string" where
  "sanitized_resource res = (let trimmed = trim res in
     if trimmed = '''' then ''<empty_path>''
     else if prefix ''{'' trimmed \<or> has_control trimmed then ''<redacted_resource>''
     else if is_absolute trimmed then ''<absolute_path>''
     else if ParentDir \<in> set (path_components trimmed) then ''<path_traversal>''
     else if trimmed = ''.yach'' \<or> prefix ''.yach/'' trimmed then ''<metadata_path>''
     else truncate_chars trimmed 256)"

definition sanitized_target_summary :: "permission_target_summary \<Rightarrow> permission_target_summary" where
  "sanitized_target_summary t =
     \<lparr>operation = sanitized_label (operation t), resource = sanitized_resource (resource t)\<rparr>"

definition sanitized_rationale :: "string option \<Rightarrow> string option" where
  "sanitized_rationale r = map_option (\<lambda>_. ''<redacted_rationale>'') r"

definition permission_prompt_for :: "permission_request \<Rightarrow> permission_prompt" where
  "permission_prompt_for r = \<lparr>title = ''Approve '' @ operation (target r),
     body = operation (target r) @ '' on '' @ resource (target r)\<rparr>"

definition restriction_prompt :: "permission_request \<Rightarrow> review_restriction \<Rightarrow> permission_prompt" where
  "restriction_prompt req r =
     \<lparr>title = truncate_chars (case r of
          HumanPerforms _ _ \<Rightarrow> ''Human performs this action''
        | AskFirst _ _ \<Rightarrow> ''Approve '' @ operation (target req)) 128,
      body = truncate_chars (r_note r) 512\<rparr>"

section \<open>Restrictions\<close>

definition normalized_argv :: "word_splitter \<Rightarrow> string \<Rightarrow> string list" where
  "normalized_argv words cmd =
     (case words cmd of
        Some argv \<Rightarrow> if argv \<noteq> [] then argv else split_whitespace cmd
      | None \<Rightarrow> split_whitespace cmd)"

definition command_prefix_matches :: "word_splitter \<Rightarrow> string \<Rightarrow> string \<Rightarrow> bool" where
  "command_prefix_matches words cmd pre =
     (let argv = normalized_argv words cmd; wanted = normalized_argv words pre in
      wanted \<noteq> [] \<and> length wanted \<le> length argv
      \<and> list_all (\<lambda>(left, right). left = right) (zip argv wanted))"

definition path_prefix_matches :: "string \<Rightarrow> string \<Rightarrow> bool" where
  "path_prefix_matches res pre =
     (trim pre \<noteq> '''' \<and> trim res \<noteq> '''' \<and> path_starts_with (trim res) (trim pre))"

definition inferred_action_class :: "word_splitter \<Rightarrow> string \<Rightarrow> action_class option" where
  "inferred_action_class words cmd =
     (case normalized_argv words cmd of
        [] \<Rightarrow> None
      | first # rest \<Rightarrow>
          let second = (case rest of [] \<Rightarrow> None | w # _ \<Rightarrow> Some w) in
          if first = ''nixos-rebuild'' \<or> first = ''darwin-rebuild'' then Some HostActivation
          else if (first = ''cargo'' \<or> first = ''npm'' \<or> first = ''pnpm'' \<or> first = ''yarn'')
              \<and> second = Some ''publish'' then Some ExternalPublish
          else if (first = ''cargo'' \<or> first = ''brew'') \<and> second = Some ''install''
              \<or> first = ''nix-env'' then Some PersistentInstall
          else if first = ''nix'' \<and> second = Some ''profile'' then Some PersistentInstall
          else if first = ''rm'' \<or> first = ''shred'' \<or> first = ''git'' \<and> second = Some ''clean''
          then Some DestructiveDelete
          else None)"

definition command_candidates :: "permission_request \<Rightarrow> string list" where
  "command_candidates req =
     (case command req of Some c \<Rightarrow> if c \<noteq> '''' then [c] else [] | None \<Rightarrow> [])
     @ (if capability req = ShellCommand \<and> operation (target req) \<noteq> ''''
        then [operation (target req)] else [])"

definition restriction_matches ::
  "word_splitter \<Rightarrow> review_restriction \<Rightarrow> permission_request \<Rightarrow> bool" where
  "restriction_matches words r req =
     (case r_matcher r of
        CommandPrefix pre \<Rightarrow> list_ex (\<lambda>c. command_prefix_matches words c pre) (command_candidates req)
      | PathPrefix pre \<Rightarrow> path_prefix_matches (resource (target req)) pre
      | ActionClass cl \<Rightarrow> list_ex (\<lambda>c. inferred_action_class words c = Some cl) (command_candidates req))"

definition is_human_performs :: "review_restriction \<Rightarrow> bool" where
  "is_human_performs r = (case r of HumanPerforms _ _ \<Rightarrow> True | AskFirst _ _ \<Rightarrow> False)"

text \<open>The loop of \<open>strongest_by\<close>, with what is selected so far.\<close>

fun strongest_from ::
  "(review_restriction \<Rightarrow> bool) \<Rightarrow> review_restriction option \<Rightarrow> review_restriction list
   \<Rightarrow> review_restriction option" where
  "strongest_from matches selected [] = selected"
| "strongest_from matches selected (r # rs) =
     (if \<not> matches r then strongest_from matches selected rs
      else (case selected of
          None \<Rightarrow> strongest_from matches (Some r) rs
        | Some (AskFirst _ _) \<Rightarrow>
            strongest_from matches (if is_human_performs r then Some r else selected) rs
        | Some (HumanPerforms _ _) \<Rightarrow> strongest_from matches selected rs))"

definition strongest_by ::
  "review_restriction list \<Rightarrow> (review_restriction \<Rightarrow> bool) \<Rightarrow> review_restriction option" where
  "strongest_by rs matches = strongest_from matches None rs"

definition strongest_match ::
  "word_splitter \<Rightarrow> review_restriction list \<Rightarrow> permission_request \<Rightarrow> review_restriction option" where
  "strongest_match words rs req = strongest_by rs (\<lambda>r. restriction_matches words r req)"

fun merge_precedence ::
  "review_restriction option \<Rightarrow> review_restriction option \<Rightarrow> review_restriction option" where
  "merge_precedence (Some (HumanPerforms m n)) _ = Some (HumanPerforms m n)"
| "merge_precedence _ (Some (HumanPerforms m n)) = Some (HumanPerforms m n)"
| "merge_precedence (Some g) _ = Some g"
| "merge_precedence None p = p"

definition selected_restriction ::
  "word_splitter \<Rightarrow> review_policy \<Rightarrow> permission_request \<Rightarrow> review_restriction option" where
  "selected_restriction words policy req =
     merge_precedence (strongest_match words (policy_global policy) req)
       (strongest_match words (policy_project policy) req)"

definition restriction_for_class ::
  "review_policy \<Rightarrow> action_class \<Rightarrow> review_restriction option" where
  "restriction_for_class policy cl =
     (let is_class = (\<lambda>r. r_matcher r = ActionClass cl) in
      merge_precedence (strongest_by (policy_global policy) is_class)
        (strongest_by (policy_project policy) is_class))"

section \<open>Decisions\<close>

definition check_restrictions ::
  "word_splitter \<Rightarrow> permission_request \<Rightarrow> review_policy \<Rightarrow> nat
   \<Rightarrow> (permission_decision \<times> nat) option" where
  "check_restrictions words req policy counter =
     (case selected_restriction words policy req of
        None \<Rightarrow> None
      | Some r \<Rightarrow>
          let (did, counter') = next_permission_decision_id counter in
          Some (NeedsUserReview did UserReviewer Ask
            (case r of AskFirst _ _ \<Rightarrow> ''restriction_ask_first''
             | HumanPerforms _ _ \<Rightarrow> ''restriction_human_performs'')
            (restriction_prompt req r) (policy_revision policy), counter'))"

definition extension_self_approval_requested :: "permission_request \<Rightarrow> bool" where
  "extension_self_approval_requested req =
     (case (actor req, requested_reviewer req) of
        (ExtensionActor a, Some (ExtensionReviewer r)) \<Rightarrow> a = r
      | _ \<Rightarrow> False)"

definition edit_decision ::
  "permission_request \<Rightarrow> permission_mode \<Rightarrow> string \<Rightarrow> nat \<Rightarrow> permission_decision" where
  "edit_decision req mode did revision =
     (if extension_self_approval_requested req
      then Denied did NoReviewer mode ''extension_self_approval_denied'' None revision
      else if capability req = EditTransaction \<and> risk req \<noteq> WorkspaceWrite
      then Denied did NoReviewer mode ''permission_risk_denied'' None revision
      else (case (if capability req = EditTransaction then mode else Deny) of
          Allow \<Rightarrow> Allowed did NoReviewer Allow ''permission_mode_allowed'' None revision
        | Ask \<Rightarrow> NeedsUserReview did UserReviewer Ask ''permission_mode_ask''
            (permission_prompt_for req) revision
        | Deny \<Rightarrow> Denied did NoReviewer Deny ''permission_mode_denied'' None revision
        | ModeAutoReview \<Rightarrow> NeedsUserReview did AutoReviewer ModeAutoReview ''route_to_reviewer''
            (permission_prompt_for req) revision))"

definition decide ::
  "word_splitter \<Rightarrow> permission_request \<Rightarrow> permission_mode \<Rightarrow> review_policy \<Rightarrow> nat
   \<Rightarrow> permission_decision \<times> nat" where
  "decide words req mode policy counter =
     (case check_restrictions words req policy counter of
        Some result \<Rightarrow> result
      | None \<Rightarrow> let (did, counter') = next_permission_decision_id counter
          in (edit_decision req mode did (policy_revision policy), counter'))"

definition shell_decision ::
  "permission_request \<Rightarrow> approval_mode \<Rightarrow> bool \<Rightarrow> bool \<Rightarrow> string \<Rightarrow> nat \<Rightarrow> permission_decision" where
  "shell_decision req mode user_allowlisted session_granted did revision =
     (if capability req \<noteq> ShellCommand \<or> risk req \<noteq> ProcessExecution
      then Denied did NoReviewer Deny ''permission_risk_denied'' None revision
      else if user_allowlisted
      then Allowed did NoReviewer Allow ''shell_user_allowlist'' None revision
      else if session_granted
      then Allowed did UserReviewer Allow ''shell_session_grant'' None revision
      else (case mode of
          FullAccess \<Rightarrow> Allowed did NoReviewer Allow ''approval_mode_full_access'' None revision
        | AutoReview \<Rightarrow> NeedsUserReview did AutoReviewer ModeAutoReview ''route_to_reviewer''
            (permission_prompt_for req) revision
        | _ \<Rightarrow> NeedsUserReview did UserReviewer Ask ''approval_mode_requires_review''
            (permission_prompt_for req) revision))"

definition decide_shell ::
  "word_splitter \<Rightarrow> permission_request \<Rightarrow> approval_mode \<Rightarrow> bool \<Rightarrow> bool \<Rightarrow> review_policy \<Rightarrow> nat
   \<Rightarrow> permission_decision \<times> nat" where
  "decide_shell words req mode user_allowlisted session_granted policy counter =
     (case check_restrictions words req policy counter of
        Some result \<Rightarrow> result
      | None \<Rightarrow> let (did, counter') = next_permission_decision_id counter
          in (shell_decision req mode user_allowlisted session_granted did (policy_revision policy),
              counter'))"

definition deny_shell :: "string \<Rightarrow> nat \<Rightarrow> permission_decision \<times> nat" where
  "deny_shell reason counter =
     (let (did, counter') = next_permission_decision_id counter
      in (Denied did NoReviewer Deny reason None 0, counter'))"

definition summary ::
  "permission_decision \<Rightarrow> permission_request \<Rightarrow> bool \<Rightarrow> permission_decision_summary" where
  "summary d req user_override =
     \<lparr>sum_request_id = request_id req, sum_decision_id = decision_id d, sum_actor = actor req,
      sum_capability = capability req, sum_target = sanitized_target_summary (target req),
      sum_risk = risk req, sum_configured_mode = d_mode d, sum_approval_mode = None,
      sum_reviewer = d_reviewer d,
      sum_outcome = (case d of
          Allowed _ _ _ _ _ _ \<Rightarrow> OutcomeAllowed
        | Denied _ _ _ _ _ _ \<Rightarrow> OutcomeDenied
        | NeedsUserReview _ _ _ _ _ _ \<Rightarrow> OutcomeNeedsUserReview),
      sum_reason = d_reason d,
      sum_rationale = (case d of
          Allowed _ _ _ _ r _ \<Rightarrow> sanitized_rationale r
        | Denied _ _ _ _ r _ \<Rightarrow> sanitized_rationale r
        | NeedsUserReview _ _ _ _ _ _ \<Rightarrow> None),
      sum_user_override = user_override, sum_policy_revision = d_revision d,
      sum_authorization_revision = 0\<rparr>"

section \<open>The persisted approval mode\<close>

definition approval_settings_schema :: string where
  "approval_settings_schema = ''yach.approval-settings.v1''"

record stored_approval_settings =
  settings_schema :: string
  settings_mode :: approval_mode

text \<open>
  What persistence takes from outside: JSON, the lower-case hexadecimal digest, the process
  id, the home directory of the user and the canonical project root.
\<close>

record approval_env =
  settings_to_json :: "stored_approval_settings \<Rightarrow> string"
  settings_from_json :: "string \<Rightarrow> stored_approval_settings option"
  digest_hex :: "string \<Rightarrow> string"
  approval_pid :: nat
  user_home :: "spath option"
  canonical_project :: "spath option"

definition is_slug_char :: "char \<Rightarrow> bool" where
  "is_slug_char c = (is_digit c \<or> 65 \<le> byte c \<and> byte c \<le> (90::nat) \<or> 97 \<le> byte c \<and> byte c \<le> (122::nat)
     \<or> c = CHR ''-'' \<or> c = CHR ''_'' \<or> c = CHR ''.'')"

definition project_state_key :: "(string \<Rightarrow> string) \<Rightarrow> spath \<Rightarrow> string" where
  "project_state_key hex root =
     (let slug = (if root = [] \<or> \<not> utf8_valid (last root) then ''''
            else map (\<lambda>g. case g of [c] \<Rightarrow> if is_slug_char c then c else CHR ''-'' | _ \<Rightarrow> CHR ''-'')
                   (utf8_chars (last root)))
      in (if slug = '''' then ''project'' else slug) @ ''--'' @ hex (CHR ''/'' # join_slash root))"

definition approval_settings_path :: "approval_env \<Rightarrow> spath option" where
  "approval_settings_path env =
     (case user_home env of
        None \<Rightarrow> None
      | Some home \<Rightarrow> (case canonical_project env of
          None \<Rightarrow> None
        | Some root \<Rightarrow>
            Some (home @ [''.yach'', ''permissions'', project_state_key (digest_hex env) root @ ''.json''])))"

definition dangerous :: "approval_mode \<Rightarrow> bool" where
  "dangerous mode \<longleftrightarrow> mode = FullAccess \<or> mode = AutoReview"

definition stored_project_approval_mode :: "approval_env \<Rightarrow> fs \<Rightarrow> approval_mode option" where
  "stored_project_approval_mode env s =
     Option.bind (approval_settings_path env) (\<lambda>path.
     Option.bind (case fs_read_to_string s path of ReadOk raw \<Rightarrow> Some raw | _ \<Rightarrow> None) (\<lambda>raw.
     Option.bind (settings_from_json env raw) (\<lambda>settings.
       if settings_schema settings = approval_settings_schema \<and> \<not> dangerous (settings_mode settings)
       then Some (settings_mode settings) else None)))"

definition load_project_approval_mode :: "approval_env \<Rightarrow> fs \<Rightarrow> approval_mode" where
  "load_project_approval_mode env s =
     (case stored_project_approval_mode env s of Some mode \<Rightarrow> mode | None \<Rightarrow> Review)"

definition project_approval_mode_warning :: "approval_env \<Rightarrow> fs \<Rightarrow> string option" where
  "project_approval_mode_warning env s =
     Option.bind (approval_settings_path env) (\<lambda>path.
       case fs_read_to_string s path of
         ReadNotFound \<Rightarrow> None
       | ReadFailed \<Rightarrow> Some ''approval_mode_config: could not read user state; using review''
       | ReadOk raw \<Rightarrow>
           (case settings_from_json env raw of
              None \<Rightarrow> Some ''approval_mode_config: invalid user state; using review''
            | Some settings \<Rightarrow>
                if settings_schema settings \<noteq> approval_settings_schema
                then Some ''approval_mode_config: unsupported user-state schema; using review''
                else if dangerous (settings_mode settings)
                then Some ''approval_mode_config: stored dangerous mode ignored; using review''
                else None))"

datatype approval_error = InvalidInput | ApprovalNotFound | ApprovalIo

definition persist_project_approval_mode ::
  "approval_env \<Rightarrow> approval_mode \<Rightarrow> fs \<Rightarrow> (approval_error, unit) result \<times> fs" where
  "persist_project_approval_mode env mode s =
     (if dangerous mode then (Inl InvalidInput, s)
      else (case approval_settings_path env of
          None \<Rightarrow> (Inl ApprovalNotFound, s)
        | Some path \<Rightarrow>
            (case create_private_dir (butlast path) s of
               (False, t) \<Rightarrow> (Inl ApprovalIo, t)
             | (True, t) \<Rightarrow>
                 (case write_document (temp_document (approval_pid env) path) path
                     (settings_to_json env \<lparr>settings_schema = approval_settings_schema,
                        settings_mode = mode\<rparr>) t of
                    (True, u) \<Rightarrow> (Inr (), u)
                  | (False, u) \<Rightarrow> (Inl ApprovalIo, u)))))"

section \<open>Facts about restrictions\<close>

text \<open>The reference: among all matches, the first that a human performs, else the first.\<close>

definition first_match :: "('a \<Rightarrow> bool) \<Rightarrow> 'a list \<Rightarrow> 'a option" where
  "first_match P xs = (case filter P xs of [] \<Rightarrow> None | x # _ \<Rightarrow> Some x)"

definition strongest_spec ::
  "(review_restriction \<Rightarrow> bool) \<Rightarrow> review_restriction list \<Rightarrow> review_restriction option" where
  "strongest_spec matches rs =
     (case first_match (\<lambda>r. matches r \<and> is_human_performs r) rs of
        Some r \<Rightarrow> Some r
      | None \<Rightarrow> first_match matches rs)"

lemma first_match_Nil [simp]: "first_match P [] = None"
  by (simp add: first_match_def)

lemma first_match_Cons [simp]: "first_match P (x # xs) = (if P x then Some x else first_match P xs)"
  by (simp add: first_match_def)

lemma first_match_append:
  "first_match P (xs @ ys) = (case first_match P xs of Some x \<Rightarrow> Some x | None \<Rightarrow> first_match P ys)"
  by (induction xs) auto

lemma first_match_Some: "first_match P xs = Some x \<Longrightarrow> x \<in> set xs \<and> P x"
  by (induction xs) (auto split: if_splits)

lemma first_match_None: "first_match P xs = None \<longleftrightarrow> (\<forall>x \<in> set xs. \<not> P x)"
  by (induction xs) auto

lemma is_human_performs_simps [simp]:
  "is_human_performs (HumanPerforms m n)" "\<not> is_human_performs (AskFirst m n)"
  by (simp_all add: is_human_performs_def)

lemma merge_precedence_human:
  "merge_precedence g p = (case g of
     Some r \<Rightarrow> if is_human_performs r then g
       else (case p of Some q \<Rightarrow> if is_human_performs q then p else g | None \<Rightarrow> g)
   | None \<Rightarrow> p)"
  by (cases "(g, p)" rule: merge_precedence.cases) (auto split: option.split review_restriction.split)

lemma strongest_from_spec:
  "strongest_from matches selected rs =
     (case selected of
        None \<Rightarrow> strongest_spec matches rs
      | Some r \<Rightarrow> if is_human_performs r then Some r
          else (case first_match (\<lambda>r. matches r \<and> is_human_performs r) rs of
                  Some h \<Rightarrow> Some h | None \<Rightarrow> Some r))"
proof (induction rs arbitrary: selected)
  case (Cons r rs)
  then show ?case
    by (cases r; cases selected) (auto simp: strongest_spec_def split: option.split review_restriction.split)
qed (simp add: strongest_spec_def split: option.split)

lemma strongest_by_spec: "strongest_by rs matches = strongest_spec matches rs"
  by (simp add: strongest_by_def strongest_from_spec)

lemma merge_options:
  assumes "\<And>r. hg = Some r \<Longrightarrow> is_human_performs r" "\<And>r. hp = Some r \<Longrightarrow> is_human_performs r"
    "\<And>r. hg = None \<Longrightarrow> mg = Some r \<Longrightarrow> \<not> is_human_performs r"
    "\<And>r. hp = None \<Longrightarrow> mp = Some r \<Longrightarrow> \<not> is_human_performs r"
  shows "merge_precedence (case hg of Some r \<Rightarrow> Some r | None \<Rightarrow> mg) (case hp of Some r \<Rightarrow> Some r | None \<Rightarrow> mp)
    = (case (case hg of Some r \<Rightarrow> Some r | None \<Rightarrow> hp) of Some r \<Rightarrow> Some r
       | None \<Rightarrow> (case mg of Some r \<Rightarrow> Some r | None \<Rightarrow> mp))"
  using assms by (cases hg; cases mg; cases hp; cases mp) (simp_all add: merge_precedence_human)

lemma merge_spec:
  "merge_precedence (strongest_spec matches global) (strongest_spec matches project) =
     strongest_spec matches (global @ project)"
  unfolding strongest_spec_def first_match_append
  by (rule merge_options) (auto simp: first_match_None dest: first_match_Some)

lemma selected_restriction_spec:
  "selected_restriction words policy req =
     strongest_spec (\<lambda>r. restriction_matches words r req) (policy_global policy @ policy_project policy)"
  by (simp add: selected_restriction_def strongest_match_def strongest_by_spec merge_spec)

lemma strongest_spec_None: "strongest_spec matches rs = None \<longleftrightarrow> (\<forall>r \<in> set rs. \<not> matches r)"
  by (auto simp: strongest_spec_def first_match_None split: option.split dest: first_match_Some)

lemma strongest_spec_Some:
  assumes "strongest_spec matches rs = Some r"
  shows "r \<in> set rs" "matches r" "is_human_performs r \<longleftrightarrow> (\<exists>q \<in> set rs. matches q \<and> is_human_performs q)"
  using assms by (auto simp: strongest_spec_def first_match_None split: option.splits dest: first_match_Some)

section \<open>The contract of a decision procedure\<close>

text \<open>
  Both decision procedures put the user's standing restrictions first. What a client relies
  on: a matching restriction is held for the user whatever else is configured, every
  decision carries the revision of the restrictions it was made under, and every decision
  takes one id from the counter.
\<close>

locale restriction_first =
  fixes engine :: "word_splitter \<Rightarrow> permission_request \<Rightarrow> review_policy \<Rightarrow> nat \<Rightarrow> permission_decision \<times> nat"
  assumes restricted: "selected_restriction words policy req = Some r
      \<Longrightarrow> \<exists>prompt. fst (engine words req policy n) = NeedsUserReview (fst (next_permission_decision_id n))
            UserReviewer Ask (if is_human_performs r then ''restriction_human_performs''
              else ''restriction_ask_first'') prompt (policy_revision policy)"
    and revision: "d_revision (fst (engine words req policy n)) = policy_revision policy"
    and identity: "(decision_id (fst (engine words req policy n)), snd (engine words req policy n))
      = next_permission_decision_id n"
begin

lemma allowed_unrestricted:
  assumes "fst (engine words req policy n) = Allowed i v m why rationale rev'"
    "r \<in> set (policy_global policy @ policy_project policy)"
  shows "\<not> restriction_matches words r req"
proof -
  have "selected_restriction words policy req = None"
    using restricted [of words policy req _ n] assms(1) by (cases "selected_restriction words policy req") auto
  then show ?thesis using assms(2) by (simp add: selected_restriction_spec strongest_spec_None)
qed

lemma held_for_human:
  assumes "r \<in> set (policy_global policy @ policy_project policy)" "restriction_matches words r req"
    "is_human_performs r"
  shows "d_reason (fst (engine words req policy n)) = ''restriction_human_performs''"
proof -
  obtain q where q: "selected_restriction words policy req = Some q"
    using assms by (cases "selected_restriction words policy req")
      (auto simp: selected_restriction_spec strongest_spec_None)
  then have "is_human_performs q"
    using strongest_spec_Some(3) [OF q [unfolded selected_restriction_spec]] assms by blast
  then show ?thesis using restricted [OF q, of n] by auto
qed

lemma distinct_decisions:
  assumes "n \<noteq> m" "n \<le> u64_max" "m \<le> u64_max"
  shows "decision_id (fst (engine words req policy n)) \<noteq> decision_id (fst (engine words' req' policy' m))"
  using identity [of words req policy n] identity [of words' req' policy' m] assms(1)
  by (auto simp: next_permission_decision_id_def dest: show_nat_inj)

end

lemma check_restrictions_Some:
  assumes "selected_restriction words policy req = Some r"
  shows "check_restrictions words req policy n = Some (NeedsUserReview (fst (next_permission_decision_id n))
     UserReviewer Ask (if is_human_performs r then ''restriction_human_performs'' else ''restriction_ask_first'')
     (restriction_prompt req r) (policy_revision policy), snd (next_permission_decision_id n))"
  using assms by (cases r) (auto simp: check_restrictions_def case_prod_beta)

lemma check_restrictions_None:
  "selected_restriction words policy req = None \<Longrightarrow> check_restrictions words req policy n = None"
  by (simp add: check_restrictions_def)

lemma edit_decision_fields [simp]:
  "d_revision (edit_decision req mode i v) = v" "decision_id (edit_decision req mode i v) = i"
  by (auto simp: edit_decision_def split: permission_mode.split)

lemma shell_decision_fields [simp]:
  "d_revision (shell_decision req mode a g i v) = v" "decision_id (shell_decision req mode a g i v) = i"
  by (auto simp: shell_decision_def split: approval_mode.split)

interpretation edit_engine: restriction_first "\<lambda>words req. decide words req mode" for mode
proof
  fix words policy req r n
  show "selected_restriction words policy req = Some r \<Longrightarrow> \<exists>prompt. fst (decide words req mode policy n) =
      NeedsUserReview (fst (next_permission_decision_id n)) UserReviewer Ask
        (if is_human_performs r then ''restriction_human_performs'' else ''restriction_ask_first'')
        prompt (policy_revision policy)"
    by (simp add: decide_def check_restrictions_Some)
  show "d_revision (fst (decide words req mode policy n)) = policy_revision policy"
    "(decision_id (fst (decide words req mode policy n)), snd (decide words req mode policy n))
      = next_permission_decision_id n"
    by (cases "selected_restriction words policy req"; simp add: decide_def check_restrictions_Some
        check_restrictions_None case_prod_beta)+
qed

interpretation shell_engine: restriction_first
  "\<lambda>words req. decide_shell words req mode user_allowlisted session_granted"
  for mode user_allowlisted session_granted
proof
  fix words policy req r n
  let ?d = "decide_shell words req mode user_allowlisted session_granted policy n"
  show "selected_restriction words policy req = Some r \<Longrightarrow> \<exists>prompt. fst ?d =
      NeedsUserReview (fst (next_permission_decision_id n)) UserReviewer Ask
        (if is_human_performs r then ''restriction_human_performs'' else ''restriction_ask_first'')
        prompt (policy_revision policy)"
    by (simp add: decide_shell_def check_restrictions_Some)
  show "d_revision (fst ?d) = policy_revision policy"
    "(decision_id (fst ?d), snd ?d) = next_permission_decision_id n"
    by (cases "selected_restriction words policy req"; simp add: decide_shell_def check_restrictions_Some
        check_restrictions_None case_prod_beta)+
qed

section \<open>Facts about redacted texts\<close>

lemma utf8_chars_append:
  "b = [] \<or> \<not> is_cont (hd b) \<Longrightarrow> utf8_chars (a @ b) = utf8_chars a @ utf8_chars b"
proof (induction a rule: utf8_chars.induct)
  case (2 c cs)
  have h: "takeWhile is_cont (cs @ b) = takeWhile is_cont cs" "dropWhile is_cont (cs @ b) = dropWhile is_cont cs @ b"
    using 2(2) by (induction cs) (auto simp: takeWhile_append dropWhile_append, (cases b; simp)+)
  then show ?case using 2 by simp
qed simp

lemma utf8_chars_take: "utf8_chars (take_chars n s) = take n (utf8_chars s)"
proof (induction s arbitrary: n rule: utf8_chars.induct)
  case (2 c cs)
  show ?case
  proof (cases n)
    case (Suc m)
    let ?rest = "take_chars m (dropWhile is_cont cs)"
    have "?rest = [] \<or> \<not> is_cont (hd ?rest)"
    proof (cases "dropWhile is_cont cs")
      case (Cons d ds)
      then have "\<not> is_cont d" by (metis dropWhile_eq_Cons_conv)
      then show ?thesis using Cons by (cases m) (simp_all add: take_chars_def)
    next
      case Nil
      show ?thesis unfolding Nil by (simp add: take_chars_def)
    qed
    then have "utf8_chars ((c # takeWhile is_cont cs) @ ?rest)
        = utf8_chars (c # takeWhile is_cont cs) @ utf8_chars ?rest"
      by (rule utf8_chars_append)
    moreover have "takeWhile is_cont (takeWhile is_cont cs) = takeWhile is_cont cs"
      "dropWhile is_cont (takeWhile is_cont cs) = []" by (auto dest: set_takeWhileD)
    ultimately show ?thesis using 2 Suc by (simp add: take_chars_def)
  qed (simp add: take_chars_def)
qed (simp add: take_chars_def)

lemma truncate_chars_chars:
  "utf8_chars (truncate_chars s n) = take n (utf8_chars s) @ (if char_count s \<le> n then [] else [''.'', ''.'', ''.''])"
proof -
  have dots: "utf8_chars ''...'' = [''.'', ''.'', ''.'']" by code_simp
  have "\<not> is_cont (hd ''...'')" by code_simp
  then show ?thesis
    using utf8_chars_append [of "''...''" "take_chars n s"] dots
    by (simp add: truncate_chars_def utf8_chars_take char_count_def)
qed

lemma truncate_chars_count: "char_count (truncate_chars s n) \<le> n + 3"
  by (simp add: char_count_def truncate_chars_chars)

lemma truncate_chars_control: "\<not> has_control s \<Longrightarrow> \<not> has_control (truncate_chars s n)"
  by (auto simp: has_control_def truncate_chars_chars list_ex_iff is_control_def dest: in_set_takeD)

lemma truncate_chars_absolute: "\<not> is_absolute s \<Longrightarrow> \<not> is_absolute (truncate_chars s (Suc n))"
  by (cases s) (auto simp: truncate_chars_def take_chars_def is_absolute_def)

lemma split_slash_join:
  "split_slash (a @ b) = butlast (split_slash a) @ (last (split_slash a) @ hd (split_slash b)) # tl (split_slash b)"
proof (induction a)
  case (Cons c a)
  then show ?case
    using split_slash_nonempty [of a] by (cases "split_slash a") (auto split: list.splits)
qed simp

lemma ParentDir_segment: "ParentDir \<in> set (path_components s) \<longleftrightarrow> ''..'' \<in> set (split_slash s)"
  by (auto simp: path_components_def segment_components_def split: if_splits)

lemma truncate_chars_parent:
  assumes "ParentDir \<notin> set (path_components s)"
  shows "ParentDir \<notin> set (path_components (truncate_chars s n))"
proof (cases "char_count s \<le> n")
  case False
  obtain b where s: "s = take_chars n s @ b" using take_chars_prefix by (metis prefixE)
  let ?segs = "split_slash (take_chars n s)"
  have "set (butlast ?segs) \<subseteq> set (split_slash s)"
    by (subst s) (auto simp: split_slash_join)
  moreover have "split_slash (take_chars n s @ ''...'') = butlast ?segs @ [last ?segs @ ''...'']"
    by (simp add: split_slash_join)
  moreover have "x @ ''...'' \<noteq> ''..''" for x
    by (auto dest!: arg_cong [where f = length])
  ultimately show ?thesis
    using assms False by (auto simp: ParentDir_segment truncate_chars_def)
qed (use assms in \<open>simp add: truncate_chars_def\<close>)

lemma sanitized_label_clean:
  "\<not> has_control (sanitized_label l)" "char_count (sanitized_label l) \<le> 131"
proof -
  have c: "\<not> has_control ''<empty>''" "\<not> has_control ''<redacted>''" "char_count ''<empty>'' \<le> 131"
    "char_count ''<redacted>'' \<le> 131" by code_simp+
  show "\<not> has_control (sanitized_label l)" "char_count (sanitized_label l) \<le> 131"
    using c truncate_chars_control [of "trim l" 128] truncate_chars_count [of "trim l" 128]
    by (simp_all add: sanitized_label_def Let_def)
qed

definition clean_resource :: "string \<Rightarrow> bool" where
  "clean_resource r \<longleftrightarrow> \<not> has_control r \<and> char_count r \<le> 259 \<and> \<not> is_absolute r
     \<and> ParentDir \<notin> set (path_components r)"

lemma sanitized_resource_clean: "clean_resource (sanitized_resource r)"
proof -
  have "clean_resource ''<empty_path>''" "clean_resource ''<redacted_resource>''" "clean_resource ''<absolute_path>''"
    "clean_resource ''<path_traversal>''" "clean_resource ''<metadata_path>''" by code_simp+
  moreover have "clean_resource (truncate_chars s 256)"
    if "\<not> has_control s" "\<not> is_absolute s" "ParentDir \<notin> set (path_components s)" for s
    using that truncate_chars_count [of s 256] truncate_chars_absolute [of s 255]
    by (simp add: clean_resource_def truncate_chars_control truncate_chars_parent)
  ultimately show ?thesis by (simp add: sanitized_resource_def Let_def)
qed

section \<open>Facts about the persisted mode\<close>

lemma file_stem_json: "x \<noteq> '''' \<Longrightarrow> file_stem (x @ ''.json'') = x"
  by (simp add: file_stem_def Let_def)

lemma project_state_key_nonempty: "project_state_key hex root \<noteq> ''''"
  by (simp add: project_state_key_def Let_def)

lemma approval_temp_differs:
  assumes "approval_settings_path env = Some path"
  shows "temp_document pid path \<noteq> path" "path \<noteq> []"
proof -
  obtain home x where p: "path = home @ [''.yach'', ''permissions'', x @ ''.json'']" "x \<noteq> ''''"
    using assms project_state_key_nonempty
    by (fastforce simp: approval_settings_path_def split: option.splits)
  then show "temp_document pid path \<noteq> path" "path \<noteq> []"
    by (simp_all add: temp_document_def with_extension_def file_stem_json)
qed

section \<open>Properties\<close>

text \<open>
  The restriction that applies to a request, and the one that applies to an action
  class, is the strongest one: among the matching restrictions of the user and of the
  project, in this order, the first that a human has to perform, or else the first; the
  loops and the merge of the code compute this reference.
\<close>

lemma restriction_selection_strongest:
  "selected_restriction words policy req =
     strongest_spec (\<lambda>r. restriction_matches words r req) (policy_global policy @ policy_project policy)
   \<and> restriction_for_class policy cl =
     strongest_spec (\<lambda>r. r_matcher r = ActionClass cl) (policy_global policy @ policy_project policy)"
  by (simp add: selected_restriction_spec restriction_for_class_def strongest_by_spec merge_spec Let_def)

text \<open>
  C6. Standing restrictions come first: when one of them matches a request, neither the
  edit mode nor the approval mode, an allowlist entry or a session grant makes a decision
  procedure allow it; the request is held for the user, and reported as performed by a human
  when one of the matching restrictions says so.
\<close>

theorem restrictions_hold:
  assumes "r \<in> set (policy_global policy @ policy_project policy)" "restriction_matches words r req"
  shows "\<not> is_Allowed (fst (decide words req mode policy n))
    \<and> \<not> is_Allowed (fst (decide_shell words req approval allowlisted granted policy n))
    \<and> d_reviewer (fst (decide words req mode policy n)) = UserReviewer
    \<and> d_reviewer (fst (decide_shell words req approval allowlisted granted policy n)) = UserReviewer
    \<and> (is_human_performs r \<longrightarrow>
         d_reason (fst (decide words req mode policy n)) = ''restriction_human_performs''
         \<and> d_reason (fst (decide_shell words req approval allowlisted granted policy n))
             = ''restriction_human_performs'')"
proof -
  obtain q where q: "selected_restriction words policy req = Some q"
    using assms by (cases "selected_restriction words policy req")
      (auto simp: selected_restriction_spec strongest_spec_None)
  show ?thesis
    using edit_engine.restricted [OF q, of mode n] shell_engine.restricted [OF q, of approval allowlisted granted n]
      edit_engine.held_for_human [OF assms, of mode n]
      shell_engine.held_for_human [OF assms, of approval allowlisted granted n]
    by auto
qed

definition demo_shell_request :: permission_request where
  "demo_shell_request = \<lparr>request_id = ''r1'', actor = Provider, capability = ShellCommand,
     target = \<lparr>operation = ''sudo nixos-rebuild'', resource = ''.''\<rparr>, risk = ProcessExecution,
     requested_reviewer = None, command = Some ''nixos-rebuild switch''\<rparr>"

theorem restrictions_hold_witness:
  "\<not> is_Allowed (fst (decide_shell (\<lambda>_. None) demo_shell_request FullAccess True True
     \<lparr>policy_revision = 4, policy_global = [demo_restriction], policy_project = []\<rparr> 0))"
proof -
  let ?p = "\<lparr>policy_revision = 4, policy_global = [demo_restriction], policy_project = []\<rparr>"
  have "demo_restriction \<in> set (policy_global ?p @ policy_project ?p)" by simp
  moreover have "restriction_matches (\<lambda>_. None) demo_restriction demo_shell_request" by code_simp
  ultimately show ?thesis using restrictions_hold by blast
qed

text \<open>
  A host command is allowed exactly when no standing restriction matches it, it really
  is a process execution through the shell capability, and the user's allowlist has it, the
  user granted it in this session, or the session has full access. In auto-review mode the
  decision is routed to the reviewer, and in the other modes to the user.
\<close>

lemma shell_allowed_iff:
  "is_Allowed (fst (decide_shell words req approval allowlisted granted policy n)) \<longleftrightarrow>
     \<not> (\<exists>r. r \<in> set (policy_global policy @ policy_project policy) \<and> restriction_matches words r req)
     \<and> capability req = ShellCommand \<and> risk req = ProcessExecution
     \<and> (allowlisted \<or> granted \<or> approval = FullAccess)"
proof (cases "selected_restriction words policy req")
  case None
  then show ?thesis
    by (cases approval) (auto simp: decide_shell_def check_restrictions_None shell_decision_def
        selected_restriction_spec strongest_spec_None case_prod_beta)
next
  case (Some r)
  then show ?thesis
    using shell_engine.restricted [OF Some, of approval allowlisted granted n]
      strongest_spec_Some(1,2) [OF Some [unfolded selected_restriction_spec]] by auto
qed

lemma shell_allowed_iff_witness:
  "is_Allowed (fst (decide_shell (\<lambda>_. None) demo_shell_request Review False True empty_review_policy 0))
   \<and> \<not> is_Allowed (fst (decide_shell (\<lambda>_. None) demo_shell_request AutoReview False False empty_review_policy 0))"
  unfolding shell_allowed_iff by (simp add: demo_shell_request_def empty_review_policy_def)

text \<open>
  An edit is allowed without a review exactly when no standing restriction matches it,
  no extension asks to approve itself, it is a workspace write through the edit capability,
  and the edit mode allows; no other capability is ever allowed by this procedure.
\<close>

lemma edit_allowed_iff:
  "is_Allowed (fst (decide words req mode policy n)) \<longleftrightarrow>
     selected_restriction words policy req = None \<and> \<not> extension_self_approval_requested req
     \<and> capability req = EditTransaction \<and> risk req = WorkspaceWrite \<and> mode = Allow"
proof (cases "selected_restriction words policy req")
  case None
  then show ?thesis
    by (cases mode) (auto simp: decide_def check_restrictions_None edit_decision_def case_prod_beta)
next
  case (Some r)
  then show ?thesis using edit_engine.restricted [OF Some, of mode n] by auto
qed

text \<open>
  What a decision records as evidence is redacted: the target of a summary has no
  control characters, is no absolute path and has no parent component, is bounded in
  characters, and no rationale text is kept; the summary carries the revision of the
  restrictions that the decision was made under.
\<close>

lemma summary_redacted:
  "clean_resource (resource (sum_target (summary d req user_override)))
   \<and> \<not> has_control (operation (sum_target (summary d req user_override)))
   \<and> char_count (operation (sum_target (summary d req user_override))) \<le> 131
   \<and> sum_rationale (summary d req user_override) \<in> {None, Some ''<redacted_rationale>''}
   \<and> sum_policy_revision (summary (fst (decide words req mode policy n)) req user_override) = policy_revision policy"
proof -
  have "sanitized_rationale r \<in> {None, Some ''<redacted_rationale>''}" for r
    by (cases r) (simp_all add: sanitized_rationale_def)
  then show ?thesis
    using sanitized_resource_clean sanitized_label_clean edit_engine.revision
    by (cases d) (simp_all add: summary_def sanitized_target_summary_def)
qed

text \<open>
  Full access and auto-review are never durable: whatever the settings file holds, the
  mode loaded for a project is one of the other two, and a request to persist one of them is
  refused without touching the file system.
\<close>

lemma dangerous_modes_not_durable:
  "load_project_approval_mode env s \<in> {Review, AcceptEdits}
   \<and> persist_project_approval_mode env FullAccess s = (Inl InvalidInput, s)
   \<and> persist_project_approval_mode env AutoReview s = (Inl InvalidInput, s)"
proof -
  have "load_project_approval_mode env s \<in> {Review, AcceptEdits}"
    by (cases "load_project_approval_mode env s")
      (auto simp: load_project_approval_mode_def stored_project_approval_mode_def dangerous_def
        bind_eq_Some_conv split: option.splits if_splits)
  then show ?thesis by (simp add: persist_project_approval_mode_def dangerous_def)
qed

text \<open>
  A persisted approval mode is the one that is loaded afterwards, without a warning.
\<close>

lemma approval_mode_roundtrip:
  assumes "persist_project_approval_mode env mode s = (Inr (), t)"
    and "approval_settings_path env = Some path" "\<not> deny_read s path"
    and "settings_from_json env (settings_to_json env \<lparr>settings_schema = approval_settings_schema,
           settings_mode = mode\<rparr> @ newline)
         = Some \<lparr>settings_schema = approval_settings_schema, settings_mode = mode\<rparr>"
      "utf8_valid (settings_to_json env \<lparr>settings_schema = approval_settings_schema, settings_mode = mode\<rparr>)"
  shows "load_project_approval_mode env t = mode \<and> project_approval_mode_warning env t = None"
proof -
  let ?json = "settings_to_json env \<lparr>settings_schema = approval_settings_schema, settings_mode = mode\<rparr>"
  let ?temp = "temp_document (approval_pid env) path"
  obtain s1 where safe: "\<not> dangerous mode" and c: "create_private_dir (butlast path) s = (True, s1)"
    and w: "write_document ?temp path ?json s1 = (True, t)"
    using assms(1,2) by (auto simp: persist_project_approval_mode_def split: if_splits prod.splits bool.splits)
  have "deny_read t = deny_read s"
    using create_private_dir_added [OF c] document_call.oracles [of s1 ?temp path ?json] w
    by (simp add: dirs_added_def same_oracles_def)
  moreover obtain m where "nodes t path = Some (File (?json @ newline) m)"
    using write_document_ok [OF w approval_temp_differs(1) [OF assms(2)]] by blast
  moreover have "utf8_valid (?json @ newline)"
    using assms(5) by (intro utf8_valid_append) (auto simp: newline_def)
  ultimately have "fs_read_to_string t path = ReadOk (?json @ newline)"
    using assms(3) by (simp add: fs_read_to_string_def)
  then show ?thesis
    using assms(2,4) safe by (simp add: load_project_approval_mode_def stored_project_approval_mode_def
        project_approval_mode_warning_def)
qed

definition demo_approval_env :: approval_env where
  "demo_approval_env = \<lparr>settings_to_json = (\<lambda>_. ''s''),
     settings_from_json = (\<lambda>_. Some \<lparr>settings_schema = approval_settings_schema, settings_mode = AcceptEdits\<rparr>),
     digest_hex = (\<lambda>_. ''0f''), approval_pid = 7, user_home = Some [], canonical_project = Some [''p'']\<rparr>"

lemma approval_mode_roundtrip_witness:
  "\<exists>t. persist_project_approval_mode demo_approval_env AcceptEdits (demo_home (\<lambda>_. False)) = (Inr (), t)
     \<and> load_project_approval_mode demo_approval_env t = AcceptEdits"
proof -
  have path: "approval_settings_path demo_approval_env = Some [''.yach'', ''permissions'', ''p--0f.json'']"
    "temp_document 7 [''.yach'', ''permissions'', ''p--0f.json''] = [''.yach'', ''permissions'', ''p--0f.tmp-7'']"
    "entry_name ''.yach''" "entry_name ''permissions''" "entry_name ''p--0f.json''" "entry_name ''p--0f.tmp-7''"
    by code_simp+
  obtain t where r: "persist_project_approval_mode demo_approval_env AcceptEdits (demo_home (\<lambda>_. False)) = (Inr (), t)"
    using path by (auto simp: persist_project_approval_mode_def dangerous_def create_private_dir_def demo_home_def
        fs_mkdir_def can_hold_def write_document_def and_then_def fs_calls newline_def demo_approval_env_def)
  show ?thesis
    using approval_mode_roundtrip [OF r path(1)] r
    by (auto simp: demo_home_def demo_approval_env_def)
qed

end
