(* ===== verification/Shell.thy ===== *)
theory Shell
  imports Filesystem
begin

text \<open>
  The shell component, \<^verbatim>\<open>yach-backend/src/shell.rs\<close>: the configuration of the \<open>bash\<close> tool and
  the scopes it is loaded from, the conservative lexer that decides whether a command may
  run without review, the environment a command gets, the bounded capture of its output,
  the live stream of display chunks, and the host executor that drives them. Word splitting
  (\<open>shell_words\<close>), the JSON of the configuration and Unicode upper case are parameters.
\<close>

section \<open>Configuration\<close>

definition SHELL_DEFAULT_TIMEOUT_MS :: nat where "SHELL_DEFAULT_TIMEOUT_MS = 120000"
definition SHELL_MAX_TIMEOUT_MS :: nat where "SHELL_MAX_TIMEOUT_MS = 600000"
definition SHELL_MIN_TIMEOUT_MS :: nat where "SHELL_MIN_TIMEOUT_MS = 1000"
definition SHELL_OUTPUT_HEAD_BYTES :: nat where "SHELL_OUTPUT_HEAD_BYTES = 24 * 1024"
definition SHELL_OUTPUT_TAIL_BYTES :: nat where "SHELL_OUTPUT_TAIL_BYTES = 24 * 1024"
definition SHELL_STREAM_CHUNK_MAX_BYTES :: nat where "SHELL_STREAM_CHUNK_MAX_BYTES = 4 * 1024"

definition SHELL_STREAM_TOTAL_MAX_BYTES :: nat where
  "SHELL_STREAM_TOTAL_MAX_BYTES = SHELL_OUTPUT_HEAD_BYTES + SHELL_OUTPUT_TAIL_BYTES"

definition SHELL_STREAM_CAP_MARKER :: string where
  "SHELL_STREAM_CAP_MARKER = ''... [live output paused: display cap reached] ...'' @ [CHR 0x0A]"

lemmas shell_limits = SHELL_OUTPUT_HEAD_BYTES_def SHELL_OUTPUT_TAIL_BYTES_def
  SHELL_STREAM_CHUNK_MAX_BYTES_def SHELL_STREAM_TOTAL_MAX_BYTES_def

record shell_config =
  executor :: string
  allow :: "string list"
  env_allow :: "string list"
  default_timeout_ms :: nat
  max_timeout_ms :: nat

definition default_shell_config :: shell_config where
  "default_shell_config = \<lparr>executor = ''host'', allow = [], env_allow = [],
     default_timeout_ms = SHELL_DEFAULT_TIMEOUT_MS, max_timeout_ms = SHELL_MAX_TIMEOUT_MS\<rparr>"

record shell_policy =
  config :: shell_config
  allow_entries :: "string list list"

definition from_config :: "word_splitter \<Rightarrow> shell_config \<Rightarrow> shell_policy" where
  "from_config words c =
     \<lparr>config = c,
      allow_entries = filter (\<lambda>ws. ws \<noteq> []) (List.map_filter words (allow c))\<rparr>"

definition resolve_shell_config :: "shell_config option \<Rightarrow> shell_config option \<Rightarrow> shell_config" where
  "resolve_shell_config user project =
     (let c = (case user of None \<Rightarrow> default_shell_config | Some u \<Rightarrow> u)
      in case project of
           None \<Rightarrow> c
         | Some p \<Rightarrow> c\<lparr>executor := executor p, default_timeout_ms := default_timeout_ms p,
                       max_timeout_ms := max_timeout_ms p\<rparr>)"

text \<open>
  The process environment the loader reads, and the parser of the \<open>shell\<close> section of a
  configuration document (\<open>serde_json\<close> with its defaults).
\<close>

record shell_env =
  se_home :: "spath option"
  se_userprofile :: "spath option"
  se_parse :: "string \<Rightarrow> shell_config option"

definition user_config_path :: "shell_env \<Rightarrow> spath option" where
  "user_config_path env =
     map_option (\<lambda>home. home @ [''.yach'', ''config.json''])
       (case se_home env of Some h \<Rightarrow> Some h | None \<Rightarrow> se_userprofile env)"

definition load_shell_config :: "shell_env \<Rightarrow> fs \<Rightarrow> spath \<Rightarrow> shell_config option" where
  "load_shell_config env s path =
     (case fs_read_to_string s path of ReadOk raw \<Rightarrow> se_parse env raw | _ \<Rightarrow> None)"

definition shell_load_for_project ::
  "word_splitter \<Rightarrow> shell_env \<Rightarrow> fs \<Rightarrow> spath option \<Rightarrow> shell_policy" where
  "shell_load_for_project words env s project_root =
     (let user = Option.bind (user_config_path env) (load_shell_config env s);
          project = Option.bind (map_option (\<lambda>root. root @ [''.yach'', ''config.json'']) project_root)
                      (load_shell_config env s)
      in from_config words (resolve_shell_config user project))"

text \<open>\<open>Ord::clamp\<close> panics, here \<open>None\<close>, when its lower bound is above its upper bound.\<close>

definition rust_clamp :: "nat \<Rightarrow> nat \<Rightarrow> nat \<Rightarrow> nat option" where
  "rust_clamp v lo hi =
     (if hi < lo then None else Some (if v < lo then lo else if hi < v then hi else v))"

definition clamp_timeout_ms :: "shell_policy \<Rightarrow> nat option \<Rightarrow> nat option" where
  "clamp_timeout_ms p requested =
     rust_clamp (case requested of Some r \<Rightarrow> r | None \<Rightarrow> default_timeout_ms (config p))
       SHELL_MIN_TIMEOUT_MS (max_timeout_ms (config p))"

section \<open>The lexer and the allowlist\<close>

text \<open>The command is read by characters; a character is its UTF-8 encoding.\<close>

abbreviation squote :: string where "squote \<equiv> [CHR 0x27]"
abbreviation dquote :: string where "dquote \<equiv> [CHR 0x22]"
abbreviation backslash :: string where "backslash \<equiv> [CHR 0x5C]"
abbreviation backtick :: string where "backtick \<equiv> [CHR 0x60]"
abbreviation line_feed :: string where "line_feed \<equiv> [CHR 0x0A]"

definition peek_is :: "string list \<Rightarrow> string \<Rightarrow> bool" where
  "peek_is chars c = (case chars of [] \<Rightarrow> False | d # _ \<Rightarrow> d = c)"

definition push_segment :: "string list \<Rightarrow> string \<Rightarrow> string list" where
  "push_segment segments current =
     (let segment = trim current in if segment = '''' then segments else segments @ [segment])"

function lex_segments ::
  "string list \<Rightarrow> bool \<Rightarrow> bool \<Rightarrow> string \<Rightarrow> string list \<Rightarrow> string list option" where
  "lex_segments [] in_single in_double current segments =
     (if in_single \<or> in_double then None else Some (push_segment segments current))"
| "lex_segments (ch # chars) in_single in_double current segments =
     (if in_single then lex_segments chars (ch \<noteq> squote) in_double (current @ ch) segments
      else if ch = backslash then
        (case chars of
           [] \<Rightarrow> lex_segments [] in_single in_double (current @ ch) segments
         | next # rest \<Rightarrow> lex_segments rest in_single in_double (current @ ch @ next) segments)
      else if ch = squote \<and> \<not> in_double then
        lex_segments chars True in_double (current @ ch) segments
      else if ch = dquote then lex_segments chars in_single (\<not> in_double) (current @ ch) segments
      else if ch = backtick then None
      else if ch = ''$'' \<and> peek_is chars ''('' then None
      else if in_double then lex_segments chars in_single in_double (current @ ch) segments
      else if ch = ''>'' \<or> ch = ''<'' then None
      else if ch = '';'' \<or> ch = line_feed then
        lex_segments chars in_single in_double '''' (push_segment segments current)
      else if ch = ''|'' then
        lex_segments (if peek_is chars ''|'' then tl chars else chars) in_single in_double ''''
          (push_segment segments current)
      else if ch = ''&'' then
        (if peek_is chars ''&''
         then lex_segments (tl chars) in_single in_double '''' (push_segment segments current)
         else None)
      else lex_segments chars in_single in_double (current @ ch) segments)"
  by pat_completeness auto
termination
  by (relation "measure (\<lambda>(chars, _). length chars)") (auto simp: peek_is_def split: list.splits)

definition split_simple_segments :: "string \<Rightarrow> string list option" where
  "split_simple_segments cmd = lex_segments (utf8_chars cmd) False False '''' []"

definition segment_allowed :: "word_splitter \<Rightarrow> shell_policy \<Rightarrow> string \<Rightarrow> bool" where
  "segment_allowed words p segment = (case words segment of
     None \<Rightarrow> False
   | Some [] \<Rightarrow> False
   | Some (w # ws) \<Rightarrow>
       if CHR ''='' \<in> set w then False
       else list_ex (\<lambda>entry. length entry \<le> length (w # ws)
                        \<and> take (length entry) (w # ws) = entry) (allow_entries p))"

definition auto_run_eligible :: "word_splitter \<Rightarrow> shell_policy \<Rightarrow> string \<Rightarrow> bool" where
  "auto_run_eligible words p cmd =
     (if allow_entries p = [] then False
      else case split_simple_segments cmd of
        None \<Rightarrow> False
      | Some segments \<Rightarrow>
          if segments = [] then False else list_all (segment_allowed words p) segments)"

section \<open>The environment of a command\<close>

definition contains :: "string \<Rightarrow> string \<Rightarrow> bool" where
  "contains pat s = sublist pat s"

definition secret_shaped_env_name :: "(string \<Rightarrow> string) \<Rightarrow> string \<Rightarrow> bool" where
  "secret_shaped_env_name to_uppercase name =
     (let upper = to_uppercase name
      in contains ''KEY'' upper \<or> contains ''SECRET'' upper \<or> contains ''TOKEN'' upper)"

fun build_env_from ::
  "(string \<Rightarrow> string) \<Rightarrow> string list \<Rightarrow> (string \<times> string) list \<Rightarrow> (string \<rightharpoonup> string) \<Rightarrow> (string \<rightharpoonup> string)"
where
  "build_env_from to_uppercase allowed [] env = env"
| "build_env_from to_uppercase allowed ((name, value) # vars) env =
     build_env_from to_uppercase allowed vars
       (if secret_shaped_env_name to_uppercase name \<and> \<not> list_ex (\<lambda>a. a = name) allowed
        then env else env(name \<mapsto> value))"

definition build_command_env ::
  "(string \<Rightarrow> string) \<Rightarrow> (string \<times> string) list \<Rightarrow> string list \<Rightarrow> (string \<rightharpoonup> string)" where
  "build_command_env to_uppercase vars allowed =
     build_env_from to_uppercase allowed vars Map.empty"

record prepared_command =
  pc_command :: string
  pc_cwd :: spath
  pc_env :: "string \<rightharpoonup> string"
  pc_timeout_ms :: nat

record command_outcome =
  exit_code :: "int option"
  command_output :: string
  output_bytes_total :: nat
  truncated :: bool
  duration_ms :: nat
  timed_out :: bool

datatype command_spawn_error = Spawn string

section \<open>Bounded capture\<close>

record bounded_capture =
  head_max :: nat
  tail_max :: nat
  cap_head :: string
  cap_tail :: string
  total :: nat

definition new_capture :: "nat \<Rightarrow> nat \<Rightarrow> bounded_capture" where
  "new_capture hm tm = \<lparr>head_max = hm, tail_max = tm, cap_head = [], cap_tail = [], total = 0\<rparr>"

definition capture_byte :: "char \<Rightarrow> bounded_capture \<Rightarrow> bounded_capture" where
  "capture_byte b c =
     (if length (cap_head c) < head_max c then c\<lparr>cap_head := cap_head c @ [b]\<rparr>
      else (let tail = (if length (cap_tail c) = tail_max c then tl (cap_tail c) else cap_tail c)
            in c\<lparr>cap_tail := tail @ [b]\<rparr>))"

definition capture_push :: "string \<Rightarrow> bounded_capture \<Rightarrow> bounded_capture" where
  "capture_push bytes c =
     fold capture_byte bytes (c\<lparr>total := u64_saturating_add (total c) (length bytes)\<rparr>)"

definition omitted_note :: "nat \<Rightarrow> string" where
  "omitted_note omitted =
     line_feed @ ''... ['' @ show_nat omitted @ '' bytes omitted] ...'' @ line_feed"

definition capture_finish :: "bounded_capture \<Rightarrow> string \<times> nat \<times> bool" where
  "capture_finish c =
     (let trunc = total c > head_max c + length (cap_tail c);
          out = from_utf8_lossy (cap_head c);
          out = (if trunc then out @ omitted_note (total c - length (cap_head c) - length (cap_tail c))
                 else out);
          out = (if cap_tail c \<noteq> [] then out @ from_utf8_lossy (cap_tail c) else out)
      in (out, total c, trunc))"

section \<open>The live stream\<close>

text \<open>
  The display channel: the messages it has delivered and the number of sends tried on it.
  The receiver can go away at any time; \<open>alive n\<close> says whether it is still there at the
  \<open>n\<close>-th send.
\<close>

record channel =
  delivered :: "string list"
  sends :: nat

definition send :: "(nat \<Rightarrow> bool) \<Rightarrow> string \<Rightarrow> channel \<Rightarrow> bool \<times> channel" where
  "send alive m ch =
     (if alive (sends ch) then (True, ch\<lparr>delivered := delivered ch @ [m], sends := sends ch + 1\<rparr>)
      else (False, ch\<lparr>sends := sends ch + 1\<rparr>))"

record stream_chunker =
  sender :: bool
  pending :: string
  streamed_total :: nat
  chan :: channel

definition new_chunker :: "bool \<Rightarrow> stream_chunker" where
  "new_chunker has_sender =
     \<lparr>sender = has_sender, pending = [], streamed_total = 0, chan = \<lparr>delivered = [], sends = 0\<rparr>\<rparr>"

text \<open>\<open>slice::chunks\<close>\<close>

function chunks :: "nat \<Rightarrow> 'a list \<Rightarrow> 'a list list" where
  "chunks n xs = (if xs = [] \<or> n = 0 then [] else take n xs # chunks n (drop n xs))"
  by pat_completeness auto
termination
  by (relation "measure (\<lambda>(n, xs). length xs)") auto

declare chunks.simps [simp del]

fun send_each :: "(nat \<Rightarrow> bool) \<Rightarrow> string list \<Rightarrow> stream_chunker \<Rightarrow> stream_chunker" where
  "send_each alive [] k = k"
| "send_each alive (piece # pieces) k =
     (if \<not> sender k then k
      else if streamed_total k \<ge> SHELL_STREAM_TOTAL_MAX_BYTES then
        k\<lparr>chan := snd (send alive SHELL_STREAM_CAP_MARKER (chan k)), sender := False\<rparr>
      else (case send alive (from_utf8_lossy piece) (chan k) of (ok, ch) \<Rightarrow>
        let k' = k\<lparr>streamed_total := u64_saturating_add (streamed_total k) (length piece), chan := ch\<rparr>
        in if \<not> ok then k'\<lparr>sender := False\<rparr> else send_each alive pieces k'))"

definition send_pieces :: "(nat \<Rightarrow> bool) \<Rightarrow> string \<Rightarrow> stream_chunker \<Rightarrow> stream_chunker" where
  "send_pieces alive bytes k = send_each alive (chunks SHELL_STREAM_CHUNK_MAX_BYTES bytes) k"

text \<open>\<open>rposition\<close> and \<open>drain\<close>: the bytes up to the last line feed, and the rest.\<close>

definition complete_lines :: "string \<Rightarrow> string" where
  "complete_lines bytes = rev (dropWhile (\<lambda>b. b \<noteq> CHR 0x0A) (rev bytes))"

definition open_line :: "string \<Rightarrow> string" where
  "open_line bytes = rev (takeWhile (\<lambda>b. b \<noteq> CHR 0x0A) (rev bytes))"

definition flush_lines :: "(nat \<Rightarrow> bool) \<Rightarrow> stream_chunker \<Rightarrow> stream_chunker" where
  "flush_lines alive k =
     (if CHR 0x0A \<in> set (pending k)
      then send_pieces alive (complete_lines (pending k)) (k\<lparr>pending := open_line (pending k)\<rparr>)
      else k)"

definition flush_oversized :: "(nat \<Rightarrow> bool) \<Rightarrow> stream_chunker \<Rightarrow> stream_chunker" where
  "flush_oversized alive k =
     (if length (pending k) \<ge> SHELL_STREAM_CHUNK_MAX_BYTES
      then send_pieces alive (pending k) (k\<lparr>pending := []\<rparr>) else k)"

definition chunker_push :: "(nat \<Rightarrow> bool) \<Rightarrow> string \<Rightarrow> stream_chunker \<Rightarrow> stream_chunker" where
  "chunker_push alive bytes k =
     (if \<not> sender k then k
      else flush_oversized alive (flush_lines alive (k\<lparr>pending := pending k @ bytes\<rparr>)))"

definition chunker_finish :: "(nat \<Rightarrow> bool) \<Rightarrow> stream_chunker \<Rightarrow> stream_chunker" where
  "chunker_finish alive k =
     (if pending k = [] then k else send_pieces alive (pending k) (k\<lparr>pending := []\<rparr>))"

section \<open>The host executor\<close>

text \<open>
  The group guard holds the process group until it is disarmed; \<open>kill\<close> signals the group
  when the id fits an \<open>i32\<close>. The functions return the groups they signal.
\<close>

definition i32_max :: nat where
  "i32_max = 2147483647"

definition group_kill :: "nat option \<Rightarrow> nat list" where
  "group_kill pid = (case pid of None \<Rightarrow> [] | Some p \<Rightarrow> if p \<le> i32_max then [p] else [])"

definition group_disarm :: "nat option \<Rightarrow> nat option" where
  "group_disarm pid = None"

definition group_drop :: "nat option \<Rightarrow> nat list" where
  "group_drop pid = group_kill pid"

text \<open>
  The reading loop selects whichever open stream is ready. A read that returns nothing or
  fails closes its stream, a read that returns data feeds the capture and the chunker.
\<close>

datatype std_stream = Stdout | Stderr

datatype read_event = ReadData std_stream string | ReadEnd std_stream

record collector =
  stdout_open :: bool
  stderr_open :: bool
  capture :: bounded_capture
  chunker :: stream_chunker

definition is_open :: "std_stream \<Rightarrow> collector \<Rightarrow> bool" where
  "is_open st c = (case st of Stdout \<Rightarrow> stdout_open c | Stderr \<Rightarrow> stderr_open c)"

definition close_stream :: "std_stream \<Rightarrow> collector \<Rightarrow> collector" where
  "close_stream st c =
     (case st of Stdout \<Rightarrow> c\<lparr>stdout_open := False\<rparr> | Stderr \<Rightarrow> c\<lparr>stderr_open := False\<rparr>)"

definition feed :: "(nat \<Rightarrow> bool) \<Rightarrow> string \<Rightarrow> collector \<Rightarrow> collector" where
  "feed alive bytes c =
     c\<lparr>capture := capture_push bytes (capture c), chunker := chunker_push alive bytes (chunker c)\<rparr>"

definition new_collector :: "bool \<Rightarrow> collector" where
  "new_collector streaming = \<lparr>stdout_open = True, stderr_open = True,
     capture = new_capture SHELL_OUTPUT_HEAD_BYTES SHELL_OUTPUT_TAIL_BYTES,
     chunker = new_chunker streaming\<rparr>"

inductive collect_step :: "(nat \<Rightarrow> bool) \<Rightarrow> collector \<Rightarrow> read_event \<Rightarrow> collector \<Rightarrow> bool"
  for alive where
  data: "is_open st c \<Longrightarrow> bytes \<noteq> [] \<Longrightarrow> length bytes \<le> 4096
    \<Longrightarrow> collect_step alive c (ReadData st bytes) (feed alive bytes c)"
| eof: "is_open st c \<Longrightarrow> collect_step alive c (ReadEnd st) (close_stream st c)"

inductive collect_run :: "(nat \<Rightarrow> bool) \<Rightarrow> collector \<Rightarrow> read_event list \<Rightarrow> collector \<Rightarrow> bool"
  for alive where
  start: "collect_run alive c [] c"
| next_read: "collect_step alive c e c' \<Longrightarrow> collect_run alive c' es c''
    \<Longrightarrow> collect_run alive c (e # es) c''"

text \<open>
  How waiting for the child ends, and the end of the command: the collector has read both
  streams to their end and the child was waited for, or the timeout struck, while reading
  or while waiting.
\<close>

datatype wait_result = Exited "int option" | WaitFailed

record host_result =
  hr_outcome :: command_outcome
  hr_collector :: collector
  hr_killed :: "nat list"

definition command_result ::
  "nat option \<Rightarrow> collector \<Rightarrow> bool \<Rightarrow> int option \<Rightarrow> nat \<Rightarrow> host_result" where
  "command_result pid c timed code elapsed =
     (let killed = (if timed then group_kill pid else []);
          dropped = group_drop (group_disarm pid)
      in case capture_finish (capture c) of (out, n, trunc) \<Rightarrow>
        \<lparr>hr_outcome = \<lparr>exit_code = code, command_output = out, output_bytes_total = n, truncated = trunc,
            duration_ms = min elapsed u64_max, timed_out = timed\<rparr>,
         hr_collector = c, hr_killed = killed @ dropped\<rparr>)"

definition wait_code :: "wait_result \<Rightarrow> int option" where
  "wait_code w = (case w of Exited code \<Rightarrow> code | WaitFailed \<Rightarrow> None)"

definition finish_chunks :: "(nat \<Rightarrow> bool) \<Rightarrow> collector \<Rightarrow> collector" where
  "finish_chunks alive c = c\<lparr>chunker := chunker_finish alive (chunker c)\<rparr>"

text \<open>
  \<open>run_host_command alive streaming spawned events result\<close>: a run in which spawning the shell gave
  \<open>spawned\<close> (an error, or the process id) and the reads gave \<open>events\<close>.
\<close>

inductive run_host_command ::
  "(nat \<Rightarrow> bool) \<Rightarrow> bool \<Rightarrow> (string, nat option) result \<Rightarrow> read_event list
    \<Rightarrow> (command_spawn_error, host_result) result \<Rightarrow> bool"
  for alive streaming where
  spawn_failed: "run_host_command alive streaming (Inl msg) [] (Inl (Spawn msg))"
| completed: "collect_run alive (new_collector streaming) events c
    \<Longrightarrow> \<not> stdout_open c \<Longrightarrow> \<not> stderr_open c
    \<Longrightarrow> run_host_command alive streaming (Inr pid) events
          (Inr (command_result pid (finish_chunks alive c) False (wait_code w) elapsed))"
| timeout_reading: "collect_run alive (new_collector streaming) events c
    \<Longrightarrow> stdout_open c \<or> stderr_open c
    \<Longrightarrow> run_host_command alive streaming (Inr pid) events
          (Inr (command_result pid c True None elapsed))"
| timeout_waiting: "collect_run alive (new_collector streaming) events c
    \<Longrightarrow> \<not> stdout_open c \<Longrightarrow> \<not> stderr_open c
    \<Longrightarrow> run_host_command alive streaming (Inr pid) events
          (Inr (command_result pid (finish_chunks alive c) True None elapsed))"

inductive_cases collect_run_NilE: "collect_run alive c [] c'"
inductive_cases collect_run_ConsE: "collect_run alive c (e # es) c'"
inductive_cases collect_step_dataE: "collect_step alive c (ReadData st bytes) c'"
inductive_cases collect_step_eofE: "collect_step alive c (ReadEnd st) c'"

end
