(* ===== verification/Shell_Grammar.thy ===== *)
theory Shell_Grammar
  imports Shell
begin

text \<open>
  What the lexer and the allowlist of the shell component accept: a grammar of simple
  commands as the reference for the lexer, the exact conditions of running a command without
  review, and what a project's configuration can and cannot change.
\<close>

section \<open>A grammar of the commands the lexer vouches for\<close>

text \<open>
  The reference for the lexer. A simple command is read with one of three quoting states;
  it has no substitution outside single quotes, no bare redirect, separator or background
  operator, and ends unquoted. A command list is simple commands between separators; only
  its last one may end in a lone backslash.
\<close>

datatype quoting = Bare | Single | Double

definition bare_operator :: "string \<Rightarrow> bool" where
  "bare_operator c \<longleftrightarrow> c \<in> {''>'', ''<'', '';'', line_feed, ''|'', ''&''}"

function scan :: "quoting \<Rightarrow> string list \<Rightarrow> quoting option" where
  "scan q [] = Some q"
| "scan q (c # cs) =
     (if q = Single then scan (if c = squote then Bare else Single) cs
      else if c = backslash then (case cs of [] \<Rightarrow> None | _ # r \<Rightarrow> scan q r)
      else if c = squote \<and> q = Bare then scan Single cs
      else if c = dquote then scan (if q = Bare then Double else Bare) cs
      else if c = backtick \<or> c = ''$'' \<and> peek_is cs ''('' then None
      else if q = Bare \<and> bare_operator c then None
      else scan q cs)"
  by pat_completeness auto
termination
  by (relation "measure (\<lambda>(q, cs). length cs)") auto

declare scan.simps(2) [simp del] lex_segments.simps(2) [simp del]

lemmas lex_eval = split_simple_segments_def lex_segments.simps push_segment_def peek_is_def
  is_cont_def trim_def is_whitespace_def Let_def

definition simple_command :: "string list \<Rightarrow> bool" where
  "simple_command p \<longleftrightarrow> scan Bare p = Some Bare"

definition separators :: "string list list" where
  "separators = [['';''], [line_feed], [''|''], [''|'', ''|''], [''&'', ''&'']]"

definition separated :: "string list \<Rightarrow> string list \<Rightarrow> bool" where
  "separated sep rest \<longleftrightarrow> sep \<in> set separators \<and> (sep = [''|''] \<longrightarrow> \<not> peek_is rest ''|'')"

inductive command_list :: "string list \<Rightarrow> string list list \<Rightarrow> bool" where
  one: "simple_command p \<Longrightarrow> command_list p [p]"
| trailing: "simple_command p \<Longrightarrow> command_list (p @ [backslash]) [p @ [backslash]]"
| more: "simple_command p \<Longrightarrow> separated sep rest \<Longrightarrow> command_list rest ps
    \<Longrightarrow> command_list (p @ sep @ rest) (p # ps)"

definition segments_of :: "string list list \<Rightarrow> string list" where
  "segments_of ps = filter (\<lambda>s. s \<noteq> '''') (map (\<lambda>p. trim (concat p)) ps)"

lemma segments_of_simps [simp]:
  "segments_of [] = []"
  "segments_of (p # ps) = push_segment [] (concat p) @ segments_of ps"
  by (simp_all add: segments_of_def push_segment_def Let_def)

lemma push_segment_append: "push_segment segs cur = segs @ push_segment [] cur"
  by (simp add: push_segment_def Let_def)

text \<open>What the lexer does on one simple command.\<close>

definition stops :: "string list \<Rightarrow> bool" where
  "stops rest \<longleftrightarrow> \<not> peek_is rest ''(''"

lemma peek_is_simps [simp]: "peek_is [] c = False" "peek_is (d # ds) c = (d = c)"
  by (simp_all add: peek_is_def)

lemma peek_append: "stops rest \<Longrightarrow> peek_is (cs @ rest) ''('' \<longleftrightarrow> peek_is cs ''(''"
  by (cases cs) (simp_all add: stops_def)

lemma lex_scan:
  assumes "scan q p = Some q'" "stops rest"
  shows "lex_segments (p @ rest) (q = Single) (q = Double) cur segs
       = lex_segments rest (q' = Single) (q' = Double) (cur @ concat p) segs"
  using assms
proof (induction q p arbitrary: cur rule: scan.induct)
  case (2 q c cs)
  note step = lex_segments.simps(2) [of c "cs @ rest"]
  from 2 show ?case
    by (cases q)
      (auto simp: step scan.simps(2) peek_append bare_operator_def split: if_splits list.splits)
qed simp


definition shape :: "quoting \<Rightarrow> string list \<Rightarrow> string list \<Rightarrow> string list list \<Rightarrow> bool" where
  "shape q cs p ps \<longleftrightarrow>
     scan q p = Some Bare
       \<and> (cs = p \<and> ps = []
          \<or> (\<exists>sep rest. cs = p @ sep @ rest \<and> separated sep rest \<and> command_list rest ps))
   \<or> (\<exists>p0. p = p0 @ [backslash] \<and> cs = p \<and> ps = [] \<and> scan q p0 = Some Bare)"

lemma shape_Bare: "shape Bare cs p ps \<Longrightarrow> command_list cs (p # ps)"
  unfolding shape_def simple_command_def [symmetric] by (auto intro: command_list.intros)

lemma shape_separator:
  "shape Bare rest p ps \<Longrightarrow> separated sep rest \<Longrightarrow> shape Bare (sep @ rest) [] (p # ps)"
  using shape_Bare [of rest p ps] by (auto simp: shape_def)

lemma shape_chars:
  assumes "shape q' cs p ps" "\<And>p'. prefix p' cs \<Longrightarrow> scan q (xs @ p') = scan q' p'"
  shows "shape q (xs @ cs) (xs @ p) ps"
proof -
  have "scan q (xs @ p') = scan q' p'" if "cs = p' @ r" for p' r
    using assms(2) that by simp
  then show ?thesis using assms(1) unfolding shape_def by force
qed

definition state_of :: "bool \<Rightarrow> bool \<Rightarrow> quoting" where
  "state_of s d = (if s then Single else if d then Double else Bare)"

lemma state_of_simps [simp]:
  "state_of True d = Single" "state_of False True = Double" "state_of False False = Bare"
  by (simp_all add: state_of_def)

definition lexed :: "quoting \<Rightarrow> string list \<Rightarrow> string \<Rightarrow> string list \<Rightarrow> string list \<Rightarrow> bool" where
  "lexed q cs cur segs out \<longleftrightarrow>
     (\<exists>p ps. shape q cs p ps \<and> out = segs @ push_segment [] (cur @ concat p) @ segments_of ps)"

lemma lexed_chars:
  assumes "lexed q' cs (cur @ concat xs) segs out"
    "\<And>p'. prefix p' cs \<Longrightarrow> scan q (xs @ p') = scan q' p'"
  shows "lexed q (xs @ cs) cur segs out"
  using assms(1) shape_chars [OF _ assms(2)] unfolding lexed_def by fastforce

lemma lexed_char:
  assumes "lexed q' cs (cur @ c) segs out" "\<And>p'. prefix p' cs \<Longrightarrow> scan q (c # p') = scan q' p'"
  shows "lexed q (c # cs) cur segs out"
  using lexed_chars [of q' cs cur "[c]" segs out q] assms by simp

lemma lexed_separator:
  assumes "lexed Bare rest [] (push_segment segs cur) out" "separated sep rest"
  shows "lexed Bare (sep @ rest) cur segs out"
proof -
  obtain p ps where "shape Bare rest p ps"
    "out = push_segment segs cur @ push_segment [] (concat p) @ segments_of ps"
    using assms(1) by (auto simp: lexed_def)
  then show ?thesis using shape_separator [OF _ assms(2)]
    unfolding lexed_def by (metis append.assoc append_Nil2 concat.simps(1) push_segment_append segments_of_simps(2))
qed

lemma peek_prefix: "prefix p cs \<Longrightarrow> \<not> peek_is cs c \<Longrightarrow> \<not> peek_is p c"
  by (cases p; cases cs) auto

lemma lexed_end: "lexed Bare [] cur segs (push_segment segs cur)"
  using push_segment_append [of segs cur]
  by (intro lexed_def [THEN iffD2] exI [of _ "[]"]) (simp add: shape_def)

lemma lexed_trailing: "lexed Bare [backslash] cur segs (push_segment segs (cur @ backslash))"
  using push_segment_append [of segs "cur @ backslash"]
  by (intro lexed_def [THEN iffD2] exI [of _ "[backslash]"] exI [of _ "[]"]) (simp add: shape_def)

lemma lex_lexed:
  "lex_segments cs s d cur segs = Some out \<Longrightarrow> \<not> (s \<and> d) \<Longrightarrow> lexed (state_of s d) cs cur segs out"
proof (induction cs s d cur segs rule: lex_segments.induct)
  case (1 s d cur segs)
  then show ?case by (auto simp: lexed_end split: if_splits)
next
  case (2 c cs s d cur segs)
  note run = "2.prems"(1) [unfolded lex_segments.simps(2) [of c cs s d cur segs]]
  consider (single) s | (escape) "\<not> s" "c = backslash" | (open_single) "\<not> s" "c = squote" "\<not> d"
    | (double) "\<not> s" "c = dquote" | (quoted) "\<not> s" "d" "c \<notin> {backslash, dquote}"
    | (bare) "\<not> s" "\<not> d" "c \<notin> {backslash, squote, dquote}" by blast
  then show ?case
  proof cases
    case single
    then have "lexed (state_of (c \<noteq> squote) d) cs (cur @ c) segs out"
      using "2.IH"(1) run "2.prems"(2) by (cases "c = squote") simp_all
    then show ?thesis
      using single "2.prems"(2) by (auto intro!: lexed_char simp: scan.simps(2) state_of_def)
  next
    case escape
    show ?thesis
    proof (cases cs)
      case Nil
      then show ?thesis using run escape by (auto simp: lexed_trailing split: if_splits)
    next
      case (Cons n r)
      then have "lexed (state_of s d) r (cur @ concat [c, n]) segs out"
        using "2.IH"(3) [of n r] run escape by simp
      then show ?thesis
        using lexed_chars [of "state_of s d" r cur "[c, n]" segs out "state_of s d"] escape Cons
        by (simp add: scan.simps(2) state_of_def)
    qed
  next
    case open_single
    then have "lexed Single cs (cur @ c) segs out" using "2.IH"(4) run by simp
    then show ?thesis using open_single by (auto intro!: lexed_char simp: scan.simps(2))
  next
    case double
    then have "lexed (state_of s (\<not> d)) cs (cur @ c) segs out" using "2.IH"(5) run by simp
    then show ?thesis using double by (auto intro!: lexed_char simp: scan.simps(2) state_of_def)
  next
    case quoted
    then have "c \<noteq> backtick" "\<not> (c = ''$'' \<and> peek_is cs ''('')" "lexed Double cs (cur @ c) segs out"
      using "2.IH"(6) run by (auto split: if_splits)
    then show ?thesis
      using quoted by (auto intro!: lexed_char simp: scan.simps(2) dest: peek_prefix)
  next
    case bare
    then have ok: "c \<noteq> backtick" "\<not> (c = ''$'' \<and> peek_is cs ''('')" "c \<noteq> ''>''" "c \<noteq> ''<''"
      using run by (auto split: if_splits)
    consider (semi) "c = '';'' \<or> c = line_feed" | (bar) "c = ''|''" | (amp) "c = ''&''"
      | (plain) "\<not> bare_operator c" using ok by (auto simp: bare_operator_def)
    then show ?thesis
    proof cases
      case semi
      have "lex_segments cs False False [] (push_segment segs cur) = Some out"
        using run bare semi by (elim disjE) simp_all
      then have "lexed Bare cs [] (push_segment segs cur) out"
        using "2.IH"(7) bare semi by (elim disjE) simp_all
      then show ?thesis
        using lexed_separator [of cs segs cur out "[c]"] semi bare
        by (elim disjE) (simp_all add: separated_def separators_def)
    next
      case bar
      let ?rest = "if peek_is cs ''|'' then tl cs else cs"
      have "lexed Bare ?rest [] (push_segment segs cur) out"
        using "2.IH"(8) run bare bar by simp
      then show ?thesis
        using lexed_separator [of ?rest segs cur out "if peek_is cs ''|'' then [c, c] else [c]"]
          bar bare by (cases cs) (simp_all add: separated_def separators_def split: if_splits)
    next
      case amp
      then obtain r where cs: "cs = c # r" using run bare by (cases cs) (simp_all split: if_splits)
      then have "lexed Bare r [] (push_segment segs cur) out"
        using "2.IH"(9) run bare amp by simp
      then show ?thesis
        using lexed_separator [of r segs cur out "[c, c]"] amp bare cs
        by (simp add: separated_def separators_def)
    next
      case plain
      then have "lexed Bare cs (cur @ c) segs out"
        using "2.IH"(10) run bare ok by (simp add: bare_operator_def split: if_splits)
      then show ?thesis
        using bare ok plain by (auto intro!: lexed_char simp: scan.simps(2) dest: peek_prefix)
    qed
  qed
qed

text \<open>Conversely every command list is lexed into its pieces.\<close>

lemma lex_separator:
  assumes "separated sep rest"
  shows "lex_segments (sep @ rest) False False cur segs
       = lex_segments rest False False [] (push_segment segs cur)"
  using assms by (auto simp: separated_def separators_def lex_segments.simps(2))

lemma command_list_lex:
  "command_list cs ps \<Longrightarrow>
     lex_segments cs False False [] segs = Some (segs @ segments_of ps)"
proof (induction arbitrary: segs rule: command_list.induct)
  case (one p)
  then show ?case
    using lex_scan [of Bare p Bare "[]" "[]" segs]
    by (simp add: simple_command_def stops_def push_segment_append [of segs])
next
  case (trailing p)
  then show ?case
    using lex_scan [of Bare p Bare "[backslash]" "[]" segs]
    by (simp add: simple_command_def stops_def lex_segments.simps(2)
        push_segment_append [of segs "concat p @ backslash"])
next
  case (more p sep rest ps)
  have "stops (sep @ rest)"
    using more.hyps(2) by (auto simp: stops_def separated_def separators_def)
  then show ?case
    using lex_scan [of Bare p Bare "sep @ rest" "[]" segs] more
    by (simp add: simple_command_def lex_separator push_segment_append [of segs])
qed

theorem split_simple_segments_iff:
  "split_simple_segments cmd = Some segments \<longleftrightarrow>
     (\<exists>ps. command_list (utf8_chars cmd) ps \<and> segments = segments_of ps)"
proof
  assume "split_simple_segments cmd = Some segments"
  then have "lexed Bare (utf8_chars cmd) [] [] segments"
    using lex_lexed [of _ False False] by (simp add: split_simple_segments_def)
  then obtain p ps where "shape Bare (utf8_chars cmd) p ps" "segments = segments_of (p # ps)"
    by (auto simp: lexed_def)
  then show "\<exists>ps. command_list (utf8_chars cmd) ps \<and> segments = segments_of ps"
    using shape_Bare by blast
next
  assume "\<exists>ps. command_list (utf8_chars cmd) ps \<and> segments = segments_of ps"
  then show "split_simple_segments cmd = Some segments"
    using command_list_lex [where segs = "[]"] by (auto simp: split_simple_segments_def)
qed

lemma prefix_take: "prefix xs ys \<longleftrightarrow> length xs \<le> length ys \<and> take (length xs) ys = xs"
  by (metis prefix_def take_is_prefix append_eq_conv_conj prefix_length_le)

lemma segment_allowed_iff:
  "segment_allowed words p seg \<longleftrightarrow>
     (\<exists>w ws entry. words seg = Some (w # ws) \<and> CHR ''='' \<notin> set w
        \<and> entry \<in> set (allow_entries p) \<and> prefix entry (w # ws))"
  unfolding segment_allowed_def list_ex_iff prefix_take [symmetric]
  by (auto split: option.splits list.splits)

text \<open>What the lexer and the allowlist accept, for every command.\<close>

lemma auto_run_lexed_iff:
  "auto_run_eligible words p cmd \<longleftrightarrow>
     (\<exists>ps. command_list (utf8_chars cmd) ps \<and> segments_of ps \<noteq> []
        \<and> (\<forall>seg \<in> set (segments_of ps). \<exists>w ws entry.
             words seg = Some (w # ws) \<and> CHR ''='' \<notin> set w
             \<and> entry \<in> set (allow_entries p) \<and> prefix entry (w # ws)))"
  (is "_ \<longleftrightarrow> (\<exists>ps. ?lists ps \<and> ?some ps \<and> ?ok ps)")
proof -
  have "auto_run_eligible words p cmd \<longleftrightarrow>
      (\<exists>segs. split_simple_segments cmd = Some segs \<and> segs \<noteq> []
         \<and> (\<forall>seg \<in> set segs. segment_allowed words p seg))"
  proof -
    have "allow_entries p \<noteq> []" if "segs \<noteq> []" "\<forall>seg \<in> set segs. segment_allowed words p seg" for segs
      using that hd_in_set [of segs] segment_allowed_iff [of words p "hd segs"] by force
    then show ?thesis by (auto simp: auto_run_eligible_def list_all_iff split: option.splits)
  qed
  then show ?thesis
    unfolding segment_allowed_iff split_simple_segments_iff by blast
qed

text \<open>
  The shell has more syntax than the lexer knows. The commands below have none of it: no
  comment sign, no parenthesis but that of \<open>$(\<close>, no ANSI-C or localised quoting, parameter or
  arithmetic expansion in braces or brackets (a dollar sign before a quote, a brace or a bracket),
  and no continued line (a backslash before a line feed). On them the quoting states of
  \<open>scan\<close> are those of the shell.
\<close>

fun plain_after :: "string \<Rightarrow> string list \<Rightarrow> bool" where
  "plain_after prev [] = True"
| "plain_after prev (c # cs) \<longleftrightarrow>
     c \<noteq> ''#'' \<and> (c = ''('' \<longrightarrow> prev = ''$'') \<and> (prev = ''$'' \<longrightarrow> c \<notin> {squote, dquote, ''{'', ''[''})
     \<and> (prev = backslash \<longrightarrow> c \<noteq> line_feed) \<and> plain_after c cs"

definition plain_syntax :: "string list \<Rightarrow> bool" where
  "plain_syntax cs \<longleftrightarrow> plain_after '''' cs"

text \<open>A list of commands each of which can be vouched for: a simple command in plain syntax.\<close>

inductive vouched_list :: "string list \<Rightarrow> string list list \<Rightarrow> bool" where
  vouched_one: "simple_command p \<Longrightarrow> plain_syntax p \<Longrightarrow> vouched_list p [p]"
| vouched_trailing: "simple_command p \<Longrightarrow> plain_syntax p \<Longrightarrow> vouched_list (p @ [backslash]) [p @ [backslash]]"
| vouched_more: "simple_command p \<Longrightarrow> plain_syntax p \<Longrightarrow> separated sep rest \<Longrightarrow> vouched_list rest ps
    \<Longrightarrow> vouched_list (p @ sep @ rest) (p # ps)"

lemma vouched_command_list: "vouched_list cs ps \<Longrightarrow> command_list cs ps"
  by (induction rule: vouched_list.induct) (auto intro: command_list.intros)

lemma plain_after_append:
  "plain_after prev (xs @ ys) \<longleftrightarrow> plain_after prev xs \<and> plain_after (if xs = [] then prev else last xs) ys"
  by (induction xs arbitrary: prev) auto

lemma plain_after_weaken: "plain_after prev cs \<Longrightarrow> prev \<noteq> ''$'' \<Longrightarrow> plain_after '''' cs"
  by (cases cs) auto

lemma plain_after_separator:
  assumes "plain_after prev (sep @ rest)" "separated sep rest"
  shows "plain_after '''' rest"
proof -
  have "sep \<noteq> []" "last sep \<noteq> ''$''" using assms(2) by (auto simp: separated_def separators_def)
  then show ?thesis using assms(1) by (auto simp: plain_after_append intro: plain_after_weaken)
qed

lemma command_list_vouched:
  "command_list cs ps \<Longrightarrow> plain_syntax cs \<Longrightarrow> vouched_list cs ps"
  unfolding plain_syntax_def
proof (induction rule: command_list.induct)
  case (more p sep rest ps)
  then show ?case
    by (intro vouched_more) (auto simp: plain_syntax_def plain_after_append [of _ p] intro: plain_after_separator)
qed (auto simp: plain_syntax_def plain_after_append intro: vouched_one vouched_trailing)

text \<open>
  C7. In plain syntax (no comment, no parenthesis other than that of \<open>$(\<close>, no dollar sign before
  a quote, a brace or a bracket, no continued line) a command runs without review exactly when
  it is a list of commands that can be vouched for, between
  \<open>;\<close>, line feeds, \<open>|\<close>, \<open>||\<close> and \<open>&&\<close>, at
  least one of them not blank, each of them splits into words that begin with a whole
  allowlist entry and whose first word is no assignment. Such a command has no backtick or
  \<open>$(\<close> outside single quotes, no bare redirect or background operator, and closed
  quotes. The syntax left out is where the lexer and the shell part ways: the lemmas
  \<open>ansi_c_quoting_hides_separator\<close>, \<open>comment_hides_line\<close> and
  \<open>continued_line_hides_substitution\<close> below.
\<close>

theorem auto_run_iff:
  assumes "plain_syntax (utf8_chars cmd)"
  shows "auto_run_eligible words p cmd \<longleftrightarrow>
     (\<exists>ps. vouched_list (utf8_chars cmd) ps \<and> segments_of ps \<noteq> []
        \<and> (\<forall>seg \<in> set (segments_of ps). \<exists>w ws entry.
             words seg = Some (w # ws) \<and> CHR ''='' \<notin> set w
             \<and> entry \<in> set (allow_entries p) \<and> prefix entry (w # ws)))"
proof -
  have "vouched_list (utf8_chars cmd) ps \<longleftrightarrow> command_list (utf8_chars cmd) ps" for ps
    using assms command_list_vouched vouched_command_list by blast
  then show ?thesis by (simp only: auto_run_lexed_iff)
qed

theorem auto_run_iff_witness:
  "\<exists>ps. vouched_list (utf8_chars ''git status && ls -l'') ps \<and> segments_of ps \<noteq> []"
proof -
  let ?words = "\<lambda>s. Some (split_whitespace s)"
  let ?p = "\<lparr>config = default_shell_config, allow_entries = [[''git'', ''status''], [''ls'']]\<rparr>"
  have "auto_run_eligible ?words ?p ''git status && ls -l''"
    by (simp add: auto_run_eligible_def segment_allowed_def split_whitespace_def lex_eval)
  moreover have "plain_syntax (utf8_chars ''git status && ls -l'')"
    by (simp add: plain_syntax_def lex_eval)
  ultimately show ?thesis using auto_run_iff [of "''git status && ls -l''" ?words ?p] by blast
qed

lemma auto_run_entries:
  "allow_entries p = allow_entries q \<Longrightarrow> auto_run_eligible words p cmd = auto_run_eligible words q cmd"
  by (simp add: auto_run_eligible_def segment_allowed_def [abs_def] cong: option.case_cong list.case_cong)

lemma resolve_keeps_grants:
  "allow (resolve_shell_config u p) = allow (case u of None \<Rightarrow> default_shell_config | Some c \<Rightarrow> c)"
  "env_allow (resolve_shell_config u p) = env_allow (case u of None \<Rightarrow> default_shell_config | Some c \<Rightarrow> c)"
  by (simp_all add: resolve_shell_config_def Let_def split: option.splits)

text \<open>
  C28. The configuration of a project cannot grant anything: the allowlist, the environment
  allowlist and the commands that may run without review are those of the user's configuration
  alone, whatever the project's file holds.
\<close>

theorem project_config_grants_nothing:
  "allow_entries (shell_load_for_project words env s project) = allow_entries (shell_load_for_project words env s None)
   \<and> env_allow (config (shell_load_for_project words env s project))
     = env_allow (config (shell_load_for_project words env s None))
   \<and> auto_run_eligible words (shell_load_for_project words env s project) cmd
     = auto_run_eligible words (shell_load_for_project words env s None) cmd"
  by (intro conjI auto_run_entries)
    (simp_all add: shell_load_for_project_def from_config_def Let_def resolve_keeps_grants)

text \<open>
  The timeout of a command is the requested or default one forced between one second and
  the configured maximum, whenever that maximum is at least one second; with a smaller maximum
  the computation panics.
\<close>

lemma timeout_clamped:
  "clamp_timeout_ms p requested =
     (if max_timeout_ms (config p) < 1000 then None
      else Some (max 1000 (min (max_timeout_ms (config p))
             (case requested of Some r \<Rightarrow> r | None \<Rightarrow> default_timeout_ms (config p)))))"
  by (auto simp: clamp_timeout_ms_def rust_clamp_def SHELL_MIN_TIMEOUT_MS_def split: option.splits)

lemma build_env_from_lookup:
  "build_env_from up allowed vars env =
     env ++ map_of (rev (filter (\<lambda>(name, _). secret_shaped_env_name up name \<longrightarrow> name \<in> set allowed) vars))"
  by (induction up allowed vars env rule: build_env_from.induct) (auto simp: list_ex_iff)

text \<open>
  The environment of a command binds each name as the parent does, except that names with
  KEY, SECRET or TOKEN in their upper case form are absent unless they are on the allowlist.
\<close>

lemma command_env_exact:
  "build_command_env up vars allowed name =
     (if secret_shaped_env_name up name \<and> name \<notin> set allowed then None else map_of (rev vars) name)"
proof -
  have "map_of (filter (\<lambda>(n, _). P n) xs) name = (if P name then map_of xs name else None)" for P xs
    by (induction xs) auto
  from this [of "\<lambda>n. secret_shaped_env_name up n \<longrightarrow> n \<in> set allowed" "rev vars"] show ?thesis
    by (simp add: build_command_env_def build_env_from_lookup rev_filter)
qed

section \<open>Constructs the lexer does not know\<close>

text \<open>
  The lexer has neither the shell's ANSI-C quoting nor its comments: in the first two commands
  below it takes for quoted text what the shell reads as a second command. Nor does it remove
  a backslash before a line feed, as the shell does before it reads \<open>$(\<close>. So an allowlist
  entry for \<open>echo\<close> covers the \<open>rm\<close> in each of them.
\<close>

lemma ansi_c_quoting_hides_separator:
  fixes cmd defines "cmd \<equiv> ''echo $'' @ squote @ backslash @ squote @ squote @ '' ; rm -rf x #'' @ squote"
  shows "split_simple_segments cmd = Some [cmd]"
  unfolding cmd_def by (simp add: lex_eval)

lemma comment_hides_line:
  fixes cmd defines "cmd \<equiv> ''echo # '' @ squote @ line_feed @ ''rm -rf x #'' @ squote"
  shows "split_simple_segments cmd = Some [cmd]"
  unfolding cmd_def by (simp add: lex_eval)

lemma continued_line_hides_substitution:
  fixes cmd defines "cmd \<equiv> ''echo $'' @ backslash @ line_feed @ ''(rm -rf x)''"
  shows "split_simple_segments cmd = Some [cmd]"
  unfolding cmd_def by (simp add: lex_eval)

end
