(* ===== verification/Shell_Output.thy ===== *)
theory Shell_Output
  imports Shell
begin

text \<open>
  The output of a host command: the bounded capture against its specification, the live
  stream of display chunks, and the executor that feeds both.
\<close>

section \<open>Capture\<close>

text \<open>
  The specification of a capture is the whole output \<open>xs\<close>: the capture holds its first
  \<open>hm\<close> bytes, the last \<open>tm\<close> of the rest, and the length.
\<close>

definition last_n :: "nat \<Rightarrow> 'a list \<Rightarrow> 'a list" where
  "last_n n xs = drop (length xs - n) xs"

definition capture_of :: "nat \<Rightarrow> nat \<Rightarrow> string \<Rightarrow> bounded_capture" where
  "capture_of hm tm xs = \<lparr>head_max = hm, tail_max = tm, cap_head = take hm xs,
     cap_tail = last_n tm (drop hm xs), total = min u64_max (length xs)\<rparr>"

lemma length_last_n [simp]: "length (last_n n xs) = min n (length xs)"
  by (auto simp: last_n_def)

lemma last_n_all [simp]: "length xs \<le> n \<Longrightarrow> last_n n xs = xs"
  by (simp add: last_n_def)

lemma last_n_snoc:
  "0 < n \<Longrightarrow> last_n n (xs @ [x]) = (if n \<le> length xs then tl (last_n n xs) else last_n n xs) @ [x]"
  by (auto simp: last_n_def tl_drop drop_Suc [symmetric] Suc_diff_le)

lemma capture_byte_of:
  assumes "0 < tm"
  shows "capture_byte b (capture_of hm tm xs\<lparr>total := n\<rparr>) = capture_of hm tm (xs @ [b])\<lparr>total := n\<rparr>"
  using assms by (auto simp: capture_byte_def capture_of_def last_n_snoc Let_def min_def)

lemma capture_bytes_of:
  assumes "0 < tm"
  shows "fold capture_byte bs (capture_of hm tm xs\<lparr>total := n\<rparr>) = capture_of hm tm (xs @ bs)\<lparr>total := n\<rparr>"
  by (induction bs arbitrary: xs) (simp_all add: capture_byte_of [OF assms])

lemma capture_push_of:
  assumes "0 < tm"
  shows "capture_push bs (capture_of hm tm xs) = capture_of hm tm (xs @ bs)"
proof -
  have "capture_of hm tm ys\<lparr>total := u64_saturating_add (total (capture_of hm tm xs)) (length bs)\<rparr>
      = capture_of hm tm ys" if "ys = xs @ bs" for ys
    using that by (simp add: capture_of_def u64_saturating_add_def)
  then show ?thesis by (simp add: capture_push_def capture_bytes_of [OF assms])
qed

lemma new_capture_of: "new_capture hm tm = capture_of hm tm []"
  by (simp add: new_capture_def capture_of_def)

lemma capture_fold_of:
  assumes "0 < tm"
  shows "fold capture_push reads (capture_of hm tm xs) = capture_of hm tm (xs @ concat reads)"
  by (induction reads arbitrary: xs) (simp_all add: capture_push_of [OF assms])

text \<open>
  C14. The bounded capture refines the specification that keeps the whole output: after any
  sequence of reads it holds exactly the first \<open>hm\<close> bytes of their concatenation,
  the last \<open>tm\<close> of the rest, and its length, saturated at 64 bits.
\<close>

theorem capture_refines:
  assumes "0 < tm"
  shows "fold capture_push reads (new_capture hm tm) = capture_of hm tm (concat reads)"
  using capture_fold_of [OF assms, of reads hm "[]"] by (simp add: new_capture_of)

theorem capture_refines_witness:
  "(0::nat) < 2 \<and> fold capture_push [''abc'', ''d'', ''efg''] (new_capture 3 2)
     = \<lparr>head_max = 3, tail_max = 2, cap_head = ''abc'', cap_tail = ''fg'', total = 7\<rparr>"
  using capture_refines [of 2 "[''abc'', ''d'', ''efg'']" 3]
  by (simp add: capture_of_def last_n_def u64_max_def)

lemma from_utf8_lossy_Nil [simp]: "from_utf8_lossy [] = []"
  by (simp add: from_utf8_lossy.simps)

lemma capture_finish_of:
  assumes "length xs \<le> u64_max"
  shows "capture_finish (capture_of hm tm xs) =
    (if length xs \<le> hm + tm
     then (from_utf8_lossy (take hm xs) @ from_utf8_lossy (drop hm xs), length xs, False)
     else (from_utf8_lossy (take hm xs) @ omitted_note (length xs - hm - tm)
             @ from_utf8_lossy (last_n tm (drop hm xs)), length xs, True))"
proof -
  have "min u64_max (length xs) = length xs" using assms by simp
  moreover have "last_n tm (drop hm xs) = [] \<longleftrightarrow> tm = 0 \<or> length xs \<le> hm"
    by (auto simp: last_n_def)
  ultimately show ?thesis
    by (auto simp: capture_finish_def capture_of_def Let_def min_def)
qed

lemma tail_capacity: "0 < SHELL_OUTPUT_TAIL_BYTES"
  by (simp add: shell_limits)

lemma capture_rendered:
  assumes "length xs \<le> u64_max"
  shows "capture_finish (capture_of SHELL_OUTPUT_HEAD_BYTES SHELL_OUTPUT_TAIL_BYTES xs) =
    (if length xs \<le> 49152
     then (from_utf8_lossy (take 24576 xs) @ from_utf8_lossy (drop 24576 xs), length xs, False)
     else (from_utf8_lossy (take 24576 xs) @ omitted_note (length xs - 49152)
             @ from_utf8_lossy (drop (length xs - 24576) xs), length xs, True))"
proof -
  have "last_n 24576 (drop 24576 xs) = drop (length xs - 24576) xs" if "49152 < length xs"
    using that by (simp add: last_n_def)
  then show ?thesis by (simp add: capture_finish_of [OF assms] shell_limits)
qed

lemma lossy_ascii: "byte a < (128::nat) \<Longrightarrow> from_utf8_lossy (a # s) = a # from_utf8_lossy s"
  by (subst from_utf8_lossy.simps) (simp add: lossy_step_def)

lemma lossy_replicate: "from_utf8_lossy (replicate n CHR ''a'' @ s) = replicate n CHR ''a'' @ from_utf8_lossy s"
  by (induction n) (simp_all add: lossy_ascii)

section \<open>Streaming\<close>

text \<open>
  \<open>streams alive ys k\<close>: the chunker has been given the bytes \<open>ys\<close> to send. The messages are
  the lossy texts of pieces of at most one chunk, whose bytes are a prefix of \<open>ys\<close>: all of
  it while the stream is open. A closed stream has met a dead receiver, or ends with the
  one cap marker after the display budget was used up.
\<close>

definition streamed ::
  "(nat \<Rightarrow> bool) \<Rightarrow> string \<Rightarrow> string list \<Rightarrow> string list \<Rightarrow> bool \<Rightarrow> nat \<Rightarrow> bool" where
  "streamed alive ys raws marker is_live sent_total \<longleftrightarrow>
     (\<forall>r \<in> set raws. length r \<le> SHELL_STREAM_CHUNK_MAX_BYTES)
     \<and> length (concat raws) < SHELL_STREAM_TOTAL_MAX_BYTES + SHELL_STREAM_CHUNK_MAX_BYTES
     \<and> prefix (concat raws) ys
     \<and> (if is_live then marker = [] \<and> concat raws = ys \<and> sent_total = length ys
        else marker = [] \<and> (\<exists>n. \<not> alive n)
           \<or> marker = [SHELL_STREAM_CAP_MARKER] \<and> SHELL_STREAM_TOTAL_MAX_BYTES \<le> length (concat raws)
             \<and> length (concat raws) < length ys)"

definition streams :: "(nat \<Rightarrow> bool) \<Rightarrow> string \<Rightarrow> stream_chunker \<Rightarrow> bool" where
  "streams alive ys k \<longleftrightarrow> (\<exists>raws marker.
     delivered (chan k) = map from_utf8_lossy raws @ marker
     \<and> streamed alive ys raws marker (sender k) (streamed_total k))"

lemma streamsI:
  "delivered (chan k) = map from_utf8_lossy raws @ marker
    \<Longrightarrow> streamed alive ys raws marker (sender k) (streamed_total k) \<Longrightarrow> streams alive ys k"
  by (auto simp: streams_def)

lemma streams_closed_mono: "streams alive ys k \<Longrightarrow> \<not> sender k \<Longrightarrow> streams alive (ys @ zs) k"
proof -
  have "streamed alive (ys @ zs) raws marker False n" if "streamed alive ys raws marker False n"
    for raws marker n
    using that by (auto simp: streamed_def)
  then show "streams alive ys k \<Longrightarrow> \<not> sender k \<Longrightarrow> streams alive (ys @ zs) k"
    unfolding streams_def by metis
qed

lemma streams_pending [simp]: "streams alive ys (k\<lparr>pending := p\<rparr>) = streams alive ys k"
  by (simp add: streams_def)

lemma streams_liveE:
  assumes "streams alive ys k" "sender k"
  obtains raws where "delivered (chan k) = map from_utf8_lossy raws" "concat raws = ys"
    "\<forall>r \<in> set raws. length r \<le> SHELL_STREAM_CHUNK_MAX_BYTES" "streamed_total k = length ys"
    "length ys < SHELL_STREAM_TOTAL_MAX_BYTES + SHELL_STREAM_CHUNK_MAX_BYTES"
  using assms by (auto simp: streams_def streamed_def)

text \<open>One piece: its three outcomes.\<close>

lemma streams_capped:
  assumes "streams alive ys k" "sender k" "SHELL_STREAM_TOTAL_MAX_BYTES \<le> streamed_total k" "p \<noteq> []"
  shows "streams alive (ys @ p) (k\<lparr>chan := snd (send alive SHELL_STREAM_CAP_MARKER (chan k)), sender := False\<rparr>)"
  using assms(1, 2)
proof (rule streams_liveE)
  fix raws assume "delivered (chan k) = map from_utf8_lossy raws" "concat raws = ys"
    "\<forall>r \<in> set raws. length r \<le> SHELL_STREAM_CHUNK_MAX_BYTES" "streamed_total k = length ys"
    "length ys < SHELL_STREAM_TOTAL_MAX_BYTES + SHELL_STREAM_CHUNK_MAX_BYTES"
  then show ?thesis using assms
    by (intro streamsI [where raws = raws
          and marker = "if alive (sends (chan k)) then [SHELL_STREAM_CAP_MARKER] else []"])
      (auto simp: streamed_def send_def)
qed

lemma streams_lost:
  assumes "streams alive ys k" "sender k" "\<not> alive (sends (chan k))"
  shows "streams alive (ys @ p) (k\<lparr>streamed_total := t, chan := snd (send alive m (chan k)), sender := False\<rparr>)"
  using assms(1, 2)
proof (rule streams_liveE)
  fix raws assume "delivered (chan k) = map from_utf8_lossy raws" "concat raws = ys"
    "\<forall>r \<in> set raws. length r \<le> SHELL_STREAM_CHUNK_MAX_BYTES" "streamed_total k = length ys"
    "length ys < SHELL_STREAM_TOTAL_MAX_BYTES + SHELL_STREAM_CHUNK_MAX_BYTES"
  then show ?thesis using assms
    by (intro streamsI [where raws = raws and marker = "[]"]) (auto simp: streamed_def send_def)
qed

lemma streams_sent:
  assumes "streams alive ys k" "sender k" "streamed_total k < SHELL_STREAM_TOTAL_MAX_BYTES"
    "alive (sends (chan k))" "length p \<le> SHELL_STREAM_CHUNK_MAX_BYTES"
  shows "streams alive (ys @ p) (k\<lparr>streamed_total := u64_saturating_add (streamed_total k) (length p),
           chan := snd (send alive (from_utf8_lossy p) (chan k))\<rparr>)"
  using assms(1, 2)
proof (rule streams_liveE)
  fix raws assume raws: "delivered (chan k) = map from_utf8_lossy raws" "concat raws = ys"
    "\<forall>r \<in> set raws. length r \<le> SHELL_STREAM_CHUNK_MAX_BYTES" "streamed_total k = length ys"
  then have "u64_saturating_add (streamed_total k) (length p) = length (ys @ p)"
    using assms(3, 5) by (simp add: u64_saturating_add_def u64_max_def shell_limits)
  then show ?thesis
    using raws assms
    by (intro streamsI [where raws = "raws @ [p]" and marker = "[]"]) (auto simp: send_def streamed_def)
qed

lemma send_each_streams:
  assumes "streams alive ys k" "\<forall>p \<in> set pieces. p \<noteq> [] \<and> length p \<le> SHELL_STREAM_CHUNK_MAX_BYTES"
  shows "streams alive (ys @ concat pieces) (send_each alive pieces k)"
  using assms
proof (induction pieces arbitrary: ys k)
  case (Cons p pieces)
  consider "\<not> sender k" | "sender k" "SHELL_STREAM_TOTAL_MAX_BYTES \<le> streamed_total k"
    | "sender k" "streamed_total k < SHELL_STREAM_TOTAL_MAX_BYTES" "\<not> alive (sends (chan k))"
    | "sender k" "streamed_total k < SHELL_STREAM_TOTAL_MAX_BYTES" "alive (sends (chan k))"
    by linarith
  then show ?case
  proof cases
    case 1
    then show ?thesis using streams_closed_mono [OF Cons.prems(1)] by simp
  next
    case 2
    then show ?thesis
      using streams_closed_mono [OF streams_capped [OF Cons.prems(1) 2, of p]] Cons.prems(2) by simp
  next
    case 3
    then show ?thesis
      using streams_closed_mono [OF streams_lost [OF Cons.prems(1) 3(1) 3(3)], of "concat pieces"]
      by (simp add: send_def Let_def)
  next
    case 4
    then show ?thesis
      using Cons.IH [OF streams_sent [OF Cons.prems(1) 4, of p]] Cons.prems(2)
      by (simp add: send_def Let_def)
  qed
qed simp

lemma chunks_concat: "0 < n \<Longrightarrow> concat (chunks n xs) = xs"
  by (induction n xs rule: chunks.induct) (subst chunks.simps, simp)

lemma chunks_pieces: "p \<in> set (chunks n xs) \<Longrightarrow> p \<noteq> [] \<and> length p \<le> n"
  by (induction n xs rule: chunks.induct) (subst (asm) (2) chunks.simps, auto split: if_splits)

lemma send_pieces_streams: "streams alive ys k \<Longrightarrow> streams alive (ys @ bytes) (send_pieces alive bytes k)"
  using send_each_streams [of alive ys k "chunks SHELL_STREAM_CHUNK_MAX_BYTES bytes"]
  by (simp add: send_pieces_def chunks_concat chunks_pieces shell_limits)

lemma send_each_pending [simp]: "pending (send_each alive pieces k) = pending k"
  by (induction alive pieces k rule: send_each.induct) (auto simp: Let_def split: prod.splits)

lemma send_each_sender: "sender (send_each alive pieces k) \<Longrightarrow> sender k"
  by (induction alive pieces k rule: send_each.induct) (auto simp: Let_def split: prod.splits if_splits)

lemma send_pieces_frame:
  "pending (send_pieces alive bytes k) = pending k"
  "sender (send_pieces alive bytes k) \<Longrightarrow> sender k"
  by (auto simp: send_pieces_def dest: send_each_sender)

lemma split_lines: "complete_lines bytes @ open_line bytes = bytes"
  unfolding complete_lines_def open_line_def
  by (metis rev_append rev_rev_ident takeWhile_dropWhile_id)

text \<open>
  The invariant of the chunker after the output \<open>xs\<close>: what it sent and what it holds back
  make up \<open>xs\<close>, and it never holds back a whole chunk.
\<close>

definition chunker_inv :: "(nat \<Rightarrow> bool) \<Rightarrow> string \<Rightarrow> stream_chunker \<Rightarrow> bool" where
  "chunker_inv alive xs k \<longleftrightarrow> length (pending k) < SHELL_STREAM_CHUNK_MAX_BYTES
     \<and> (\<exists>ys. streams alive ys k \<and> (if sender k then ys @ pending k = xs else prefix ys xs))"

lemma chunker_inv_sent: "chunker_inv alive xs k \<Longrightarrow> \<exists>ys. streams alive ys k \<and> prefix ys xs"
  unfolding chunker_inv_def by (metis prefixI)

lemma chunker_inv_new: "chunker_inv alive [] (new_chunker True)"
  by (simp add: chunker_inv_def new_chunker_def streams_def streamed_def shell_limits)

text \<open>Sending part of what is held back.\<close>

definition holds :: "(nat \<Rightarrow> bool) \<Rightarrow> string \<Rightarrow> stream_chunker \<Rightarrow> bool" where
  "holds alive xs k \<longleftrightarrow> (\<exists>ys. streams alive ys k \<and> (if sender k then ys @ pending k = xs else prefix ys xs))"

lemma holds_send:
  assumes "holds alive xs k" "pending k = a @ b"
  shows "holds alive xs (send_pieces alive a (k\<lparr>pending := b\<rparr>))"
proof (cases "sender k")
  case True
  then obtain ys where "streams alive ys k" "xs = (ys @ a) @ b"
    using assms by (auto simp: holds_def)
  then show ?thesis
    unfolding holds_def
    using send_pieces_streams [of alive ys "k\<lparr>pending := b\<rparr>" a] send_pieces_frame(1) [of alive a "k\<lparr>pending := b\<rparr>"]
    by (metis append.assoc prefixI stream_chunker.select_convs(2) stream_chunker.surjective
        stream_chunker.update_convs(2) streams_pending)
next
  case False
  have "send_each alive pieces j = j" if "\<not> sender j" for pieces j
    using that by (cases pieces) simp_all
  then show ?thesis using assms False by (auto simp: holds_def send_pieces_def)
qed

lemma chunker_push_inv:
  assumes "chunker_inv alive xs k"
  shows "chunker_inv alive (xs @ bytes) (chunker_push alive bytes k)"
proof (cases "sender k")
  case True
  let ?k1 = "k\<lparr>pending := pending k @ bytes\<rparr>"
  let ?k2 = "flush_lines alive ?k1" and ?k3 = "flush_oversized alive (flush_lines alive ?k1)"
  have "holds alive (xs @ bytes) ?k1"
    using assms True by (auto simp: chunker_inv_def holds_def)
  then have 2: "holds alive (xs @ bytes) ?k2"
    using holds_send [of alive "xs @ bytes" ?k1 "complete_lines (pending ?k1)" "open_line (pending ?k1)"]
    by (simp add: flush_lines_def split_lines)
  have "holds alive (xs @ bytes) ?k3"
    using 2 holds_send [of alive "xs @ bytes" ?k2 "pending ?k2" "[]"] by (simp add: flush_oversized_def)
  moreover have "length (pending ?k3) < SHELL_STREAM_CHUNK_MAX_BYTES"
    by (simp add: flush_oversized_def send_pieces_frame shell_limits)
  ultimately show ?thesis using True by (simp add: chunker_push_def chunker_inv_def holds_def)
next
  case False
  then show ?thesis using assms by (auto simp: chunker_push_def chunker_inv_def)
qed

lemma chunker_finish_streams:
  assumes "chunker_inv alive xs k"
  shows "streams alive xs (chunker_finish alive k)"
proof -
  have "holds alive xs k" using assms by (simp add: chunker_inv_def holds_def)
  then have "holds alive xs (chunker_finish alive k)"
    using holds_send [of alive xs k "pending k" "[]"] by (simp add: chunker_finish_def)
  moreover have "pending (chunker_finish alive k) = []"
    by (simp add: chunker_finish_def send_pieces_frame)
  ultimately show ?thesis
    using streams_closed_mono by (fastforce simp: holds_def prefix_def split: if_splits)
qed

section \<open>The executor\<close>

fun read_bytes :: "read_event list \<Rightarrow> string" where
  "read_bytes [] = []"
| "read_bytes (ReadData _ bytes # es) = bytes @ read_bytes es"
| "read_bytes (ReadEnd _ # es) = read_bytes es"

text \<open>What the collector holds after the reads \<open>xs\<close>.\<close>

definition collected :: "(nat \<Rightarrow> bool) \<Rightarrow> bool \<Rightarrow> string \<Rightarrow> collector \<Rightarrow> bool" where
  "collected alive streaming xs c \<longleftrightarrow>
     capture c = capture_of SHELL_OUTPUT_HEAD_BYTES SHELL_OUTPUT_TAIL_BYTES xs
     \<and> (if streaming then chunker_inv alive xs (chunker c) else chunker c = new_chunker False)"

lemma collected_new: "collected alive streaming [] (new_collector streaming)"
  by (cases streaming) (simp_all add: collected_def new_collector_def new_capture_of chunker_inv_new)

lemma chunker_push_none: "chunker_push alive bytes (new_chunker False) = new_chunker False"
  by (simp add: chunker_push_def new_chunker_def)

lemma collected_feed: "collected alive streaming xs c \<Longrightarrow> collected alive streaming (xs @ bytes) (feed alive bytes c)"
  by (simp add: collected_def feed_def capture_push_of chunker_push_inv chunker_push_none shell_limits)

lemma close_stream_frame [simp]:
  "capture (close_stream st c) = capture c" "chunker (close_stream st c) = chunker c"
  by (cases st; simp add: close_stream_def)+

lemma collect_run_collected:
  "collect_run alive c es c' \<Longrightarrow> collected alive streaming xs c \<Longrightarrow> collected alive streaming (xs @ read_bytes es) c'"
proof (induction arbitrary: xs rule: collect_run.induct)
  case (next_read c e c' es c'')
  from next_read.hyps(1) show ?case
  proof cases
    case (data st bytes)
    then show ?thesis using next_read.IH [of "xs @ bytes"] next_read.prems collected_feed by simp
  next
    case (eof st)
    then show ?thesis using next_read.IH [of xs] next_read.prems by (simp add: collected_def)
  qed
qed simp

lemma run_collected:
  "collect_run alive (new_collector streaming) events c \<Longrightarrow> collected alive streaming (read_bytes events) c"
  using collect_run_collected [OF _ collected_new] by fastforce

lemma command_result_fields [simp]:
  "command_output (hr_outcome (command_result pid c t code e)) = fst (capture_finish (capture c))"
  "output_bytes_total (hr_outcome (command_result pid c t code e)) = fst (snd (capture_finish (capture c)))"
  "truncated (hr_outcome (command_result pid c t code e)) = snd (snd (capture_finish (capture c)))"
  "timed_out (hr_outcome (command_result pid c t code e)) = t"
  "exit_code (hr_outcome (command_result pid c t code e)) = code"
  "hr_killed (command_result pid c t code e) = (if t then group_kill pid else [])"
  "hr_collector (command_result pid c t code e) = c"
  by (simp_all add: command_result_def group_drop_def group_disarm_def group_kill_def split: prod.splits)

lemma finish_chunks_capture [simp]: "capture (finish_chunks alive c) = capture c"
  by (simp add: finish_chunks_def)

lemma run_capture:
  assumes "run_host_command alive streaming (Inr pid) events (Inr r)"
  shows "capture (hr_collector r) = capture_of SHELL_OUTPUT_HEAD_BYTES SHELL_OUTPUT_TAIL_BYTES (read_bytes events)"
  using assms
  by cases (auto dest: run_collected simp: collected_def)

text \<open>
  C29. In every run of the host executor the outcome reports the length of everything read from
  both streams, says it is truncated exactly above 48 KiB, and shows the whole output or its
  first and last 24 KiB around a note with the number of omitted bytes. A timed out command
  has no exit code and its process group is killed; otherwise no group is signalled.
\<close>

theorem host_outcome:
  assumes "run_host_command alive streaming (Inr pid) events (Inr r)"
    and "length (read_bytes events) \<le> u64_max"
  shows "(let xs = read_bytes events; n = length xs; o' = hr_outcome r in
     output_bytes_total o' = n
     \<and> truncated o' = (49152 < n)
     \<and> command_output o' =
         (if n \<le> 49152 then from_utf8_lossy (take 24576 xs) @ from_utf8_lossy (drop 24576 xs)
          else from_utf8_lossy (take 24576 xs) @ omitted_note (n - 49152)
            @ from_utf8_lossy (drop (n - 24576) xs))
     \<and> (timed_out o' \<longrightarrow> exit_code o' = None)
     \<and> hr_killed r = (if timed_out o' then group_kill pid else []))"
proof -
  obtain c t code e where r: "r = command_result pid c t code e" "t \<longrightarrow> code = None"
    using assms(1) by cases auto
  have "capture c = capture_of SHELL_OUTPUT_HEAD_BYTES SHELL_OUTPUT_TAIL_BYTES (read_bytes events)"
    using run_capture [OF assms(1)] r by simp
  then show ?thesis
    using r by (simp add: capture_rendered [OF assms(2)] Let_def)
qed

text \<open>A run that reads from both streams and times out.\<close>

definition demo_events :: "read_event list" where
  "demo_events = [ReadData Stdout ''one'', ReadData Stderr ''two'', ReadEnd Stdout]"

lemma demo_run:
  "\<exists>c. collect_run (\<lambda>_. True) (new_collector True) demo_events c \<and> stderr_open c"
  unfolding demo_events_def
  by (rule exI, rule conjI, (rule collect_run.next_read, rule collect_step.data, simp add: is_open_def new_collector_def feed_def, simp, simp)+,
     rule collect_run.next_read, rule collect_step.eof, simp add: is_open_def new_collector_def feed_def, rule collect_run.start,
     simp add: new_collector_def feed_def close_stream_def)

theorem host_outcome_witness:
  "\<exists>r. run_host_command (\<lambda>_. True) True (Inr (Some 7)) demo_events (Inr r)
     \<and> command_output (hr_outcome r) = ''onetwo'' \<and> hr_killed r = [7]"
proof -
  obtain c where "collect_run (\<lambda>_. True) (new_collector True) demo_events c" "stderr_open c"
    using demo_run by blast
  then have run: "run_host_command (\<lambda>_. True) True (Inr (Some 7)) demo_events
      (Inr (command_result (Some 7) c True None 0))" (is "run_host_command _ _ _ _ (Inr ?r)")
    by (intro run_host_command.timeout_reading) auto
  have "length (read_bytes demo_events) \<le> u64_max" by (simp add: demo_events_def u64_max_def)
  from host_outcome [OF run this] have "command_output (hr_outcome ?r) = ''onetwo''" "hr_killed ?r = [7]"
    by (simp_all add: demo_events_def Let_def from_utf8_lossy_valid group_kill_def i32_max_def)
  then show ?thesis using run by blast
qed

text \<open>
  C30. In every run with a display channel the messages are the texts of pieces of at most 4
  KiB whose bytes are a prefix of the output, at most one cap marker follows them and only
  after 48 KiB, and less than 52 KiB are sent in all. If the receiver stays, the command does
  not time out and the output fits 48 KiB, the pieces are the whole output.
\<close>

theorem live_stream:
  assumes "run_host_command alive True (Inr pid) events (Inr r)"
  shows "\<exists>raws marker.
     delivered (chan (chunker (hr_collector r))) = map from_utf8_lossy raws @ marker
     \<and> (\<forall>raw \<in> set raws. length raw \<le> 4096)
     \<and> length (concat raws) < 53248
     \<and> prefix (concat raws) (read_bytes events)
     \<and> (marker = [] \<or> marker = [SHELL_STREAM_CAP_MARKER] \<and> 49152 \<le> length (concat raws))
     \<and> (\<not> timed_out (hr_outcome r) \<and> (\<forall>n. alive n) \<and> length (read_bytes events) \<le> 49152
          \<longrightarrow> marker = [] \<and> concat raws = read_bytes events)"
proof -
  have inv: "chunker_inv alive (read_bytes events) (chunker c)"
    if "collect_run alive (new_collector True) events c" for c
    using run_collected [OF that] by (simp add: collected_def)
  from assms obtain ys where s: "streams alive ys (chunker (hr_collector r))" "prefix ys (read_bytes events)"
    "\<not> timed_out (hr_outcome r) \<Longrightarrow> ys = read_bytes events"
  proof cases
    case (completed c w e)
    then show ?thesis
      using that [of "read_bytes events"] chunker_finish_streams [OF inv] by (simp add: finish_chunks_def)
  next
    case (timeout_reading c e)
    moreover obtain ys where "streams alive ys (chunker c)" "prefix ys (read_bytes events)"
      using chunker_inv_sent [OF inv [OF timeout_reading(2)]] by blast
    ultimately show ?thesis using that [of ys] by simp
  next
    case (timeout_waiting c e)
    then show ?thesis
      using that [of "read_bytes events"] chunker_finish_streams [OF inv] by (simp add: finish_chunks_def)
  qed
  then obtain raws marker where
    d: "delivered (chan (chunker (hr_collector r))) = map from_utf8_lossy raws @ marker"
    and st: "streamed alive ys raws marker (sender (chunker (hr_collector r))) (streamed_total (chunker (hr_collector r)))"
    by (auto simp: streams_def)
  have "prefix (concat raws) (read_bytes events)"
    using st s(2) by (auto simp: streamed_def)
  moreover have "length ys \<le> length (read_bytes events)" using s(2) by (rule prefix_length_le)
  ultimately show ?thesis
    using d st s(3) by (intro exI [of _ raws] exI [of _ marker]) (auto simp: streamed_def shell_limits split: if_splits)
qed

theorem live_stream_witness:
  "\<exists>r raws marker. run_host_command (\<lambda>_. True) True (Inr None) demo_events (Inr r)
     \<and> delivered (chan (chunker (hr_collector r))) = map from_utf8_lossy raws @ marker
     \<and> prefix (concat raws) ''onetwo'' \<and> marker = []"
proof -
  obtain c where "collect_run (\<lambda>_. True) (new_collector True) demo_events c" "stderr_open c"
    using demo_run by blast
  then have run: "run_host_command (\<lambda>_. True) True (Inr None) demo_events
      (Inr (command_result None c True None 0))" (is "run_host_command _ _ _ _ (Inr ?r)")
    by (intro run_host_command.timeout_reading) auto
  from live_stream [OF run] obtain raws marker where
    "delivered (chan (chunker (hr_collector ?r))) = map from_utf8_lossy raws @ marker"
    "prefix (concat raws) ''onetwo''" "marker = [] \<or> 49152 \<le> length (concat raws)"
    by (auto simp: demo_events_def)
  then show ?thesis using run prefix_length_le by fastforce
qed

text \<open>How many streams have ended.\<close>

fun ends :: "read_event list \<Rightarrow> nat" where
  "ends [] = 0"
| "ends (ReadData _ _ # es) = ends es"
| "ends (ReadEnd _ # es) = Suc (ends es)"

definition open_streams :: "collector \<Rightarrow> nat" where
  "open_streams c = (if stdout_open c then 1 else 0) + (if stderr_open c then 1 else 0)"

lemma open_streams_close: "is_open st c \<Longrightarrow> Suc (open_streams (close_stream st c)) = open_streams c"
  by (cases st) (simp_all add: open_streams_def is_open_def close_stream_def)

lemma collect_run_ends: "collect_run alive c es c' \<Longrightarrow> ends es + open_streams c' = open_streams c"
proof (induction rule: collect_run.induct)
  case (next_read c e c' es c'')
  from next_read.hyps(1) show ?case
    using next_read.IH open_streams_close
    by cases (fastforce simp: feed_def open_streams_def)+
qed simp

text \<open>
  The reading loop ends: in every run each stream ends at most once, the loop stops
  exactly when both have ended, and until then a further read is possible.
\<close>

lemma reading_ends:
  assumes "collect_run alive (new_collector streaming) events c"
  shows "ends events \<le> 2
     \<and> (\<not> stdout_open c \<and> \<not> stderr_open c \<longleftrightarrow> ends events = 2)
     \<and> ((\<exists>e c'. collect_step alive c e c') \<longleftrightarrow> ends events < 2)"
proof -
  have "ends events + open_streams c = 2"
    using collect_run_ends [OF assms] by (simp add: open_streams_def new_collector_def)
  moreover have "(\<exists>e c'. collect_step alive c e c') \<longleftrightarrow> stdout_open c \<or> stderr_open c"
  proof
    assume "\<exists>e c'. collect_step alive c e c'"
    then show "stdout_open c \<or> stderr_open c"
      by (auto elim!: collect_step.cases simp: is_open_def split: std_stream.splits)
  next
    assume "stdout_open c \<or> stderr_open c"
    then have "is_open Stdout c \<or> is_open Stderr c" by (simp add: is_open_def)
    then show "\<exists>e c'. collect_step alive c e c'" using collect_step.eof by blast
  qed
  ultimately show ?thesis by (auto simp: open_streams_def split: if_splits)
qed

lemma reading_ends_witness:
  "\<exists>c. collect_run (\<lambda>_. True) (new_collector True) demo_events c \<and> ends demo_events < 2
     \<and> (\<exists>e c'. collect_step (\<lambda>_. True) c e c')"
proof -
  obtain c where c: "collect_run (\<lambda>_. True) (new_collector True) demo_events c"
    using demo_run by blast
  from reading_ends [OF c] c show ?thesis by (auto simp: demo_events_def)
qed

text \<open>
  The head is decoded apart from the tail: an output that fits the capture whole, but has a
  character across the end of the head, is not rendered as it was written.
\<close>

lemma head_splits_characters:
  fixes xs defines "xs \<equiv> replicate 24575 CHR ''a'' @ [CHR 0xC3, CHR 0xA9]"
  shows "utf8_valid xs
    \<and> capture_finish (capture_push xs (new_capture SHELL_OUTPUT_HEAD_BYTES SHELL_OUTPUT_TAIL_BYTES))
        = (replicate 24575 CHR ''a'' @ replacement @ replacement, 24577, False)"
proof -
  have "utf8_valid xs"
    unfolding xs_def by (rule utf8_valid_append, rule utf8_valid_ascii)
      (simp_all add: list_all_iff byte_in_def is_cont_def)
  moreover have "from_utf8_lossy [CHR 0xC3] = replacement" "from_utf8_lossy [CHR 0xA9] = replacement"
    by (simp_all add: from_utf8_lossy.simps lossy_step_def byte_in_def)
  moreover have "take 24576 xs = replicate 24575 CHR ''a'' @ [CHR 0xC3]" "drop 24576 xs = [CHR 0xA9]"
    "length xs = 24577"
    unfolding xs_def take_append drop_append length_append length_replicate
    by simp_all
  ultimately show ?thesis
    using capture_push_of [OF tail_capacity, of xs SHELL_OUTPUT_HEAD_BYTES "[]"]
    by (simp add: new_capture_of capture_rendered u64_max_def lossy_replicate)
qed

end
