(* ===== verification/Review.thy ===== *)
theory Review
  imports Permission Complex_Main
begin

text \<open>
  The review core, \<^verbatim>\<open>yach-backend/src/review.rs\<close> and \<^verbatim>\<open>review/\<close>: bounded review texts
  (\<^verbatim>\<open>review.rs\<close>), the hazard signals (\<^verbatim>\<open>signals.rs\<close>), review requests and their evidence
  (\<^verbatim>\<open>request.rs\<close>), the validation of a reviewer's assessment (\<^verbatim>\<open>assessment.rs\<close>) and the
  routing of a validated assessment (\<^verbatim>\<open>routing.rs\<close>). JSON and TOML are decoded elsewhere and
  are parameters.
\<close>

section \<open>Floating point numbers\<close>

text \<open>The values of \<open>f64\<close> the code compares, ordered as \<open>PartialOrd\<close> does: not at all for NaN.\<close>

datatype f64 = Finite rat | PosInf | NegInf | NaN

fun f64_le :: "f64 \<Rightarrow> f64 \<Rightarrow> bool" where
  "f64_le (Finite a) (Finite b) = (a \<le> b)"
| "f64_le NaN _ = False"
| "f64_le _ NaN = False"
| "f64_le NegInf _ = True"
| "f64_le _ PosInf = True"
| "f64_le _ _ = False"

instantiation f64 :: ord
begin

definition less_eq_f64 :: "f64 \<Rightarrow> f64 \<Rightarrow> bool" where
  "less_eq_f64 = f64_le"

definition less_f64 :: "f64 \<Rightarrow> f64 \<Rightarrow> bool" where
  "less_f64 a b = (f64_le a b \<and> a \<noteq> b)"

instance ..

end

definition is_finite_f64 :: "f64 \<Rightarrow> bool" where
  "is_finite_f64 v = (case v of Finite _ \<Rightarrow> True | _ \<Rightarrow> False)"

definition unit_interval :: "f64 \<Rightarrow> bool" where
  "unit_interval v \<longleftrightarrow> is_finite_f64 v \<and> Finite 0 \<le> v \<and> v \<le> Finite 1"

lemma f64_le_Finite [simp]: "Finite a \<le> Finite b \<longleftrightarrow> a \<le> b"
  by (simp add: less_eq_f64_def)

lemma unit_interval_iff: "unit_interval v \<longleftrightarrow> (\<exists>r. v = Finite r \<and> 0 \<le> r \<and> r \<le> 1)"
  by (cases v) (simp_all add: unit_interval_def is_finite_f64_def)

section \<open>Bounded texts\<close>

definition REVIEW_TEXT_MAX_BYTES :: nat where
  "REVIEW_TEXT_MAX_BYTES = 4096"

definition bound_review_text :: "string \<Rightarrow> string" where
  "bound_review_text value =
     (let escaped = concat (map (\<lambda>ch. if is_control ch then replacement else ch) (utf8_chars value))
      in if length escaped \<le> REVIEW_TEXT_MAX_BYTES then escaped
         else take (floor_boundary escaped REVIEW_TEXT_MAX_BYTES) escaped)"

record review_request_summary =
  rqs_request_id :: string
  rqs_action_kind :: string
  rqs_target :: string
  rqs_policy_revision :: nat
  rqs_authorization_revision :: nat

record review_assessment_summary =
  ras_reviewer_id :: string
  ras_reason :: string
  ras_model :: string

section \<open>Signals\<close>

datatype review_signal =
    Install | Activation | Publish | Disclosure | Delete | IrreversibleLoss | Privilege
  | RemoteCode | OpaqueEffect | OriginConfusion | ScopeConflict

definition ALL_SIGNALS :: "review_signal list" where
  "ALL_SIGNALS = [Install, Activation, Publish, Disclosure, Delete, IrreversibleLoss, Privilege,
     RemoteCode, OpaqueEffect, OriginConfusion, ScopeConflict]"

definition RISK_SIGNALS :: "review_signal list" where
  "RISK_SIGNALS = [Install, Activation, Publish, Disclosure, IrreversibleLoss, Privilege,
     RemoteCode, OriginConfusion]"

fun signal_id :: "review_signal \<Rightarrow> string" where
  "signal_id Install = ''install''"
| "signal_id Activation = ''activation''"
| "signal_id Publish = ''publish''"
| "signal_id Disclosure = ''disclosure''"
| "signal_id Delete = ''delete''"
| "signal_id IrreversibleLoss = ''irreversible_loss''"
| "signal_id Privilege = ''privilege''"
| "signal_id RemoteCode = ''remote_code''"
| "signal_id OpaqueEffect = ''opaque_effect''"
| "signal_id OriginConfusion = ''origin_confusion''"
| "signal_id ScopeConflict = ''scope_conflict''"

fun policy_class :: "review_signal \<Rightarrow> action_class option" where
  "policy_class Install = Some PersistentInstall"
| "policy_class Activation = Some HostActivation"
| "policy_class Publish = Some ExternalPublish"
| "policy_class Disclosure = Some SensitiveDisclosure"
| "policy_class Delete = Some DestructiveDelete"
| "policy_class _ = None"

section \<open>Requests\<close>

definition REVIEW_REQUEST_SCHEMA :: string where
  "REVIEW_REQUEST_SCHEMA = ''yach.review-request.v2''"

definition REVIEW_REQUEST_MAX_BYTES :: nat where
  "REVIEW_REQUEST_MAX_BYTES = 64 * 1024"

definition USER_EVIDENCE_SOURCE :: string where
  "USER_EVIDENCE_SOURCE = ''user''"

definition USER_MESSAGE_BUDGET_BYTES :: nat where
  "USER_MESSAGE_BUDGET_BYTES = 16 * 1024"

datatype review_edit_operation =
    ReviewModifyTextFile (reo_path: string) string
  | ReviewReplaceTextFile (reo_path: string) string
  | ReviewCreateTextFile (reo_path: string)

datatype review_action =
    ReviewShellCommand string string nat "string list"
  | ReviewEditTransaction "review_edit_operation list" "string list"
  | ReviewExtensionProposal string "review_edit_operation list"

record evidence_item =
  ev_id :: string
  ev_source :: string
  ev_kind :: string
  ev_excerpt :: string
  ev_truncated :: bool

datatype omission_marker = DroppedUntrusted string | Redacted string | Unavailable string

datatype sandbox_state = NoSandbox | DeclaredSandbox "string list"

record review_request =
  rr_schema :: string
  rr_request_id :: string
  rr_session_id :: string
  rr_turn_id :: string
  rr_policy_revision :: nat
  rr_authorization_revision :: nat
  rr_reviewer_id :: string
  rr_reviewer_generation :: nat
  rr_action :: review_action
  trusted_evidence :: "evidence_item list"
  untrusted_evidence :: "evidence_item list"
  omissions :: "omission_marker list"
  rr_sandbox_state :: sandbox_state

datatype bound_review_request = Ready review_request | OverBudget "omission_marker list"

definition fits_request :: "(review_request \<Rightarrow> nat option) \<Rightarrow> review_request \<Rightarrow> bool" where
  "fits_request serialized_len r =
     (case serialized_len r of Some len \<Rightarrow> len \<le> REVIEW_REQUEST_MAX_BYTES | None \<Rightarrow> False)"

definition bind_review_request ::
  "(review_request \<Rightarrow> nat option) \<Rightarrow> review_request \<Rightarrow> bound_review_request" where
  "bind_review_request serialized_len r =
     (if fits_request serialized_len r then Ready r
      else if untrusted_evidence r = [] then OverBudget (omissions r)
      else let r' = r\<lparr>omissions := omissions r @ map (\<lambda>i. DroppedUntrusted (ev_id i)) (untrusted_evidence r),
                      untrusted_evidence := []\<rparr>
           in if fits_request serialized_len r' then Ready r' else OverBudget (omissions r'))"

fun action_kind :: "review_action \<Rightarrow> string" where
  "action_kind (ReviewShellCommand _ _ _ _) = ''shell_command''"
| "action_kind (ReviewEditTransaction _ _) = ''edit_transaction''"
| "action_kind (ReviewExtensionProposal _ _) = ''extension_proposal''"

definition first_operation_path :: "review_edit_operation list \<Rightarrow> string" where
  "first_operation_path ops = (case ops of [] \<Rightarrow> '''' | op # _ \<Rightarrow> reo_path op)"

fun action_target :: "review_action \<Rightarrow> string" where
  "action_target (ReviewShellCommand cmd _ _ _) = cmd"
| "action_target (ReviewEditTransaction ops _) = first_operation_path ops"
| "action_target (ReviewExtensionProposal _ ops) = first_operation_path ops"

subsection \<open>Evidence from the user's messages\<close>

text \<open>The messages come newest first, each with its entry, its turn and its text.\<close>

type_synonym user_message = "string \<times> string \<times> string"

datatype user_message_evidence =
  EvidenceReady "evidence_item list" "omission_marker list" | IssuingTurnOverBudget

definition message_id :: "string \<Rightarrow> string" where
  "message_id entry = ''user:'' @ entry"

definition message_item :: "string \<Rightarrow> string \<Rightarrow> evidence_item" where
  "message_item entry msg = \<lparr>ev_id = message_id entry, ev_source = USER_EVIDENCE_SOURCE,
     ev_kind = ''message'', ev_excerpt = msg, ev_truncated = False\<rparr>"

text \<open>The first loop: the newest message of the issuing turn, and markers for its others.\<close>

fun issuing_messages ::
  "string \<Rightarrow> user_message list \<Rightarrow> bool \<Rightarrow> evidence_item list \<Rightarrow> omission_marker list \<Rightarrow> nat
   \<Rightarrow> (evidence_item list \<times> omission_marker list \<times> nat) option" where
  "issuing_messages issuing [] included items om used = Some (items, om, used)"
| "issuing_messages issuing ((entry, turn, msg) # ms) included items om used =
     (if turn \<noteq> issuing then issuing_messages issuing ms included items om used
      else if \<not> included then
        (if length msg > USER_MESSAGE_BUDGET_BYTES then None
         else issuing_messages issuing ms True (items @ [message_item entry msg]) om (length msg))
      else issuing_messages issuing ms included items (om @ [Unavailable (message_id entry)]) used)"

text \<open>The second loop: older messages that still fit whole.\<close>

fun older_messages ::
  "string \<Rightarrow> user_message list \<Rightarrow> evidence_item list \<Rightarrow> omission_marker list \<Rightarrow> nat
   \<Rightarrow> evidence_item list \<times> omission_marker list" where
  "older_messages issuing [] items om used = (items, om)"
| "older_messages issuing ((entry, turn, msg) # ms) items om used =
     (if turn = issuing then older_messages issuing ms items om used
      else if u64_saturating_add used (length msg) > USER_MESSAGE_BUDGET_BYTES
      then older_messages issuing ms items (om @ [Unavailable (message_id entry)]) used
      else older_messages issuing ms (items @ [message_item entry msg]) om (used + length msg))"

definition user_message_evidence :: "user_message list \<Rightarrow> string \<Rightarrow> user_message_evidence" where
  "user_message_evidence messages issuing =
     (case issuing_messages issuing messages False [] [] 0 of
        None \<Rightarrow> IssuingTurnOverBudget
      | Some (items, om, used) \<Rightarrow>
          (case older_messages issuing messages items om used of (items', om') \<Rightarrow> EvidenceReady items' om'))"

section \<open>Assessments\<close>

definition REVIEW_ASSESSMENT_SCHEMA :: string where
  "REVIEW_ASSESSMENT_SCHEMA = ''yach.review-assessment.v2''"

definition REVIEW_ASSESSMENT_MAX_BYTES :: nat where
  "REVIEW_ASSESSMENT_MAX_BYTES = 16 * 1024"

datatype authorization_answer =
  ExactAuthorized | SubstantiveAuthorized | Insufficient | Ambiguous

record review_assessment =
  ra_schema :: string
  ra_request_id :: string
  ra_reviewer_id :: string
  ra_model :: "string option"
  ra_authorization :: string
  ra_signals :: "(string \<times> f64) list"
  ra_confidence :: "(string \<times> f64) list"
  ra_evidence_refs :: "string list"
  ra_adapter_error :: "string option"
  ra_input_tokens :: nat
  ra_output_tokens :: nat
  ra_duration_ms :: nat

datatype assessment_validation_error =
  Oversized | Malformed | RequestMismatch | UnknownEvidenceRef | AdapterFailed

definition authorization_answer ::
  "review_assessment \<Rightarrow> (assessment_validation_error, authorization_answer) result" where
  "authorization_answer a =
     (if ra_authorization a = ''exact_authorized'' then Inr ExactAuthorized
      else if ra_authorization a = ''substantive_authorized'' then Inr SubstantiveAuthorized
      else if ra_authorization a = ''insufficient'' then Inr Insufficient
      else if ra_authorization a = ''ambiguous'' then Inr Ambiguous
      else Inl Malformed)"

definition signal :: "review_assessment \<Rightarrow> review_signal \<Rightarrow> f64" where
  "signal a s = (case map_of (ra_signals a) (signal_id s) of Some v \<Rightarrow> v | None \<Rightarrow> Finite 1)"

definition signals_complete :: "review_assessment \<Rightarrow> bool" where
  "signals_complete a \<longleftrightarrow>
     length (ra_signals a) = length ALL_SIGNALS
     \<and> \<not> list_ex (\<lambda>s. case map_of (ra_signals a) (signal_id s) of
          None \<Rightarrow> True | Some v \<Rightarrow> \<not> unit_interval v) ALL_SIGNALS"

definition known_evidence :: "review_request \<Rightarrow> string list" where
  "known_evidence r = map ev_id (trusted_evidence r @ untrusted_evidence r)"

definition validate_against ::
  "(string \<Rightarrow> review_assessment option) \<Rightarrow> string \<Rightarrow> review_request
   \<Rightarrow> (assessment_validation_error, review_assessment) result" where
  "validate_against decode bytes req =
     res_bind (fail_if (length bytes > REVIEW_ASSESSMENT_MAX_BYTES) Oversized) (\<lambda>_.
     res_bind (ok_or (decode bytes) Malformed) (\<lambda>a.
     res_bind (fail_if (ra_schema a \<noteq> REVIEW_ASSESSMENT_SCHEMA \<or> ra_request_id a \<noteq> rr_request_id req
                 \<or> ra_reviewer_id a \<noteq> rr_reviewer_id req) RequestMismatch) (\<lambda>_.
     res_bind (fail_if (case ra_model a of None \<Rightarrow> True | Some m \<Rightarrow> m = '''') Malformed) (\<lambda>_.
     res_bind (fail_if (ra_adapter_error a \<noteq> None) AdapterFailed) (\<lambda>_.
     res_bind (authorization_answer a) (\<lambda>_.
     res_bind (fail_if (\<not> signals_complete a) Malformed) (\<lambda>_.
     res_bind (fail_if (list_ex (\<lambda>(_, v). \<not> unit_interval v) (ra_confidence a)) Malformed) (\<lambda>_.
     res_bind (fail_if (list_ex (\<lambda>r. \<not> ListMem r (known_evidence req)) (ra_evidence_refs a))
                 UnknownEvidenceRef) (\<lambda>_.
     Inr a)))))))))"

definition model_returned :: "review_assessment \<Rightarrow> string" where
  "model_returned a = (case ra_model a of Some m \<Rightarrow> m | None \<Rightarrow> '''')"

section \<open>Routing\<close>

datatype hold_reason =
    EvidenceOverBudget | SignificantRisk | NeedsClarification
  | RestrictionApplies (applied_restriction: review_restriction)

datatype review_failure =
    Disabled | Stale | MalformedAssessment | TimedOut | ReviewerUnavailable | EvidenceWriteFailed
  | OversizedAssessment

datatype review_route =
    Execute
  | Hold (hold_reason: hold_reason) (evidence_refs: "string list")
  | ReviewFailed (failure: review_failure)

definition ROUTING_SCHEMA :: string where
  "ROUTING_SCHEMA = ''yach-review-routing.v2''"

record routing_file =
  rf_schema :: string
  rf_signals :: "(string \<times> f64) list"

type_synonym thresholds = "review_signal \<Rightarrow> f64 option"

definition fail_closed :: thresholds where
  "fail_closed = map_of (map (\<lambda>s. (s, Finite 0)) ALL_SIGNALS)"

definition fires :: "thresholds \<Rightarrow> review_assessment \<Rightarrow> review_signal \<Rightarrow> bool" where
  "fires th a s = (signal a s \<ge> (case th s of Some v \<Rightarrow> v | None \<Rightarrow> Finite 0))"

fun threshold_table ::
  "routing_file \<Rightarrow> review_signal list \<Rightarrow> (review_signal \<times> f64) list \<Rightarrow> thresholds" where
  "threshold_table file [] table = map_of table"
| "threshold_table file (s # ss) table =
     (case map_of (rf_signals file) (signal_id s) of
        Some v \<Rightarrow> if is_finite_f64 v \<and> Finite 0 \<le> v \<and> v \<le> Finite 1
                  then threshold_table file ss ((s, v) # table) else fail_closed
      | None \<Rightarrow> fail_closed)"

text \<open>The argument is what the TOML decoder makes of the text.\<close>

definition thresholds_from_toml :: "routing_file option \<Rightarrow> thresholds" where
  "thresholds_from_toml parsed =
     (case parsed of
        None \<Rightarrow> fail_closed
      | Some file \<Rightarrow>
          if rf_schema file \<noteq> ROUTING_SCHEMA \<or> length (rf_signals file) \<noteq> length ALL_SIGNALS
          then fail_closed else threshold_table file ALL_SIGNALS [])"

definition ROUTING_TOML :: routing_file where
  "ROUTING_TOML = \<lparr>rf_schema = ''yach-review-routing.v2'',
     rf_signals = [(''install'', Finite (1/2)), (''activation'', Finite (1/2)), (''publish'', Finite (1/2)),
       (''disclosure'', Finite (1/2)), (''delete'', Finite (1/2)), (''irreversible_loss'', Finite (1/2)),
       (''privilege'', Finite (1/2)), (''remote_code'', Finite (1/2)), (''opaque_effect'', Finite (1/2)),
       (''origin_confusion'', Finite (1/2)), (''scope_conflict'', Finite (1/2))]\<rparr>"

definition shipped_thresholds :: thresholds where
  "shipped_thresholds = thresholds_from_toml (Some ROUTING_TOML)"

definition hold :: "hold_reason \<Rightarrow> review_assessment \<Rightarrow> review_route" where
  "hold reason a = Hold reason (ra_evidence_refs a)"

fun signal_restriction ::
  "thresholds \<Rightarrow> review_assessment \<Rightarrow> review_policy \<Rightarrow> review_signal list
   \<Rightarrow> review_restriction option \<Rightarrow> review_restriction option" where
  "signal_restriction th a policy [] restriction = restriction"
| "signal_restriction th a policy (s # ss) restriction =
     (case policy_class s of
        None \<Rightarrow> signal_restriction th a policy ss restriction
      | Some cl \<Rightarrow>
          if \<not> fires th a s then signal_restriction th a policy ss restriction
          else (case restriction_for_class policy cl of
              None \<Rightarrow> signal_restriction th a policy ss restriction
            | Some candidate \<Rightarrow>
                let replaces = (case restriction of
                      None \<Rightarrow> True
                    | Some (AskFirst _ _) \<Rightarrow> is_human_performs candidate
                    | Some (HumanPerforms _ _) \<Rightarrow> False)
                in signal_restriction th a policy ss (if replaces then Some candidate else restriction)))"

definition route_assessment ::
  "thresholds \<Rightarrow> review_request \<Rightarrow> review_assessment \<Rightarrow> review_policy \<Rightarrow> review_route" where
  "route_assessment th req a policy =
     (if list_ex ev_truncated (trusted_evidence req) then hold NeedsClarification a
      else if \<not> list_ex (\<lambda>i. ev_source i = USER_EVIDENCE_SOURCE) (trusted_evidence req)
      then hold NeedsClarification a
      else (case signal_restriction th a policy ALL_SIGNALS None of
          Some r \<Rightarrow> hold (RestrictionApplies r) a
        | None \<Rightarrow>
            if list_ex (fires th a) RISK_SIGNALS then hold SignificantRisk a
            else if fires th a OpaqueEffect \<or> fires th a ScopeConflict then hold NeedsClarification a
            else Execute))"

end
