(* ===== verification/Review_Properties.thy ===== *)
theory Review_Properties
  imports Review
begin

text \<open>Properties of the review core.\<close>

section \<open>Texts\<close>

definition char_group :: "string \<Rightarrow> bool" where
  "char_group g \<longleftrightarrow> g \<noteq> [] \<and> \<not> is_cont (hd g) \<and> list_all is_cont (tl g)"

lemma utf8_chars_concat: "list_all char_group gs \<Longrightarrow> utf8_chars (concat gs) = gs"
proof (induction gs)
  case (Cons g gs)
  then obtain c cs where g: "g = c # cs" "\<not> is_cont c" "list_all is_cont cs"
    by (cases g) (auto simp: char_group_def)
  have "concat gs = [] \<or> \<not> is_cont (hd (concat gs))"
    using Cons.prems by (cases gs) (auto simp: char_group_def)
  then have "utf8_chars (g @ concat gs) = utf8_chars g @ utf8_chars (concat gs)"
    by (rule utf8_chars_append)
  moreover have "takeWhile is_cont cs = cs" "dropWhile is_cont cs = []"
    using g(3) by (auto simp: list_all_iff)
  ultimately show ?case using Cons g by simp
qed simp

lemma utf8_valid_first:
  assumes "utf8_valid (c # cs)"
  shows "utf8_valid (c # takeWhile is_cont cs)" "utf8_valid (dropWhile is_cont cs)"
proof -
  have skip: "dropWhile is_cont s = s" "takeWhile is_cont s = []" if "utf8_valid s" for s
    using that utf8_valid_head by (cases s; auto)+
  from assms show "utf8_valid (c # takeWhile is_cont cs)" "utf8_valid (dropWhile is_cont cs)"
    by (cases rule: utf8_valid_Cons_cases; simp add: skip byte_in_def)+
qed

lemma utf8_chars_groups: "utf8_valid s \<Longrightarrow> list_all (\<lambda>g. char_group g \<and> utf8_valid g) (utf8_chars s)"
proof (induction s rule: utf8_chars.induct)
  case (2 c cs)
  have "list_all is_cont (takeWhile is_cont cs)" by (auto simp: list_all_iff dest: set_takeWhileD)
  then show ?case
    using 2 utf8_valid_head utf8_valid_first [OF 2(2)] by (simp add: char_group_def)
qed simp

lemma utf8_valid_concat: "list_all utf8_valid gs \<Longrightarrow> utf8_valid (concat gs)"
  by (induction gs) (auto intro: utf8_valid_append)

text \<open>Cutting between characters keeps a prefix of the characters.\<close>

lemma utf8_chars_boundary:
  assumes "is_char_boundary s i"
  shows "utf8_chars s = utf8_chars (take i s) @ utf8_chars (drop i s)"
proof -
  have "drop i s = [] \<or> \<not> is_cont (hd (drop i s)) \<or> take i s = []"
    using assms by (auto simp: is_char_boundary_def hd_drop_conv_nth)
  then show ?thesis
    using utf8_chars_append [of "drop i s" "take i s"] by auto
qed

lemma cut_at_boundary_take: "\<exists>i. is_char_boundary s i \<and> cut_at_boundary n s = take i s"
proof (cases "length s \<le> n")
  case True
  then show ?thesis by (intro exI [of _ "length s"]) (simp add: cut_at_boundary_def is_char_boundary_def)
next
  case False
  then show ?thesis using floor_boundary_boundary [of s n] by (auto simp: cut_at_boundary_def)
qed

definition escape_controls :: "string \<Rightarrow> string list" where
  "escape_controls s = map (\<lambda>ch. if is_control ch then replacement else ch) (utf8_chars s)"

lemma replacement_plain [simp]: "\<not> is_control replacement" "char_group replacement" "utf8_valid replacement"
  by (simp_all add: replacement_def is_control_def char_group_def is_cont_def byte_in_def)

lemma bound_review_text_alt: "bound_review_text s = cut_at_boundary REVIEW_TEXT_MAX_BYTES (concat (escape_controls s))"
  by (simp add: bound_review_text_def cut_at_boundary_def escape_controls_def Let_def)

lemma escape_controls_plain:
  "\<not> list_ex is_control (utf8_chars s) \<Longrightarrow> concat (escape_controls s) = s"
  by (simp add: escape_controls_def list_ex_iff cong: map_cong)

lemma escape_controls_groups:
  assumes "utf8_valid s"
  shows "list_all char_group (escape_controls s)" "list_all utf8_valid (escape_controls s)"
    "\<not> list_ex is_control (escape_controls s)"
  using utf8_chars_groups [OF assms] by (auto simp: escape_controls_def list_all_iff list_ex_iff)

text \<open>
  A review text is at most 4096 bytes of valid UTF-8 without control characters; bounding
  it again, as writing and reading it back does, changes nothing, and a short text without
  control characters is kept as it is.
\<close>

lemma review_text_bounded:
  assumes "utf8_valid s"
  shows "length (bound_review_text s) \<le> 4096 \<and> utf8_valid (bound_review_text s)
     \<and> \<not> has_control (bound_review_text s)
     \<and> bound_review_text (bound_review_text s) = bound_review_text s
     \<and> (length s \<le> 4096 \<and> \<not> has_control s \<longrightarrow> bound_review_text s = s)"
proof -
  let ?e = "concat (escape_controls s)" and ?t = "bound_review_text s"
  have chars: "utf8_chars ?e = escape_controls s"
    using escape_controls_groups(1) [OF assms] by (rule utf8_chars_concat)
  have len: "length ?t \<le> 4096"
    using plain_cut.fits [of REVIEW_TEXT_MAX_BYTES ?e] by (simp add: bound_review_text_alt REVIEW_TEXT_MAX_BYTES_def)
  have valid: "utf8_valid ?t"
    using plain_cut.keeps_utf8 utf8_valid_concat [OF escape_controls_groups(2) [OF assms]]
    by (simp add: bound_review_text_alt)
  obtain i where i: "is_char_boundary ?e i" "?t = take i ?e"
    using cut_at_boundary_take [of ?e] by (auto simp: bound_review_text_alt)
  have clean: "\<not> list_ex is_control (utf8_chars ?t)"
    using utf8_chars_boundary [OF i(1)] chars escape_controls_groups(3) [OF assms]
    by (metis i(2) list_ex_append)
  have "bound_review_text ?t = cut_at_boundary REVIEW_TEXT_MAX_BYTES ?t"
    using escape_controls_plain [OF clean] by (simp only: bound_review_text_alt [of ?t])
  then have idem: "bound_review_text ?t = ?t"
    using len plain_cut.unchanged by (simp add: REVIEW_TEXT_MAX_BYTES_def)
  have "?t = s" if "length s \<le> 4096" "\<not> has_control s"
    using that escape_controls_plain [of s] plain_cut.unchanged [of s REVIEW_TEXT_MAX_BYTES]
    by (simp add: bound_review_text_alt has_control_def REVIEW_TEXT_MAX_BYTES_def)
  then show ?thesis using len valid clean idem by (simp add: has_control_def)
qed

lemma review_text_bounded_witness:
  "utf8_valid [CHR ''a'', CHR 0x07] \<and> bound_review_text [CHR ''a'', CHR 0x07] = CHR ''a'' # replacement
     \<and> \<not> has_control (bound_review_text [CHR ''a'', CHR 0x07])"
proof -
  have v: "utf8_valid [CHR ''a'', CHR 0x07]" by simp
  have "bound_review_text [CHR ''a'', CHR 0x07] = CHR ''a'' # replacement" by code_simp
  then show ?thesis using review_text_bounded [OF v] by simp
qed

section \<open>Routing\<close>

lemma ALL_SIGNALS_all: "s \<in> set ALL_SIGNALS"
  by (cases s) (simp_all add: ALL_SIGNALS_def)

lemma signal_id_inj: "signal_id s = signal_id t \<longleftrightarrow> s = t"
  by (cases s; cases t) simp_all

lemma RISK_SIGNALS_iff: "s \<in> set RISK_SIGNALS \<longleftrightarrow> s \<notin> {Delete, OpaqueEffect, ScopeConflict}"
  by (cases s) (simp_all add: RISK_SIGNALS_def)

definition class_restrictions ::
  "thresholds \<Rightarrow> review_assessment \<Rightarrow> review_policy \<Rightarrow> review_signal list \<Rightarrow> review_restriction list" where
  "class_restrictions th a policy ss =
     List.map_filter (\<lambda>s. if fires th a s then Option.bind (policy_class s) (restriction_for_class policy) else None) ss"

lemma signal_restriction_strongest:
  "signal_restriction th a policy ss sel = strongest_from (\<lambda>_. True) sel (class_restrictions th a policy ss)"
proof (induction ss arbitrary: sel)
  case (Cons s ss)
  then show ?case
    by (auto simp: class_restrictions_def List.map_filter_simps Let_def split: option.splits review_restriction.splits)
qed (simp add: class_restrictions_def List.map_filter_simps)

lemma restriction_for_class_spec:
  "restriction_for_class policy cl =
     strongest_spec (\<lambda>r. r_matcher r = ActionClass cl) (policy_global policy @ policy_project policy)"
  by (simp add: restriction_for_class_def strongest_by_spec merge_spec Let_def)

lemma in_map_filter: "y \<in> set (List.map_filter f xs) \<longleftrightarrow> (\<exists>x \<in> set xs. f x = Some y)"
  by (induction xs) (auto simp: List.map_filter_simps split: option.splits)

lemma class_restrictions_iff:
  "r \<in> set (class_restrictions th a policy ALL_SIGNALS) \<longleftrightarrow>
     (\<exists>s cl. fires th a s \<and> policy_class s = Some cl \<and> restriction_for_class policy cl = Some r)"
proof -
  have "r \<in> set (class_restrictions th a policy ALL_SIGNALS) \<longleftrightarrow>
      (\<exists>s. (if fires th a s then Option.bind (policy_class s) (restriction_for_class policy) else None) = Some r)"
    unfolding class_restrictions_def in_map_filter using ALL_SIGNALS_all by blast
  then show ?thesis by (auto simp: bind_eq_Some_conv split: if_splits)
qed

lemma routed_restriction:
  "signal_restriction th a policy ALL_SIGNALS None =
     strongest_spec (\<lambda>_. True) (class_restrictions th a policy ALL_SIGNALS)"
  using strongest_by_spec [of "class_restrictions th a policy ALL_SIGNALS" "\<lambda>_. True"]
  by (simp add: signal_restriction_strongest strongest_by_def)

definition complete_evidence :: "review_request \<Rightarrow> bool" where
  "complete_evidence req \<longleftrightarrow> (\<forall>i \<in> set (trusted_evidence req). \<not> ev_truncated i)
     \<and> (\<exists>i \<in> set (trusted_evidence req). ev_source i = ''user'')"

lemma route_complete:
  "complete_evidence req \<Longrightarrow> route_assessment th req a policy =
     (case signal_restriction th a policy ALL_SIGNALS None of
          Some r \<Rightarrow> hold (RestrictionApplies r) a
        | None \<Rightarrow>
            if list_ex (fires th a) RISK_SIGNALS then hold SignificantRisk a
            else if fires th a OpaqueEffect \<or> fires th a ScopeConflict then hold NeedsClarification a
            else Execute)"
  by (auto simp: route_assessment_def complete_evidence_def list_ex_iff USER_EVIDENCE_SOURCE_def)

lemma route_incomplete:
  "\<not> complete_evidence req \<Longrightarrow> route_assessment th req a policy = Hold NeedsClarification (ra_evidence_refs a)"
  by (auto simp: route_assessment_def complete_evidence_def list_ex_iff USER_EVIDENCE_SOURCE_def hold_def)

text \<open>A request with one message of the user, and assessments with one signal left open.\<close>

definition demo_review_request :: review_request where
  "demo_review_request = \<lparr>rr_schema = REVIEW_REQUEST_SCHEMA, rr_request_id = ''req-1'',
     rr_session_id = ''session-1'', rr_turn_id = ''turn-1'', rr_policy_revision = 1,
     rr_authorization_revision = 1, rr_reviewer_id = ''reviewer'', rr_reviewer_generation = 1,
     rr_action = ReviewShellCommand ''cargo test'' ''/work'' 5000 [],
     trusted_evidence = [message_item ''e1'' ''run the tests''], untrusted_evidence = [],
     omissions = [], rr_sandbox_state = NoSandbox\<rparr>"

definition demo_assessment :: "rat \<Rightarrow> review_assessment" where
  "demo_assessment install = \<lparr>ra_schema = REVIEW_ASSESSMENT_SCHEMA, ra_request_id = ''req-1'',
     ra_reviewer_id = ''reviewer'', ra_model = Some ''m'', ra_authorization = ''insufficient'',
     ra_signals = map (\<lambda>s. (signal_id s, Finite (if s = Install then install else 1/20))) ALL_SIGNALS,
     ra_confidence = [], ra_evidence_refs = [''user:e1''], ra_adapter_error = None,
     ra_input_tokens = 0, ra_output_tokens = 0, ra_duration_ms = 0\<rparr>"

lemma demo_signal: "signal (demo_assessment x) s = Finite (if s = Install then x else 1/20)"
  by (cases s) (simp_all add: signal_def demo_assessment_def ALL_SIGNALS_def)

lemma shipped_half: "shipped_thresholds s = Some (Finite (1/2))"
  by (cases s) (simp_all add: shipped_thresholds_def thresholds_from_toml_def ROUTING_TOML_def
      ROUTING_SCHEMA_def ALL_SIGNALS_def is_finite_f64_def)

lemma demo_fires: "fires shipped_thresholds (demo_assessment x) s \<longleftrightarrow> s = Install \<and> 1/2 \<le> x"
  by (auto simp: fires_def shipped_half demo_signal)

lemma demo_complete: "complete_evidence demo_review_request"
  by (simp add: complete_evidence_def demo_review_request_def message_item_def USER_EVIDENCE_SOURCE_def)

lemma demo_validated:
  "validate_against (\<lambda>_. Some (demo_assessment (1/20))) [] demo_review_request = Inr (demo_assessment (1/20))"
  by (simp add: validate_against_def demo_assessment_def demo_review_request_def REVIEW_ASSESSMENT_MAX_BYTES_def
      authorization_answer_def signals_complete_def unit_interval_def is_finite_f64_def known_evidence_def message_item_def
      message_id_def ListMem_iff ALL_SIGNALS_def)

lemma execute_iff:
  "route_assessment th req a policy = Execute \<longleftrightarrow>
     complete_evidence req
     \<and> (\<forall>s. fires th a s \<longrightarrow> s = Delete
          \<and> (\<forall>r \<in> set (policy_global policy @ policy_project policy). r_matcher r \<noteq> ActionClass DestructiveDelete))"
proof (cases "complete_evidence req")
  case True
  have none: "signal_restriction th a policy ALL_SIGNALS None = None \<longleftrightarrow>
      (\<forall>s cl. fires th a s \<longrightarrow> policy_class s = Some cl \<longrightarrow> restriction_for_class policy cl = None)"
    unfolding routed_restriction strongest_spec_None using class_restrictions_iff by fastforce
  have cl: "restriction_for_class policy c = None \<longleftrightarrow>
      (\<forall>r \<in> set (policy_global policy @ policy_project policy). r_matcher r \<noteq> ActionClass c)" for c
    by (simp add: restriction_for_class_spec strongest_spec_None)
  have "route_assessment th req a policy = Execute \<longleftrightarrow>
      signal_restriction th a policy ALL_SIGNALS None = None
      \<and> (\<forall>s \<in> set RISK_SIGNALS. \<not> fires th a s) \<and> \<not> fires th a OpaqueEffect \<and> \<not> fires th a ScopeConflict"
    by (auto simp: route_complete [OF True] hold_def list_ex_iff split: option.splits)
  also have "\<dots> \<longleftrightarrow> (\<forall>s. fires th a s \<longrightarrow> s = Delete \<and> restriction_for_class policy DestructiveDelete = None)"
    (is "?held \<longleftrightarrow> ?only_delete")
  proof
    assume ?held
    moreover have "s \<in> set RISK_SIGNALS \<or> s \<in> {Delete, OpaqueEffect, ScopeConflict}" for s
      using RISK_SIGNALS_iff by blast
    ultimately show ?only_delete unfolding none by (metis empty_iff insert_iff policy_class.simps(5))
  next
    assume only: ?only_delete
    then have "signal_restriction th a policy ALL_SIGNALS None = None" unfolding none by fastforce
    with only show ?held using RISK_SIGNALS_iff by blast
  qed
  finally show ?thesis using True unfolding cl by blast
qed (simp add: route_incomplete)

text \<open>
  C13. An assessment is routed to execution exactly when the trusted evidence is complete and
  has a message of the user, and no signal reaches its threshold except possibly
  \<open>Delete\<close>, and that one only while no restriction of the policy names
  destructive deletion.
\<close>

theorem route_execute_iff:
  "route_assessment th req a policy = Execute \<longleftrightarrow>
     complete_evidence req
     \<and> (\<forall>s. fires th a s \<longrightarrow> s = Delete
          \<and> (\<forall>r \<in> set (policy_global policy @ policy_project policy). r_matcher r \<noteq> ActionClass DestructiveDelete))"
  by (rule execute_iff)

theorem route_execute_iff_witness:
  "route_assessment shipped_thresholds demo_review_request (demo_assessment (1/20)) empty_review_policy = Execute
   \<and> route_assessment shipped_thresholds demo_review_request (demo_assessment (1/2)) empty_review_policy \<noteq> Execute"
  using route_execute_iff [of shipped_thresholds demo_review_request "demo_assessment (1/20)" empty_review_policy]
    route_execute_iff [of shipped_thresholds demo_review_request "demo_assessment (1/2)" empty_review_policy]
  by (auto simp: demo_complete demo_fires)

lemma execute_fires: "route_assessment th req a policy = Execute \<Longrightarrow> fires th a s \<Longrightarrow> s = Delete"
  by (simp add: execute_iff)

text \<open>
  If a signal that fires has an action class for which the policy reserves the action to
  the user, a request with complete evidence is held with a restriction of that kind, whatever
  other restrictions, risks and signals there are.
\<close>

lemma human_performs_routed:
  assumes "complete_evidence req" "fires th a s" "policy_class s = Some cl"
    "r \<in> set (policy_global policy @ policy_project policy)" "r_matcher r = ActionClass cl" "is_human_performs r"
  shows "\<exists>q. route_assessment th req a policy = Hold (RestrictionApplies q) (ra_evidence_refs a)
     \<and> is_human_performs q \<and> q \<in> set (policy_global policy @ policy_project policy)"
proof -
  obtain c where c: "restriction_for_class policy cl = Some c"
    using assms(4, 5)
      strongest_spec_None [of "\<lambda>r. r_matcher r = ActionClass cl" "policy_global policy @ policy_project policy"]
    unfolding restriction_for_class_spec [symmetric] by blast
  then have "is_human_performs c"
    using strongest_spec_Some(3) [OF c [unfolded restriction_for_class_spec]] assms(4, 5, 6) by blast
  moreover have "c \<in> set (class_restrictions th a policy ALL_SIGNALS)"
    using class_restrictions_iff assms(2, 3) c by blast
  moreover from this obtain q where q: "signal_restriction th a policy ALL_SIGNALS None = Some q"
    using strongest_spec_None [of "\<lambda>_. True" "class_restrictions th a policy ALL_SIGNALS"]
    by (cases "signal_restriction th a policy ALL_SIGNALS None") (auto simp: routed_restriction)
  ultimately have h: "is_human_performs q"
    using strongest_spec_Some(3) [OF q [unfolded routed_restriction]] by blast
  have "q \<in> set (class_restrictions th a policy ALL_SIGNALS)"
    using strongest_spec_Some(1) [OF q [unfolded routed_restriction]] .
  then have "q \<in> set (policy_global policy @ policy_project policy)"
    unfolding class_restrictions_iff restriction_for_class_spec by (blast dest: strongest_spec_Some(1))
  then show ?thesis using q h by (simp add: route_complete [OF assms(1)] hold_def)
qed

lemma human_performs_routed_witness:
  "\<exists>q. route_assessment shipped_thresholds demo_review_request (demo_assessment 1)
        \<lparr>policy_revision = 1, policy_global = [HumanPerforms (ActionClass PersistentInstall) ''I install''],
         policy_project = []\<rparr> = Hold (RestrictionApplies q) [''user:e1'']
     \<and> is_human_performs q"
proof -
  let ?r = "HumanPerforms (ActionClass PersistentInstall) ''I install''"
  let ?p = "\<lparr>policy_revision = 1, policy_global = [?r], policy_project = []\<rparr>"
  have "fires shipped_thresholds (demo_assessment 1) Install" by (simp add: demo_fires)
  from human_performs_routed [OF demo_complete this, of PersistentInstall ?r ?p]
  show ?thesis by (auto simp: demo_assessment_def)
qed

section \<open>Validation\<close>

definition well_formed_signals :: "(string \<times> f64) list \<Rightarrow> bool" where
  "well_formed_signals sigs \<longleftrightarrow> distinct (map fst sigs) \<and> fst ` set sigs = range signal_id
     \<and> (\<forall>s. \<exists>r. map_of sigs (signal_id s) = Some (Finite r) \<and> 0 \<le> r \<and> r \<le> 1)"

lemma signal_ids_card: "card (range signal_id) = 11" "finite (range signal_id)"
proof -
  have "range signal_id = set (map signal_id ALL_SIGNALS)" using ALL_SIGNALS_all by auto
  moreover have "distinct (map signal_id ALL_SIGNALS)" by (simp add: ALL_SIGNALS_def)
  ultimately show "card (range signal_id) = 11" "finite (range signal_id)"
    by (simp_all only: distinct_card finite_set) (simp add: ALL_SIGNALS_def)
qed

lemma well_formed_signals_intro:
  assumes "length sigs = length ALL_SIGNALS"
    "\<And>s. \<exists>v. map_of sigs (signal_id s) = Some v \<and> unit_interval v"
  shows "well_formed_signals sigs"
proof -
  have sub: "range signal_id \<subseteq> fst ` set sigs"
    using assms(2) by (force dest: map_of_SomeD)
  have len: "length (map fst sigs) = 11" using assms(1) by (simp add: ALL_SIGNALS_def)
  then have "card (fst ` set sigs) \<le> 11" using card_length [of "map fst sigs"] by simp
  then have eq: "range signal_id = fst ` set sigs"
    using sub signal_ids_card by (metis List.finite_set card_seteq finite_imageI)
  then have "distinct (map fst sigs)"
    using len signal_ids_card(1) by (metis card_distinct list.set_map)
  then show ?thesis
    using eq assms(2) by (auto simp: well_formed_signals_def unit_interval_iff)
qed

lemma signals_complete_wf: "signals_complete a \<Longrightarrow> well_formed_signals (ra_signals a)"
proof (intro well_formed_signals_intro)
  fix s assume "signals_complete a"
  then have "case map_of (ra_signals a) (signal_id s) of None \<Rightarrow> False | Some v \<Rightarrow> unit_interval v"
    using ALL_SIGNALS_all [of s] by (fastforce simp: signals_complete_def list_ex_iff split: option.splits)
  then show "\<exists>v. map_of (ra_signals a) (signal_id s) = Some v \<and> unit_interval v"
    by (auto split: option.splits)
qed (simp add: signals_complete_def)

lemma validate_Inr:
  "validate_against decode bytes req = Inr a \<longleftrightarrow>
     length bytes \<le> REVIEW_ASSESSMENT_MAX_BYTES \<and> decode bytes = Some a
     \<and> ra_schema a = REVIEW_ASSESSMENT_SCHEMA \<and> ra_request_id a = rr_request_id req
     \<and> ra_reviewer_id a = rr_reviewer_id req
     \<and> (\<exists>m. ra_model a = Some m \<and> m \<noteq> '''') \<and> ra_adapter_error a = None
     \<and> (\<exists>answer. authorization_answer a = Inr answer) \<and> signals_complete a
     \<and> list_all (\<lambda>(_, v). unit_interval v) (ra_confidence a)
     \<and> set (ra_evidence_refs a) \<subseteq> set (known_evidence req)"
  unfolding validate_against_def result_simps
  by (auto simp: list_ex_iff list_all_iff ListMem_iff not_less split: option.splits)

text \<open>
  An accepted assessment fits 16 KiB, decodes to the returned value, answers this very
  request and reviewer with a named model and no adapter error, gives each of the eleven
  signals exactly once with a value from 0 to 1, and cites only evidence of the request.
\<close>

lemma assessment_validated:
  assumes "validate_against decode bytes req = Inr a"
  shows "length bytes \<le> 16384 \<and> decode bytes = Some a
     \<and> ra_request_id a = rr_request_id req \<and> ra_reviewer_id a = rr_reviewer_id req
     \<and> model_returned a \<noteq> '''' \<and> ra_adapter_error a = None
     \<and> well_formed_signals (ra_signals a)
     \<and> (\<forall>s. \<exists>r. signal a s = Finite r \<and> 0 \<le> r \<and> r \<le> 1)
     \<and> set (ra_evidence_refs a) \<subseteq> ev_id ` set (trusted_evidence req @ untrusted_evidence req)"
proof -
  note v = assms [unfolded validate_Inr]
  then have wf: "well_formed_signals (ra_signals a)" using signals_complete_wf by blast
  have sig: "\<exists>r. signal a s = Finite r \<and> 0 \<le> r \<and> r \<le> 1" for s
    using wf unfolding well_formed_signals_def signal_def by (metis option.simps(5))
  show ?thesis
    using v wf sig by (auto simp: REVIEW_ASSESSMENT_MAX_BYTES_def model_returned_def known_evidence_def)
qed

lemma assessment_validated_witness:
  "validate_against (\<lambda>_. Some (demo_assessment (1/20))) [] demo_review_request = Inr (demo_assessment (1/20))
   \<and> well_formed_signals (ra_signals (demo_assessment (1/20)))"
  using assessment_validated [OF demo_validated] demo_validated by simp

lemma fires_zero:
  assumes "signal a s = Finite r" "0 \<le> r"
  shows "fires fail_closed a s"
  using assms ALL_SIGNALS_all [of s]
  by (cases s) (simp_all add: fires_def fail_closed_def ALL_SIGNALS_def)

lemma threshold_table_bad:
  "\<exists>s \<in> set ss. \<not> (\<exists>v. map_of (rf_signals file) (signal_id s) = Some v \<and> unit_interval v)
    \<Longrightarrow> threshold_table file ss table = fail_closed"
  by (induction ss arbitrary: table) (auto simp: unit_interval_def split: option.splits)

text \<open>
  If the routing table does not decode, has another schema, or does not give each signal
  once with a threshold from 0 to 1, no accepted assessment is ever routed to execution.
\<close>

lemma malformed_routing_fails_closed:
  assumes "validate_against decode bytes req = Inr a"
    and "\<not> (\<exists>file. parsed = Some file \<and> rf_schema file = ROUTING_SCHEMA \<and> well_formed_signals (rf_signals file))"
  shows "route_assessment (thresholds_from_toml parsed) req a policy \<noteq> Execute"
proof -
  have closed: "thresholds_from_toml parsed = fail_closed"
  proof (cases parsed)
    case (Some f)
    show ?thesis
    proof (rule ccontr)
      assume "thresholds_from_toml parsed \<noteq> fail_closed"
      then have "rf_schema f = ROUTING_SCHEMA" "length (rf_signals f) = length ALL_SIGNALS"
        "threshold_table f ALL_SIGNALS [] \<noteq> fail_closed"
        using Some by (auto simp: thresholds_from_toml_def split: if_splits)
      then show False
        using assms(2) Some threshold_table_bad ALL_SIGNALS_all well_formed_signals_intro by metis
    qed
  qed (simp add: thresholds_from_toml_def)
  have "well_formed_signals (ra_signals a)"
    using assms(1) signals_complete_wf by (simp add: validate_Inr)
  then have "fires fail_closed a Install"
    using fires_zero unfolding well_formed_signals_def signal_def by (metis option.simps(5))
  then show ?thesis
    using execute_fires closed by fastforce
qed

lemma malformed_routing_fails_closed_witness:
  "route_assessment (thresholds_from_toml None) demo_review_request (demo_assessment (1/20)) empty_review_policy
     \<noteq> Execute"
  using malformed_routing_fails_closed [OF demo_validated, of None] by simp

section \<open>Evidence\<close>

text \<open>
  A request that is sent fits 64 KiB and has all of the trusted evidence and the action
  unchanged; either nothing was dropped, or all untrusted evidence was and each item has its
  omission marker. Otherwise the request itself does not fit.
\<close>

lemma request_bound:
  "case bind_review_request serialized_len r of
     Ready r' \<Rightarrow> fits_request serialized_len r'
       \<and> trusted_evidence r' = trusted_evidence r \<and> rr_action r' = rr_action r
       \<and> (r' = r \<or> untrusted_evidence r' = []
            \<and> omissions r' = omissions r @ map (\<lambda>i. DroppedUntrusted (ev_id i)) (untrusted_evidence r))
   | OverBudget om \<Rightarrow> \<not> fits_request serialized_len r
       \<and> om = omissions r @ map (\<lambda>i. DroppedUntrusted (ev_id i)) (untrusted_evidence r)"
  by (auto simp: bind_review_request_def Let_def)

text \<open>Every message is cited whole or marked as missing.\<close>

definition accounted ::
  "user_message list \<Rightarrow> evidence_item list \<Rightarrow> omission_marker list \<Rightarrow> bool" where
  "accounted ms items om \<longleftrightarrow> (\<forall>(entry, turn, msg) \<in> set ms.
     message_item entry msg \<in> set items \<or> Unavailable (message_id entry) \<in> set om)"

definition cited_bytes :: "evidence_item list \<Rightarrow> nat" where
  "cited_bytes items = (\<Sum>i \<leftarrow> items. length (ev_excerpt i))"

lemma issuing_messages_result:
  assumes "issuing_messages issuing ms included items om used = Some (items', om', used')"
    "cited_bytes items = used" "used \<le> USER_MESSAGE_BUDGET_BYTES" "\<not> included \<Longrightarrow> items = []"
  shows "accounted (filter (\<lambda>(_, turn, _). turn = issuing) ms) items' om'
     \<and> set items \<subseteq> set items' \<and> set om \<subseteq> set om'
     \<and> cited_bytes items' = used' \<and> used' \<le> USER_MESSAGE_BUDGET_BYTES"
  using assms
proof (induction issuing ms included items om used rule: issuing_messages.induct)
  case (2 issuing entry turn msg ms included items om used)
  then show ?case
    by (auto simp: accounted_def cited_bytes_def message_item_def split: if_splits)
qed (auto simp: accounted_def)

lemma older_messages_result:
  assumes "older_messages issuing ms items om used = (items', om')"
    "cited_bytes items = used" "used \<le> USER_MESSAGE_BUDGET_BYTES"
  shows "accounted (filter (\<lambda>(_, turn, _). turn \<noteq> issuing) ms) items' om'
     \<and> (\<exists>more. items' = items @ more) \<and> set om \<subseteq> set om'
     \<and> cited_bytes items' \<le> USER_MESSAGE_BUDGET_BYTES"
  using assms
proof (induction issuing ms items om used rule: older_messages.induct)
  case (2 issuing entry turn msg ms items om used)
  have "used + length msg \<le> USER_MESSAGE_BUDGET_BYTES"
    if "\<not> u64_saturating_add used (length msg) > USER_MESSAGE_BUDGET_BYTES"
    using that by (simp add: u64_saturating_add_def u64_max_def USER_MESSAGE_BUDGET_BYTES_def)
  then show ?case
    using 2 by (auto simp: accounted_def cited_bytes_def message_item_def split: if_splits)
qed (auto simp: accounted_def)

text \<open>Nothing but messages is cited.\<close>

definition from_messages :: "user_message list \<Rightarrow> evidence_item list \<Rightarrow> bool" where
  "from_messages ms items \<longleftrightarrow> (\<forall>i \<in> set items. \<exists>(entry, turn, msg) \<in> set ms. i = message_item entry msg)"

lemma issuing_messages_from:
  "issuing_messages issuing ms included items om used = Some (items', om', used')
    \<Longrightarrow> set ms \<subseteq> set all \<Longrightarrow> from_messages all items \<Longrightarrow> from_messages all items'"
  by (induction issuing ms included items om used rule: issuing_messages.induct)
    (force simp: from_messages_def split: if_splits)+

lemma older_messages_from:
  "older_messages issuing ms items om used = (items', om')
    \<Longrightarrow> set ms \<subseteq> set all \<Longrightarrow> from_messages all items \<Longrightarrow> from_messages all items'"
  by (induction issuing ms items om used rule: older_messages.induct)
    (force simp: from_messages_def split: if_splits)+

text \<open>The first loop finds the newest message of the issuing turn.\<close>

definition newest_of :: "string \<Rightarrow> user_message list \<Rightarrow> user_message option" where
  "newest_of issuing ms = first_match (\<lambda>(_, turn, _). turn = issuing) ms"

lemma issuing_included:
  "issuing_messages issuing ms True items om used = Some (items', om', used') \<Longrightarrow> items' = items"
  by (induction ms arbitrary: om) (auto split: if_splits)

lemma issuing_included_returns: "issuing_messages issuing ms True items om used \<noteq> None"
  by (induction ms arbitrary: om) auto

lemma issuing_messages_newest:
  "case newest_of issuing ms of
     None \<Rightarrow> issuing_messages issuing ms False [] om used = Some ([], om, used)
   | Some (entry, _, msg) \<Rightarrow>
       if USER_MESSAGE_BUDGET_BYTES < length msg then issuing_messages issuing ms False [] om used = None
       else \<exists>om' used'. issuing_messages issuing ms False [] om used = Some ([message_item entry msg], om', used')"
proof (induction ms)
  case (Cons m ms)
  obtain entry turn msg where m: "m = (entry, turn, msg)" by (cases m) auto
  show ?case
  proof (cases "turn = issuing")
    case True
    obtain items' om' used' where
      "issuing_messages issuing ms True [message_item entry msg] om (length msg) = Some (items', om', used')"
      using issuing_included_returns by (metis option.exhaust surj_pair)
    then show ?thesis using True m issuing_included [of issuing ms "[message_item entry msg]"]
      by (auto simp: newest_of_def)
  next
    case False
    then show ?thesis using Cons unfolding m by (auto simp: newest_of_def split: option.splits)
  qed
qed (simp add: newest_of_def)

text \<open>
  The evidence from the user's messages stays within 16 KiB, cites only whole messages,
  starts with the newest message of the issuing turn, and every message is cited or marked as
  missing; a review is refused here only when that newest message alone exceeds the budget.
\<close>

lemma user_evidence_accounted:
  "case user_message_evidence ms issuing of
     IssuingTurnOverBudget \<Rightarrow> \<exists>entry msg. newest_of issuing ms = Some (entry, issuing, msg) \<and> 16384 < length msg
   | EvidenceReady items om \<Rightarrow>
       cited_bytes items \<le> 16384 \<and> accounted ms items om \<and> from_messages ms items
       \<and> (case newest_of issuing ms of
            None \<Rightarrow> True
          | Some (entry, _, msg) \<Rightarrow> \<exists>older. items = message_item entry msg # older)"
proof (cases "issuing_messages issuing ms False [] [] 0")
  case None
  then show ?thesis
    using issuing_messages_newest [of issuing ms "[]" 0] first_match_Some [of "\<lambda>(_, turn, _). turn = issuing" ms]
    by (auto simp: user_message_evidence_def newest_of_def USER_MESSAGE_BUDGET_BYTES_def
        split: option.splits if_splits)
next
  case (Some result)
  obtain items om used where r: "issuing_messages issuing ms False [] [] 0 = Some (items, om, used)"
    using Some by (cases result) auto
  obtain items' om' where o: "older_messages issuing ms items om used = (items', om')" by fastforce
  have i: "accounted (filter (\<lambda>(_, turn, _). turn = issuing) ms) items om" "cited_bytes items = used"
    "used \<le> USER_MESSAGE_BUDGET_BYTES"
    using issuing_messages_result [OF r] by (simp_all add: cited_bytes_def)
  then obtain more where o': "accounted (filter (\<lambda>(_, turn, _). turn \<noteq> issuing) ms) items' om'"
    "items' = items @ more" "set om \<subseteq> set om'" "cited_bytes items' \<le> USER_MESSAGE_BUDGET_BYTES"
    using older_messages_result [OF o] by blast
  have "accounted ms items' om'"
    using i(1) o' by (fastforce simp: accounted_def)
  moreover have "from_messages ms items'"
    using issuing_messages_from [OF r subset_refl] older_messages_from [OF o subset_refl]
    by (simp add: from_messages_def)
  moreover have "case newest_of issuing ms of None \<Rightarrow> True
      | Some (entry, _, msg) \<Rightarrow> items = [message_item entry msg]"
    using issuing_messages_newest [of issuing ms "[]" 0] r by (auto split: option.splits if_splits)
  ultimately show ?thesis
    using o'(2, 4) r o
    by (auto simp: user_message_evidence_def USER_MESSAGE_BUDGET_BYTES_def split: option.splits)
qed

end
