(* ===== verification/Session.thy ===== *)
theory Session
  imports Review
begin

text \<open>
  The session log, \<^verbatim>\<open>session.rs\<close> and \<^verbatim>\<open>session_store.rs\<close>: the append-only events of a
  session with every variant the source has, what is read off a log, and the file of JSON
  lines it is kept in. The JSON encoding of one event is a parameter.
\<close>

section \<open>Payloads of events\<close>

datatype entry_role = UserRole | AssistantRole | ToolRole | SystemRole

datatype tool_outcome = Completed | Failed | DeniedOutcome | Cancelled | ValidationFailed

definition outcome_debug :: "tool_outcome \<Rightarrow> string" where
  "outcome_debug outcome = (case outcome of Completed \<Rightarrow> ''Completed'' | Failed \<Rightarrow> ''Failed''
     | DeniedOutcome \<Rightarrow> ''Denied'' | Cancelled \<Rightarrow> ''Cancelled'' | ValidationFailed \<Rightarrow> ''ValidationFailed'')"

datatype turn_outcome = TurnCompleted | TurnFailed | TurnCancelled

datatype compaction_reason = Threshold | ManualCompaction | Overflow

datatype mask_reason = ThresholdPrePass

record tool_payload_summary =
  tp_summary :: string
  tp_byte_count :: nat
  tp_redacted :: bool
  tp_truncated :: bool

record provider_usage =
  input_tokens :: "nat option"
  output_tokens :: "nat option"
  total_tokens :: "nat option"

record provider_metadata =
  pm_provider :: string
  pm_model :: string
  pm_response_id :: "string option"
  pm_usage :: "provider_usage option"

record session_model_target =
  smt_provider :: string
  smt_model :: string
  smt_connection_id :: string
  smt_connection_key_snapshot :: "string option"

datatype session_model_source =
  DefaultSource | ExplicitSource | CliOverride | Bootstrap | LegacyProjection | ForkInherited

record metric_attribute =
  ma_key :: string
  ma_value :: string

record duration_metric =
  dm_name :: string
  dm_duration_ms :: nat
  dm_attributes :: "metric_attribute list"

datatype thinking_level = ThinkingOff | ThinkingLow | ThinkingMedium | ThinkingHigh | ThinkingMax

datatype tool_error =
    UnknownTool | MalformedArguments | ArgumentsTooLarge | MissingRequiredField string
  | InvalidFieldType string | UnexpectedField string | ToolPermissionDenied

datatype tool_permission_state = ToolAllowed | ToolDenied | ToolNeedsApproval

text \<open>Reviews of tool calls.\<close>

datatype tool_review_decision = Approve | ApproveForSession | Reject

datatype review_origin = OriginRisk | OriginReviewerError | OriginHumanPerforms

record command_review_summary =
  cr_review_id :: string
  cr_permission_decision_id :: string
  cr_command :: string
  cr_workdir :: "string option"
  cr_timeout_ms :: nat
  cr_review_origin :: "review_origin option"

datatype local_edit_review_state = LocalAllowed | LocalNeedsUserApproval | LocalAutoReviewUnavailable
  | LocalHumanPerforms

record local_edit_preview_summary =
  le_preview_id :: string
  le_transaction_id :: string
  le_permission_decision_id :: string
  le_path :: string
  le_operation :: string
  le_review_state :: local_edit_review_state
  le_diff_summary :: string
  le_diff_summary_truncated :: bool
  le_review_origin :: "review_origin option"

datatype tool_review_payload = LocalEditPayload local_edit_preview_summary | CommandPayload command_review_summary

text \<open>Static context.\<close>

datatype static_context_source = AgentsMd | AppendSystemFile | ExtensionFile string string

datatype static_context_placement = ProjectInstructions | AppendSystem | BackgroundContext

record static_context_item_summary =
  sci_source :: static_context_source
  sci_relative_path :: string
  sci_placement :: static_context_placement
  sci_title :: string
  sci_byte_count :: nat

record static_context_summary =
  scs_items :: "static_context_item_summary list"
  scs_total_bytes :: nat

datatype static_context_omission_reason =
  OmitPathOutsideRoot | OmitFileMissing | OmitFileNotUtf8 | OmitFileTooLarge | OmitBundleTooLarge
  | OmitSourceDisabled | OmitIo

record static_context_omission =
  sco_relative_path :: string
  sco_source :: static_context_source
  sco_placement :: static_context_placement
  sco_reason :: static_context_omission_reason

text \<open>Edits.\<close>

datatype edit_trace_phase =
    ToolValidationPhase | ArgumentNormalization | PermissionDecisionPhase | PreviewPhase | ReviewWait
  | ApplyPhase | RejectPhase | ResultShaping | ProviderContinuation

datatype edit_trace_source = ProviderTool | LocalUi | ExtensionTool

datatype edit_trace_outcome =
  TraceCompleted | TraceFailed | TraceDenied | TraceRejected | TraceCancelled | TraceSkipped

record edit_trace_record =
  et_trace_id :: string
  et_phase :: edit_trace_phase
  et_source :: edit_trace_source
  et_tool_name :: "string option"
  et_tool_request_id :: "string option"
  et_provider_call_id :: "string option"
  et_preview_id :: "string option"
  et_permission_decision_id :: "string option"
  et_transaction_id :: "string option"
  et_outcome :: edit_trace_outcome
  et_duration_ms :: nat
  et_reason_label :: "string option"
  et_attributes :: "metric_attribute list"

datatype edit_operation_evidence =
    ModifyEvidence string string string nat nat nat "nat option"
  | CreateEvidence string string nat "nat option"

record edit_evidence_summary =
  ee_operation_count :: nat
  ee_operations :: "edit_operation_evidence list"
  ee_diff_summary :: tool_payload_summary

datatype edit_evidence_outcome = ApplyStarted | EditCompleted | EditValidationFailed | EditFailed

text \<open>Provider attempts.\<close>

datatype provider_attempt_purpose = TurnAttempt | CompactionSummaryAttempt | CompactionNativeAttempt

datatype provider_attempt_outcome = AttemptSucceeded | AttemptPartial | AttemptFailed | AttemptCancelled

datatype provider_error_kind =
    Authentication | RateLimited | InvalidRequest | ContextLength | UnavailableModel | ProviderTimeout
  | Network | ProviderInternal | SafetyRefusal | MalformedStream | Backpressure | ProviderCancelled | UnknownError

datatype classification_source = TypedDialect | StatusSource | Keyword | Variant

datatype timeout_phase = RequestStart | FirstEvent | IdleStream

record provider_attempt_summary =
  pa_purpose :: provider_attempt_purpose
  pa_attempt_sequence :: nat
  pa_retry_index :: nat
  pa_outcome :: provider_attempt_outcome
  pa_error_kind :: "provider_error_kind option"
  pa_classification_source :: "classification_source option"
  pa_error_variant :: "string option"
  pa_status_code :: "nat option"
  pa_provider_code :: "string option"
  pa_timeout_phase :: "timeout_phase option"
  pa_retry_after_ms :: "nat option"
  pa_next_delay_ms :: "nat option"
  pa_started_at_ms :: nat
  pa_duration_ms :: nat
  pa_first_event_ms :: "nat option"
  pa_provider_request_id :: "string option"
  pa_model :: string
  pa_capture :: "string option"

datatype review_policy_surface = Tui | Rpc | Headless | Cli

datatype grant_expiry = OneAction | UnixSecs nat

text \<open>\<open>serde_json::Value\<close>, numbers by their text.\<close>

datatype json = JNull | JBool bool | JNumber string | JString string | JArray "json list"
  | JObject "(string \<times> json) list"

section \<open>Events\<close>

datatype session_event =
    EntryAppended string string "string option" string entry_role string "provider_metadata option"
  | ToolRequestRecorded string string string string "string option" "(tool_error, unit) result"
      tool_permission_state tool_payload_summary "string option"
  | ToolExecutionFinished string string string tool_outcome "string option" "tool_payload_summary option"
      "string option" "nat option" "nat option"
  | TurnFinished string string turn_outcome "string option"
  | MetricRecorded string "string option" duration_metric
  | StaticContextIncluded string string static_context_summary "static_context_omission list"
  | PermissionDecisionRecorded string string permission_decision_summary
  | ApprovalModeChanged string approval_mode
  | ThinkingLevelChanged string thinking_level
  | SessionModelChanged string session_model_target session_model_source
  | ToolReviewRequested string string string string tool_review_payload
  | ToolReviewDecisionRecorded string string string tool_review_decision
  | ToolReviewInterrupted string string string string
  | EditTraceRecorded string string edit_trace_record
  | EditTransactionPrepared string string "string option" string edit_evidence_summary
  | EditTransactionFinished string string "string option" "string option" edit_evidence_outcome "string option"
      "edit_evidence_summary option"
  | CompactionCheckpoint string string string string string nat nat compaction_reason string json
  | ToolResultMasked string string string string nat mask_reason
  | ReviewPolicyChanged string nat review_policy_surface
  | ReviewRequestRecorded review_request_summary
  | ReviewAssessmentRecorded string review_assessment_summary
  | ExactActionGrantRecorded string string grant_expiry
  | ProviderAttemptFinished string string provider_attempt_summary
  | UnknownEvent

section \<open>Timings of tools\<close>

record tool_timing =
  started_at_ms :: "nat option"
  tool_duration_ms :: "nat option"

definition no_timing :: tool_timing where
  "no_timing = \<lparr>started_at_ms = None, tool_duration_ms = None\<rparr>"

definition timing_including :: "tool_timing \<Rightarrow> tool_timing \<Rightarrow> tool_timing" where
  "timing_including a later =
     \<lparr>started_at_ms = (case started_at_ms a of Some t \<Rightarrow> Some t | None \<Rightarrow> started_at_ms later),
      tool_duration_ms = (case (tool_duration_ms a, tool_duration_ms later) of
          (Some d, Some e) \<Rightarrow> Some (u64_saturating_add d e)
        | (Some d, None) \<Rightarrow> Some d
        | (None, e) \<Rightarrow> e)\<rparr>"

section \<open>Bounded trace records\<close>

definition bounded_trace_string :: "string \<Rightarrow> nat \<Rightarrow> string" where
  "bounded_trace_string value max_bytes =
     (if length value \<le> max_bytes then value else take (floor_boundary value max_bytes) value)"

definition trace_label_char :: "char \<Rightarrow> bool" where
  "trace_label_char c \<longleftrightarrow> 97 \<le> byte c \<and> byte c \<le> 122 \<or> is_digit c \<or> c = CHR ''_''"

definition bounded_trace_reason_label :: "string \<Rightarrow> string" where
  "bounded_trace_reason_label value =
     (let bounded = bounded_trace_string value 64
      in if list_all trace_label_char bounded then bounded else ''redacted_reason'')"

definition bounded_edit_trace_record :: "edit_trace_record \<Rightarrow> edit_trace_record" where
  "bounded_edit_trace_record r =
     r\<lparr>et_tool_name := map_option (\<lambda>v. bounded_trace_string v 64) (et_tool_name r),
       et_provider_call_id := map_option (\<lambda>v. bounded_trace_string v 256) (et_provider_call_id r),
       et_reason_label := map_option bounded_trace_reason_label (et_reason_label r),
       et_attributes := map (\<lambda>a. \<lparr>ma_key = bounded_trace_string (ma_key a) 48,
          ma_value = bounded_trace_string (ma_value a) 128\<rparr>) (take 8 (et_attributes r))\<rparr>"

section \<open>Reading a log\<close>

text \<open>\<open>Iterator::find_map\<close>.\<close>

fun find_map :: "('a \<Rightarrow> 'b option) \<Rightarrow> 'a list \<Rightarrow> 'b option" where
  "find_map f [] = None"
| "find_map f (x # xs) = (case f x of Some y \<Rightarrow> Some y | None \<Rightarrow> find_map f xs)"

definition event_turn_id :: "session_event \<Rightarrow> string option" where
  "event_turn_id e = (case e of
     EntryAppended _ _ _ turn _ _ _ \<Rightarrow> Some turn
   | ToolRequestRecorded _ turn _ _ _ _ _ _ _ \<Rightarrow> Some turn
   | ToolExecutionFinished _ turn _ _ _ _ _ _ _ \<Rightarrow> Some turn
   | TurnFinished _ turn _ _ \<Rightarrow> Some turn
   | PermissionDecisionRecorded _ turn _ \<Rightarrow> Some turn
   | ToolReviewRequested _ turn _ _ _ \<Rightarrow> Some turn
   | ToolReviewDecisionRecorded _ turn _ _ \<Rightarrow> Some turn
   | ToolReviewInterrupted _ turn _ _ \<Rightarrow> Some turn
   | EditTraceRecorded _ turn _ \<Rightarrow> Some turn
   | EditTransactionPrepared _ turn _ _ _ \<Rightarrow> Some turn
   | EditTransactionFinished _ turn _ _ _ _ _ \<Rightarrow> Some turn
   | CompactionCheckpoint _ turn _ _ _ _ _ _ _ _ \<Rightarrow> Some turn
   | ToolResultMasked _ turn _ _ _ _ \<Rightarrow> Some turn
   | ProviderAttemptFinished _ turn _ \<Rightarrow> Some turn
   | MetricRecorded _ turn _ \<Rightarrow> turn
   | _ \<Rightarrow> None)"

definition numeric_turn_index :: "string \<Rightarrow> nat option" where
  "numeric_turn_index turn = (if prefix ''turn-'' turn then parse_u64 (drop 5 turn) else None)"

definition next_turn_index :: "session_event list \<Rightarrow> nat" where
  "next_turn_index events =
     (case List.map_filter numeric_turn_index (List.map_filter event_turn_id events) of
        [] \<Rightarrow> 0
      | i # is \<Rightarrow> u64_saturating_add (fold max is i) 1)"

definition model_target :: "session_event list \<Rightarrow> (session_model_target \<times> session_model_source) option" where
  "model_target events = find_map
     (\<lambda>e. case e of SessionModelChanged _ model src \<Rightarrow> Some (model, src) | _ \<Rightarrow> None) (rev events)"

definition last_provider_metadata :: "session_event list \<Rightarrow> provider_metadata option" where
  "last_provider_metadata events = find_map
     (\<lambda>e. case e of EntryAppended _ _ _ _ AssistantRole _ provider \<Rightarrow> provider | _ \<Rightarrow> None) (rev events)"

definition last_entry_id :: "session_event list \<Rightarrow> string option" where
  "last_entry_id events = find_map
     (\<lambda>e. case e of EntryAppended _ entry _ _ _ _ _ \<Rightarrow> Some entry | _ \<Rightarrow> None) (rev events)"

definition user_messages_newest_first :: "session_event list \<Rightarrow> user_message list" where
  "user_messages_newest_first events = List.map_filter
     (\<lambda>e. case e of EntryAppended _ entry _ turn UserRole msg _ \<Rightarrow> Some (entry, turn, msg) | _ \<Rightarrow> None)
     (rev events)"

definition transcript_messages :: "session_event list \<Rightarrow> (entry_role \<times> string) list" where
  "transcript_messages events = List.map_filter
     (\<lambda>e. case e of EntryAppended _ _ _ _ role msg _ \<Rightarrow> Some (role, msg) | _ \<Rightarrow> None) events"

definition record_static_context_included ::
  "string \<Rightarrow> string \<Rightarrow> static_context_summary \<Rightarrow> static_context_omission list \<Rightarrow> session_event list
   \<Rightarrow> session_event list" where
  "record_static_context_included session turn s om events = events @ [StaticContextIncluded session turn s om]"

definition record_duration_metric ::
  "string \<Rightarrow> string option \<Rightarrow> string \<Rightarrow> nat \<Rightarrow> metric_attribute list \<Rightarrow> session_event list
   \<Rightarrow> session_event list" where
  "record_duration_metric session turn name millis attributes events =
     events @ [MetricRecorded session turn
       \<lparr>dm_name = name, dm_duration_ms = min millis u64_max, dm_attributes = attributes\<rparr>]"

definition record_permission_decision ::
  "string \<Rightarrow> string \<Rightarrow> permission_decision_summary \<Rightarrow> session_event list \<Rightarrow> session_event list" where
  "record_permission_decision session turn s events = events @ [PermissionDecisionRecorded session turn s]"

definition record_edit_trace ::
  "string \<Rightarrow> string \<Rightarrow> edit_trace_record \<Rightarrow> session_event list \<Rightarrow> session_event list" where
  "record_edit_trace session turn trace events =
     events @ [EditTraceRecorded session turn (bounded_edit_trace_record trace)]"

definition completed_text_exchange ::
  "string \<Rightarrow> string \<Rightarrow> string \<Rightarrow> string \<Rightarrow> string \<Rightarrow> string \<Rightarrow> session_event list" where
  "completed_text_exchange session user_entry assistant_entry turn prompt response =
     [EntryAppended session user_entry None turn UserRole prompt None,
      EntryAppended session assistant_entry (Some user_entry) turn AssistantRole response None,
      TurnFinished session turn TurnCompleted None]"

section \<open>The file of JSON lines\<close>

text \<open>
  \<open>serde_json\<close> on events: writing an event with its stamp, reading a line as an event or as a
  stamped event. Errors of reading carry their text.
\<close>

record session_codec =
  write_stamped :: "nat option \<Rightarrow> session_event \<Rightarrow> string option"
  read_event :: "string \<Rightarrow> (string, session_event) result"
  read_stamped :: "string \<Rightarrow> (string, nat option \<times> session_event) result"

abbreviation line_end :: char where "line_end \<equiv> CHR 0x0A"
abbreviation carriage_return :: char where "carriage_return \<equiv> CHR 0x0D"

fun encode_stamped_lines :: "session_codec \<Rightarrow> nat option \<Rightarrow> session_event list \<Rightarrow> string option" where
  "encode_stamped_lines codec at_ms [] = Some []"
| "encode_stamped_lines codec at_ms (e # es) =
     (if e = UnknownEvent then encode_stamped_lines codec at_ms es
      else (case write_stamped codec at_ms e of
          None \<Rightarrow> None
        | Some line \<Rightarrow> map_option (\<lambda>rest. line @ line_end # rest) (encode_stamped_lines codec at_ms es)))"

text \<open>The pieces \<open>BufRead::lines\<close> reads, each with its line end, and the line it makes of one.\<close>

fun raw_lines :: "string \<Rightarrow> string list" where
  "raw_lines [] = []"
| "raw_lines (c # cs) =
     (if c = line_end then [c] # raw_lines cs
      else (case raw_lines cs of [] \<Rightarrow> [[c]] | l # ls \<Rightarrow> (c # l) # ls))"

definition line_text :: "string \<Rightarrow> string" where
  "line_text l =
     (if l \<noteq> [] \<and> last l = line_end
      then (let k = butlast l in if k \<noteq> [] \<and> last k = carriage_return then butlast k else k)
      else l)"

datatype session_load_warning = InvalidJson nat string

fun load_lines ::
  "(string \<Rightarrow> (string, 'e) result) \<Rightarrow> ('e \<Rightarrow> bool) \<Rightarrow> nat \<Rightarrow> string list
   \<Rightarrow> ('e list \<times> session_load_warning list) option" where
  "load_lines decode unknown n [] = Some ([], [])"
| "load_lines decode unknown n (l # ls) =
     (if \<not> utf8_valid l then None
      else if trim (line_text l) = [] then load_lines decode unknown (Suc n) ls
      else (case decode (line_text l) of
          Inr e \<Rightarrow> if unknown e then load_lines decode unknown (Suc n) ls
            else map_option (\<lambda>(es, ws). (e # es, ws)) (load_lines decode unknown (Suc n) ls)
        | Inl reason \<Rightarrow> map_option (\<lambda>(es, ws). (es, InvalidJson (n + 1) reason # ws))
            (load_lines decode unknown (Suc n) ls)))"

text \<open>The store's path has no symbolic links.\<close>

definition session_bytes :: "fs \<Rightarrow> spath \<Rightarrow> string option" where
  "session_bytes s path = (case nodes s path of
     Some (File c _) \<Rightarrow> if deny_read s path then None else Some c
   | _ \<Rightarrow> None)"

definition load_from_file_with_warnings ::
  "session_codec \<Rightarrow> spath \<Rightarrow> fs \<Rightarrow> (session_event list \<times> session_load_warning list) option" where
  "load_from_file_with_warnings codec path s =
     (case session_bytes s path of
        None \<Rightarrow> None
      | Some bytes \<Rightarrow> load_lines (read_event codec) (\<lambda>e. e = UnknownEvent) 0 (raw_lines bytes))"

definition load_from_file :: "session_codec \<Rightarrow> spath \<Rightarrow> fs \<Rightarrow> session_event list option" where
  "load_from_file codec path s = map_option fst (load_from_file_with_warnings codec path s)"

definition load_stamped_from_file ::
  "session_codec \<Rightarrow> spath \<Rightarrow> fs
   \<Rightarrow> ((nat option \<times> session_event) list \<times> session_load_warning list) option" where
  "load_stamped_from_file codec path s =
     (case session_bytes s path of
        None \<Rightarrow> None
      | Some bytes \<Rightarrow> load_lines (read_stamped codec) (\<lambda>(_, e). e = UnknownEvent) 0 (raw_lines bytes))"

definition session_file_mode :: nat where
  "session_file_mode = 384"

definition write_to_file ::
  "session_codec \<Rightarrow> nat option \<Rightarrow> spath \<Rightarrow> session_event list \<Rightarrow> fs \<Rightarrow> bool \<times> fs" where
  "write_to_file codec at_ms path events =
     and_then (fs_create_dirs (prefixes (butlast path)))
     (and_then (fs_open_truncate path session_file_mode)
     (\<lambda>s. case encode_stamped_lines codec at_ms events of
        None \<Rightarrow> (False, s)
      | Some buffer \<Rightarrow> and_then (fs_write_all path buffer) fs_sync_all s))"

section \<open>The store\<close>

text \<open>\<open>OpenOptions::create(true).append(true).mode(m)\<close>\<close>

definition fs_open_append :: "spath \<Rightarrow> nat \<Rightarrow> fs \<Rightarrow> bool \<times> fs" where
  "fs_open_append p m s =
     (if fault s (tick s) then (False, ticked s)
      else (case nodes s p of
          Some (File _ _) \<Rightarrow> (True, ticked s)
        | Some _ \<Rightarrow> (False, ticked s)
        | None \<Rightarrow> if can_hold (nodes s) p then (True, put p (Some (File '''' m)) (ticked s))
            else (False, ticked s)))"

definition create_session_dir :: "spath \<Rightarrow> fs \<Rightarrow> bool \<times> fs" where
  "create_session_dir parent s =
     (if parent = [] \<or> nodes s parent \<noteq> None then (True, s) else fs_create_dirs (prefixes parent) s)"

definition open_append_file :: "spath \<Rightarrow> fs \<Rightarrow> bool \<times> fs" where
  "open_append_file path = fs_open_append path session_file_mode"

definition write_events ::
  "session_codec \<Rightarrow> nat option \<Rightarrow> spath \<Rightarrow> session_event list \<Rightarrow> fs \<Rightarrow> bool \<times> fs" where
  "write_events codec at_ms path events s =
     (case encode_stamped_lines codec at_ms events of
        None \<Rightarrow> (False, s)
      | Some buffer \<Rightarrow>
          and_then (create_session_dir (butlast path))
            (and_then (open_append_file path) (fs_write_all path buffer)) s)"

definition append_events_without_sync ::
  "session_codec \<Rightarrow> nat option \<Rightarrow> spath \<Rightarrow> session_event list \<Rightarrow> fs \<Rightarrow> bool \<times> fs" where
  "append_events_without_sync codec at_ms path events s =
     (if events = [] then (True, s) else write_events codec at_ms path events s)"

definition flush_durable :: "spath \<Rightarrow> fs \<Rightarrow> bool \<times> fs" where
  "flush_durable path =
     and_then (create_session_dir (butlast path)) (and_then (open_append_file path) fs_sync_all)"

definition append_events ::
  "session_codec \<Rightarrow> nat option \<Rightarrow> spath \<Rightarrow> session_event list \<Rightarrow> fs \<Rightarrow> bool \<times> fs" where
  "append_events codec at_ms path events = and_then (write_events codec at_ms path events) fs_sync_all"

definition append_event ::
  "session_codec \<Rightarrow> nat option \<Rightarrow> spath \<Rightarrow> session_event \<Rightarrow> fs \<Rightarrow> bool \<times> fs" where
  "append_event codec at_ms path e = and_then (write_events codec at_ms path [e]) fs_sync_all"

end
