(* ===== verification/Review_Coordinator.thy ===== *)
theory Review_Coordinator
  imports Review_Properties Session
begin

text \<open>
  The review coordinator, \<^verbatim>\<open>review/coordinator.rs\<close>: it snapshots the revisions it depends on,
  bounds and records the request, calls the reviewer, validates the answer, checks that the
  revisions are still the same, routes, gates and records.
\<close>

section \<open>Shared state and the reviewer\<close>

text \<open>
  Three mutexes that the runner changes while a review is in flight. \<open>None\<close> is a poisoned
  mutex. A review locks them at successive moments; the state at each moment is an argument.
\<close>

record shared_review_state =
  sh_policy :: "review_policy option"
  sh_authorization :: "nat option"
  sh_generation :: "nat option"

type_synonym moments = "nat \<Rightarrow> shared_review_state"

definition bump_authorization_revision :: "shared_review_state \<Rightarrow> shared_review_state" where
  "bump_authorization_revision sh =
     (case sh_authorization sh of
        None \<Rightarrow> sh
      | Some v \<Rightarrow> sh\<lparr>sh_authorization := Some (u64_saturating_add v 1)\<rparr>)"

record review_freshness =
  fr_policy_revision :: nat
  fr_authorization_revision :: nat
  fr_reviewer_generation :: nat

definition snapshot :: "moments \<Rightarrow> nat \<Rightarrow> review_freshness option" where
  "snapshot when t =
     (case sh_policy (when t) of
        None \<Rightarrow> None
      | Some p \<Rightarrow>
          (case sh_authorization (when (t + 1)) of
             None \<Rightarrow> None
           | Some auth \<Rightarrow>
               (case sh_generation (when (t + 2)) of
                  None \<Rightarrow> None
                | Some gen \<Rightarrow> Some \<lparr>fr_policy_revision = policy_revision p,
                    fr_authorization_revision = auth, fr_reviewer_generation = gen\<rparr>)))"

text \<open>
  What comes back from the reviewer's host: its answer as JSON bytes (\<open>None\<close> when the value
  does not serialize), a timeout, an oversized answer, another protocol error (a poisoned
  host lock included), or a task that did not join.
\<close>

datatype reviewer_reply = Replied "string option" | HostTimedOut | HostTooLarge | HostError | JoinFailed

record review_env =
  re_serialized_len :: "review_request \<Rightarrow> nat option"
  re_to_value :: "review_request \<Rightarrow> bool"
  re_reviewer :: "review_request \<Rightarrow> reviewer_reply"
  re_decode :: "string \<Rightarrow> review_assessment option"
  re_routing :: "routing_file option"
  re_append_ok :: "nat \<Rightarrow> bool"
  re_cfg_test :: bool

record review_coordinator =
  co_reviewer_id :: string
  co_session_id :: string
  co_turn_id :: string
  co_sandbox_state :: sandbox_state
  co_fixture_reviewer :: bool

definition AUTO_REVIEW_EXECUTION_ENABLED :: bool where
  "AUTO_REVIEW_EXECUTION_ENABLED = False"

fun gate_route :: "bool \<Rightarrow> review_route \<Rightarrow> review_route" where
  "gate_route execution_enabled route =
     (if execution_enabled then route
      else case route of Execute \<Rightarrow> ReviewFailed Disabled | held \<Rightarrow> held)"

definition gate_execution :: "review_env \<Rightarrow> review_coordinator \<Rightarrow> review_route \<Rightarrow> review_route" where
  "gate_execution env co route =
     gate_route (AUTO_REVIEW_EXECUTION_ENABLED \<or> re_cfg_test env \<or> co_fixture_reviewer co) route"

fun route_reason :: "review_route \<Rightarrow> string" where
  "route_reason Execute = ''execute''"
| "route_reason (Hold EvidenceOverBudget _) = ''evidence_over_budget''"
| "route_reason (Hold SignificantRisk _) = ''reviewer_hold_risk''"
| "route_reason (Hold NeedsClarification _) = ''reviewer_hold_evidence''"
| "route_reason (Hold (RestrictionApplies (HumanPerforms _ _)) _) = ''restriction_human_performs''"
| "route_reason (Hold (RestrictionApplies (AskFirst _ _)) _) = ''restriction_ask_first''"
| "route_reason (ReviewFailed reason) =
     (if reason = ReviewerUnavailable \<or> reason = TimedOut then ''reviewer_unavailable'' else ''reviewer_error'')"

section \<open>A review\<close>

text \<open>What a review does, in order: events it makes durable and calls of the reviewer.\<close>

datatype review_effect = Appended session_event | ReviewerCalled review_request

definition build_request ::
  "review_coordinator \<Rightarrow> review_freshness \<Rightarrow> permission_request \<Rightarrow> review_action
   \<Rightarrow> evidence_item list \<Rightarrow> evidence_item list \<Rightarrow> omission_marker list \<Rightarrow> review_request" where
  "build_request co fr req act trusted untrusted om =
     \<lparr>rr_schema = REVIEW_REQUEST_SCHEMA, rr_request_id = request_id req,
      rr_session_id = co_session_id co, rr_turn_id = co_turn_id co,
      rr_policy_revision = fr_policy_revision fr,
      rr_authorization_revision = fr_authorization_revision fr,
      rr_reviewer_id = co_reviewer_id co, rr_reviewer_generation = fr_reviewer_generation fr,
      rr_action = act, trusted_evidence = trusted, untrusted_evidence = untrusted, omissions = om,
      rr_sandbox_state = co_sandbox_state co\<rparr>"

definition request_summary ::
  "review_request \<Rightarrow> review_action \<Rightarrow> review_freshness \<Rightarrow> review_request_summary" where
  "request_summary rr act fr =
     \<lparr>rqs_request_id = bound_review_text (rr_request_id rr),
      rqs_action_kind = bound_review_text (action_kind act),
      rqs_target = bound_review_text (action_target act),
      rqs_policy_revision = fr_policy_revision fr,
      rqs_authorization_revision = fr_authorization_revision fr\<rparr>"

fun reply_failure :: "reviewer_reply \<Rightarrow> (review_failure, string) result" where
  "reply_failure (Replied (Some bytes)) = Inr bytes"
| "reply_failure (Replied None) = Inl MalformedAssessment"
| "reply_failure HostTimedOut = Inl TimedOut"
| "reply_failure HostTooLarge = Inl OversizedAssessment"
| "reply_failure HostError = Inl ReviewerUnavailable"
| "reply_failure JoinFailed = Inl ReviewerUnavailable"

fun validation_failure :: "assessment_validation_error \<Rightarrow> review_failure" where
  "validation_failure Oversized = OversizedAssessment"
| "validation_failure AdapterFailed = ReviewerUnavailable"
| "validation_failure Malformed = MalformedAssessment"
| "validation_failure RequestMismatch = MalformedAssessment"
| "validation_failure UnknownEvidenceRef = MalformedAssessment"

text \<open>
  After the answer: freshness is checked against a second snapshot (moments 3 to 5) and
  against the policy that routes (moment 6), the gated route is recorded.
\<close>

definition route_answer ::
  "review_env \<Rightarrow> review_coordinator \<Rightarrow> moments \<Rightarrow> review_freshness \<Rightarrow> review_request \<Rightarrow> string
   \<Rightarrow> review_route \<times> review_effect list" where
  "route_answer env co when fr rr bytes =
     (case validate_against (re_decode env) bytes rr of
        Inl e \<Rightarrow> (ReviewFailed (validation_failure e), [])
      | Inr a \<Rightarrow>
          (case snapshot when 3 of
             None \<Rightarrow> (ReviewFailed ReviewerUnavailable, [])
           | Some current \<Rightarrow>
               if current \<noteq> fr then (ReviewFailed Stale, [])
               else (case sh_policy (when 6) of
                   None \<Rightarrow> (ReviewFailed ReviewerUnavailable, [])
                 | Some policy \<Rightarrow>
                     if policy_revision policy \<noteq> fr_policy_revision fr then (ReviewFailed Stale, [])
                     else
                       let route = gate_execution env co
                             (route_assessment (thresholds_from_toml (re_routing env)) rr a policy);
                           event = ReviewAssessmentRecorded (bound_review_text (rr_request_id rr))
                             \<lparr>ras_reviewer_id = bound_review_text (ra_reviewer_id a),
                              ras_reason = bound_review_text (route_reason route),
                              ras_model = bound_review_text (model_returned a)\<rparr>
                       in if re_append_ok env 1 then (route, [Appended event])
                          else (ReviewFailed EvidenceWriteFailed, []))))"

definition review_within_deadline ::
  "review_env \<Rightarrow> review_coordinator \<Rightarrow> moments \<Rightarrow> permission_request \<Rightarrow> review_action
   \<Rightarrow> evidence_item list \<Rightarrow> evidence_item list \<Rightarrow> omission_marker list
   \<Rightarrow> review_route \<times> review_effect list" where
  "review_within_deadline env co when req act trusted untrusted om =
     (case snapshot when 0 of
        None \<Rightarrow> (ReviewFailed ReviewerUnavailable, [])
      | Some fr \<Rightarrow>
          (case bind_review_request (re_serialized_len env)
                  (build_request co fr req act trusted untrusted om) of
             OverBudget _ \<Rightarrow> (Hold EvidenceOverBudget [], [])
           | Ready rr \<Rightarrow>
               if \<not> re_append_ok env 0 then (ReviewFailed EvidenceWriteFailed, [])
               else
                 let recorded = Appended (ReviewRequestRecorded (request_summary rr act fr))
                 in if \<not> re_to_value env rr then (ReviewFailed ReviewerUnavailable, [recorded])
                    else (case reply_failure (re_reviewer env rr) of
                        Inl e \<Rightarrow> (ReviewFailed e, [recorded, ReviewerCalled rr])
                      | Inr bytes \<Rightarrow>
                          (case route_answer env co when fr rr bytes of
                             (route, effects) \<Rightarrow> (route, recorded # ReviewerCalled rr # effects)))))"

section \<open>Properties\<close>

lemma snapshot_Some:
  "snapshot when t = Some fr \<longleftrightarrow> (\<exists>p. sh_policy (when t) = Some p \<and> fr_policy_revision fr = policy_revision p)
     \<and> sh_authorization (when (t + 1)) = Some (fr_authorization_revision fr)
     \<and> sh_generation (when (t + 2)) = Some (fr_reviewer_generation fr)"
  by (cases fr) (auto simp: snapshot_def split: option.splits)

lemma gate_Execute:
  "gate_execution env co route = Execute \<longleftrightarrow> route = Execute \<and> (re_cfg_test env \<or> co_fixture_reviewer co)"
  by (cases route) (auto simp: gate_execution_def AUTO_REVIEW_EXECUTION_ENABLED_def)

lemma bind_Ready:
  assumes "bind_review_request len r = Ready r'"
  shows "trusted_evidence r' = trusted_evidence r" "rr_request_id r' = rr_request_id r"
    "rr_action r' = rr_action r" "rr_policy_revision r' = rr_policy_revision r"
    "rr_authorization_revision r' = rr_authorization_revision r"
    "rr_reviewer_generation r' = rr_reviewer_generation r"
  using assms by (auto simp: bind_review_request_def Let_def split: if_splits)

lemma bind_fits: "bind_review_request len r = Ready r' \<Longrightarrow> fits_request len r'"
  by (auto simp: bind_review_request_def Let_def split: if_splits)

text \<open>The branches of a review that reach the reviewer.\<close>

lemma review_within_deadline_cases:
  assumes "review_within_deadline env co when req act trusted untrusted om = (route, effects)"
  obtains (early) "route \<noteq> Execute" "effects = [] \<or> (\<exists>e. effects = [Appended e])"
  | (called) fr rr where "snapshot when 0 = Some fr"
      "bind_review_request (re_serialized_len env) (build_request co fr req act trusted untrusted om) = Ready rr"
      "route \<noteq> Execute" "effects = [Appended (ReviewRequestRecorded (request_summary rr act fr)), ReviewerCalled rr]"
  | (answered) fr rr bytes effects' where "snapshot when 0 = Some fr"
      "bind_review_request (re_serialized_len env) (build_request co fr req act trusted untrusted om) = Ready rr"
      "reply_failure (re_reviewer env rr) = Inr bytes"
      "route_answer env co when fr rr bytes = (route, effects')"
      "effects = Appended (ReviewRequestRecorded (request_summary rr act fr)) # ReviewerCalled rr # effects'"
  using assms
  by (auto simp: review_within_deadline_def Let_def
      split: option.splits bound_review_request.splits if_splits sum.splits prod.splits)

lemma route_answer_effects:
  "route_answer env co when fr rr bytes = (route, effects)
    \<Longrightarrow> effects = [] \<and> route \<noteq> Execute \<or> (\<exists>i s. effects = [Appended (ReviewAssessmentRecorded i s)])"
  by (auto simp: route_answer_def Let_def split: sum.splits option.splits if_splits)

lemma route_answer_Execute:
  assumes "route_answer env co when fr rr bytes = (Execute, effects)"
  obtains a policy where "validate_against (re_decode env) bytes rr = Inr a" "snapshot when 3 = Some fr"
    "sh_policy (when 6) = Some policy" "policy_revision policy = fr_policy_revision fr"
    "route_assessment (thresholds_from_toml (re_routing env)) rr a policy = Execute"
    "re_cfg_test env \<or> co_fixture_reviewer co"
    "effects = [Appended (ReviewAssessmentRecorded (bound_review_text (rr_request_id rr))
       \<lparr>ras_reviewer_id = bound_review_text (ra_reviewer_id a), ras_reason = bound_review_text ''execute'',
        ras_model = bound_review_text (model_returned a)\<rparr>)]"
proof -
  note run = assms [unfolded route_answer_def Let_def]
  obtain a where a: "validate_against (re_decode env) bytes rr = Inr a"
    using run by (cases "validate_against (re_decode env) bytes rr") simp_all
  obtain current where c: "snapshot when 3 = Some current"
    using run a by (cases "snapshot when 3") simp_all
  then have fr: "current = fr" using run a by (simp split: if_splits)
  obtain policy where p: "sh_policy (when 6) = Some policy"
    using run a c fr by (cases "sh_policy (when 6)") simp_all
  let ?route = "route_assessment (thresholds_from_toml (re_routing env)) rr a policy"
  have rest: "policy_revision policy = fr_policy_revision fr" "re_append_ok env 1"
    "gate_execution env co ?route = Execute"
    "effects = [Appended (ReviewAssessmentRecorded (bound_review_text (rr_request_id rr))
       \<lparr>ras_reviewer_id = bound_review_text (ra_reviewer_id a),
        ras_reason = bound_review_text ''execute'', ras_model = bound_review_text (model_returned a)\<rparr>)]"
    using run a c fr p by (auto split: if_splits)
  then show ?thesis using that [OF a] c fr p by (simp add: gate_Execute)
qed

text \<open>A review by a fixture reviewer that finds nothing.\<close>

definition demo_review_env :: review_env where
  "demo_review_env = \<lparr>re_serialized_len = (\<lambda>_. Some 1000), re_to_value = (\<lambda>_. True),
     re_reviewer = (\<lambda>_. Replied (Some [])), re_decode = (\<lambda>_. Some (demo_assessment (1/20))),
     re_routing = Some ROUTING_TOML, re_append_ok = (\<lambda>_. True), re_cfg_test = False\<rparr>"

definition demo_coordinator :: review_coordinator where
  "demo_coordinator = \<lparr>co_reviewer_id = ''reviewer'', co_session_id = ''session-1'',
     co_turn_id = ''turn-1'', co_sandbox_state = NoSandbox, co_fixture_reviewer = True\<rparr>"

definition demo_shared :: "nat \<Rightarrow> shared_review_state" where
  "demo_shared auth = \<lparr>sh_policy = Some (empty_review_policy\<lparr>policy_revision := 1\<rparr>),
     sh_authorization = Some auth, sh_generation = Some 1\<rparr>"

definition demo_reviewed :: permission_request where
  "demo_reviewed = \<lparr>request_id = ''req-1'', actor = Provider, capability = ShellCommand,
     target = \<lparr>operation = ''bash'', resource = ''.''\<rparr>, risk = ProcessExecution,
     requested_reviewer = None, command = Some ''cargo test''\<rparr>"

abbreviation demo_review :: "moments \<Rightarrow> review_route \<times> review_effect list" where
  "demo_review when \<equiv> review_within_deadline demo_review_env demo_coordinator when demo_reviewed
     (ReviewShellCommand ''cargo test'' ''/work'' 5000 []) [message_item ''e1'' ''run the tests''] [] []"

lemma demo_request:
  "build_request demo_coordinator \<lparr>fr_policy_revision = 1, fr_authorization_revision = 1, fr_reviewer_generation = 1\<rparr> demo_reviewed
      (ReviewShellCommand ''cargo test'' ''/work'' 5000 []) [message_item ''e1'' ''run the tests''] [] [] = demo_review_request"
  "bind_review_request (re_serialized_len demo_review_env) demo_review_request = Ready demo_review_request"
  by (simp_all add: build_request_def demo_coordinator_def demo_reviewed_def demo_review_request_def
      bind_review_request_def fits_request_def REVIEW_REQUEST_MAX_BYTES_def demo_review_env_def)

lemma demo_review_executes:
  "\<exists>effects. demo_review (\<lambda>_. demo_shared 1) = (Execute, effects) \<and> length effects = 3"
proof -
  let ?fr = "\<lparr>fr_policy_revision = 1, fr_authorization_revision = 1, fr_reviewer_generation = 1\<rparr>"
  have snap: "snapshot (\<lambda>_. demo_shared 1) t = Some ?fr" for t
    by (simp add: snapshot_def demo_shared_def)
  note req = demo_request(1) and bound = demo_request(2)
  let ?p = "empty_review_policy\<lparr>policy_revision := 1\<rparr>"
  have "route_assessment (thresholds_from_toml (Some ROUTING_TOML)) demo_review_request
      (demo_assessment (1/20)) ?p = Execute"
    unfolding shipped_thresholds_def [symmetric] execute_iff by (simp add: demo_complete demo_fires)
  then have "\<exists>e. route_answer demo_review_env demo_coordinator (\<lambda>_. demo_shared 1) ?fr demo_review_request [] = (Execute, [e])"
    unfolding route_answer_def snap using demo_validated
    by (simp add: demo_review_env_def demo_shared_def gate_execution_def demo_coordinator_def)
  then show ?thesis
    unfolding review_within_deadline_def snap using req bound by (auto simp: demo_review_env_def)
qed

text \<open>
  C8. A review routes to execution only if the revisions of the policy, of the user's
  authorization and of the reviewer are the same before the request and after the answer, the
  policy that routes has that revision, the answer is valid for the request with the whole
  trusted evidence, routing of it says so, and execution is enabled, which a release build
  does for fixture reviewers alone. The request was recorded before the reviewer was called
  and the decision after it.
\<close>

theorem review_executes_only_fresh:
  assumes "review_within_deadline env co when req act trusted untrusted om = (Execute, effects)"
  shows "\<exists>fr rr a policy bytes.
     snapshot when 0 = Some fr \<and> snapshot when 3 = Some fr
     \<and> sh_policy (when 6) = Some policy \<and> policy_revision policy = fr_policy_revision fr
     \<and> rr_action rr = act \<and> trusted_evidence rr = trusted
     \<and> re_reviewer env rr = Replied (Some bytes) \<and> validate_against (re_decode env) bytes rr = Inr a
     \<and> route_assessment (thresholds_from_toml (re_routing env)) rr a policy = Execute
     \<and> (re_cfg_test env \<or> co_fixture_reviewer co)
     \<and> effects = [Appended (ReviewRequestRecorded (request_summary rr act fr)), ReviewerCalled rr,
         Appended (ReviewAssessmentRecorded (bound_review_text (request_id req))
           \<lparr>ras_reviewer_id = bound_review_text (ra_reviewer_id a), ras_reason = bound_review_text ''execute'',
            ras_model = bound_review_text (model_returned a)\<rparr>)]"
  using assms
proof (cases rule: review_within_deadline_cases)
  case (answered fr rr bytes effects')
  obtain a policy where "validate_against (re_decode env) bytes rr = Inr a" "snapshot when 3 = Some fr"
    "sh_policy (when 6) = Some policy" "policy_revision policy = fr_policy_revision fr"
    "route_assessment (thresholds_from_toml (re_routing env)) rr a policy = Execute"
    "re_cfg_test env \<or> co_fixture_reviewer co"
    "effects' = [Appended (ReviewAssessmentRecorded (bound_review_text (rr_request_id rr))
       \<lparr>ras_reviewer_id = bound_review_text (ra_reviewer_id a), ras_reason = bound_review_text ''execute'',
        ras_model = bound_review_text (model_returned a)\<rparr>)]"
    using answered(4) by (rule route_answer_Execute)
  moreover have "re_reviewer env rr = Replied (Some bytes)"
    using answered(3) by (cases "re_reviewer env rr" rule: reply_failure.cases) simp_all
  ultimately show ?thesis
    using answered(1, 5) bind_Ready [OF answered(2)] by (auto simp: build_request_def)
qed auto

theorem review_executes_only_fresh_witness:
  "\<exists>effects fr. demo_review (\<lambda>_. demo_shared 1) = (Execute, effects) \<and> snapshot (\<lambda>_. demo_shared 1) 3 = Some fr
     \<and> fr_policy_revision fr = 1"
proof -
  obtain effects where e: "demo_review (\<lambda>_. demo_shared 1) = (Execute, effects)"
    using demo_review_executes by blast
  from review_executes_only_fresh [OF e] show ?thesis
    using e by (auto simp: snapshot_Some demo_shared_def)
qed

text \<open>
  C19. Whatever a review comes to, the reviewer is called at most once, only after exactly the
  record of this request has been made durable, and with a request that fits the bound and
  holds all of the trusted evidence.
\<close>

theorem evidence_before_reviewer:
  assumes "review_within_deadline env co when req act trusted untrusted om = (route, effects)"
    "effects = before @ ReviewerCalled rr # after"
  shows "(\<exists>fr. snapshot when 0 = Some fr \<and> before = [Appended (ReviewRequestRecorded (request_summary rr act fr))])
     \<and> (\<forall>rr'. ReviewerCalled rr' \<notin> set after)
     \<and> trusted_evidence rr = trusted \<and> fits_request (re_serialized_len env) rr"
  using assms(1)
proof (cases rule: review_within_deadline_cases)
  case early
  then show ?thesis using assms(2) by (auto simp: append_eq_Cons_conv Cons_eq_append_conv)
next
  case (called fr rr')
  then show ?thesis
    using assms(2) bind_Ready(1) [OF called(2)] bind_fits [OF called(2)]
    by (auto simp: append_eq_Cons_conv Cons_eq_append_conv build_request_def)
next
  case (answered fr rr' bytes effects')
  have "\<forall>x. ReviewerCalled x \<notin> set effects'"
    using route_answer_effects [OF answered(4)] by auto
  then show ?thesis
    using assms(2) answered bind_Ready(1) [OF answered(2)] bind_fits [OF answered(2)]
    by (fastforce simp: append_eq_Cons_conv Cons_eq_append_conv build_request_def)
qed

theorem evidence_before_reviewer_witness:
  "\<exists>e1 rr e2. demo_review (\<lambda>_. demo_shared 1) = (Execute, [e1, ReviewerCalled rr, e2])
     \<and> trusted_evidence rr = [message_item ''e1'' ''run the tests'']"
proof -
  obtain effects where e: "demo_review (\<lambda>_. demo_shared 1) = (Execute, effects)" "length effects = 3"
    using demo_review_executes by blast
  from e(1) obtain rr e1 e2 where "effects = [e1, ReviewerCalled rr, e2]"
    using e(2) by (cases rule: review_within_deadline_cases) (auto simp: length_Suc_conv numeral_eq_Suc)
  with e(1) evidence_before_reviewer [OF e(1), of "[e1]" rr "[e2]"] show ?thesis by auto
qed

text \<open>Only the two freshness checks after the answer make a review stale.\<close>

lemma not_stale:
  "reply_failure reply \<noteq> Inl Stale" "validation_failure e \<noteq> Stale" "gate_execution env co (route_assessment th rr a policy) \<noteq> ReviewFailed Stale"
proof -
  show "reply_failure reply \<noteq> Inl Stale" by (cases reply rule: reply_failure.cases) simp_all
  show "validation_failure e \<noteq> Stale" by (cases e) simp_all
  show "gate_execution env co (route_assessment th rr a policy) \<noteq> ReviewFailed Stale"
    by (auto simp: gate_execution_def route_assessment_def hold_def split: option.splits)
qed

lemma reply_failure_Inr: "reply_failure reply = Inr bytes \<longleftrightarrow> reply = Replied (Some bytes)"
  by (cases reply rule: reply_failure.cases) simp_all

lemma route_answer_stale:
  "route_answer env co when fr rr bytes = (ReviewFailed Stale, effects) \<longleftrightarrow>
     effects = [] \<and> (\<exists>a. validate_against (re_decode env) bytes rr = Inr a)
     \<and> (\<exists>current. snapshot when 3 = Some current
          \<and> (current \<noteq> fr \<or> (\<exists>p. sh_policy (when 6) = Some p \<and> policy_revision p \<noteq> fr_policy_revision fr)))"
  using not_stale by (auto simp: route_answer_def Let_def split: sum.splits option.splits if_splits)

lemma snapshots_differ:
  assumes "snapshot when 0 = Some fr" "snapshot when 3 = Some current"
  shows "current \<noteq> fr \<longleftrightarrow> map_option policy_revision (sh_policy (when 3)) \<noteq> map_option policy_revision (sh_policy (when 0))
     \<or> sh_authorization (when 4) \<noteq> sh_authorization (when 1) \<or> sh_generation (when 5) \<noteq> sh_generation (when 2)"
  using assms by (cases fr; cases current) (auto simp: snapshot_Some numeral_eq_Suc)

text \<open>
  C20. A review goes stale exactly when a valid answer arrived, the shared state could be read, and
  since the request was made the revision of the policy, the user's authorization or the generation
  of the reviewer has changed, or the policy that is to route has another revision; then the request
  was recorded and the reviewer called, and nothing is recorded of its answer.
\<close>

theorem review_stale_iff:
  "review_within_deadline env co when req act trusted untrusted om = (ReviewFailed Stale, effects) \<longleftrightarrow>
     (\<exists>fr current rr bytes a.
        snapshot when 0 = Some fr \<and> snapshot when 3 = Some current
        \<and> bind_review_request (re_serialized_len env) (build_request co fr req act trusted untrusted om) = Ready rr
        \<and> re_append_ok env 0 \<and> re_to_value env rr
        \<and> re_reviewer env rr = Replied (Some bytes) \<and> validate_against (re_decode env) bytes rr = Inr a
        \<and> (map_option policy_revision (sh_policy (when 3)) \<noteq> map_option policy_revision (sh_policy (when 0))
           \<or> sh_authorization (when 4) \<noteq> sh_authorization (when 1)
           \<or> sh_generation (when 5) \<noteq> sh_generation (when 2)
           \<or> (\<exists>p. sh_policy (when 6) = Some p \<and> policy_revision p \<noteq> fr_policy_revision fr))
        \<and> effects = [Appended (ReviewRequestRecorded (request_summary rr act fr)), ReviewerCalled rr])"
  (is "?stale \<longleftrightarrow> ?changed")
proof -
  have "?stale \<longleftrightarrow> (\<exists>fr rr bytes. snapshot when 0 = Some fr
      \<and> bind_review_request (re_serialized_len env) (build_request co fr req act trusted untrusted om) = Ready rr
      \<and> re_append_ok env 0 \<and> re_to_value env rr \<and> re_reviewer env rr = Replied (Some bytes)
      \<and> route_answer env co when fr rr bytes = (ReviewFailed Stale, [])
      \<and> effects = [Appended (ReviewRequestRecorded (request_summary rr act fr)), ReviewerCalled rr])"
    unfolding review_within_deadline_def Let_def
    using not_stale(1) route_answer_stale [THEN iffD1, THEN conjunct1]
    by (auto simp: reply_failure_Inr split: option.splits bound_review_request.splits if_splits sum.splits prod.splits)
  also have "\<dots> \<longleftrightarrow> ?changed"
    unfolding route_answer_stale using snapshots_differ by (intro ex_cong1) blast
  finally show ?thesis .
qed

theorem review_stale_iff_witness:
  "\<exists>e. demo_review (\<lambda>t. if t < 3 then demo_shared 1 else bump_authorization_revision (demo_shared 1))
     = (ReviewFailed Stale, [e, ReviewerCalled demo_review_request])"
proof -
  let ?when = "\<lambda>t::nat. if t < 3 then demo_shared 1 else bump_authorization_revision (demo_shared 1)"
  let ?fr = "\<lambda>a. \<lparr>fr_policy_revision = 1, fr_authorization_revision = a, fr_reviewer_generation = 1\<rparr>"
  have "snapshot ?when 0 = Some (?fr 1)" "snapshot ?when 3 = Some (?fr 2)" "sh_authorization (?when 4) \<noteq> sh_authorization (?when 1)"
    by (simp_all add: snapshot_def demo_shared_def bump_authorization_revision_def u64_saturating_add_def u64_max_def)
  moreover have "re_append_ok demo_review_env 0" "re_to_value demo_review_env demo_review_request"
      "re_reviewer demo_review_env demo_review_request = Replied (Some [])"
      "validate_against (re_decode demo_review_env) [] demo_review_request = Inr (demo_assessment (1/20))"
    using demo_validated by (simp_all add: demo_review_env_def)
  moreover have "bind_review_request (re_serialized_len demo_review_env) (build_request demo_coordinator (?fr 1) demo_reviewed
      (ReviewShellCommand ''cargo test'' ''/work'' 5000 []) [message_item ''e1'' ''run the tests''] [] []) = Ready demo_review_request"
    unfolding demo_request(1) by (rule demo_request(2))
  ultimately show ?thesis unfolding review_stale_iff by blast
qed

text \<open>An authorization that advances while the reviewer answers is such a change.\<close>

lemma bump_makes_stale:
  assumes "sh_authorization (when 1) = Some v" "v < u64_max" "sh_authorization (when 4) = sh_authorization (bump_authorization_revision (when 1))"
  shows "sh_authorization (when 4) \<noteq> sh_authorization (when 1)"
  using assms by (simp add: bump_authorization_revision_def u64_saturating_add_def)

end
