(* ===== verification/Round_Error.thy ===== *)
theory Round_Error
  imports Session
begin

text \<open>
  The errors of a provider (\<^verbatim>\<open>provider.rs\<close>) and of a provider round (\<^verbatim>\<open>runner.rs\<close>), which
  both the tool handlers and the provider loop return.
\<close>

section \<open>Provider errors\<close>

record provider_error_metadata =
  pem_status_code :: "nat option"
  pem_provider_code :: "string option"
  pem_retry_after_ms :: "nat option"
  pem_timeout_phase :: "timeout_phase option"
  pem_classification_source :: classification_source
  pem_error_variant :: "string option"

record provider_error =
  pe_kind :: provider_error_kind
  pe_message :: string
  pe_redacted_debug :: "string option"
  pe_metadata :: provider_error_metadata

definition default_error_metadata :: provider_error_metadata where
  "default_error_metadata = \<lparr>pem_status_code = None, pem_provider_code = None, pem_retry_after_ms = None,
     pem_timeout_phase = None, pem_classification_source = Variant, pem_error_variant = None\<rparr>"

definition hard_non_retryable_status :: "provider_error_metadata \<Rightarrow> bool" where
  "hard_non_retryable_status m = (case pem_status_code m of
     Some s \<Rightarrow> s = 401 \<or> s = 403 \<or> (400 \<le> s \<and> s < 500 \<and> s \<noteq> 408 \<and> s \<noteq> 429)
   | None \<Rightarrow> False)"

definition cancelled_error :: "string \<Rightarrow> provider_error" where
  "cancelled_error reason = \<lparr>pe_kind = ProviderCancelled, pe_message = reason, pe_redacted_debug = None,
     pe_metadata = default_error_metadata\<rparr>"

definition malformed_stream_error :: "string \<Rightarrow> provider_error" where
  "malformed_stream_error message = \<lparr>pe_kind = MalformedStream, pe_message = message,
     pe_redacted_debug = Some ''fixture=malformed_stream'', pe_metadata = default_error_metadata\<rparr>"

section \<open>Round errors\<close>

text \<open>
  The errors that end a round; \<open>RoundPanicked\<close> has no variant in the source: it is the panic of
  \<open>clamp\<close> on a configured maximum below the minimum, which unwinds through the bash handler.
\<close>

datatype provider_round_error =
    RoundProvider provider_error | RoundCancelled string | StreamEndedWithoutCompletion
  | ProjectRootUnavailable | ToolContinuation string | ToolExecutionDenied string string string
  | RoundPanicked

fun provider_round_error_label :: "provider_round_error \<Rightarrow> string" where
  "provider_round_error_label (RoundProvider _) = ''provider_failed''"
| "provider_round_error_label (RoundCancelled _) = ''provider_cancelled''"
| "provider_round_error_label StreamEndedWithoutCompletion = ''stream_ended_without_completion''"
| "provider_round_error_label ProjectRootUnavailable = ''project_root_unavailable''"
| "provider_round_error_label (ToolContinuation reason) = reason"
| "provider_round_error_label (ToolExecutionDenied _ _ _) = ''tool_execution_denied''"
| "provider_round_error_label RoundPanicked = ''''"

end
