(* ===== verification/Shell_Tool.thy ===== *)
theory Shell_Tool
  imports Review_Coordinator Shell_Grammar Resource Round_Error
begin

text \<open>
  The handler of the \<open>bash\<close> tool, \<open>execute_native_provider_bash_tool_request\<close> of
  \<^verbatim>\<open>yach-backend/src/runner.rs\<close>, with what it calls: it resolves the working directory,
  prepares the command, asks the permission engine, records the decision, routes to the
  reviewer or to the user when the decision says so, and only then runs the command. The
  shell policy, the permission engine, the review policy and the review coordinator are the
  components of the other theories. The texts of tool results are those of
  \<^verbatim>\<open>tool_text.rs\<close>.
\<close>

section \<open>Texts of tool results\<close>

definition notice :: "string \<Rightarrow> string" where
  "notice text_body = ''['' @ text_body @ '']''"

definition trim_end_newlines :: "string \<Rightarrow> string" where
  "trim_end_newlines s = rev (dropWhile (\<lambda>c. c = CHR 0x0A) (rev s))"

fun push_notices :: "string \<Rightarrow> string list \<Rightarrow> string" where
  "push_notices out [] = out"
| "push_notices out (n # ns) = push_notices ((if out \<noteq> '''' then out @ line_feed else out) @ n) ns"

definition append_notices :: "string \<Rightarrow> string list \<Rightarrow> string" where
  "append_notices content notices =
     (if notices = [] then content else push_notices (trim_end_newlines content) notices)"

definition verdict_with_guidance :: "string \<Rightarrow> string \<Rightarrow> string" where
  "verdict_with_guidance verdict guidance =
     (if guidance = '''' then notice verdict else notice verdict @ line_feed @ guidance)"

definition show_int :: "int \<Rightarrow> string" where
  "show_int i = (if i < 0 then ''-'' @ show_nat (nat (- i)) else show_nat (nat i))"

definition exit_code_label :: "int option \<Rightarrow> string" where
  "exit_code_label code = (case code of None \<Rightarrow> ''unknown'' | Some c \<Rightarrow> show_int c)"

section \<open>State\<close>

record provider_tool_result =
  ptr_request_id :: string
  ptr_provider_call_id :: "string option"
  ptr_status :: tool_outcome
  ptr_content :: string
  ptr_byte_count :: nat
  ptr_redacted :: bool
  ptr_truncated :: bool
  ptr_reason :: "string option"

datatype tool_review_resolution = ResolutionApproved | ResolutionRejected | ResolutionInterrupted

text \<open>The messages of a round to the user interface, in the terms of \<^verbatim>\<open>yach-proto\<close>.\<close>

datatype harness_outcome_kind = KindBlocked | KindFailed | KindDenied | KindCancelled | KindLimit

record tool_result_message =
  tm_tool_call_id :: "string option"
  tm_tool_name :: string
  tm_output :: string
  tm_is_error :: bool
  tm_outcome_kind :: "harness_outcome_kind option"
  tm_byte_count :: nat
  tm_truncated :: bool
  tm_reason :: "string option"

datatype server_event =
    ReviewRequestedMessage string command_review_summary
  | EditReviewRequestedMessage string string local_edit_preview_summary
  | ReviewResolvedMessage string tool_review_resolution
  | ToolCallStartedMessage string string "string option"
  | ToolCallFinishedMessage tool_result_message

text \<open>What the handler does to the world: events made durable, messages sent, the command run.\<close>

datatype bash_effect = Stored "session_event list" | Sent server_event | Ran prepared_command

record bash_batch =
  bb_session_id :: string
  bb_turn_id :: string
  bb_root :: spath
  bb_shell_policy :: shell_policy
  bb_approval_mode :: approval_mode
  bb_structured_review_rows :: bool
  bb_has_store :: bool
  bb_coordinator :: "(review_env \<times> review_coordinator) option"
  bb_review_policy :: "review_policy option"
  bb_shared :: shared_review_state
  bb_log :: "session_event list"
  bb_pending :: "session_event list"
  bb_grants :: "(string \<times> spath) set option"
  bb_decision_counter :: nat
  bb_review_counter :: nat
  bb_store_calls :: nat
  bb_ui_calls :: nat
  bb_effects :: "bash_effect list"

text \<open>
  The surroundings of one call: the word splitter and upper case of the shell component, the
  process environment, the file system, the outcome of validating the call, the shared
  review state during a review, whether the turn is cancelled during it, what the user's
  review brings, the run of the command and its timing, and which appends and sends succeed.
\<close>

datatype review_input =
    InputCancelled | InputClosed
  | InputDecision (in_request_id: string) (in_preview_id: string) (in_decision_id: string)
      (in_decision: tool_review_decision)

datatype run_end = RunCancelled | RunEnded "(command_spawn_error, command_outcome) result"

record bash_env =
  be_words :: word_splitter
  be_uppercase :: "string \<Rightarrow> string"
  be_vars :: "(string \<times> string) list"
  be_tree :: tree
  be_validation :: "bool \<times> session_event list"
  be_moments :: moments
  be_review_cancelled :: bool
  be_input :: review_input
  be_run :: "prepared_command \<Rightarrow> run_end"
  be_timing :: tool_timing
  be_store_ok :: "nat \<Rightarrow> bool"
  be_ui_ok :: "nat \<Rightarrow> bool"
  be_budget :: "nat \<Rightarrow> provider_round_error option"

record bash_request =
  br_request_id :: string
  br_provider_call_id :: "string option"
  br_command :: "string option"
  br_workdir :: "string option"
  br_timeout :: "nat option"

type_synonym 'a bash_step = "bash_batch \<Rightarrow> (provider_round_error, 'a) result \<times> bash_batch"

definition bash_return :: "'a \<Rightarrow> 'a bash_step" where
  "bash_return x b = (Inr x, b)"

definition bash_fail :: "provider_round_error \<Rightarrow> 'a bash_step" where
  "bash_fail e b = (Inl e, b)"

definition bash_bind :: "'a bash_step \<Rightarrow> ('a \<Rightarrow> 'b bash_step) \<Rightarrow> 'b bash_step" where
  "bash_bind m f b = (case m b of (Inl e, b') \<Rightarrow> (Inl e, b') | (Inr x, b') \<Rightarrow> f x b')"

definition bash_modify :: "(bash_batch \<Rightarrow> bash_batch) \<Rightarrow> unit bash_step" where
  "bash_modify f b = (Inr (), f b)"

section \<open>Recording\<close>

definition push_native_session_event :: "session_event \<Rightarrow> bash_batch \<Rightarrow> bash_batch" where
  "push_native_session_event e b = b\<lparr>bb_log := bb_log b @ [e], bb_pending := bb_pending b @ [e]\<rparr>"

definition append_pending :: "bash_env \<Rightarrow> bash_batch \<Rightarrow> bool \<times> bash_batch" where
  "append_pending env b =
     (if be_store_ok env (bb_store_calls b)
      then (True, b\<lparr>bb_effects := bb_effects b @ [Stored (bb_pending b)], bb_pending := [],
                    bb_store_calls := bb_store_calls b + 1\<rparr>)
      else (False, b\<lparr>bb_store_calls := bb_store_calls b + 1\<rparr>))"

definition send_ui :: "bash_env \<Rightarrow> server_event \<Rightarrow> bash_batch \<Rightarrow> bool \<times> bash_batch" where
  "send_ui env m b =
     (if be_ui_ok env (bb_ui_calls b)
      then (True, b\<lparr>bb_effects := bb_effects b @ [Sent m], bb_ui_calls := bb_ui_calls b + 1\<rparr>)
      else (False, b\<lparr>bb_ui_calls := bb_ui_calls b + 1\<rparr>))"

definition review_resolution :: "session_event \<Rightarrow> (string \<times> tool_review_resolution) option" where
  "review_resolution e = (case e of
     ToolReviewDecisionRecorded _ _ rid decision \<Rightarrow>
       Some (rid, if decision = Reject then ResolutionRejected else ResolutionApproved)
   | ToolReviewInterrupted _ _ rid _ \<Rightarrow> Some (rid, ResolutionInterrupted)
   | _ \<Rightarrow> None)"

definition persist_tool_review_event :: "bash_env \<Rightarrow> session_event \<Rightarrow> unit bash_step" where
  "persist_tool_review_event env e b =
     (let b1 = push_native_session_event e b;
          (stored, b2) = (if bb_has_store b1 then append_pending env b1 else (True, b1))
      in if \<not> stored then (Inl (ToolContinuation ''tool_review_persist_failed''), b2)
         else (case review_resolution e of
             None \<Rightarrow> (Inr (), b2)
           | Some (rid, resolution) \<Rightarrow> (Inr (), snd (send_ui env (ReviewResolvedMessage rid resolution) b2))))"

definition persist_shell_permission_decision ::
  "bash_env \<Rightarrow> permission_request \<Rightarrow> permission_decision \<Rightarrow> permission_decision_summary bash_step" where
  "persist_shell_permission_decision env req d b =
     (let s = (summary d req False)\<lparr>sum_approval_mode := Some (bb_approval_mode b)\<rparr>
      in bash_bind
           (persist_tool_review_event env (PermissionDecisionRecorded (bb_session_id b) (bb_turn_id b) s))
           (\<lambda>_. bash_return s) b)"

definition resolved_summary ::
  "permission_decision_summary \<Rightarrow> tool_review_decision \<Rightarrow> permission_decision_summary" where
  "resolved_summary s decision =
     s\<lparr>sum_outcome := (if decision = Reject then OutcomeDenied else OutcomeAllowed),
       sum_reviewer := UserReviewer,
       sum_reason := (case decision of Approve \<Rightarrow> ''user_approved''
          | ApproveForSession \<Rightarrow> ''user_approved_for_session'' | Reject \<Rightarrow> ''user_rejected''),
       sum_rationale := None, sum_user_override := True\<rparr>"

definition persist_shell_review_resolution ::
  "bash_env \<Rightarrow> permission_decision_summary \<Rightarrow> tool_review_decision \<Rightarrow> unit bash_step" where
  "persist_shell_review_resolution env s decision b =
     (let b1 = (if bb_coordinator b \<noteq> None then b\<lparr>bb_shared := bump_authorization_revision (bb_shared b)\<rparr> else b)
      in persist_tool_review_event env
           (PermissionDecisionRecorded (bb_session_id b) (bb_turn_id b) (resolved_summary s decision)) b1)"

definition record_native_bash_finished_event ::
  "tool_timing \<Rightarrow> string \<Rightarrow> tool_outcome \<Rightarrow> string option \<Rightarrow> provider_tool_result \<Rightarrow> bash_batch \<Rightarrow> bash_batch" where
  "record_native_bash_finished_event timing rid outcome reason r b =
     push_native_session_event (ToolExecutionFinished (bb_session_id b) (bb_turn_id b) rid outcome reason
       (Some \<lparr>tp_summary = ''bash outcome='' @ outcome_debug outcome, tp_byte_count = ptr_byte_count r,
              tp_redacted = True, tp_truncated = ptr_truncated r\<rparr>)
       (Some (ptr_content r)) (started_at_ms timing) (tool_duration_ms timing)) b"

definition failed_tool_result :: "bash_request \<Rightarrow> string \<Rightarrow> string \<Rightarrow> provider_tool_result" where
  "failed_tool_result req reason guidance =
     (let content = verdict_with_guidance (''error: '' @ reason) guidance
      in \<lparr>ptr_request_id = br_request_id req, ptr_provider_call_id = br_provider_call_id req, ptr_status = Failed,
          ptr_content = content, ptr_byte_count = length content, ptr_redacted = True,
          ptr_truncated = False, ptr_reason = Some reason\<rparr>)"

definition finish_failed :: "tool_timing \<Rightarrow> bash_request \<Rightarrow> string \<Rightarrow> string \<Rightarrow> provider_tool_result bash_step" where
  "finish_failed timing req reason guidance b =
     (let r = failed_tool_result req reason guidance
      in (Inr r, record_native_bash_finished_event timing (br_request_id req) Failed (Some reason) r b))"

definition human_performs_handoff ::
  "bash_env \<Rightarrow> bash_request \<Rightarrow> permission_decision_summary \<Rightarrow> provider_tool_result bash_step" where
  "human_performs_handoff env req s b =
     bash_bind
       (persist_tool_review_event env (PermissionDecisionRecorded (bb_session_id b) (bb_turn_id b)
          (s\<lparr>sum_outcome := OutcomeDenied, sum_reason := ''restriction_human_performs''\<rparr>)))
       (\<lambda>_. finish_failed no_timing req ''restriction_human_performs''
          ''This action is reserved for the user to perform outside the agent. Describe the exact command so the user can run it, then continue.'')
       b"

section \<open>The user's review\<close>

datatype shell_hold_disposition = AskUser "review_origin option" | HandOff

definition shell_disposition_for_decision :: "string \<Rightarrow> shell_hold_disposition" where
  "shell_disposition_for_decision reason =
     (if reason = ''restriction_human_performs'' then HandOff else AskUser None)"

definition shell_disposition_for_hold :: "hold_reason \<Rightarrow> shell_hold_disposition" where
  "shell_disposition_for_hold reason =
     (case reason of RestrictionApplies (HumanPerforms _ _) \<Rightarrow> HandOff | _ \<Rightarrow> AskUser (Some OriginRisk))"

definition next_command_review_id :: "nat \<Rightarrow> string \<times> nat" where
  "next_command_review_id n =
     (let next = (n + 1) mod (u64_max + 1) in (''command-review-'' @ show_nat next, next))"

definition wait_for_command_review_decision ::
  "review_input \<Rightarrow> string \<Rightarrow> string \<Rightarrow> string \<Rightarrow> (provider_round_error, tool_review_decision) result" where
  "wait_for_command_review_decision input rid review_id decision_id' =
     (case input of
        InputCancelled \<Rightarrow> Inl (RoundCancelled ''native provider prompt cancelled'')
      | InputClosed \<Rightarrow> Inl (RoundCancelled ''tool review decision channel closed'')
      | InputDecision r p d decision \<Rightarrow>
          if r = rid \<and> p = review_id \<and> d = decision_id' then Inr decision
          else Inl (ToolContinuation ''stale_tool_review_decision''))"

text \<open>The grants of the session behind their lock, \<open>None\<close> when it is poisoned.\<close>

definition is_granted :: "string \<Rightarrow> spath \<Rightarrow> bash_batch \<Rightarrow> bool" where
  "is_granted cmd cwd b \<longleftrightarrow> (case bb_grants b of None \<Rightarrow> False | Some granted \<Rightarrow> (cmd, cwd) \<in> granted)"

definition grant :: "string \<Rightarrow> spath \<Rightarrow> bash_batch \<Rightarrow> bash_batch" where
  "grant cmd cwd b = b\<lparr>bb_grants := map_option (insert (cmd, cwd)) (bb_grants b)\<rparr>"

text \<open>
  The block that asks the user, the same in the three places of the handler up to the
  origin it shows. It ends with a failed result, or with \<open>None\<close> when the command may run.
\<close>

definition ask_user ::
  "bash_env \<Rightarrow> bash_request \<Rightarrow> prepared_command \<Rightarrow> permission_decision_summary \<Rightarrow> string
   \<Rightarrow> review_origin option \<Rightarrow> provider_tool_result option bash_step" where
  "ask_user env req prepared s did origin b =
     (let (review_id, n) = next_command_review_id (bb_review_counter b);
          rid = br_request_id req;
          session = bb_session_id b; turn = bb_turn_id b;
          payload = \<lparr>cr_review_id = review_id, cr_permission_decision_id = did,
            cr_command = pc_command prepared, cr_workdir = br_workdir req,
            cr_timeout_ms = min (pc_timeout_ms prepared) u64_max, cr_review_origin = origin\<rparr>
      in bash_bind (bash_modify (\<lambda>b. b\<lparr>bb_review_counter := n\<rparr>)) (\<lambda>_.
         bash_bind (persist_tool_review_event env (ToolReviewRequested session turn rid ''bash'' (CommandPayload payload))) (\<lambda>_.
         bash_bind (\<lambda>b. case send_ui env (ReviewRequestedMessage rid payload) b of (ok, b') \<Rightarrow> (Inr ok, b')) (\<lambda>delivered.
         if \<not> delivered then
           bash_bind (persist_tool_review_event env (ToolReviewInterrupted session turn rid ''ui_receiver_dropped''))
             (\<lambda>_. bash_fail (RoundCancelled ''ui receiver dropped during tool review''))
         else (case wait_for_command_review_decision (be_input env) rid review_id did of
             Inl e \<Rightarrow>
               bash_bind (persist_tool_review_event env
                   (ToolReviewInterrupted session turn rid (provider_round_error_label e)))
                 (\<lambda>_. bash_fail e)
           | Inr decision \<Rightarrow>
               bash_bind (persist_tool_review_event env (ToolReviewDecisionRecorded session turn rid decision)) (\<lambda>_.
               bash_bind (persist_shell_review_resolution env s decision) (\<lambda>_.
               if decision = Reject then
                 bash_bind (finish_failed no_timing req ''user_rejected''
                     ''The user declined to run this command. Ask the user how to proceed or take a different approach.'')
                   (\<lambda>r. bash_return (Some r))
               else
                 bash_bind (bash_modify (\<lambda>b. if decision = ApproveForSession
                     then grant (pc_command prepared) (pc_cwd prepared) b else b))
                   (\<lambda>_. bash_return None))))))) b)"

section \<open>The handler\<close>

definition permission_request_for :: "bash_request \<Rightarrow> permission_request" where
  "permission_request_for req =
     \<lparr>request_id = br_request_id req, actor = Provider, capability = ShellCommand,
      target = \<lparr>operation = ''bash'',
        resource = (case br_workdir req of Some w \<Rightarrow> w | None \<Rightarrow> ''.'')\<rparr>,
      risk = ProcessExecution, requested_reviewer = None,
      command = Some (case br_command req of Some c \<Rightarrow> c | None \<Rightarrow> '''')\<rparr>"

definition resolve_workdir :: "tree \<Rightarrow> spath \<Rightarrow> string option \<Rightarrow> spath option" where
  "resolve_workdir N base workdir =
     (case workdir of
        None \<Rightarrow> Some base
      | Some dir \<Rightarrow>
          (case canonicalize N (map Normal base @ kernel_components dir) of
             Some resolved \<Rightarrow> if prefix base resolved \<and> is_dir N resolved then Some resolved else None
           | None \<Rightarrow> None))"

definition cwd_text :: "spath \<Rightarrow> string" where
  "cwd_text p = from_utf8_lossy (if p = [] then ''/'' else concat (map (\<lambda>n. ''/'' @ n) p))"

definition prepare_command ::
  "bash_env \<Rightarrow> shell_policy \<Rightarrow> bash_request \<Rightarrow> spath \<Rightarrow> prepared_command option" where
  "prepare_command env policy req cwd =
     map_option (\<lambda>timeout. \<lparr>pc_command = (case br_command req of Some c \<Rightarrow> c | None \<Rightarrow> ''''), pc_cwd = cwd,
         pc_env = build_command_env (be_uppercase env) (be_vars env) (env_allow (config policy)),
         pc_timeout_ms = timeout\<rparr>)
       (clamp_timeout_ms policy (br_timeout req))"

definition deny_and_finish ::
  "bash_env \<Rightarrow> bash_request \<Rightarrow> string \<Rightarrow> string \<Rightarrow> provider_tool_result bash_step" where
  "deny_and_finish env req reason guidance b =
     (let (denial, n) = deny_shell reason (bb_decision_counter b)
      in bash_bind (bash_modify (\<lambda>b. b\<lparr>bb_decision_counter := n\<rparr>)) (\<lambda>_.
         bash_bind (persist_shell_permission_decision env (permission_request_for req) denial) (\<lambda>_.
         finish_failed no_timing req reason guidance)) b)"

fun hold_label :: "hold_reason \<Rightarrow> string" where
  "hold_label EvidenceOverBudget = ''evidence_over_budget''"
| "hold_label SignificantRisk = ''reviewer_hold_risk''"
| "hold_label NeedsClarification = ''reviewer_hold_evidence''"
| "hold_label (RestrictionApplies _) = ''restriction_ask_first''"

fun failure_label :: "review_failure \<Rightarrow> string" where
  "failure_label Disabled = ''reviewer_disabled''"
| "failure_label Stale = ''reviewer_stale''"
| "failure_label MalformedAssessment = ''reviewer_malformed''"
| "failure_label TimedOut = ''reviewer_timed_out''"
| "failure_label ReviewerUnavailable = ''reviewer_unavailable''"
| "failure_label EvidenceWriteFailed = ''reviewer_evidence_failed''"
| "failure_label OversizedAssessment = ''reviewer_oversized''"

definition review_command ::
  "bash_env \<Rightarrow> review_env \<Rightarrow> review_coordinator \<Rightarrow> bash_request \<Rightarrow> prepared_command
   \<Rightarrow> review_route bash_step" where
  "review_command env renv co req prepared b =
     (let cwd = cwd_text (pc_cwd prepared);
          item = (\<lambda>i k excerpt. \<lparr>ev_id = i, ev_source = ''permission_request'', ev_kind = k,
                    ev_excerpt = excerpt, ev_truncated = False\<rparr>);
          action = ReviewShellCommand (pc_command prepared) cwd (min (pc_timeout_ms prepared) u64_max)
                     (env_allow (config (bb_shell_policy b)))
      in case user_message_evidence (user_messages_newest_first (bb_log b)) (bb_turn_id b) of
           IssuingTurnOverBudget \<Rightarrow> (Inr (Hold EvidenceOverBudget []), b)
         | EvidenceReady items om \<Rightarrow>
             if be_review_cancelled env
             then (Inl (RoundCancelled ''native provider prompt cancelled''), b)
             else (Inr (fst (review_within_deadline renv co (be_moments env) (permission_request_for req) action
                     (items @ [item ''command'' ''shell_command'' (pc_command prepared),
                               item ''cwd'' ''working_directory'' cwd]) [] om)), b))"

text \<open>
  The reviewer's branch, \<open>None\<close> when the command may run; \<open>rows\<close> says whether the client can
  show structured review rows.
\<close>

definition handle_route ::
  "bash_env \<Rightarrow> bash_request \<Rightarrow> prepared_command \<Rightarrow> permission_decision_summary \<Rightarrow> string \<Rightarrow> bool
   \<Rightarrow> review_route \<Rightarrow> provider_tool_result option bash_step" where
  "handle_route env req prepared s did rows route =
     (case route of
        Execute \<Rightarrow> bash_return None
      | Hold reason _ \<Rightarrow>
          (case shell_disposition_for_hold reason of
             HandOff \<Rightarrow> bash_bind (human_performs_handoff env req s) (\<lambda>r. bash_return (Some r))
           | AskUser origin \<Rightarrow>
               if \<not> rows then
                 bash_bind (finish_failed no_timing req (hold_label reason)
                     ''The reviewer held this command and the client cannot show structured review rows.'')
                   (\<lambda>r. bash_return (Some r))
               else ask_user env req prepared s did origin)
      | ReviewFailed reason \<Rightarrow>
          if \<not> rows then
            bash_bind (finish_failed no_timing req (failure_label reason)
                ''The reviewer failed and the client cannot show structured review rows.'')
              (\<lambda>r. bash_return (Some r))
          else ask_user env req prepared s did (Some OriginReviewerError))"

definition route_to_reviewer ::
  "bash_env \<Rightarrow> bash_request \<Rightarrow> prepared_command \<Rightarrow> permission_decision_summary \<Rightarrow> string
   \<Rightarrow> provider_tool_result option bash_step" where
  "route_to_reviewer env req prepared s did b =
     (case bb_coordinator b of
        None \<Rightarrow> bash_bind (finish_failed no_timing req ''reviewer_unavailable''
            ''Automatic review is selected but no reviewer host is active. Select a reviewer extension or switch to a manual approval mode.'')
          (\<lambda>r. bash_return (Some r)) b
      | Some (renv, co) \<Rightarrow>
          bash_bind (review_command env renv co req prepared)
            (handle_route env req prepared s did (bb_structured_review_rows b)) b)"

definition authorize_command ::
  "bash_env \<Rightarrow> bash_request \<Rightarrow> prepared_command \<Rightarrow> permission_decision \<Rightarrow> permission_decision_summary
   \<Rightarrow> provider_tool_result option bash_step" where
  "authorize_command env req prepared d s =
     (case d of
        Allowed _ _ _ _ _ _ \<Rightarrow> bash_return None
      | Denied _ _ _ reason _ _ \<Rightarrow>
          bash_bind (finish_failed no_timing req reason ''The command was denied by shell permission policy.'')
            (\<lambda>r. bash_return (Some r))
      | NeedsUserReview did reviewer _ reason _ _ \<Rightarrow>
          if reviewer = AutoReviewer \<and> reason = ''route_to_reviewer''
          then route_to_reviewer env req prepared s did
          else if shell_disposition_for_decision reason = HandOff
          then bash_bind (human_performs_handoff env req s) (\<lambda>r. bash_return (Some r))
          else (\<lambda>b. if \<not> bb_structured_review_rows b then
                 bash_bind (finish_failed no_timing req ''structured_review_rows_not_negotiated''
                     ''Reconnect with a client that supports structured review rows before running non-allowlisted commands.'')
                   (\<lambda>r. bash_return (Some r)) b
               else ask_user env req prepared s did None b))"

definition command_notices :: "command_outcome \<Rightarrow> string list" where
  "command_notices out =
     (if command_output out = '''' then [notice (''no output; exit code '' @ exit_code_label (exit_code out))]
      else if exit_code out \<noteq> Some 0 then [notice (''exit code '' @ exit_code_label (exit_code out))]
      else [])
     @ (if truncated out then [notice (''truncated: kept '' @ show_nat (length (command_output out)) @ '' of ''
            @ show_nat (output_bytes_total out) @ '' output bytes'')] else [])"

definition completed_result :: "bash_request \<Rightarrow> command_outcome \<Rightarrow> provider_tool_result" where
  "completed_result req out =
     (let content = append_notices (command_output out) (command_notices out)
      in \<lparr>ptr_request_id = br_request_id req, ptr_provider_call_id = br_provider_call_id req, ptr_status = Completed,
          ptr_content = content, ptr_byte_count = length content, ptr_redacted = True,
          ptr_truncated = truncated out, ptr_reason = None\<rparr>)"

definition run_command ::
  "bash_env \<Rightarrow> bash_request \<Rightarrow> prepared_command \<Rightarrow> provider_tool_result bash_step" where
  "run_command env req prepared =
     bash_bind (bash_modify (\<lambda>b. b\<lparr>bb_effects := bb_effects b @ [Ran prepared]\<rparr>)) (\<lambda>_.
       case be_run env prepared of
         RunCancelled \<Rightarrow>
           (let r = (failed_tool_result req ''tool_round_cancelled''
                  ''This tool call was cancelled. Retry it if the cancellation condition is resolved.'')
                  \<lparr>ptr_status := Cancelled\<rparr>
            in bash_bind (bash_modify (record_native_bash_finished_event (be_timing env) (br_request_id req) Cancelled
                   (Some ''tool_round_cancelled'') r))
                 (\<lambda>_. bash_fail (RoundCancelled ''native provider prompt cancelled'')))
       | RunEnded (Inl (Spawn error)) \<Rightarrow>
           finish_failed (be_timing env) req ''spawn_failed'' (''The command could not be started: '' @ error @ ''.'')
       | RunEnded (Inr out) \<Rightarrow>
           if timed_out out then
             finish_failed (be_timing env) req ''timeout''
               ''The command exceeded its timeout and was killed. Retry with a larger timeout argument, or run a narrower command.''
           else
             (let r = completed_result req out
              in bash_bind (bash_modify (record_native_bash_finished_event (be_timing env) (br_request_id req) Completed None r)) (\<lambda>_.
                 bash_bind (\<lambda>b. if bb_has_store b
                     then (case append_pending env b of (ok, b') \<Rightarrow>
                       (if ok then Inr () else Inl (ToolContinuation ''tool_event_persist_failed''), b'))
                     else (Inr (), b)) (\<lambda>_.
                 case be_budget env (ptr_byte_count r) of
                   Some e \<Rightarrow> bash_fail e
                 | None \<Rightarrow> bash_return r))))"

definition review_policy_snapshot :: "bash_batch \<Rightarrow> review_policy" where
  "review_policy_snapshot b = (case bb_review_policy b of Some p \<Rightarrow> p | None \<Rightarrow> empty_review_policy)"

definition decide_command ::
  "bash_env \<Rightarrow> bash_request \<Rightarrow> prepared_command \<Rightarrow> bash_batch \<Rightarrow> permission_decision \<times> nat" where
  "decide_command env req prepared b =
     decide_shell (be_words env) (permission_request_for req) (bb_approval_mode b)
       (auto_run_eligible (be_words env) (bb_shell_policy b) (pc_command prepared))
       (is_granted (pc_command prepared) (pc_cwd prepared) b)
       (review_policy_snapshot b) (bb_decision_counter b)"

definition decide_and_run ::
  "bash_env \<Rightarrow> bash_request \<Rightarrow> prepared_command \<Rightarrow> provider_tool_result bash_step" where
  "decide_and_run env req prepared b =
     (let (d, n) = decide_command env req prepared b
      in bash_bind (bash_modify (\<lambda>b. b\<lparr>bb_decision_counter := n\<rparr>)) (\<lambda>_.
         bash_bind (persist_shell_permission_decision env (permission_request_for req) d) (\<lambda>s.
         bash_bind (authorize_command env req prepared d s) (\<lambda>denied.
         case denied of
           Some r \<Rightarrow> bash_return r
         | None \<Rightarrow> run_command env req prepared))) b)"

definition execute_bash :: "bash_env \<Rightarrow> bash_request \<Rightarrow> provider_tool_result bash_step" where
  "execute_bash env req b0 =
     (let (valid, events) = be_validation env;
          b = b0\<lparr>bb_log := bb_log b0 @ events, bb_pending := bb_pending b0 @ events\<rparr>
      in if \<not> valid then (Inl (ToolContinuation ''tool_round_validation_failed''), b)
         else (case resolve_workdir (be_tree env) (bb_root b) (br_workdir req) of
             None \<Rightarrow> deny_and_finish env req ''workdir_invalid''
               ''workdir must be an existing directory inside the project root. Use list_project_paths to inspect the project layout.'' b
           | Some cwd \<Rightarrow>
               if executor (config (bb_shell_policy b)) \<noteq> ''host'' then
                 deny_and_finish env req ''unknown_shell_executor''
                   (''The configured shell.executor is not available in this build; only ''
                    @ [CHR 0x22] @ ''host'' @ [CHR 0x22]
                    @ '' exists today. Ask the user to fix .yach/config.json.'') b
               else (case prepare_command env (bb_shell_policy b) req cwd of
                   None \<Rightarrow> (Inl RoundPanicked, b)
                 | Some prepared \<Rightarrow>
                     decide_and_run env req prepared b)))"

end
