(* ===== verification/Shell_Tool_Properties.thy ===== *)
theory Shell_Tool_Properties
  imports Shell_Tool
begin

text \<open>
  Properties of the \<open>bash\<close> handler: what has to have happened before a command runs.
\<close>

section \<open>Steps that do not run anything\<close>

definition quiet :: "bash_batch \<Rightarrow> bash_batch \<Rightarrow> bool" where
  "quiet b b' \<longleftrightarrow> (\<exists>es. bb_effects b' = bb_effects b @ es \<and> (\<forall>p. Ran p \<notin> set es))"

definition quiet_step :: "'a bash_step \<Rightarrow> bool" where
  "quiet_step m \<longleftrightarrow> (\<forall>b. quiet b (snd (m b)))"

lemma quiet_refl [simp]: "quiet b b"
  by (simp add: quiet_def)

lemma quiet_trans: "quiet a b \<Longrightarrow> quiet b c \<Longrightarrow> quiet a c"
  unfolding quiet_def by (metis append.assoc UnE set_append)

lemma quiet_same: "bb_effects b' = bb_effects b \<Longrightarrow> quiet b b'"
  by (simp add: quiet_def)

lemma quiet_bind:
  assumes "quiet_step m" "\<And>x. quiet_step (f x)"
  shows "quiet_step (bash_bind m f)"
proof (unfold quiet_step_def, rule allI)
  fix b :: bash_batch
  show "quiet b (snd (bash_bind m f b))"
  proof (cases "m b")
    case (Pair r b1)
    then have "quiet b b1" using assms(1) unfolding quiet_step_def by (metis snd_conv)
    moreover have "quiet b1 (snd (f x b1))" for x using assms(2) by (simp add: quiet_step_def)
    ultimately show ?thesis using Pair quiet_trans by (cases r) (auto simp: bash_bind_def)
  qed
qed

lemma quiet_return [intro]: "quiet_step (bash_return x)"
  by (simp add: quiet_step_def bash_return_def)

lemma quiet_fail [intro]: "quiet_step (bash_fail e)"
  by (simp add: quiet_step_def bash_fail_def)

lemma quiet_modify: "(\<And>b. bb_effects (f b) = bb_effects b) \<Longrightarrow> quiet_step (bash_modify f)"
  by (simp add: quiet_step_def bash_modify_def quiet_same)

lemma append_pending_quiet: "quiet b (snd (append_pending env b))"
  by (auto simp: append_pending_def quiet_def)

lemma send_ui_quiet: "quiet b (snd (send_ui env m b))"
  by (auto simp: send_ui_def quiet_def)

lemma push_event_effects [simp]: "bb_effects (push_native_session_event e b) = bb_effects b"
  by (simp add: push_native_session_event_def)

lemma finished_event_effects [simp]: "bb_effects (record_native_bash_finished_event timing i o' r t b) = bb_effects b"
  by (simp add: record_native_bash_finished_event_def)

lemma persist_quiet [intro]: "quiet_step (persist_tool_review_event env e)"
proof (unfold quiet_step_def, rule allI)
  fix b :: bash_batch
  let ?b1 = "push_native_session_event e b"
  let ?p = "if bb_has_store ?b1 then append_pending env ?b1 else (True, ?b1)"
  have "quiet b (snd ?p)"
    using append_pending_quiet [of ?b1 env] quiet_trans [OF quiet_same [of ?b1 b]] by simp
  then show "quiet b (snd (persist_tool_review_event env e b))"
    using send_ui_quiet quiet_trans
    by (fastforce simp: persist_tool_review_event_def Let_def case_prod_beta split: option.splits)
qed

lemma finish_failed_quiet [intro]: "quiet_step (finish_failed timing req reason guidance)"
  by (simp add: quiet_step_def finish_failed_def quiet_same Let_def)

text \<open>A step chosen in its own state.\<close>

lemma quiet_step_at: "(\<And>b. quiet_step (f b)) \<Longrightarrow> quiet_step (\<lambda>b. f b b)"
  by (simp add: quiet_step_def)

lemma persist_decision_quiet [intro]: "quiet_step (persist_shell_permission_decision env req d)"
  unfolding persist_shell_permission_decision_def Let_def
  by (rule quiet_step_at, intro quiet_bind persist_quiet quiet_return)

lemma persist_resolution_quiet [intro]: "quiet_step (persist_shell_review_resolution env s decision)"
proof (unfold quiet_step_def, rule allI)
  fix b :: bash_batch
  let ?b1 = "if bb_coordinator b \<noteq> None then b\<lparr>bb_shared := bump_authorization_revision (bb_shared b)\<rparr> else b"
  have "quiet b ?b1" by (simp add: quiet_same)
  moreover have "quiet ?b1 (snd (persist_tool_review_event env e ?b1))" for e
    using persist_quiet by (simp add: quiet_step_def)
  ultimately show "quiet b (snd (persist_shell_review_resolution env s decision b))"
    unfolding persist_shell_review_resolution_def Let_def by (rule quiet_trans)
qed

lemma handoff_quiet [intro]: "quiet_step (human_performs_handoff env req s)"
  unfolding human_performs_handoff_def
  by (rule quiet_step_at, intro quiet_bind persist_quiet finish_failed_quiet)

lemma ask_user_quiet [intro]: "quiet_step (ask_user env req prepared s did origin)"
proof -
  have send: "quiet_step (\<lambda>b. (Inr (fst (send_ui env m b)), snd (send_ui env m b)))" for m
    using send_ui_quiet by (simp add: quiet_step_def)
  show ?thesis
    unfolding ask_user_def Let_def case_prod_beta
    by (rule quiet_step_at, intro quiet_bind persist_quiet send quiet_modify)
      (auto split: sum.splits intro!: quiet_bind quiet_modify simp: grant_def)
qed

lemma review_command_quiet [intro]: "quiet_step (review_command env renv co req prepared)"
  by (auto simp: quiet_step_def review_command_def Let_def split: user_message_evidence.splits)

lemma quietD: "quiet_step m \<Longrightarrow> quiet b (snd (m b))"
  by (simp add: quiet_step_def)

lemma quiet_if [intro]: "quiet_step f \<Longrightarrow> quiet_step g \<Longrightarrow> quiet_step (\<lambda>b. if \<not> P b then f b else g b)"
  by (simp add: quiet_step_def)

lemma handle_route_quiet [intro]: "quiet_step (handle_route env req prepared s did rows route)"
  unfolding handle_route_def
  by (auto split: review_route.split shell_hold_disposition.split intro!: quiet_bind)

lemma route_to_reviewer_quiet [intro]: "quiet_step (route_to_reviewer env req prepared s did)"
proof (unfold quiet_step_def, rule allI)
  fix b :: bash_batch
  have "quiet_step (bash_bind (review_command env renv co req prepared)
      (handle_route env req prepared s did (bb_structured_review_rows b)))" for renv co
    by (intro quiet_bind review_command_quiet handle_route_quiet)
  moreover have "quiet_step (bash_bind (finish_failed timing req reason guidance) (\<lambda>r. bash_return (Some r)))" for timing reason guidance
    by (intro quiet_bind finish_failed_quiet quiet_return)
  ultimately show "quiet b (snd (route_to_reviewer env req prepared s did b))"
    by (auto simp: route_to_reviewer_def quietD split: option.split)
qed

lemma authorize_quiet [intro]: "quiet_step (authorize_command env req prepared d s)"
  unfolding authorize_command_def
  by (auto split: permission_decision.split intro!: quiet_bind quiet_if)

lemma deny_quiet [intro]: "quiet_step (deny_and_finish env req reason guidance)"
  unfolding deny_and_finish_def Let_def case_prod_beta
  by (rule quiet_step_at) (auto intro!: quiet_bind quiet_modify)

section \<open>Inversion\<close>

lemma bash_bind_Inr:
  assumes "bash_bind m f b = (Inr y, b')"
  obtains x b1 where "m b = (Inr x, b1)" "f x b1 = (Inr y, b')"
  using assms by (auto simp: bash_bind_def split: prod.splits sum.splits)

lemma bash_bind_return_Some: "bash_bind m (\<lambda>r. bash_return (Some r)) b \<noteq> (Inr None, b')"
  by (auto simp: bash_bind_def bash_return_def split: prod.splits sum.splits)

text \<open>The user's approval of exactly this request.\<close>

definition approved :: "bash_env \<Rightarrow> bash_request \<Rightarrow> string \<Rightarrow> bool" where
  "approved env req did \<longleftrightarrow> (\<exists>preview decision.
     be_input env = InputDecision (br_request_id req) preview did decision \<and> decision \<noteq> Reject)"

lemma wait_approved:
  "wait_for_command_review_decision input rid review did = Inr decision \<Longrightarrow> input = InputDecision rid review did decision"
  by (auto simp: wait_for_command_review_decision_def split: review_input.splits if_splits)

lemma ask_user_None:
  assumes "ask_user env req prepared s did origin b = (Inr None, b')"
  shows "approved env req did"
proof -
  let ?rid = "br_request_id req" and ?review = "fst (next_command_review_id (bb_review_counter b))"
  obtain decision where w: "wait_for_command_review_decision (be_input env) ?rid ?review did = Inr decision"
    using assms unfolding ask_user_def Let_def case_prod_beta
    by (cases "wait_for_command_review_decision (be_input env) ?rid ?review did")
      (auto elim!: bash_bind_Inr simp: bash_fail_def bash_return_def split: if_splits)
  have "decision \<noteq> Reject"
    using assms w unfolding ask_user_def Let_def case_prod_beta
    by (auto elim!: bash_bind_Inr simp: bash_fail_def bash_return_def split: if_splits)
  then show ?thesis using wait_approved [OF w] by (auto simp: approved_def)
qed

definition reviewer_executes :: "bash_env \<Rightarrow> bash_request \<Rightarrow> prepared_command \<Rightarrow> bash_batch \<Rightarrow> bool" where
  "reviewer_executes env req p b \<longleftrightarrow> (\<exists>renv co trusted om. bb_coordinator b = Some (renv, co)
     \<and> fst (review_within_deadline renv co (be_moments env) (permission_request_for req)
         (ReviewShellCommand (pc_command p) (cwd_text (pc_cwd p)) (min (pc_timeout_ms p) u64_max)
            (env_allow (config (bb_shell_policy b)))) trusted [] om) = Execute)"

lemma handle_route_None:
  assumes "handle_route env req p s did rows route b = (Inr None, b')"
  shows "route = Execute \<or> approved env req did"
  using assms
  by (auto simp: handle_route_def bash_bind_return_Some dest: ask_user_None
      split: review_route.splits shell_hold_disposition.splits if_splits)

lemma route_to_reviewer_None:
  assumes "route_to_reviewer env req p s did b = (Inr None, b')"
  shows "reviewer_executes env req p b \<or> approved env req did"
proof -
  obtain renv co where co: "bb_coordinator b = Some (renv, co)"
    using assms by (auto simp: route_to_reviewer_def bash_bind_return_Some split: option.splits)
  obtain route b1 where r: "review_command env renv co req p b = (Inr route, b1)"
    "handle_route env req p s did (bb_structured_review_rows b) route b1 = (Inr None, b')"
    using assms co by (auto simp: route_to_reviewer_def elim: bash_bind_Inr)
  then show ?thesis
    using handle_route_None [OF r(2)] co
    by (auto simp: review_command_def reviewer_executes_def Let_def split: user_message_evidence.splits if_splits)
qed

definition permitted :: "bash_env \<Rightarrow> bash_request \<Rightarrow> prepared_command \<Rightarrow> permission_decision \<Rightarrow> bash_batch \<Rightarrow> bool" where
  "permitted env req p d b \<longleftrightarrow> is_Allowed d
     \<or> d_reason d \<noteq> ''restriction_human_performs'' \<and> \<not> is_Denied d \<and> approved env req (decision_id d)
     \<or> d_reason d = ''route_to_reviewer'' \<and> reviewer_executes env req p b"

lemma authorize_None:
  assumes "authorize_command env req p d s b = (Inr None, b')"
  shows "permitted env req p d b"
proof (cases d)
  case (NeedsUserReview did reviewer mode reason prompt revision)
  then show ?thesis
    using assms
    by (auto simp: authorize_command_def permitted_def shell_disposition_for_decision_def bash_bind_return_Some
        dest: ask_user_None route_to_reviewer_None split: if_splits)
qed (use assms in \<open>auto simp: authorize_command_def permitted_def bash_bind_return_Some\<close>)

section \<open>What happened before a command runs\<close>

text \<open>Everything in the batch but the record of what happened.\<close>

definition same_setting :: "bash_batch \<Rightarrow> bash_batch \<Rightarrow> bool" where
  "same_setting b b' \<longleftrightarrow> bb_has_store b' = bb_has_store b \<and> bb_coordinator b' = bb_coordinator b
     \<and> bb_shell_policy b' = bb_shell_policy b \<and> bb_session_id b' = bb_session_id b \<and> bb_turn_id b' = bb_turn_id b
     \<and> bb_approval_mode b' = bb_approval_mode b"

lemma persist_event_Inr:
  assumes "persist_tool_review_event env e b = (Inr u, b')"
  shows "same_setting b b'"
    "bb_has_store b \<Longrightarrow> \<exists>events more. bb_effects b' = bb_effects b @ Stored events # more \<and> e \<in> set events"
  using assms
  by (auto simp: persist_tool_review_event_def push_native_session_event_def append_pending_def send_ui_def
      same_setting_def Let_def split: if_splits option.splits)

lemma persist_decision_Inr:
  assumes "persist_shell_permission_decision env req d b = (Inr s, b')"
  shows "s = (summary d req False)\<lparr>sum_approval_mode := Some (bb_approval_mode b)\<rparr>" "same_setting b b'"
    "bb_has_store b \<Longrightarrow> \<exists>events more. bb_effects b' = bb_effects b @ Stored events # more
        \<and> PermissionDecisionRecorded (bb_session_id b) (bb_turn_id b) s \<in> set events"
proof -
  let ?s = "(summary d req False)\<lparr>sum_approval_mode := Some (bb_approval_mode b)\<rparr>"
  obtain u where u: "persist_tool_review_event env (PermissionDecisionRecorded (bb_session_id b) (bb_turn_id b) ?s) b
      = (Inr u, b')" "s = ?s"
    using assms unfolding persist_shell_permission_decision_def Let_def
    by (auto elim!: bash_bind_Inr simp: bash_return_def)
  then show "s = ?s" "same_setting b b'"
    "bb_has_store b \<Longrightarrow> \<exists>events more. bb_effects b' = bb_effects b @ Stored events # more
        \<and> PermissionDecisionRecorded (bb_session_id b) (bb_turn_id b) s \<in> set events"
    using persist_event_Inr [OF u(1)] by auto
qed

lemma run_command_effects:
  "\<exists>more. bb_effects (snd (run_command env req p b)) = bb_effects b @ Ran p # more \<and> (\<forall>q. Ran q \<notin> set more)"
proof -
  let ?b = "b\<lparr>bb_effects := bb_effects b @ [Ran p]\<rparr>"
  have "quiet ?b (snd (run_command env req p b))"
    unfolding run_command_def
    by (auto simp: bash_bind_def bash_modify_def bash_fail_def bash_return_def finish_failed_def Let_def
        quiet_def append_pending_def split: run_end.splits sum.splits command_spawn_error.splits option.splits)
  then show ?thesis by (auto simp: quiet_def)
qed

text \<open>The two ways the handler can go.\<close>

lemma decide_and_run_cases:
  assumes "decide_and_run env req p b = (res, b')"
  obtains (not_run) "quiet b b'"
  | (run) d n s b1 b2 where "decide_command env req p b = (d, n)"
      "persist_shell_permission_decision env (permission_request_for req) d (b\<lparr>bb_decision_counter := n\<rparr>) = (Inr s, b1)"
      "authorize_command env req p d s b1 = (Inr None, b2)" "run_command env req p b2 = (res, b')"
proof -
  obtain d n where d: "decide_command env req p b = (d, n)" by fastforce
  let ?b = "b\<lparr>bb_decision_counter := n\<rparr>"
  obtain r1 b1 where p: "persist_shell_permission_decision env (permission_request_for req) d ?b = (r1, b1)" by fastforce
  have q1: "quiet b b1"
    using quietD [OF persist_decision_quiet, of ?b env "permission_request_for req" d] p by (auto simp: quiet_def)
  note unfolded = assms [unfolded decide_and_run_def d Let_def, simplified, unfolded bash_bind_def bash_modify_def, simplified, unfolded p]
  show ?thesis
  proof (cases r1)
    case (Inl e)
    then show ?thesis using unfolded q1 not_run by simp
  next
    case (Inr s)
    obtain r2 b2 where a: "authorize_command env req p d s b1 = (r2, b2)" by fastforce
    have q2: "quiet b b2"
      using quietD [OF authorize_quiet, of b1 env req p d s] a q1 quiet_trans by fastforce
    show ?thesis
    proof (cases "r2 = Inr None")
      case True
      then show ?thesis using unfolded d p a Inr run by simp
    next
      case False
      then have "b' = b2"
        using unfolded a Inr by (auto simp: bash_return_def split: sum.splits option.splits)
      then show ?thesis using q2 not_run by simp
    qed
  qed
qed

lemma execute_bash_cases:
  assumes "execute_bash env req b0 = (res, b')"
  obtains (not_run) "quiet b0 b'"
  | (run) b cwd p where
      "b = b0\<lparr>bb_log := bb_log b0 @ snd (be_validation env), bb_pending := bb_pending b0 @ snd (be_validation env)\<rparr>"
      "resolve_workdir (be_tree env) (bb_root b0) (br_workdir req) = Some cwd"
      "executor (config (bb_shell_policy b0)) = ''host''"
      "prepare_command env (bb_shell_policy b0) req cwd = Some p" "decide_and_run env req p b = (res, b')"
proof -
  let ?b = "b0\<lparr>bb_log := bb_log b0 @ snd (be_validation env), bb_pending := bb_pending b0 @ snd (be_validation env)\<rparr>"
  have deny: "quiet b0 (snd (deny_and_finish env req reason guidance ?b))" for reason guidance
    using quietD [OF deny_quiet, of ?b env req reason guidance] by (simp add: quiet_def)
  have same: "quiet b0 ?b" by (simp add: quiet_same)
  show ?thesis
    using assms run [OF refl] not_run deny same unfolding execute_bash_def Let_def case_prod_beta
    by (auto split: if_splits option.splits) (metis snd_conv)+
qed

lemma split_at_run:
  assumes "xs @ Ran p # ys = xs' @ Ran p' # ys'" "\<forall>q. Ran q \<notin> set xs" "\<forall>q. Ran q \<notin> set xs'"
  shows "xs = xs' \<and> p = p' \<and> ys = ys'"
  using assms
proof (induction xs arbitrary: xs')
  case Nil
  then show ?case by (cases xs') auto
next
  case (Cons x xs)
  then show ?case by (cases xs') auto
qed

lemma permitted_same_setting:
  "same_setting b b' \<Longrightarrow> permitted env req p d b' \<longleftrightarrow> permitted env req p d b"
  by (simp add: permitted_def reviewer_executes_def same_setting_def)

lemma decide_and_run_ran:
  assumes "decide_and_run env req p b = (res, b')" "bb_effects b' = bb_effects b @ before @ Ran q # after"
    "\<forall>q. Ran q \<notin> set before"
  shows "q = p" "permitted env req p (fst (decide_command env req p b)) b" "\<forall>q. Ran q \<notin> set after"
    "bb_has_store b \<Longrightarrow> \<exists>events s. Stored events \<in> set before
       \<and> PermissionDecisionRecorded (bb_session_id b) (bb_turn_id b) s \<in> set events
       \<and> sum_decision_id s = decision_id (fst (decide_command env req p b))"
proof -
  have "q = p \<and> permitted env req p (fst (decide_command env req p b)) b \<and> (\<forall>q. Ran q \<notin> set after)
    \<and> (bb_has_store b \<longrightarrow> (\<exists>events s. Stored events \<in> set before
       \<and> PermissionDecisionRecorded (bb_session_id b) (bb_turn_id b) s \<in> set events
       \<and> sum_decision_id s = decision_id (fst (decide_command env req p b))))"
    using assms(1)
  proof (cases rule: decide_and_run_cases)
    case not_run
    then show ?thesis using assms(2) by (auto simp: quiet_def)
  next
    case (run d n s b1 b2)
    let ?b = "b\<lparr>bb_decision_counter := n\<rparr>"
    note stored = persist_decision_Inr [OF run(2)]
    obtain pre where pre: "bb_effects b1 = bb_effects b @ pre" "\<forall>q. Ran q \<notin> set pre"
      using quietD [OF persist_decision_quiet, of ?b env "permission_request_for req" d] run(2)
      by (auto simp: quiet_def)
    obtain mid where mid: "bb_effects b2 = bb_effects b1 @ mid" "\<forall>q. Ran q \<notin> set mid"
      using quietD [OF authorize_quiet, of b1 env req p d s] run(3) by (auto simp: quiet_def)
    obtain post where post: "bb_effects b' = bb_effects b2 @ Ran p # post" "\<forall>q. Ran q \<notin> set post"
      using run_command_effects [of env req p b2] run(4) by auto
    have "before @ Ran q # after = (pre @ mid) @ Ran p # post"
      using assms(2) pre mid post by simp
    then have split: "before = pre @ mid" "q = p" "after = post"
      using split_at_run assms(3) pre(2) mid(2) by (metis (no_types, lifting) UnE set_append)+
    have "same_setting b b1" using stored(2) by (simp add: same_setting_def)
    then have "permitted env req p d b" using authorize_None [OF run(3)] permitted_same_setting by blast
    moreover have "\<exists>events. Stored events \<in> set before
        \<and> PermissionDecisionRecorded (bb_session_id b) (bb_turn_id b) s \<in> set events" if "bb_has_store b"
      using stored(3) that pre(1) split(1) by auto
    moreover have "sum_decision_id s = decision_id d" using stored(1) by (simp add: summary_def)
    ultimately show ?thesis using run(1) split post(2) by auto
  qed
  then show "q = p" "permitted env req p (fst (decide_command env req p b)) b" "\<forall>q. Ran q \<notin> set after"
    "bb_has_store b \<Longrightarrow> \<exists>events s. Stored events \<in> set before
       \<and> PermissionDecisionRecorded (bb_session_id b) (bb_turn_id b) s \<in> set events
       \<and> sum_decision_id s = decision_id (fst (decide_command env req p b))" by auto
qed

lemma permitted_not_reserved:
  assumes "permitted env req p (fst (decide_command env req p b)) b" "bb_review_policy b = Some policy"
    "r \<in> set (policy_global policy @ policy_project policy)" "is_human_performs r"
  shows "\<not> restriction_matches (be_words env) r (permission_request_for req)"
proof
  assume m: "restriction_matches (be_words env) r (permission_request_for req)"
  let ?d = "fst (decide_command env req p b)"
  have snapshot: "review_policy_snapshot b = policy" using assms(2) by (simp add: review_policy_snapshot_def)
  have "d_reason ?d = ''restriction_human_performs''"
    using shell_engine.held_for_human [OF assms(3) m assms(4)] by (simp add: decide_command_def snapshot)
  moreover have "\<not> is_Allowed ?d"
    using shell_engine.allowed_unrestricted [OF _ assms(3)] m
    by (cases ?d) (auto simp: decide_command_def snapshot)
  ultimately have "d_reason ?d = ''restriction_human_performs'' \<and> \<not> is_Allowed ?d" by simp
  then show False using assms(1) by (simp add: permitted_def)
qed

text \<open>
  C3. When the bash handler runs a command, the working directory resolved inside the project,
  the command that runs is the one prepared from the request, and the decision of the
  permission engine on exactly this command permits it: it is allowed, or the user approved
  this request under this decision's id, or the reviewer routed it to execution; a restriction
  that reserves the command for a human keeps it from running whatever else is granted. The
  decision had been appended to the session store before, if there is one, and the command
  runs once.
\<close>

theorem bash_runs_only_permitted:
  assumes "execute_bash env req b = (res, b')" "bb_effects b' = bb_effects b @ before @ Ran p # after"
    "\<forall>q. Ran q \<notin> set before"
  shows "\<exists>cwd. resolve_workdir (be_tree env) (bb_root b) (br_workdir req) = Some cwd
     \<and> prepare_command env (bb_shell_policy b) req cwd = Some p
     \<and> permitted env req p (fst (decide_command env req p b)) b
     \<and> (\<forall>policy r. bb_review_policy b = Some policy \<and> r \<in> set (policy_global policy @ policy_project policy)
          \<and> is_human_performs r \<longrightarrow> \<not> restriction_matches (be_words env) r (permission_request_for req))
     \<and> (bb_has_store b \<longrightarrow> (\<exists>events s. Stored events \<in> set before
          \<and> PermissionDecisionRecorded (bb_session_id b) (bb_turn_id b) s \<in> set events
          \<and> sum_decision_id s = decision_id (fst (decide_command env req p b))))
     \<and> (\<forall>q. Ran q \<notin> set after)"
  using assms(1)
proof (cases rule: execute_bash_cases)
  case not_run
  then show ?thesis using assms(2) by (auto simp: quiet_def)
next
  case (run b0 cwd p')
  have setting: "decide_command env req p' b0 = decide_command env req p' b" "same_setting b b0"
    "bb_effects b0 = bb_effects b"
    using run(1) by (simp_all add: decide_command_def is_granted_def review_policy_snapshot_def same_setting_def)
  note ran = decide_and_run_ran [OF run(5) assms(2) [folded setting(3)] assms(3), unfolded setting(1)]
  have permitted: "permitted env req p (fst (decide_command env req p b)) b"
    using ran(1,2) permitted_same_setting [OF setting(2)] by simp
  show ?thesis
    using run(2,4) ran permitted permitted_not_reserved [OF permitted] setting(2)
    by (auto simp: same_setting_def)
qed

definition demo_bash_env :: "review_input \<Rightarrow> bash_env" where
  "demo_bash_env input = \<lparr>be_words = (\<lambda>s. Some [s]), be_uppercase = (\<lambda>s. s), be_vars = [], be_tree = (\<lambda>_. None),
     be_validation = (True, []), be_moments = (\<lambda>_. demo_shared 1), be_review_cancelled = False, be_input = input,
     be_run = (\<lambda>_. RunEnded (Inr \<lparr>exit_code = Some 0, command_output = ''ok'', output_bytes_total = 2,
        truncated = False, duration_ms = 3, timed_out = False\<rparr>)), be_timing = no_timing,
     be_store_ok = (\<lambda>_. True), be_ui_ok = (\<lambda>_. True), be_budget = (\<lambda>_. None)\<rparr>"

definition demo_bash_request :: bash_request where
  "demo_bash_request = \<lparr>br_request_id = ''r1'', br_provider_call_id = Some ''call-1'', br_command = Some ''make'', br_workdir = None, br_timeout = None\<rparr>"

definition demo_bash_batch :: bash_batch where
  "demo_bash_batch = \<lparr>bb_session_id = ''s'', bb_turn_id = ''t'', bb_root = [''work''],
     bb_shell_policy = \<lparr>config = default_shell_config, allow_entries = []\<rparr>, bb_approval_mode = Review,
     bb_structured_review_rows = True, bb_has_store = True, bb_coordinator = None,
     bb_review_policy = Some empty_review_policy, bb_shared = demo_shared 1, bb_log = [], bb_pending = [],
     bb_grants = Some {}, bb_decision_counter = 0, bb_review_counter = 0, bb_store_calls = 0, bb_ui_calls = 0,
     bb_effects = []\<rparr>"

definition is_run :: "bash_effect \<Rightarrow> bool" where
  "is_run e \<longleftrightarrow> (case e of Ran _ \<Rightarrow> True | _ \<Rightarrow> False)"

definition demo_bash_run :: "tool_review_decision \<Rightarrow> bash_effect list" where
  "demo_bash_run decision = bb_effects (snd (execute_bash
     (demo_bash_env (InputDecision ''r1'' ''command-review-1'' (fst (next_permission_decision_id 0)) decision))
     demo_bash_request demo_bash_batch))"

lemma demo_bash_decided:
  "decide_command env demo_bash_request p demo_bash_batch
   = (NeedsUserReview (fst (next_permission_decision_id 0)) UserReviewer Ask ''approval_mode_requires_review''
        (permission_prompt_for (permission_request_for demo_bash_request)) 0, snd (next_permission_decision_id 0))"
  by (simp add: decide_command_def decide_shell_def check_restrictions_None shell_decision_def demo_bash_batch_def
      review_policy_snapshot_def is_granted_def empty_review_policy_def permission_request_for_def auto_run_eligible_def
      selected_restriction_spec strongest_spec_None case_prod_beta)

lemma demo_bash_runs: "list_ex is_run (demo_bash_run Approve)" "\<not> list_ex is_run (demo_bash_run Reject)"
proof -
  obtain p where p: "prepare_command (demo_bash_env input) (bb_shell_policy demo_bash_batch) demo_bash_request [''work''] = Some p"
    for input
    by (simp add: prepare_command_def clamp_timeout_ms_def demo_bash_batch_def demo_bash_request_def demo_bash_env_def
        default_shell_config_def SHELL_DEFAULT_TIMEOUT_MS_def SHELL_MAX_TIMEOUT_MS_def SHELL_MIN_TIMEOUT_MS_def rust_clamp_def)
  have step: "demo_bash_run decision = bb_effects (snd (decide_and_run
     (demo_bash_env (InputDecision ''r1'' ''command-review-1'' (fst (next_permission_decision_id 0)) decision))
       demo_bash_request p demo_bash_batch))" for decision
    unfolding demo_bash_run_def execute_bash_def
    using p [of "InputDecision ''r1'' ''command-review-1'' (fst (next_permission_decision_id 0)) decision"]
    by (simp add: demo_bash_env_def demo_bash_batch_def demo_bash_request_def resolve_workdir_def default_shell_config_def)
  have one: "show_nat 1 = ''1''" by code_simp
  show "list_ex is_run (demo_bash_run Approve)" "\<not> list_ex is_run (demo_bash_run Reject)"
    unfolding step decide_and_run_def demo_bash_decided
    by (simp_all add: authorize_command_def bash_bind_def bash_modify_def persist_shell_permission_decision_def
      persist_tool_review_event_def push_native_session_event_def append_pending_def send_ui_def bash_return_def
      shell_disposition_for_decision_def demo_bash_batch_def demo_bash_request_def ask_user_def Let_def
      demo_bash_env_def case_prod_beta next_command_review_id_def wait_for_command_review_decision_def
      persist_shell_review_resolution_def finish_failed_def record_native_bash_finished_event_def run_command_def
      is_run_def bash_fail_def one [simplified] Let_def review_resolution_def u64_max_def)
qed

theorem bash_runs_only_permitted_witness:
  "\<exists>p. Ran p \<in> set (demo_bash_run Approve) \<and> \<not> list_ex is_run (demo_bash_run Reject)
     \<and> permitted (demo_bash_env (InputDecision ''r1'' ''command-review-1'' (fst (next_permission_decision_id 0)) Approve))
         demo_bash_request p (fst (decide_command
           (demo_bash_env (InputDecision ''r1'' ''command-review-1'' (fst (next_permission_decision_id 0)) Approve))
           demo_bash_request p demo_bash_batch)) demo_bash_batch"
proof -
  let ?env = "demo_bash_env (InputDecision ''r1'' ''command-review-1'' (fst (next_permission_decision_id 0)) Approve)"
  obtain before e after where e: "demo_bash_run Approve = before @ e # after" "is_run e" "\<forall>y \<in> set before. \<not> is_run y"
    using split_list_first_prop [of "demo_bash_run Approve" is_run] demo_bash_runs(1)
    by (auto simp: list_ex_iff)
  then obtain p where p: "e = Ran p" by (auto simp: is_run_def split: bash_effect.splits)
  obtain res b' where x: "execute_bash ?env demo_bash_request demo_bash_batch = (res, b')" by fastforce
  have effects: "bb_effects b' = bb_effects demo_bash_batch @ before @ Ran p # after"
    using e(1) x unfolding demo_bash_run_def p by (simp add: demo_bash_batch_def)
  have "\<forall>q. Ran q \<notin> set before" using e(3) by (auto simp: is_run_def)
  from bash_runs_only_permitted [OF x effects this] have "permitted ?env demo_bash_request p
      (fst (decide_command ?env demo_bash_request p demo_bash_batch)) demo_bash_batch" by blast
  then show ?thesis using e(1) p demo_bash_runs(2) by auto
qed

end
