(* ===== verification/Session_Properties.thy ===== *)
theory Session_Properties
  imports Session
begin

text \<open>
  Properties of the session log: what is appended is read back, what an interrupted append
  leaves behind, and that the next turn has a new index.
\<close>

section \<open>Lines\<close>

lemma raw_lines_cases: "s \<noteq> [] \<Longrightarrow> raw_lines s \<noteq> []"
  by (cases s) (auto split: list.split)

text \<open>What ends with a line end is split apart from what follows.\<close>

definition terminated :: "string \<Rightarrow> bool" where
  "terminated s \<longleftrightarrow> s = [] \<or> last s = line_end"

lemma terminated_append: "terminated a \<Longrightarrow> terminated b \<Longrightarrow> terminated (a @ b)"
  by (cases "b = []") (simp_all add: terminated_def)

lemma raw_lines_append: "terminated a \<Longrightarrow> raw_lines (a @ b) = raw_lines a @ raw_lines b"
proof (induction a)
  case (Cons c a)
  show ?case
  proof (cases "a = []")
    case True
    then show ?thesis using Cons.prems by (simp add: terminated_def)
  next
    case False
    then have "terminated a" using Cons.prems by (simp add: terminated_def)
    then show ?thesis using Cons.IH raw_lines_cases [OF False] by (auto split: list.splits)
  qed
qed (simp add: terminated_def)

lemma raw_lines_single: "line_end \<notin> set l \<Longrightarrow> l \<noteq> [] \<Longrightarrow> raw_lines l = [l]"
proof (induction l)
  case (Cons c l)
  then show ?case by (cases "l = []") (auto split: list.splits)
qed simp

lemma raw_lines_line: "line_end \<notin> set l \<Longrightarrow> raw_lines (l @ line_end # rest) = (l @ [line_end]) # raw_lines rest"
proof (induction l)
  case (Cons c l)
  then show ?case by auto
qed simp

lemma line_text_line: "l = [] \<or> last l \<noteq> carriage_return \<Longrightarrow> line_text (l @ [line_end]) = l"
  by (auto simp: line_text_def)

section \<open>Loading\<close>

lemma load_lines_append:
  "load_lines decode unknown n (xs @ ys) =
     (case load_lines decode unknown n xs of
        None \<Rightarrow> None
      | Some (es, ws) \<Rightarrow> map_option (\<lambda>(es', ws'). (es @ es', ws @ ws')) (load_lines decode unknown (n + length xs) ys))"
proof (induction xs arbitrary: n)
  case Nil
  show ?case by (cases "load_lines decode unknown n ys") auto
next
  case (Cons x xs)
  have shift: "Suc n + length xs = n + length (x # xs)" by simp
  show ?case
    using Cons.IH [of "Suc n"] unfolding shift
    by (cases "load_lines decode unknown (Suc n) xs";
        cases "load_lines decode unknown (n + length (x # xs)) ys")
      (auto split: sum.split option.split prod.split)
qed

text \<open>
  What the log relies on of the encoding of an event: it is one line of UTF-8 text that reads
  back as the event, with or without the stamp.
\<close>

definition codec_law :: "session_codec \<Rightarrow> nat option \<Rightarrow> session_event \<Rightarrow> bool" where
  "codec_law codec stamp e \<longleftrightarrow> (\<exists>line. write_stamped codec stamp e = Some line \<and> utf8_valid line
     \<and> line_end \<notin> set line \<and> trim line \<noteq> [] \<and> last line \<noteq> carriage_return
     \<and> read_event codec line = Inr e \<and> read_stamped codec line = Inr (stamp, e))"

text \<open>A part of an event's line that is not the whole of it is no event.\<close>

definition prefix_law :: "session_codec \<Rightarrow> nat option \<Rightarrow> session_event \<Rightarrow> bool" where
  "prefix_law codec stamp e \<longleftrightarrow> (\<forall>line q. write_stamped codec stamp e = Some line \<and> strict_prefix q line
     \<longrightarrow> (\<exists>reason. read_event codec q = Inl reason))"

definition known :: "session_event list \<Rightarrow> session_event list" where
  "known events = filter (\<lambda>e. e \<noteq> UnknownEvent) events"

lemma utf8_valid_line_end: "utf8_valid line \<Longrightarrow> utf8_valid (line @ [line_end])"
  by (rule utf8_valid_append) (auto intro: utf8_valid_ascii)

lemma trim_Nil: "trim [] = []"
  by (simp add: trim_def)

lemma encode_loads:
  assumes "\<forall>e \<in> set (known events). codec_law codec stamp e"
  obtains buffer where "encode_stamped_lines codec stamp events = Some buffer" "terminated buffer" "utf8_valid buffer"
    "\<And>n. load_lines (read_event codec) (\<lambda>e. e = UnknownEvent) n (raw_lines buffer) = Some (known events, [])"
    "\<And>n. load_lines (read_stamped codec) (\<lambda>(_, e). e = UnknownEvent) n (raw_lines buffer)
        = Some (map (Pair stamp) (known events), [])"
  using assms
proof (induction events arbitrary: thesis)
  case Nil
  then show ?case by (auto simp: terminated_def known_def)
next
  case (Cons e events)
  from Cons.prems(2) have laws: "\<forall>e \<in> set (known events). codec_law codec stamp e"
    by (auto simp: known_def)
  show ?case
  proof (rule Cons.IH [OF _ laws])
    fix buffer
    assume b: "encode_stamped_lines codec stamp events = Some buffer" "terminated buffer" "utf8_valid buffer"
      "\<And>n. load_lines (read_event codec) (\<lambda>e. e = UnknownEvent) n (raw_lines buffer) = Some (known events, [])"
      "\<And>n. load_lines (read_stamped codec) (\<lambda>(_, e). e = UnknownEvent) n (raw_lines buffer)
        = Some (map (Pair stamp) (known events), [])"
    show thesis
    proof (cases "e = UnknownEvent")
      case True
      then show ?thesis using b Cons.prems(1) [of buffer] by (simp add: known_def)
    next
      case False
      then have "codec_law codec stamp e" using Cons.prems(2) by (simp add: known_def)
      then obtain line where l: "write_stamped codec stamp e = Some line" "utf8_valid line" "line_end \<notin> set line"
        "trim line \<noteq> []" "last line \<noteq> carriage_return" "read_event codec line = Inr e"
        "read_stamped codec line = Inr (stamp, e)"
        unfolding codec_law_def by auto
      let ?buffer = "line @ line_end # buffer"
      have "utf8_valid ?buffer"
        using utf8_valid_append [OF utf8_valid_line_end [OF l(2)] b(3)] by simp
      moreover have "terminated ?buffer" using b(2) by (auto simp: terminated_def)
      ultimately show ?thesis
        using False l b Cons.prems(1) [of ?buffer] line_text_line [of line] utf8_valid_line_end [OF l(2)]
        by (simp add: raw_lines_line known_def trim_Nil)
    qed
  qed
qed

section \<open>Appending\<close>

definition session_text :: "fs \<Rightarrow> spath \<Rightarrow> string" where
  "session_text s path = (case nodes s path of Some (File c _) \<Rightarrow> c | _ \<Rightarrow> [])"

abbreviation loads :: "session_codec \<Rightarrow> string \<Rightarrow> (session_event list \<times> session_load_warning list) option" where
  "loads codec bytes \<equiv> load_lines (read_event codec) (\<lambda>e. e = UnknownEvent) 0 (raw_lines bytes)"

lemma create_session_dir_frame:
  assumes "create_session_dir (butlast p) s = (b, t)" "p \<noteq> []"
  shows "nodes t p = nodes s p" "deny_read t = deny_read s"
proof -
  have "\<not> prefix p (butlast p)" using prefix_length_le [of p "butlast p"] assms(2) by (cases p) auto
  then show "nodes t p = nodes s p"
    using assms(1) fs_create_dirs_inside by (auto simp: create_session_dir_def split: if_splits)
  show "deny_read t = deny_read s"
    using assms(1) fs_create_dirs_added [of "prefixes (butlast p)" s]
    by (auto simp: create_session_dir_def dirs_added_def same_oracles_def split: if_splits)
qed

lemma open_append_frame:
  assumes "open_append_file p s = (b, t)"
  shows "session_text t p = session_text s p" "deny_read t = deny_read s" "b \<Longrightarrow> \<exists>c m. nodes t p = Some (File c m)"
  using assms
  by (auto simp: open_append_file_def fs_open_append_def session_text_def split: if_splits option.splits node.splits)

lemma write_all_text:
  assumes "fs_write_all p bytes s = (b, t)"
  shows "deny_read t = deny_read s" "\<exists>w. prefix w bytes \<and> session_text t p = session_text s p @ w"
    "b \<Longrightarrow> session_text t p = session_text s p @ bytes" "b \<Longrightarrow> \<exists>c m. nodes t p = Some (File c m)"
  using assms
  by (auto simp: fs_write_all_def session_text_def take_is_prefix split: if_splits option.splits node.splits)

text \<open>An append adds its encoding, or a part of it when it fails.\<close>

lemma write_events_text:
  assumes "write_events codec stamp p events s = (b, t)" "p \<noteq> []" "encode_stamped_lines codec stamp events = Some buffer"
  shows "deny_read t = deny_read s" "\<exists>w. prefix w buffer \<and> session_text t p = session_text s p @ w"
    "b \<Longrightarrow> session_text t p = session_text s p @ buffer" "b \<Longrightarrow> \<exists>c m. nodes t p = Some (File c m)"
proof -
  obtain b1 s1 where d: "create_session_dir (butlast p) s = (b1, s1)" by fastforce
  obtain b2 s2 where o: "open_append_file p s1 = (b2, s2)" by fastforce
  obtain b3 s3 where w: "fs_write_all p buffer s2 = (b3, s3)" by fastforce
  have t: "(b, t) = (if \<not> b1 then (False, s1) else if \<not> b2 then (False, s2) else (b3, s3))"
    using assms(1,3) d o w by (auto simp: write_events_def and_then_def split: prod.splits bool.splits)
  note dir = create_session_dir_frame [OF d assms(2)]
  have text1: "session_text s1 p = session_text s p" using dir by (simp add: session_text_def)
  note op = open_append_frame [OF o] and wr = write_all_text [OF w]
  show "deny_read t = deny_read s" using t dir op wr by (auto split: if_splits)
  show "\<exists>w. prefix w buffer \<and> session_text t p = session_text s p @ w"
    using t text1 op wr by (auto split: if_splits)
  show "b \<Longrightarrow> session_text t p = session_text s p @ buffer"
    using t text1 op wr by (auto split: if_splits)
  show "b \<Longrightarrow> \<exists>c m. nodes t p = Some (File c m)"
    using t text1 op wr by (auto split: if_splits)
qed

lemma sync_text:
  assumes "and_then f fs_sync_all s = (b, t)"
  obtains b' s' where "f s = (b', s')" "nodes t = nodes s'" "deny_read t = deny_read s'" "b \<Longrightarrow> b'"
  using assms by (auto simp: and_then_def fs_sync_all_def split: prod.splits bool.splits)

lemma load_from_text:
  assumes "nodes t p = Some (File c m)" "\<not> deny_read t p"
  shows "session_bytes t p = Some (session_text t p)"
  using assms by (simp add: session_bytes_def session_text_def)

lemma loads_append:
  assumes "terminated old" "loads codec old = Some (es, ws)"
    "\<And>n. load_lines (read_event codec) (\<lambda>e. e = UnknownEvent) n (raw_lines new) = Some (es', ws')"
  shows "loads codec (old @ new) = Some (es @ es', ws @ ws')"
  using assms by (simp add: raw_lines_append load_lines_append)

section \<open>A small log\<close>

definition demo_event :: session_event where
  "demo_event = TurnFinished ''s'' ''turn-0'' TurnCompleted None"

definition demo_codec :: session_codec where
  "demo_codec = \<lparr>write_stamped = (\<lambda>_ _. Some ''{e}''),
     read_event = (\<lambda>l. if l = ''{e}'' then Inr demo_event else Inl ''expected an event''),
     read_stamped = (\<lambda>l. if l = ''{e}'' then Inr (None, demo_event) else Inl ''expected an event'')\<rparr>"

definition demo_disk :: "(nat \<Rightarrow> bool) \<Rightarrow> fs" where
  "demo_disk faults = \<lparr>nodes = (\<lambda>p. if p = [] then Some Directory else None), deny_read = (\<lambda>_. False),
     new_mode = 420, tick = 0, fault = faults, short_write = (\<lambda>_. 2)\<rparr>"

lemma demo_laws: "\<forall>e \<in> set (known [demo_event]). codec_law demo_codec None e \<and> prefix_law demo_codec None e"
proof -
  have "trim ''{e}'' \<noteq> []" "utf8_valid ''{e}''" by code_simp+
  then show ?thesis
    by (auto simp: known_def demo_event_def codec_law_def prefix_law_def demo_codec_def)
qed

lemma demo_known: "known [demo_event] = [demo_event]"
  by (simp add: known_def demo_event_def)

lemma demo_text: "session_text (demo_disk faults) [''log''] = []"
  by (simp add: session_text_def demo_disk_def)

lemma demo_empty: "terminated (session_text (demo_disk faults) [''log''])"
  "loads demo_codec (session_text (demo_disk faults) [''log'']) = Some ([], [])"
  by (simp_all add: demo_text terminated_def)

lemma demo_append:
  "fst (append_events demo_codec None [''log''] [demo_event] (demo_disk (\<lambda>_. False)))"
  "\<not> fst (append_events demo_codec None [''log''] [demo_event] (demo_disk (\<lambda>n. n = 1)))"
  "session_text (snd (append_events demo_codec None [''log''] [demo_event] (demo_disk (\<lambda>n. n = 1)))) [''log''] = ''{e''"
  by (simp_all add: append_events_def write_events_def and_then_def create_session_dir_def open_append_file_def
      fs_open_append_def fs_write_all_def fs_sync_all_def demo_disk_def demo_codec_def demo_event_def can_hold_def
      entry_name_def valid_name_def session_text_def)

text \<open>
  C32. What is appended to the session file is read back: after a successful append, with or
  without the sync, to a file that ends with a complete line, loading returns the events it
  had, then the new ones in order (but for the unknown ones, which are never written), with no
  new warning, and the file again ends with a complete line. The encoding of an event is
  assumed to be one non-blank line of UTF-8 that decodes to it.
\<close>

theorem session_append_roundtrip:
  assumes "append_events codec stamp path events s = (True, t)
      \<or> events \<noteq> [] \<and> append_events_without_sync codec stamp path events s = (True, t)"
    "path \<noteq> []" "\<not> deny_read s path" "\<forall>e \<in> set (known events). codec_law codec stamp e"
    "terminated (session_text s path)" "loads codec (session_text s path) = Some (es, ws)"
  shows "load_from_file_with_warnings codec path t = Some (es @ known events, ws)
    \<and> load_from_file codec path t = Some (es @ known events)
    \<and> terminated (session_text t path)"
proof -
  obtain buffer where b: "encode_stamped_lines codec stamp events = Some buffer" "terminated buffer"
    "\<And>n. load_lines (read_event codec) (\<lambda>e. e = UnknownEvent) n (raw_lines buffer) = Some (known events, [])"
    using encode_loads [OF assms(4)] by metis
  obtain s' where w: "write_events codec stamp path events s = (True, s')" "nodes t = nodes s'" "deny_read t = deny_read s'"
    using assms(1)
  proof
    assume "append_events codec stamp path events s = (True, t)"
    then show thesis by (auto simp: append_events_def intro: that elim!: sync_text)
  qed (auto simp: append_events_without_sync_def intro: that)
  note wr = write_events_text [OF w(1) assms(2) b(1)]
  have txt': "session_text t path = session_text s path @ buffer" using wr(3) w(2) by (simp add: session_text_def)
  then have "loads codec (session_text t path) = Some (es @ known events, ws)"
    using loads_append [OF assms(5,6) b(3)] by simp
  moreover obtain c m where "nodes t path = Some (File c m)" using wr(4) w(2) by auto
  ultimately have "load_from_file_with_warnings codec path t = Some (es @ known events, ws)"
    using load_from_text wr(1) w(3) assms(3) by (simp add: load_from_file_with_warnings_def)
  moreover have "terminated (session_text t path)" using txt' b(2) assms(5) terminated_append by simp
  ultimately show ?thesis by (simp add: load_from_file_def)
qed

theorem session_append_roundtrip_witness:
  "load_from_file demo_codec [''log'']
     (snd (append_events demo_codec None [''log''] [demo_event] (demo_disk (\<lambda>_. False)))) = Some [demo_event]"
proof -
  let ?r = "append_events demo_codec None [''log''] [demo_event] (demo_disk (\<lambda>_. False))"
  have "?r = (True, snd ?r)" using demo_append(1) by (metis prod.collapse)
  moreover have "\<not> deny_read (demo_disk (\<lambda>_. False)) [''log'']" by (simp add: demo_disk_def)
  ultimately show ?thesis
    using session_append_roundtrip [of demo_codec None "[''log'']" "[demo_event]" "demo_disk (\<lambda>_. False)" "snd ?r" "[]" "[]"]
      demo_laws demo_empty by (simp add: demo_known)
qed

section \<open>An interrupted append\<close>

lemma encode_known: "encode_stamped_lines codec stamp (known events) = encode_stamped_lines codec stamp events"
  by (induction events) (auto simp: known_def split: option.split)

lemma encode_prefix:
  assumes "encode_stamped_lines codec stamp es = Some buffer" "prefix w buffer" "UnknownEvent \<notin> set es"
  shows "\<exists>j encoded torn. j \<le> length es \<and> encode_stamped_lines codec stamp (take j es) = Some encoded \<and> w = encoded @ torn
    \<and> (torn = [] \<or> j < length es \<and> (\<exists>line. write_stamped codec stamp (es ! j) = Some line \<and> prefix torn line))"
  using assms
proof (induction es arbitrary: buffer w)
  case Nil
  then show ?case by simp
next
  case (Cons e es)
  obtain line rest where l: "write_stamped codec stamp e = Some line"
    "encode_stamped_lines codec stamp es = Some rest" "buffer = line @ line_end # rest"
    using Cons.prems(1,3) by (auto split: option.splits if_splits)
  from Cons.prems(2) consider "prefix w line" | w2 where "w = line @ line_end # w2" "prefix w2 rest"
    unfolding l(3) by (auto simp: prefix_append prefix_Cons)
  then show ?case
  proof cases
    case 1
    then show ?thesis using l by (intro exI [of _ 0] exI [of _ "[]"] exI [of _ w]) auto
  next
    case 2
    obtain j encoded torn where j: "j \<le> length es" "encode_stamped_lines codec stamp (take j es) = Some encoded"
      "w2 = encoded @ torn" "torn = [] \<or> j < length es \<and> (\<exists>line. write_stamped codec stamp (es ! j) = Some line \<and> prefix torn line)"
      using Cons.IH [OF l(2) 2(2)] Cons.prems(3) by auto
    then show ?thesis
      using l 2(1) Cons.prems(3) by (intro exI [of _ "Suc j"] exI [of _ "line @ line_end # encoded"] exI [of _ torn]) auto
  qed
qed

lemma load_torn:
  assumes "codec_law codec stamp e" "prefix_law codec stamp e" "write_stamped codec stamp e = Some line" "prefix torn line"
  shows "load_lines (read_event codec) (\<lambda>e. e = UnknownEvent) n (raw_lines torn) =
      (if \<not> utf8_valid torn then None
       else if trim torn = [] then Some ([], [])
       else if torn = line then Some (known [e], [])
       else Some ([], [InvalidJson (n + 1) (projl (read_event codec torn))]))"
proof (cases "torn = []")
  case True
  then show ?thesis by (simp add: trim_Nil)
next
  case False
  have "line_end \<notin> set line" using assms(1,3) by (auto simp: codec_law_def)
  then have raw: "raw_lines torn = [torn]" "line_text torn = torn"
    using raw_lines_single [OF _ False] set_mono_prefix [OF assms(4)] False
    by (auto simp: line_text_def dest: last_in_set)
  have "\<exists>reason. read_event codec torn = Inl reason" if "torn \<noteq> line"
    using assms(2-4) that by (auto simp: prefix_law_def strict_prefix_def)
  then show ?thesis using assms(1,3) raw by (auto simp: codec_law_def known_def)
qed

text \<open>
  C33. An append that fails, because a call failed or stopped in the middle of the buffer,
  leaves the earlier text as it was and after it whole lines of the first events and at most a
  part of one more. If that part ends between characters, loading returns all earlier events
  and those first ones, with at most one more warning; if it ends inside a character, the file
  as a whole can no longer be loaded. Assumed: a proper part of an encoded event does not
  decode.
\<close>

theorem session_append_interrupted:
  assumes "append_events codec stamp path events s = (False, t)" "path \<noteq> []"
    "\<forall>e \<in> set (known events). codec_law codec stamp e \<and> prefix_law codec stamp e"
    "terminated (session_text s path)" "loads codec (session_text s path) = Some (es, ws)"
  shows "\<exists>j encoded torn. j \<le> length (known events)
    \<and> encode_stamped_lines codec stamp (take j (known events)) = Some encoded
    \<and> session_text t path = session_text s path @ encoded @ torn
    \<and> (if utf8_valid torn
       then \<exists>k warning. k \<le> j + 1 \<and> j \<le> k
          \<and> loads codec (session_text t path) = Some (es @ take k (known events), ws @ warning)
          \<and> (k = j \<or> warning = []) \<and> length warning \<le> 1
       else loads codec (session_text t path) = None)"
proof -
  have laws: "\<forall>e \<in> set (known events). codec_law codec stamp e" using assms(3) by blast
  obtain buffer where b: "encode_stamped_lines codec stamp events = Some buffer"
    using encode_loads [OF laws] by metis
  obtain b' s' where w: "write_events codec stamp path events s = (b', s')" "nodes t = nodes s'"
    using assms(1) by (auto simp: append_events_def elim!: sync_text)
  obtain p where p: "prefix p buffer" "session_text t path = session_text s path @ p"
    using write_events_text(2) [OF w(1) assms(2) b] w(2) by (auto simp: session_text_def)
  obtain j encoded torn where j: "j \<le> length (known events)"
    "encode_stamped_lines codec stamp (take j (known events)) = Some encoded" "p = encoded @ torn"
    "torn = [] \<or> j < length (known events)
      \<and> (\<exists>line. write_stamped codec stamp (known events ! j) = Some line \<and> prefix torn line)"
    using encode_prefix [of codec stamp "known events" buffer p] b p(1)
    unfolding encode_known by (auto simp: known_def)
  have taken: "known (take j (known events)) = take j (known events)"
    by (auto simp: known_def filter_id_conv dest: in_set_takeD)
  have laws_j: "\<forall>e \<in> set (known (take j (known events))). codec_law codec stamp e"
    using laws taken by (auto dest: in_set_takeD)
  have e: "terminated encoded"
    "\<And>n. load_lines (read_event codec) (\<lambda>e. e = UnknownEvent) n (raw_lines encoded) = Some (take j (known events), [])"
    using encode_loads [OF laws_j] j(2) taken by (metis option.inject)+
  have old: "loads codec (session_text s path @ encoded) = Some (es @ take j (known events), ws)"
    "terminated (session_text s path @ encoded)"
    using loads_append [OF assms(4,5) e(2)] terminated_append [OF assms(4) e(1)] by simp_all
  let ?n = "length (raw_lines (session_text s path @ encoded))"
  have loaded: "loads codec (session_text t path) = map_option (\<lambda>(es', ws'). (es @ take j (known events) @ es', ws @ ws'))
      (load_lines (read_event codec) (\<lambda>e. e = UnknownEvent) ?n (raw_lines torn))"
    using old p(2) j(3) raw_lines_append [OF old(2), of torn] by (simp add: load_lines_append)
  show ?thesis
  proof (cases "torn = []")
    case True
    then have "loads codec (session_text t path) = Some (es @ take j (known events), ws)" using loaded by simp
    then show ?thesis
      using j p True by (intro exI [of _ j] exI [of _ encoded] exI [of _ torn]) (auto intro: exI [of _ j])
  next
    case False
    then obtain line where l: "j < length (known events)" "write_stamped codec stamp (known events ! j) = Some line"
      "prefix torn line" using j(4) by auto
    have m: "known events ! j \<in> set (known events)" using l(1) by simp
    then have ne: "known [known events ! j] = [known events ! j]" by (auto simp: known_def)
    note tl = load_torn [of codec stamp "known events ! j" line torn ?n, OF _ _ l(2,3)]
    have "if utf8_valid torn
       then \<exists>k warning. k \<le> j + 1 \<and> j \<le> k
          \<and> loads codec (session_text t path) = Some (es @ take k (known events), ws @ warning)
          \<and> (k = j \<or> warning = []) \<and> length warning \<le> 1
       else loads codec (session_text t path) = None"
    proof (cases "utf8_valid torn \<and> trim torn \<noteq> [] \<and> torn = line")
      case True
      then have "load_lines (read_event codec) (\<lambda>e. e = UnknownEvent) ?n (raw_lines torn) = Some ([known events ! j], [])"
        using tl assms(3) m ne by auto
      then have "loads codec (session_text t path) = Some (es @ take (Suc j) (known events), ws)"
        using loaded l(1) by (simp add: take_Suc_conv_app_nth)
      then show ?thesis using True by (auto intro!: exI [of _ "Suc j"])
    next
      case False
      then show ?thesis using loaded tl assms(3) m by (auto intro!: exI [of _ j])
    qed
    then show ?thesis using j p by (intro exI [of _ j] exI [of _ encoded] exI [of _ torn]) auto
  qed
qed

theorem session_append_interrupted_witness:
  "\<exists>w. loads demo_codec (session_text
      (snd (append_events demo_codec None [''log''] [demo_event] (demo_disk (\<lambda>n. n = 1)))) [''log'']) = Some ([], w)
    \<and> length w \<le> 1"
proof -
  let ?r = "append_events demo_codec None [''log''] [demo_event] (demo_disk (\<lambda>n. n = 1))"
  have "?r = (False, snd ?r)" using demo_append(2) by (metis prod.collapse)
  from session_append_interrupted [OF this _ demo_laws demo_empty(1) demo_empty(2)]
  obtain j encoded torn where j: "j \<le> 1" "encode_stamped_lines demo_codec None (take j [demo_event]) = Some encoded"
    "''{e'' = encoded @ torn"
    "if utf8_valid torn
       then \<exists>k w. k \<le> j + 1 \<and> j \<le> k
          \<and> loads demo_codec (session_text (snd ?r) [''log'']) = Some (take k [demo_event], w)
          \<and> (k = j \<or> w = []) \<and> length w \<le> 1
       else loads demo_codec (session_text (snd ?r) [''log'']) = None"
    unfolding demo_append(3) demo_known demo_text append_Nil list.size One_nat_def [symmetric] add_0 by blast
  then have zero: "j = 0" "torn = ''{e''"
    by (auto simp: demo_codec_def demo_event_def le_Suc_eq)
  have torn: "utf8_valid ''{e''" "loads demo_codec ''{e'' = Some ([], [InvalidJson 1 ''expected an event''])"
    by (code_simp, simp add: demo_codec_def line_text_def trim_def is_whitespace_def)
  show ?thesis using j(4) zero torn unfolding demo_append(3) by auto
qed

text \<open>
  The store appends where the file ends. After an append that left part of a line, the next
  event is read as the rest of that line and is lost with it.
\<close>

lemma torn_line_swallows_next:
  assumes "terminated old" "loads codec old = Some (es, ws)" "line_end \<notin> set (torn @ line)" "line \<noteq> []"
    "utf8_valid (torn @ line)" "trim (torn @ line) \<noteq> []" "last line \<noteq> carriage_return"
    "read_event codec (torn @ line) = Inl reason"
  shows "loads codec (old @ torn @ line @ [line_end])
    = Some (es, ws @ [InvalidJson (length (raw_lines old) + 1) reason])"
proof -
  have "raw_lines ((torn @ line) @ [line_end]) = [(torn @ line) @ [line_end]]"
    using raw_lines_line [OF assms(3), of "[]"] by simp
  moreover have "line_text ((torn @ line) @ [line_end]) = torn @ line"
    using assms(4,7) by (intro line_text_line) simp
  ultimately show ?thesis
    using assms utf8_valid_line_end [OF assms(5)] raw_lines_append [OF assms(1)] by (simp add: load_lines_append)
qed

section \<open>Turns\<close>

text \<open>
  The index a new turn gets is fresh: no event of the log that counts towards it belongs
  to a turn of that name, as long as the index does not saturate.
\<close>

lemma next_turn_fresh:
  assumes "next_turn_index events < u64_max" "e \<in> set events"
  shows "event_turn_id e \<noteq> Some (''turn-'' @ show_nat (next_turn_index events))"
proof
  assume turn: "event_turn_id e = Some (''turn-'' @ show_nat (next_turn_index events))"
  let ?is = "List.map_filter numeric_turn_index (List.map_filter event_turn_id events)"
  have "numeric_turn_index (''turn-'' @ show_nat (next_turn_index events)) = Some (next_turn_index events)"
    using assms(1) by (simp add: numeric_turn_index_def parse_u64_show_nat)
  then have mem: "next_turn_index events \<in> set ?is"
    using turn assms(2) by (force simp: map_filter_def)
  then obtain i rest where split: "?is = i # rest" by (cases ?is) auto
  have "next_turn_index events \<le> fold max rest i"
    using mem unfolding split Max.set_eq_fold [symmetric] by simp
  moreover have "next_turn_index events = u64_saturating_add (fold max rest i) 1"
    unfolding next_turn_index_def split by simp
  ultimately show False using assms(1) by (simp add: u64_saturating_add_def)
qed

lemma next_turn_fresh_witness:
  "next_turn_index [demo_event] = 1 \<and> event_turn_id demo_event \<noteq> Some (''turn-'' @ show_nat 1)"
proof -
  have "show_nat 0 = ''0''" by code_simp
  then have "parse_u64 ''0'' = Some 0" using parse_u64_show_nat [of 0] by simp
  then have "next_turn_index [demo_event] = 1"
    by (simp add: next_turn_index_def demo_event_def event_turn_id_def map_filter_def numeric_turn_index_def
        u64_saturating_add_def u64_max_def)
  then show ?thesis using next_turn_fresh [of "[demo_event]" demo_event] by (simp add: u64_max_def)
qed

end
