(* ===== verification/Edit_Access.thy ===== *)
theory Edit_Access
  imports Edit_Properties Review_Coordinator
begin

text \<open>
  The layer between the edit engine and its callers, \<^verbatim>\<open>edit_access.rs\<close> and \<^verbatim>\<open>edit_harness.rs\<close>:
  a request is decided by the permission engine, previewed and kept pending; a pending preview
  is applied once, under the decision it was prepared with and only while the revisions it was
  prepared under are current, after a write-ahead record; or it is rejected. The fields of a
  pending preview that the source marks as dead code, the fingerprint of the action and the
  grant, are left out.
\<close>

section \<open>Evidence\<close>

fun prepared_operation_evidence :: "prepared_operation \<Rightarrow> edit_operation_evidence" where
  "prepared_operation_evidence (PreparedModify relative _ before after before_len after_len hunks) =
     ModifyEvidence relative before after before_len after_len hunks None"
| "prepared_operation_evidence (PreparedCreate relative _ after after_len) =
     CreateEvidence relative after after_len None"

fun applied_operation_evidence :: "applied_operation \<Rightarrow> edit_operation_evidence" where
  "applied_operation_evidence (AppliedModify relative before after before_len after_len hunks written) =
     ModifyEvidence relative before after before_len after_len hunks (Some written)"
| "applied_operation_evidence (AppliedCreate relative after after_len written) =
     CreateEvidence relative after after_len (Some written)"

definition edit_prepared_evidence_summary :: "prepared_transaction \<Rightarrow> edit_evidence_summary" where
  "edit_prepared_evidence_summary tx =
     \<lparr>ee_operation_count = operation_count tx, ee_operations = map prepared_operation_evidence (operations tx),
      ee_diff_summary = \<lparr>tp_summary = ''edit diff summary redacted'', tp_byte_count = diff_summary_bytes tx,
        tp_redacted = True, tp_truncated = diff_summary_truncated tx\<rparr>\<rparr>"

definition edit_apply_evidence_summary :: "edit_apply_result \<Rightarrow> edit_evidence_summary" where
  "edit_apply_evidence_summary r =
     \<lparr>ee_operation_count = r_operation_count r, ee_operations = map applied_operation_evidence (r_operations r),
      ee_diff_summary = \<lparr>tp_summary = ''edit diff summary redacted'', tp_byte_count = r_diff_summary_bytes r,
        tp_redacted = True, tp_truncated = r_diff_summary_truncated r\<rparr>\<rparr>"

section \<open>State\<close>

record edit_access_context =
  eac_session_id :: string
  eac_turn_id :: string
  eac_edit_mode :: permission_mode
  eac_edit_policy :: edit_policy
  eac_tool_request_id :: "string option"
  eac_review_policy :: review_policy
  eac_authorization_revision :: nat

datatype edit_access_review_state = EditAllowed | NeedsUserApproval | AutoReviewUnavailable | EditHumanPerforms

record edit_preview =
  ep_preview_id :: string
  ep_transaction_id :: string
  ep_permission_decision_id :: string
  ep_review_state :: edit_access_review_state
  ep_operation_count :: nat
  ep_diff_summary :: string
  ep_diff_summary_truncated :: bool
  ep_diff_summary_bytes :: nat

datatype edit_access_error =
    AccessDenied string | AccessPreview edit_error | AccessApply edit_error | PreviewNotFound
  | DecisionMismatch | EvidencePersistFailed | StaleAuthorization

record edit_access_prepare_diagnostics =
  ed_permission_decision_id :: string
  ed_review_state :: edit_access_review_state
  ed_transaction_id :: "string option"
  ed_reason_label :: "string option"

datatype edit_access_prepare_error =
    PrepareDenied string edit_access_prepare_diagnostics
  | PreparePreview edit_error edit_access_prepare_diagnostics

record pending_edit_preview =
  pe_context :: edit_access_context
  pe_root :: resource_root
  pe_prepared :: prepared_transaction
  pe_permission_decision_id :: string
  pe_permission_summary :: permission_decision_summary
  pe_policy_revision :: nat
  pe_authorization_revision :: nat
  pe_reviewer_generation :: nat

text \<open>
  The pending previews with what the operations share: the file system, the counters of the
  process, and what the event sink holds. \<open>sink_ok\<close> says which appends succeed and \<open>sink_kept\<close> how
  many of its events a failed one leaves behind: the session store writes before it syncs and a
  sink may append one by one, so that may be any number of them; the buffer of a round of tool
  calls, which is extended only after the store has taken the events, keeps none.
\<close>

record edit_world =
  ew_fs :: fs
  ew_pending :: "string \<rightharpoonup> pending_edit_preview"
  ew_stored :: "session_event list"
  ew_sink_calls :: nat
  ew_decision_counter :: nat
  ew_request_counter :: nat
  ew_preview_counter :: nat
  ew_transaction_counter :: nat

record edit_access_env =
  ea_edit :: edit_env
  ea_words :: word_splitter
  sink_ok :: "nat \<Rightarrow> bool"
  sink_kept :: "nat \<Rightarrow> nat"

definition sink_append :: "edit_access_env \<Rightarrow> session_event list \<Rightarrow> edit_world \<Rightarrow> bool \<times> edit_world" where
  "sink_append env events w =
     (if sink_ok env (ew_sink_calls w)
      then (True, w\<lparr>ew_sink_calls := Suc (ew_sink_calls w), ew_stored := ew_stored w @ events\<rparr>)
      else (False, w\<lparr>ew_sink_calls := Suc (ew_sink_calls w),
              ew_stored := ew_stored w @ take (sink_kept env (ew_sink_calls w)) events\<rparr>))"

section \<open>The permission request of an edit\<close>

fun normal_parts :: "component list \<Rightarrow> string list \<Rightarrow> string + string list" where
  "normal_parts [] parts = Inr parts"
| "normal_parts (Normal n # cs) parts =
     (if utf8_valid n then normal_parts cs (parts @ [n]) else Inl ''<redacted_resource>'')"
| "normal_parts (CurDir # cs) parts = normal_parts cs parts"
| "normal_parts (ParentDir # cs) parts = Inl ''<path_traversal>''"
| "normal_parts (RootDir # cs) parts = Inl ''<absolute_path>''"

definition summarized_permission_resource :: "string \<Rightarrow> string" where
  "summarized_permission_resource path =
     (if is_absolute path then ''<absolute_path>''
      else (case normal_parts (path_components path) [] of
          Inl label \<Rightarrow> label
        | Inr parts \<Rightarrow>
            if parts = [] then ''<empty_path>''
            else if hd parts = ''.git'' \<or> hd parts = ''target'' \<or> prefix [''.yach'', ''sessions''] parts
            then ''<metadata_path>''
            else path))"

definition next_edit_permission_request_id :: "nat \<Rightarrow> string \<times> nat" where
  "next_edit_permission_request_id n = (''edit-permission-request-'' @ show_nat n, (n + 1) mod (u64_max + 1))"

definition next_edit_preview_id :: "nat \<Rightarrow> string \<times> nat" where
  "next_edit_preview_id n = (''edit-preview-'' @ show_nat n, (n + 1) mod (u64_max + 1))"

fun edit_target :: "edit_operation list \<Rightarrow> string \<times> string" where
  "edit_target [] = (''empty_edit_transaction'', ''<none>'')"
| "edit_target (ModifyTextFile path _ _ # _) = (''modify_text_file'', summarized_permission_resource path)"
| "edit_target (ReplaceTextFile path _ _ # _) = (''modify_text_file'', summarized_permission_resource path)"
| "edit_target (CreateTextFile path _ # _) = (''create_text_file'', summarized_permission_resource path)"

definition permission_request_from_edit :: "string \<Rightarrow> edit_operation list \<Rightarrow> permission_request" where
  "permission_request_from_edit rid ops =
     \<lparr>request_id = rid, actor = UserLocalUi, capability = EditTransaction,
      target = \<lparr>operation = fst (edit_target ops), resource = snd (edit_target ops)\<rparr>,
      risk = WorkspaceWrite, requested_reviewer = None, command = None\<rparr>"

section \<open>Preparing\<close>

definition review_state_of :: "permission_decision \<Rightarrow> string + edit_access_review_state" where
  "review_state_of d =
     (case d of
        Allowed _ _ _ _ _ _ \<Rightarrow> Inr EditAllowed
      | NeedsUserReview _ _ _ reason _ _ \<Rightarrow>
          if reason = ''restriction_human_performs'' then Inr EditHumanPerforms
          else if reason = ''route_to_reviewer'' \<or> reason = ''auto_review_unavailable_fallback_ask''
          then Inr AutoReviewUnavailable
          else Inr NeedsUserApproval
      | Denied _ _ _ reason _ _ \<Rightarrow> Inl reason)"

definition edit_finished ::
  "edit_access_context \<Rightarrow> string option \<Rightarrow> edit_evidence_outcome \<Rightarrow> string option \<Rightarrow> edit_evidence_summary option
   \<Rightarrow> session_event" where
  "edit_finished ctx tx outcome reason s =
     EditTransactionFinished (eac_session_id ctx) (eac_turn_id ctx) (eac_tool_request_id ctx) tx outcome reason s"

definition diagnostics ::
  "string \<Rightarrow> edit_access_review_state \<Rightarrow> string option \<Rightarrow> string option \<Rightarrow> edit_access_prepare_diagnostics" where
  "diagnostics did state tx reason =
     \<lparr>ed_permission_decision_id = did, ed_review_state = state, ed_transaction_id = tx, ed_reason_label = reason\<rparr>"

text \<open>The log the caller passes is returned with the events added to it.\<close>

definition prepare_with_diagnostics ::
  "edit_access_env \<Rightarrow> resource_root \<Rightarrow> edit_operation list \<Rightarrow> edit_access_context \<Rightarrow> session_event list \<Rightarrow> edit_world
   \<Rightarrow> (edit_access_prepare_error, edit_preview \<times> edit_access_prepare_diagnostics) result
      \<times> session_event list \<times> edit_world" where
  "prepare_with_diagnostics env base ops ctx events w =
     (let (rid, rn) = next_edit_permission_request_id (ew_request_counter w);
          req = permission_request_from_edit rid ops;
          (d, dn) = decide (ea_words env) req (eac_edit_mode ctx) (eac_review_policy ctx) (ew_decision_counter w);
          s = (summary d req False)\<lparr>sum_authorization_revision := eac_authorization_revision ctx\<rparr>;
          events1 = record_permission_decision (eac_session_id ctx) (eac_turn_id ctx) s events;
          did = decision_id d;
          w1 = w\<lparr>ew_request_counter := rn, ew_decision_counter := dn\<rparr>
      in case review_state_of d of
           Inl reason \<Rightarrow>
             (Inl (PrepareDenied reason (diagnostics did NeedsUserApproval None (Some reason))), events1, w1)
         | Inr state \<Rightarrow>
             (case preview (ea_edit env) base (ew_fs w1) (eac_edit_policy ctx) (ew_transaction_counter w1) ops of
                (Inl e, tn) \<Rightarrow>
                  (Inl (PreparePreview e (diagnostics did state None (Some (edit_error_label e)))),
                   events1 @ [edit_finished ctx None EditValidationFailed (Some (edit_error_label e)) None],
                   w1\<lparr>ew_transaction_counter := tn\<rparr>)
              | (Inr tx, tn) \<Rightarrow>
                  (let (pid, pn) = next_edit_preview_id (ew_preview_counter w1);
                       p = \<lparr>ep_preview_id = pid, ep_transaction_id = transaction_id tx,
                         ep_permission_decision_id = did, ep_review_state = state,
                         ep_operation_count = operation_count tx, ep_diff_summary = diff_summary tx,
                         ep_diff_summary_truncated = diff_summary_truncated tx,
                         ep_diff_summary_bytes = diff_summary_bytes tx\<rparr>
                   in (Inr (p, diagnostics did state (Some (transaction_id tx)) None),
                       events1 @ [EditTransactionPrepared (eac_session_id ctx) (eac_turn_id ctx)
                         (eac_tool_request_id ctx) (transaction_id tx) (edit_prepared_evidence_summary tx)],
                       w1\<lparr>ew_transaction_counter := tn, ew_preview_counter := pn,
                          ew_pending := (ew_pending w1)(pid \<mapsto>
                            \<lparr>pe_context = ctx, pe_root = base, pe_prepared = tx, pe_permission_decision_id = did,
                             pe_permission_summary = s, pe_policy_revision = sum_policy_revision s,
                             pe_authorization_revision = sum_authorization_revision s,
                             pe_reviewer_generation = 0\<rparr>)\<rparr>))))"

definition prepare ::
  "edit_access_env \<Rightarrow> resource_root \<Rightarrow> edit_operation list \<Rightarrow> edit_access_context \<Rightarrow> session_event list \<Rightarrow> edit_world
   \<Rightarrow> (edit_access_error, edit_preview) result \<times> session_event list \<times> edit_world" where
  "prepare env base ops ctx events w =
     (case prepare_with_diagnostics env base ops ctx events w of
        (r, rest) \<Rightarrow> (case r of
            Inr (p, _) \<Rightarrow> Inr p
          | Inl (PrepareDenied reason _) \<Rightarrow> Inl (AccessDenied reason)
          | Inl (PreparePreview e _) \<Rightarrow> Inl (AccessPreview e), rest))"

section \<open>Applying and rejecting\<close>

definition record_permission_override ::
  "edit_access_context \<Rightarrow> permission_decision_summary \<Rightarrow> permission_decision_outcome \<Rightarrow> string \<Rightarrow> bool
   \<Rightarrow> session_event list \<Rightarrow> session_event list" where
  "record_permission_override ctx s outcome reason user_override events =
     (if sum_outcome s \<noteq> OutcomeNeedsUserReview then events
      else record_permission_decision (eac_session_id ctx) (eac_turn_id ctx)
        (s\<lparr>sum_outcome := outcome, sum_reason := reason, sum_user_override := user_override, sum_rationale := None\<rparr>)
        events)"

definition apply_edit ::
  "edit_access_env \<Rightarrow> string \<Rightarrow> string \<Rightarrow> session_event list \<Rightarrow> edit_world
   \<Rightarrow> (edit_access_error, edit_apply_result) result \<times> session_event list \<times> edit_world" where
  "apply_edit env pid did events w =
     (case ew_pending w pid of
        None \<Rightarrow> (Inl PreviewNotFound, events, w)
      | Some pe \<Rightarrow>
          if pe_permission_decision_id pe \<noteq> did then (Inl DecisionMismatch, events, w)
          else
            (let ctx = pe_context pe; tx = Some (transaction_id (pe_prepared pe));
                 events1 = record_permission_override ctx (pe_permission_summary pe) OutcomeAllowed ''user_approved'' True events;
                 w1 = w\<lparr>ew_pending := (ew_pending w)(pid := None)\<rparr>;
                 (r, fs') = edit_apply (ea_edit env) (pe_root pe) (pe_prepared pe) (eac_edit_policy ctx) (ew_fs w1);
                 w2 = w1\<lparr>ew_fs := fs'\<rparr>
             in case r of
                  Inr res \<Rightarrow> (Inr res, events1 @ [edit_finished ctx tx EditCompleted None
                    (Some (edit_apply_evidence_summary res))], w2)
                | Inl e \<Rightarrow> (Inl (AccessApply e), events1 @ [edit_finished ctx tx EditFailed
                    (Some (edit_error_label e)) None], w2)))"

definition stale :: "pending_edit_preview \<Rightarrow> review_freshness option \<Rightarrow> bool" where
  "stale pe current =
     (case current of
        None \<Rightarrow> False
      | Some fr \<Rightarrow> pe_policy_revision pe \<noteq> fr_policy_revision fr
          \<or> pe_authorization_revision pe \<noteq> fr_authorization_revision fr
          \<or> pe_reviewer_generation pe \<noteq> fr_reviewer_generation fr)"

definition write_ahead :: "pending_edit_preview \<Rightarrow> session_event list" where
  "write_ahead pe =
     record_permission_override (pe_context pe) (pe_permission_summary pe) OutcomeAllowed ''user_approved'' True []
     @ [edit_finished (pe_context pe) (Some (transaction_id (pe_prepared pe))) ApplyStarted (Some ''apply_started'')
          (Some (edit_prepared_evidence_summary (pe_prepared pe)))]"

definition apply_with_evidence_sink_and_freshness ::
  "edit_access_env \<Rightarrow> string \<Rightarrow> string \<Rightarrow> review_freshness option \<Rightarrow> edit_world
   \<Rightarrow> (edit_access_error, edit_apply_result \<times> bool) result \<times> edit_world" where
  "apply_with_evidence_sink_and_freshness env pid did current w =
     (case ew_pending w pid of
        None \<Rightarrow> (Inl PreviewNotFound, w)
      | Some pe \<Rightarrow>
          if pe_permission_decision_id pe \<noteq> did then (Inl DecisionMismatch, w)
          else if stale pe current then (Inl StaleAuthorization, w)
          else (case sink_append env (write_ahead pe) w of
              (False, w1) \<Rightarrow> (Inl EvidencePersistFailed, w1)
            | (True, w1) \<Rightarrow>
                (let ctx = pe_context pe; tx = Some (transaction_id (pe_prepared pe));
                     w2 = w1\<lparr>ew_pending := (ew_pending w1)(pid := None)\<rparr>;
                     (r, fs') = edit_apply (ea_edit env) (pe_root pe) (pe_prepared pe) (eac_edit_policy ctx) (ew_fs w2);
                     w3 = w2\<lparr>ew_fs := fs'\<rparr>
                 in case r of
                      Inr res \<Rightarrow>
                        (case sink_append env [edit_finished ctx tx EditCompleted None
                            (Some (edit_apply_evidence_summary res))] w3 of
                           (persisted, w4) \<Rightarrow> (Inr (res, persisted), w4))
                    | Inl e \<Rightarrow>
                        (Inl (AccessApply e), snd (sink_append env [edit_finished ctx tx EditFailed
                            (Some (edit_error_label e)) None] w3)))))"

definition apply_with_evidence_sink ::
  "edit_access_env \<Rightarrow> string \<Rightarrow> string \<Rightarrow> edit_world
   \<Rightarrow> (edit_access_error, edit_apply_result \<times> bool) result \<times> edit_world" where
  "apply_with_evidence_sink env pid did w = apply_with_evidence_sink_and_freshness env pid did None w"

definition reject_with_reason ::
  "string \<Rightarrow> string \<Rightarrow> string \<Rightarrow> bool \<Rightarrow> session_event list \<Rightarrow> edit_world
   \<Rightarrow> (edit_access_error, unit) result \<times> session_event list \<times> edit_world" where
  "reject_with_reason pid did reason user_override events w =
     (case ew_pending w pid of
        None \<Rightarrow> (Inl PreviewNotFound, events, w)
      | Some pe \<Rightarrow>
          if pe_permission_decision_id pe \<noteq> did then (Inl DecisionMismatch, events, w)
          else (Inr (), record_permission_override (pe_context pe) (pe_permission_summary pe) OutcomeDenied reason
                  user_override events
                @ [edit_finished (pe_context pe) (Some (transaction_id (pe_prepared pe))) EditFailed (Some reason)
                    (Some (edit_prepared_evidence_summary (pe_prepared pe)))],
                w\<lparr>ew_pending := (ew_pending w)(pid := None)\<rparr>))"

definition reject ::
  "string \<Rightarrow> string \<Rightarrow> session_event list \<Rightarrow> edit_world
   \<Rightarrow> (edit_access_error, unit) result \<times> session_event list \<times> edit_world" where
  "reject pid did events w = reject_with_reason pid did ''user_rejected'' True events w"

definition has_pending_preview :: "string \<Rightarrow> edit_world \<Rightarrow> bool" where
  "has_pending_preview pid w \<longleftrightarrow> ew_pending w pid \<noteq> None"

definition rebind_reviewer_generation :: "string \<Rightarrow> nat \<Rightarrow> edit_world \<Rightarrow> bool \<times> edit_world" where
  "rebind_reviewer_generation pid generation w =
     (case ew_pending w pid of
        None \<Rightarrow> (False, w)
      | Some pe \<Rightarrow> (True, w\<lparr>ew_pending := (ew_pending w)(pid \<mapsto> pe\<lparr>pe_reviewer_generation := generation\<rparr>)\<rparr>))"

fun review_edit_operation_of :: "prepared_operation \<Rightarrow> review_edit_operation" where
  "review_edit_operation_of (PreparedModify relative _ before _ _ _ _) = ReviewModifyTextFile relative before"
| "review_edit_operation_of (PreparedCreate relative _ _ _) = ReviewCreateTextFile relative"

definition review_action_for_preview :: "string \<Rightarrow> edit_world \<Rightarrow> review_action option" where
  "review_action_for_preview pid w =
     map_option (\<lambda>pe. ReviewEditTransaction (map review_edit_operation_of (operations (pe_prepared pe))) [])
       (ew_pending w pid)"

section \<open>The harness without permission\<close>

record edit_harness_context =
  ehc_session_id :: string
  ehc_turn_id :: string
  ehc_tool_request_id :: "string option"

definition preview_and_apply_with_apply_policy ::
  "edit_env \<Rightarrow> resource_root \<Rightarrow> edit_operation list \<Rightarrow> edit_policy \<Rightarrow> edit_policy \<Rightarrow> edit_harness_context
   \<Rightarrow> session_event list \<Rightarrow> nat \<Rightarrow> fs
   \<Rightarrow> (edit_error, edit_apply_result) result \<times> session_event list \<times> nat \<times> fs" where
  "preview_and_apply_with_apply_policy env base ops preview_policy apply_policy ctx events n s =
     (let finished = EditTransactionFinished (ehc_session_id ctx) (ehc_turn_id ctx) (ehc_tool_request_id ctx)
      in case preview env base s preview_policy n ops of
           (Inl e, n') \<Rightarrow>
             (Inl e, events @ [finished None EditValidationFailed (Some (edit_error_label e)) None], n', s)
         | (Inr tx, n') \<Rightarrow>
             (let prepared = edit_prepared_evidence_summary tx; tid = transaction_id tx;
                  events1 = events @ [EditTransactionPrepared (ehc_session_id ctx) (ehc_turn_id ctx)
                    (ehc_tool_request_id ctx) tid prepared]
              in case edit_apply env base tx apply_policy s of
                   (Inr r, t) \<Rightarrow> (Inr r, events1 @ [finished (Some tid) EditCompleted None
                       (Some (edit_apply_evidence_summary r))], n', t)
                 | (Inl e, t) \<Rightarrow> (Inl e, events1 @ [finished (Some tid) EditFailed (Some (edit_error_label e))
                       (Some prepared)], n', t)))"

definition preview_and_apply ::
  "edit_env \<Rightarrow> resource_root \<Rightarrow> edit_operation list \<Rightarrow> edit_policy \<Rightarrow> edit_harness_context
   \<Rightarrow> session_event list \<Rightarrow> nat \<Rightarrow> fs
   \<Rightarrow> (edit_error, edit_apply_result) result \<times> session_event list \<times> nat \<times> fs" where
  "preview_and_apply env base ops policy ctx events n s =
     preview_and_apply_with_apply_policy env base ops policy policy ctx events n s"

end
