(* ===== verification/Edit_Access_Properties.thy ===== *)
theory Edit_Access_Properties
  imports Edit_Access
begin

text \<open>
  Properties of the edit access layer: what has to hold before a pending edit reaches the
  disk, and that it does so at most once.
\<close>

section \<open>Applying\<close>

lemma sink_append_frame:
  assumes "sink_append env events w = (ok, w')"
  shows "ew_fs w' = ew_fs w" "ew_pending w' = ew_pending w" "ew_preview_counter w' = ew_preview_counter w"
    "ok \<Longrightarrow> ew_stored w' = ew_stored w @ events" "\<exists>n. ew_stored w' = ew_stored w @ take n events"
  using assms by (auto simp: sink_append_def split: if_splits intro: exI [of _ "length events"])

definition attempted :: "(edit_access_error, 'a) result \<Rightarrow> bool" where
  "attempted r = (case r of Inr _ \<Rightarrow> True | Inl (AccessApply _) \<Rightarrow> True | Inl _ \<Rightarrow> False)"

lemma attempted_simps [simp]: "attempted (Inr x)" "attempted (Inl e) \<longleftrightarrow> (\<exists>x. e = AccessApply x)"
  by (auto simp: attempted_def split: edit_access_error.splits)

text \<open>
  The two ways an application can go: refused with no file and no pending preview touched, or
  attempted. A refusal leaves nothing in the store either, unless it is the append of the
  evidence that failed: then a part of that evidence may be there.
\<close>

lemma apply_fresh_cases:
  assumes "apply_with_evidence_sink_and_freshness env pid did current w = (r, w')"
  obtains (refused) "\<not> attempted r" "ew_fs w' = ew_fs w" "ew_pending w' = ew_pending w"
      "ew_preview_counter w' = ew_preview_counter w" "r \<noteq> Inl EvidencePersistFailed \<Longrightarrow> ew_stored w' = ew_stored w"
      "r = Inl EvidencePersistFailed \<Longrightarrow> \<exists>pe n. ew_pending w pid = Some pe \<and> pe_permission_decision_id pe = did \<and> \<not> stale pe current
         \<and> ew_stored w' = ew_stored w @ take n (write_ahead pe)"
  | (attempted) pe more res where "attempted r" "ew_pending w pid = Some pe" "pe_permission_decision_id pe = did"
      "\<not> stale pe current" "ew_pending w' = (ew_pending w)(pid := None)" "ew_preview_counter w' = ew_preview_counter w"
      "ew_stored w' = ew_stored w @ write_ahead pe @ more"
      "edit_apply (ea_edit env) (pe_root pe) (pe_prepared pe) (eac_edit_policy (pe_context pe)) (ew_fs w) = (res, ew_fs w')"
      "\<And>x. r = Inr x \<Longrightarrow> res = Inr (fst x)" "\<And>e. r = Inl (AccessApply e) \<Longrightarrow> res = Inl e"
proof (cases "\<exists>pe. ew_pending w pid = Some pe \<and> pe_permission_decision_id pe = did \<and> \<not> stale pe current")
  case False
  then show ?thesis
    using assms by (intro refused) (auto simp: apply_with_evidence_sink_and_freshness_def split: option.splits if_splits)
next
  case True
  then obtain pe where pe: "ew_pending w pid = Some pe" "pe_permission_decision_id pe = did" "\<not> stale pe current" by blast
  obtain ok w1 where wa: "sink_append env (write_ahead pe) w = (ok, w1)" by fastforce
  note f1 = sink_append_frame [OF wa]
  show ?thesis
  proof (cases ok)
    case False
    then show ?thesis
      using assms pe wa f1 by (intro refused) (auto simp: apply_with_evidence_sink_and_freshness_def)
  next
    case True
    let ?w2 = "w1\<lparr>ew_pending := (ew_pending w1)(pid := None)\<rparr>"
    obtain res fs' where ap: "edit_apply (ea_edit env) (pe_root pe) (pe_prepared pe) (eac_edit_policy (pe_context pe)) (ew_fs w)
        = (res, fs')" by fastforce
    let ?w3 = "?w2\<lparr>ew_fs := fs'\<rparr>"
    let ?event = "case res of Inr x \<Rightarrow> edit_finished (pe_context pe) (Some (transaction_id (pe_prepared pe))) EditCompleted
        None (Some (edit_apply_evidence_summary x))
      | Inl e \<Rightarrow> edit_finished (pe_context pe) (Some (transaction_id (pe_prepared pe))) EditFailed (Some (edit_error_label e)) None"
    obtain persisted w4 where sk: "sink_append env [?event] ?w3 = (persisted, w4)" by fastforce
    note f2 = sink_append_frame [OF sk]
    have res: "(r, w') = (case res of Inr x \<Rightarrow> Inr (x, persisted) | Inl e \<Rightarrow> Inl (AccessApply e), w4)"
      using assms pe wa True ap sk f1
      by (cases res) (auto simp: apply_with_evidence_sink_and_freshness_def Let_def)
    obtain n where n: "ew_stored w4 = ew_stored ?w3 @ take n [?event]" using f2(5) by blast
    show ?thesis
    proof (rule attempted [OF _ pe, of "take n [?event]" res])
      show "attempted r" using res by (cases res) auto
      show "ew_pending w' = (ew_pending w)(pid := None)" "ew_preview_counter w' = ew_preview_counter w"
        using res f1 f2 by auto
      show "ew_stored w' = ew_stored w @ write_ahead pe @ take n [?event]"
        using res f1(4) n True by auto
      show "edit_apply (ea_edit env) (pe_root pe) (pe_prepared pe) (eac_edit_policy (pe_context pe)) (ew_fs w) = (res, ew_fs w')"
        using ap res f2 by auto
      show "\<And>x. r = Inr x \<Longrightarrow> res = Inr (fst x)" "\<And>e. r = Inl (AccessApply e) \<Longrightarrow> res = Inl e"
        using res by (cases res; auto)+
    qed
  qed
qed

section \<open>A small world\<close>

definition demo_access_env :: edit_access_env where
  "demo_access_env = \<lparr>ea_edit = demo_env, ea_words = (\<lambda>_. None), sink_ok = (\<lambda>_. True), sink_kept = (\<lambda>_. 0)\<rparr>"

definition demo_context :: edit_access_context where
  "demo_context = \<lparr>eac_session_id = ''s'', eac_turn_id = ''turn-0'', eac_edit_mode = Ask, eac_edit_policy = demo_policy,
     eac_tool_request_id = None, eac_review_policy = empty_review_policy, eac_authorization_revision = 3\<rparr>"

definition demo_world :: edit_world where
  "demo_world = \<lparr>ew_fs = demo_fs (\<lambda>_. False), ew_pending = Map.empty, ew_stored = [], ew_sink_calls = 0,
     ew_decision_counter = 0, ew_request_counter = 0, ew_preview_counter = 0, ew_transaction_counter = 0\<rparr>"

definition demo_pending :: pending_edit_preview where
  "demo_pending = \<lparr>pe_context = demo_context, pe_root = demo_root, pe_prepared = demo_tx,
     pe_permission_decision_id = ''d'',
     pe_permission_summary = summary (Denied ''d'' NoReviewer Ask '''' None 0) (permission_request_from_edit ''r'' []) False,
     pe_policy_revision = 0, pe_authorization_revision = 3, pe_reviewer_generation = 0\<rparr>"

text \<open>
  C34. Applying a pending preview either is refused, with the files and the pending previews as
  they were and with nothing stored, unless it was refused because appending the evidence failed:
  then the preview was pending and fresh, and what the failed append left in the store is an
  initial part of the events that announce this edit, possibly none or all of them. Or it is
  attempted; and then the preview was pending, the
  decision named is the one it was prepared under, the revisions of the policy, of the user's
  authorization and of the reviewer are still those of the preview, the approval and the start
  of the edit were appended to the session store before anything else, the preview is used up,
  and a success has committed exactly the prepared transaction.
\<close>

theorem edit_applied_only_fresh:
  assumes "apply_with_evidence_sink_and_freshness env pid did current w = (r, w')"
    "wf_tree (nodes (ew_fs w))"
    "\<forall>pe. ew_pending w pid = Some pe \<longrightarrow>
       scratch_apart (ea_edit env) (transaction_id (pe_prepared pe)) (operations (pe_prepared pe))"
  shows "if attempted r
    then \<exists>pe. ew_pending w pid = Some pe \<and> pe_permission_decision_id pe = did \<and> \<not> stale pe current
       \<and> ew_pending w' = (ew_pending w)(pid := None)
       \<and> prefix (ew_stored w @ write_ahead pe) (ew_stored w')
       \<and> (\<forall>res persisted. r = Inr (res, persisted) \<longrightarrow>
            transaction_committed (ea_edit env) (pe_root pe) (pe_prepared pe) (ew_fs w) (ew_fs w'))
    else ew_fs w' = ew_fs w \<and> ew_pending w' = ew_pending w
       \<and> (if r = Inl EvidencePersistFailed
          then \<exists>pe n. ew_pending w pid = Some pe \<and> pe_permission_decision_id pe = did \<and> \<not> stale pe current
             \<and> ew_stored w' = ew_stored w @ take n (write_ahead pe)
          else ew_stored w' = ew_stored w)"
  using assms(1)
proof (cases rule: apply_fresh_cases)
  case refused
  then show ?thesis by simp
next
  case (attempted pe more res)
  have "transaction_committed (ea_edit env) (pe_root pe) (pe_prepared pe) (ew_fs w) (ew_fs w')" if "r = Inr (x, persisted)" for x persisted
    using edit_apply_Inr [OF assms(2)] assms(3) attempted(2,8,9) that by auto
  then show ?thesis using attempted by (auto simp: prefix_def)
qed

theorem edit_applied_only_fresh_witness:
  "\<exists>res w'. apply_with_evidence_sink_and_freshness demo_access_env ''e'' ''d''
       (Some \<lparr>fr_policy_revision = 0, fr_authorization_revision = 3, fr_reviewer_generation = 0\<rparr>)
       (demo_world\<lparr>ew_pending := [''e'' \<mapsto> demo_pending]\<rparr>) = (Inr (res, True), w')
     \<and> transaction_committed demo_env demo_root demo_tx (demo_fs (\<lambda>_. False)) (ew_fs w') \<and> ew_pending w' = Map.empty"
proof -
  let ?w = "demo_world\<lparr>ew_pending := [''e'' \<mapsto> demo_pending]\<rparr>"
  let ?fr = "\<lparr>fr_policy_revision = 0, fr_authorization_revision = 3, fr_reviewer_generation = 0\<rparr>"
  obtain res t where a: "edit_apply demo_env demo_root demo_tx demo_policy (demo_fs (\<lambda>_. False)) = (Inr res, t)"
    using demo_applies by blast
  have "\<exists>w'. apply_with_evidence_sink_and_freshness demo_access_env ''e'' ''d'' (Some ?fr) ?w = (Inr (res, True), w')"
    using a by (simp add: apply_with_evidence_sink_and_freshness_def demo_world_def demo_pending_def demo_access_env_def
        demo_context_def stale_def sink_append_def)
  then obtain w' where w': "apply_with_evidence_sink_and_freshness demo_access_env ''e'' ''d'' (Some ?fr) ?w = (Inr (res, True), w')"
    by blast
  have "wf_tree (nodes (ew_fs ?w))" by (simp add: demo_world_def demo_wf)
  moreover have "\<forall>pe. ew_pending ?w ''e'' = Some pe \<longrightarrow>
      scratch_apart (ea_edit demo_access_env) (transaction_id (pe_prepared pe)) (operations (pe_prepared pe))"
    using demo_apart by (simp add: demo_pending_def demo_access_env_def)
  ultimately show ?thesis
    using edit_applied_only_fresh [OF w'] w' by (auto simp: demo_world_def demo_pending_def demo_access_env_def)
qed

section \<open>Runs\<close>

text \<open>
  The operations of the layer in any order, with any changes outside of it in between. A step
  is labelled by the preview it makes or uses up.
\<close>

datatype edit_label = Prepared string | AppliedEdit string | RejectedEdit string | Silent

inductive edit_step :: "edit_access_env \<Rightarrow> edit_world \<Rightarrow> edit_label \<Rightarrow> edit_world \<Rightarrow> bool" for env where
  prepare: "prepare_with_diagnostics env base ops ctx events w = (r, events', w')
     \<Longrightarrow> edit_step env w (case r of Inr (p, _) \<Rightarrow> Prepared (ep_preview_id p) | Inl _ \<Rightarrow> Silent) w'"
| apply_fresh: "apply_with_evidence_sink_and_freshness env pid did current w = (r, w')
     \<Longrightarrow> edit_step env w (if attempted r then AppliedEdit pid else Silent) w'"
| apply_log: "apply_edit env pid did events w = (r, events', w')
     \<Longrightarrow> edit_step env w (if attempted r then AppliedEdit pid else Silent) w'"
| reject: "reject_with_reason pid did reason user_override events w = (r, events', w')
     \<Longrightarrow> edit_step env w (if r = Inr () then RejectedEdit pid else Silent) w'"
| rebind: "rebind_reviewer_generation pid generation w = (ok, w') \<Longrightarrow> edit_step env w Silent w'"
| outside: "ew_pending w' = ew_pending w \<Longrightarrow> ew_preview_counter w' = ew_preview_counter w \<Longrightarrow> edit_step env w Silent w'"

inductive edit_run :: "edit_access_env \<Rightarrow> edit_world \<Rightarrow> edit_label list \<Rightarrow> edit_world \<Rightarrow> bool" for env w0 where
  start: "edit_run env w0 [] w0"
| extend: "edit_run env w0 ls w \<Longrightarrow> edit_step env w l w' \<Longrightarrow> edit_run env w0 (ls @ [l]) w'"

definition uses :: "string \<Rightarrow> edit_label list \<Rightarrow> nat" where
  "uses pid ls = length (filter (\<lambda>l. l = AppliedEdit pid \<or> l = RejectedEdit pid) ls)"

lemma uses_snoc [simp]: "uses pid (ls @ [l]) = uses pid ls + (if l = AppliedEdit pid \<or> l = RejectedEdit pid then 1 else 0)"
  by (simp add: uses_def)

text \<open>What a step does to the pending previews.\<close>

definition pending_keys :: "edit_world \<Rightarrow> string set" where
  "pending_keys w = dom (ew_pending w)"

lemma edit_step_effect:
  assumes "edit_step env w l w'"
  shows "case l of
      Prepared pid \<Rightarrow> pid = fst (next_edit_preview_id (ew_preview_counter w))
        \<and> ew_preview_counter w' = snd (next_edit_preview_id (ew_preview_counter w))
        \<and> pending_keys w' = insert pid (pending_keys w)
    | Silent \<Rightarrow> ew_preview_counter w' = ew_preview_counter w \<and> pending_keys w' = pending_keys w
    | AppliedEdit pid \<Rightarrow> ew_preview_counter w' = ew_preview_counter w \<and> pid \<in> pending_keys w
        \<and> pending_keys w' = pending_keys w - {pid}
    | RejectedEdit pid \<Rightarrow> ew_preview_counter w' = ew_preview_counter w \<and> pid \<in> pending_keys w
        \<and> pending_keys w' = pending_keys w - {pid}"
  using assms
proof cases
  case (prepare base ops ctx events r events')
  then show ?thesis
    by (auto simp: prepare_with_diagnostics_def Let_def pending_keys_def next_edit_preview_id_def
        split: prod.splits sum.splits)
next
  case (apply_fresh pid did current r)
  from apply_fresh(2) show ?thesis
  proof (cases rule: apply_fresh_cases)
    case refused
    then show ?thesis using apply_fresh(1) by (simp add: pending_keys_def)
  next
    case (attempted pe more res)
    then show ?thesis using apply_fresh(1) by (auto simp: pending_keys_def)
  qed
next
  case (apply_log pid did events r events')
  then show ?thesis
    by (auto simp: apply_edit_def Let_def pending_keys_def split: option.splits if_splits prod.splits sum.splits)
next
  case (reject pid did reason user_override events r events')
  then show ?thesis
    by (auto simp: reject_with_reason_def pending_keys_def split: option.splits if_splits)
next
  case (rebind pid generation ok)
  then show ?thesis
    by (auto simp: rebind_reviewer_generation_def pending_keys_def split: option.splits if_splits)
next
  case outside
  then show ?thesis by (simp add: pending_keys_def)
qed

text \<open>Preview ids are numbered; the ones in use are below the counter.\<close>

abbreviation preview_name :: "nat \<Rightarrow> string" where
  "preview_name n \<equiv> ''edit-preview-'' @ show_nat n"

definition run_invariant :: "edit_label list \<Rightarrow> edit_world \<Rightarrow> bool" where
  "run_invariant ls w \<longleftrightarrow> ew_preview_counter w \<le> length ls
     \<and> (\<forall>pid. Prepared pid \<in> set ls \<longrightarrow> (\<exists>n < ew_preview_counter w. pid = preview_name n))
     \<and> (\<forall>pid. uses pid ls > 0 \<or> pid \<in> pending_keys w \<longrightarrow> Prepared pid \<in> set ls)
     \<and> (\<forall>pid. uses pid ls + (if pid \<in> pending_keys w then 1 else 0) \<le> 1)"

lemma run_invariant_step:
  assumes "run_invariant ls w" "edit_step env w l w'" "length ls < u64_max"
  shows "run_invariant (ls @ [l]) w'"
proof (cases l)
  case (Prepared pid)
  let ?n = "ew_preview_counter w"
  have n: "?n < u64_max" using assms(1,3) by (simp add: run_invariant_def)
  then have eff: "pid = preview_name ?n" "ew_preview_counter w' = Suc ?n" "pending_keys w' = insert pid (pending_keys w)"
    using edit_step_effect [OF assms(2)] Prepared by (simp_all add: next_edit_preview_id_def)
  have fresh: "Prepared pid \<notin> set ls"
  proof
    assume "Prepared pid \<in> set ls"
    then obtain m where "m < ?n" "pid = preview_name m" using assms(1) by (auto simp: run_invariant_def)
    then show False using eff(1) show_nat_inj [of ?n m] by simp
  qed
  then have new: "uses pid ls = 0" "pid \<notin> pending_keys w"
    using assms(1) by (auto simp: run_invariant_def)
  note inv = assms(1) [unfolded run_invariant_def]
  show ?thesis
    unfolding run_invariant_def
  proof (intro conjI allI impI)
    show "ew_preview_counter w' \<le> length (ls @ [l])" using inv eff(2) by simp
  next
    fix q
    assume "Prepared q \<in> set (ls @ [l])"
    then consider "Prepared q \<in> set ls" | "q = pid" using Prepared by auto
    then show "\<exists>m < ew_preview_counter w'. q = preview_name m"
    proof cases
      case 1
      then obtain m where "m < ?n" "q = preview_name m" using inv by blast
      then show ?thesis using eff(2) by (intro exI [of _ m]) simp
    next
      case 2
      then show ?thesis using eff(1,2) by (intro exI [of _ ?n]) simp
    qed
  next
    fix q
    assume "0 < uses q (ls @ [l]) \<or> q \<in> pending_keys w'"
    then show "Prepared q \<in> set (ls @ [l])" using inv eff(3) Prepared by auto
  next
    fix q
    show "uses q (ls @ [l]) + (if q \<in> pending_keys w' then 1 else 0) \<le> 1"
      using inv eff(3) new Prepared by (cases "q = pid") auto
  qed
next
  case (AppliedEdit pid)
  then show ?thesis
    using assms(1) edit_step_effect [OF assms(2)] unfolding run_invariant_def by (auto split: if_splits)
next
  case (RejectedEdit pid)
  then show ?thesis
    using assms(1) edit_step_effect [OF assms(2)] unfolding run_invariant_def by (auto split: if_splits)
next
  case Silent
  then show ?thesis
    using assms(1) edit_step_effect [OF assms(2)] unfolding run_invariant_def by auto
qed

lemma run_invariant_run:
  assumes "edit_run env w0 ls w" "pending_keys w0 = {}" "ew_preview_counter w0 = 0" "length ls \<le> u64_max"
  shows "run_invariant ls w"
  using assms(1,4)
proof induction
  case start
  then show ?case using assms(2,3) by (simp add: run_invariant_def uses_def)
next
  case (extend ls w l w')
  then show ?case using run_invariant_step by simp
qed

text \<open>
  C35. In any sequence of operations of the edit access layer, with arbitrary changes to the
  files in between, a preview is applied or rejected at most once in all, and what is applied
  was prepared before and is no longer pending afterwards.
\<close>

theorem preview_used_once:
  assumes "edit_run env w0 ls w" "\<forall>pid. \<not> has_pending_preview pid w0" "ew_preview_counter w0 = 0" "length ls \<le> u64_max"
  shows "length (filter (\<lambda>l. l = AppliedEdit pid \<or> l = RejectedEdit pid) ls) \<le> 1
    \<and> (AppliedEdit pid \<in> set ls \<longrightarrow> Prepared pid \<in> set ls \<and> \<not> has_pending_preview pid w)"
proof -
  have "pending_keys w0 = {}" using assms(2) by (auto simp: pending_keys_def has_pending_preview_def)
  note inv = run_invariant_run [OF assms(1) this assms(3,4)]
  have "uses pid ls > 0" if "AppliedEdit pid \<in> set ls"
    using that by (auto simp: uses_def filter_empty_conv)
  moreover have "uses pid ls + (if pid \<in> pending_keys w then 1 else 0) \<le> 1"
    "uses pid ls > 0 \<longrightarrow> Prepared pid \<in> set ls"
    using inv by (auto simp: run_invariant_def)
  ultimately show ?thesis
    unfolding uses_def has_pending_preview_def pending_keys_def by (auto split: if_splits)
qed

theorem preview_used_once_witness:
  "\<exists>w. edit_run demo_access_env demo_world [Prepared ''edit-preview-0'', RejectedEdit ''edit-preview-0''] w
     \<and> length (filter (\<lambda>l. l = AppliedEdit ''edit-preview-0'' \<or> l = RejectedEdit ''edit-preview-0'')
         [Prepared ''edit-preview-0'', RejectedEdit ''edit-preview-0'']) \<le> 1"
proof -
  let ?ops = "[ReplaceTextFile ''a'' (sha256_hex demo_env ''hello'') ''hullo'']"
  obtain tx where tx: "preview demo_env demo_root (demo_fs (\<lambda>_. False)) demo_policy 0 ?ops = (Inr tx, 1)"
    using demo_preview by blast
  have zero: "show_nat 0 = ''0''" by code_simp
  obtain r events w1 where p: "prepare_with_diagnostics demo_access_env demo_root ?ops demo_context [] demo_world = (r, events, w1)"
    by (metis prod_cases3)
  have d: "decide (\<lambda>_. None) req Ask empty_review_policy 0 = (edit_decision req Ask (fst (next_permission_decision_id 0)) 0,
      snd (next_permission_decision_id 0))" for req
    by (simp add: decide_def check_restrictions_None selected_restriction_spec strongest_spec_None empty_review_policy_def
        case_prod_beta)
  obtain q dg pe where q: "r = Inr (q, dg)" "ep_preview_id q = ''edit-preview-0''" "ew_pending w1 ''edit-preview-0'' = Some pe"
    using p tx zero
    by (auto simp: prepare_with_diagnostics_def d Let_def demo_access_env_def demo_context_def demo_world_def
        next_edit_preview_id_def next_edit_permission_request_id_def permission_request_from_edit_def edit_decision_def
        review_state_of_def extension_self_approval_requested_def)
  have "edit_run demo_access_env demo_world [Prepared ''edit-preview-0''] w1"
    using edit_run.extend [OF edit_run.start edit_step.prepare [OF p]] q by simp
  moreover obtain w2 ev2 where "reject_with_reason ''edit-preview-0'' (pe_permission_decision_id pe) ''user_rejected'' True [] w1
      = (Inr (), ev2, w2)" using q(3) by (simp add: reject_with_reason_def)
  from edit_step.reject [OF this, of demo_access_env] have "edit_step demo_access_env w1 (RejectedEdit ''edit-preview-0'') w2" by simp
  ultimately have run: "edit_run demo_access_env demo_world [Prepared ''edit-preview-0'', RejectedEdit ''edit-preview-0''] w2"
    using edit_run.extend by fastforce
  from preview_used_once [OF run, of "''edit-preview-0''"] run show ?thesis
    by (auto simp: demo_world_def has_pending_preview_def u64_max_def)
qed

section \<open>Restrictions on edits\<close>

text \<open>
  Only the first operation of a transaction is put before the permission engine: a path
  reserved for the user is edited when it comes second.
\<close>

definition infra_policy :: review_policy where
  "infra_policy = \<lparr>policy_revision = 1, policy_global = [HumanPerforms (PathPrefix ''infra'') ''''], policy_project = []\<rparr>"

lemma restriction_sees_first_path:
  "d_reason (fst (decide words (permission_request_from_edit rid [ReplaceTextFile ''infra/b'' h new]) Allow infra_policy n))
     = ''restriction_human_performs''"
  "is_Allowed (fst (decide words (permission_request_from_edit rid
     [ReplaceTextFile ''a'' h new, ReplaceTextFile ''infra/b'' h new]) Allow infra_policy n))"
proof -
  have "summarized_permission_resource ''infra/b'' = ''infra/b''" "summarized_permission_resource ''a'' = ''a''"
    "path_prefix_matches ''infra/b'' ''infra''" "\<not> path_prefix_matches ''a'' ''infra''"
    by code_simp+
  note paths = this
  let ?req = "\<lambda>ops. permission_request_from_edit rid ops" and ?r = "HumanPerforms (PathPrefix ''infra'') ''''"
  have m: "restriction_matches words ?r (?req [ReplaceTextFile ''infra/b'' h new])"
    "\<not> restriction_matches words ?r (?req [ReplaceTextFile ''a'' h new, ReplaceTextFile ''infra/b'' h new])"
    using paths by (simp_all add: restriction_matches_def permission_request_from_edit_def)
  show "d_reason (fst (decide words (?req [ReplaceTextFile ''infra/b'' h new]) Allow infra_policy n))
      = ''restriction_human_performs''"
    using edit_engine.held_for_human [of ?r infra_policy, OF _ m(1)] by (simp add: infra_policy_def is_human_performs_def)
  show "is_Allowed (fst (decide words (?req [ReplaceTextFile ''a'' h new, ReplaceTextFile ''infra/b'' h new]) Allow infra_policy n))"
    using m(2) by (simp add: decide_def check_restrictions_None selected_restriction_spec strongest_spec_None
        infra_policy_def case_prod_beta edit_decision_def permission_request_from_edit_def
        extension_self_approval_requested_def)
qed

end
