(* ===== verification/Compaction.thy ===== *)
theory Compaction
  imports Session "HOL-Library.Char_ord" "HOL-Library.List_Lexorder"
begin

text \<open>
  Compaction of a session's context, \<^verbatim>\<open>compaction.rs\<close>: token estimates, masking of old tool
  results, the newest checkpoint, the cut of a new one and the text handed to the summarizer.
  The log is only ever appended to; what compaction does is decide what of it a request
  contains.
\<close>

section \<open>Configuration\<close>

record compaction_config =
  cc_enabled :: bool
  cc_compactor :: string
  cc_reserve_tokens :: nat
  cc_keep_recent_tokens :: nat
  cc_auto_threshold_percent :: nat
  cc_masking :: bool
  cc_summary_prompt :: "string option"
  cc_summary_prompt_error :: "string option"
  cc_project_summary_prompt_ignored :: bool

definition default_compaction_config :: compaction_config where
  "default_compaction_config = \<lparr>cc_enabled = True, cc_compactor = ''auto'', cc_reserve_tokens = 16384,
     cc_keep_recent_tokens = 20000, cc_auto_threshold_percent = 90, cc_masking = True, cc_summary_prompt = None,
     cc_summary_prompt_error = None, cc_project_summary_prompt_ignored = False\<rparr>"

datatype compactor_kind = AutoCompactor | SummaryCompactor | OpenAiResponsesCompactor

definition compactor_kind_of :: "compaction_config \<Rightarrow> compactor_kind option" where
  "compactor_kind_of c =
     (if cc_compactor c = ''auto'' then Some AutoCompactor
      else if cc_compactor c = ''summary'' then Some SummaryCompactor
      else if cc_compactor c = ''openai-responses'' then Some OpenAiResponsesCompactor
      else None)"

definition auto_threshold_percent_clamped :: "compaction_config \<Rightarrow> nat" where
  "auto_threshold_percent_clamped c = max 10 (min 100 (cc_auto_threshold_percent c))"

text \<open>
  What is read of a configuration file: its \<open>compaction\<close> section (\<open>serde_json\<close> with its
  defaults, a parameter) and the key \<open>summary_prompt\<close> in it.
\<close>

definition json_get :: "string \<Rightarrow> json \<Rightarrow> json option" where
  "json_get key v = (case v of JObject kvs \<Rightarrow> map_of kvs key | _ \<Rightarrow> None)"

definition json_as_str :: "json \<Rightarrow> string option" where
  "json_as_str v = (case v of JString s \<Rightarrow> Some s | _ \<Rightarrow> None)"

record config_reader =
  cr_read :: "string \<Rightarrow> string option"
  cr_section :: "string \<Rightarrow> compaction_config option"
  cr_json :: "string \<Rightarrow> json option"

definition load_compaction_config :: "config_reader \<Rightarrow> string \<Rightarrow> compaction_config option" where
  "load_compaction_config rd path = Option.bind (cr_read rd path) (cr_section rd)"

definition summary_prompt_value :: "config_reader \<Rightarrow> string \<Rightarrow> json option" where
  "summary_prompt_value rd path =
     Option.bind (cr_read rd path) (\<lambda>raw. Option.bind (cr_json rd raw) (\<lambda>v.
       Option.bind (json_get ''compaction'' v) (json_get ''summary_prompt'')))"

definition summary_prompt_path :: "config_reader \<Rightarrow> string \<Rightarrow> string option" where
  "summary_prompt_path rd path = Option.bind (summary_prompt_value rd path) json_as_str"

definition config_summary_prompt_key :: "config_reader \<Rightarrow> string \<Rightarrow> bool" where
  "config_summary_prompt_key rd path \<longleftrightarrow> summary_prompt_value rd path \<noteq> None"

text \<open>\<open>bytes\<close> is what reading the prompt file gives, \<open>None\<close> for an error.\<close>

definition read_summary_prompt :: "string option \<Rightarrow> (string, string) result" where
  "read_summary_prompt bytes =
     (case bytes of
        None \<Rightarrow> Inl ''unreadable''
      | Some b \<Rightarrow>
          if length b > 65536 then Inl ''unreadable''
          else if \<not> utf8_valid b then Inl ''unreadable''
          else if trim b = [] then Inl ''empty''
          else Inr (trim b))"

definition load_from_paths ::
  "config_reader \<Rightarrow> (string \<Rightarrow> string option) \<Rightarrow> string option \<Rightarrow> string option \<Rightarrow> compaction_config" where
  "load_from_paths rd prompt_bytes user project =
     (let c = (case Option.bind project (load_compaction_config rd) of
           Some c \<Rightarrow> c
         | None \<Rightarrow> (case Option.bind user (load_compaction_config rd) of
             Some c \<Rightarrow> c | None \<Rightarrow> default_compaction_config));
          c1 = (if (case project of Some p \<Rightarrow> config_summary_prompt_key rd p | None \<Rightarrow> False)
                then c\<lparr>cc_project_summary_prompt_ignored := True\<rparr> else c)
      in case Option.bind user (summary_prompt_path rd) of
           None \<Rightarrow> c1
         | Some path \<Rightarrow>
             (case read_summary_prompt (prompt_bytes path) of
                Inr prompt \<Rightarrow> c1\<lparr>cc_summary_prompt := Some prompt\<rparr>
              | Inl e \<Rightarrow> c1\<lparr>cc_summary_prompt_error := Some e\<rparr>))"

section \<open>Estimates and masks\<close>

definition estimate_text_tokens :: "string \<Rightarrow> nat" where
  "estimate_text_tokens s = (length s + 3) div 4"

definition mask_marker :: "nat \<Rightarrow> string" where
  "mask_marker bytes_freed =
     ''[result masked by compaction: '' @ show_nat bytes_freed @ '' bytes; re-read the source if needed]''"

definition mask_savings_floor :: "nat \<Rightarrow> nat" where
  "mask_savings_floor usable = (if usable div 20 > 8192 then usable div 20 else 8192)"

record mask_candidate =
  mc_turn_id :: string
  mc_tool_request_id :: string
  mc_bytes :: nat
  mc_net_tokens :: nat

type_synonym mask_map = "string \<times> string \<rightharpoonup> nat"

definition add_mask :: "session_event \<Rightarrow> mask_map \<Rightarrow> mask_map" where
  "add_mask e m = (case e of
     ToolResultMasked _ _ turn rid bytes _ \<Rightarrow> if m (turn, rid) = None then m((turn, rid) \<mapsto> bytes) else m
   | _ \<Rightarrow> m)"

definition masked_result_map :: "session_event list \<Rightarrow> mask_map" where
  "masked_result_map events = fold add_mask events Map.empty"

record checkpoint_view =
  cv_summary :: string
  cv_details :: json
  cv_first_kept_entry_id :: string
  cv_kept_start_index :: nat

definition is_checkpoint :: "session_event \<Rightarrow> bool" where
  "is_checkpoint e = (case e of CompactionCheckpoint _ _ _ _ _ _ _ _ _ _ \<Rightarrow> True | _ \<Rightarrow> False)"

definition entry_id_of :: "session_event \<Rightarrow> string option" where
  "entry_id_of e = (case e of EntryAppended _ entry _ _ _ _ _ \<Rightarrow> Some entry | _ \<Rightarrow> None)"

definition newest_compaction_checkpoint :: "session_event list \<Rightarrow> checkpoint_view option" where
  "newest_compaction_checkpoint events =
     (case find_map (\<lambda>(i, e). case e of
          CompactionCheckpoint _ _ _ s kept _ _ _ _ details \<Rightarrow> Some (i, s, details, kept) | _ \<Rightarrow> None)
        (rev (enumerate 0 events)) of
        None \<Rightarrow> None
      | Some (i, s, details, kept) \<Rightarrow>
          Some \<lparr>cv_summary = s, cv_details = details, cv_first_kept_entry_id = kept,
            cv_kept_start_index =
              (case find_map (\<lambda>(j, e). if entry_id_of e = Some kept then Some j else None) (enumerate 0 events) of
                 Some j \<Rightarrow> j | None \<Rightarrow> i + 1)\<rparr>)"

definition active_start :: "session_event list \<Rightarrow> nat" where
  "active_start events =
     (case newest_compaction_checkpoint events of None \<Rightarrow> 0 | Some v \<Rightarrow> cv_kept_start_index v)"

fun mask_loop ::
  "(string \<Rightarrow> bool) \<Rightarrow> mask_map \<Rightarrow> string \<Rightarrow> nat \<Rightarrow> session_event list \<Rightarrow> nat \<Rightarrow> mask_candidate list" where
  "mask_loop terminal masks current protect [] protected = []"
| "mask_loop terminal masks current protect (e # es) protected =
     (case e of
        ToolExecutionFinished _ turn rid _ _ _ (Some content) _ _ \<Rightarrow>
          if turn = current \<or> \<not> terminal turn \<or> masks (turn, rid) \<noteq> None
          then mask_loop terminal masks current protect es protected
          else if protected < protect
          then mask_loop terminal masks current protect es
                 (u64_saturating_add protected (estimate_text_tokens content))
          else
            (let net = estimate_text_tokens content - estimate_text_tokens (mask_marker (length content))
             in if net > 0
                then \<lparr>mc_turn_id = turn, mc_tool_request_id = rid, mc_bytes = length content, mc_net_tokens = net\<rparr>
                  # mask_loop terminal masks current protect es protected
                else mask_loop terminal masks current protect es protected)
      | _ \<Rightarrow> mask_loop terminal masks current protect es protected)"

definition finished_turns :: "session_event list \<Rightarrow> string set" where
  "finished_turns events =
     set (List.map_filter (\<lambda>e. case e of TurnFinished _ turn _ _ \<Rightarrow> Some turn | _ \<Rightarrow> None) events)"

definition select_mask_candidates :: "session_event list \<Rightarrow> string \<Rightarrow> nat \<Rightarrow> mask_candidate list" where
  "select_mask_candidates events current protect =
     (let active = drop (active_start events) events
      in rev (mask_loop (\<lambda>turn. turn \<in> finished_turns active) (masked_result_map events) current protect (rev active) 0))"

definition estimate_event_tokens :: "session_event \<Rightarrow> nat" where
  "estimate_event_tokens e = (case e of
     EntryAppended _ _ _ _ _ content _ \<Rightarrow> estimate_text_tokens content
   | ToolRequestRecorded _ _ _ _ _ _ _ _ (Some arguments) \<Rightarrow> estimate_text_tokens arguments
   | ToolExecutionFinished _ _ _ _ _ _ (Some content) _ _ \<Rightarrow> estimate_text_tokens content
   | CompactionCheckpoint _ _ _ s _ _ _ _ _ _ \<Rightarrow> estimate_text_tokens s
   | _ \<Rightarrow> 0)"

definition estimate_event_tokens_with_masks :: "mask_map \<Rightarrow> session_event \<Rightarrow> nat" where
  "estimate_event_tokens_with_masks masks e = (case e of
     ToolExecutionFinished _ turn rid _ _ _ _ _ _ \<Rightarrow>
       (case masks (turn, rid) of
          None \<Rightarrow> estimate_event_tokens e
        | Some bytes \<Rightarrow> estimate_text_tokens (mask_marker bytes))
   | _ \<Rightarrow> estimate_event_tokens e)"

text \<open>The sums of the source are \<open>u64\<close>; a log would have to hold 2^66 bytes to leave it.\<close>

definition estimate_events_tokens :: "session_event list \<Rightarrow> nat" where
  "estimate_events_tokens events =
     sum_list (map (estimate_event_tokens_with_masks (masked_result_map events)) events)"

section \<open>The budget of a context\<close>

record context_budget =
  context_window :: nat
  context_window_assumed :: bool
  max_output_tokens :: nat
  reserve_tokens :: nat

definition usable_tokens :: "context_budget \<Rightarrow> nat" where
  "usable_tokens b = context_window b - max_output_tokens b - reserve_tokens b"

definition u64_saturating_mul :: "nat \<Rightarrow> nat \<Rightarrow> nat" where
  "u64_saturating_mul a b = min u64_max (a * b)"

definition used_percent :: "context_budget \<Rightarrow> nat \<Rightarrow> nat" where
  "used_percent b used = min 255 (u64_saturating_mul used 100 div max (usable_tokens b) 1)"

definition turn_scoped_event_turn_id :: "session_event \<Rightarrow> string option" where
  "turn_scoped_event_turn_id e = (case e of
     EntryAppended _ _ _ turn _ _ _ \<Rightarrow> Some turn
   | ToolRequestRecorded _ turn _ _ _ _ _ _ _ \<Rightarrow> Some turn
   | ToolExecutionFinished _ turn _ _ _ _ _ _ _ \<Rightarrow> Some turn
   | ToolResultMasked _ turn _ _ _ _ \<Rightarrow> Some turn
   | _ \<Rightarrow> None)"

definition context_turns :: "session_event list \<Rightarrow> string set" where
  "context_turns events =
     (let completed = set (List.map_filter
            (\<lambda>e. case e of TurnFinished _ turn TurnCompleted _ \<Rightarrow> Some turn | _ \<Rightarrow> None) events)
      in case find_map turn_scoped_event_turn_id (rev events) of
           Some turn \<Rightarrow> if turn \<in> finished_turns events then completed else insert turn completed
         | None \<Rightarrow> completed)"

definition in_context :: "string set \<Rightarrow> session_event \<Rightarrow> bool" where
  "in_context turns e =
     (case turn_scoped_event_turn_id e of None \<Rightarrow> True | Some turn \<Rightarrow> turn \<in> turns)"

definition estimate_current_context_tokens :: "session_event list \<Rightarrow> nat" where
  "estimate_current_context_tokens events =
     (let turns = context_turns events; estimate = estimate_event_tokens_with_masks (masked_result_map events)
      in case newest_compaction_checkpoint events of
           None \<Rightarrow> sum_list (map estimate (filter (in_context turns) events))
         | Some v \<Rightarrow> u64_saturating_add (estimate_text_tokens (cv_summary v))
             (sum_list (map estimate (filter (in_context turns) (filter (\<lambda>e. \<not> is_checkpoint e)
               (drop (min (cv_kept_start_index v) (length events)) events))))))"

section \<open>The cut\<close>

record compaction_cut =
  cut_first_kept_entry_id :: string
  cut_kept_start_index :: nat
  cut_fold_range :: "nat \<times> nat"

fun budget_start :: "(session_event \<Rightarrow> nat) \<Rightarrow> nat \<Rightarrow> (nat \<times> session_event) list \<Rightarrow> nat \<Rightarrow> nat \<Rightarrow> nat" where
  "budget_start estimate keep [] accumulated start = start"
| "budget_start estimate keep ((i, e) # rest) accumulated start =
     (let accumulated' = u64_saturating_add accumulated (estimate e)
      in if accumulated' > keep then start else budget_start estimate keep rest accumulated' i)"

definition is_entry :: "session_event \<Rightarrow> bool" where
  "is_entry e \<longleftrightarrow> entry_id_of e \<noteq> None"

definition user_entry_id :: "session_event \<Rightarrow> string option" where
  "user_entry_id e = (case e of EntryAppended _ entry _ _ UserRole _ _ \<Rightarrow> Some entry | _ \<Rightarrow> None)"

definition first_from :: "nat \<Rightarrow> (session_event \<Rightarrow> string option) \<Rightarrow> session_event list \<Rightarrow> (nat \<times> string) option" where
  "first_from start pick events =
     find_map (\<lambda>(i, e). map_option (Pair i) (pick e)) (drop start (enumerate 0 events))"

text \<open>Where the search for the cut starts: the budget, or the newest entry when none is inside it.\<close>

definition cut_search_start :: "session_event list \<Rightarrow> nat \<Rightarrow> nat option" where
  "cut_search_start events start =
     (if list_ex is_entry (drop start events) then Some start
      else find_map (\<lambda>(i, e). if is_entry e then Some i else None) (rev (enumerate 0 (take start events))))"

definition select_compaction_cut :: "session_event list \<Rightarrow> nat \<Rightarrow> compaction_cut option" where
  "select_compaction_cut log_events keep =
     (let fold_start = active_start log_events;
          events = drop fold_start log_events;
          estimate = estimate_event_tokens_with_masks (masked_result_map log_events);
          start = budget_start estimate keep (rev (enumerate 0 events)) 0 (length events)
      in if start = 0 then None
         else Option.bind (cut_search_start events start) (\<lambda>search.
           Option.bind (case first_from search user_entry_id events of
               Some c \<Rightarrow> Some c | None \<Rightarrow> first_from search entry_id_of events) (\<lambda>(cut, entry).
             if cut = 0 then None
             else Some \<lparr>cut_first_kept_entry_id = entry, cut_kept_start_index = fold_start + cut,
               cut_fold_range = (fold_start, fold_start + cut)\<rparr>)))"

section \<open>The text for the summarizer\<close>

definition bounded_chars :: "string \<Rightarrow> nat \<Rightarrow> string" where
  "bounded_chars s max_chars =
     (if char_count s \<le> max_chars then s
      else take_chars max_chars s @ ''... ['' @ show_nat (char_count s - max_chars) @ '' chars truncated]'')"

definition role_label :: "entry_role \<Rightarrow> string" where
  "role_label role = (case role of UserRole \<Rightarrow> ''[User]'' | AssistantRole \<Rightarrow> ''[Assistant]''
     | ToolRole \<Rightarrow> ''[Tool]'' | SystemRole \<Rightarrow> ''[System]'')"

definition summary_line :: "mask_map \<Rightarrow> session_event \<Rightarrow> string option" where
  "summary_line masks e = (case e of
     EntryAppended _ _ _ _ role content _ \<Rightarrow> Some (role_label role @ '': '' @ content)
   | ToolRequestRecorded _ _ _ name _ _ _ _ arguments \<Rightarrow>
       Some (''[Tool call]: '' @ name @ ''('' @
         bounded_chars (case arguments of Some a \<Rightarrow> a | None \<Rightarrow> ''{}'') 2000 @ '')'')
   | ToolExecutionFinished _ turn rid outcome _ _ content _ _ \<Rightarrow>
       Some (''[Tool result '' @ outcome_debug outcome @ '']: '' @
         bounded_chars (case masks (turn, rid) of
             Some bytes \<Rightarrow> mask_marker bytes
           | None \<Rightarrow> (case content of Some c \<Rightarrow> c | None \<Rightarrow> ''(not retained)'')) 2000)
   | ToolResultMasked _ _ _ _ bytes _ \<Rightarrow> Some (''[Tool result masked: '' @ show_nat bytes @ '' bytes reclaimed]'')
   | _ \<Rightarrow> None)"

fun join_newline :: "string list \<Rightarrow> string" where
  "join_newline [] = []"
| "join_newline [l] = l"
| "join_newline (l # ls) = l @ CHR 0x0A # join_newline ls"

definition serialize_events_for_summary_with_masks :: "session_event list \<Rightarrow> mask_map \<Rightarrow> string" where
  "serialize_events_for_summary_with_masks events masks = join_newline (List.map_filter (summary_line masks) events)"

definition serialize_events_for_summary :: "session_event list \<Rightarrow> string" where
  "serialize_events_for_summary events = serialize_events_for_summary_with_masks events Map.empty"

text \<open>
  The files read and modified so far. A \<open>BTreeSet\<close> of strings is a set whose list is sorted by
  bytes; \<open>parse\<close> is \<open>serde_json::from_str\<close>.
\<close>

definition details_string_set :: "json option \<Rightarrow> string \<Rightarrow> string set" where
  "details_string_set details key =
     (case Option.bind details (json_get key) of
        Some (JArray entries) \<Rightarrow> set (List.map_filter json_as_str entries)
      | _ \<Rightarrow> {})"

definition request_path :: "(string \<Rightarrow> json option) \<Rightarrow> session_event \<Rightarrow> (string \<times> string) option" where
  "request_path parse e = (case e of
     ToolRequestRecorded _ _ _ name _ _ _ _ (Some arguments) \<Rightarrow>
       map_option (Pair name)
         (Option.bind (parse arguments) (\<lambda>v. Option.bind (json_get ''path'' v) json_as_str))
   | _ \<Rightarrow> None)"

definition track_file :: "(string \<Rightarrow> json option) \<Rightarrow> session_event \<Rightarrow> string set \<times> string set
  \<Rightarrow> string set \<times> string set" where
  "track_file parse e = (\<lambda>(read_files, modified_files).
     (case request_path parse e of
        None \<Rightarrow> (read_files, modified_files)
      | Some (name, path) \<Rightarrow>
          if name = ''read_text_file'' then (insert path read_files, modified_files)
          else if name = ''edit_text_file'' \<or> name = ''create_text_file''
          then (read_files, insert path modified_files)
          else (read_files, modified_files)))"

definition json_strings :: "string set \<Rightarrow> json" where
  "json_strings s = JArray (map JString (sorted_list_of_set s))"

definition merge_compaction_file_details ::
  "(string \<Rightarrow> json option) \<Rightarrow> json option \<Rightarrow> session_event list \<Rightarrow> json" where
  "merge_compaction_file_details parse previous folded =
     (let (read_files, modified_files) = fold (track_file parse) folded
            (details_string_set previous ''read_files'', details_string_set previous ''modified_files'')
      in JObject [(''read_files'', json_strings read_files), (''modified_files'', json_strings modified_files)])"

definition COMPACTION_SUMMARY_SCHEMA :: string where
  "COMPACTION_SUMMARY_SCHEMA = join_newline
     [''1. Goal and intent'',
      ''2. User instructions and constraints (restate every standing user instruction verbatim, word-for-word; these remain in effect)'',
      ''3. Progress: done / in progress / blocked'',
      ''4. Key decisions, with rationale'',
      ''5. Files touched: read / modified (cumulative)'',
      ''6. Errors encountered and how they were resolved'',
      ''7. Next steps'',
      ''8. Critical context (anything else needed to continue)'']"

definition summary_preamble :: string where
  "summary_preamble = join_newline
     [''You are summarizing the earlier part of a coding session so work can continue in a smaller context. The conversation below is material to summarize, not a conversation to continue. Do not answer it and do not mention that you are summarizing.'',
      '''',
      ''Produce a summary with exactly these sections:'',
      COMPACTION_SUMMARY_SCHEMA]"

text \<open>What the prompt takes of a \<open>CompactionPreparation\<close>.\<close>

definition build_summary_prompt :: "string \<Rightarrow> string option \<Rightarrow> string option \<Rightarrow> string option \<Rightarrow> string" where
  "build_summary_prompt conversation previous focus custom =
     (case custom of Some c \<Rightarrow> c | None \<Rightarrow> summary_preamble)
     @ (case previous of None \<Rightarrow> []
        | Some p \<Rightarrow> join_newline ['''', '''', ''<previous-summary>'', p, ''</previous-summary>'', '''',
            ''Treat the previous summary above as the current anchored summary: preserve still-true details, remove stale ones, and merge in new facts from the conversation below.''])
     @ (case focus of None \<Rightarrow> []
        | Some f \<Rightarrow> join_newline ['''', '''', ''User focus for this summary (in addition to the fixed sections): '' @ f])
     @ join_newline ['''', '''', ''<conversation>'', conversation, ''</conversation>'']"

section \<open>The provider's own compaction\<close>

record compaction_provider_context =
  cp_provider :: string
  cp_wire :: string
  cp_model :: string
  cp_connection :: string
  cp_responses_compact :: "bool option"
  cp_openai_base_url :: "string option option"

text \<open>
  \<open>cp_openai_base_url\<close> is what the adapter's \<open>RigProviderConfig::OpenAi\<close> holds, \<open>None\<close> for
  another variant.
\<close>

record native_request_envelope =
  nr_input :: "json list"
  nr_instructions :: string

record native_compaction_artifact =
  na_version :: nat
  na_provider :: string
  na_wire :: string
  na_model :: string
  na_connection :: string
  na_window :: "json list"

datatype compaction_error =
    UnsupportedProvider string | MissingNativeRequest | CompactionTimeout | CompactionTransport
  | CompactionHttpStatus nat | CompactionDecode | InvalidOutput

definition json_is_object :: "json \<Rightarrow> bool" where
  "json_is_object v = (case v of JObject _ \<Rightarrow> True | _ \<Rightarrow> False)"

definition native_window_is_replayable :: "json list \<Rightarrow> bool" where
  "native_window_is_replayable window \<longleftrightarrow>
     window \<noteq> [] \<and> list_all json_is_object window
     \<and> list_ex (\<lambda>item. Option.bind (json_get ''type'' item) json_as_str = Some ''compaction'') window"

text \<open>
  The transport: a failure, by timeout or not, or a status with what reading the body gives;
  \<open>None\<close> is a body that is not JSON.
\<close>

datatype http_reply = TransportFailure bool | HttpReply nat "(bool, json option) result"

definition compaction_transport_error :: "bool \<Rightarrow> compaction_error" where
  "compaction_transport_error late = (if late then CompactionTimeout else CompactionTransport)"

definition trim_end_slashes :: "string \<Rightarrow> string" where
  "trim_end_slashes s = rev (dropWhile (\<lambda>c. c = CHR ''/'') (rev s))"

definition openai_responses_compact ::
  "(string \<Rightarrow> json \<Rightarrow> http_reply) \<Rightarrow> compaction_provider_context \<Rightarrow> native_request_envelope option
   \<Rightarrow> (compaction_error, native_compaction_artifact) result" where
  "openai_responses_compact post provider request =
     (if cp_provider provider \<noteq> ''openai'' \<or> cp_wire provider \<noteq> ''openai-responses''
      then Inl (UnsupportedProvider (cp_provider provider))
      else (case (cp_openai_base_url provider, request) of
          (None, _) \<Rightarrow> Inl (UnsupportedProvider (cp_provider provider))
        | (_, None) \<Rightarrow> Inl MissingNativeRequest
        | (Some base, Some req) \<Rightarrow>
            (case post (trim_end_slashes (case base of Some b \<Rightarrow> b | None \<Rightarrow> ''https://api.openai.com/v1'')
                    @ ''/responses/compact'')
                 (JObject [(''model'', JString (cp_model provider)), (''input'', JArray (nr_input req)),
                    (''instructions'', JString (nr_instructions req))]) of
               TransportFailure late \<Rightarrow> Inl (compaction_transport_error late)
             | HttpReply status content \<Rightarrow>
                 if \<not> (200 \<le> status \<and> status \<le> 299) then Inl (CompactionHttpStatus status)
                 else (case content of
                     Inl late \<Rightarrow> Inl (compaction_transport_error late)
                   | Inr None \<Rightarrow> Inl CompactionDecode
                   | Inr (Some v) \<Rightarrow>
                       (case json_get ''output'' v of
                          Some (JArray window) \<Rightarrow>
                            if native_window_is_replayable window
                            then Inr \<lparr>na_version = 1, na_provider = cp_provider provider, na_wire = cp_wire provider,
                              na_model = cp_model provider, na_connection = cp_connection provider,
                              na_window = window\<rparr>
                            else Inl InvalidOutput
                        | _ \<Rightarrow> Inl InvalidOutput)))))"

end
