(* ===== verification/Provider.thy ===== *)
theory Provider
  imports Compaction Round_Error
begin

text \<open>
  What is sent to a provider and what comes back: the messages a request is rebuilt from the
  log with (\<^verbatim>\<open>runner.rs\<close>), the messages and stream events of \<^verbatim>\<open>provider.rs\<close>, and how the events
  of one answer are collected into a round.
\<close>

section \<open>Messages\<close>

record provider_model =
  pv_provider :: string
  pv_model :: string

record provider_tool_call =
  ptc_call_id :: string
  ptc_name :: string
  ptc_arguments :: json

record provider_tool_result_block =
  ptb_call_id :: string
  ptb_content :: string

record provider_message =
  pmsg_role :: entry_role
  pmsg_content :: string
  pmsg_tool_calls :: "provider_tool_call list"
  pmsg_tool_results :: "provider_tool_result_block list"

definition text_message :: "entry_role \<Rightarrow> string \<Rightarrow> provider_message" where
  "text_message role content =
     \<lparr>pmsg_role = role, pmsg_content = content, pmsg_tool_calls = [], pmsg_tool_results = []\<rparr>"

definition assistant_message :: "string \<Rightarrow> provider_tool_call list \<Rightarrow> provider_message" where
  "assistant_message content calls =
     \<lparr>pmsg_role = AssistantRole, pmsg_content = content, pmsg_tool_calls = calls, pmsg_tool_results = []\<rparr>"

definition tool_results_message :: "provider_tool_result_block list \<Rightarrow> provider_message" where
  "tool_results_message results =
     \<lparr>pmsg_role = ToolRole, pmsg_content = [], pmsg_tool_calls = [], pmsg_tool_results = results\<rparr>"

section \<open>Messages from the log\<close>

definition compaction_summary_message :: "string \<Rightarrow> provider_message" where
  "compaction_summary_message s = text_message SystemRole
     (''Earlier work in this session was compacted. The summary below is authoritative for everything before the messages that follow it.''
      @ [line_end, line_end] @ s)"

text \<open>
  What is known of a recorded tool request, by turn and request: its name, its arguments and the
  call id. \<open>parse\<close> is \<open>serde_json::from_str\<close>.
\<close>

type_synonym tool_contexts = "string \<times> string \<rightharpoonup> string \<times> string option \<times> string"

definition tool_exchange ::
  "(string \<Rightarrow> json option) \<Rightarrow> mask_map \<Rightarrow> tool_contexts \<Rightarrow> string \<Rightarrow> string \<Rightarrow> string option
   \<Rightarrow> provider_message list" where
  "tool_exchange parse masks contexts turn rid content =
     (case contexts (turn, rid) of
        Some (name, Some arguments, call_id) \<Rightarrow>
          (case parse arguments of
             None \<Rightarrow> []
           | Some v \<Rightarrow>
               (case (case masks (turn, rid) of Some bytes \<Rightarrow> Some (mask_marker bytes) | None \<Rightarrow> content) of
                  None \<Rightarrow> []
                | Some res \<Rightarrow>
                    [assistant_message [] [\<lparr>ptc_call_id = call_id, ptc_name = name, ptc_arguments = v\<rparr>],
                     tool_results_message [\<lparr>ptb_call_id = call_id, ptb_content = res\<rparr>]]))
      | _ \<Rightarrow> [])"

fun slice_messages ::
  "(string \<Rightarrow> json option) \<Rightarrow> (string \<Rightarrow> bool) \<Rightarrow> (string \<Rightarrow> bool) \<Rightarrow> mask_map \<Rightarrow> tool_contexts
   \<Rightarrow> session_event list \<Rightarrow> provider_message list" where
  "slice_messages parse entry_turn tool_turn masks contexts [] = []"
| "slice_messages parse entry_turn tool_turn masks contexts (e # es) =
     (case e of
        EntryAppended _ _ _ turn role content _ \<Rightarrow>
          (if entry_turn turn then [text_message role content] else [])
          @ slice_messages parse entry_turn tool_turn masks contexts es
      | ToolRequestRecorded _ turn rid name call_id _ _ _ arguments \<Rightarrow>
          slice_messages parse entry_turn tool_turn masks
            (if tool_turn turn
             then contexts((turn, rid) \<mapsto>
               (name, arguments, (case call_id of Some c \<Rightarrow> c | None \<Rightarrow> ''yach-'' @ rid)))
             else contexts) es
      | ToolExecutionFinished _ turn rid _ _ _ content _ _ \<Rightarrow>
          if tool_turn turn
          then tool_exchange parse masks contexts turn rid content
            @ slice_messages parse entry_turn tool_turn masks (contexts((turn, rid) := None)) es
          else slice_messages parse entry_turn tool_turn masks contexts es
      | _ \<Rightarrow> slice_messages parse entry_turn tool_turn masks contexts es)"

definition successful_entry_turns :: "session_event list \<Rightarrow> string set" where
  "successful_entry_turns events = set (List.map_filter
     (\<lambda>e. case e of TurnFinished _ turn TurnCompleted _ \<Rightarrow> Some turn | _ \<Rightarrow> None) events)"

definition provider_messages_from_event_slice ::
  "(string \<Rightarrow> json option) \<Rightarrow> session_event list \<Rightarrow> session_event list \<Rightarrow> string \<Rightarrow> string option
   \<Rightarrow> provider_message list" where
  "provider_messages_from_event_slice parse whole events current checkpoint_summary =
     (case checkpoint_summary of Some s \<Rightarrow> [compaction_summary_message s] | None \<Rightarrow> [])
     @ slice_messages parse (\<lambda>t. t = current \<or> t \<in> successful_entry_turns whole)
         (\<lambda>t. t = current \<or> t \<in> finished_turns whole) (masked_result_map whole) Map.empty events"

definition provider_messages_from_log ::
  "(string \<Rightarrow> json option) \<Rightarrow> session_event list \<Rightarrow> string \<Rightarrow> provider_message list" where
  "provider_messages_from_log parse events current =
     (case newest_compaction_checkpoint events of
        None \<Rightarrow> provider_messages_from_event_slice parse events events current None
      | Some v \<Rightarrow> provider_messages_from_event_slice parse events
          (drop (min (cv_kept_start_index v) (length events)) events) current (Some (cv_summary v)))"

text \<open>Static context; an item with its placement, title and content.\<close>

type_synonym static_context_item = "static_context_placement \<times> string \<times> string"

fun join_blank_line :: "string list \<Rightarrow> string" where
  "join_blank_line [] = []"
| "join_blank_line [l] = l"
| "join_blank_line (l # ls) = l @ [line_end, line_end] @ join_blank_line ls"

definition render_static_context_items :: "static_context_item list \<Rightarrow> string option" where
  "render_static_context_items items =
     (let rendered = join_blank_line
        (map (\<lambda>(_, heading, content). ''# '' @ heading @ [line_end, line_end] @ content) items)
      in if rendered = [] then None else Some rendered)"

definition provider_messages_from_static_context :: "static_context_item list \<Rightarrow> provider_message list" where
  "provider_messages_from_static_context items =
     (let background = (\<lambda>i. fst i = BackgroundContext);
          message = (\<lambda>role content. case content of Some c \<Rightarrow> [text_message role c] | None \<Rightarrow> [])
      in message SystemRole (render_static_context_items (filter (Not \<circ> background) items))
         @ message UserRole (render_static_context_items (filter background items)))"

definition PROVIDER_BASELINE_GUIDANCE :: string where
  "PROVIDER_BASELINE_GUIDANCE = ''You are a coding agent running in the yach harness. Files can change outside this conversation at any time: verify current state with a tool call before asserting or acting on remembered file contents. If a tool call fails because the target changed, already exists, or is missing, re-check the current state and adapt instead of repeating the call. Match effort to the request: answer greetings, small talk, and questions you can already answer directly, without tool calls. Project instructions in context describe how to carry out real work, not a checklist to run before every response.''"

definition provider_messages_from_log_with_static_context ::
  "(string \<Rightarrow> json option) \<Rightarrow> session_event list \<Rightarrow> string \<Rightarrow> static_context_item list \<Rightarrow> bool
   \<Rightarrow> provider_message list" where
  "provider_messages_from_log_with_static_context parse events current items baseline_guidance =
     (if baseline_guidance then [text_message SystemRole PROVIDER_BASELINE_GUIDANCE] else [])
     @ provider_messages_from_static_context items @ provider_messages_from_log parse events current"

text \<open>\<open>print\<close> is \<open>Value::to_string\<close>.\<close>

definition estimate_provider_messages_tokens :: "(json \<Rightarrow> string) \<Rightarrow> provider_message list \<Rightarrow> nat" where
  "estimate_provider_messages_tokens print messages = sum_list (map (\<lambda>m.
     estimate_text_tokens (pmsg_content m)
     + sum_list (map (\<lambda>c. estimate_text_tokens (ptc_name c) + estimate_text_tokens (print (ptc_arguments c)))
         (pmsg_tool_calls m))
     + sum_list (map (\<lambda>r. estimate_text_tokens (ptb_content r)) (pmsg_tool_results m))) messages)"

section \<open>Requests and stream events\<close>

record provider_request =
  prq_turn_id :: string
  prq_model :: provider_model
  prq_messages :: "provider_message list"
  prq_native_request :: "native_request_envelope option"
  prq_extensions :: "(string \<times> json) list"
  prq_approved_tool_advertising :: "(string \<times> json) option"

datatype provider_finish_reason =
  FinishStop | FinishLength | FinishToolCalls | FinishSafety | FinishContentFilter | FinishUnknown

datatype provider_stream_event =
    StreamStarted string provider_model
  | TextDelta string string
  | ToolCallStarted string string string
  | ToolCallDelta string string string
  | ResponseOutput string "json list"
  | ToolCallCompleted string provider_tool_call
  | StreamCompleted string "provider_finish_reason option" "provider_usage option" "string option"
  | StreamFailed string provider_error
  | StreamCancelled string "string option"

definition stream_turn_id :: "provider_stream_event \<Rightarrow> string" where
  "stream_turn_id e = (case e of StreamStarted t _ \<Rightarrow> t | TextDelta t _ \<Rightarrow> t | ToolCallStarted t _ _ \<Rightarrow> t
     | ToolCallDelta t _ _ \<Rightarrow> t | ResponseOutput t _ \<Rightarrow> t | ToolCallCompleted t _ \<Rightarrow> t
     | StreamCompleted t _ _ _ \<Rightarrow> t | StreamFailed t _ \<Rightarrow> t | StreamCancelled t _ \<Rightarrow> t)"

definition is_completed :: "provider_stream_event \<Rightarrow> bool" where
  "is_completed e = (case e of StreamCompleted _ _ _ _ \<Rightarrow> True | _ \<Rightarrow> False)"

definition is_response_output :: "provider_stream_event \<Rightarrow> bool" where
  "is_response_output e = (case e of ResponseOutput _ _ \<Rightarrow> True | _ \<Rightarrow> False)"

section \<open>Collecting a round\<close>

record provider_first_round =
  fr_text :: string
  fr_response_id :: "string option"
  fr_tool_calls :: "provider_tool_call list"
  fr_usage :: "provider_usage option"
  fr_raw_output :: "json list option"

record round_state =
  rs_round :: provider_first_round
  rs_completed :: bool
  rs_finish_reason :: "provider_finish_reason option"

definition collect_event :: "provider_stream_event \<Rightarrow> round_state \<Rightarrow> (provider_round_error, round_state) result" where
  "collect_event e s =
     (let r = rs_round s in
      case e of
        TextDelta _ delta \<Rightarrow> Inr (s\<lparr>rs_round := r\<lparr>fr_text := fr_text r @ delta\<rparr>\<rparr>)
      | ToolCallCompleted _ call \<Rightarrow> Inr (s\<lparr>rs_round := r\<lparr>fr_tool_calls := fr_tool_calls r @ [call]\<rparr>\<rparr>)
      | ResponseOutput _ items \<Rightarrow>
          if rs_completed s \<or> fr_raw_output r \<noteq> None
          then Inl (RoundProvider (malformed_stream_error ''provider emitted duplicate terminal raw output''))
          else Inr (s\<lparr>rs_round := r\<lparr>fr_raw_output := Some items\<rparr>\<rparr>)
      | StreamCompleted _ reason usage response_id \<Rightarrow>
          if rs_completed s
          then Inl (RoundProvider (malformed_stream_error ''provider emitted duplicate completion''))
          else Inr (s\<lparr>rs_completed := True, rs_finish_reason := reason,
            rs_round := r\<lparr>fr_response_id := response_id,
              fr_usage := (case usage of Some u \<Rightarrow> Some u | None \<Rightarrow> fr_usage r)\<rparr>\<rparr>)
      | StreamFailed _ err \<Rightarrow> Inl (RoundProvider err)
      | StreamCancelled _ reason \<Rightarrow>
          Inl (RoundCancelled (case reason of Some t \<Rightarrow> t | None \<Rightarrow> ''native provider cancelled''))
      | _ \<Rightarrow> Inr s)"

fun collect_events :: "provider_stream_event list \<Rightarrow> round_state \<Rightarrow> (provider_round_error, round_state) result" where
  "collect_events [] s = Inr s"
| "collect_events (e # es) s = (case collect_event e s of Inl x \<Rightarrow> Inl x | Inr t \<Rightarrow> collect_events es t)"

definition empty_round :: round_state where
  "empty_round = \<lparr>rs_round = \<lparr>fr_text = [], fr_response_id = None, fr_tool_calls = [], fr_usage = None,
     fr_raw_output = None\<rparr>, rs_completed = False, rs_finish_reason = None\<rparr>"

definition collect_native_provider_first_round ::
  "provider_stream_event list \<Rightarrow> (provider_round_error, provider_first_round) result" where
  "collect_native_provider_first_round events =
     (case collect_events events empty_round of
        Inl x \<Rightarrow> Inl x
      | Inr s \<Rightarrow>
          if \<not> rs_completed s then Inl StreamEndedWithoutCompletion
          else if fr_tool_calls (rs_round s) = [] \<and> rs_finish_reason s = Some FinishToolCalls
          then Inl (ToolContinuation ''provider_tool_call_incomplete'')
          else Inr (rs_round s))"

text \<open>The calls in the raw output of a round, checked as they are read.\<close>

definition malformed :: "string \<Rightarrow> provider_round_error" where
  "malformed message = RoundProvider (malformed_stream_error message)"

definition read_raw_call ::
  "(string \<Rightarrow> json option) \<Rightarrow> json \<Rightarrow> (provider_round_error, string \<times> string \<times> json) result" where
  "read_raw_call parse item =
     (case Option.bind (json_get ''call_id'' item) json_as_str of
        None \<Rightarrow> Inl (malformed ''terminal function call is missing call_id'')
      | Some call_id \<Rightarrow>
          (case Option.bind (json_get ''name'' item) json_as_str of
             None \<Rightarrow> Inl (malformed ''terminal function call is missing name'')
           | Some name \<Rightarrow>
               (case json_get ''arguments'' item of
                  None \<Rightarrow> Inl (malformed ''terminal function call is missing arguments'')
                | Some (JString serialized) \<Rightarrow>
                    (case parse serialized of
                       None \<Rightarrow> Inl (malformed ''terminal function call arguments are malformed'')
                     | Some v \<Rightarrow> Inr (call_id, name, v))
                | Some v \<Rightarrow> Inr (call_id, name, v))))"

fun raw_calls ::
  "(string \<Rightarrow> json option) \<Rightarrow> json list \<Rightarrow> (string \<times> string \<times> json) list
   \<Rightarrow> (provider_round_error, (string \<times> string \<times> json) list) result" where
  "raw_calls parse [] acc = Inr acc"
| "raw_calls parse (item # items) acc =
     (if Option.bind (json_get ''type'' item) json_as_str \<noteq> Some ''function_call'' then raw_calls parse items acc
      else (case read_raw_call parse item of
          Inl x \<Rightarrow> Inl x
        | Inr c \<Rightarrow> if fst c \<in> fst ` set acc
            then Inl (malformed ''terminal function call ids must be unique'')
            else raw_calls parse items (acc @ [c])))"

definition validate_terminal_raw_output ::
  "(string \<Rightarrow> json option) \<Rightarrow> provider_first_round \<Rightarrow> (provider_round_error, unit) result" where
  "validate_terminal_raw_output parse r =
     (case fr_raw_output r of
        None \<Rightarrow> Inr ()
      | Some raw \<Rightarrow>
          if raw = [] \<and> (fr_text r \<noteq> [] \<or> fr_tool_calls r \<noteq> [])
          then Inl (malformed ''provider emitted empty terminal output after round content'')
          else (case raw_calls parse raw [] of
              Inl x \<Rightarrow> Inl x
            | Inr calls \<Rightarrow>
                if \<not> distinct (map ptc_call_id (fr_tool_calls r))
                then Inl (malformed ''completed tool call ids must be unique'')
                else if length calls \<noteq> length (fr_tool_calls r)
                  \<or> list_ex (\<lambda>((call_id, name, arguments), typed).
                        call_id \<noteq> ptc_call_id typed \<or> name \<noteq> ptc_name typed \<or> arguments \<noteq> ptc_arguments typed)
                      (zip calls (fr_tool_calls r))
                then Inl (malformed ''terminal function calls do not match completed tool calls'')
                else Inr ()))"

definition add_usage :: "nat option \<Rightarrow> nat option \<Rightarrow> nat option" where
  "add_usage a b = (case (a, b) of (None, b) \<Rightarrow> b | (a, None) \<Rightarrow> a | (Some a, Some b) \<Rightarrow> Some (u64_saturating_add a b))"

definition sum_provider_usage ::
  "provider_usage option \<Rightarrow> provider_usage option \<Rightarrow> provider_usage option" where
  "sum_provider_usage sofar rnd = (case (sofar, rnd) of
     (None, rnd) \<Rightarrow> rnd
   | (sofar, None) \<Rightarrow> sofar
   | (Some a, Some b) \<Rightarrow> Some \<lparr>input_tokens = add_usage (input_tokens a) (input_tokens b),
       output_tokens = add_usage (output_tokens a) (output_tokens b),
       total_tokens = add_usage (total_tokens a) (total_tokens b)\<rparr>)"

end
