(* ===== verification/Provider_Retry.thy ===== *)
theory Provider_Retry
  imports Provider
begin

text \<open>
  A provider request with its retries, \<open>provider_request_with_retry_context\<close> of \<^verbatim>\<open>runner.rs\<close>: up
  to three attempts with a bounded delay between them, a partial answer kept as the prefix of
  the next request where the provider can continue from it, and one recorded attempt for each
  one started.
\<close>

section \<open>Where a run leaves its events\<close>

datatype backend_notice = StatusUpdated string | PromptAttemptReset string nat nat

text \<open>
  The log, the events not yet written, the store they go to, if there is one, and what was sent
  to the front end.
\<close>

record run_state =
  ru_log :: "session_event list"
  ru_pending :: "session_event list"
  ru_fs :: fs
  ru_attempt_sequence :: nat
  ru_sent :: "backend_notice list"

record session_store_ref =
  st_codec :: session_codec
  st_at_ms :: "nat option"
  st_path :: spath

definition send_notice :: "backend_notice \<Rightarrow> run_state \<Rightarrow> run_state" where
  "send_notice n s = s\<lparr>ru_sent := ru_sent s @ [n]\<rparr>"

definition push_log_event :: "session_event \<Rightarrow> run_state \<Rightarrow> run_state" where
  "push_log_event e s = s\<lparr>ru_log := ru_log s @ [e], ru_pending := ru_pending s @ [e]\<rparr>"

definition append_pending_native_session_events ::
  "session_store_ref \<Rightarrow> run_state \<Rightarrow> bool \<times> run_state" where
  "append_pending_native_session_events st s =
     (let (ok, fs') = append_events_without_sync (st_codec st) (st_at_ms st) (st_path st) (ru_pending s) (ru_fs s)
      in if ok then (True, s\<lparr>ru_fs := fs', ru_pending := []\<rparr>) else (False, s\<lparr>ru_fs := fs'\<rparr>))"

text \<open>\<open>AttemptSink::record\<close>\<close>

definition record_attempt ::
  "session_store_ref option \<Rightarrow> string \<Rightarrow> string \<Rightarrow> provider_attempt_summary \<Rightarrow> run_state \<Rightarrow> run_state" where
  "record_attempt store session turn attempt s =
     (let e = ProviderAttemptFinished session turn attempt;
          s1 = (case store of
            Some st \<Rightarrow> s\<lparr>ru_fs := snd (append_events_without_sync (st_codec st) (st_at_ms st) (st_path st) [e] (ru_fs s))\<rparr>
          | None \<Rightarrow> s\<lparr>ru_pending := ru_pending s @ [e]\<rparr>)
      in s1\<lparr>ru_log := ru_log s1 @ [e]\<rparr>)"

definition next_attempt_sequence :: "nat \<Rightarrow> nat" where
  "next_attempt_sequence n = max 1 (u64_saturating_add n 1)"

section \<open>What settles an attempt\<close>

record attempt_diagnostics =
  ad_provider_request_id :: "string option"
  ad_first_event_ms :: "nat option"
  ad_capture :: "string option"
  ad_started_at_ms :: nat
  ad_duration_ms :: nat

datatype attempt_settle =
    SettleStream "provider_stream_event list" "provider_error option" bool
  | SettleError provider_error
  | SettleCancelled

definition stream_attempt_settle ::
  "provider_stream_event list \<Rightarrow> provider_error option \<Rightarrow> bool
   \<Rightarrow> provider_attempt_outcome \<times> provider_error option" where
  "stream_attempt_settle events partial_error tool_round_used =
     (if list_ex (\<lambda>e. case e of StreamCancelled _ _ \<Rightarrow> True | _ \<Rightarrow> False) events then (AttemptCancelled, None)
      else (case find_map (\<lambda>e. case e of StreamFailed _ err \<Rightarrow> Some err | _ \<Rightarrow> None) events of
          Some err \<Rightarrow> (AttemptFailed, Some err)
        | None \<Rightarrow>
            if list_ex is_completed events
            then (case partial_error of Some err \<Rightarrow> (AttemptPartial, Some err) | None \<Rightarrow> (AttemptSucceeded, None))
            else if tool_round_used then (AttemptPartial, partial_error)
            else (AttemptFailed, partial_error)))"

definition settle_outcome :: "attempt_settle \<Rightarrow> provider_attempt_outcome \<times> provider_error option \<times> bool" where
  "settle_outcome settle = (case settle of
     SettleCancelled \<Rightarrow> (AttemptCancelled, None, False)
   | SettleError err \<Rightarrow> (AttemptFailed, Some err, False)
   | SettleStream events partial_error used \<Rightarrow>
       (case stream_attempt_settle events partial_error used of
          (outcome, err) \<Rightarrow> (outcome, err, outcome = AttemptFailed \<and> err = None)))"

definition error_field :: "provider_error option \<Rightarrow> (provider_error_metadata \<Rightarrow> 'a option) \<Rightarrow> 'a option" where
  "error_field err f = Option.bind err (\<lambda>x. f (pe_metadata x))"

definition attempt_summary ::
  "provider_attempt_purpose \<Rightarrow> string \<Rightarrow> nat \<Rightarrow> nat \<Rightarrow> attempt_settle \<Rightarrow> nat option \<Rightarrow> attempt_diagnostics
   \<Rightarrow> provider_attempt_summary" where
  "attempt_summary purpose model sequence retry_index settle next_delay d =
     (case settle_outcome settle of (outcome, err, bad) \<Rightarrow>
       let kind = (if bad then Some MalformedStream else map_option pe_kind err);
           src = (if bad then Some Variant else map_option (pem_classification_source \<circ> pe_metadata) err)
       in \<lparr>pa_purpose = purpose, pa_attempt_sequence = sequence, pa_retry_index = min retry_index 255,
           pa_outcome = outcome,
           pa_error_kind = (if outcome = AttemptCancelled then None else kind),
           pa_classification_source = (if outcome = AttemptCancelled then None else src),
           pa_error_variant = error_field err pem_error_variant, pa_status_code = error_field err pem_status_code,
           pa_provider_code = error_field err pem_provider_code, pa_timeout_phase = error_field err pem_timeout_phase,
           pa_retry_after_ms = error_field err pem_retry_after_ms, pa_next_delay_ms = next_delay,
           pa_started_at_ms = ad_started_at_ms d, pa_duration_ms = ad_duration_ms d,
           pa_first_event_ms = ad_first_event_ms d, pa_provider_request_id = ad_provider_request_id d,
           pa_model = model, pa_capture = ad_capture d\<rparr>)"

section \<open>The retry policy\<close>

definition provider_error_is_transient :: "provider_error_kind \<Rightarrow> bool" where
  "provider_error_is_transient kind \<longleftrightarrow> kind \<in> {ProviderTimeout, Network, RateLimited, ProviderInternal}"

definition PROVIDER_RETRY_DELAYS_MS :: "nat list" where
  "PROVIDER_RETRY_DELAYS_MS = [1000, 2000]"

definition PROVIDER_RETRY_DELAY_BUDGET_MS :: nat where
  "PROVIDER_RETRY_DELAY_BUDGET_MS = 30000"

definition provider_retry_delay_ms :: "provider_error \<Rightarrow> nat \<Rightarrow> nat \<Rightarrow> nat option" where
  "provider_retry_delay_ms err retry_index delay_spent =
     (if retry_index \<ge> length PROVIDER_RETRY_DELAYS_MS \<or> hard_non_retryable_status (pe_metadata err)
         \<or> \<not> provider_error_is_transient (pe_kind err)
      then None
      else (let delay = max (PROVIDER_RETRY_DELAYS_MS ! retry_index)
              (case pem_retry_after_ms (pe_metadata err) of Some ms \<Rightarrow> ms | None \<Rightarrow> 0)
            in if delay \<le> PROVIDER_RETRY_DELAY_BUDGET_MS - delay_spent then Some delay else None))"

definition provider_error_kind_label :: "provider_error_kind \<Rightarrow> string" where
  "provider_error_kind_label kind = (case kind of
     Authentication \<Rightarrow> ''authentication'' | RateLimited \<Rightarrow> ''rate_limited'' | InvalidRequest \<Rightarrow> ''invalid_request''
   | ContextLength \<Rightarrow> ''context_length'' | UnavailableModel \<Rightarrow> ''unavailable_model''
   | ProviderTimeout \<Rightarrow> ''timeout'' | Network \<Rightarrow> ''network'' | ProviderInternal \<Rightarrow> ''provider_internal''
   | SafetyRefusal \<Rightarrow> ''safety_refusal'' | MalformedStream \<Rightarrow> ''malformed_stream''
   | Backpressure \<Rightarrow> ''backpressure'' | ProviderCancelled \<Rightarrow> ''cancelled'' | UnknownError \<Rightarrow> ''unknown'')"

definition retry_status :: "provider_error \<Rightarrow> nat \<Rightarrow> nat \<Rightarrow> string" where
  "retry_status err retry_index delay =
     ''provider '' @ provider_error_kind_label (pe_kind err) @ ''; retrying in ''
     @ (if delay mod 1000 = 0 then show_nat (delay div 1000) @ ''s'' else show_nat delay @ ''ms'')
     @ '' (attempt '' @ show_nat (retry_index + 2) @ '' of 3)''"

section \<open>The prefix a retry continues from\<close>

definition instructions_from_messages :: "provider_message list \<Rightarrow> string" where
  "instructions_from_messages messages =
     (let instructions = join_blank_line (map pmsg_content (filter (\<lambda>m. pmsg_role m = SystemRole) messages))
      in if trim instructions = [] then ''Follow the user instruction exactly.'' else instructions)"

definition output_text_item :: "string \<Rightarrow> string \<Rightarrow> string \<Rightarrow> json" where
  "output_text_item role kind content = JObject [(''type'', JString ''message''), (''role'', JString role),
     (''content'', JArray [JObject [(''type'', JString kind), (''text'', JString content)]])]"

definition assistant_output_text_item :: "string \<Rightarrow> json" where
  "assistant_output_text_item content = output_text_item ''assistant'' ''output_text'' content"

definition user_input_text_item :: "string \<Rightarrow> json" where
  "user_input_text_item content = output_text_item ''user'' ''input_text'' content"

definition event_text :: "provider_stream_event \<Rightarrow> string" where
  "event_text e = (case e of TextDelta _ delta \<Rightarrow> delta | _ \<Rightarrow> [])"

definition stream_text :: "provider_stream_event list \<Rightarrow> string" where
  "stream_text events = concat (map event_text events)"

definition response_items :: "provider_stream_event \<Rightarrow> json list option" where
  "response_items e = (case e of ResponseOutput _ items \<Rightarrow> Some items | _ \<Rightarrow> None)"

text \<open>\<open>items_of\<close> is \<open>input_items_from_messages\<close>, which goes through Rig's conversion.\<close>

definition completed_prefix_items :: "provider_stream_event list \<Rightarrow> json list option" where
  "completed_prefix_items events = (case List.map_filter response_items events of
     [items] \<Rightarrow> Some items
   | [] \<Rightarrow> (let content = stream_text events in if content = [] then None else Some [assistant_output_text_item content])
   | _ \<Rightarrow> None)"

definition provider_retry_request_with_completed_prefix ::
  "(provider_message list \<Rightarrow> json list option) \<Rightarrow> provider_request \<Rightarrow> provider_stream_event list \<Rightarrow> bool
   \<Rightarrow> provider_request option" where
  "provider_retry_request_with_completed_prefix items_of request events supports_prefix_resume =
     (if \<not> supports_prefix_resume then None
      else Option.bind (completed_prefix_items events) (\<lambda>prefix_items.
        map_option (\<lambda>native. request\<lparr>prq_native_request := Some (native\<lparr>nr_input := nr_input native @ prefix_items\<rparr>)\<rparr>)
          (Option.bind (items_of (prq_messages request)) (\<lambda>items.
            Some (case prq_native_request request of Some native \<Rightarrow> native
              | None \<Rightarrow> \<lparr>nr_input = items, nr_instructions = instructions_from_messages (prq_messages request)\<rparr>)))))"

definition kept_in_prefix :: "provider_stream_event \<Rightarrow> bool" where
  "kept_in_prefix e = (case e of TextDelta _ _ \<Rightarrow> True | ToolCallStarted _ _ _ \<Rightarrow> True | ToolCallDelta _ _ _ \<Rightarrow> True
     | ToolCallCompleted _ _ \<Rightarrow> True | _ \<Rightarrow> False)"

fun splice_output :: "json list \<Rightarrow> provider_stream_event list \<Rightarrow> provider_stream_event list" where
  "splice_output out [] = []"
| "splice_output out (e # es) = (case e of ResponseOutput t items \<Rightarrow> ResponseOutput t (out @ items) # es
     | _ \<Rightarrow> e # splice_output out es)"

definition finish_provider_retry_events ::
  "provider_stream_event list \<Rightarrow> json list \<Rightarrow> provider_stream_event list \<Rightarrow> provider_stream_event list" where
  "finish_provider_retry_events completed_prefix completed_output events =
     completed_prefix
     @ (if completed_output = [] then events
        else if list_ex is_response_output events then splice_output completed_output events
        else (case events of
            [] \<Rightarrow> []
          | e # _ \<Rightarrow> takeWhile (Not \<circ> is_completed) events
              @ ResponseOutput (stream_turn_id e) completed_output # dropWhile (Not \<circ> is_completed) events))"

section \<open>The loop\<close>

datatype stream_attempt = CompleteAttempt "provider_stream_event list"
  | PartialAttempt "provider_stream_event list" provider_error bool

text \<open>
  One attempt as the loop sees it: the cancellation fires before the request starts or while it
  runs, or the requester answers.
\<close>

datatype attempt_reply = CancelledUnstarted | CancelledStarted | Answered "(provider_error, stream_attempt) result"

datatype wait_reply = Slept | CancelledWaiting | CancelledAfterSleep

text \<open>
  What surrounds the loop, by the number of the attempt: the requester, the cancellation token
  where it is asked, the live sink (the bytes streamed by an attempt, \<open>None\<close> without a sink), the
  delivery of a reset, and the diagnostics.
\<close>

record retry_env =
  rt_respond :: "nat \<Rightarrow> provider_request \<Rightarrow> attempt_reply"
  rt_cancelled :: "nat \<Rightarrow> bool"
  rt_wait :: "nat \<Rightarrow> wait_reply"
  rt_late_cancelled :: "nat \<Rightarrow> bool"
  rt_live_bytes :: "nat \<Rightarrow> (bool \<times> nat) option"
  rt_reset_delivered :: "nat \<Rightarrow> bool"
  rt_reset_negotiated :: bool
  rt_context_session :: string
  rt_supports_prefix_resume :: "provider_request \<Rightarrow> bool"
  rt_items_of :: "provider_message list \<Rightarrow> json list option"
  rt_diagnostics :: "nat \<Rightarrow> attempt_diagnostics"
  rt_sink :: "(string \<times> provider_attempt_purpose) option"
  rt_store :: "session_store_ref option"

record retry_loop_state =
  lo_request :: provider_request
  lo_prefix :: "provider_stream_event list"
  lo_output :: "json list"
  lo_retry_index :: nat
  lo_delay_spent :: nat
  lo_pending_reset :: "(nat \<times> nat) option"
  lo_resume_active :: bool

definition settle_attempt ::
  "retry_env \<Rightarrow> provider_request \<Rightarrow> nat \<Rightarrow> attempt_settle \<Rightarrow> nat option \<Rightarrow> run_state \<Rightarrow> run_state" where
  "settle_attempt env request retry_index settle next_delay s =
     (case rt_sink env of
        None \<Rightarrow> s
      | Some (session, purpose) \<Rightarrow>
          record_attempt (rt_store env) session (prq_turn_id request)
            (attempt_summary purpose (pv_model (prq_model request)) (ru_attempt_sequence s) retry_index settle next_delay
              (rt_diagnostics env retry_index)) s)"

type_synonym retry_result = "(provider_error, provider_stream_event list) result"

text \<open>
  One pass of the loop up to the retry decision: it ends, or it leaves an error, the request that
  continues from the prefix if there is one, and whether visible text has to be taken back.
\<close>

datatype attempt_end = LoopEnds retry_result run_state
  | LoopFails provider_error "provider_request option" bool retry_loop_state run_state

definition partial_attempt ::
  "retry_env \<Rightarrow> retry_loop_state \<Rightarrow> provider_stream_event list \<Rightarrow> provider_error \<Rightarrow> bool \<Rightarrow> run_state \<Rightarrow> attempt_end" where
  "partial_attempt env l events err tool_round_complete s =
     (let settle = (\<lambda>evs used. settle_attempt env (lo_request l) (lo_retry_index l) (SettleStream evs (Some err) used) None s);
          finish = (\<lambda>evs. Inr (finish_provider_retry_events (lo_prefix l) (lo_output l) evs))
      in if list_ex is_completed events then LoopEnds (finish events) (settle events True)
         else (case find_map (\<lambda>e. case e of ToolCallCompleted t _ \<Rightarrow> Some t | _ \<Rightarrow> None) events of
             Some t \<Rightarrow>
               if tool_round_complete \<and> \<not> hard_non_retryable_status (pe_metadata err)
                  \<and> provider_error_is_transient (pe_kind err)
               then (let evs = events @ [StreamCompleted t (Some FinishToolCalls) None None]
                     in LoopEnds (finish evs) (settle evs True))
               else LoopEnds (Inl err) (settle events False)
           | None \<Rightarrow>
               (let retry = provider_retry_request_with_completed_prefix (rt_items_of env) (lo_request l) events
                      (rt_supports_prefix_resume env (lo_request l));
                    visible = (retry = None
                      \<and> (case rt_live_bytes env (lo_retry_index l) of Some (grew, _) \<Rightarrow> grew | None \<Rightarrow> False))
                in if visible \<and> \<not> rt_reset_negotiated env then LoopEnds (Inl err) (settle events False)
                   else (case retry of
                       None \<Rightarrow> LoopFails err None visible l s
                     | Some next_request \<Rightarrow> LoopFails err retry visible
                         (l\<lparr>lo_prefix := lo_prefix l @ filter kept_in_prefix events,
                            lo_output := lo_output l @ concat (List.map_filter response_items events),
                            lo_request := next_request, lo_resume_active := True\<rparr>) s))))"

definition answered ::
  "retry_env \<Rightarrow> retry_loop_state \<Rightarrow> (provider_error, stream_attempt) result \<Rightarrow> run_state \<Rightarrow> attempt_end" where
  "answered env l reply s = (case reply of
     Inr (CompleteAttempt events) \<Rightarrow>
       LoopEnds (Inr (finish_provider_retry_events (lo_prefix l) (lo_output l) events))
         (settle_attempt env (lo_request l) (lo_retry_index l) (SettleStream events None False) None s)
   | Inr (PartialAttempt events err tool_round_complete) \<Rightarrow> partial_attempt env l events err tool_round_complete s
   | Inl err \<Rightarrow>
       if pe_kind err = ProviderCancelled
       then LoopEnds (Inl err) (settle_attempt env (lo_request l) (lo_retry_index l) SettleCancelled None s)
       else LoopFails err None False l s)"

definition deliver_reset ::
  "retry_env \<Rightarrow> retry_loop_state \<Rightarrow> run_state \<Rightarrow> (retry_loop_state \<times> run_state) option" where
  "deliver_reset env l s = (case lo_pending_reset l of
     None \<Rightarrow> Some (l, s)
   | Some (sequence, discarded) \<Rightarrow>
       if rt_reset_delivered env (lo_retry_index l)
       then Some (l\<lparr>lo_pending_reset := None\<rparr>,
         send_notice (PromptAttemptReset (rt_context_session env) sequence discarded) s)
       else None)"

definition run_attempt :: "retry_env \<Rightarrow> retry_loop_state \<Rightarrow> run_state \<Rightarrow> attempt_end" where
  "run_attempt env l s =
     (let n = lo_retry_index l;
          during = cancelled_error ''native provider prompt cancelled during attempt''
      in if rt_cancelled env n
      then LoopEnds (Inl (cancelled_error ''native provider prompt cancelled before attempt'')) s
      else if rt_respond env n (lo_request l) = CancelledUnstarted then LoopEnds (Inl during) s
      else (case deliver_reset env l s of
          None \<Rightarrow> LoopEnds (Inl (cancelled_error ''native provider prompt reset delivery failed'')) s
        | Some (l1, s1) \<Rightarrow>
            (case rt_respond env n (lo_request l) of
               Answered reply \<Rightarrow> answered env l1 reply s1
             | _ \<Rightarrow> answered env l1 (Inl during) s1)))"

text \<open>After the delay: visible text of the failed attempt has to be taken back.\<close>

definition reset_before_retry ::
  "retry_env \<Rightarrow> nat \<Rightarrow> bool \<Rightarrow> provider_error \<Rightarrow> nat \<Rightarrow> (provider_error, (nat \<times> nat) option) result" where
  "reset_before_retry env n visible err sequence =
     (if \<not> visible then Inr None
      else (case rt_live_bytes env n of
          None \<Rightarrow> Inl err
        | Some (_, discarded) \<Rightarrow>
            if discarded = 0 \<or> rt_late_cancelled env n
            then Inl (if rt_late_cancelled env n
              then cancelled_error ''native provider prompt cancelled before retry'' else err)
            else Inr (Some (sequence, discarded))))"

function retry_loop ::
  "retry_env \<Rightarrow> provider_request \<Rightarrow> retry_loop_state \<Rightarrow> run_state \<Rightarrow> retry_result \<times> run_state" where
  "retry_loop env initial l s =
     (case run_attempt env l s of
        LoopEnds r s1 \<Rightarrow> (r, s1)
      | LoopFails err retry visible l1 s1 \<Rightarrow>
          (let n = lo_retry_index l;
               s2 = settle_attempt env (lo_request l1) n (SettleError err)
                 (provider_retry_delay_ms err n (lo_delay_spent l)) s1
           in case provider_retry_delay_ms err n (lo_delay_spent l) of
                None \<Rightarrow> (Inl err, s2)
              | Some delay \<Rightarrow>
                  (let s3 = send_notice (StatusUpdated (retry_status err n delay)) s2
                   in case rt_wait env n of
                        CancelledWaiting \<Rightarrow>
                          (Inl (cancelled_error ''native provider prompt cancelled during retry delay''), s3)
                      | CancelledAfterSleep \<Rightarrow>
                          (Inl (cancelled_error ''native provider prompt cancelled before retry''), s3)
                      | Slept \<Rightarrow>
                          (let s4 = s3\<lparr>ru_attempt_sequence := next_attempt_sequence (ru_attempt_sequence s3)\<rparr>
                           in case reset_before_retry env n visible err (ru_attempt_sequence s4) of
                                Inl e1 \<Rightarrow> (Inl e1, s4)
                              | Inr reset \<Rightarrow>
                                  retry_loop env initial
                                    (l1\<lparr>lo_retry_index := n + 1,
                                        lo_delay_spent := u64_saturating_add (lo_delay_spent l) delay,
                                        lo_pending_reset := reset,
                                        lo_request := (if retry = None \<and> \<not> lo_resume_active l1 then initial
                                          else lo_request l1)\<rparr>) s4))))"
  by pat_completeness auto

lemma retry_index_bound: "provider_retry_delay_ms err n spent = Some delay \<Longrightarrow> n < 2"
  by (auto simp: provider_retry_delay_ms_def PROVIDER_RETRY_DELAYS_MS_def split: if_splits)

termination retry_loop
  by (relation "measure (\<lambda>(env, initial, l, s). 3 - lo_retry_index l)") (auto dest: retry_index_bound)

declare retry_loop.simps [simp del]

definition initial_loop_state :: "provider_request \<Rightarrow> retry_loop_state" where
  "initial_loop_state request = \<lparr>lo_request = request, lo_prefix = [], lo_output = [], lo_retry_index = 0,
     lo_delay_spent = 0, lo_pending_reset = None, lo_resume_active = False\<rparr>"

definition provider_request_with_retry_context ::
  "retry_env \<Rightarrow> provider_request \<Rightarrow> run_state \<Rightarrow> retry_result \<times> run_state" where
  "provider_request_with_retry_context env request s =
     retry_loop env request (initial_loop_state request)
       (s\<lparr>ru_attempt_sequence := next_attempt_sequence (ru_attempt_sequence s)\<rparr>)"

end
