(* ===== verification/Compaction_Run.thy ===== *)
theory Compaction_Run
  imports Provider_Retry
begin

text \<open>
  One compaction of a session, \<open>run_compaction_with_sequence\<close> of \<^verbatim>\<open>runner.rs\<close>, and the replay of a
  provider-native window it may install (\<^verbatim>\<open>responses_replay.rs\<close>): masking old tool results, the
  native window where the provider offers it, the portable summary, and the checkpoint.
\<close>

section \<open>Providers and replay targets\<close>

datatype rig_provider_config = Anthropic | ChatGptSubscription | OpenAi "string option" | OpenAiCompatible

record provider_config =
  pc_adapter :: rig_provider_config
  pc_model :: string
  pc_connection_id :: "string option"
  pc_responses_compact :: "bool option"

definition provider_label :: "rig_provider_config \<Rightarrow> string" where
  "provider_label p = (case p of Anthropic \<Rightarrow> ''anthropic'' | ChatGptSubscription \<Rightarrow> ''openai-codex''
     | OpenAi _ \<Rightarrow> ''openai'' | OpenAiCompatible \<Rightarrow> ''openai-compatible'')"

text \<open>\<open>digest\<close> is the hexadecimal SHA-256.\<close>

definition native_replay_connection :: "(string \<Rightarrow> string) \<Rightarrow> provider_config \<Rightarrow> string" where
  "native_replay_connection digest p =
     (let endpoint = (case pc_adapter p of
            OpenAi base \<Rightarrow> ''endpoint:'' @ (case base of Some b \<Rightarrow> b | None \<Rightarrow> ''https://api.openai.com/v1'')
          | _ \<Rightarrow> ''legacy'')
      in digest (case pc_connection_id p of
           Some c \<Rightarrow> ''connection:'' @ c @ ''|'' @ endpoint | None \<Rightarrow> endpoint))"

definition provider_context_of :: "(string \<Rightarrow> string) \<Rightarrow> provider_config \<Rightarrow> compaction_provider_context" where
  "provider_context_of digest p =
     \<lparr>cp_provider = provider_label (pc_adapter p),
      cp_wire = (if provider_label (pc_adapter p) = ''openai'' then ''openai-responses'' else ''unsupported''),
      cp_model = pc_model p, cp_connection = native_replay_connection digest p,
      cp_responses_compact = pc_responses_compact p,
      cp_openai_base_url = (case pc_adapter p of OpenAi base \<Rightarrow> Some base | _ \<Rightarrow> None)\<rparr>"

record native_replay_target =
  rp_session_id :: string
  rp_provider :: string
  rp_model :: string
  rp_connection :: string

record native_replay_state =
  rp_target :: native_replay_target
  rp_instructions :: string
  rp_input :: "json list"
  rp_synced_event_count :: nat

definition native_replay_target_of ::
  "(string \<Rightarrow> string) \<Rightarrow> string \<Rightarrow> provider_model \<Rightarrow> provider_config \<Rightarrow> native_replay_target" where
  "native_replay_target_of digest session model p =
     \<lparr>rp_session_id = session, rp_provider = pv_provider model, rp_model = pv_model model,
      rp_connection = native_replay_connection digest p\<rparr>"

section \<open>Dispatch\<close>

datatype compaction_application = NotApplied | SummaryApplied | MaskedApplied nat | NativeApplied

datatype native_dispatch = DispatchNotApplied | SummaryOnly | TryNative | ForcedSummary

definition native_compaction_dispatch :: "compactor_kind option \<Rightarrow> bool \<Rightarrow> native_dispatch" where
  "native_compaction_dispatch kind supported = (case kind of
     None \<Rightarrow> DispatchNotApplied
   | Some AutoCompactor \<Rightarrow> if supported then TryNative else SummaryOnly
   | Some SummaryCompactor \<Rightarrow> SummaryOnly
   | Some OpenAiResponsesCompactor \<Rightarrow> if supported then TryNative else ForcedSummary)"

definition native_request_with_focus ::
  "native_request_envelope option \<Rightarrow> string option \<Rightarrow> native_request_envelope option" where
  "native_request_with_focus request focus = map_option (\<lambda>r. case focus of
     Some f \<Rightarrow> if trim f = [] then r
       else r\<lparr>nr_instructions := nr_instructions r @ [line_end, line_end] @ ''Additional compaction focus: '' @ f\<rparr>
   | None \<Rightarrow> r) request"

datatype native_attempt_settle = NativeSucceeded | NativeMalformed
  | NativeFailed provider_error_kind "nat option" | NativeCancelledSettle | NativeNotAttempted

definition generic_status_kind :: "nat option \<Rightarrow> provider_error_kind option" where
  "generic_status_kind status = (case status of
     None \<Rightarrow> None
   | Some s \<Rightarrow>
       if s = 401 \<or> s = 403 then Some Authentication
       else if s = 429 then Some RateLimited
       else if s = 408 \<or> s = 504 then Some ProviderTimeout
       else if 400 \<le> s \<and> s < 500 then Some InvalidRequest
       else if s \<ge> 500 then Some ProviderInternal
       else None)"

definition native_attempt_settle_of :: "compaction_error \<Rightarrow> native_attempt_settle" where
  "native_attempt_settle_of err = (case err of
     UnsupportedProvider _ \<Rightarrow> NativeNotAttempted
   | MissingNativeRequest \<Rightarrow> NativeNotAttempted
   | CompactionTimeout \<Rightarrow> NativeFailed ProviderTimeout None
   | CompactionTransport \<Rightarrow> NativeFailed Network None
   | CompactionHttpStatus status \<Rightarrow>
       NativeFailed (case generic_status_kind (Some status) of Some k \<Rightarrow> k | None \<Rightarrow> UnknownError) (Some status)
   | CompactionDecode \<Rightarrow> NativeMalformed
   | InvalidOutput \<Rightarrow> NativeMalformed)"

definition native_compaction_error_reason :: "compaction_error \<Rightarrow> string" where
  "native_compaction_error_reason err = (case err of
     UnsupportedProvider _ \<Rightarrow> ''unsupported provider'' | MissingNativeRequest \<Rightarrow> ''missing native request''
   | CompactionTimeout \<Rightarrow> ''timeout'' | CompactionTransport \<Rightarrow> ''transport error''
   | CompactionHttpStatus _ \<Rightarrow> ''provider response'' | CompactionDecode \<Rightarrow> ''invalid provider response''
   | InvalidOutput \<Rightarrow> ''missing compacted window'')"

definition record_native_compaction_attempt ::
  "session_store_ref option \<Rightarrow> string \<Rightarrow> string \<Rightarrow> provider_model \<Rightarrow> native_attempt_settle \<Rightarrow> attempt_diagnostics
   \<Rightarrow> run_state \<Rightarrow> run_state" where
  "record_native_compaction_attempt store session turn model settle d s =
     (let attempt = (\<lambda>outcome kind status. record_attempt store session turn
        \<lparr>pa_purpose = CompactionNativeAttempt, pa_attempt_sequence = ru_attempt_sequence s, pa_retry_index = 0,
         pa_outcome = outcome, pa_error_kind = kind,
         pa_classification_source = map_option (\<lambda>_. if status \<noteq> None then StatusSource else Variant) kind,
         pa_error_variant = None, pa_status_code = status, pa_provider_code = None, pa_timeout_phase = None,
         pa_retry_after_ms = None, pa_next_delay_ms = None, pa_started_at_ms = ad_started_at_ms d,
         pa_duration_ms = ad_duration_ms d, pa_first_event_ms = ad_first_event_ms d,
         pa_provider_request_id = ad_provider_request_id d, pa_model = pv_model model, pa_capture = ad_capture d\<rparr> s)
      in case settle of
           NativeSucceeded \<Rightarrow> attempt AttemptSucceeded None None
         | NativeMalformed \<Rightarrow> attempt AttemptFailed (Some MalformedStream) None
         | NativeFailed kind status \<Rightarrow> attempt AttemptFailed (Some kind) status
         | NativeCancelledSettle \<Rightarrow> attempt AttemptCancelled None None
         | NativeNotAttempted \<Rightarrow> s)"

section \<open>The run\<close>

record compaction_run =
  cn_session_id :: string
  cn_turn_id :: string
  cn_model :: provider_model
  cn_provider :: provider_config
  cn_native_request :: "native_request_envelope option"
  cn_config :: compaction_config
  cn_reason :: compaction_reason
  cn_tokens_before :: nat
  cn_usable_tokens :: nat
  cn_focus :: "string option"
  cn_store :: "session_store_ref option"

text \<open>
  What surrounds it: the cancellation token at the start, the native compactor (\<open>None\<close> when the
  token fires first), the requester of the summary, \<open>serde_json\<close> and the debug form of a string.
\<close>

record compaction_env =
  ce_cancelled :: bool
  ce_compact :: "compaction_provider_context \<Rightarrow> native_request_envelope option
    \<Rightarrow> (compaction_error, native_compaction_artifact) result option"
  ce_native_diagnostics :: attempt_diagnostics
  ce_retry :: retry_env
  ce_digest :: "string \<Rightarrow> string"
  ce_parse :: "string \<Rightarrow> json option"
  ce_artifact_value :: "native_compaction_artifact \<Rightarrow> json option"
  ce_print_window :: "json list \<Rightarrow> string option"
  ce_debug :: "string \<Rightarrow> string"

definition mask_event :: "string \<Rightarrow> string \<Rightarrow> mask_candidate \<Rightarrow> session_event" where
  "mask_event session turn c =
     ToolResultMasked session turn (mc_turn_id c) (mc_tool_request_id c) (mc_bytes c) ThresholdPrePass"

text \<open>The masks to add, the tokens they save, and their number and bytes for the checkpoint.\<close>

definition stage_masks :: "compaction_run \<Rightarrow> session_event list \<Rightarrow> session_event list \<times> nat \<times> nat \<times> nat" where
  "stage_masks run events =
     (let cands = select_mask_candidates events (cn_turn_id run) (cc_keep_recent_tokens (cn_config run));
          net = sum_list (map mc_net_tokens cands)
      in if cc_masking (cn_config run) \<and> net \<ge> mask_savings_floor (cn_usable_tokens run)
         then (map (mask_event (cn_session_id run) (cn_turn_id run)) cands, net,
           fold (\<lambda>_ n. u64_saturating_add n 1) cands 0, fold (\<lambda>c n. u64_saturating_add n (mc_bytes c)) cands 0)
         else ([], 0, 0, 0))"

definition threshold_tokens :: "compaction_run \<Rightarrow> nat" where
  "threshold_tokens run =
     max (u64_saturating_mul (cn_usable_tokens run) (auto_threshold_percent_clamped (cn_config run)) div 100)
         (cc_keep_recent_tokens (cn_config run))"

text \<open>Adding events to the log and writing them; a failed write takes them out again.\<close>

definition commit_log_events ::
  "session_store_ref option \<Rightarrow> session_event list \<Rightarrow> run_state \<Rightarrow> bool \<times> run_state" where
  "commit_log_events store events s =
     (let s1 = fold push_log_event events s
      in case store of
           None \<Rightarrow> (True, s1)
         | Some st \<Rightarrow>
             (case append_pending_native_session_events st s1 of
                (True, s2) \<Rightarrow> (True, s2)
              | (False, s2) \<Rightarrow> (False, s2\<lparr>ru_log := take (length (ru_log s)) (ru_log s2),
                  ru_pending := take (length (ru_pending s)) (ru_pending s2)\<rparr>)))"

definition json_insert :: "string \<Rightarrow> json \<Rightarrow> json \<Rightarrow> json" where
  "json_insert key v obj = (case obj of
     JObject kvs \<Rightarrow> JObject (filter (\<lambda>kv. fst kv \<noteq> key) kvs @ [(key, v)]) | _ \<Rightarrow> obj)"

definition send_status :: "string \<Rightarrow> run_state \<Rightarrow> run_state" where
  "send_status message s = send_notice (StatusUpdated message) s"

text \<open>The native window: what is recorded, what is said when it was asked for and is not there.\<close>

definition native_artifact ::
  "compaction_env \<Rightarrow> compaction_run \<Rightarrow> compaction_provider_context \<Rightarrow> bool \<Rightarrow> bool \<Rightarrow> run_state
   \<Rightarrow> native_compaction_artifact option option \<times> run_state" where
  "native_artifact env run provider selected forced s =
     (let unavailable = (\<lambda>why s. if forced then send_status (''native compaction unavailable ('' @ why @ ''); used summary'') s else s);
          record_settle = (\<lambda>settle. record_native_compaction_attempt (cn_store run) (cn_session_id run) (cn_turn_id run)
            (cn_model run) settle (ce_native_diagnostics env));
          s0 = s\<lparr>ru_attempt_sequence := next_attempt_sequence (ru_attempt_sequence s)\<rparr>
      in if \<not> selected then (Some None, unavailable ''unsupported provider or capability'' s)
         else (case ce_compact env provider (native_request_with_focus (cn_native_request run) (cn_focus run)) of
             None \<Rightarrow> (None, record_settle NativeCancelledSettle s0)
           | Some (Inr artifact) \<Rightarrow>
               if native_window_is_replayable (na_window artifact)
               then (Some (Some artifact), record_settle NativeSucceeded s0)
               else (Some None, unavailable ''invalid output'' (record_settle NativeMalformed s0))
           | Some (Inl err) \<Rightarrow>
               (Some None, unavailable (native_compaction_error_reason err) (record_settle (native_attempt_settle_of err) s0))))"

definition checkpoint_details ::
  "compaction_env \<Rightarrow> json option \<Rightarrow> session_event list \<Rightarrow> nat \<Rightarrow> nat \<Rightarrow> json" where
  "checkpoint_details env previous folded masked_results masked_bytes =
     json_insert ''masked_bytes'' (JNumber (show_nat masked_bytes))
       (json_insert ''masked_results'' (JNumber (show_nat masked_results))
         (merge_compaction_file_details (ce_parse env) previous folded))"

definition summary_retry_env :: "compaction_env \<Rightarrow> compaction_run \<Rightarrow> retry_env" where
  "summary_retry_env env run = (ce_retry env)\<lparr>rt_live_bytes := (\<lambda>_. None), rt_reset_negotiated := False,
     rt_context_session := ''compaction'', rt_sink := Some (cn_session_id run, CompactionSummaryAttempt),
     rt_store := cn_store run\<rparr>"

definition summary_request :: "compaction_run \<Rightarrow> string \<Rightarrow> provider_request" where
  "summary_request run prompt = \<lparr>prq_turn_id = cn_turn_id run, prq_model = cn_model run,
     prq_messages = [text_message UserRole prompt], prq_native_request = None, prq_extensions = [],
     prq_approved_tool_advertising = None\<rparr>"

text \<open>The summary, or the result the run ends with.\<close>

definition portable_summary ::
  "compaction_env \<Rightarrow> compaction_run \<Rightarrow> string \<Rightarrow> run_state
   \<Rightarrow> ((provider_round_error, compaction_application) result, string) result \<times> run_state" where
  "portable_summary env run prompt s =
     (case provider_request_with_retry_context (summary_retry_env env run) (summary_request run prompt) s of
        (Inr events, s1) \<Rightarrow>
          (case collect_native_provider_first_round events of
             Inr rnd \<Rightarrow> if trim (fr_text rnd) \<noteq> [] then (Inr (fr_text rnd), s1)
               else (Inl (Inr NotApplied),
                 send_status ''compaction failed: summarizer returned no usable summary; continuing uncompacted'' s1)
           | Inl _ \<Rightarrow> (Inl (Inr NotApplied),
               send_status ''compaction failed: summarizer returned no usable summary; continuing uncompacted'' s1))
      | (Inl err, s1) \<Rightarrow>
          if pe_kind err = ProviderCancelled then (Inl (Inl (RoundCancelled (pe_message err))), s1)
          else (Inl (Inr NotApplied),
            send_status (''compaction failed: '' @ pe_message err @ ''; continuing uncompacted'') s1))"

definition summary_notices :: "compaction_config \<Rightarrow> run_state \<Rightarrow> run_state" where
  "summary_notices config s =
     send_status ''compacting context...''
       (case (if cc_project_summary_prompt_ignored config then Some ''project_scope''
              else cc_summary_prompt_error config) of
          Some reason \<Rightarrow> send_status (''compaction_summary_prompt_ignored reason='' @ reason) s
        | None \<Rightarrow> s)"

definition installed_replay ::
  "compaction_run \<Rightarrow> compaction_provider_context \<Rightarrow> native_request_envelope \<Rightarrow> native_compaction_artifact \<Rightarrow> nat
   \<Rightarrow> native_replay_state" where
  "installed_replay run provider request artifact count =
     \<lparr>rp_target = \<lparr>rp_session_id = cn_session_id run, rp_provider = cp_provider provider, rp_model = cp_model provider,
        rp_connection = cp_connection provider\<rparr>,
      rp_instructions = nr_instructions request, rp_input = na_window artifact, rp_synced_event_count = count\<rparr>"

definition checkpoint_event ::
  "compaction_run \<Rightarrow> compaction_cut \<Rightarrow> session_event list \<Rightarrow> string \<Rightarrow> nat \<Rightarrow> bool \<Rightarrow> json \<Rightarrow> session_event" where
  "checkpoint_event run ct log_events s tokens_after native details =
     CompactionCheckpoint (cn_session_id run) (cn_turn_id run)
       (''compaction-'' @ show_nat (length (filter is_checkpoint log_events) + 1)) s
       (cut_first_kept_entry_id ct) (cn_tokens_before run) tokens_after (cn_reason run)
       (if native then ''openai-responses'' else ''summary'') details"

type_synonym compaction_result =
  "(provider_round_error, compaction_application) result \<times> native_replay_state option \<times> run_state"

text \<open>The checkpoint, once the summary and the native window are there.\<close>

definition write_checkpoint ::
  "compaction_env \<Rightarrow> compaction_run \<Rightarrow> compaction_provider_context \<Rightarrow> compaction_cut \<Rightarrow> mask_map \<Rightarrow> session_event list
   \<Rightarrow> native_compaction_artifact option \<Rightarrow> json \<Rightarrow> string \<Rightarrow> native_replay_state option \<Rightarrow> run_state \<Rightarrow> compaction_result" where
  "write_checkpoint env run provider ct masks staged native details sm replay s =
     (let kept_tail = sum_list (map (estimate_event_tokens_with_masks masks) (drop (cut_kept_start_index ct) (ru_log s)));
          tokens_after = (case native of
              None \<Rightarrow> u64_saturating_add (estimate_text_tokens sm) kept_tail
            | Some a \<Rightarrow> estimate_text_tokens (case ce_print_window env (na_window a) of Some t \<Rightarrow> t | None \<Rightarrow> []));
          cp = checkpoint_event run ct (ru_log s) sm tokens_after (native \<noteq> None) details
      in case commit_log_events (cn_store run) (staged @ [cp]) s of
           (False, s1) \<Rightarrow> (Inl (ToolContinuation ''compaction_persist_failed''), replay, s1)
         | (True, s1) \<Rightarrow>
             let arrow = (\<lambda>what. send_status (what @ '': ~'' @ show_nat (cn_tokens_before run div 1000) @ ''K -> ~''
                   @ show_nat (tokens_after div 1000) @ ''K tokens'') s1)
             in (case native of
                 None \<Rightarrow> (Inr SummaryApplied, None, arrow ''context compacted (summary)'')
               | Some a \<Rightarrow>
                   (case cn_native_request run of
                      None \<Rightarrow> (Inl (ToolContinuation ''compaction_native_request_missing''), replay, s1)
                    | Some request \<Rightarrow>
                        (Inr NativeApplied, Some (installed_replay run provider request a (length (ru_log s1))),
                         arrow ''context compacted (provider)''))))"

text \<open>From a cut on: the native window if it is tried, then the summary, then the checkpoint.\<close>

definition compact_from_cut ::
  "compaction_env \<Rightarrow> compaction_run \<Rightarrow> compaction_provider_context \<Rightarrow> bool \<Rightarrow> session_event list \<times> nat \<times> nat \<times> nat
   \<Rightarrow> compaction_cut \<Rightarrow> native_replay_state option \<Rightarrow> run_state \<Rightarrow> compaction_result" where
  "compact_from_cut env run provider selected staging ct replay s =
     (let (staged, reclaimed, masked_results, masked_bytes) = staging;
          forced = (compactor_kind_of (cn_config run) = Some OpenAiResponsesCompactor);
          previous = newest_compaction_checkpoint (ru_log s);
          masks = masked_result_map (ru_log s) ++ masked_result_map staged;
          folded = take (snd (cut_fold_range ct) - fst (cut_fold_range ct)) (drop (fst (cut_fold_range ct)) (ru_log s));
          prompt = build_summary_prompt (serialize_events_for_summary_with_masks folded masks)
            (map_option cv_summary previous) (cn_focus run) (cc_summary_prompt (cn_config run))
      in case native_artifact env run provider selected forced s of
           (None, s1) \<Rightarrow> (Inl (RoundCancelled ''native provider prompt cancelled''), replay, s1)
         | (Some native, s1) \<Rightarrow>
             (let details = checkpoint_details env (map_option cv_details previous) folded masked_results masked_bytes
              in case (case native of None \<Rightarrow> Some details
                   | Some a \<Rightarrow> map_option (\<lambda>v. json_insert ''native'' v details) (ce_artifact_value env a)) of
                   None \<Rightarrow> (Inl (ToolContinuation ''compaction_native_artifact_encode_failed''), replay, s1)
                 | Some details1 \<Rightarrow>
                     (case portable_summary env run prompt (summary_notices (cn_config run) s1) of
                        (Inl ended, s2) \<Rightarrow> (ended, replay, s2)
                      | (Inr sm, s2) \<Rightarrow>
                          write_checkpoint env run provider ct masks staged native details1 sm replay s2)))"

definition native_supported :: "compaction_run \<Rightarrow> compaction_provider_context \<Rightarrow> bool" where
  "native_supported run provider \<longleftrightarrow> cp_provider provider = ''openai'' \<and> cp_wire provider = ''openai-responses''
     \<and> cp_responses_compact provider = Some True \<and> cn_native_request run \<noteq> None"

definition run_compaction ::
  "compaction_env \<Rightarrow> compaction_run \<Rightarrow> native_replay_state option \<Rightarrow> run_state \<Rightarrow> compaction_result" where
  "run_compaction env run replay s =
     (if ce_cancelled env then (Inl (RoundCancelled ''native provider prompt cancelled''), replay, s)
      else if compactor_kind_of (cn_config run) = None
      then (Inr NotApplied, replay,
        send_status (''compaction skipped: unknown compaction.compactor '' @ ce_debug env (cc_compactor (cn_config run))
          @ ''; supported values are \"auto\", \"summary\", and \"openai-responses\"'') s)
      else
       (let provider = provider_context_of (ce_digest env) (cn_provider run);
            selected = (native_compaction_dispatch (compactor_kind_of (cn_config run)) (native_supported run provider)
              = TryNative);
            staging = stage_masks run (ru_log s);
            staged = fst staging; reclaimed = fst (snd staging)
        in if \<not> selected \<and> staged \<noteq> [] \<and> cn_tokens_before run - reclaimed \<le> threshold_tokens run
           then (case commit_log_events (cn_store run) staged s of
               (False, s1) \<Rightarrow> (Inl (ToolContinuation ''compaction_persist_failed''), replay, s1)
             | (True, s1) \<Rightarrow> (Inr (MaskedApplied reclaimed), None,
                 send_status (''context masked ('' @ show_nat reclaimed @ '' tokens reclaimed)'') s1))
           else (case select_compaction_cut (ru_log s) (cc_keep_recent_tokens (cn_config run)) of
               None \<Rightarrow> (Inr NotApplied, replay, s)
             | Some ct \<Rightarrow> compact_from_cut env run provider selected staging ct replay s)))"

end
