(* ===== verification/Compaction_Properties.thy ===== *)
theory Compaction_Properties
  imports Compaction_Run
begin

text \<open>
  Compaction: where a cut falls, and what masking tool results saves.
\<close>

section \<open>The cut\<close>

lemma find_map_Some_iff:
  "find_map f xs = Some y \<longleftrightarrow> (\<exists>i < length xs. f (xs ! i) = Some y \<and> (\<forall>j < i. f (xs ! j) = None))"
proof (induction xs)
  case (Cons x xs)
  show ?case
  proof (cases "f x")
    case None
    then have "find_map f (x # xs) = Some y
        \<longleftrightarrow> (\<exists>i < length xs. f ((x # xs) ! Suc i) = Some y \<and> (\<forall>j < Suc i. f ((x # xs) ! j) = None))"
      using Cons by (simp add: All_less_Suc2)
    also have "\<dots> \<longleftrightarrow> (\<exists>i < length (x # xs). f ((x # xs) ! i) = Some y \<and> (\<forall>j < i. f ((x # xs) ! j) = None))"
      using None by (auto simp: Ex_less_Suc2)
    finally show ?thesis .
  next
    case (Some z)
    then show ?thesis by (force simp: Ex_less_Suc2 All_less_Suc2)
  qed
qed simp

lemma find_map_None_iff: "find_map f xs = None \<longleftrightarrow> (\<forall>x \<in> set xs. f x = None)"
  by (induction xs) (auto split: option.splits)

lemma find_map_append:
  "find_map f (xs @ ys) = (case find_map f xs of Some y \<Rightarrow> Some y | None \<Rightarrow> find_map f ys)"
  by (induction xs) (auto split: option.splits)

lemma first_from_Some:
  assumes "first_from start pick events = Some (i, x)"
  shows "start \<le> i \<and> i < length events \<and> pick (events ! i) = Some x
    \<and> (\<forall>j. start \<le> j \<and> j < i \<longrightarrow> pick (events ! j) = None)"
proof -
  obtain k where k: "k < length events - start" "map_option (Pair (start + k)) (pick (events ! (start + k))) = Some (i, x)"
    and before: "\<forall>j < k. map_option (Pair (start + j)) (pick (events ! (start + j))) = None"
    using assms by (auto simp: first_from_def find_map_Some_iff nth_enumerate_eq)
  have none: "pick (events ! j) = None" if j: "start \<le> j" "j < i" for j
  proof -
    have "j - start < k" using j k by auto
    then show ?thesis using before j(1) by fastforce
  qed
  show ?thesis using k none by auto
qed

lemma first_from_None:
  assumes "first_from start pick events = None" "start \<le> j" "j < length events"
  shows "pick (events ! j) = None"
proof -
  have "(j, events ! j) \<in> set (drop start (enumerate 0 events))"
    using assms(2,3) by (auto simp: in_set_conv_nth nth_enumerate_eq intro!: exI [of _ "j - start"])
  then show ?thesis using assms(1) by (auto simp: first_from_def find_map_None_iff)
qed

lemma rev_enumerate_snoc: "rev (enumerate n (xs @ [x])) = (n + length xs, x) # rev (enumerate n xs)"
  by (simp add: enumerate_append_eq)

lemma budget_start_spec:
  assumes "accumulated \<le> keep" "keep < u64_max"
    "start = budget_start estimate keep (rev (enumerate 0 events)) accumulated (length events)"
  shows "start \<le> length events \<and> accumulated + sum_list (map estimate (drop start events)) \<le> keep
    \<and> (\<forall>i < start. keep < accumulated + sum_list (map estimate (drop i events)))"
  using assms(1) unfolding assms(3)
proof (induction events arbitrary: accumulated rule: rev_induct)
  case (snoc e es)
  have sat: "u64_saturating_add accumulated (estimate e) > keep \<longleftrightarrow> accumulated + estimate e > keep"
    and eq: "accumulated + estimate e \<le> keep \<Longrightarrow> u64_saturating_add accumulated (estimate e) = accumulated + estimate e"
    using assms(2) by (auto simp: u64_saturating_add_def)
  show ?case
  proof (cases "accumulated + estimate e > keep")
    case True
    then show ?thesis using snoc.prems sat
      by (auto simp: rev_enumerate_snoc Let_def less_Suc_eq_le trans_less_add1)
  next
    case False
    then show ?thesis using snoc.IH [of "accumulated + estimate e"] sat eq
      by (auto simp: rev_enumerate_snoc Let_def algebra_simps split: if_splits)
  qed
qed simp

lemma sum_list_drop_le: "sum_list (map g (drop (n + k) xs)) \<le> sum_list (map g (drop n xs))" for g :: "'a \<Rightarrow> nat"
proof -
  have "drop n xs = take k (drop n xs) @ drop (n + k) xs"
    using append_take_drop_id [of k "drop n xs"] by (simp add: add.commute)
  then have "sum_list (map g (drop n xs)) = sum_list (map g (take k (drop n xs))) + sum_list (map g (drop (n + k) xs))"
    by (metis map_append sum_list_append)
  then show ?thesis by simp
qed

lemma all_nth_drop:
  assumes "f \<le> length xs"
  shows "(\<forall>j. f + c < j \<and> j < length xs \<longrightarrow> P (xs ! j)) \<longleftrightarrow> (\<forall>j. c < j \<and> j < length xs - f \<longrightarrow> P (drop f xs ! j))"
    (is "?l = ?r")
proof
  assume l: ?l
  show ?r
  proof (intro allI impI)
    fix j assume "c < j \<and> j < length xs - f"
    then show "P (drop f xs ! j)" using l [rule_format, of "f + j"] assms by (simp add: less_diff_conv add.commute)
  qed
next
  assume r: ?r
  show ?l
  proof (intro allI impI)
    fix j assume j: "f + c < j \<and> j < length xs"
    then have "c < j - f \<and> j - f < length xs - f" by auto
    then show "P (xs ! j)" using r [rule_format, of "j - f"] j by simp
  qed
qed

lemma last_entry_before:
  assumes "find_map (\<lambda>(i, e). if is_entry e then Some i else None) (rev (enumerate 0 events)) = Some m"
  shows "m < length events \<and> is_entry (events ! m) \<and> (\<forall>j. m < j \<and> j < length events \<longrightarrow> \<not> is_entry (events ! j))"
proof -
  let ?n = "length events"
  have nth: "rev (enumerate 0 events) ! k = (?n - Suc k, events ! (?n - Suc k))" if "k < ?n" for k
    using that by (simp add: rev_nth nth_enumerate_eq)
  let ?f = "\<lambda>(i, e). if is_entry e then Some i else None"
  obtain k where k: "k < ?n" "?f (rev (enumerate 0 events) ! k) = Some m"
    and before: "\<forall>j < k. ?f (rev (enumerate 0 events) ! j) = None"
    using assms unfolding find_map_Some_iff by auto
  have m: "m = ?n - Suc k" "is_entry (events ! m)" using k by (auto simp: nth split: if_splits)
  have "\<not> is_entry (events ! j)" if j: "m < j" "j < ?n" for j
  proof -
    have "?n - Suc j < k" using j k(1) m(1) by linarith
    with before have "?f (rev (enumerate 0 events) ! (?n - Suc j)) = None" by blast
    then show ?thesis using j by (simp add: nth split: if_splits)
  qed
  then show ?thesis using k m by auto
qed

text \<open>What the search for the cut finds, relative to the events considered.\<close>

lemma cut_search_start_Some:
  assumes "cut_search_start events start = Some search" "start \<le> length events"
  shows "search \<le> start \<and> search < length events
    \<and> (search = start \<or> is_entry (events ! search) \<and> (\<forall>j. search < j \<and> j < length events \<longrightarrow> \<not> is_entry (events ! j)))"
proof (cases "list_ex is_entry (drop start events)")
  case True
  then have "drop start events \<noteq> []" by auto
  then show ?thesis using True assms by (auto simp: cut_search_start_def)
next
  case False
  then have later: "\<not> is_entry (events ! j)" if "start \<le> j" "j < length events" for j
  proof -
    have "drop start events ! (j - start) \<in> set (drop start events)" using that by (intro nth_mem) simp
    then show ?thesis using False that by (auto simp: list_ex_iff)
  qed
  have "find_map (\<lambda>(i, e). if is_entry e then Some i else None) (rev (enumerate 0 (take start events))) = Some search"
    using False assms(1) by (simp add: cut_search_start_def)
  from last_entry_before [OF this] have "search < start" "is_entry (events ! search)"
    "\<forall>j. search < j \<and> j < start \<longrightarrow> \<not> is_entry (events ! j)"
    using assms(2) by auto
  then show ?thesis using later assms(2) by (meson less_imp_le not_le order.strict_trans2)
qed

definition tail_tokens :: "session_event list \<Rightarrow> nat \<Rightarrow> nat" where
  "tail_tokens events i =
     sum_list (map (estimate_event_tokens_with_masks (masked_result_map events)) (drop i events))"

lemma user_entry_id_entry: "user_entry_id e = Some x \<Longrightarrow> entry_id_of e = Some x"
  by (auto simp: user_entry_id_def entry_id_of_def split: session_event.splits entry_role.splits)

lemma cut_choice:
  assumes "(case first_from search user_entry_id es of Some c \<Rightarrow> Some c
      | None \<Rightarrow> first_from search entry_id_of es) = Some (c, entry)"
  shows "search \<le> c \<and> c < length es \<and> entry_id_of (es ! c) = Some entry
    \<and> (\<forall>j. search \<le> j \<and> j < c \<longrightarrow> user_entry_id (es ! j) = None)
    \<and> (user_entry_id (es ! c) = None \<longrightarrow> (\<forall>j. c < j \<and> j < length es \<longrightarrow> user_entry_id (es ! j) = None))"
proof (cases "first_from search user_entry_id es")
  case None
  then have "first_from search entry_id_of es = Some (c, entry)" using assms by simp
  from first_from_Some [OF this] first_from_None [OF None] show ?thesis by auto
next
  case (Some d)
  then have "first_from search user_entry_id es = Some (c, entry)" using assms by simp
  from first_from_Some [OF this] show ?thesis by (auto dest: user_entry_id_entry)
qed

lemma select_compaction_cut_Some:
  assumes "select_compaction_cut events keep = Some ct" "keep < u64_max"
  shows "cut_fold_range ct = (active_start events, cut_kept_start_index ct)
    \<and> active_start events < cut_kept_start_index ct \<and> cut_kept_start_index ct < length events
    \<and> entry_id_of (events ! cut_kept_start_index ct) = Some (cut_first_kept_entry_id ct)
    \<and> (tail_tokens events (cut_kept_start_index ct) \<le> keep
       \<or> (\<forall>j. cut_kept_start_index ct < j \<and> j < length events \<longrightarrow> entry_id_of (events ! j) = None))
    \<and> (user_entry_id (events ! cut_kept_start_index ct) = None
       \<longrightarrow> (\<forall>j. cut_kept_start_index ct < j \<and> j < length events \<longrightarrow> user_entry_id (events ! j) = None))
    \<and> (\<forall>j. active_start events \<le> j \<and> j < cut_kept_start_index ct \<and> user_entry_id (events ! j) \<noteq> None
       \<longrightarrow> keep < tail_tokens events j)"
proof -
  define f where "f = active_start events"
  define es where "es = drop f events"
  define est where "est = estimate_event_tokens_with_masks (masked_result_map events)"
  define start where "start = budget_start est keep (rev (enumerate 0 es)) 0 (length es)"
  note defs = f_def [symmetric] es_def [symmetric] est_def [symmetric] start_def [symmetric]
  obtain search c entry where search: "cut_search_start es start = Some search"
    and pick: "(case first_from search user_entry_id es of Some c \<Rightarrow> Some c
        | None \<Rightarrow> first_from search entry_id_of es) = Some (c, entry)" and "c \<noteq> 0"
    and ct: "ct = \<lparr>cut_first_kept_entry_id = entry, cut_kept_start_index = f + c, cut_fold_range = (f, f + c)\<rparr>"
    using assms(1) unfolding select_compaction_cut_def Let_def defs
    by (auto split: if_splits bind_splits)
  have budget: "start \<le> length es" "sum_list (map est (drop start es)) \<le> keep"
    "\<And>i. i < start \<Longrightarrow> keep < sum_list (map est (drop i es))"
    using budget_start_spec [OF _ assms(2) start_def] by auto
  note s = cut_search_start_Some [OF search budget(1)]
  note c = cut_choice [OF pick]
  have nth: "events ! (f + j) = es ! j" for j
  proof -
    have "f \<le> length events" using c by (auto simp: es_def)
    then show ?thesis by (simp add: es_def)
  qed
  have tail: "tail_tokens events (f + j) = sum_list (map est (drop j es))" for j
    by (simp add: tail_tokens_def es_def est_def add.commute)
  have fits: "sum_list (map est (drop c es)) \<le> keep
      \<or> (\<forall>j. c < j \<and> j < length es \<longrightarrow> entry_id_of (es ! j) = None)"
  proof (cases "search = start")
    case True
    then obtain k where "c = start + k" using c le_Suc_ex by blast
    moreover have "sum_list (map est (drop (start + k) es)) \<le> sum_list (map est (drop start es))"
      by (rule sum_list_drop_le)
    ultimately show ?thesis using budget(2) by simp
  next
    case False
    then show ?thesis using s c by (auto simp: is_entry_def)
  qed
  have earlier: "keep < sum_list (map est (drop j es))" if "j < c" "user_entry_id (es ! j) \<noteq> None" for j
    using c s budget(3) [of j] that by (meson leI order.strict_trans2)
  have len: "length events = f + length es" using c by (auto simp: es_def)
  have all: "(\<forall>j. f + c < j \<and> j < length events \<longrightarrow> P (events ! j)) \<longleftrightarrow> (\<forall>j. c < j \<and> j < length es \<longrightarrow> P (es ! j))" for P
    unfolding es_def length_drop by (rule all_nth_drop) (simp add: len)
  have before: "\<forall>j. f \<le> j \<and> j < f + c \<and> user_entry_id (events ! j) \<noteq> None \<longrightarrow> keep < tail_tokens events j"
  proof (intro allI impI)
    fix j assume j: "f \<le> j \<and> j < f + c \<and> user_entry_id (events ! j) \<noteq> None"
    then obtain k where k: "j = f + k" using le_Suc_ex by blast
    then show "keep < tail_tokens events j" using j earlier [of k] by (simp add: tail nth)
  qed
  have k: "cut_kept_start_index ct = f + c" "cut_fold_range ct = (f, f + c)" "cut_first_kept_entry_id ct = entry"
    by (simp_all add: ct)
  have "f < f + c" "f + c < length events" "entry_id_of (events ! (f + c)) = Some entry"
    using c \<open>c \<noteq> 0\<close> len nth by auto
  moreover have "tail_tokens events (f + c) \<le> keep
      \<or> (\<forall>j. f + c < j \<and> j < length events \<longrightarrow> entry_id_of (events ! j) = None)"
    using fits unfolding tail all [of "\<lambda>e. entry_id_of e = None"] .
  moreover have "user_entry_id (events ! (f + c)) = None
      \<longrightarrow> (\<forall>j. f + c < j \<and> j < length events \<longrightarrow> user_entry_id (events ! j) = None)"
    using c unfolding nth all [of "\<lambda>e. user_entry_id e = None"] by blast
  ultimately show ?thesis unfolding f_def [symmetric] k using before by blast
qed

text \<open>
  C26. Where a cut falls. It folds the events from the newest checkpoint's kept boundary up to
  the kept tail, at least one of them, and the tail starts at the entry the checkpoint will
  name. The tail fits the budget of recent tokens, or no entry comes after its first; it
  starts at a user's entry unless there is none in it; and it is as long as it may be: from
  any earlier user's entry the tail would not fit.
\<close>

theorem compaction_cut_placed:
  assumes "select_compaction_cut events keep = Some ct" "keep < u64_max"
  shows "cut_fold_range ct = (active_start events, cut_kept_start_index ct)
    \<and> active_start events < cut_kept_start_index ct \<and> cut_kept_start_index ct < length events
    \<and> entry_id_of (events ! cut_kept_start_index ct) = Some (cut_first_kept_entry_id ct)
    \<and> (tail_tokens events (cut_kept_start_index ct) \<le> keep
       \<or> (\<forall>j. cut_kept_start_index ct < j \<and> j < length events \<longrightarrow> entry_id_of (events ! j) = None))
    \<and> (user_entry_id (events ! cut_kept_start_index ct) = None
       \<longrightarrow> (\<forall>j. cut_kept_start_index ct < j \<and> j < length events \<longrightarrow> user_entry_id (events ! j) = None))
    \<and> (\<forall>j. active_start events \<le> j \<and> j < cut_kept_start_index ct \<and> user_entry_id (events ! j) \<noteq> None
       \<longrightarrow> keep < tail_tokens events j)"
  using assms by (rule select_compaction_cut_Some)

definition demo_log :: "session_event list" where
  "demo_log =
     [EntryAppended ''s'' ''e1'' None ''turn-1'' UserRole ''read the file'' None,
      EntryAppended ''s'' ''e2'' None ''turn-1'' AssistantRole ''done'' None,
      TurnFinished ''s'' ''turn-1'' TurnCompleted None,
      EntryAppended ''s'' ''e3'' None ''turn-2'' UserRole ''next'' None]"

definition demo_cut :: compaction_cut where
  "demo_cut = \<lparr>cut_first_kept_entry_id = ''e3'', cut_kept_start_index = 3, cut_fold_range = (0, 3)\<rparr>"

lemma demo_log_cut: "select_compaction_cut demo_log 1 = Some demo_cut"
  by (simp add: select_compaction_cut_def demo_log_def demo_cut_def active_start_def newest_compaction_checkpoint_def
      masked_result_map_def add_mask_def estimate_event_tokens_with_masks_def estimate_event_tokens_def
      estimate_text_tokens_def u64_saturating_add_def u64_max_def cut_search_start_def is_entry_def entry_id_of_def
      first_from_def user_entry_id_def Let_def)

theorem compaction_cut_placed_witness:
  "select_compaction_cut demo_log 1 = Some demo_cut
   \<and> cut_fold_range demo_cut = (active_start demo_log, cut_kept_start_index demo_cut)
   \<and> entry_id_of (demo_log ! cut_kept_start_index demo_cut) = Some (cut_first_kept_entry_id demo_cut)"
  using compaction_cut_placed [OF demo_log_cut] demo_log_cut by (simp add: u64_max_def)

section \<open>Masks\<close>

definition result_key :: "session_event \<Rightarrow> (string \<times> string) option" where
  "result_key e = (case e of ToolExecutionFinished _ turn rid _ _ _ _ _ _ \<Rightarrow> Some (turn, rid) | _ \<Rightarrow> None)"

definition result_keys :: "session_event list \<Rightarrow> (string \<times> string) list" where
  "result_keys events = List.map_filter result_key events"

definition mask_pair :: "mask_candidate \<Rightarrow> (string \<times> string) \<times> nat" where
  "mask_pair c = ((mc_turn_id c, mc_tool_request_id c), mc_bytes c)"

lemma result_keys_simps [simp]:
  "result_keys [] = []"
  "result_keys (e # es) = (case result_key e of Some k \<Rightarrow> k # result_keys es | None \<Rightarrow> result_keys es)"
  by (simp_all add: result_keys_def map_filter_simps split: option.splits)

lemma result_keys_append [simp]: "result_keys (xs @ ys) = result_keys xs @ result_keys ys"
  by (induction xs) (auto split: option.splits)

lemma set_result_keys: "k \<in> set (result_keys es) \<longleftrightarrow> (\<exists>e \<in> set es. result_key e = Some k)"
  by (induction es) (auto split: option.splits)

lemma result_keys_rev: "result_keys (rev events) = rev (result_keys events)"
  by (induction events) (auto split: option.splits)

lemma fold_add_mask_events:
  "fold add_mask (map (mask_event session turn) cs) m k
   = (case m k of Some b \<Rightarrow> Some b | None \<Rightarrow> map_of (map mask_pair cs) k)"
  by (induction cs arbitrary: m) (auto simp: add_mask_def mask_event_def mask_pair_def split: option.splits)

text \<open>One event: what it adds to the candidates.\<close>

definition candidate_of ::
  "(string \<Rightarrow> bool) \<Rightarrow> mask_map \<Rightarrow> string \<Rightarrow> session_event \<Rightarrow> mask_candidate \<Rightarrow> bool" where
  "candidate_of terminal masks current e c \<longleftrightarrow> (\<exists>content.
     (case e of ToolExecutionFinished _ turn rid _ _ _ r _ _ \<Rightarrow>
        turn = mc_turn_id c \<and> rid = mc_tool_request_id c \<and> r = Some content | _ \<Rightarrow> False)
     \<and> mc_turn_id c \<noteq> current \<and> terminal (mc_turn_id c) \<and> masks (mc_turn_id c, mc_tool_request_id c) = None
     \<and> mc_bytes c = length content \<and> 0 < mc_net_tokens c
     \<and> estimate_text_tokens content = estimate_text_tokens (mask_marker (length content)) + mc_net_tokens c)"

lemma mask_loop_Cons:
  "(\<exists>c p'. candidate_of terminal masks current e c
      \<and> mask_loop terminal masks current protect (e # es) p = c # mask_loop terminal masks current protect es p')
   \<or> (\<exists>p'. mask_loop terminal masks current protect (e # es) p = mask_loop terminal masks current protect es p')"
  by (cases e) (auto simp: candidate_of_def Let_def split: option.splits)

lemma candidate_of_key: "candidate_of terminal masks current e c \<Longrightarrow> result_key e = Some (mc_turn_id c, mc_tool_request_id c)"
  by (auto simp: candidate_of_def result_key_def split: session_event.splits)

lemma mask_loop_candidates:
  "c \<in> set (mask_loop terminal masks current protect es p) \<Longrightarrow> \<exists>e \<in> set es. candidate_of terminal masks current e c"
proof (induction es arbitrary: p)
  case (Cons e es)
  then show ?case using mask_loop_Cons [of terminal masks current e protect es p]
    by (elim disjE exE conjE) (auto simp del: mask_loop.simps)
qed simp

lemma mask_loop_keys:
  "set (map fst (map mask_pair (mask_loop terminal masks current protect es p))) \<subseteq> set (result_keys es)"
  using mask_loop_candidates candidate_of_key
  by (force simp: mask_pair_def set_result_keys)

lemma mask_loop_distinct:
  assumes "distinct (result_keys es)"
  shows "distinct (map fst (map mask_pair (mask_loop terminal masks current protect es p)))"
  using assms
proof (induction es arbitrary: p)
  case (Cons e es)
  consider (cand) c p' where "candidate_of terminal masks current e c"
      "mask_loop terminal masks current protect (e # es) p = c # mask_loop terminal masks current protect es p'"
    | (skip) p' where "mask_loop terminal masks current protect (e # es) p = mask_loop terminal masks current protect es p'"
    using mask_loop_Cons by blast
  then show ?case
  proof cases
    case cand
    then show ?thesis
      using Cons mask_loop_keys [of terminal masks current protect es p'] candidate_of_key [OF cand(1)]
      by (auto simp: mask_pair_def simp del: mask_loop.simps)
  next
    case skip
    then show ?thesis using Cons by (simp del: mask_loop.simps split: option.splits)
  qed
qed simp

lemma estimate_with_masks_unkeyed:
  "result_key e = None \<Longrightarrow> estimate_event_tokens_with_masks m e = estimate_event_tokens e"
  by (auto simp: result_key_def estimate_event_tokens_with_masks_def split: session_event.splits)

lemma estimate_with_masks_cong:
  "(\<And>k. result_key e = Some k \<Longrightarrow> m k = m' k)
   \<Longrightarrow> estimate_event_tokens_with_masks m e = estimate_event_tokens_with_masks m' e"
  by (auto simp: result_key_def estimate_event_tokens_with_masks_def split: session_event.splits)

lemma estimate_candidate:
  assumes "candidate_of terminal masks current e c" "m' (mc_turn_id c, mc_tool_request_id c) = Some (mc_bytes c)"
  shows "estimate_event_tokens_with_masks masks e = estimate_event_tokens_with_masks m' e + mc_net_tokens c"
  using assms
  by (auto simp: candidate_of_def estimate_event_tokens_with_masks_def estimate_event_tokens_def split: session_event.splits)

lemma mask_loop_savings:
  assumes "distinct (result_keys es)"
    "\<And>k. k \<in> set (result_keys es) \<Longrightarrow> m' k = (case masks k of Some b \<Rightarrow> Some b
      | None \<Rightarrow> map_of (map mask_pair (mask_loop terminal masks current protect es p)) k)"
  shows "sum_list (map (estimate_event_tokens_with_masks masks) es)
    = sum_list (map (estimate_event_tokens_with_masks m') es)
      + sum_list (map mc_net_tokens (mask_loop terminal masks current protect es p))"
  using assms
proof (induction es arbitrary: p)
  case (Cons e es)
  consider (cand) c p' where "candidate_of terminal masks current e c"
      "mask_loop terminal masks current protect (e # es) p = c # mask_loop terminal masks current protect es p'"
    | (skip) p' where "mask_loop terminal masks current protect (e # es) p = mask_loop terminal masks current protect es p'"
    using mask_loop_Cons by blast
  then show ?case
  proof cases
    case cand
    note key = candidate_of_key [OF cand(1)]
    have "masks (mc_turn_id c, mc_tool_request_id c) = None" using cand(1) by (auto simp: candidate_of_def)
    then have "m' (mc_turn_id c, mc_tool_request_id c) = Some (mc_bytes c)"
      using Cons.prems(2) key cand(2) by (simp add: mask_pair_def del: mask_loop.simps)
    then have "estimate_event_tokens_with_masks masks e = estimate_event_tokens_with_masks m' e + mc_net_tokens c"
      by (rule estimate_candidate [OF cand(1)])
    moreover have "m' k = (case masks k of Some b \<Rightarrow> Some b
        | None \<Rightarrow> map_of (map mask_pair (mask_loop terminal masks current protect es p')) k)"
      if "k \<in> set (result_keys es)" for k
    proof -
      have "k \<noteq> (mc_turn_id c, mc_tool_request_id c)" using that key Cons.prems(1) by auto
      then show ?thesis
        using Cons.prems(2) [of k] that key cand(2) by (simp add: mask_pair_def del: mask_loop.simps split: option.splits)
    qed
    ultimately show ?thesis using Cons.IH [of p'] Cons.prems(1) key cand(2) by (simp del: mask_loop.simps)
  next
    case skip
    have "estimate_event_tokens_with_masks masks e = estimate_event_tokens_with_masks m' e"
    proof (rule estimate_with_masks_cong)
      fix k assume k: "result_key e = Some k"
      then have "k \<notin> set (result_keys es)" using Cons.prems(1) by simp
      then have "map_of (map mask_pair (mask_loop terminal masks current protect es p')) k = None"
        using mask_loop_keys by (fastforce simp: map_of_eq_None_iff)
      then show "masks k = m' k"
        using Cons.prems(2) [of k] k skip by (simp del: mask_loop.simps split: option.splits)
    qed
    then show ?thesis using Cons.IH [of p'] Cons.prems skip
      by (simp del: mask_loop.simps split: option.splits)
  qed
qed simp

lemma sum_list_map_rev: "sum_list (map f (rev xs)) = sum_list (map f xs)" for f :: "'a \<Rightarrow> nat"
  by (induction xs) simp_all

lemma map_of_rev_distinct: "distinct (map fst xs) \<Longrightarrow> map_of (rev xs) = map_of xs"
  by (simp add: map_of_inject_set rev_map [symmetric])

lemma masks_add_nothing: "estimate_event_tokens_with_masks m (mask_event session turn c) = 0"
  by (simp add: mask_event_def estimate_event_tokens_with_masks_def estimate_event_tokens_def)

text \<open>
  When every tool result of a log has its own turn and request, adding the masks for the
  selected candidates lowers the estimate of the log by exactly the sum of their net savings.
  A candidate is an unmasked result of a finished turn other than the current one, in the
  active part of the log, and saves something.
\<close>

lemma mask_savings_exact:
  assumes "distinct (result_keys events)" "select_mask_candidates events current protect = cands"
  shows "estimate_events_tokens (events @ map (mask_event session turn) cands) + sum_list (map mc_net_tokens cands)
      = estimate_events_tokens events
    \<and> (\<forall>c \<in> set cands. \<exists>e \<in> set (drop (active_start events) events).
        candidate_of (\<lambda>t. t \<in> finished_turns (drop (active_start events) events)) (masked_result_map events) current e c)"
proof -
  define n where "n = active_start events"
  define active where "active = drop n events"
  define masks where "masks = masked_result_map events"
  define loop where "loop = mask_loop (\<lambda>t. t \<in> finished_turns active) masks current protect (rev active) 0"
  define m' where "m' = masked_result_map (events @ map (mask_event session turn) cands)"
  have cands: "cands = rev loop"
    using assms(2) by (simp add: select_mask_candidates_def loop_def active_def masks_def n_def Let_def)
  have split: "events = take n events @ active" by (simp add: active_def)
  have keys: "distinct (result_keys (rev active))" "set (result_keys (take n events)) \<inter> set (result_keys active) = {}"
    using assms(1) by (subst (asm) split, simp add: result_keys_rev)+
  have "distinct (map fst (map mask_pair loop))"
    unfolding loop_def by (rule mask_loop_distinct [OF keys(1)])
  then have "map_of (map mask_pair (rev loop)) = map_of (map mask_pair loop)"
    by (simp add: rev_map [symmetric] map_of_rev_distinct del: map_map)
  then have m': "m' k = (case masks k of Some b \<Rightarrow> Some b | None \<Rightarrow> map_of (map mask_pair loop) k)" for k
    by (simp add: m'_def masks_def masked_result_map_def fold_add_mask_events cands split: option.split)
  have "sum_list (map (estimate_event_tokens_with_masks masks) (rev active))
      = sum_list (map (estimate_event_tokens_with_masks m') (rev active)) + sum_list (map mc_net_tokens loop)"
    unfolding loop_def by (rule mask_loop_savings [OF keys(1)]) (simp only: m' loop_def)
  moreover have "estimate_event_tokens_with_masks masks e = estimate_event_tokens_with_masks m' e"
    if "e \<in> set (take n events)" for e
  proof (rule estimate_with_masks_cong)
    fix k assume "result_key e = Some k"
    then have "k \<notin> set (result_keys (rev active))" using that keys(2) unfolding result_keys_rev set_rev disjoint_iff set_result_keys by blast
    then have "map_of (map mask_pair loop) k = None"
      using mask_loop_keys unfolding loop_def by (fastforce simp: map_of_eq_None_iff)
    then show "masks k = m' k" by (simp add: m' split: option.splits)
  qed
  then have "sum_list (map (estimate_event_tokens_with_masks masks) (take n events)) = sum_list (map (estimate_event_tokens_with_masks m') (take n events))"
    by (simp cong: map_cong)
  ultimately have "sum_list (map (estimate_event_tokens_with_masks m') events) + sum_list (map mc_net_tokens loop)
      = sum_list (map (estimate_event_tokens_with_masks masks) events)"
    by (subst (1 2) split) (simp add: sum_list_map_rev)
  moreover have "sum_list (map mc_net_tokens cands) = sum_list (map mc_net_tokens loop)" by (simp add: cands sum_list_map_rev)
  ultimately have sum: "estimate_events_tokens (events @ map (mask_event session turn) cands)
      + sum_list (map mc_net_tokens cands) = estimate_events_tokens events"
    by (simp add: estimate_events_tokens_def m'_def masks_def comp_def masks_add_nothing)
  have "\<exists>e \<in> set active. candidate_of (\<lambda>t. t \<in> finished_turns active) masks current e c" if "c \<in> set cands" for c
    using that mask_loop_candidates unfolding cands loop_def by fastforce
  with sum show ?thesis unfolding n_def [symmetric] active_def [symmetric] masks_def [symmetric] by blast
qed

definition mask_log :: "session_event list" where
  "mask_log =
     [ToolExecutionFinished ''s'' ''turn-1'' ''r1'' Completed None None (Some (replicate 400 CHR ''x'')) None None,
      TurnFinished ''s'' ''turn-1'' TurnCompleted None]"

definition demo_mask :: mask_candidate where
  "demo_mask = \<lparr>mc_turn_id = ''turn-1'', mc_tool_request_id = ''r1'', mc_bytes = 400, mc_net_tokens = 82\<rparr>"

lemma mask_log_candidates: "select_mask_candidates mask_log ''turn-2'' 0 = [demo_mask]"
proof -
  have "estimate_text_tokens (mask_marker 400) = 18"
    by (simp add: mask_marker_def estimate_text_tokens_def show_nat.simps)
  then show ?thesis
    by (simp add: select_mask_candidates_def mask_log_def demo_mask_def active_start_def newest_compaction_checkpoint_def
        masked_result_map_def add_mask_def finished_turns_def map_filter_simps estimate_text_tokens_def Let_def)
qed

lemma mask_savings_exact_witness:
  "select_mask_candidates mask_log ''turn-2'' 0 = [demo_mask]
   \<and> estimate_events_tokens (mask_log @ [mask_event ''s'' ''turn-2'' demo_mask]) + 82 = estimate_events_tokens mask_log"
proof -
  have "distinct (result_keys mask_log)" by (simp add: mask_log_def result_key_def)
  from mask_savings_exact [OF this mask_log_candidates, of "''s''" "''turn-2''"] mask_log_candidates
  show ?thesis by (simp add: demo_mask_def)
qed

end
