(* ===== verification/Provider_Retry_Properties.thy ===== *)
theory Provider_Retry_Properties
  imports Provider_Retry Session_Properties
begin

text \<open>
  Retried provider requests: how many attempts there are and how they are recorded, and that an
  answer put together from several attempts is what the provider was told it had said.
\<close>

section \<open>Attempts\<close>

definition attempt_delay :: "provider_attempt_summary \<Rightarrow> nat" where
  "attempt_delay a = (case pa_next_delay_ms a of Some d \<Rightarrow> d | None \<Rightarrow> 0)"

definition retried :: "provider_attempt_summary \<Rightarrow> bool" where
  "retried a \<longleftrightarrow> pa_outcome a = AttemptFailed \<and> pa_next_delay_ms a \<noteq> None
     \<and> (\<exists>kind. pa_error_kind a = Some kind \<and> provider_error_is_transient kind)
     \<and> (\<forall>status. pa_status_code a = Some status \<longrightarrow> \<not> (400 \<le> status \<and> status < 500 \<and> status \<noteq> 408 \<and> status \<noteq> 429))"

fun attempts_ok :: "nat \<Rightarrow> nat \<Rightarrow> nat \<Rightarrow> provider_attempt_summary list \<Rightarrow> bool" where
  "attempts_ok n sequence spent [] = True"
| "attempts_ok n sequence spent (a # as) \<longleftrightarrow>
     n \<le> 2 \<and> pa_retry_index a = n \<and> pa_attempt_sequence a = sequence \<and> spent + attempt_delay a \<le> 30000
     \<and> (as \<noteq> [] \<longrightarrow> retried a) \<and> attempts_ok (n + 1) (sequence + 1) (spent + attempt_delay a) as"

lemma attempts_ok_indices:
  assumes "attempts_ok n sequence spent as"
  shows "(as = [] \<or> n + length as \<le> 3)
    \<and> (\<forall>i < length as. pa_retry_index (as ! i) = n + i \<and> pa_attempt_sequence (as ! i) = sequence + i)
    \<and> (as = [] \<or> spent + sum_list (map attempt_delay as) \<le> 30000)
    \<and> (\<forall>i. Suc i < length as \<longrightarrow> retried (as ! i))"
  using assms
proof (induction as arbitrary: n sequence spent)
  case (Cons a as)
  have "attempts_ok (n + 1) (sequence + 1) (spent + attempt_delay a) as" using Cons.prems by simp
  from Cons.IH [OF this] show ?case using Cons.prems
    by (cases "as = []") (auto simp: nth_Cons' All_less_Suc2 less_Suc_eq_0_disj)
qed simp

lemma record_attempt_simps [simp]:
  "ru_log (record_attempt store session turn a s) = ru_log s @ [ProviderAttemptFinished session turn a]"
  "ru_attempt_sequence (record_attempt store session turn a s) = ru_attempt_sequence s"
  "ru_sent (record_attempt store session turn a s) = ru_sent s"
  by (simp_all add: record_attempt_def Let_def split: option.splits)

lemma settle_attempt_sequence [simp]:
  "ru_attempt_sequence (settle_attempt env request n settle delay s) = ru_attempt_sequence s"
  by (auto simp: settle_attempt_def split: option.splits prod.splits)

lemma settle_attempt_log:
  "rt_sink env = Some (session, purpose) \<Longrightarrow>
   ru_log (settle_attempt env request n settle delay s)
   = ru_log s @ [ProviderAttemptFinished session (prq_turn_id request)
       (attempt_summary purpose (pv_model (prq_model request)) (ru_attempt_sequence s) n settle delay (rt_diagnostics env n))]"
  by (simp add: settle_attempt_def)

lemma attempt_summary_simps [simp]:
  "pa_retry_index (attempt_summary purpose model sequence n settle delay d) = min n 255"
  "pa_attempt_sequence (attempt_summary purpose model sequence n settle delay d) = sequence"
  "pa_next_delay_ms (attempt_summary purpose model sequence n settle delay d) = delay"
  by (simp_all add: attempt_summary_def Let_def split: prod.splits)

lemma retry_delay_transient:
  assumes "provider_retry_delay_ms err n spent = Some delay"
  shows "n < 2 \<and> provider_error_is_transient (pe_kind err) \<and> \<not> hard_non_retryable_status (pe_metadata err)
    \<and> delay + spent \<le> 30000 \<and> 1000 \<le> delay"
  using assms
  by (auto simp: provider_retry_delay_ms_def PROVIDER_RETRY_DELAYS_MS_def PROVIDER_RETRY_DELAY_BUDGET_MS_def Let_def
      nth_Cons' le_diff_conv2 numeral_2_eq_2 less_Suc_eq split: if_splits)

lemma deliver_reset_simps:
  assumes "deliver_reset env l s = Some (l1, s1)"
  shows "ru_log s1 = ru_log s \<and> ru_attempt_sequence s1 = ru_attempt_sequence s \<and> lo_request l1 = lo_request l
    \<and> lo_retry_index l1 = lo_retry_index l \<and> lo_delay_spent l1 = lo_delay_spent l \<and> lo_prefix l1 = lo_prefix l
    \<and> lo_output l1 = lo_output l \<and> lo_resume_active l1 = lo_resume_active l"
  using assms by (auto simp: deliver_reset_def send_notice_def split: option.splits if_splits)

lemma retry_request_turn:
  "provider_retry_request_with_completed_prefix items_of request events b = Some r \<Longrightarrow> prq_turn_id r = prq_turn_id request"
  by (auto simp: provider_retry_request_with_completed_prefix_def split: if_splits bind_splits)

text \<open>
  How one pass ends: with at most one settled attempt, under the pass's number and sequence, or
  with nothing recorded and the loop's counters as they were.
\<close>

definition one_attempt :: "retry_env \<Rightarrow> retry_loop_state \<Rightarrow> run_state \<Rightarrow> run_state \<Rightarrow> bool" where
  "one_attempt env l s s1 \<longleftrightarrow> (\<exists>settle.
     s1 = settle_attempt env (lo_request l) (lo_retry_index l) settle None s)"

lemma partial_attempt_Ends:
  "partial_attempt env l events err b s = LoopEnds r s1 \<Longrightarrow> one_attempt env l s s1"
  unfolding partial_attempt_def Let_def one_attempt_def
  by (auto split: if_splits option.splits)

lemma partial_attempt_Fails:
  assumes "partial_attempt env l events err b s = LoopFails e retry visible l1 s1"
  shows "s1 = s \<and> lo_retry_index l1 = lo_retry_index l \<and> lo_delay_spent l1 = lo_delay_spent l
    \<and> prq_turn_id (lo_request l1) = prq_turn_id (lo_request l)"
  using assms unfolding partial_attempt_def Let_def
  by (auto split: if_splits option.splits dest: retry_request_turn retry_request_turn [OF sym])

lemma answered_Ends: "answered env l reply s = LoopEnds r s1 \<Longrightarrow> one_attempt env l s s1"
  by (auto simp: answered_def one_attempt_def dest!: partial_attempt_Ends split: sum.splits stream_attempt.splits if_splits)

lemma answered_Fails:
  assumes "answered env l reply s = LoopFails e retry visible l1 s1"
  shows "s1 = s \<and> lo_retry_index l1 = lo_retry_index l \<and> lo_delay_spent l1 = lo_delay_spent l
    \<and> prq_turn_id (lo_request l1) = prq_turn_id (lo_request l)"
  using assms
  by (auto simp: answered_def dest!: partial_attempt_Fails split: sum.splits stream_attempt.splits if_splits)

lemma run_attempt_cases:
  "(\<exists>err. run_attempt env l s = LoopEnds (Inl err) s)
   \<or> (\<exists>l1 s1 reply. deliver_reset env l s = Some (l1, s1) \<and> run_attempt env l s = answered env l1 reply s1
       \<and> (reply = Inl (cancelled_error ''native provider prompt cancelled during attempt'')
          \<or> rt_respond env (lo_retry_index l) (lo_request l) = Answered reply))"
  by (auto simp: run_attempt_def Let_def split: option.splits attempt_reply.splits)

lemma run_attempt_Ends:
  assumes "run_attempt env l s = LoopEnds r s1" "rt_sink env = Some (session, purpose)" "lo_retry_index l \<le> 2" "spent \<le> 30000"
  shows "\<exists>as. attempts_ok (lo_retry_index l) (ru_attempt_sequence s) spent as \<and> length as \<le> 1
    \<and> ru_log s1 = ru_log s @ map (ProviderAttemptFinished session (prq_turn_id (lo_request l))) as"
proof -
  consider "s1 = s" | l2 s2 reply where "deliver_reset env l s = Some (l2, s2)" "answered env l2 reply s2 = LoopEnds r s1"
    using run_attempt_cases [of env l s] assms(1) by auto
  then show ?thesis
  proof cases
    case 1
    then show ?thesis by (intro exI [of _ "[]"]) simp
  next
    case 2
    then obtain settle where "s1 = settle_attempt env (lo_request l2) (lo_retry_index l2) settle None s2"
      using answered_Ends unfolding one_attempt_def by blast
    then show ?thesis
      using deliver_reset_simps [OF 2(1)] assms(2-)
      by (intro exI [of _ "[attempt_summary purpose (pv_model (prq_model (lo_request l))) (ru_attempt_sequence s)
          (lo_retry_index l) settle None (rt_diagnostics env (lo_retry_index l))]"])
        (simp add: settle_attempt_log attempt_delay_def)
  qed
qed

lemma run_attempt_Fails:
  assumes "run_attempt env l s = LoopFails e retry visible l1 s1"
  shows "ru_log s1 = ru_log s \<and> ru_attempt_sequence s1 = ru_attempt_sequence s
    \<and> prq_turn_id (lo_request l1) = prq_turn_id (lo_request l)"
proof -
  obtain l2 s2 reply where "deliver_reset env l s = Some (l2, s2)" "answered env l2 reply s2 = LoopFails e retry visible l1 s1"
    using run_attempt_cases [of env l s] assms by auto
  then show ?thesis using deliver_reset_simps answered_Fails by metis
qed

lemma failed_attempt_retried:
  assumes "provider_retry_delay_ms err n spent = Some delay"
  shows "retried (attempt_summary purpose model sequence n (SettleError err) (Some delay) d)"
proof -
  have "\<not> hard_non_retryable_status (pe_metadata err)" "provider_error_is_transient (pe_kind err)"
    using retry_delay_transient [OF assms] by auto
  then show ?thesis
    by (auto simp: retried_def attempt_summary_def settle_outcome_def Let_def error_field_def hard_non_retryable_status_def)
qed

lemma next_attempt_sequence_Suc: "n < u64_max \<Longrightarrow> next_attempt_sequence n = n + 1"
  by (simp add: next_attempt_sequence_def u64_saturating_add_def)

lemma retry_loop_Ends: "run_attempt env l s = LoopEnds r s1 \<Longrightarrow> retry_loop env initial l s = (r, s1)"
  by (subst retry_loop.simps) simp

text \<open>The state a retry starts from, and the two ways a failed attempt goes on.\<close>

definition retry_state :: "provider_error \<Rightarrow> nat \<Rightarrow> nat \<Rightarrow> run_state \<Rightarrow> run_state" where
  "retry_state err n delay s2 = (let s3 = send_notice (StatusUpdated (retry_status err n delay)) s2
     in s3\<lparr>ru_attempt_sequence := next_attempt_sequence (ru_attempt_sequence s3)\<rparr>)"

definition retry_from ::
  "provider_request \<Rightarrow> provider_request option \<Rightarrow> retry_loop_state \<Rightarrow> retry_loop_state \<Rightarrow> nat \<Rightarrow> (nat \<times> nat) option
   \<Rightarrow> retry_loop_state" where
  "retry_from initial retry l l1 delay reset =
     l1\<lparr>lo_retry_index := lo_retry_index l + 1, lo_delay_spent := u64_saturating_add (lo_delay_spent l) delay,
        lo_pending_reset := reset,
        lo_request := (if retry = None \<and> \<not> lo_resume_active l1 then initial else lo_request l1)\<rparr>"

lemma retry_loop_Fails:
  assumes "run_attempt env l s = LoopFails err retry visible l1 s1"
    "s2 = settle_attempt env (lo_request l1) (lo_retry_index l) (SettleError err)
       (provider_retry_delay_ms err (lo_retry_index l) (lo_delay_spent l)) s1"
    "retry_loop env initial l s = (r, s')"
  shows "(\<exists>e. r = Inl e \<and> ru_log s' = ru_log s2)
    \<or> (\<exists>delay reset. provider_retry_delay_ms err (lo_retry_index l) (lo_delay_spent l) = Some delay
        \<and> retry_loop env initial (retry_from initial retry l l1 delay reset)
            (retry_state err (lo_retry_index l) delay s2) = (r, s'))"
proof (cases "provider_retry_delay_ms err (lo_retry_index l) (lo_delay_spent l)")
  case None
  then show ?thesis using assms(3) unfolding assms(2) by (subst (asm) retry_loop.simps) (auto simp: assms(1) Let_def)
next
  case (Some delay)
  then show ?thesis using assms(3) unfolding assms(2)
    by (subst (asm) retry_loop.simps)
      (auto simp: assms(1) Let_def retry_from_def retry_state_def send_notice_def simp del: settle_attempt_sequence
        split: wait_reply.splits sum.splits)
qed

lemma retry_loop_attempts:
  assumes "retry_loop env initial l s = (r, s')" "rt_sink env = Some (session, purpose)" "lo_retry_index l \<le> 2"
    "lo_delay_spent l \<le> 30000" "prq_turn_id (lo_request l) = prq_turn_id initial"
    "ru_attempt_sequence s + (2 - lo_retry_index l) \<le> u64_max"
  shows "\<exists>as. attempts_ok (lo_retry_index l) (ru_attempt_sequence s) (lo_delay_spent l) as
    \<and> ru_log s' = ru_log s @ map (ProviderAttemptFinished session (prq_turn_id initial)) as"
  using assms(1,3-)
proof (induction "3 - lo_retry_index l" arbitrary: l s rule: less_induct)
  case less
  show ?case
  proof (cases "run_attempt env l s")
    case (LoopEnds r1 s1)
    then have "s' = s1" using less.prems(1) by (simp add: retry_loop_Ends)
    then show ?thesis using run_attempt_Ends [OF LoopEnds assms(2) less.prems(2,3)] less.prems(4) by auto
  next
    case (LoopFails err retry visible l1 s1)
    let ?n = "lo_retry_index l"
    let ?delay = "provider_retry_delay_ms err ?n (lo_delay_spent l)"
    define a where "a = attempt_summary purpose (pv_model (prq_model (lo_request l1))) (ru_attempt_sequence s) ?n
      (SettleError err) ?delay (rt_diagnostics env ?n)"
    define s2 where "s2 = settle_attempt env (lo_request l1) ?n (SettleError err) ?delay s1"
    have s2: "ru_log s2 = ru_log s @ [ProviderAttemptFinished session (prq_turn_id initial) a]"
      "ru_attempt_sequence s2 = ru_attempt_sequence s"
      using run_attempt_Fails [OF LoopFails] assms(2) less.prems(4) by (simp_all add: s2_def a_def settle_attempt_log)
    have a: "pa_retry_index a = ?n" "pa_attempt_sequence a = ru_attempt_sequence s" "pa_next_delay_ms a = ?delay"
      using less.prems(2) by (simp_all add: a_def)
    have spent: "lo_delay_spent l + attempt_delay a \<le> 30000"
      using less.prems(3) a(3) retry_delay_transient [of err ?n "lo_delay_spent l"]
      by (cases ?delay) (simp_all add: attempt_delay_def add.commute)
    consider (stop) "ru_log s' = ru_log s2"
      | (again) delay reset where "?delay = Some delay"
          "retry_loop env initial (retry_from initial retry l l1 delay reset) (retry_state err ?n delay s2) = (r, s')"
      using retry_loop_Fails [OF LoopFails s2_def less.prems(1)] by auto
    then show ?thesis
    proof cases
      case stop
      then show ?thesis using s2 a spent less.prems(2) by (intro exI [of _ "[a]"]) simp
    next
      case again
      have n: "?n < 2" and d: "attempt_delay a = delay"
        using retry_delay_transient [OF again(1)] a(3) again(1) by (auto simp: attempt_delay_def)
      define l2 where "l2 = retry_from initial retry l l1 delay reset"
      define s3 where "s3 = retry_state err ?n delay s2"
      have l2: "lo_retry_index l2 = ?n + 1" "lo_delay_spent l2 = lo_delay_spent l + delay"
          "prq_turn_id (lo_request l2) = prq_turn_id initial"
        using spent d run_attempt_Fails [OF LoopFails] less.prems(4)
        by (auto simp: l2_def retry_from_def u64_saturating_add_def u64_max_def)
      have s3: "ru_attempt_sequence s3 = ru_attempt_sequence s + 1" "ru_log s3 = ru_log s2"
        using s2(2) less.prems(5) n
        by (simp_all add: s3_def retry_state_def send_notice_def next_attempt_sequence_Suc)
      have "3 - lo_retry_index l2 < 3 - ?n" "lo_retry_index l2 \<le> 2" "lo_delay_spent l2 \<le> 30000"
          "ru_attempt_sequence s3 + (2 - lo_retry_index l2) \<le> u64_max"
        using l2 s3 n spent d less.prems(5) by auto
      from less.hyps [OF this(1) _ this(2,3) l2(3) this(4)] again(2)
      obtain as where "attempts_ok (?n + 1) (ru_attempt_sequence s + 1) (lo_delay_spent l + delay) as"
          "ru_log s' = ru_log s2 @ map (ProviderAttemptFinished session (prq_turn_id initial)) as"
        unfolding l2_def [symmetric] s3_def [symmetric] l2 s3 by blast
      then show ?thesis
        using s2 a spent d n failed_attempt_retried [OF again(1)] again(1)
        by (intro exI [of _ "a # as"]) (simp add: a_def)
    qed
  qed
qed

text \<open>
  C23. A provider request makes at most three attempts. They are recorded in the log in order,
  with consecutive retry indices and attempt sequences, wait at most thirty seconds in all,
  and every attempt but the last failed with a transient error and without a status that
  forbids a retry.
\<close>

theorem retry_attempts_bounded:
  assumes "provider_request_with_retry_context env request s = (r, s')" "rt_sink env = Some (session, purpose)"
    "ru_attempt_sequence s + 3 \<le> u64_max"
  shows "\<exists>as. ru_log s' = ru_log s @ map (ProviderAttemptFinished session (prq_turn_id request)) as \<and> length as \<le> 3
    \<and> (\<forall>i < length as. pa_retry_index (as ! i) = i \<and> pa_attempt_sequence (as ! i) = ru_attempt_sequence s + 1 + i)
    \<and> sum_list (map attempt_delay as) \<le> 30000
    \<and> (\<forall>i. Suc i < length as \<longrightarrow> retried (as ! i))"
proof -
  let ?l = "initial_loop_state request"
  let ?s = "s\<lparr>ru_attempt_sequence := next_attempt_sequence (ru_attempt_sequence s)\<rparr>"
  have sequence: "next_attempt_sequence (ru_attempt_sequence s) = ru_attempt_sequence s + 1"
    using assms(3) by (simp add: next_attempt_sequence_Suc)
  obtain as where as: "attempts_ok 0 (ru_attempt_sequence s + 1) 0 as"
      "ru_log s' = ru_log s @ map (ProviderAttemptFinished session (prq_turn_id request)) as"
    using retry_loop_attempts [OF assms(1) [unfolded provider_request_with_retry_context_def] assms(2)] sequence assms(3)
    by (auto simp: initial_loop_state_def)
  from attempts_ok_indices [OF as(1)] as(2) show ?thesis by (intro exI [of _ as]) auto
qed

section \<open>The answer\<close>

lemma stream_text_simps [simp]:
  "stream_text [] = []" "stream_text (e # es) = event_text e @ stream_text es"
  "stream_text (xs @ ys) = stream_text xs @ stream_text ys"
  by (simp_all add: stream_text_def)

lemma event_text_simps [simp]:
  "event_text (ResponseOutput t items) = []" "event_text (StreamCompleted t fr u i) = []"
  by (simp_all add: event_text_def)

lemma stream_text_kept [simp]: "stream_text (filter kept_in_prefix events) = stream_text events"
  by (induction events) (auto simp: kept_in_prefix_def event_text_def split: provider_stream_event.splits)

lemma stream_text_splice [simp]: "stream_text (splice_output out events) = stream_text events"
  by (induction events) (auto split: provider_stream_event.splits)

lemma stream_text_take_drop: "stream_text (takeWhile P events) @ stream_text (dropWhile P events) = stream_text events"
  by (metis stream_text_simps(3) takeWhile_dropWhile_id)

lemma finish_text:
  "stream_text (finish_provider_retry_events pre out events) = stream_text pre @ stream_text events"
  by (simp add: finish_provider_retry_events_def stream_text_take_drop split: list.splits)

text \<open>The request that has been told of the given partial answers.\<close>

definition base_envelope :: "retry_env \<Rightarrow> provider_request \<Rightarrow> native_request_envelope" where
  "base_envelope env request = (case prq_native_request request of Some native \<Rightarrow> native
     | None \<Rightarrow> \<lparr>nr_input = (case rt_items_of env (prq_messages request) of Some items \<Rightarrow> items | None \<Rightarrow> []),
         nr_instructions = instructions_from_messages (prq_messages request)\<rparr>)"

definition prefix_items :: "provider_stream_event list \<Rightarrow> json list" where
  "prefix_items events = (case completed_prefix_items events of Some items \<Rightarrow> items | None \<Rightarrow> [])"

definition request_with_prefix ::
  "retry_env \<Rightarrow> provider_request \<Rightarrow> provider_stream_event list list \<Rightarrow> provider_request" where
  "request_with_prefix env request parts =
     (if parts = [] then request
      else (let base = base_envelope env request
        in request\<lparr>prq_native_request := Some (base\<lparr>nr_input := nr_input base @ concat (map prefix_items parts)\<rparr>)\<rparr>))"

lemma request_with_prefix_messages [simp]: "prq_messages (request_with_prefix env request parts) = prq_messages request"
  by (simp add: request_with_prefix_def Let_def)

lemma retry_request_extends:
  assumes "provider_retry_request_with_completed_prefix (rt_items_of env) (request_with_prefix env request parts) events b
    = Some r"
  shows "r = request_with_prefix env request (parts @ [events]) \<and> completed_prefix_items events \<noteq> None"
  using assms
  by (auto simp: provider_retry_request_with_completed_prefix_def request_with_prefix_def base_envelope_def prefix_items_def
      Let_def split: if_splits bind_splits option.splits)

definition told :: "retry_env \<Rightarrow> provider_request \<Rightarrow> retry_loop_state \<Rightarrow> provider_stream_event list list \<Rightarrow> bool" where
  "told env initial l parts \<longleftrightarrow> lo_request l = request_with_prefix env initial parts
     \<and> stream_text (lo_prefix l) = concat (map stream_text parts) \<and> (lo_resume_active l \<longleftrightarrow> parts \<noteq> [])
     \<and> (\<forall>p \<in> set parts. completed_prefix_items p \<noteq> None
        \<and> (\<exists>m < lo_retry_index l. \<exists>request err b. rt_respond env m request = Answered (Inr (PartialAttempt p err b))))"

definition answers :: "retry_env \<Rightarrow> nat \<Rightarrow> provider_request \<Rightarrow> provider_stream_event list \<Rightarrow> bool" where
  "answers env n request events \<longleftrightarrow>
     rt_respond env n request = Answered (Inr (CompleteAttempt events))
     \<or> (\<exists>err b. rt_respond env n request = Answered (Inr (PartialAttempt events err b)))"

lemma partial_attempt_answer:
  assumes "partial_attempt env l events err b s = LoopEnds (Inr evs) s1"
  shows "stream_text evs = stream_text (lo_prefix l) @ stream_text events"
  using assms unfolding partial_attempt_def Let_def
  by (auto simp: finish_text split: if_splits option.splits)

lemma run_attempt_answer:
  assumes "run_attempt env l s = LoopEnds (Inr evs) s1"
  shows "\<exists>events. answers env (lo_retry_index l) (lo_request l) events
    \<and> stream_text evs = stream_text (lo_prefix l) @ stream_text events"
proof -
  obtain l2 s2 reply where "deliver_reset env l s = Some (l2, s2)"
    and a: "answered env l2 reply s2 = LoopEnds (Inr evs) s1"
    and r: "reply = Inl (cancelled_error ''native provider prompt cancelled during attempt'')
      \<or> rt_respond env (lo_retry_index l) (lo_request l) = Answered reply"
    using run_attempt_cases [of env l s] assms by auto
  then have l2: "lo_prefix l2 = lo_prefix l" using deliver_reset_simps by blast
  show ?thesis
  proof (cases reply)
    case (Inl e)
    then show ?thesis using a by (auto simp: answered_def split: if_splits)
  next
    case (Inr attempt)
    then have resp: "rt_respond env (lo_retry_index l) (lo_request l) = Answered (Inr attempt)" using r by auto
    show ?thesis
    proof (cases attempt)
      case (CompleteAttempt events)
      then show ?thesis using a resp Inr l2 by (auto simp: answered_def answers_def finish_text)
    next
      case (PartialAttempt events err b)
      then show ?thesis using a resp Inr l2 by (auto simp: answered_def answers_def dest!: partial_attempt_answer)
    qed
  qed
qed

lemma partial_attempt_told:
  assumes "partial_attempt env l events err b s = LoopFails e retry visible l1 s1" "told env initial l parts"
    "rt_respond env (lo_retry_index l) (lo_request l) = Answered (Inr (PartialAttempt events err b))"
  shows "(retry = None \<and> l1 = l)
    \<or> (retry \<noteq> None \<and> lo_resume_active l1
       \<and> (\<forall>n > lo_retry_index l. told env initial (l1\<lparr>lo_retry_index := n\<rparr>) (parts @ [events])))"
proof -
  let ?retry = "provider_retry_request_with_completed_prefix (rt_items_of env) (lo_request l) events
    (rt_supports_prefix_resume env (lo_request l))"
  have retry: "retry = ?retry" and l1: "l1 = (case ?retry of None \<Rightarrow> l | Some next_request \<Rightarrow>
      l\<lparr>lo_prefix := lo_prefix l @ filter kept_in_prefix events,
        lo_output := lo_output l @ concat (List.map_filter response_items events),
        lo_request := next_request, lo_resume_active := True\<rparr>)"
    using assms(1) unfolding partial_attempt_def Let_def by (auto split: if_splits option.splits)
  show ?thesis
  proof (cases ?retry)
    case None
    then show ?thesis using retry l1 by simp
  next
    case (Some r)
    have "r = request_with_prefix env initial (parts @ [events]) \<and> completed_prefix_items events \<noteq> None"
      using retry_request_extends Some assms(2) unfolding told_def by metis
    then show ?thesis using retry l1 Some assms(2,3) unfolding told_def by (auto; meson less_trans)
  qed
qed

lemma told_cong:
  assumes "told env initial l parts" "lo_request l1 = lo_request l" "lo_prefix l1 = lo_prefix l"
    "lo_resume_active l1 = lo_resume_active l" "lo_retry_index l \<le> lo_retry_index l1"
  shows "told env initial l1 parts"
  using assms unfolding told_def by (metis order.strict_trans2)

lemma run_attempt_told:
  assumes "run_attempt env l s = LoopFails e retry visible l1 s1" "told env initial l parts"
  shows "\<exists>parts'. told env initial (retry_from initial retry l l1 delay reset) parts'"
proof -
  obtain l2 s2 reply where d: "deliver_reset env l s = Some (l2, s2)"
    and a: "answered env l2 reply s2 = LoopFails e retry visible l1 s1"
    and r: "reply = Inl (cancelled_error ''native provider prompt cancelled during attempt'')
      \<or> rt_respond env (lo_retry_index l) (lo_request l) = Answered reply"
    using run_attempt_cases [of env l s] assms(1) by auto
  note l2 = deliver_reset_simps [OF d]
  have t2: "told env initial l2 parts" using told_cong [OF assms(2)] l2 by simp
  have keep: "told env initial (retry_from initial None l l2 delay reset) parts"
    using t2 l2 unfolding told_def retry_from_def request_with_prefix_def by (auto; meson less_SucI)
  consider "retry = None" "l1 = l2" | events err b where "reply = Inr (PartialAttempt events err b)"
      "partial_attempt env l2 events err b s2 = LoopFails e retry visible l1 s1"
    using a by (auto simp: answered_def split: sum.splits stream_attempt.splits if_splits)
  then show ?thesis
  proof cases
    case 1
    then show ?thesis using keep by blast
  next
    case 2
    then have "rt_respond env (lo_retry_index l2) (lo_request l2) = Answered (Inr (PartialAttempt events err b))"
      using r l2 by auto
    from partial_attempt_told [OF 2(2) t2 this] show ?thesis
    proof (elim disjE conjE)
      assume "retry = None" "l1 = l2"
      then show ?thesis using keep by blast
    next
      assume "retry \<noteq> None" "lo_resume_active l1"
        and t: "\<forall>n > lo_retry_index l2. told env initial (l1\<lparr>lo_retry_index := n\<rparr>) (parts @ [events])"
      then have "told env initial (l1\<lparr>lo_retry_index := lo_retry_index l + 1\<rparr>) (parts @ [events])" using l2 by simp
      then have "told env initial (retry_from initial retry l l1 delay reset) (parts @ [events])"
        by (rule told_cong) (use \<open>retry \<noteq> None\<close> in \<open>auto simp: retry_from_def\<close>)
      then show ?thesis ..
    qed
  qed
qed

lemma retry_loop_answer:
  assumes "retry_loop env initial l s = (Inr evs, s')" "told env initial l parts" "lo_retry_index l \<le> 2"
  shows "\<exists>n parts events. n \<le> 2 \<and> answers env n (request_with_prefix env initial parts) events
    \<and> (\<forall>p \<in> set parts. completed_prefix_items p \<noteq> None
        \<and> (\<exists>m < n. \<exists>request err b. rt_respond env m request = Answered (Inr (PartialAttempt p err b))))
    \<and> stream_text evs = concat (map stream_text parts) @ stream_text events"
  using assms
proof (induction "3 - lo_retry_index l" arbitrary: l s parts rule: less_induct)
  case less
  show ?case
  proof (cases "run_attempt env l s")
    case (LoopEnds r1 s1)
    then have "r1 = Inr evs" using less.prems(1) by (simp add: retry_loop_Ends)
    then show ?thesis using run_attempt_answer less.prems(2,3) LoopEnds unfolding told_def by metis
  next
    case (LoopFails err retry visible l1 s1)
    obtain delay reset s2 where delay: "provider_retry_delay_ms err (lo_retry_index l) (lo_delay_spent l) = Some delay"
      and again: "retry_loop env initial (retry_from initial retry l l1 delay reset)
        (retry_state err (lo_retry_index l) delay s2) = (Inr evs, s')"
      using retry_loop_Fails [OF LoopFails refl less.prems(1)] by auto
    obtain parts' where "told env initial (retry_from initial retry l l1 delay reset) parts'"
      using run_attempt_told [OF LoopFails less.prems(2)] by blast
    moreover have "lo_retry_index (retry_from initial retry l l1 delay reset) = lo_retry_index l + 1"
      by (simp add: retry_from_def)
    ultimately show ?thesis using less.hyps [OF _ again] retry_index_bound [OF delay] by simp
  qed
qed

text \<open>
  C24. The text of an answer put together over retries is the text of the partial answers
  followed by that of the last answer, where the last answer was given to the original request
  extended by exactly those partial answers, each of which the provider gave in an earlier
  attempt: no text is lost, repeated or made up.
\<close>

theorem retry_answer_exact:
  assumes "provider_request_with_retry_context env request s = (Inr evs, s')"
  shows "\<exists>n parts events. n \<le> 2 \<and> answers env n (request_with_prefix env request parts) events
    \<and> (\<forall>p \<in> set parts. completed_prefix_items p \<noteq> None
        \<and> (\<exists>m < n. \<exists>sent err b. rt_respond env m sent = Answered (Inr (PartialAttempt p err b))))
    \<and> stream_text evs = concat (map stream_text parts) @ stream_text events"
  using assms unfolding provider_request_with_retry_context_def
  by (rule retry_loop_answer [where parts = "[]"])
    (simp_all add: told_def initial_loop_state_def request_with_prefix_def)

section \<open>An interrupted answer\<close>

definition demo_message :: provider_message where
  "demo_message = text_message UserRole ''hi''"

definition demo_retry_request :: provider_request where
  "demo_retry_request = \<lparr>prq_turn_id = ''turn-1'', prq_model = \<lparr>pv_provider = ''openai'', pv_model = ''m''\<rparr>,
     prq_messages = [demo_message],
     prq_native_request = Some \<lparr>nr_input = [user_input_text_item ''hi''], nr_instructions = ''be brief''\<rparr>,
     prq_extensions = [], prq_approved_tool_advertising = None\<rparr>"

definition network_error :: provider_error where
  "network_error = \<lparr>pe_kind = Network, pe_message = ''reset'', pe_redacted_debug = None,
     pe_metadata = default_error_metadata\<rparr>"

definition demo_respond :: "nat \<Rightarrow> provider_request \<Rightarrow> attempt_reply" where
  "demo_respond n request = Answered (Inr
     (if n = 0 then PartialAttempt [TextDelta ''turn-1'' ''Hel''] network_error False
      else CompleteAttempt [TextDelta ''turn-1'' ''lo'',
        ResponseOutput ''turn-1'' [assistant_output_text_item ''lo''],
        StreamCompleted ''turn-1'' (Some FinishStop) None None]))"

definition demo_retry_env :: retry_env where
  "demo_retry_env = \<lparr>rt_respond = demo_respond, rt_cancelled = (\<lambda>_. False), rt_wait = (\<lambda>_. Slept),
     rt_late_cancelled = (\<lambda>_. False), rt_live_bytes = (\<lambda>_. None), rt_reset_delivered = (\<lambda>_. True),
     rt_reset_negotiated = False, rt_context_session = ''s'', rt_supports_prefix_resume = (\<lambda>_. True),
     rt_items_of = (\<lambda>_. Some []),
     rt_diagnostics = (\<lambda>_. \<lparr>ad_provider_request_id = None, ad_first_event_ms = None, ad_capture = None,
       ad_started_at_ms = 0, ad_duration_ms = 0\<rparr>),
     rt_sink = Some (''s'', TurnAttempt), rt_store = None\<rparr>"

definition empty_run :: "fs \<Rightarrow> run_state" where
  "empty_run s = \<lparr>ru_log = [], ru_pending = [], ru_fs = s, ru_attempt_sequence = 0, ru_sent = []\<rparr>"

lemma demo_retry_first:
  "run_attempt demo_retry_env (initial_loop_state demo_retry_request) s
   = LoopFails network_error (Some (request_with_prefix demo_retry_env demo_retry_request [[TextDelta ''turn-1'' ''Hel'']]))
       False
       ((initial_loop_state demo_retry_request)\<lparr>lo_prefix := [TextDelta ''turn-1'' ''Hel''],
          lo_request := request_with_prefix demo_retry_env demo_retry_request [[TextDelta ''turn-1'' ''Hel'']],
          lo_resume_active := True\<rparr>) s"
  by (simp add: run_attempt_def Let_def demo_retry_env_def initial_loop_state_def demo_respond_def deliver_reset_def
      answered_def partial_attempt_def is_completed_def provider_retry_request_with_completed_prefix_def
      completed_prefix_items_def List.map_filter_def response_items_def event_text_def demo_retry_request_def
      request_with_prefix_def prefix_items_def base_envelope_def kept_in_prefix_def)

definition demo_answer :: "provider_stream_event list" where
  "demo_answer = [TextDelta ''turn-1'' ''Hel'', TextDelta ''turn-1'' ''lo'',
     ResponseOutput ''turn-1'' [assistant_output_text_item ''lo''], StreamCompleted ''turn-1'' (Some FinishStop) None None]"

lemma demo_retry_second:
  assumes "lo_retry_index l = 1" "lo_prefix l = [TextDelta ''turn-1'' ''Hel'']" "lo_output l = []" "lo_pending_reset l = None"
  shows "\<exists>s1. retry_loop demo_retry_env request l s = (Inr demo_answer, s1)"
  using assms
  by (subst retry_loop.simps)
    (simp add: run_attempt_def Let_def demo_retry_env_def demo_respond_def deliver_reset_def answered_def
      finish_provider_retry_events_def demo_answer_def)

lemma demo_retry_delay: "provider_retry_delay_ms network_error 0 0 = Some 1000"
  by (simp add: provider_retry_delay_ms_def PROVIDER_RETRY_DELAYS_MS_def PROVIDER_RETRY_DELAY_BUDGET_MS_def network_error_def
      default_error_metadata_def hard_non_retryable_status_def provider_error_is_transient_def)

lemma demo_retry: "\<exists>s'. provider_request_with_retry_context demo_retry_env demo_retry_request s = (Inr demo_answer, s')"
proof -
  have wait: "rt_wait demo_retry_env 0 = Slept" by (simp add: demo_retry_env_def)
  have reset: "reset_before_retry demo_retry_env n False err sequence = Inr None" for n err sequence
    by (simp add: reset_before_retry_def)
  have start: "lo_retry_index (initial_loop_state demo_retry_request) = 0"
      "lo_delay_spent (initial_loop_state demo_retry_request) = 0"
    by (simp_all add: initial_loop_state_def)
  show ?thesis
    unfolding provider_request_with_retry_context_def
    by (subst retry_loop.simps)
      (simp add: demo_retry_first demo_retry_delay wait reset start Let_def,
        rule demo_retry_second, simp_all add: initial_loop_state_def)
qed

text \<open>
  The text an interrupted answer had already given comes back, and the output kept for replay
  holds only what the last attempt said.
\<close>

lemma resumed_answer_loses_raw_prefix:
  "stream_text demo_answer = ''Hello''
   \<and> collect_native_provider_first_round demo_answer
     = Inr \<lparr>fr_text = ''Hello'', fr_response_id = None, fr_tool_calls = [], fr_usage = None,
         fr_raw_output = Some [assistant_output_text_item ''lo'']\<rparr>"
  by (simp add: demo_answer_def event_text_def collect_native_provider_first_round_def collect_event_def empty_round_def Let_def)

theorem retry_attempts_bounded_witness:
  "\<exists>r s' as. provider_request_with_retry_context demo_retry_env demo_retry_request (empty_run (demo_disk (\<lambda>_. False))) = (r, s')
     \<and> ru_log s' = map (ProviderAttemptFinished ''s'' ''turn-1'') as \<and> length as \<le> 3
     \<and> sum_list (map attempt_delay as) \<le> 30000"
proof -
  let ?s = "empty_run (demo_disk (\<lambda>_. False))"
  obtain s' where run: "provider_request_with_retry_context demo_retry_env demo_retry_request ?s = (Inr demo_answer, s')"
    using demo_retry by blast
  have "rt_sink demo_retry_env = Some (''s'', TurnAttempt)" "ru_attempt_sequence ?s + 3 \<le> u64_max" "ru_log ?s = []"
      "prq_turn_id demo_retry_request = ''turn-1''"
    by (simp_all add: demo_retry_env_def empty_run_def u64_max_def demo_retry_request_def)
  then show ?thesis using retry_attempts_bounded [OF run] run by fastforce
qed

theorem retry_answer_exact_witness:
  "\<exists>n parts events. n \<le> 2 \<and> answers demo_retry_env n (request_with_prefix demo_retry_env demo_retry_request parts) events
     \<and> concat (map stream_text parts) @ stream_text events = ''Hello''"
proof -
  obtain s' where "provider_request_with_retry_context demo_retry_env demo_retry_request (empty_run (demo_disk (\<lambda>_. False)))
      = (Inr demo_answer, s')"
    using demo_retry by blast
  from retry_answer_exact [OF this] show ?thesis using resumed_answer_loses_raw_prefix by metis
qed

end
