(* ===== verification/Native_Replay.thy ===== *)
theory Native_Replay
  imports Compaction_Run
begin

text \<open>
  The replay of a provider-native window over later requests, \<^verbatim>\<open>responses_replay.rs\<close> and its use in
  \<^verbatim>\<open>runner.rs\<close>: restoring it from the newest checkpoint, extending it by what was logged since, and
  committing a finished round.
\<close>

section \<open>The shared state\<close>

datatype replay_store = ReplayUninitialized | ReplayInvalidated "native_replay_target option"
  | CapabilityDisabled "native_replay_target option" | ReplayActive native_replay_state

definition replay_active :: "replay_store \<Rightarrow> native_replay_state option" where
  "replay_active st = (case st of ReplayActive r \<Rightarrow> Some r | _ \<Rightarrow> None)"

definition from_active_for :: "native_replay_state option \<Rightarrow> native_replay_target \<Rightarrow> replay_store" where
  "from_active_for state tgt = (case state of Some r \<Rightarrow> ReplayActive r | None \<Rightarrow> ReplayInvalidated (Some tgt))"

definition publish_native_replay :: "native_replay_state option \<Rightarrow> replay_store \<Rightarrow> replay_store" where
  "publish_native_replay replay st = (case replay of
     Some r \<Rightarrow> ReplayActive r
   | None \<Rightarrow> (case st of
       ReplayInvalidated tgt \<Rightarrow> ReplayInvalidated tgt
     | CapabilityDisabled tgt \<Rightarrow> CapabilityDisabled tgt
     | ReplayActive r \<Rightarrow> ReplayInvalidated (Some (rp_target r))
     | ReplayUninitialized \<Rightarrow> ReplayInvalidated None))"

section \<open>Restoring\<close>

text \<open>\<open>read_artifact\<close> is \<open>serde_json::from_value\<close> for an artifact.\<close>

definition native_replay_from_newest_checkpoint ::
  "(string \<Rightarrow> string) \<Rightarrow> (json \<Rightarrow> native_compaction_artifact option) \<Rightarrow> session_event list \<Rightarrow> string \<Rightarrow> provider_model
   \<Rightarrow> provider_config \<Rightarrow> provider_message list \<Rightarrow> native_replay_state option" where
  "native_replay_from_newest_checkpoint digest read_artifact events session model p messages =
     (if provider_label (pc_adapter p) \<noteq> ''openai'' \<or> pc_responses_compact p \<noteq> Some True then None
      else Option.bind (find_map (\<lambda>(i, e). case e of
          CompactionCheckpoint sess _ _ _ _ _ _ _ _ details \<Rightarrow> Some (i, sess, details) | _ \<Rightarrow> None)
          (rev (enumerate 0 events))) (\<lambda>(i, sess, details).
        if sess \<noteq> session then None
        else if list_ex (\<lambda>e. case e of ToolResultMasked _ _ _ _ _ _ \<Rightarrow> True | _ \<Rightarrow> False) (drop (i + 1) events) then None
        else Option.bind (json_get ''native'' details) (\<lambda>v. Option.bind (read_artifact v) (\<lambda>a.
          if na_version a \<noteq> 1 \<or> na_provider a \<noteq> ''openai'' \<or> na_wire a \<noteq> ''openai-responses''
             \<or> na_model a \<noteq> pv_model model \<or> na_connection a \<noteq> native_replay_connection digest p
             \<or> \<not> native_window_is_replayable (na_window a)
          then None
          else Some \<lparr>rp_target = native_replay_target_of digest session model p,
            rp_instructions = instructions_from_messages messages, rp_input = na_window a,
            rp_synced_event_count = i + 1\<rparr>))))"

section \<open>The request of a turn\<close>

fun find_window :: "'a list \<Rightarrow> 'a list \<Rightarrow> nat option" where
  "find_window pat [] = (if pat = [] then Some 0 else None)"
| "find_window pat (x # xs) = (if take (length pat) (x # xs) = pat then Some 0 else map_option Suc (find_window pat xs))"

text \<open>
  \<open>items_of\<close> is \<open>input_items_from_messages\<close>, which goes through Rig's conversion; \<open>parse\<close> is
  \<open>serde_json::from_str\<close>.
\<close>

record replay_env =
  re_digest :: "string \<Rightarrow> string"
  re_read_artifact :: "json \<Rightarrow> native_compaction_artifact option"
  re_parse :: "string \<Rightarrow> json option"
  re_items_of :: "provider_message list \<Rightarrow> json list option"

definition should_load_checkpoint :: "native_replay_target \<Rightarrow> replay_store \<Rightarrow> bool" where
  "should_load_checkpoint tgt st = (case st of
     ReplayUninitialized \<Rightarrow> True
   | CapabilityDisabled _ \<Rightarrow> True
   | ReplayInvalidated t \<Rightarrow> t \<noteq> Some tgt
   | ReplayActive r \<Rightarrow> rp_target r \<noteq> tgt)"

definition sync_replay ::
  "replay_env \<Rightarrow> session_event list \<Rightarrow> string \<Rightarrow> native_replay_state \<Rightarrow> native_replay_state option" where
  "sync_replay env events current r =
     (let start = min (rp_synced_event_count r) (length events)
      in if start < length events
         then map_option (\<lambda>items. r\<lparr>rp_input := rp_input r @ items, rp_synced_event_count := length events\<rparr>)
           (re_items_of env (provider_messages_from_event_slice (re_parse env) events (drop start events) current None))
         else Some r)"

definition live_additions ::
  "replay_env \<Rightarrow> session_event list \<Rightarrow> string \<Rightarrow> provider_message list \<Rightarrow> json list" where
  "live_additions env events current messages = (case re_items_of env messages of
     None \<Rightarrow> []
   | Some current_input \<Rightarrow>
       (let logged = (case re_items_of env (provider_messages_from_log (re_parse env) events current) of
            Some items \<Rightarrow> items | None \<Rightarrow> [])
        in if logged = [] then current_input
           else (case find_window logged current_input of
               Some offset \<Rightarrow> drop (offset + length logged) current_input
             | None \<Rightarrow> [])))"

definition assemble_native_replay_request ::
  "replay_env \<Rightarrow> session_event list \<Rightarrow> string \<Rightarrow> provider_model \<Rightarrow> provider_config \<Rightarrow> provider_message list \<Rightarrow> string
   \<Rightarrow> replay_store \<Rightarrow> native_request_envelope option \<times> replay_store" where
  "assemble_native_replay_request env events session model p messages current st =
     (if provider_label (pc_adapter p) \<noteq> ''openai'' then (None, st)
      else (case re_items_of env messages of
          None \<Rightarrow> (None, st)
        | Some items \<Rightarrow>
            (let tgt = native_replay_target_of (re_digest env) session model p;
                 instructions = instructions_from_messages messages;
                 prospective = \<lparr>nr_input = items, nr_instructions = instructions\<rparr>
             in if pc_responses_compact p \<noteq> Some True then (Some prospective, CapabilityDisabled (Some tgt))
                else (let st1 = (if should_load_checkpoint tgt st
                        then from_active_for (native_replay_from_newest_checkpoint (re_digest env) (re_read_artifact env)
                          events session model p messages) tgt
                        else st)
                  in case replay_active st1 of
                       None \<Rightarrow> (Some prospective, st1)
                     | Some r \<Rightarrow>
                         (case sync_replay env events current (r\<lparr>rp_instructions := instructions\<rparr>) of
                            None \<Rightarrow> (Some prospective, ReplayInvalidated (Some tgt))
                          | Some r1 \<Rightarrow>
                              (Some \<lparr>nr_input = rp_input r1 @ live_additions env events current messages,
                                 nr_instructions = rp_instructions r1\<rparr>, ReplayActive r1))))))"

definition commit_native_replay_round ::
  "native_replay_target \<Rightarrow> native_request_envelope option \<Rightarrow> json list option \<Rightarrow> json list \<Rightarrow> nat \<Rightarrow> replay_store
   \<Rightarrow> backend_notice list \<times> replay_store" where
  "commit_native_replay_round tgt sent raw tool_outputs synced st =
     (case replay_active st of
        None \<Rightarrow> ([], st)
      | Some r \<Rightarrow>
          if rp_target r \<noteq> tgt then ([], st)
          else (case (sent, raw) of
              (Some request, Some items) \<Rightarrow>
                ([], ReplayActive (r\<lparr>rp_instructions := nr_instructions request,
                  rp_input := nr_input request @ items @ tool_outputs, rp_synced_event_count := synced\<rparr>))
            | _ \<Rightarrow> ([StatusUpdated ''native replay invalidated: provider terminal raw output was unavailable or malformed; using summary context''],
                ReplayInvalidated (Some (rp_target r)))))"

definition native_request_token_estimate :: "(json list \<Rightarrow> string option) \<Rightarrow> native_request_envelope option \<Rightarrow> nat option" where
  "native_request_token_estimate print request = map_option (\<lambda>r. estimate_text_tokens (nr_instructions r)
     + (case print (nr_input r) of Some t \<Rightarrow> estimate_text_tokens t | None \<Rightarrow> 0)) request"

end
