(* ===== verification/Context_Properties.thy ===== *)
theory Context_Properties
  imports Compaction_Properties Provider_Retry_Properties Native_Replay
begin

text \<open>
  The context a log gives: which events leave it alone, what it is after a checkpoint, and the
  steps of a compaction that only record provider attempts.
\<close>

section \<open>Events that leave the context alone\<close>

definition is_attempt :: "session_event \<Rightarrow> bool" where
  "is_attempt e = (case e of ProviderAttemptFinished _ _ _ \<Rightarrow> True | _ \<Rightarrow> False)"

definition is_mask :: "session_event \<Rightarrow> bool" where
  "is_mask e = (case e of ToolResultMasked _ _ _ _ _ _ \<Rightarrow> True | _ \<Rightarrow> False)"

text \<open>Events that add no message and finish no turn.\<close>

definition is_silent :: "session_event \<Rightarrow> bool" where
  "is_silent e \<longleftrightarrow> is_attempt e \<or> is_mask e \<or> is_checkpoint e"

lemmas silent_defs = is_silent_def is_attempt_def is_mask_def is_checkpoint_def

lemma slice_messages_silent:
  "list_all is_silent as \<Longrightarrow> slice_messages parse E T masks contexts (es @ as) = slice_messages parse E T masks contexts es"
proof (induction es arbitrary: contexts)
  case Nil
  then show ?case
    by (induction as arbitrary: contexts) (auto simp: silent_defs split: session_event.splits)
next
  case (Cons e es)
  then show ?case by (simp split: session_event.splits)
qed

lemma map_filter_append: "List.map_filter f (xs @ ys) = List.map_filter f xs @ List.map_filter f ys"
  by (simp add: List.map_filter_def)

lemma map_filter_none: "list_all (\<lambda>x. f x = None) xs \<Longrightarrow> List.map_filter f xs = []"
  by (induction xs) (auto simp: map_filter_simps)

lemma silent_no_turn:
  assumes "is_silent e"
  shows "(case e of TurnFinished _ turn _ _ \<Rightarrow> Some turn | _ \<Rightarrow> None) = None"
    "(case e of TurnFinished _ turn TurnCompleted _ \<Rightarrow> Some turn | _ \<Rightarrow> None) = None"
  using assms by (cases e; simp add: silent_defs)+

lemma finished_turns_silent: "list_all is_silent as \<Longrightarrow> finished_turns (events @ as) = finished_turns events"
  by (simp add: finished_turns_def map_filter_append map_filter_none list_all_iff silent_no_turn)

lemma successful_turns_silent: "list_all is_silent as \<Longrightarrow> successful_entry_turns (events @ as) = successful_entry_turns events"
  by (simp add: successful_entry_turns_def map_filter_append map_filter_none list_all_iff silent_no_turn)

lemma masked_result_map_unmasked:
  "list_all (Not \<circ> is_mask) as \<Longrightarrow> masked_result_map (events @ as) = masked_result_map events"
proof -
  have "fold add_mask as m = m" if "list_all (Not \<circ> is_mask) as" for m
    using that by (induction as arbitrary: m) (auto simp: add_mask_def is_mask_def split: session_event.splits)
  then show "list_all (Not \<circ> is_mask) as \<Longrightarrow> ?thesis" by (simp add: masked_result_map_def)
qed

section \<open>The newest checkpoint\<close>

definition checkpoint_fields :: "session_event \<Rightarrow> (string \<times> json \<times> string) option" where
  "checkpoint_fields e = (case e of CompactionCheckpoint _ _ _ s kept _ _ _ _ details \<Rightarrow> Some (s, details, kept) | _ \<Rightarrow> None)"

definition first_entry :: "string \<Rightarrow> session_event list \<Rightarrow> nat option" where
  "first_entry entry events =
     find_map (\<lambda>(j, e). if entry_id_of e = Some entry then Some j else None) (enumerate 0 events)"

lemma enumerate_append: "enumerate n (xs @ ys) = enumerate n xs @ enumerate (n + length xs) ys"
  by (simp add: enumerate_append_eq)

lemma find_map_enumerate_none:
  "list_all (\<lambda>e. \<forall>i. f (i, e) = None) ys \<Longrightarrow> find_map f (enumerate n ys) = None"
  by (auto simp: find_map_None_iff list_all_iff in_set_enumerate_eq dest!: nth_mem)

lemma newest_checkpoint_snoc:
  assumes "checkpoint_fields cp = Some (sm, details, kept)"
  shows "newest_compaction_checkpoint (events @ [cp]) = Some \<lparr>cv_summary = sm, cv_details = details,
    cv_first_kept_entry_id = kept,
    cv_kept_start_index = (case first_entry kept (events @ [cp]) of Some j \<Rightarrow> j | None \<Rightarrow> length events + 1)\<rparr>"
  using assms
  by (auto simp: newest_compaction_checkpoint_def enumerate_append first_entry_def checkpoint_fields_def
      split: session_event.splits option.splits)

lemma first_entry_append:
  "list_all (\<lambda>e. entry_id_of e = None) ys \<Longrightarrow> first_entry entry (xs @ ys) = first_entry entry xs"
  unfolding first_entry_def enumerate_append find_map_append
  by (subst find_map_enumerate_none [of _ ys]) (auto simp: list_all_iff split: option.splits)

definition last_checkpoint :: "session_event list \<Rightarrow> (nat \<times> string \<times> json \<times> string) option" where
  "last_checkpoint events = find_map (\<lambda>(i, e). case e of
     CompactionCheckpoint _ _ _ s kept _ _ _ _ details \<Rightarrow> Some (i, s, details, kept) | _ \<Rightarrow> None) (rev (enumerate 0 events))"

definition checkpoint_at :: "session_event list \<Rightarrow> nat \<times> string \<times> json \<times> string \<Rightarrow> checkpoint_view" where
  "checkpoint_at events = (\<lambda>(i, s, details, kept). \<lparr>cv_summary = s, cv_details = details,
     cv_first_kept_entry_id = kept,
     cv_kept_start_index = (case first_entry kept events of Some j \<Rightarrow> j | None \<Rightarrow> i + 1)\<rparr>)"

lemma newest_checkpoint_eq: "newest_compaction_checkpoint events = map_option (checkpoint_at events) (last_checkpoint events)"
  by (auto simp: newest_compaction_checkpoint_def last_checkpoint_def checkpoint_at_def first_entry_def
      split: option.splits)

lemma last_checkpoint_append:
  assumes "list_all (Not \<circ> is_checkpoint) as"
  shows "last_checkpoint (events @ as) = last_checkpoint events"
proof -
  let ?f = "\<lambda>(i, e). case e of CompactionCheckpoint _ _ _ s kept _ _ _ _ details \<Rightarrow> Some (i, s, details, kept) | _ \<Rightarrow> None"
  have "find_map ?f (rev (enumerate (length events) as)) = None"
    using assms by (auto simp: find_map_None_iff list_all_iff in_set_enumerate_eq is_checkpoint_def
        dest!: nth_mem split: session_event.splits)
  then show ?thesis by (simp add: last_checkpoint_def enumerate_append find_map_append)
qed

lemma newest_checkpoint_append:
  assumes "list_all (\<lambda>e. entry_id_of e = None \<and> \<not> is_checkpoint e) as"
  shows "newest_compaction_checkpoint (events @ as) = newest_compaction_checkpoint events"
proof -
  have "first_entry entry (events @ as) = first_entry entry events" for entry
    using assms by (intro first_entry_append) (auto simp: list_all_iff)
  then have "checkpoint_at (events @ as) = checkpoint_at events" by (auto simp: checkpoint_at_def fun_eq_iff)
  moreover have "last_checkpoint (events @ as) = last_checkpoint events"
    using assms by (intro last_checkpoint_append) (auto simp: list_all_iff)
  ultimately show ?thesis by (simp add: newest_checkpoint_eq)
qed

lemma first_entry_bound: "first_entry entry events = Some j \<Longrightarrow> j < length events"
  unfolding first_entry_def find_map_Some_iff by (auto simp: nth_enumerate_eq split: if_splits)

lemma last_checkpoint_bound: "last_checkpoint events = Some (i, sm, details, kept) \<Longrightarrow> i < length events"
  unfolding last_checkpoint_def find_map_Some_iff
  by (auto simp: rev_nth nth_enumerate_eq split: session_event.splits)

lemma newest_checkpoint_index:
  assumes "newest_compaction_checkpoint events = Some v"
  shows "cv_kept_start_index v \<le> length events"
proof -
  obtain i sm details kept where "last_checkpoint events = Some (i, sm, details, kept)"
    and v: "v = checkpoint_at events (i, sm, details, kept)"
    using assms by (auto simp: newest_checkpoint_eq)
  then have "i < length events" by (auto dest: last_checkpoint_bound)
  then show ?thesis using first_entry_bound [of kept events]
    by (cases "first_entry kept events") (simp_all add: v checkpoint_at_def less_imp_le)
qed

section \<open>The context\<close>

lemma context_attempts:
  assumes "list_all is_attempt as"
  shows "provider_messages_from_log parse (events @ as) current = provider_messages_from_log parse events current"
proof -
  have silent: "list_all is_silent as" "list_all (Not \<circ> is_mask) as"
      "list_all (\<lambda>e. entry_id_of e = None \<and> \<not> is_checkpoint e) as"
    using assms by (auto simp: list_all_iff silent_defs entry_id_of_def split: session_event.splits)
  have slice: "provider_messages_from_event_slice parse (events @ as) (es @ as) current sm
      = provider_messages_from_event_slice parse events es current sm" for es sm
    using silent by (simp add: provider_messages_from_event_slice_def slice_messages_silent finished_turns_silent
        successful_turns_silent masked_result_map_unmasked)
  have "drop (min (cv_kept_start_index v) (length (events @ as))) (events @ as)
      = drop (min (cv_kept_start_index v) (length events)) events @ as"
    if "newest_compaction_checkpoint events = Some v" for v
    using newest_checkpoint_index [OF that] by (simp add: min_absorb1)
  then show ?thesis
    using slice by (simp add: provider_messages_from_log_def newest_checkpoint_append [OF silent(3)] split: option.splits)
qed

lemma first_entry_distinct:
  assumes "distinct (List.map_filter entry_id_of events)" "i < length events" "entry_id_of (events ! i) = Some entry"
  shows "first_entry entry events = Some i"
proof -
  have other: "entry_id_of (events ! j) \<noteq> Some entry" if "j < i" for j
  proof
    assume j: "entry_id_of (events ! j) = Some entry"
    have "events = take i events @ events ! i # drop (Suc i) events" using assms(2) by (simp add: id_take_nth_drop)
    from arg_cong [OF this, of "List.map_filter entry_id_of"]
    have "List.map_filter entry_id_of events
        = List.map_filter entry_id_of (take i events) @ entry # List.map_filter entry_id_of (drop (Suc i) events)"
      by (simp only: map_filter_append map_filter_simps assms(3) option.case)
    then have "distinct (List.map_filter entry_id_of (take i events) @ entry # List.map_filter entry_id_of (drop (Suc i) events))"
      using assms(1) by simp
    moreover have "events ! j \<in> set (take i events)" using that assms(2) by (auto simp: in_set_conv_nth)
    then have "entry \<in> set (List.map_filter entry_id_of (take i events))"
      using j by (force simp: List.map_filter_def)
    ultimately show False by simp
  qed
  show ?thesis unfolding first_entry_def find_map_Some_iff
    using assms(2,3) other by (intro exI [of _ i]) (auto simp: nth_enumerate_eq)
qed

text \<open>After a checkpoint: the summary, then what the events from the kept entry on give.\<close>

lemma context_after_checkpoint:
  assumes "distinct (List.map_filter entry_id_of events)" "i < length events" "entry_id_of (events ! i) = Some kept"
    "checkpoint_fields cp = Some (sm, details, kept)" "list_all is_attempt as" "list_all is_mask masks"
  shows "newest_compaction_checkpoint (events @ as @ masks @ [cp])
      = Some \<lparr>cv_summary = sm, cv_details = details, cv_first_kept_entry_id = kept, cv_kept_start_index = i\<rparr>
    \<and> provider_messages_from_log parse (events @ as @ masks @ [cp]) current
      = provider_messages_from_event_slice parse (events @ masks) (drop i events) current (Some sm)"
proof -
  let ?log = "events @ as @ masks @ [cp]"
  have silent: "list_all is_silent (as @ masks @ [cp])" "list_all is_silent masks"
      "list_all (\<lambda>e. entry_id_of e = None) (as @ masks @ [cp])" "list_all (Not \<circ> is_mask) as" "\<not> is_mask cp"
    using assms(4-6) by (auto simp: list_all_iff silent_defs entry_id_of_def checkpoint_fields_def split: session_event.splits)
  have "first_entry kept ?log = Some i"
    using first_entry_append [OF silent(3), of kept events] first_entry_distinct [OF assms(1-3)] by simp
  then have newest: "newest_compaction_checkpoint ?log
      = Some \<lparr>cv_summary = sm, cv_details = details, cv_first_kept_entry_id = kept, cv_kept_start_index = i\<rparr>"
    using newest_checkpoint_snoc [OF assms(4), of "events @ as @ masks"] by simp
  have masks: "masked_result_map ?log = masked_result_map (events @ masks)"
    using masked_result_map_unmasked [OF silent(4), of events] masked_result_map_unmasked [of "[cp]" "events @ as @ masks"]
      silent(5) by (simp add: masked_result_map_def)
  have "provider_messages_from_event_slice parse ?log (drop i events @ as @ masks @ [cp]) current (Some sm)
      = provider_messages_from_event_slice parse (events @ masks) (drop i events) current (Some sm)"
    using silent(1,2) slice_messages_silent [OF silent(1)] finished_turns_silent [OF silent(1)] finished_turns_silent [OF silent(2)]
      successful_turns_silent [OF silent(1)] successful_turns_silent [OF silent(2)]
    by (simp add: provider_messages_from_event_slice_def masks)
  then show ?thesis using newest assms(2) by (simp add: provider_messages_from_log_def)
qed

section \<open>Steps that only record attempts\<close>

definition adds_attempts :: "run_state \<Rightarrow> run_state \<Rightarrow> bool" where
  "adds_attempts s s' \<longleftrightarrow> (\<exists>as. ru_log s' = ru_log s @ as \<and> list_all is_attempt as)"

named_theorems attempt_steps \<open>steps that only record attempts\<close>

lemma adds_attempts_same: "ru_log s' = ru_log s \<Longrightarrow> adds_attempts s s'"
  by (simp add: adds_attempts_def)

lemma adds_attempts_trans: "adds_attempts s s1 \<Longrightarrow> adds_attempts s1 s2 \<Longrightarrow> adds_attempts s s2"
  unfolding adds_attempts_def by (metis append.assoc list_all_append)

lemma record_attempt_adds [attempt_steps]: "adds_attempts s (record_attempt store session turn a s)"
  by (simp add: adds_attempts_def is_attempt_def)

lemma settle_attempt_adds [attempt_steps]: "adds_attempts s (settle_attempt env request n settle delay s)"
  by (auto simp: settle_attempt_def adds_attempts_same record_attempt_adds split: option.splits)

lemma run_attempt_Ends_adds:
  assumes "run_attempt env l s = LoopEnds r s1"
  shows "adds_attempts s s1"
proof -
  consider "s1 = s" | l2 s2 reply where "deliver_reset env l s = Some (l2, s2)" "answered env l2 reply s2 = LoopEnds r s1"
    using run_attempt_cases [of env l s] assms by auto
  then show ?thesis
  proof cases
    case 2
    have "adds_attempts s s2" using deliver_reset_simps [OF 2(1)] by (simp add: adds_attempts_same)
    moreover have "adds_attempts s2 s1"
      using answered_Ends [OF 2(2)] settle_attempt_adds by (auto simp: one_attempt_def)
    ultimately show ?thesis by (rule adds_attempts_trans)
  qed (simp add: adds_attempts_same)
qed

lemma run_attempt_Fails_adds: "run_attempt env l s = LoopFails err retry visible l1 s1 \<Longrightarrow> adds_attempts s s1"
  by (simp add: adds_attempts_same run_attempt_Fails)

lemma retry_loop_adds: "adds_attempts s (snd (retry_loop env initial l s))"
proof (induction "3 - lo_retry_index l" arbitrary: l s rule: less_induct)
  case less
  obtain r s' where run: "retry_loop env initial l s = (r, s')" by force
  show ?case
  proof (cases "run_attempt env l s")
    case (LoopEnds r1 s1)
    then show ?thesis by (simp add: retry_loop_Ends run_attempt_Ends_adds)
  next
    case (LoopFails err retry visible l1 s1)
    let ?delay = "provider_retry_delay_ms err (lo_retry_index l) (lo_delay_spent l)"
    let ?s2 = "settle_attempt env (lo_request l1) (lo_retry_index l) (SettleError err) ?delay s1"
    have s2: "adds_attempts s ?s2" using run_attempt_Fails_adds [OF LoopFails] settle_attempt_adds adds_attempts_trans by blast
    consider "ru_log s' = ru_log ?s2" | delay reset where "?delay = Some delay"
        "retry_loop env initial (retry_from initial retry l l1 delay reset)
          (retry_state err (lo_retry_index l) delay ?s2) = (r, s')"
      using retry_loop_Fails [OF LoopFails refl run] by auto
    then show ?thesis
    proof cases
      case 1
      then show ?thesis using s2 run by (simp add: adds_attempts_def)
    next
      case 2
      have "adds_attempts ?s2 (retry_state err (lo_retry_index l) delay ?s2)"
        by (simp add: adds_attempts_same retry_state_def send_notice_def)
      moreover have "adds_attempts (retry_state err (lo_retry_index l) delay ?s2) s'"
        using less [of "retry_from initial retry l l1 delay reset" "retry_state err (lo_retry_index l) delay ?s2"]
          2 retry_index_bound [OF 2(1)]
        by (simp add: retry_from_def)
      ultimately show ?thesis using s2 run by (metis adds_attempts_trans snd_conv)
    qed
  qed
qed

lemma native_attempt_adds [attempt_steps]:
  "adds_attempts s (record_native_compaction_attempt store session turn model settle d s)"
  by (auto simp: record_native_compaction_attempt_def Let_def adds_attempts_same record_attempt_adds
      split: native_attempt_settle.splits)

lemma send_status_log [simp]: "ru_log (send_status m s) = ru_log s"
  by (simp add: send_status_def send_notice_def)

lemma adds_attempts_log_cong:
  "ru_log s2 = ru_log s1 \<Longrightarrow> adds_attempts s s1 \<Longrightarrow> adds_attempts s s2" "ru_log s1 = ru_log s \<Longrightarrow> adds_attempts s1 s2 \<Longrightarrow> adds_attempts s s2"
  by (simp_all add: adds_attempts_def)

lemma native_artifact_adds:
  assumes "native_artifact env run provider selected forced s = (x, s1)"
  shows "adds_attempts s s1"
proof -
  let ?s0 = "s\<lparr>ru_attempt_sequence := next_attempt_sequence (ru_attempt_sequence s)\<rparr>"
  have "s1 = s \<or> (\<exists>m. s1 = send_status m s)
    \<or> (\<exists>settle s2. s2 = record_native_compaction_attempt (cn_store run) (cn_session_id run) (cn_turn_id run)
          (cn_model run) settle (ce_native_diagnostics env) ?s0 \<and> (s1 = s2 \<or> (\<exists>m. s1 = send_status m s2)))"
    using assms by (auto simp: native_artifact_def Let_def split: if_splits option.splits sum.splits)
  moreover have "adds_attempts s (record_native_compaction_attempt (cn_store run) (cn_session_id run) (cn_turn_id run)
      (cn_model run) settle (ce_native_diagnostics env) ?s0)" for settle
    by (rule adds_attempts_log_cong(2) [OF _ native_attempt_adds]) simp
  ultimately show ?thesis by (auto simp: adds_attempts_same intro: adds_attempts_log_cong)
qed

lemma native_artifact_Some:
  assumes "native_artifact env run provider selected forced s = (Some (Some a), s1)"
  shows "selected \<and> ce_compact env provider (native_request_with_focus (cn_native_request run) (cn_focus run)) = Some (Inr a)
    \<and> native_window_is_replayable (na_window a)"
  using assms by (auto simp: native_artifact_def Let_def split: if_splits option.splits sum.splits)

lemma portable_summary_adds:
  assumes "portable_summary env run prompt s = (x, s1)"
  shows "adds_attempts s s1"
proof -
  let ?r = "provider_request_with_retry_context (summary_retry_env env run) (summary_request run prompt) s"
  have "adds_attempts s (snd ?r)"
    unfolding provider_request_with_retry_context_def by (rule adds_attempts_log_cong(2) [OF _ retry_loop_adds]) simp
  moreover have "ru_log s1 = ru_log (snd ?r)"
    using assms by (auto simp: portable_summary_def split: prod.splits sum.splits if_splits)
  ultimately show ?thesis by (simp add: adds_attempts_def)
qed

lemma portable_summary_Inr: "portable_summary env run prompt s = (Inr sm, s1) \<Longrightarrow> trim sm \<noteq> []"
  by (auto simp: portable_summary_def split: prod.splits sum.splits if_splits)

lemma portable_summary_Inl:
  "portable_summary env run prompt s = (Inl ended, s1) \<Longrightarrow> ended = Inr NotApplied \<or> (\<exists>e. ended = Inl e)"
  by (auto simp: portable_summary_def split: prod.splits sum.splits if_splits)

lemma summary_notices_log [simp]: "ru_log (summary_notices config s) = ru_log s"
  by (simp add: summary_notices_def split: option.splits)

lemma fold_push_log: "ru_log (fold push_log_event events s) = ru_log s @ events"
  by (induction events arbitrary: s) (simp_all add: push_log_event_def)

lemma commit_log_events_log:
  assumes "commit_log_events store events s = (ok, s1)"
  shows "ru_log s1 = (if ok then ru_log s @ events else ru_log s)"
  using assms
  by (auto simp: commit_log_events_def Let_def append_pending_native_session_events_def fold_push_log
      split: option.splits prod.splits bool.splits if_splits)

section \<open>Tool calls and their results\<close>

fun well_paired :: "provider_message list \<Rightarrow> bool" where
  "well_paired [] = True"
| "well_paired (m # ms) =
     (if pmsg_tool_calls m = [] then pmsg_tool_results m = [] \<and> well_paired ms
      else (case ms of
          [] \<Rightarrow> False
        | r # rest \<Rightarrow> pmsg_role m = AssistantRole \<and> pmsg_tool_results m = []
            \<and> pmsg_role r = ToolRole \<and> pmsg_tool_calls r = []
            \<and> map ptb_call_id (pmsg_tool_results r) = map ptc_call_id (pmsg_tool_calls m) \<and> well_paired rest))"

lemma well_paired_text: "list_all (\<lambda>m. pmsg_tool_calls m = [] \<and> pmsg_tool_results m = []) xs \<Longrightarrow> well_paired (xs @ ys) = well_paired ys"
  by (induction xs) auto

lemma well_paired_exchange: "well_paired (tool_exchange parse masks contexts turn rid content @ ms) = well_paired ms"
  by (auto simp: tool_exchange_def assistant_message_def tool_results_message_def split: option.splits)

lemma well_paired_slice: "well_paired (slice_messages parse E T masks contexts es)"
proof (induction es arbitrary: contexts)
  case (Cons e es)
  then show ?case
    by (cases e) (simp_all add: well_paired_exchange text_message_def)
qed simp

lemma static_context_text:
  "list_all (\<lambda>m. pmsg_tool_calls m = [] \<and> pmsg_tool_results m = []) (provider_messages_from_static_context items)"
  by (simp add: provider_messages_from_static_context_def Let_def text_message_def split: option.splits)

text \<open>
  C25. In the messages of a request, whatever the log holds, every assistant message with tool
  calls is followed at once by the tool message that answers those calls by their ids, and
  tool results occur nowhere else.
\<close>

theorem tool_calls_answered:
  "well_paired (provider_messages_from_log_with_static_context parse events current items guidance)"
proof -
  have "well_paired (provider_messages_from_event_slice parse whole es current sm)" for whole es sm
    unfolding provider_messages_from_event_slice_def
    by (subst well_paired_text) (simp_all add: well_paired_slice compaction_summary_message_def text_message_def split: option.splits)
  then have "well_paired (provider_messages_from_log parse events current)"
    by (simp add: provider_messages_from_log_def split: option.splits)
  then show ?thesis
    using well_paired_text [OF static_context_text]
    by (simp add: provider_messages_from_log_with_static_context_def text_message_def)
qed

section \<open>What the meter leaves out\<close>

definition failed_tool_log :: "session_event list" where
  "failed_tool_log =
     [ToolRequestRecorded ''s'' ''turn-1'' ''r1'' ''bash'' None (Inr ()) ToolAllowed
        \<lparr>tp_summary = '''', tp_byte_count = 0, tp_redacted = True, tp_truncated = False\<rparr> (Some ''{}''),
      ToolExecutionFinished ''s'' ''turn-1'' ''r1'' Completed None None (Some ''output of the tool'') None None,
      TurnFinished ''s'' ''turn-1'' TurnFailed None,
      EntryAppended ''s'' ''e2'' None ''turn-2'' UserRole ''next'' None]"

lemma meter_misses_failed_turn_tools:
  "provider_messages_from_log (\<lambda>_. Some (JObject [])) failed_tool_log ''turn-2''
     = [assistant_message '''' [\<lparr>ptc_call_id = ''yach-r1'', ptc_name = ''bash'', ptc_arguments = JObject []\<rparr>],
        tool_results_message [\<lparr>ptb_call_id = ''yach-r1'', ptb_content = ''output of the tool''\<rparr>],
        text_message UserRole ''next'']
   \<and> estimate_current_context_tokens failed_tool_log = estimate_text_tokens ''next''"
  by (simp add: failed_tool_log_def provider_messages_from_log_def newest_compaction_checkpoint_def
      provider_messages_from_event_slice_def finished_turns_def successful_entry_turns_def List.map_filter_def
      masked_result_map_def add_mask_def tool_exchange_def estimate_current_context_tokens_def context_turns_def
      turn_scoped_event_turn_id_def in_context_def estimate_event_tokens_with_masks_def estimate_event_tokens_def Let_def)

end
