(* ===== verification/Compaction_Run_Properties.thy ===== *)
theory Compaction_Run_Properties
  imports Context_Properties
begin

text \<open>
  One compaction as a transaction: it changes nothing, or it masks results, or it writes a
  checkpoint; what the next request then contains; and that a native window survives a restart.
\<close>

section \<open>The run\<close>

text \<open>The two endings that change nothing and change everything.\<close>

definition nothing_applied ::
  "native_replay_state option \<Rightarrow> run_state \<Rightarrow> compaction_result \<Rightarrow> bool" where
  "nothing_applied replay s = (\<lambda>(res, replay', s').
     (res = Inr NotApplied \<or> (\<exists>e. res = Inl e)) \<and> replay' = replay \<and> adds_attempts s s')"

definition checkpoint_written ::
  "compaction_env \<Rightarrow> compaction_run \<Rightarrow> session_event list \<Rightarrow> native_compaction_artifact option \<Rightarrow> compaction_cut \<Rightarrow> string
   \<Rightarrow> json \<Rightarrow> run_state \<Rightarrow> compaction_result \<Rightarrow> bool" where
  "checkpoint_written env run staged native ct sm details s = (\<lambda>(res, replay', s').
     (\<exists>as cp. list_all is_attempt as \<and> checkpoint_fields cp = Some (sm, details, cut_first_kept_entry_id ct)
        \<and> (\<exists>turn cid tb ta reason compactor.
             cp = CompactionCheckpoint (cn_session_id run) turn cid sm (cut_first_kept_entry_id ct) tb ta reason compactor details)
        \<and> ru_log s' = ru_log s @ as @ staged @ [cp])
     \<and> (case native of
          None \<Rightarrow> res = Inr SummaryApplied \<and> replay' = None
        | Some a \<Rightarrow> res = Inr NativeApplied \<and> (\<exists>request. cn_native_request run = Some request
            \<and> replay' = Some (installed_replay run (provider_context_of (ce_digest env) (cn_provider run)) request a
                (length (ru_log s'))))))"

lemma write_checkpoint_cases:
  assumes "adds_attempts s0 s" "native \<noteq> None \<Longrightarrow> cn_native_request run \<noteq> None"
  shows "nothing_applied replay s0 (write_checkpoint env run (provider_context_of (ce_digest env) (cn_provider run))
        ct masks staged native details sm replay s)
    \<or> checkpoint_written env run staged native ct sm details s0 (write_checkpoint env run
        (provider_context_of (ce_digest env) (cn_provider run)) ct masks staged native details sm replay s)"
proof -
  obtain as where as: "ru_log s = ru_log s0 @ as" "list_all is_attempt as" using assms(1) by (auto simp: adds_attempts_def)
  define cp where "cp = checkpoint_event run ct (ru_log s) sm (case native of
      None \<Rightarrow> u64_saturating_add (estimate_text_tokens sm)
        (sum_list (map (estimate_event_tokens_with_masks masks) (drop (cut_kept_start_index ct) (ru_log s))))
    | Some a \<Rightarrow> estimate_text_tokens (case ce_print_window env (na_window a) of Some t \<Rightarrow> t | None \<Rightarrow> []))
    (native \<noteq> None) details"
  obtain ok s1 where commit: "commit_log_events (cn_store run) (staged @ [cp]) s = (ok, s1)" by force
  note log1 = commit_log_events_log [OF commit]
  have fields: "checkpoint_fields cp = Some (sm, details, cut_first_kept_entry_id ct)"
    by (simp add: cp_def checkpoint_event_def checkpoint_fields_def)
  show ?thesis
  proof (cases ok)
    case False
    then have "nothing_applied replay s0 (write_checkpoint env run (provider_context_of (ce_digest env) (cn_provider run))
        ct masks staged native details sm replay s)"
      using commit log1 as unfolding write_checkpoint_def Let_def cp_def [symmetric]
      by (simp add: nothing_applied_def adds_attempts_def)
    then show ?thesis ..
  next
    case True
    then have "ru_log s1 = ru_log s0 @ as @ staged @ [cp]" using log1 as by simp
    then have "checkpoint_written env run staged native ct sm details s0 (write_checkpoint env run
        (provider_context_of (ce_digest env) (cn_provider run)) ct masks staged native details sm replay s)"
      using commit True as(2) fields assms(2) unfolding write_checkpoint_def Let_def cp_def [symmetric]
      by (cases native) (auto simp: checkpoint_written_def checkpoint_event_def cp_def split: option.splits)
    then show ?thesis ..
  qed
qed

lemma json_get_insert: "json_is_object obj \<Longrightarrow> json_get key (json_insert key v obj) = Some v"
  by (cases obj) (auto simp: json_get_def json_insert_def json_is_object_def map_add_def map_of_eq_None_iff map_of_append
      split: option.splits dest: map_of_SomeD)

lemma json_insert_object [simp]: "json_is_object (json_insert key v obj) = json_is_object obj"
  by (cases obj) (simp_all add: json_is_object_def json_insert_def)

lemma checkpoint_details_object: "json_is_object (checkpoint_details env previous folded n b)"
  by (simp add: checkpoint_details_def merge_compaction_file_details_def json_is_object_def split: prod.splits)
    (simp add: json_insert_def)

text \<open>What a checkpoint with a native window rests on.\<close>

definition native_evidence ::
  "compaction_env \<Rightarrow> compaction_run \<Rightarrow> native_compaction_artifact \<Rightarrow> json \<Rightarrow> bool" where
  "native_evidence env run a details \<longleftrightarrow> native_window_is_replayable (na_window a)
     \<and> provider_label (pc_adapter (cn_provider run)) = ''openai'' \<and> pc_responses_compact (cn_provider run) = Some True
     \<and> ce_compact env (provider_context_of (ce_digest env) (cn_provider run))
         (native_request_with_focus (cn_native_request run) (cn_focus run)) = Some (Inr a)
     \<and> (\<exists>v. ce_artifact_value env a = Some v \<and> json_get ''native'' details = Some v)"

definition try_native :: "compaction_env \<Rightarrow> compaction_run \<Rightarrow> bool" where
  "try_native env run \<longleftrightarrow> native_compaction_dispatch (compactor_kind_of (cn_config run))
     (native_supported run (provider_context_of (ce_digest env) (cn_provider run))) = TryNative"

lemma try_native_supported:
  "try_native env run \<Longrightarrow> provider_label (pc_adapter (cn_provider run)) = ''openai''
     \<and> pc_responses_compact (cn_provider run) = Some True \<and> cn_native_request run \<noteq> None"
  by (auto simp: try_native_def native_compaction_dispatch_def provider_context_of_def native_supported_def
      split: option.splits compactor_kind.splits if_splits)

lemma compact_from_cut_cases:
  fixes env :: compaction_env and run :: compaction_run
  assumes "compact_from_cut env run (provider_context_of (ce_digest env) (cn_provider run)) (try_native env run)
    staging ct replay s = r"
  shows "nothing_applied replay s r
    \<or> (\<exists>native sm details. trim sm \<noteq> [] \<and> checkpoint_written env run (fst staging) native ct sm details s r
        \<and> (\<forall>a. native = Some a \<longrightarrow> native_evidence env run a details))"
proof -
  let ?provider = "provider_context_of (ce_digest env) (cn_provider run)"
  obtain st n k b where staging: "staging = (st, n, k, b)" by (cases staging) auto
  define folded where "folded = take (snd (cut_fold_range ct) - fst (cut_fold_range ct)) (drop (fst (cut_fold_range ct)) (ru_log s))"
  define previous where "previous = newest_compaction_checkpoint (ru_log s)"
  define masks where "masks = masked_result_map (ru_log s) ++ masked_result_map st"
  define prompt where "prompt = build_summary_prompt (serialize_events_for_summary_with_masks folded masks)
    (map_option cv_summary previous) (cn_focus run) (cc_summary_prompt (cn_config run))"
  define details where "details = checkpoint_details env (map_option cv_details previous) folded k b"
  let ?forced = "compactor_kind_of (cn_config run) = Some OpenAiResponsesCompactor"
  note defs = folded_def [symmetric] previous_def [symmetric] masks_def [symmetric] prompt_def [symmetric] details_def [symmetric]
  note run = assms [unfolded compact_from_cut_def staging Let_def prod.case defs]
  obtain found s1 where native: "native_artifact env run ?provider (try_native env run) ?forced s = (found, s1)" by force
  note adds1 = native_artifact_adds [OF native]
  show ?thesis
  proof (cases found)
    case None
    then show ?thesis using run native adds1 by (auto simp: nothing_applied_def)
  next
    case (Some native')
    define stored where "stored = (case native' of None \<Rightarrow> Some details
      | Some a \<Rightarrow> map_option (\<lambda>v. json_insert ''native'' v details) (ce_artifact_value env a))"
    show ?thesis
    proof (cases stored)
      case None
      then show ?thesis using run native Some adds1 unfolding stored_def by (auto simp: nothing_applied_def)
    next
      case details1: (Some details1)
      obtain x s2 where summary: "portable_summary env run prompt (summary_notices (cn_config run) s1) = (x, s2)" by force
      have adds2: "adds_attempts s s2"
        using portable_summary_adds [OF summary] adds1 by (metis adds_attempts_log_cong(2) adds_attempts_trans summary_notices_log)
      show ?thesis
      proof (cases x)
        case (Inl ended)
        then show ?thesis using run native Some details1 summary adds2 portable_summary_Inl [of env run prompt]
          unfolding stored_def by (auto simp: nothing_applied_def)
      next
        case (Inr sm)
        have r: "r = write_checkpoint env run ?provider ct masks st native' details1 sm replay s2"
          using run native Some details1 summary Inr unfolding stored_def by simp
        have "native_evidence env run a details1" if a: "native' = Some a" for a
        proof -
          note found = native_artifact_Some [OF native [unfolded Some a]]
          obtain v where v: "ce_artifact_value env a = Some v" "details1 = json_insert ''native'' v details"
            using details1 a unfolding stored_def by auto
          have "json_get ''native'' details1 = Some v"
            unfolding v(2) details_def by (rule json_get_insert [OF checkpoint_details_object])
          then show ?thesis using found v(1) try_native_supported [of env run] unfolding native_evidence_def by simp
        qed
        moreover have "trim sm \<noteq> []" using summary Inr portable_summary_Inr by blast
        moreover have "native' \<noteq> None \<Longrightarrow> cn_native_request run \<noteq> None"
          using native_artifact_Some native Some try_native_supported by fastforce
        ultimately show ?thesis
          using write_checkpoint_cases [OF adds2, of native' run replay env ct masks st details1 sm]
          unfolding r staging fst_conv by blast
      qed
    qed
  qed
qed

lemma run_compaction_cases:
  fixes run :: compaction_run and s :: run_state
  assumes "run_compaction env run replay s = r" "stage_masks run (ru_log s) = staging"
  shows "nothing_applied replay s r
    \<or> (\<exists>s'. r = (Inr (MaskedApplied (fst (snd staging))), None, s') \<and> fst staging \<noteq> []
        \<and> ru_log s' = ru_log s @ fst staging)
    \<or> (\<exists>ct native sm details. select_compaction_cut (ru_log s) (cc_keep_recent_tokens (cn_config run)) = Some ct
        \<and> trim sm \<noteq> [] \<and> checkpoint_written env run (fst staging) native ct sm details s r
        \<and> (\<forall>a. native = Some a \<longrightarrow> native_evidence env run a details))"
proof -
  note run = assms(1) [unfolded run_compaction_def Let_def try_native_def [symmetric] assms(2)]
  consider (dead) "ce_cancelled env \<or> compactor_kind_of (cn_config run) = None"
    | (mask) "\<not> ce_cancelled env" "compactor_kind_of (cn_config run) \<noteq> None"
        "\<not> try_native env run \<and> fst staging \<noteq> [] \<and> cn_tokens_before run - fst (snd staging) \<le> threshold_tokens run"
    | (fold) "\<not> ce_cancelled env" "compactor_kind_of (cn_config run) \<noteq> None"
        "\<not> (\<not> try_native env run \<and> fst staging \<noteq> [] \<and> cn_tokens_before run - fst (snd staging) \<le> threshold_tokens run)"
    by blast
  then show ?thesis
  proof cases
    case dead
    then show ?thesis using run by (auto simp: nothing_applied_def adds_attempts_same split: if_splits)
  next
    case mask
    obtain ok s1 where commit: "commit_log_events (cn_store run) (fst staging) s = (ok, s1)" by force
    show ?thesis
      using run mask commit commit_log_events_log [OF commit]
      by (cases ok) (auto simp: nothing_applied_def adds_attempts_same)
  next
    case fold
    show ?thesis
    proof (cases "select_compaction_cut (ru_log s) (cc_keep_recent_tokens (cn_config run))")
      case None
      then show ?thesis using run fold by (auto simp: nothing_applied_def adds_attempts_same)
    next
      case (Some ct)
      then have "compact_from_cut env run (provider_context_of (ce_digest env) (cn_provider run)) (try_native env run)
          staging ct replay s = r"
        using run fold by (simp only: if_False option.case not_False_eq_True simp_thms)
      from compact_from_cut_cases [OF this] Some show ?thesis by blast
    qed
  qed
qed

section \<open>Properties\<close>

lemma nothing_applied_context:
  assumes "nothing_applied replay s (res, replay', s')"
  shows "replay' = replay
    \<and> (\<forall>parse current. provider_messages_from_log parse (ru_log s') current = provider_messages_from_log parse (ru_log s) current)"
  using assms context_attempts by (auto simp: nothing_applied_def adds_attempts_def)

text \<open>
  C21. A compaction changes everything or nothing. When it fails, is cancelled or does not
  apply, the replay state is untouched and every later request is built from the same messages
  as before. When it masks, the log gains exactly the masks of the selected candidates, whose
  savings are reported and reach the floor, and the replay is dropped. A summary drops the
  replay; a native window installs a replayable window that covers the whole log.
\<close>

theorem compaction_transactional:
  assumes "run_compaction env run replay s = (res, replay', s')"
    "select_mask_candidates (ru_log s) (cn_turn_id run) (cc_keep_recent_tokens (cn_config run)) = cands"
  shows "(case res of
      Inr SummaryApplied \<Rightarrow> replay' = None
    | Inr NativeApplied \<Rightarrow> (\<exists>r. replay' = Some r \<and> native_window_is_replayable (rp_input r) \<and> rp_synced_event_count r = length (ru_log s'))
    | Inr (MaskedApplied n) \<Rightarrow> replay' = None \<and> n = sum_list (map mc_net_tokens cands)
        \<and> mask_savings_floor (cn_usable_tokens run) \<le> n
        \<and> ru_log s' = ru_log s @ map (mask_event (cn_session_id run) (cn_turn_id run)) cands
    | _ \<Rightarrow> replay' = replay
        \<and> (\<forall>parse current. provider_messages_from_log parse (ru_log s') current = provider_messages_from_log parse (ru_log s) current))"
proof -
  consider (none) "nothing_applied replay s (res, replay', s')"
    | (masked) "res = Inr (MaskedApplied (fst (snd (stage_masks run (ru_log s)))))" "replay' = None"
        "fst (stage_masks run (ru_log s)) \<noteq> []" "ru_log s' = ru_log s @ fst (stage_masks run (ru_log s))"
    | (written) ct native sm details where "checkpoint_written env run (fst (stage_masks run (ru_log s))) native ct sm details s (res, replay', s')"
        "\<forall>a. native = Some a \<longrightarrow> native_evidence env run a details"
    using run_compaction_cases [OF assms(1) refl] by blast
  then show ?thesis
  proof cases
    case none
    then show ?thesis using nothing_applied_context [OF none] by (auto simp: nothing_applied_def split: sum.splits)
  next
    case masked
    then show ?thesis using assms(2) by (auto simp: stage_masks_def Let_def split: if_splits)
  next
    case written
    then show ?thesis
      by (cases native) (auto simp: checkpoint_written_def installed_replay_def native_evidence_def)
  qed
qed

lemma stage_masks_are_masks: "list_all is_mask (fst (stage_masks run events))"
  by (auto simp: stage_masks_def Let_def list_all_iff is_mask_def mask_event_def)

text \<open>
  C22. After a checkpoint, when entry ids are distinct, the context of every request is the
  summary message followed by what the log gives from the kept entry on, with the new masks;
  the summary is not blank, and the active part of the log starts at the cut, strictly later
  than before.
\<close>

theorem compaction_context:
  assumes "run_compaction env run replay s = (Inr app, replay', s')" "app \<in> {SummaryApplied, NativeApplied}"
    "distinct (List.map_filter entry_id_of (ru_log s))" "cc_keep_recent_tokens (cn_config run) < u64_max"
  shows "\<exists>ct sm. select_compaction_cut (ru_log s) (cc_keep_recent_tokens (cn_config run)) = Some ct \<and> trim sm \<noteq> []
    \<and> active_start (ru_log s') = cut_kept_start_index ct \<and> active_start (ru_log s) < active_start (ru_log s')
    \<and> (\<forall>parse current. provider_messages_from_log parse (ru_log s') current
        = provider_messages_from_event_slice parse (ru_log s @ fst (stage_masks run (ru_log s)))
            (drop (cut_kept_start_index ct) (ru_log s)) current (Some sm))"
proof -
  obtain ct native sm details where ct: "select_compaction_cut (ru_log s) (cc_keep_recent_tokens (cn_config run)) = Some ct"
    and sm: "trim sm \<noteq> []"
    and written: "checkpoint_written env run (fst (stage_masks run (ru_log s))) native ct sm details s (Inr app, replay', s')"
    using run_compaction_cases [OF assms(1) refl] assms(2) by (auto simp: nothing_applied_def)
  obtain as cp where log: "ru_log s' = ru_log s @ as @ fst (stage_masks run (ru_log s)) @ [cp]"
    and as: "list_all is_attempt as" and cp: "checkpoint_fields cp = Some (sm, details, cut_first_kept_entry_id ct)"
    using written by (auto simp: checkpoint_written_def)
  note cut = select_compaction_cut_Some [OF ct assms(4)]
  note ctx = context_after_checkpoint [OF assms(3) _ _ cp as stage_masks_are_masks [of run "ru_log s"],
    where i = "cut_kept_start_index ct"]
  have "active_start (ru_log s') = cut_kept_start_index ct" using ctx cut by (simp add: log active_start_def)
  then show ?thesis using ct sm ctx cut by (intro exI [of _ ct] exI [of _ sm]) (simp add: log)
qed

lemma last_checkpoint_session:
  assumes "cp = CompactionCheckpoint session turn cid sm kept tb ta reason compactor details"
    "list_all (\<lambda>e. \<not> is_checkpoint e) later"
  shows "find_map (\<lambda>(i, e). case e of
      CompactionCheckpoint sess _ _ _ _ _ _ _ _ details \<Rightarrow> Some (i, sess, details) | _ \<Rightarrow> None)
    (rev (enumerate 0 (events @ cp # later))) = Some (length events, session, details)"
proof -
  have "find_map (\<lambda>(i, e). case e of
      CompactionCheckpoint sess _ _ _ _ _ _ _ _ details \<Rightarrow> Some (i, sess, details) | _ \<Rightarrow> None)
    (rev (enumerate n later)) = None" for n
    using assms(2) by (auto simp: find_map_None_iff list_all_iff in_set_enumerate_eq is_checkpoint_def
        dest!: nth_mem split: session_event.splits)
  then show ?thesis by (simp add: enumerate_append find_map_append assms(1))
qed

lemma openai_responses_compact_Inr:
  assumes "openai_responses_compact post provider request = Inr a"
  shows "na_version a = 1 \<and> na_provider a = ''openai'' \<and> na_wire a = ''openai-responses'' \<and> na_model a = cp_model provider
    \<and> na_connection a = cp_connection provider \<and> native_window_is_replayable (na_window a)"
  using assms
  by (auto simp: openai_responses_compact_def Let_def
      split: if_splits option.splits http_reply.splits sum.splits json.splits)

text \<open>
  After a native compaction and a restart, the replay restored from the log, over any
  later events that are neither checkpoints nor masks, is the one the compaction had
  installed, with the instructions of the new request. The hypotheses are that decoding an
  encoded artifact gives it back and that the model named in the request is the provider's.
\<close>

lemma native_window_restored:
  assumes "run_compaction env run replay s = (Inr NativeApplied, replay', s')"
    "ce_compact env = (\<lambda>provider request. Some (openai_responses_compact post provider request))"
    "\<And>a v. ce_artifact_value env a = Some v \<Longrightarrow> read_artifact v = Some a"
    "pv_provider (cn_model run) = ''openai''" "pv_model (cn_model run) = pc_model (cn_provider run)"
    "list_all (\<lambda>e. \<not> is_checkpoint e \<and> \<not> is_mask e) later"
  shows "replay' \<noteq> None \<and> native_replay_from_newest_checkpoint (ce_digest env) read_artifact (ru_log s' @ later)
      (cn_session_id run) (cn_model run) (cn_provider run) messages
    = map_option (\<lambda>r. r\<lparr>rp_instructions := instructions_from_messages messages\<rparr>) replay'"
proof -
  let ?provider = "provider_context_of (ce_digest env) (cn_provider run)"
  obtain ct native sm details where
    written: "checkpoint_written env run (fst (stage_masks run (ru_log s))) native ct sm details s (Inr NativeApplied, replay', s')"
    and evidence: "\<forall>a. native = Some a \<longrightarrow> native_evidence env run a details"
    using run_compaction_cases [OF assms(1) refl] by (auto simp: nothing_applied_def)
  obtain a where a: "native = Some a" using written by (cases native) (auto simp: checkpoint_written_def)
  then have ev: "native_evidence env run a details" using evidence by blast
  obtain as cp turn cid tb ta reason compactor request where
    log: "ru_log s' = (ru_log s @ as @ fst (stage_masks run (ru_log s))) @ [cp]"
    and cp: "cp = CompactionCheckpoint (cn_session_id run) turn cid sm (cut_first_kept_entry_id ct) tb ta reason compactor details"
    and replay: "replay' = Some (installed_replay run ?provider request a (length (ru_log s')))"
    using written a unfolding checkpoint_written_def by (auto simp: append_assoc)
  have "openai_responses_compact post ?provider (native_request_with_focus (cn_native_request run) (cn_focus run)) = Inr a"
    using ev assms(2) by (simp add: native_evidence_def)
  note art = openai_responses_compact_Inr [OF this]
  obtain v where v: "json_get ''native'' details = Some v" "read_artifact v = Some a"
    using ev assms(3) by (auto simp: native_evidence_def)
  have later: "list_all (\<lambda>e. \<not> is_checkpoint e) later" "\<not> list_ex is_mask later"
    using assms(6) by (auto simp: list_all_iff list_ex_iff)
  have mask: "is_mask = (\<lambda>e. case e of ToolResultMasked _ _ _ _ _ _ \<Rightarrow> True | _ \<Rightarrow> False)"
    by (rule ext) (simp add: is_mask_def)
  have found: "ru_log s' @ later = (ru_log s @ as @ fst (stage_masks run (ru_log s))) @ cp # later" by (simp add: log)
  have "native_replay_from_newest_checkpoint (ce_digest env) read_artifact (ru_log s' @ later)
      (cn_session_id run) (cn_model run) (cn_provider run) messages
    = Some \<lparr>rp_target = native_replay_target_of (ce_digest env) (cn_session_id run) (cn_model run) (cn_provider run),
        rp_instructions = instructions_from_messages messages, rp_input = na_window a,
        rp_synced_event_count = length (ru_log s')\<rparr>"
    using ev art v later(2) assms(5)
    unfolding native_replay_from_newest_checkpoint_def found last_checkpoint_session [OF cp later(1)] mask [symmetric]
    by (simp add: native_evidence_def log provider_context_of_def)
  moreover have "native_replay_target_of (ce_digest env) (cn_session_id run) (cn_model run) (cn_provider run)
      = rp_target (installed_replay run ?provider request a (length (ru_log s')))"
    using ev assms(4,5)
    by (simp add: native_replay_target_of_def installed_replay_def provider_context_of_def native_evidence_def)
  ultimately show ?thesis using replay by (simp add: installed_replay_def)
qed

section \<open>A run\<close>



definition encode_artifact :: "native_compaction_artifact \<Rightarrow> json" where
  "encode_artifact a = JArray [JArray (replicate (na_version a) JNull), JString (na_provider a), JString (na_wire a),
     JString (na_model a), JString (na_connection a), JArray (na_window a)]"

definition decode_artifact :: "json \<Rightarrow> native_compaction_artifact option" where
  "decode_artifact v = (case v of
     JArray [JArray version, JString provider, JString wire, JString model, JString connection, JArray window] \<Rightarrow>
       Some \<lparr>na_version = length version, na_provider = provider, na_wire = wire, na_model = model,
         na_connection = connection, na_window = window\<rparr>
   | _ \<Rightarrow> None)"

lemma decode_encode_artifact: "decode_artifact (encode_artifact a) = Some a"
  by (simp add: decode_artifact_def encode_artifact_def)

definition demo_window :: "json list" where
  "demo_window = [JObject [(''type'', JString ''compaction'')]]"

definition demo_post :: "string \<Rightarrow> json \<Rightarrow> http_reply" where
  "demo_post url request = HttpReply 200 (Inr (Some (JObject [(''output'', JArray demo_window)])))"

definition demo_summary :: "provider_stream_event list" where
  "demo_summary = [TextDelta ''turn-2'' ''Goal'', StreamCompleted ''turn-2'' (Some FinishStop) None None]"

definition demo_compaction_env :: compaction_env where
  "demo_compaction_env = \<lparr>ce_cancelled = False,
     ce_compact = (\<lambda>provider request. Some (openai_responses_compact demo_post provider request)),
     ce_native_diagnostics = rt_diagnostics demo_retry_env 0,
     ce_retry = demo_retry_env\<lparr>rt_respond := (\<lambda>n request. Answered (Inr (CompleteAttempt demo_summary)))\<rparr>,
     ce_digest = (\<lambda>s. s), ce_parse = (\<lambda>_. None), ce_artifact_value = (\<lambda>a. Some (encode_artifact a)),
     ce_print_window = (\<lambda>_. None), ce_debug = (\<lambda>s. s)\<rparr>"

definition demo_compaction_run :: compaction_run where
  "demo_compaction_run = \<lparr>cn_session_id = ''s'', cn_turn_id = ''turn-2'',
     cn_model = \<lparr>pv_provider = ''openai'', pv_model = ''m''\<rparr>,
     cn_provider = \<lparr>pc_adapter = OpenAi None, pc_model = ''m'', pc_connection_id = None, pc_responses_compact = Some True\<rparr>,
     cn_native_request = Some \<lparr>nr_input = [], nr_instructions = ''be brief''\<rparr>,
     cn_config = default_compaction_config\<lparr>cc_keep_recent_tokens := 1, cc_masking := False\<rparr>,
     cn_reason = ManualCompaction, cn_tokens_before = 10, cn_usable_tokens = 20, cn_focus = None, cn_store = None\<rparr>"

definition demo_compaction_state :: run_state where
  "demo_compaction_state = \<lparr>ru_log = demo_log, ru_pending = [], ru_fs = demo_disk (\<lambda>_. False),
     ru_attempt_sequence = 0, ru_sent = []\<rparr>"

lemma demo_portable_summary: "\<exists>s1. portable_summary demo_compaction_env run prompt s = (Inr ''Goal'', s1)"
proof -
  have "\<exists>s1. provider_request_with_retry_context (summary_retry_env demo_compaction_env run) request s = (Inr demo_summary, s1)" for request
    unfolding provider_request_with_retry_context_def
    by (subst retry_loop.simps)
      (simp add: run_attempt_def Let_def summary_retry_env_def demo_compaction_env_def demo_retry_env_def deliver_reset_def
        initial_loop_state_def answered_def finish_provider_retry_events_def)
  then obtain s1 where "provider_request_with_retry_context (summary_retry_env demo_compaction_env run)
      (summary_request run prompt) s = (Inr demo_summary, s1)" by blast
  moreover have "collect_native_provider_first_round demo_summary = Inr \<lparr>fr_text = ''Goal'', fr_response_id = None,
      fr_tool_calls = [], fr_usage = None, fr_raw_output = None\<rparr>"
    by (simp add: demo_summary_def collect_native_provider_first_round_def collect_event_def empty_round_def Let_def)
  moreover have "trim ''Goal'' \<noteq> []" by code_simp
  ultimately show ?thesis by (simp add: portable_summary_def)
qed

lemma demo_openai_compact:
  "openai_responses_compact demo_post (provider_context_of (\<lambda>s. s) (cn_provider demo_compaction_run)) (Some request)
   = Inr \<lparr>na_version = 1, na_provider = ''openai'', na_wire = ''openai-responses'', na_model = ''m'',
       na_connection = ''endpoint:https://api.openai.com/v1'', na_window = demo_window\<rparr>"
  by (simp add: openai_responses_compact_def provider_context_of_def demo_compaction_run_def demo_post_def
      provider_label_def native_replay_connection_def json_get_def native_window_is_replayable_def demo_window_def
      json_is_object_def json_as_str_def)

lemma demo_compaction:
  "\<exists>r s'. run_compaction demo_compaction_env demo_compaction_run None demo_compaction_state = (Inr NativeApplied, r, s')"
proof -
  let ?env = demo_compaction_env let ?run = demo_compaction_run
  have kind: "compactor_kind_of (cn_config ?run) = Some AutoCompactor"
    by (simp add: demo_compaction_run_def default_compaction_config_def compactor_kind_of_def)
  have selected: "native_compaction_dispatch (Some AutoCompactor)
      (native_supported ?run (provider_context_of (ce_digest ?env) (cn_provider ?run))) = TryNative"
    by (simp add: native_compaction_dispatch_def native_supported_def provider_context_of_def demo_compaction_run_def
        provider_label_def)
  have staging: "stage_masks ?run events = ([], 0, 0, 0)" for events
    by (simp add: stage_masks_def demo_compaction_run_def Let_def)
  have ct: "select_compaction_cut (ru_log demo_compaction_state) (cc_keep_recent_tokens (cn_config ?run)) = Some demo_cut"
    using demo_log_cut by (simp add: demo_compaction_state_def demo_compaction_run_def)
  have found: "\<exists>a s1. native_artifact ?env ?run (provider_context_of (ce_digest ?env) (cn_provider ?run)) True forced s
      = (Some (Some a), s1)" for forced s
    using demo_openai_compact
    by (auto simp: native_artifact_def Let_def demo_compaction_env_def native_request_with_focus_def
        demo_compaction_run_def native_window_is_replayable_def demo_window_def json_is_object_def json_get_def json_as_str_def)
  have written: "\<exists>r s'. write_checkpoint ?env ?run p ct masks st (Some a) d sm replay s = (Inr NativeApplied, r, s')"
    for p ct masks st a d sm replay s
    by (simp add: write_checkpoint_def Let_def commit_log_events_def demo_compaction_run_def)
  have goal: "x = Inr ''Goal''" if "portable_summary ?env ?run prompt s = (x, s2)" for x prompt s s2
    using demo_portable_summary [of ?run prompt s] that by auto
  have enc: "ce_artifact_value ?env a = Some (encode_artifact a)" for a by (simp add: demo_compaction_env_def)
  have "\<exists>r s'. compact_from_cut ?env ?run (provider_context_of (ce_digest ?env) (cn_provider ?run)) True
      ([], 0, 0, 0) demo_cut None s = (Inr NativeApplied, r, s')" for s
  proof -
    obtain a s1 where "native_artifact ?env ?run (provider_context_of (ce_digest ?env) (cn_provider ?run)) True False s
        = (Some (Some a), s1)"
      using found by blast
    then show ?thesis
      by (auto simp: compact_from_cut_def Let_def kind enc dest: goal split: prod.split sum.split intro: written)
  qed
  then show ?thesis using kind selected ct staging
    by (simp add: run_compaction_def Let_def) (simp add: demo_compaction_env_def)
qed

theorem compaction_transactional_witness:
  "\<exists>r s'. run_compaction demo_compaction_env demo_compaction_run None demo_compaction_state = (Inr NativeApplied, Some r, s')
     \<and> native_window_is_replayable (rp_input r) \<and> rp_synced_event_count r = length (ru_log s')"
proof -
  obtain r s' where run: "run_compaction demo_compaction_env demo_compaction_run None demo_compaction_state = (Inr NativeApplied, r, s')"
    using demo_compaction by blast
  show ?thesis using compaction_transactional [OF run refl] run by auto
qed

theorem compaction_context_witness:
  "\<exists>r s' ct sm. run_compaction demo_compaction_env demo_compaction_run None demo_compaction_state = (Inr NativeApplied, r, s')
     \<and> select_compaction_cut demo_log 1 = Some ct \<and> active_start (ru_log s') = cut_kept_start_index ct \<and> trim sm \<noteq> []
     \<and> provider_messages_from_log (\<lambda>_. None) (ru_log s') ''turn-2''
       = provider_messages_from_event_slice (\<lambda>_. None) demo_log (drop (cut_kept_start_index ct) demo_log) ''turn-2'' (Some sm)"
proof -
  obtain r s' where run: "run_compaction demo_compaction_env demo_compaction_run None demo_compaction_state = (Inr NativeApplied, r, s')"
    using demo_compaction by blast
  have "distinct (List.map_filter entry_id_of (ru_log demo_compaction_state))"
    by (simp add: demo_compaction_state_def demo_log_def List.map_filter_def entry_id_of_def)
  moreover have "cc_keep_recent_tokens (cn_config demo_compaction_run) < u64_max" "cc_keep_recent_tokens (cn_config demo_compaction_run) = 1"
      "stage_masks demo_compaction_run events = ([], 0, 0, 0)" "ru_log demo_compaction_state = demo_log" for events
    by (simp_all add: demo_compaction_run_def u64_max_def stage_masks_def Let_def demo_compaction_state_def)
  ultimately show ?thesis using compaction_context [OF run] run by fastforce
qed

lemma native_window_restored_witness:
  "\<exists>r s'. run_compaction demo_compaction_env demo_compaction_run None demo_compaction_state = (Inr NativeApplied, Some r, s')
     \<and> native_replay_from_newest_checkpoint (\<lambda>s. s) decode_artifact (ru_log s') ''s'' (cn_model demo_compaction_run)
         (cn_provider demo_compaction_run) [] = Some (r\<lparr>rp_instructions := instructions_from_messages []\<rparr>)"
proof -
  obtain r s' where run: "run_compaction demo_compaction_env demo_compaction_run None demo_compaction_state = (Inr NativeApplied, r, s')"
    using demo_compaction by blast
  have "r \<noteq> None \<and> native_replay_from_newest_checkpoint (ce_digest demo_compaction_env) decode_artifact (ru_log s' @ [])
      (cn_session_id demo_compaction_run) (cn_model demo_compaction_run) (cn_provider demo_compaction_run) []
    = map_option (\<lambda>r. r\<lparr>rp_instructions := instructions_from_messages []\<rparr>) r"
    by (rule native_window_restored [OF run, where post = demo_post])
      (auto simp: demo_compaction_env_def demo_compaction_run_def decode_encode_artifact)
  then show ?thesis using run by (auto simp: demo_compaction_env_def demo_compaction_run_def)
qed

end
