(* ===== verification/Components.thy ===== *)
theory Components
  imports Prelude "HOL-Library.Word"
begin

text \<open>
  \<^verbatim>\<open>components.rs\<close>: the reference components of the distribution, the presets that select
  them and the set of enabled components, which the source keeps in the bits of a \<open>u8\<close>.
\<close>

unbundle bit_operations_syntax

section \<open>Components and presets\<close>

datatype component_kind = ProjectTools | BaselineGuidance | Hashline | JevReviewer | SkillIndex

definition all_components :: "component_kind list" where
  "all_components = [ProjectTools, BaselineGuidance, Hashline, JevReviewer, SkillIndex]"

fun component_name :: "component_kind \<Rightarrow> string" where
  "component_name ProjectTools = ''project-tools''"
| "component_name BaselineGuidance = ''baseline-guidance''"
| "component_name Hashline = ''hashline''"
| "component_name JevReviewer = ''jev-reviewer''"
| "component_name SkillIndex = ''skill-index''"

definition component_parse :: "string \<Rightarrow> component_kind option" where
  "component_parse name = List.find (\<lambda>c. component_name c = name) all_components"

fun bundled_extension_id :: "component_kind \<Rightarrow> string option" where
  "bundled_extension_id Hashline = Some ''yach.hashline''"
| "bundled_extension_id JevReviewer = Some ''yach.jev-reviewer''"
| "bundled_extension_id _ = None"

definition is_kernel :: "component_kind \<Rightarrow> bool" where
  "is_kernel c \<longleftrightarrow> bundled_extension_id c = None"

fun component_index :: "component_kind \<Rightarrow> nat" where
  "component_index ProjectTools = 0"
| "component_index BaselineGuidance = 1"
| "component_index Hashline = 2"
| "component_index JevReviewer = 3"
| "component_index SkillIndex = 4"

definition component_bit :: "component_kind \<Rightarrow> 8 word" where
  "component_bit c = push_bit (component_index c) 1"

datatype preset = Minimal | Full

fun preset_name :: "preset \<Rightarrow> string" where
  "preset_name Minimal = ''minimal''"
| "preset_name Full = ''full''"

definition preset_parse :: "string \<Rightarrow> preset option" where
  "preset_parse name = List.find (\<lambda>p. preset_name p = name) [Minimal, Full]"

fun preset_components :: "preset \<Rightarrow> component_kind list" where
  "preset_components Minimal = [SkillIndex]"
| "preset_components Full = all_components"

section \<open>Sets of components\<close>

type_synonym component_set = "8 word"

definition full_components :: component_set where
  "full_components = 0b11111"

definition component_enabled :: "component_set \<Rightarrow> component_kind \<Rightarrow> bool" where
  "component_enabled bits c \<longleftrightarrow> bits AND component_bit c \<noteq> 0"

definition with_component :: "component_set \<Rightarrow> component_kind \<Rightarrow> bool \<Rightarrow> component_set" where
  "with_component bits c enabled =
     (if enabled then bits OR component_bit c else bits AND NOT (component_bit c))"

definition from_preset :: "preset \<Rightarrow> component_set" where
  "from_preset p = fold (\<lambda>c bits. with_component bits c True) (preset_components p) 0"

definition project_tools_enabled :: "component_set \<Rightarrow> bool" where
  "project_tools_enabled bits = component_enabled bits ProjectTools"

definition baseline_guidance_enabled :: "component_set \<Rightarrow> bool" where
  "baseline_guidance_enabled bits = component_enabled bits BaselineGuidance"

section \<open>The bits are a set\<close>

lemma component_index_less [simp]: "component_index c < 8"
  by (cases c) simp_all

lemma component_index_inject [simp]: "component_index c = component_index d \<longleftrightarrow> c = d"
  by (cases c; cases d) simp_all

lemma component_bit_iff: "bit (component_bit c) n \<longleftrightarrow> n = component_index c"
  using component_index_less [of c] by (auto simp: component_bit_def bit_exp_iff)

lemma component_enabled_bit: "component_enabled bits c \<longleftrightarrow> bit bits (component_index c)"
proof -
  have "bits AND component_bit c = (if bit bits (component_index c) then component_bit c else 0)"
    by (intro bit_word_eqI) (auto simp: component_bit_iff bit_and_iff)
  moreover have "component_bit c \<noteq> 0" using component_bit_iff [of c "component_index c"] by auto
  ultimately show ?thesis by (simp add: component_enabled_def)
qed

lemma component_enabled_with [simp]:
  "component_enabled (with_component bits c enabled) d \<longleftrightarrow> (if c = d then enabled else component_enabled bits d)"
  by (auto simp: component_enabled_bit with_component_def component_bit_iff bit_or_iff bit_and_iff bit_not_iff)

lemma component_enabled_empty [simp]: "\<not> component_enabled 0 c"
  by (simp add: component_enabled_bit)

lemma component_enabled_fold:
  "component_enabled (fold (\<lambda>c bits. with_component bits c True) cs bits) d \<longleftrightarrow> d \<in> set cs \<or> component_enabled bits d"
  by (induction cs arbitrary: bits) auto

lemma component_parse_name: "component_parse name = Some c \<longleftrightarrow> component_name c = name"
  by (cases c) (auto simp: component_parse_def all_components_def)

lemma preset_exact: "component_enabled (from_preset p) c \<longleftrightarrow> c \<in> set (preset_components p)"
  by (simp add: from_preset_def component_enabled_fold)

lemma full_preset: "from_preset Full = full_components"
  by (simp add: from_preset_def all_components_def with_component_def component_bit_def full_components_def)

end
