(* ===== verification/Tools.thy ===== *)
theory Tools
  imports Provider Shell_Tool Components
begin

text \<open>
  The tools of the agent, \<^verbatim>\<open>tools.rs\<close>: definitions with the schema of their arguments, the
  registry of built-in and extension tools, the allowlist of what a provider may be shown and
  what may run, the catalog a turn resolves with its replacements, what is advertised to a
  provider, and the validation and recording of a call. The text and length of a JSON value
  (\<open>serde_json\<close>) are parameters, as is the encoding of the advertised tools.
\<close>

section \<open>Ordered sets and maps\<close>

text \<open>\<open>BTreeSet<String>\<close> as the list of its elements in order, \<open>serde_json::Map\<close> likewise.\<close>

definition btree_set :: "string list \<Rightarrow> string list" where
  "btree_set xs = sort (remdups xs)"

fun json_map_insert :: "string \<Rightarrow> json \<Rightarrow> (string \<times> json) list \<Rightarrow> (string \<times> json) list" where
  "json_map_insert key v [] = [(key, v)]"
| "json_map_insert key v ((k, w) # kvs) =
     (if key < k then (key, v) # (k, w) # kvs
      else if key = k then (key, v) # kvs
      else (k, w) # json_map_insert key v kvs)"

record json_codec =
  js_to_vec :: "json \<Rightarrow> string option"
  js_display :: "json \<Rightarrow> string"

definition json_is_string :: "json \<Rightarrow> bool" where
  "json_is_string v \<longleftrightarrow> json_as_str v \<noteq> None"

definition json_is_u64 :: "json \<Rightarrow> bool" where
  "json_is_u64 v = (case v of JNumber t \<Rightarrow> parse_u64 t \<noteq> None | _ \<Rightarrow> False)"

section \<open>Definitions of tools\<close>

datatype tool_risk =
    FixtureSafe | ReadsLocalMetadata | ReadsLocalContent | MutatesLocalState | UsesNetwork | RunsProcess

definition is_extension_declarable :: "tool_risk \<Rightarrow> bool" where
  "is_extension_declarable r \<longleftrightarrow>
     r \<in> {ReadsLocalMetadata, ReadsLocalContent, MutatesLocalState, UsesNetwork, RunsProcess}"

datatype tool_owner = BuiltIn | ExtensionOwner string "string option"

definition is_extension_owner :: "tool_owner \<Rightarrow> bool" where
  "is_extension_owner owner = (case owner of ExtensionOwner _ _ \<Rightarrow> True | BuiltIn \<Rightarrow> False)"

datatype provider_tool_visibility = HiddenTool | VisibleTool

record tool_input_schema =
  required_string_fields :: "string list"
  optional_string_fields :: "string list"
  optional_number_fields :: "string list"
  max_serialized_bytes :: nat

definition string_object :: "string list \<Rightarrow> string list \<Rightarrow> nat \<Rightarrow> tool_input_schema" where
  "string_object required optional max_bytes =
     \<lparr>required_string_fields = btree_set required, optional_string_fields = btree_set optional,
      optional_number_fields = [], max_serialized_bytes = max_bytes\<rparr>"

definition with_optional_number_fields :: "tool_input_schema \<Rightarrow> string list \<Rightarrow> tool_input_schema" where
  "with_optional_number_fields schema names = schema\<lparr>optional_number_fields := btree_set names\<rparr>"

fun check_required :: "(string \<times> json) list \<Rightarrow> string list \<Rightarrow> (tool_error, unit) result" where
  "check_required obj [] = Inr ()"
| "check_required obj (name # names) =
     (case map_of obj name of
        None \<Rightarrow> Inl (MissingRequiredField name)
      | Some v \<Rightarrow> if \<not> json_is_string v then Inl (InvalidFieldType name) else check_required obj names)"

fun check_fields :: "tool_input_schema \<Rightarrow> (string \<times> json) list \<Rightarrow> (tool_error, unit) result" where
  "check_fields schema [] = Inr ()"
| "check_fields schema ((name, v) # kvs) =
     (if name \<in> set (optional_number_fields schema)
      then (if \<not> json_is_u64 v then Inl (InvalidFieldType name) else check_fields schema kvs)
      else if name \<notin> set (required_string_fields schema) \<and> name \<notin> set (optional_string_fields schema)
      then Inl (UnexpectedField name)
      else if \<not> json_is_string v then Inl (InvalidFieldType name)
      else check_fields schema kvs)"

definition validate_arguments :: "json_codec \<Rightarrow> tool_input_schema \<Rightarrow> json \<Rightarrow> (tool_error, unit) result" where
  "validate_arguments js schema arguments =
     res_bind (ok_or (js_to_vec js arguments) MalformedArguments) (\<lambda>bytes.
     res_bind (fail_if (length bytes > max_serialized_bytes schema) ArgumentsTooLarge) (\<lambda>_.
       case arguments of
         JObject obj \<Rightarrow> res_bind (check_required obj (required_string_fields schema)) (\<lambda>_. check_fields schema obj)
       | _ \<Rightarrow> Inl MalformedArguments))"

definition provider_string_field_description :: "string \<Rightarrow> string \<Rightarrow> string" where
  "provider_string_field_description tool_name name =
     (if (tool_name, name) = (''project_path_info'', ''path'') then ''Project-relative path to inspect.''
      else if (tool_name, name) = (''read_text_file'', ''path'') then ''Project-relative UTF-8 text file path to read.''
      else if (tool_name, name) = (''search_project'', ''query'')
        then ''Literal text to search for in project UTF-8 files.''
      else if (tool_name, name) = (''list_project_paths'', ''path'') then ''Project-relative directory path to list.''
      else if (tool_name, name) = (''edit_text_file'', ''path'') then ''Project-relative UTF-8 text file path to edit.''
      else if (tool_name, name) = (''edit_text_file'', ''find'') then ''Exact text to replace. The match must be unique.''
      else if (tool_name, name) = (''edit_text_file'', ''replace'') then ''Replacement text.''
      else if (tool_name, name) = (''create_text_file'', ''path'')
        then ''Project-relative UTF-8 text file path to create.''
      else if (tool_name, name) = (''create_text_file'', ''content'') then ''Full content for the new UTF-8 text file.''
      else if (tool_name, name) = (''bash'', ''command'') then ''Shell command line to run with bash -c.''
      else if (tool_name, name) = (''bash'', ''timeout'')
        then ''Optional timeout in milliseconds; clamped to the configured maximum (default 120000).''
      else if (tool_name, name) = (''bash'', ''workdir'')
        then ''Optional project-relative working directory. Use this instead of cd.''
      else name @ '' argument for '' @ tool_name @ ''.'')"

definition schema_property :: "string \<Rightarrow> string \<Rightarrow> string \<Rightarrow> json" where
  "schema_property kind tool_name name =
     JObject [(''description'', JString (provider_string_field_description tool_name name)), (''type'', JString kind)]"

definition to_provider_json_schema :: "tool_input_schema \<Rightarrow> string \<Rightarrow> json" where
  "to_provider_json_schema schema name =
     (let strings = fold (\<lambda>n. json_map_insert n (schema_property ''string'' name n))
            (required_string_fields schema @ optional_string_fields schema) [];
          properties = fold (\<lambda>n. json_map_insert n (schema_property ''number'' name n))
            (optional_number_fields schema) strings
      in JObject [(''additionalProperties'', JBool False), (''properties'', JObject properties),
           (''required'', JArray (map JString (required_string_fields schema))), (''type'', JString ''object'')])"

record tool_definition =
  td_name :: string
  td_description :: string
  td_input_schema :: tool_input_schema
  td_risk :: tool_risk
  td_owner :: tool_owner
  td_visibility :: provider_tool_visibility

definition builtin_tool ::
  "string \<Rightarrow> string \<Rightarrow> tool_input_schema \<Rightarrow> tool_risk \<Rightarrow> provider_tool_visibility \<Rightarrow> tool_definition" where
  "builtin_tool name description schema r visibility =
     \<lparr>td_name = name, td_description = description, td_input_schema = schema, td_risk = r, td_owner = BuiltIn,
      td_visibility = visibility\<rparr>"

definition fixture_echo_metadata :: tool_definition where
  "fixture_echo_metadata = builtin_tool ''fixture_echo_metadata''
     ''Fixture-safe tool that validates metadata arguments only.'' (string_object [''label''] [''note''] 1024)
     FixtureSafe HiddenTool"

definition project_path_info_tool :: tool_definition where
  "project_path_info_tool = builtin_tool ''project_path_info''
     ''Return local-only project path metadata without reading file contents.'' (string_object [''path''] [] 1024)
     ReadsLocalMetadata VisibleTool"

definition read_text_file_tool :: tool_definition where
  "read_text_file_tool = builtin_tool ''read_text_file''
     ''Read a bounded UTF-8 project file through yach-owned resource policy.'' (string_object [''path''] [] 1024)
     ReadsLocalContent VisibleTool"

definition search_project_tool :: tool_definition where
  "search_project_tool = builtin_tool ''search_project''
     ''Search bounded UTF-8 project files for a literal query.'' (string_object [''query''] [] 4096)
     ReadsLocalContent VisibleTool"

definition list_project_paths_tool :: tool_definition where
  "list_project_paths_tool = builtin_tool ''list_project_paths''
     ''List bounded immediate project directory entries without file bodies.'' (string_object [''path''] [] 1024)
     ReadsLocalContent VisibleTool"

definition edit_text_file_tool :: tool_definition where
  "edit_text_file_tool = builtin_tool ''edit_text_file''
     ''Replace exact text in an existing UTF-8 project file. Yach computes the current file hash before applying.''
     (string_object [''path'', ''find'', ''replace''] [] 16384) MutatesLocalState VisibleTool"

definition create_text_file_tool :: tool_definition where
  "create_text_file_tool = builtin_tool ''create_text_file''
     ''Create a new UTF-8 project file. Fails if the target already exists.''
     (string_object [''path'', ''content''] [] 131072) MutatesLocalState VisibleTool"

definition bash_tool :: tool_definition where
  "bash_tool = builtin_tool ''bash''
     (''Run a shell command in the project (bash -c, own process group, per-command ''
      @ ''process: shell state does not persist between calls). Returns bounded merged ''
      @ ''stdout/stderr and the exit code; a nonzero exit is a normal result to reason about. ''
      @ ''Use the workdir parameter instead of cd. Avoid cat/grep/ls/find for project files; ''
      @ ''prefer read_text_file, search_project, and list_project_paths. Commands run after ''
      @ ''user review unless allowlisted in user config or the session is in full-access mode.'')
     (with_optional_number_fields (string_object [''command''] [''workdir''] 16384) [''timeout''])
     RunsProcess VisibleTool"

definition extension_tool_with_version ::
  "string \<Rightarrow> string option \<Rightarrow> string \<Rightarrow> string \<Rightarrow> tool_input_schema \<Rightarrow> tool_risk \<Rightarrow> provider_tool_visibility
   \<Rightarrow> tool_definition" where
  "extension_tool_with_version extension_id version name description schema r visibility =
     \<lparr>td_name = name, td_description = description, td_input_schema = schema, td_risk = r,
      td_owner = ExtensionOwner extension_id version, td_visibility = visibility\<rparr>"

definition PROJECT_TOOL_NAMES :: "string list" where
  "PROJECT_TOOL_NAMES = [''project_path_info'', ''read_text_file'', ''search_project'', ''list_project_paths'',
     ''edit_text_file'', ''create_text_file'']"

definition BUILTIN_TOOL_NAMES :: "string list" where
  "BUILTIN_TOOL_NAMES = [''project_path_info'', ''read_text_file'', ''search_project'', ''list_project_paths'',
     ''edit_text_file'', ''create_text_file'', ''bash'']"

definition project_tool_names :: "component_set \<Rightarrow> string list" where
  "project_tool_names components = (if project_tools_enabled components then PROJECT_TOOL_NAMES else [])"

section \<open>Advertising\<close>

definition PROVIDER_TOOL_ADVERTISING_EXTENSION_KEY :: string where
  "PROVIDER_TOOL_ADVERTISING_EXTENSION_KEY = ''yach.provider_tool_advertising.v1''"

record provider_advertised_tool_schema =
  pat_name :: string
  pat_description :: string
  pat_parameters :: json

type_synonym provider_tool_advertising = "provider_advertised_tool_schema list"

datatype provider_tool_advertising_error =
    AdvertisingMalformed | EmptyTools | DuplicateExtension | DuplicateAdvertisedName string | UnsupportedTool string
  | UnsupportedRisk string tool_risk | UnsupportedSchema string

record advertising_codec =
  adv_to_value :: "provider_tool_advertising \<Rightarrow> json option"
  adv_from_value :: "json \<Rightarrow> provider_tool_advertising option"

definition canonical_tool :: "string \<Rightarrow> tool_definition option" where
  "canonical_tool name =
     (if name = ''project_path_info'' then Some project_path_info_tool
      else if name = ''read_text_file'' then Some read_text_file_tool
      else if name = ''search_project'' then Some search_project_tool
      else if name = ''list_project_paths'' then Some list_project_paths_tool
      else if name = ''edit_text_file'' then Some edit_text_file_tool
      else if name = ''create_text_file'' then Some create_text_file_tool
      else None)"

definition is_canonical_builtin_provider_tool :: "tool_definition \<Rightarrow> bool" where
  "is_canonical_builtin_provider_tool tool =
     (case (if td_name tool = ''bash'' then Some bash_tool else canonical_tool (td_name tool)) of
        Some canonical \<Rightarrow> td_risk tool = td_risk canonical \<and> td_description tool = td_description canonical
          \<and> td_input_schema tool = td_input_schema canonical
      | None \<Rightarrow> False)"

definition builtin_risk :: "string \<Rightarrow> tool_risk option" where
  "builtin_risk name =
     (if name = ''project_path_info'' then Some ReadsLocalMetadata
      else if name = ''read_text_file'' \<or> name = ''search_project'' \<or> name = ''list_project_paths''
        then Some ReadsLocalContent
      else if name = ''edit_text_file'' \<or> name = ''create_text_file'' then Some MutatesLocalState
      else if name = ''bash'' then Some RunsProcess
      else None)"

definition project_provider_advertised_tool ::
  "tool_definition \<Rightarrow> (provider_tool_advertising_error, provider_advertised_tool_schema) result" where
  "project_provider_advertised_tool tool =
     res_bind (fail_if (td_visibility tool \<noteq> VisibleTool) (UnsupportedTool (td_name tool))) (\<lambda>_.
     res_bind
       (if td_owner tool = BuiltIn then
          (case builtin_risk (td_name tool) of
             None \<Rightarrow> Inl (UnsupportedTool (td_name tool))
           | Some r \<Rightarrow>
               if td_risk tool \<noteq> r then Inl (UnsupportedRisk (td_name tool) (td_risk tool))
               else fail_if (\<not> is_canonical_builtin_provider_tool tool) (UnsupportedSchema (td_name tool)))
        else fail_if (\<not> is_extension_declarable (td_risk tool)) (UnsupportedRisk (td_name tool) (td_risk tool))) (\<lambda>_.
       Inr \<lparr>pat_name = td_name tool, pat_description = td_description tool,
            pat_parameters = to_provider_json_schema (td_input_schema tool) (td_name tool)\<rparr>))"

definition is_provider_advertising_routable :: "tool_definition \<Rightarrow> bool" where
  "is_provider_advertising_routable tool = (case project_provider_advertised_tool tool of Inr _ \<Rightarrow> True | Inl _ \<Rightarrow> False)"

definition validate_unique_tool_name ::
  "string set \<Rightarrow> string \<Rightarrow> (provider_tool_advertising_error, string set) result" where
  "validate_unique_tool_name names name =
     (if name \<in> names then Inl (DuplicateAdvertisedName name) else Inr (insert name names))"

fun advertise_tools ::
  "string set \<Rightarrow> tool_definition list \<Rightarrow> (provider_tool_advertising_error, provider_tool_advertising) result" where
  "advertise_tools names [] = Inr []"
| "advertise_tools names (tool # tools) =
     res_bind (validate_unique_tool_name names (td_name tool)) (\<lambda>names'.
     res_bind (project_provider_advertised_tool tool) (\<lambda>advertised.
     res_bind (advertise_tools names' tools) (\<lambda>rest. Inr (advertised # rest))))"

definition build_provider_tool_advertising_extension ::
  "advertising_codec \<Rightarrow> tool_definition list \<Rightarrow> (provider_tool_advertising_error, string \<times> json) result" where
  "build_provider_tool_advertising_extension codec tools =
     res_bind (fail_if (tools = []) EmptyTools) (\<lambda>_.
     res_bind (advertise_tools {} tools) (\<lambda>advertised.
     res_bind (ok_or (adv_to_value codec advertised) AdvertisingMalformed) (\<lambda>v.
       Inr (PROVIDER_TOOL_ADVERTISING_EXTENSION_KEY, v))))"

definition advertised_roster_bytes ::
  "advertising_codec \<Rightarrow> json_codec \<Rightarrow> tool_definition list \<Rightarrow> (provider_tool_advertising_error, nat) result" where
  "advertised_roster_bytes codec js tools =
     res_bind (build_provider_tool_advertising_extension codec tools) (\<lambda>ext.
     res_bind (ok_or (js_to_vec js (snd ext)) AdvertisingMalformed) (\<lambda>bytes. Inr (length bytes)))"

definition has_exact_keys :: "string list \<Rightarrow> (string \<times> json) list \<Rightarrow> bool" where
  "has_exact_keys names obj \<longleftrightarrow> length obj = length names \<and> list_all (\<lambda>key. map_of obj key \<noteq> None) names"

definition property_schema_ok :: "json \<Rightarrow> bool" where
  "property_schema_ok v =
     (case v of
        JObject obj \<Rightarrow> has_exact_keys [''description'', ''type''] obj
          \<and> (case Option.bind (map_of obj ''type'') json_as_str of
               Some t \<Rightarrow> t = ''string'' \<or> t = ''number'' | None \<Rightarrow> False)
          \<and> Option.bind (map_of obj ''description'') json_as_str \<noteq> None
      | _ \<Rightarrow> False)"

fun required_fields_ok :: "(string \<times> json) list \<Rightarrow> string set \<Rightarrow> json list \<Rightarrow> bool" where
  "required_fields_ok properties seen [] = True"
| "required_fields_ok properties seen (v # vs) =
     (case json_as_str v of
        None \<Rightarrow> False
      | Some name \<Rightarrow> name \<notin> seen \<and> map_of properties name \<noteq> None
          \<and> required_fields_ok properties (insert name seen) vs)"

definition schema_structure_ok :: "json \<Rightarrow> bool" where
  "schema_structure_ok v =
     (case v of
        JObject parameters \<Rightarrow>
          has_exact_keys [''additionalProperties'', ''properties'', ''required'', ''type''] parameters
          \<and> Option.bind (map_of parameters ''type'') json_as_str = Some ''object''
          \<and> (case map_of parameters ''properties'' of
               Some (JObject properties) \<Rightarrow>
                 list_all property_schema_ok (map snd properties)
                 \<and> (case map_of parameters ''required'' of
                      Some (JArray required) \<Rightarrow> required_fields_ok properties {} required
                    | _ \<Rightarrow> False)
             | _ \<Rightarrow> False)
          \<and> map_of parameters ''additionalProperties'' = Some (JBool False)
      | _ \<Rightarrow> False)"

definition validate_provider_advertised_tool_schema ::
  "bool \<Rightarrow> provider_advertised_tool_schema \<Rightarrow> (provider_tool_advertising_error, unit) result" where
  "validate_provider_advertised_tool_schema allow_replacement_contracts tool =
     res_bind (fail_if (\<not> schema_structure_ok (pat_parameters tool)) (UnsupportedSchema (pat_name tool))) (\<lambda>_.
       if allow_replacement_contracts then Inr ()
       else (case canonical_tool (pat_name tool) of
           Some canonical \<Rightarrow> fail_if (pat_description tool \<noteq> td_description canonical
               \<or> pat_parameters tool \<noteq> to_provider_json_schema (td_input_schema canonical) (td_name canonical))
             (UnsupportedSchema (pat_name tool))
         | None \<Rightarrow> Inr ()))"

fun validate_advertised_tools ::
  "bool \<Rightarrow> string set \<Rightarrow> provider_tool_advertising \<Rightarrow> (provider_tool_advertising_error, unit) result" where
  "validate_advertised_tools relaxed names [] = Inr ()"
| "validate_advertised_tools relaxed names (tool # tools) =
     res_bind (validate_unique_tool_name names (pat_name tool)) (\<lambda>names'.
     res_bind (validate_provider_advertised_tool_schema relaxed tool) (\<lambda>_.
       validate_advertised_tools relaxed names' tools))"

definition validate_provider_tool_advertising ::
  "bool \<Rightarrow> provider_tool_advertising \<Rightarrow> (provider_tool_advertising_error, unit) result" where
  "validate_provider_tool_advertising relaxed tools =
     res_bind (fail_if (tools = []) EmptyTools) (\<lambda>_. validate_advertised_tools relaxed {} tools)"

fun parse_advertising ::
  "advertising_codec \<Rightarrow> bool \<Rightarrow> provider_tool_advertising option \<Rightarrow> (string \<times> json) list
   \<Rightarrow> (provider_tool_advertising_error, provider_tool_advertising option) result" where
  "parse_advertising codec relaxed parsed [] = Inr parsed"
| "parse_advertising codec relaxed parsed ((key, v) # exts) =
     (if key \<noteq> PROVIDER_TOOL_ADVERTISING_EXTENSION_KEY then parse_advertising codec relaxed parsed exts
      else if parsed \<noteq> None then Inl DuplicateExtension
      else res_bind (ok_or (adv_from_value codec v) AdvertisingMalformed) (\<lambda>advertising.
           res_bind (validate_provider_tool_advertising relaxed advertising) (\<lambda>_.
             parse_advertising codec relaxed (Some advertising) exts)))"

definition parse_provider_tool_advertising_extensions ::
  "advertising_codec \<Rightarrow> (string \<times> json) list
   \<Rightarrow> (provider_tool_advertising_error, provider_tool_advertising option) result" where
  "parse_provider_tool_advertising_extensions codec exts = parse_advertising codec False None exts"

definition parse_with_approved_contracts ::
  "advertising_codec \<Rightarrow> (string \<times> json) list
   \<Rightarrow> (provider_tool_advertising_error, provider_tool_advertising option) result" where
  "parse_with_approved_contracts codec exts = parse_advertising codec True None exts"

definition strip_provider_tool_advertising_extensions :: "(string \<times> json) list \<Rightarrow> (string \<times> json) list" where
  "strip_provider_tool_advertising_extensions exts =
     filter (\<lambda>e. fst e \<noteq> PROVIDER_TOOL_ADVERTISING_EXTENSION_KEY) exts"

section \<open>Permission\<close>

record tool_permission_policy =
  fixture_execution :: "string set"
  metadata_advertising :: "string set"
  content_advertising :: "string set"
  agent_edit_advertising :: "string set"
  process_execution :: "string set"
  network_execution :: "string set"

definition deny_all :: tool_permission_policy where
  "deny_all = \<lparr>fixture_execution = {}, metadata_advertising = {}, content_advertising = {},
     agent_edit_advertising = {}, process_execution = {}, network_execution = {}\<rparr>"

definition allow_fixture_tool :: "string \<Rightarrow> tool_permission_policy" where
  "allow_fixture_tool name = deny_all\<lparr>fixture_execution := {name}\<rparr>"

definition allow_project_metadata_tools :: "string list \<Rightarrow> tool_permission_policy" where
  "allow_project_metadata_tools names = deny_all\<lparr>metadata_advertising := set names\<rparr>"

definition allow_project_metadata_and_agent_edit_tools :: "string list \<Rightarrow> string list \<Rightarrow> tool_permission_policy" where
  "allow_project_metadata_and_agent_edit_tools metadata_names edit_names =
     deny_all\<lparr>metadata_advertising := set metadata_names, agent_edit_advertising := set edit_names\<rparr>"

definition allow_project_metadata_content_and_agent_edit_tools ::
  "string list \<Rightarrow> string list \<Rightarrow> string list \<Rightarrow> tool_permission_policy" where
  "allow_project_metadata_content_and_agent_edit_tools metadata_names content_names edit_names =
     deny_all\<lparr>metadata_advertising := set metadata_names, content_advertising := set content_names,
       agent_edit_advertising := set edit_names\<rparr>"

definition with_process_tools :: "tool_permission_policy \<Rightarrow> string list \<Rightarrow> tool_permission_policy" where
  "with_process_tools policy names = policy\<lparr>process_execution := set names\<rparr>"

definition with_network_execution :: "tool_permission_policy \<Rightarrow> string list \<Rightarrow> tool_permission_policy" where
  "with_network_execution policy names = policy\<lparr>network_execution := set names\<rparr>"

definition authorize :: "tool_permission_policy \<Rightarrow> tool_definition \<Rightarrow> tool_permission_state" where
  "authorize policy tool =
     (if (case td_risk tool of
            FixtureSafe \<Rightarrow> td_name tool \<in> fixture_execution policy
          | ReadsLocalMetadata \<Rightarrow> td_name tool \<in> metadata_advertising policy
          | ReadsLocalContent \<Rightarrow> td_name tool \<in> content_advertising policy
          | RunsProcess \<Rightarrow> td_name tool \<in> process_execution policy
          | UsesNetwork \<Rightarrow> td_name tool \<in> network_execution policy
          | MutatesLocalState \<Rightarrow> False)
      then ToolAllowed else ToolDenied)"

definition allows_provider_advertising :: "tool_permission_policy \<Rightarrow> tool_definition \<Rightarrow> bool" where
  "allows_provider_advertising policy tool =
     (case td_risk tool of
        ReadsLocalMetadata \<Rightarrow> td_name tool \<in> metadata_advertising policy
      | ReadsLocalContent \<Rightarrow> td_name tool \<in> content_advertising policy
      | MutatesLocalState \<Rightarrow> td_name tool \<in> agent_edit_advertising policy
      | RunsProcess \<Rightarrow> td_name tool \<in> process_execution policy
      | UsesNetwork \<Rightarrow> td_name tool \<in> network_execution policy
      | FixtureSafe \<Rightarrow> False)"

section \<open>The registry\<close>

type_synonym tool_registry = "tool_definition list"

datatype tool_registration_error =
    DuplicateToolName string | UnsupportedOwner string | UnsupportedToolRisk string tool_risk

definition with_fixture_tools :: tool_registry where
  "with_fixture_tools = [fixture_echo_metadata]"

definition with_project_read_only_tools :: tool_registry where
  "with_project_read_only_tools =
     [project_path_info_tool, read_text_file_tool, search_project_tool, list_project_paths_tool]"

definition with_agent_edit_tools :: tool_registry where
  "with_agent_edit_tools = [edit_text_file_tool, create_text_file_tool]"

definition with_project_read_only_and_agent_edit_tools :: tool_registry where
  "with_project_read_only_and_agent_edit_tools =
     [project_path_info_tool, read_text_file_tool, search_project_tool, list_project_paths_tool,
      edit_text_file_tool, create_text_file_tool, bash_tool]"

definition registry_for_components :: "component_set \<Rightarrow> tool_registry" where
  "registry_for_components components =
     (if project_tools_enabled components then with_project_read_only_and_agent_edit_tools else [bash_tool])"

definition registry_get :: "tool_registry \<Rightarrow> string \<Rightarrow> tool_definition option" where
  "registry_get registry name = List.find (\<lambda>d. td_name d = name) registry"

definition extension_tool_rejection :: "tool_registry \<Rightarrow> tool_definition \<Rightarrow> tool_registration_error option" where
  "extension_tool_rejection registry tool =
     (if td_name tool \<in> set BUILTIN_TOOL_NAMES \<or> registry_get registry (td_name tool) \<noteq> None
      then Some (DuplicateToolName (td_name tool))
      else if \<not> is_extension_owner (td_owner tool) then Some (UnsupportedOwner (td_name tool))
      else if \<not> is_extension_declarable (td_risk tool) then Some (UnsupportedToolRisk (td_name tool) (td_risk tool))
      else None)"

definition register_extension_tool ::
  "tool_definition \<Rightarrow> tool_registry \<Rightarrow> (tool_registration_error, unit) result \<times> tool_registry" where
  "register_extension_tool tool registry =
     (case extension_tool_rejection registry tool of
        Some e \<Rightarrow> (Inl e, registry)
      | None \<Rightarrow> (Inr (), registry @ [tool]))"

definition owned_by :: "string \<Rightarrow> tool_definition \<Rightarrow> bool" where
  "owned_by extension_id tool = (case td_owner tool of ExtensionOwner owner _ \<Rightarrow> owner = extension_id | BuiltIn \<Rightarrow> False)"

definition remove_extension_tools :: "string \<Rightarrow> tool_registry \<Rightarrow> string list \<times> tool_registry" where
  "remove_extension_tools extension_id registry =
     (map td_name (filter (owned_by extension_id) registry), filter (\<lambda>d. \<not> owned_by extension_id d) registry)"

section \<open>The catalog of a turn\<close>

datatype tool_provenance =
    BuiltInProvenance | ExtensionProvenance string string | ReplacementProvenance string string string string

record resolved_tool =
  rt_provider_name :: string
  rt_implementation_name :: string
  rt_definition :: tool_definition
  rt_provenance :: tool_provenance

type_synonym resolved_catalog = "resolved_tool list"

definition provider_definitions :: "resolved_catalog \<Rightarrow> tool_definition list" where
  "provider_definitions catalog = map (\<lambda>t. (rt_definition t)\<lparr>td_name := rt_provider_name t\<rparr>) catalog"

definition resolved_tool_named :: "resolved_catalog \<Rightarrow> string \<Rightarrow> resolved_tool option" where
  "resolved_tool_named catalog name = List.find (\<lambda>t. rt_provider_name t = name) catalog"

definition implementation_name_for_provider_tool :: "resolved_catalog \<Rightarrow> string \<Rightarrow> string option" where
  "implementation_name_for_provider_tool catalog name =
     map_option rt_implementation_name (List.find (\<lambda>t. rt_provider_name t = name) catalog)"

definition tool_extension_version :: "tool_definition \<Rightarrow> string" where
  "tool_extension_version tool =
     (case td_owner tool of ExtensionOwner _ (Some version) \<Rightarrow> version | _ \<Rightarrow> ''unknown'')"

definition tool_provenance_of :: "tool_definition \<Rightarrow> tool_provenance" where
  "tool_provenance_of tool =
     (case td_owner tool of
        BuiltIn \<Rightarrow> BuiltInProvenance
      | ExtensionOwner extension_id version \<Rightarrow>
          ExtensionProvenance extension_id (case version of Some v \<Rightarrow> v | None \<Rightarrow> ''unknown''))"

definition resolved_as_is :: "tool_definition \<Rightarrow> resolved_tool" where
  "resolved_as_is tool =
     \<lparr>rt_provider_name = td_name tool, rt_implementation_name = td_name tool, rt_definition = tool,
      rt_provenance = tool_provenance_of tool\<rparr>"

definition advertisable :: "tool_permission_policy \<Rightarrow> string set \<Rightarrow> tool_definition \<Rightarrow> bool" where
  "advertisable policy executable tool \<longleftrightarrow>
     td_visibility tool = VisibleTool \<and> allows_provider_advertising policy tool
     \<and> td_name tool \<in> executable \<and> is_provider_advertising_routable tool"

definition resolve_provider_turn_catalog ::
  "tool_registry \<Rightarrow> tool_permission_policy \<Rightarrow> string list \<Rightarrow> resolved_catalog" where
  "resolve_provider_turn_catalog registry policy executable =
     map resolved_as_is (filter (advertisable policy (set executable)) registry)"

definition provider_advertising_candidates ::
  "tool_registry \<Rightarrow> tool_permission_policy \<Rightarrow> string list \<Rightarrow> tool_definition list" where
  "provider_advertising_candidates registry policy routable =
     provider_definitions (resolve_provider_turn_catalog registry policy routable)"

section \<open>Replacements\<close>

datatype tool_resolution_mode =
    DenyTool | AliasOnly | ReplaceBuiltin | ReplaceBuiltinWithExtensionContract | DisableBuiltin

datatype tool_replacement_source = UserSource | ProfileSource | ProjectSource bool | EphemeralSource

fun source_label :: "tool_replacement_source \<Rightarrow> string" where
  "source_label UserSource = ''user''"
| "source_label ProfileSource = ''profile''"
| "source_label (ProjectSource _) = ''project''"
| "source_label EphemeralSource = ''ephemeral''"

definition source_trusted :: "tool_replacement_source \<Rightarrow> bool" where
  "source_trusted src \<longleftrightarrow> src \<noteq> ProjectSource False"

record tool_replacement_rule =
  rr_builtin_name :: string
  rr_extension_id :: string
  rr_extension_tool :: string
  rr_mode :: tool_resolution_mode
  rr_source :: tool_replacement_source

datatype tool_resolution_error =
    MissingBuiltIn string | MissingExtensionTool string | ExtensionIdMismatch string string
  | ReplacementLowersRisk string tool_risk string tool_risk | ReplacementSchemaMismatch string string
  | UntrustedProjectReplacement string

definition builtin_definition :: "tool_registry \<Rightarrow> string \<Rightarrow> (tool_resolution_error, tool_definition) result" where
  "builtin_definition registry name =
     res_bind (ok_or (registry_get registry name) (MissingBuiltIn name)) (\<lambda>d.
     res_bind (fail_if (td_owner d \<noteq> BuiltIn) (MissingBuiltIn name)) (\<lambda>_. Inr d))"

definition extension_definition ::
  "tool_registry \<Rightarrow> tool_replacement_rule \<Rightarrow> (tool_resolution_error, tool_definition) result" where
  "extension_definition registry rule =
     res_bind (ok_or (registry_get registry (rr_extension_tool rule)) (MissingExtensionTool (rr_extension_tool rule))) (\<lambda>d.
       case td_owner d of
         BuiltIn \<Rightarrow> Inl (MissingExtensionTool (rr_extension_tool rule))
       | ExtensionOwner extension_id _ \<Rightarrow>
           if extension_id \<noteq> rr_extension_id rule then Inl (ExtensionIdMismatch (rr_extension_id rule) extension_id)
           else Inr d)"

definition validate_replacement_rule_source :: "tool_replacement_rule \<Rightarrow> (tool_resolution_error, unit) result" where
  "validate_replacement_rule_source rule =
     (if source_trusted (rr_source rule) then Inr () else Inl (UntrustedProjectReplacement (rr_builtin_name rule)))"

definition validate_replacement_shape ::
  "tool_definition \<Rightarrow> tool_definition \<Rightarrow> tool_replacement_rule \<Rightarrow> (tool_resolution_error, unit) result" where
  "validate_replacement_shape builtin extension rule =
     res_bind (fail_if (td_risk builtin \<noteq> td_risk extension)
       (ReplacementLowersRisk (td_name builtin) (td_risk builtin) (td_name extension) (td_risk extension))) (\<lambda>_.
     fail_if (td_input_schema builtin \<noteq> td_input_schema extension)
       (ReplacementSchemaMismatch (td_name builtin) (rr_extension_tool rule)))"

text \<open>The sets and the list the loop over the rules builds.\<close>

record replacement_state =
  rs_disabled :: "string set"
  rs_replaced :: "string set"
  rs_implementations :: "string set"
  rs_denied :: "string set"
  rs_tools :: "resolved_tool list"

definition replace_builtin ::
  "tool_registry \<Rightarrow> tool_permission_policy \<Rightarrow> string set \<Rightarrow> tool_replacement_rule \<Rightarrow> replacement_state
   \<Rightarrow> (tool_resolution_error, replacement_state) result" where
  "replace_builtin registry policy executable rule st =
     res_bind (builtin_definition registry (rr_builtin_name rule)) (\<lambda>builtin.
     res_bind (extension_definition registry rule) (\<lambda>extension.
     res_bind
       (if rr_mode rule = ReplaceBuiltin then validate_replacement_shape builtin extension rule
        else fail_if (td_risk builtin \<noteq> td_risk extension)
          (ReplacementLowersRisk (td_name builtin) (td_risk builtin) (td_name extension) (td_risk extension))) (\<lambda>_.
       let shown = (if rr_mode rule = ReplaceBuiltinWithExtensionContract then extension else builtin)
             \<lparr>td_name := td_name builtin\<rparr>
       in if td_name extension \<in> executable \<and> allows_provider_advertising policy shown
             \<and> is_provider_advertising_routable shown
          then Inr (st\<lparr>rs_replaced := insert (td_name builtin) (rs_replaced st),
             rs_implementations := insert (td_name extension) (rs_implementations st),
             rs_tools := rs_tools st @ [\<lparr>rt_provider_name = td_name builtin,
               rt_implementation_name = td_name extension, rt_definition = shown,
               rt_provenance = ReplacementProvenance (rr_extension_id rule) (tool_extension_version extension)
                 (td_name builtin) (source_label (rr_source rule))\<rparr>]\<rparr>)
          else Inr st)))"

definition apply_replacement_rule ::
  "tool_registry \<Rightarrow> tool_permission_policy \<Rightarrow> string set \<Rightarrow> tool_replacement_rule \<Rightarrow> replacement_state
   \<Rightarrow> (tool_resolution_error, replacement_state) result" where
  "apply_replacement_rule registry policy executable rule st =
     res_bind (validate_replacement_rule_source rule) (\<lambda>_.
       case rr_mode rule of
         DenyTool \<Rightarrow> Inr (st\<lparr>rs_denied := insert (rr_extension_tool rule) (rs_denied st)\<rparr>)
       | AliasOnly \<Rightarrow> Inr st
       | DisableBuiltin \<Rightarrow> res_bind (builtin_definition registry (rr_builtin_name rule)) (\<lambda>builtin.
           Inr (st\<lparr>rs_disabled := insert (td_name builtin) (rs_disabled st)\<rparr>))
       | _ \<Rightarrow> replace_builtin registry policy executable rule st)"

fun apply_replacement_rules ::
  "tool_registry \<Rightarrow> tool_permission_policy \<Rightarrow> string set \<Rightarrow> tool_replacement_rule list \<Rightarrow> replacement_state
   \<Rightarrow> (tool_resolution_error, replacement_state) result" where
  "apply_replacement_rules registry policy executable [] st = Inr st"
| "apply_replacement_rules registry policy executable (rule # rules) st =
     res_bind (apply_replacement_rule registry policy executable rule st)
       (apply_replacement_rules registry policy executable rules)"

definition kept_after_replacement :: "replacement_state \<Rightarrow> tool_definition \<Rightarrow> bool" where
  "kept_after_replacement st tool \<longleftrightarrow>
     \<not> (td_owner tool = BuiltIn \<and> (td_name tool \<in> rs_disabled st \<or> td_name tool \<in> rs_replaced st))
     \<and> \<not> (is_extension_owner (td_owner tool) \<and> (td_name tool \<in> rs_denied st \<or> td_name tool \<in> rs_implementations st))"

definition no_replacements :: replacement_state where
  "no_replacements = \<lparr>rs_disabled = {}, rs_replaced = {}, rs_implementations = {}, rs_denied = {}, rs_tools = []\<rparr>"

definition resolve_provider_turn_catalog_with_replacements ::
  "tool_registry \<Rightarrow> tool_permission_policy \<Rightarrow> string list \<Rightarrow> tool_replacement_rule list
   \<Rightarrow> (tool_resolution_error, resolved_catalog) result" where
  "resolve_provider_turn_catalog_with_replacements registry policy executable rules =
     res_bind (apply_replacement_rules registry policy (set executable) rules no_replacements) (\<lambda>st.
       Inr (sort_key rt_provider_name
         (map resolved_as_is
            (filter (\<lambda>d. kept_after_replacement st d \<and> advertisable policy (set executable) d) registry)
          @ rs_tools st)))"

section \<open>Calls\<close>

record pending_tool_request =
  tr_request_id :: string
  tr_turn_id :: string
  tr_tool_name :: string
  tr_provider_call_id :: "string option"
  tr_arguments :: json

record tool_validation =
  tv_request_id :: string
  tv_tool_name :: string
  tv_permission :: tool_permission_state

definition pending_tool_request_from_provider_call ::
  "string \<Rightarrow> string \<Rightarrow> provider_tool_call \<Rightarrow> pending_tool_request" where
  "pending_tool_request_from_provider_call rid turn call =
     \<lparr>tr_request_id = rid, tr_turn_id = turn, tr_tool_name = ptc_name call,
      tr_provider_call_id = Some (ptc_call_id call), tr_arguments = ptc_arguments call\<rparr>"

definition validate_request_schema_only ::
  "json_codec \<Rightarrow> tool_registry \<Rightarrow> pending_tool_request \<Rightarrow> (tool_error, tool_definition) result" where
  "validate_request_schema_only js registry req =
     res_bind (ok_or (registry_get registry (tr_tool_name req)) UnknownTool) (\<lambda>d.
     res_bind (validate_arguments js (td_input_schema d) (tr_arguments req)) (\<lambda>_. Inr d))"

definition validation_with :: "pending_tool_request \<Rightarrow> tool_permission_state \<Rightarrow> (tool_error, tool_validation) result" where
  "validation_with req permission =
     (if permission = ToolDenied then Inl ToolPermissionDenied
      else Inr \<lparr>tv_request_id = tr_request_id req, tv_tool_name = tr_tool_name req, tv_permission = permission\<rparr>)"

definition validate_request ::
  "json_codec \<Rightarrow> tool_registry \<Rightarrow> pending_tool_request \<Rightarrow> tool_permission_policy
   \<Rightarrow> (tool_error, tool_validation) result" where
  "validate_request js registry req policy =
     res_bind (ok_or (registry_get registry (tr_tool_name req)) UnknownTool) (\<lambda>d.
     res_bind (validate_arguments js (td_input_schema d) (tr_arguments req)) (\<lambda>_.
       validation_with req (authorize policy d)))"

fun tool_error_label :: "tool_error \<Rightarrow> string" where
  "tool_error_label UnknownTool = ''unknown_tool''"
| "tool_error_label MalformedArguments = ''malformed_arguments''"
| "tool_error_label ArgumentsTooLarge = ''arguments_too_large''"
| "tool_error_label (MissingRequiredField _) = ''missing_required_field''"
| "tool_error_label (InvalidFieldType _) = ''invalid_field_type''"
| "tool_error_label (UnexpectedField _) = ''unexpected_field''"
| "tool_error_label ToolPermissionDenied = ''permission_denied''"

definition summarize_tool_payload :: "json_codec \<Rightarrow> json \<Rightarrow> tool_payload_summary" where
  "summarize_tool_payload js v =
     \<lparr>tp_summary = ''tool payload redacted'',
      tp_byte_count = (case js_to_vec js v of Some bytes \<Rightarrow> length bytes | None \<Rightarrow> 0),
      tp_redacted = True, tp_truncated = False\<rparr>"

definition resolved_tool_provenance_summary :: "resolved_tool \<Rightarrow> string option" where
  "resolved_tool_provenance_summary tool =
     (case rt_provenance tool of
        BuiltInProvenance \<Rightarrow> None
      | ExtensionProvenance extension_id version \<Rightarrow>
          Some (''resolved_tool=extension extension_id='' @ extension_id @ '' extension_version='' @ version
            @ '' implementation='' @ rt_implementation_name tool)
      | ReplacementProvenance extension_id version replaced src \<Rightarrow>
          Some (''resolved_tool=extension_replacement extension_id='' @ extension_id @ '' extension_version='' @ version
            @ '' provider_name='' @ rt_provider_name tool @ '' implementation='' @ rt_implementation_name tool
            @ '' replaced_builtin='' @ replaced @ '' replacement_source='' @ src))"

definition record_tool_validation_result ::
  "json_codec \<Rightarrow> string \<Rightarrow> pending_tool_request \<Rightarrow> tool_payload_summary \<Rightarrow> (tool_error, tool_validation) result
   \<Rightarrow> session_event list" where
  "record_tool_validation_result js session req payload validation =
     (let permission = (case validation of Inr v \<Rightarrow> tv_permission v | Inl _ \<Rightarrow> ToolDenied)
      in ToolRequestRecorded session (tr_turn_id req) (tr_request_id req) (tr_tool_name req) (tr_provider_call_id req)
           (case validation of Inr _ \<Rightarrow> Inr () | Inl e \<Rightarrow> Inl e) permission payload
           (case validation of Inr _ \<Rightarrow> Some (js_display js (tr_arguments req)) | Inl _ \<Rightarrow> None)
         # (case validation of
              Inr _ \<Rightarrow> []
            | Inl e \<Rightarrow> [ToolExecutionFinished session (tr_turn_id req) (tr_request_id req)
                (if e = ToolPermissionDenied then DeniedOutcome else ValidationFailed)
                (Some (tool_error_label e)) None None None None]))"

definition record_native_tool_validation ::
  "json_codec \<Rightarrow> string \<Rightarrow> pending_tool_request \<Rightarrow> tool_registry \<Rightarrow> tool_permission_policy \<Rightarrow> session_event list
   \<Rightarrow> (tool_error, tool_validation) result \<times> session_event list" where
  "record_native_tool_validation js session req registry policy events =
     (let validation = validate_request js registry req policy
      in (validation, events @ record_tool_validation_result js session req
            (summarize_tool_payload js (tr_arguments req)) validation))"

definition resolved_permission :: "tool_permission_policy \<Rightarrow> resolved_tool \<Rightarrow> tool_permission_state" where
  "resolved_permission policy tool =
     (if td_risk (rt_definition tool) = MutatesLocalState \<and> rt_provenance tool \<noteq> BuiltInProvenance
         \<and> allows_provider_advertising policy (rt_definition tool)
      then ToolAllowed else authorize policy (rt_definition tool))"

definition validate_resolved ::
  "json_codec \<Rightarrow> pending_tool_request \<Rightarrow> tool_permission_policy \<Rightarrow> resolved_catalog
   \<Rightarrow> (tool_error, tool_validation) result" where
  "validate_resolved js req policy catalog =
     res_bind (ok_or (resolved_tool_named catalog (tr_tool_name req)) UnknownTool) (\<lambda>tool.
     res_bind (validate_arguments js (td_input_schema (rt_definition tool)) (tr_arguments req)) (\<lambda>_.
       validation_with req (resolved_permission policy tool)))"

definition resolved_summary_of ::
  "json_codec \<Rightarrow> pending_tool_request \<Rightarrow> resolved_catalog \<Rightarrow> tool_payload_summary" where
  "resolved_summary_of js req catalog =
     (let s = summarize_tool_payload js (tr_arguments req)
      in case Option.bind (resolved_tool_named catalog (tr_tool_name req)) resolved_tool_provenance_summary of
           None \<Rightarrow> s
         | Some provenance \<Rightarrow> s\<lparr>tp_summary := tp_summary s @ ''; '' @ provenance\<rparr>)"

definition record_native_tool_validation_with_resolved_catalog ::
  "json_codec \<Rightarrow> string \<Rightarrow> pending_tool_request \<Rightarrow> tool_permission_policy \<Rightarrow> resolved_catalog \<Rightarrow> session_event list
   \<Rightarrow> (tool_error, tool_validation) result \<times> session_event list" where
  "record_native_tool_validation_with_resolved_catalog js session req policy catalog events =
     (let validation = validate_resolved js req policy catalog
      in (validation, events @ record_tool_validation_result js session req
            (resolved_summary_of js req catalog) validation))"

end
