(* ===== verification/Resource_Search.thy ===== *)
theory Resource_Search
  imports Resource Session "HOL-Library.Char_ord" "HOL-Library.List_Lexorder"
begin

text \<open>
  Directory listing, path metadata and text search of \<^verbatim>\<open>resource.rs\<close>. What the operating
  system lists of a directory is a parameter: \<open>read_dir\<close> gives the names in any order, or
  nothing when the call fails. The search descends into directories, so it takes fuel, one
  unit for each level; \<open>search_text_returns\<close> shows how much is enough.
\<close>

section \<open>Data\<close>

type_synonym read_dir = "spath \<Rightarrow> string list option"

datatype resource_entry_kind = FileEntry | DirectoryEntry | OtherEntry

record resource_path_metadata =
  rm_relative_path :: string
  rm_kind :: resource_entry_kind
  rm_byte_size :: "nat option"

record resource_search_policy =
  sp_max_file_bytes :: nat
  sp_max_files :: nat
  sp_max_matches :: nat

record resource_search_match =
  sm_relative_path :: string
  sm_line_number :: nat
  sm_line :: string

record resource_search_result =
  sr_matches :: "resource_search_match list"
  sr_searched_files :: nat
  sr_truncated :: bool
  sr_denied_paths_excluded :: bool

record resource_list_entry =
  rl_relative_path :: string
  rl_kind :: resource_entry_kind
  rl_byte_size :: "nat option"

record resource_list_result =
  lr_relative_path :: string
  lr_entries :: "resource_list_entry list"
  lr_truncated :: bool
  lr_denied_paths_excluded :: bool

definition small_search_policy :: resource_search_policy where
  "small_search_policy = \<lparr>sp_max_file_bytes = 64 * 1024, sp_max_files = 512, sp_max_matches = 64\<rparr>"

definition generated_or_heavy_resource_entry :: "string \<Rightarrow> bool" where
  "generated_or_heavy_resource_entry name \<longleftrightarrow>
     name \<in> set [''.git'', ''.yach'', ''target'', ''.jj'', ''.hg'', ''.svn'', ''.devenv'', ''.direnv'', ''.worktrees'',
       ''.cache'', ''node_modules'', ''.venv'', ''venv'', ''__pycache__'']"

definition node_kind :: "node \<Rightarrow> resource_entry_kind" where
  "node_kind nd = (case nd of File _ _ \<Rightarrow> FileEntry | Directory \<Rightarrow> DirectoryEntry | _ \<Rightarrow> OtherEntry)"

definition node_size :: "node \<Rightarrow> nat option" where
  "node_size nd = (case nd of File c _ \<Rightarrow> Some (length c) | _ \<Rightarrow> None)"

text \<open>\<open>entries.sort_by_key\<close> on the paths of the entries relative to the root.\<close>

definition entry_sort_key :: "resource_root \<Rightarrow> spath \<Rightarrow> string \<Rightarrow> string" where
  "entry_sort_key base dir name =
     (case normalized_relative_path base (dir @ [name]) of Inr key \<Rightarrow> key | Inl _ \<Rightarrow> from_utf8_lossy name)"

definition sorted_entries :: "resource_root \<Rightarrow> spath \<Rightarrow> string list \<Rightarrow> string list" where
  "sorted_entries base dir names = sort_key (entry_sort_key base dir) names"

section \<open>Metadata and listing\<close>

definition path_metadata ::
  "resource_root \<Rightarrow> tree \<Rightarrow> string \<Rightarrow> (resource_path_error, resource_path_metadata) result" where
  "path_metadata base N requested =
     res_bind (resolve_existing base N requested) (\<lambda>path.
     res_bind (ok_or (fs_metadata N path) Missing) (\<lambda>metadata.
     res_bind (normalized_relative_path base path) (\<lambda>relative.
       Inr \<lparr>rm_relative_path = relative, rm_kind = node_kind metadata, rm_byte_size = node_size metadata\<rparr>)))"

fun list_entries ::
  "resource_root \<Rightarrow> tree \<Rightarrow> spath \<Rightarrow> nat \<Rightarrow> string list \<Rightarrow> resource_list_result
   \<Rightarrow> (resource_path_error, resource_list_result) result" where
  "list_entries base N dir max_entries [] r = Inr r"
| "list_entries base N dir max_entries (name # names) r =
     (if generated_or_heavy_resource_entry (from_utf8_lossy name) then list_entries base N dir max_entries names r
      else res_bind (normalized_relative_path base (dir @ [name])) (\<lambda>relative.
        if sensitive_denies base relative
        then list_entries base N dir max_entries names (r\<lparr>lr_denied_paths_excluded := True\<rparr>)
        else if length (lr_entries r) \<ge> max_entries then Inr (r\<lparr>lr_truncated := True\<rparr>)
        else (case symlink_metadata N (dir @ [name]) of
            None \<Rightarrow> list_entries base N dir max_entries names r
          | Some metadata \<Rightarrow> list_entries base N dir max_entries names
              (r\<lparr>lr_entries := lr_entries r @ [\<lparr>rl_relative_path = relative, rl_kind = node_kind metadata,
                rl_byte_size = node_size metadata\<rparr>]\<rparr>))))"

definition list_paths ::
  "read_dir \<Rightarrow> resource_root \<Rightarrow> tree \<Rightarrow> string \<Rightarrow> nat \<Rightarrow> (resource_path_error, resource_list_result) result" where
  "list_paths rd base N requested max_entries =
     res_bind (resolve_directory base N requested) (\<lambda>dir.
     res_bind (normalized_relative_path base dir) (\<lambda>relative.
     res_bind (ok_or (rd dir) Missing) (\<lambda>names.
       list_entries base N dir max_entries (sorted_entries base dir names)
         \<lparr>lr_relative_path = relative, lr_entries = [], lr_truncated = False, lr_denied_paths_excluded = False\<rparr>)))"

section \<open>Search\<close>

definition str_lines :: "string \<Rightarrow> string list" where
  "str_lines s = map line_text (raw_lines s)"

fun search_lines ::
  "string \<Rightarrow> nat \<Rightarrow> string \<Rightarrow> nat \<Rightarrow> string list \<Rightarrow> resource_search_result \<Rightarrow> resource_search_result" where
  "search_lines query max_matches relative i [] r = r"
| "search_lines query max_matches relative i (l # ls) r =
     (if sublist query l
      then (let r' = r\<lparr>sr_matches := sr_matches r @ [\<lparr>sm_relative_path = relative, sm_line_number = i + 1, sm_line = l\<rparr>]\<rparr>
            in if length (sr_matches r') \<ge> max_matches then r'\<lparr>sr_truncated := True\<rparr>
               else search_lines query max_matches relative (i + 1) ls r')
      else search_lines query max_matches relative (i + 1) ls r)"

definition search_file ::
  "resource_root \<Rightarrow> fs \<Rightarrow> string \<Rightarrow> resource_search_policy \<Rightarrow> spath \<Rightarrow> resource_search_result
   \<Rightarrow> (resource_path_error, resource_search_result) result" where
  "search_file base s query policy path r =
     (if sr_searched_files r \<ge> sp_max_files policy \<or> length (sr_matches r) \<ge> sp_max_matches policy
      then Inr (r\<lparr>sr_truncated := True\<rparr>)
      else res_bind (normalized_relative_path base path) (\<lambda>relative.
        if sensitive_denies base relative then Inr (r\<lparr>sr_denied_paths_excluded := True\<rparr>)
        else (case fs_metadata (nodes s) path of
            None \<Rightarrow> Inr r
          | Some metadata \<Rightarrow>
              if fs_len metadata > sp_max_file_bytes policy then Inr r
              else (let r' = r\<lparr>sr_searched_files := u64_saturating_add (sr_searched_files r) 1\<rparr>
                in case read_text_file base s relative (sp_max_file_bytes policy) of
                     Inl _ \<Rightarrow> Inr r'
                   | Inr text_read \<Rightarrow>
                       Inr (search_lines query (sp_max_matches policy) relative 0 (str_lines (read_text text_read)) r')))))"

fun search_directory ::
  "nat \<Rightarrow> read_dir \<Rightarrow> resource_root \<Rightarrow> fs \<Rightarrow> string \<Rightarrow> resource_search_policy \<Rightarrow> spath \<Rightarrow> resource_search_result
   \<Rightarrow> (resource_path_error, resource_search_result) result option"
and search_entries ::
  "nat \<Rightarrow> read_dir \<Rightarrow> resource_root \<Rightarrow> fs \<Rightarrow> string \<Rightarrow> resource_search_policy \<Rightarrow> spath \<Rightarrow> string list
   \<Rightarrow> resource_search_result \<Rightarrow> (resource_path_error, resource_search_result) result option" where
  "search_directory 0 rd base s query policy dir r = None"
| "search_directory (Suc fuel) rd base s query policy dir r =
     (if sr_truncated r then Some (Inr r)
      else (case rd dir of
          None \<Rightarrow> Some (Inl Missing)
        | Some names \<Rightarrow> search_entries fuel rd base s query policy dir (sorted_entries base dir names) r))"
| "search_entries fuel rd base s query policy dir [] r = Some (Inr r)"
| "search_entries fuel rd base s query policy dir (name # names) r =
     (case symlink_metadata (nodes s) (dir @ [name]) of
        None \<Rightarrow> search_entries fuel rd base s query policy dir names r
      | Some nd \<Rightarrow>
          if nd = Directory \<and> generated_or_heavy_resource_entry (from_utf8_lossy name)
          then search_entries fuel rd base s query policy dir names r
          else (case (case nd of
                Directory \<Rightarrow> search_directory fuel rd base s query policy (dir @ [name]) r
              | File _ _ \<Rightarrow> Some (search_file base s query policy (dir @ [name]) r)
              | _ \<Rightarrow> Some (Inr r)) of
              None \<Rightarrow> None
            | Some (Inl e) \<Rightarrow> Some (Inl e)
            | Some (Inr r') \<Rightarrow>
                if sr_truncated r' then Some (Inr r')
                else search_entries fuel rd base s query policy dir names r'))"

definition empty_search :: resource_search_result where
  "empty_search = \<lparr>sr_matches = [], sr_searched_files = 0, sr_truncated = False, sr_denied_paths_excluded = False\<rparr>"

definition search_text ::
  "nat \<Rightarrow> read_dir \<Rightarrow> resource_root \<Rightarrow> fs \<Rightarrow> string \<Rightarrow> resource_search_policy
   \<Rightarrow> (resource_path_error, resource_search_result) result option" where
  "search_text fuel rd base s query policy =
     (if query = '''' then Some (Inr empty_search)
      else search_directory fuel rd base s query policy (canonical_path base) empty_search)"

end
