(* ===== verification/Tool_Execution.thy ===== *)
theory Tool_Execution
  imports Tools Resource_Search
begin

text \<open>
  Running tools, \<^verbatim>\<open>tools.rs\<close>: the read-only tools over a resource root, the routing of an
  extension's tools to its host, the workflow that validates, runs and records the calls of a
  round, and what of the results may go back to the provider. The extension host is a
  parameter: what invoking it returns.
\<close>

section \<open>Errors and results\<close>

datatype extension_tool_risk = ExtReadsLocalMetadata | ExtReadsLocalContent | ExtMutatesLocalState | ExtUsesNetwork
  | ExtRunsProcess

datatype extension_host_protocol_error =
    HostMalformed | MissingReady | UnsupportedProtocol | HostExtensionIdMismatch | RequestIdMismatch
  | HostUnsupportedRisk | HostUnsupportedSchema | SpawnFailed | HostExited "int option" | HostTimedOut
  | OutputTooLarge nat | ToolRegistration tool_registration_error | UndeclaredTool string
  | ToolRiskMismatch string extension_tool_risk extension_tool_risk | ReviewerContractMismatch | MissingReviewReady

datatype tool_execution_error =
    ExecUnknownTool | ExecPermissionDenied | ExecUnsupportedTool | MalformedResult | ExecStaleAuthorization
  | ExtensionHost extension_host_protocol_error | ResourceReadTooLarge | ResourceReadNotUtf8
  | ResourcePath resource_path_error

fun extension_host_error_label :: "extension_host_protocol_error \<Rightarrow> string" where
  "extension_host_error_label HostMalformed = ''extension_host_malformed''"
| "extension_host_error_label MissingReady = ''extension_host_missing_ready''"
| "extension_host_error_label UnsupportedProtocol = ''extension_host_unsupported_protocol''"
| "extension_host_error_label HostExtensionIdMismatch = ''extension_host_extension_id_mismatch''"
| "extension_host_error_label RequestIdMismatch = ''extension_host_request_id_mismatch''"
| "extension_host_error_label HostUnsupportedRisk = ''extension_host_unsupported_risk''"
| "extension_host_error_label HostUnsupportedSchema = ''extension_host_unsupported_schema''"
| "extension_host_error_label SpawnFailed = ''extension_host_spawn_failed''"
| "extension_host_error_label (HostExited _) = ''extension_host_exited''"
| "extension_host_error_label HostTimedOut = ''extension_host_timed_out''"
| "extension_host_error_label (OutputTooLarge _) = ''extension_host_output_too_large''"
| "extension_host_error_label (ToolRegistration _) = ''extension_host_tool_registration_failed''"
| "extension_host_error_label (UndeclaredTool _) = ''extension_host_undeclared_tool''"
| "extension_host_error_label (ToolRiskMismatch _ _ _) = ''extension_host_tool_risk_mismatch''"
| "extension_host_error_label ReviewerContractMismatch = ''extension_host_reviewer_contract_mismatch''"
| "extension_host_error_label MissingReviewReady = ''extension_host_missing_review_ready''"

fun resource_path_error_label :: "resource_path_error \<Rightarrow> string" where
  "resource_path_error_label RootUnavailable = ''resource_path_root_unavailable''"
| "resource_path_error_label Missing = ''resource_path_missing''"
| "resource_path_error_label EscapesRoot = ''resource_path_outside_root''"
| "resource_path_error_label SymlinkEscapesRoot = ''resource_path_symlink_outside_root''"
| "resource_path_error_label ExpectedFile = ''resource_path_directory''"
| "resource_path_error_label ExpectedDirectory = ''resource_path_not_directory''"
| "resource_path_error_label SensitiveDenied = ''sensitive_path_denied''"

fun tool_execution_error_label :: "tool_execution_error \<Rightarrow> string" where
  "tool_execution_error_label ExecUnknownTool = ''unknown_tool''"
| "tool_execution_error_label ExecPermissionDenied = ''permission_denied''"
| "tool_execution_error_label ExecUnsupportedTool = ''unsupported_tool''"
| "tool_execution_error_label MalformedResult = ''malformed_result''"
| "tool_execution_error_label ExecStaleAuthorization = ''stale_authorization''"
| "tool_execution_error_label (ExtensionHost e) = extension_host_error_label e"
| "tool_execution_error_label ResourceReadTooLarge = ''resource_read_too_large''"
| "tool_execution_error_label ResourceReadNotUtf8 = ''resource_read_not_utf8''"
| "tool_execution_error_label (ResourcePath e) = resource_path_error_label e"

record tool_execution_result =
  te_request_id :: string
  te_summary :: string
  te_byte_count :: nat
  te_redacted :: bool
  te_truncated :: bool

definition execution_result :: "pending_tool_request \<Rightarrow> string \<Rightarrow> bool \<Rightarrow> tool_execution_result" where
  "execution_result req s cut_off =
     \<lparr>te_request_id = tr_request_id req, te_summary = s, te_byte_count = length s, te_redacted = False,
      te_truncated = cut_off\<rparr>"

type_synonym tool_executor =
  "tool_registry \<Rightarrow> pending_tool_request \<Rightarrow> tool_validation \<Rightarrow> (tool_execution_error, tool_execution_result) result"

section \<open>The read-only tools\<close>

definition PROVIDER_READ_TEXT_MAX_BYTES :: nat where "PROVIDER_READ_TEXT_MAX_BYTES = 32 * 1024"
definition PROVIDER_SEARCH_MAX_FILE_BYTES :: nat where "PROVIDER_SEARCH_MAX_FILE_BYTES = 64 * 1024"
definition PROVIDER_SEARCH_MAX_FILES :: nat where "PROVIDER_SEARCH_MAX_FILES = 512"
definition PROVIDER_SEARCH_MAX_MATCHES :: nat where "PROVIDER_SEARCH_MAX_MATCHES = 64"
definition PROVIDER_SEARCH_LINE_MAX_BYTES :: nat where "PROVIDER_SEARCH_LINE_MAX_BYTES = 240"
definition PROVIDER_LIST_MAX_ENTRIES :: nat where "PROVIDER_LIST_MAX_ENTRIES = 200"

text \<open>
  The file system of the call. A descent of more than 4096 levels is a failure to list: a path
  of so many components exceeds the 4096 bytes the kernel takes.
\<close>

record read_env =
  re_read_dir :: read_dir
  re_fs :: fs

definition search_levels :: nat where
  "search_levels = 4097"

definition search_root ::
  "read_env \<Rightarrow> resource_root \<Rightarrow> string \<Rightarrow> resource_search_policy \<Rightarrow> (resource_path_error, resource_search_result) result" where
  "search_root env base query policy =
     (case search_text search_levels (re_read_dir env) base (re_fs env) query policy of
        Some r \<Rightarrow> r | None \<Rightarrow> Inl Missing)"

definition required_string_argument :: "pending_tool_request \<Rightarrow> string \<Rightarrow> (tool_execution_error, string) result" where
  "required_string_argument req name =
     ok_or (Option.bind (json_get name (tr_arguments req)) json_as_str) MalformedResult"

fun resource_entry_kind_label :: "resource_entry_kind \<Rightarrow> string" where
  "resource_entry_kind_label FileEntry = ''file''"
| "resource_entry_kind_label DirectoryEntry = ''directory''"
| "resource_entry_kind_label OtherEntry = ''other''"

text \<open>The loop over \<open>char_indices\<close>: the last character that starts within the limit.\<close>

fun last_start_within :: "nat \<Rightarrow> nat \<Rightarrow> nat \<Rightarrow> string list \<Rightarrow> nat" where
  "last_start_within limit end_at i [] = end_at"
| "last_start_within limit end_at i (c # cs) =
     (if i > limit then end_at else last_start_within limit i (i + length c) cs)"

definition bounded_provider_line :: "string \<Rightarrow> string \<times> bool" where
  "bounded_provider_line l =
     (if length l \<le> PROVIDER_SEARCH_LINE_MAX_BYTES then (l, False)
      else (let end_at = last_start_within PROVIDER_SEARCH_LINE_MAX_BYTES 0 0 (utf8_chars l)
        in if end_at = 0 then ('''', True) else (take end_at l, True)))"

definition read_error_to_execution_error :: "resource_read_error \<Rightarrow> tool_execution_error" where
  "read_error_to_execution_error e =
     (case e of PathError p \<Rightarrow> ResourcePath p | TooLarge _ _ \<Rightarrow> ResourceReadTooLarge | NotUtf8 \<Rightarrow> ResourceReadNotUtf8
      | IoError \<Rightarrow> MalformedResult)"

definition execute_project_path_info ::
  "read_env \<Rightarrow> resource_root \<Rightarrow> pending_tool_request \<Rightarrow> (tool_execution_error, tool_execution_result) result" where
  "execute_project_path_info env base req =
     res_bind (required_string_argument req ''path'') (\<lambda>path.
     res_bind (map_err ResourcePath (path_metadata base (nodes (re_fs env)) path)) (\<lambda>md.
       Inr (execution_result req (rm_relative_path md @ '': '' @ resource_entry_kind_label (rm_kind md)
         @ (case rm_byte_size md of Some bytes \<Rightarrow> '', '' @ show_nat bytes @ '' bytes'' | None \<Rightarrow> '''')) False)))"

definition execute_read_text_file ::
  "read_env \<Rightarrow> resource_root \<Rightarrow> pending_tool_request \<Rightarrow> (tool_execution_error, tool_execution_result) result" where
  "execute_read_text_file env base req =
     res_bind (required_string_argument req ''path'') (\<lambda>path.
     res_bind (map_err read_error_to_execution_error
         (read_text_file base (re_fs env) path PROVIDER_READ_TEXT_MAX_BYTES)) (\<lambda>out.
       Inr (execution_result req (if read_text out = '''' then notice ''empty file'' else read_text out) False)))"

definition search_result_notices :: "bool \<Rightarrow> nat \<Rightarrow> bool \<Rightarrow> bool \<Rightarrow> string list" where
  "search_result_notices no_matches searched_files cut_off denied =
     (if no_matches then
        (if cut_off then
           [notice ''search incomplete: file budget exhausted before any matches; narrow the path or pattern'']
         else [notice (''no matches; '' @ show_nat searched_files @ '' files searched'')])
      else if cut_off then [notice ''results incomplete (budget exhausted)''] else [])
     @ (if denied then [notice ''some paths excluded by policy''] else [])"

definition ellipsis :: string where
  "ellipsis = [CHR 0xE2, CHR 0x80, CHR 0xA6]"

definition search_match_line :: "resource_search_match \<Rightarrow> string" where
  "search_match_line m =
     (case bounded_provider_line (sm_line m) of
        (l, cut_off) \<Rightarrow> sm_relative_path m @ '':'' @ show_nat (sm_line_number m) @ '': '' @ l
          @ (if cut_off then ellipsis else ''''))"

definition execute_search_project ::
  "read_env \<Rightarrow> resource_root \<Rightarrow> pending_tool_request \<Rightarrow> (tool_execution_error, tool_execution_result) result" where
  "execute_search_project env base req =
     res_bind (required_string_argument req ''query'') (\<lambda>query.
     res_bind (map_err ResourcePath (search_root env base query
         \<lparr>sp_max_file_bytes = PROVIDER_SEARCH_MAX_FILE_BYTES, sp_max_files = PROVIDER_SEARCH_MAX_FILES,
          sp_max_matches = PROVIDER_SEARCH_MAX_MATCHES\<rparr>)) (\<lambda>r.
       let ls = map search_match_line (sr_matches r);
           line_truncated = list_ex (\<lambda>m. snd (bounded_provider_line (sm_line m))) (sr_matches r)
       in Inr (execution_result req
            (append_notices (join_newline ls)
              (search_result_notices (ls = []) (sr_searched_files r) (sr_truncated r) (sr_denied_paths_excluded r)))
            (sr_truncated r \<or> line_truncated))))"

definition list_entry_line :: "resource_list_entry \<Rightarrow> string" where
  "list_entry_line e =
     (if rl_kind e = DirectoryEntry then rl_relative_path e @ ''/''
      else (case rl_byte_size e of
          Some bytes \<Rightarrow> rl_relative_path e @ ''  '' @ show_nat bytes @ '' bytes''
        | None \<Rightarrow> rl_relative_path e))"

definition execute_list_project_paths ::
  "read_env \<Rightarrow> resource_root \<Rightarrow> pending_tool_request \<Rightarrow> (tool_execution_error, tool_execution_result) result" where
  "execute_list_project_paths env base req =
     res_bind (required_string_argument req ''path'') (\<lambda>path.
     res_bind (map_err ResourcePath
         (list_paths (re_read_dir env) base (nodes (re_fs env)) path PROVIDER_LIST_MAX_ENTRIES)) (\<lambda>r.
       let ls = map list_entry_line (lr_entries r);
           notices = (if ls = [] then [notice ''empty directory''] else [])
             @ (if lr_truncated r then [notice ''truncated: entry limit reached''] else [])
             @ (if lr_denied_paths_excluded r then [notice ''some paths excluded by policy''] else [])
       in Inr (execution_result req (append_notices (join_newline ls) notices) (lr_truncated r))))"

definition read_only_execute :: "read_env \<Rightarrow> resource_root option \<Rightarrow> tool_executor" where
  "read_only_execute env base registry req validation =
     res_bind (ok_or (registry_get registry (tr_tool_name req)) ExecUnknownTool) (\<lambda>d.
     res_bind (fail_if (tv_permission validation \<noteq> ToolAllowed) ExecPermissionDenied) (\<lambda>_.
     res_bind (ok_or base ExecUnsupportedTool) (\<lambda>b.
       if td_name d = ''project_path_info'' \<and> td_risk d = ReadsLocalMetadata then execute_project_path_info env b req
       else if td_name d = ''read_text_file'' \<and> td_risk d = ReadsLocalContent then execute_read_text_file env b req
       else if td_name d = ''search_project'' \<and> td_risk d = ReadsLocalContent then execute_search_project env b req
       else if td_name d = ''list_project_paths'' \<and> td_risk d = ReadsLocalContent then execute_list_project_paths env b req
       else Inl ExecUnsupportedTool)))"

definition fixture_execute :: "json_codec \<Rightarrow> tool_executor" where
  "fixture_execute js registry req validation =
     res_bind (ok_or (registry_get registry (tr_tool_name req)) ExecUnknownTool) (\<lambda>d.
     res_bind (fail_if (tv_permission validation \<noteq> ToolAllowed) ExecPermissionDenied) (\<lambda>_.
     res_bind (fail_if (td_name d \<noteq> ''fixture_echo_metadata'' \<or> td_risk d \<noteq> FixtureSafe) ExecUnsupportedTool) (\<lambda>_.
       Inr \<lparr>te_request_id = tr_request_id req, te_summary = ''fixture tool executed with redacted arguments'',
            te_byte_count = (case js_to_vec js (tr_arguments req) of Some bytes \<Rightarrow> length bytes | None \<Rightarrow> 0),
            te_redacted = True, te_truncated = False\<rparr>)))"

definition show_bool :: "bool \<Rightarrow> string" where
  "show_bool b = (if b then ''true'' else ''false'')"

definition content_line_count_summary :: "string \<Rightarrow> string \<Rightarrow> string \<Rightarrow> bool \<Rightarrow> string" where
  "content_line_count_summary tool_name label s cut_off =
     tool_name @ '' '' @ label @ ''=''
     @ show_nat (length (filter (\<lambda>l. \<not> (l \<noteq> [] \<and> hd l = CHR ''['' \<and> last l = CHR '']'')) (str_lines s)))
     @ '' truncated='' @ show_bool cut_off"

definition provider_tool_result_summary :: "string \<Rightarrow> tool_execution_result \<Rightarrow> tool_payload_summary" where
  "provider_tool_result_summary tool_name r =
     \<lparr>tp_summary =
        (if tool_name = ''read_text_file'' then ''read_text_file result redacted''
         else if tool_name = ''search_project''
           then content_line_count_summary ''search_project'' ''matches'' (te_summary r) (te_truncated r)
         else if tool_name = ''list_project_paths''
           then content_line_count_summary ''list_project_paths'' ''entries'' (te_summary r) (te_truncated r)
         else te_summary r),
      tp_byte_count = te_byte_count r,
      tp_redacted = (tool_name \<in> {''read_text_file'', ''search_project'', ''list_project_paths''}),
      tp_truncated = te_truncated r\<rparr>"

section \<open>Extension tools\<close>

datatype extension_tool_result_status = ExtensionCompleted | ExtensionFailed

record extension_edit_operation =
  xo_path :: string
  xo_expected_sha256 :: string
  xo_after_text :: string

record extension_edit_proposal =
  xp_summary :: string
  xp_operations :: "extension_edit_operation list"

datatype extension_host_invocation =
    HostToolResult string extension_tool_result_status "string option" | HostEditProposal extension_edit_proposal

datatype extension_tool_execution =
    ExtensionResult tool_execution_result extension_tool_result_status "string option"
  | ExtensionProposal extension_edit_proposal

text \<open>
  What a host answers to a request for a tool with its arguments; \<open>None\<close> is a poisoned mutex
  around it.
\<close>

datatype extension_tool_route =
    StaticRoute string bool
  | HostRoute "(string \<Rightarrow> string \<Rightarrow> json \<Rightarrow> (extension_host_protocol_error, extension_host_invocation) result) option"

record extension_tool_handler =
  eh_extension_id :: string
  eh_route :: extension_tool_route

type_synonym extension_router = "string \<rightharpoonup> extension_tool_handler"

definition router_insert :: "string \<Rightarrow> extension_tool_handler \<Rightarrow> extension_router \<Rightarrow> extension_router" where
  "router_insert name handler router = router(name \<mapsto> handler)"

definition router_remove :: "string list \<Rightarrow> extension_router \<Rightarrow> extension_router" where
  "router_remove names router = fold (\<lambda>name r. r(name := None)) names router"

definition execute_with_resources ::
  "(string \<Rightarrow> json option) \<Rightarrow> extension_router \<Rightarrow> tool_registry \<Rightarrow> pending_tool_request \<Rightarrow> tool_validation
   \<Rightarrow> (tool_execution_error, extension_tool_execution) result" where
  "execute_with_resources parse router registry req validation =
     res_bind (ok_or (registry_get registry (tr_tool_name req)) ExecUnknownTool) (\<lambda>d.
     res_bind (fail_if (tv_permission validation \<noteq> ToolAllowed) ExecPermissionDenied) (\<lambda>_.
       case td_owner d of
         BuiltIn \<Rightarrow> Inl ExecUnsupportedTool
       | ExtensionOwner owner _ \<Rightarrow>
           res_bind (ok_or (router (tr_tool_name req)) ExecUnsupportedTool) (\<lambda>handler.
           res_bind (fail_if (eh_extension_id handler \<noteq> owner) ExecUnsupportedTool) (\<lambda>_.
             case eh_route handler of
               StaticRoute response malformed_answer \<Rightarrow>
                 (if malformed_answer \<or> parse response = None then Inl MalformedResult
                  else Inr (ExtensionResult (execution_result req response False) ExtensionCompleted None))
             | HostRoute None \<Rightarrow> Inl (ExtensionHost HostMalformed)
             | HostRoute (Some invoke) \<Rightarrow>
                 res_bind (map_err ExtensionHost (invoke (tr_request_id req) (tr_tool_name req) (tr_arguments req))) (\<lambda>answer.
                   case answer of
                     HostToolResult content status reason \<Rightarrow>
                       Inr (ExtensionResult (execution_result req content False) status reason)
                   | HostEditProposal proposal \<Rightarrow> Inr (ExtensionProposal proposal))))))"

definition extension_execute :: "(string \<Rightarrow> json option) \<Rightarrow> extension_router \<Rightarrow> tool_executor" where
  "extension_execute parse router registry req validation =
     res_bind (execute_with_resources parse router registry req validation) (\<lambda>x.
       case x of
         ExtensionResult r ExtensionCompleted _ \<Rightarrow> Inr r
       | _ \<Rightarrow> Inl MalformedResult)"

section \<open>The workflow of a round\<close>

record tool_continuation_policy =
  cp_max_tool_calls :: nat
  cp_max_result_bytes :: nat

definition fixture_continuation_policy :: tool_continuation_policy where
  "fixture_continuation_policy = \<lparr>cp_max_tool_calls = 4, cp_max_result_bytes = 256\<rparr>"

datatype tool_continuation_error =
    TooManyToolCalls nat nat | ContinuationValidation tool_error | ContinuationExecution tool_execution_error
  | ResultTooLarge string nat nat

record tool_workflow =
  wf_js :: json_codec
  wf_registry :: tool_registry
  wf_permission :: tool_permission_policy
  wf_executor :: tool_executor
  wf_continuation :: tool_continuation_policy
  wf_timing :: "nat \<Rightarrow> tool_timing"

definition finished_with ::
  "string \<Rightarrow> pending_tool_request \<Rightarrow> tool_outcome \<Rightarrow> string option \<Rightarrow> tool_payload_summary option \<Rightarrow> string option
   \<Rightarrow> tool_timing \<Rightarrow> session_event" where
  "finished_with session req outcome reason payload content timing =
     ToolExecutionFinished session (tr_turn_id req) (tr_request_id req) outcome reason payload content
       (started_at_ms timing) (tool_duration_ms timing)"

definition execution_to_provider :: "pending_tool_request \<Rightarrow> tool_execution_result \<Rightarrow> provider_tool_result" where
  "execution_to_provider req r =
     \<lparr>ptr_request_id = tr_request_id req, ptr_provider_call_id = tr_provider_call_id req, ptr_status = Completed,
      ptr_content = te_summary r, ptr_byte_count = te_byte_count r, ptr_redacted = te_redacted r,
      ptr_truncated = te_truncated r, ptr_reason = None\<rparr>"

definition run_recorded_call ::
  "tool_workflow \<Rightarrow> string \<Rightarrow> nat \<Rightarrow> pending_tool_request \<Rightarrow> session_event list
   \<Rightarrow> (tool_continuation_error, provider_tool_result) result \<times> session_event list" where
  "run_recorded_call w session i req events =
     (case record_native_tool_validation (wf_js w) session req (wf_registry w) (wf_permission w) events of
        (Inl e, events1) \<Rightarrow> (Inl (ContinuationValidation e), events1)
      | (Inr validation, events1) \<Rightarrow>
          (case wf_executor w (wf_registry w) req validation of
             Inl e \<Rightarrow> (Inl (ContinuationExecution e),
               events1 @ [finished_with session req Failed (Some (tool_execution_error_label e)) None None (wf_timing w i)])
           | Inr r \<Rightarrow>
               if te_byte_count r > cp_max_result_bytes (wf_continuation w)
               then (Inl (ResultTooLarge (case tr_provider_call_id req of Some cid \<Rightarrow> cid | None \<Rightarrow> tr_request_id req)
                       (cp_max_result_bytes (wf_continuation w)) (te_byte_count r)),
                 events1 @ [finished_with session req Failed (Some ''result_too_large'') None None (wf_timing w i)])
               else (Inr (execution_to_provider req r),
                 events1 @ [finished_with session req Completed None
                   (Some (provider_tool_result_summary (tr_tool_name req) r)) (Some (te_summary r)) (wf_timing w i)])))"

fun run_recorded_calls ::
  "tool_workflow \<Rightarrow> string \<Rightarrow> string \<Rightarrow> nat \<Rightarrow> provider_tool_call list \<Rightarrow> session_event list
   \<Rightarrow> (tool_continuation_error, provider_tool_result list) result \<times> session_event list" where
  "run_recorded_calls w session turn i [] events = (Inr [], events)"
| "run_recorded_calls w session turn i (call # calls) events =
     (case run_recorded_call w session i
          (pending_tool_request_from_provider_call (''tool-request-'' @ show_nat (i + 1)) turn call) events of
        (Inl e, events1) \<Rightarrow> (Inl e, events1)
      | (Inr r, events1) \<Rightarrow>
          (case run_recorded_calls w session turn (i + 1) calls events1 of
             (Inl e, events2) \<Rightarrow> (Inl e, events2)
           | (Inr rs, events2) \<Rightarrow> (Inr (r # rs), events2)))"

definition build_provider_tool_results ::
  "tool_workflow \<Rightarrow> string \<Rightarrow> string \<Rightarrow> provider_tool_call list \<Rightarrow> session_event list
   \<Rightarrow> (tool_continuation_error, provider_tool_result list) result \<times> session_event list" where
  "build_provider_tool_results w session turn calls events =
     (if length calls > cp_max_tool_calls (wf_continuation w)
      then (Inl (TooManyToolCalls (cp_max_tool_calls (wf_continuation w)) (length calls)), events)
      else run_recorded_calls w session turn 0 calls events)"

section \<open>Continuing with the provider\<close>

record provider_continuation_request =
  cq_turn_id :: string
  cq_model :: provider_model
  cq_prior_messages :: "provider_message list"
  cq_tool_results :: "provider_tool_result list"
  cq_extensions :: "(string \<times> json) list"

record provider_continuation_tool_result =
  ct_tool_request_id :: string
  ct_provider_call_id :: string
  ct_status :: tool_outcome
  ct_content :: string
  ct_byte_count :: nat
  ct_redacted :: bool
  ct_truncated :: bool
  ct_reason :: "string option"

record provider_continuation_submission =
  cs_turn_id :: string
  cs_model :: provider_model
  cs_prior_messages :: "provider_message list"
  cs_tool_results :: "provider_continuation_tool_result list"
  cs_extensions :: "(string \<times> json) list"

record provider_continuation_validation_policy =
  vp_require_provider_call_id :: bool
  vp_max_result_content_bytes :: nat
  vp_allow_redacted_results :: bool
  vp_allow_truncated_results :: bool
  vp_allow_failed_results :: bool

definition strict_tool_results :: "nat \<Rightarrow> provider_continuation_validation_policy" where
  "strict_tool_results max_bytes = \<lparr>vp_require_provider_call_id = True, vp_max_result_content_bytes = max_bytes,
     vp_allow_redacted_results = True, vp_allow_truncated_results = False, vp_allow_failed_results = False\<rparr>"

definition agent_tool_results :: "nat \<Rightarrow> provider_continuation_validation_policy" where
  "agent_tool_results max_bytes = \<lparr>vp_require_provider_call_id = True, vp_max_result_content_bytes = max_bytes,
     vp_allow_redacted_results = True, vp_allow_truncated_results = True, vp_allow_failed_results = True\<rparr>"

datatype provider_continuation_validation_error =
    MissingProviderCallId string | ResultContentTooLarge string nat nat | RedactedResultRejected string
  | TruncatedResultRejected string

datatype provider_continuation_mapping_error =
    MappingValidation provider_continuation_validation_error | EmptyToolResults
  | UnsupportedToolResultStatus string tool_outcome

fun validate_continuation_results ::
  "provider_continuation_validation_policy \<Rightarrow> provider_tool_result list
   \<Rightarrow> (provider_continuation_validation_error, unit) result" where
  "validate_continuation_results policy [] = Inr ()"
| "validate_continuation_results policy (r # rs) =
     res_bind (fail_if (vp_require_provider_call_id policy \<and> ptr_provider_call_id r = None)
       (MissingProviderCallId (ptr_request_id r))) (\<lambda>_.
     res_bind (fail_if (length (ptr_content r) > vp_max_result_content_bytes policy)
       (ResultContentTooLarge (ptr_request_id r) (vp_max_result_content_bytes policy) (length (ptr_content r)))) (\<lambda>_.
     res_bind (fail_if (ptr_redacted r \<and> \<not> vp_allow_redacted_results policy) (RedactedResultRejected (ptr_request_id r))) (\<lambda>_.
     res_bind (fail_if (ptr_truncated r \<and> \<not> vp_allow_truncated_results policy) (TruncatedResultRejected (ptr_request_id r))) (\<lambda>_.
       validate_continuation_results policy rs))))"

definition validate_provider_continuation_request ::
  "provider_continuation_request \<Rightarrow> provider_continuation_validation_policy
   \<Rightarrow> (provider_continuation_validation_error, unit) result" where
  "validate_provider_continuation_request request policy = validate_continuation_results policy (cq_tool_results request)"

definition status_supported :: "provider_continuation_validation_policy \<Rightarrow> tool_outcome \<Rightarrow> bool" where
  "status_supported policy status =
     (case status of Completed \<Rightarrow> True | Failed \<Rightarrow> vp_allow_failed_results policy | _ \<Rightarrow> False)"

fun map_continuation_results ::
  "provider_continuation_validation_policy \<Rightarrow> provider_tool_result list
   \<Rightarrow> (provider_continuation_mapping_error, provider_continuation_tool_result list) result" where
  "map_continuation_results policy [] = Inr []"
| "map_continuation_results policy (r # rs) =
     res_bind (fail_if (\<not> status_supported policy (ptr_status r))
       (UnsupportedToolResultStatus (ptr_request_id r) (ptr_status r))) (\<lambda>_.
     res_bind (ok_or (ptr_provider_call_id r) (MappingValidation (MissingProviderCallId (ptr_request_id r)))) (\<lambda>cid.
     res_bind (map_continuation_results policy rs) (\<lambda>rest.
       Inr (\<lparr>ct_tool_request_id = ptr_request_id r, ct_provider_call_id = cid, ct_status = ptr_status r,
             ct_content = ptr_content r, ct_byte_count = ptr_byte_count r, ct_redacted = ptr_redacted r,
             ct_truncated = ptr_truncated r, ct_reason = ptr_reason r\<rparr> # rest))))"

definition build_provider_continuation_submission ::
  "provider_continuation_request \<Rightarrow> provider_continuation_validation_policy
   \<Rightarrow> (provider_continuation_mapping_error, provider_continuation_submission) result" where
  "build_provider_continuation_submission request policy =
     res_bind (map_err MappingValidation (validate_provider_continuation_request request policy)) (\<lambda>_.
     res_bind (fail_if (cq_tool_results request = []) EmptyToolResults) (\<lambda>_.
     res_bind (map_continuation_results policy (cq_tool_results request)) (\<lambda>results.
       Inr \<lparr>cs_turn_id = cq_turn_id request, cs_model = cq_model request, cs_prior_messages = cq_prior_messages request,
            cs_tool_results = results, cs_extensions = cq_extensions request\<rparr>)))"

end
