(* ===== verification/Tools_Properties.thy ===== *)
theory Tools_Properties
  imports Tool_Execution
begin

text \<open>
  What the registry, the schemas, the catalog of a turn and the advertising promise.
\<close>

section \<open>Schemas\<close>

lemma check_required_iff:
  "check_required obj names = Inr () \<longleftrightarrow> (\<forall>name \<in> set names. \<exists>v. map_of obj name = Some v \<and> json_is_string v)"
  by (induction names) (auto split: option.splits)

lemma check_fields_iff:
  "check_fields schema obj = Inr () \<longleftrightarrow> (\<forall>(name, v) \<in> set obj.
     if name \<in> set (optional_number_fields schema) then json_is_u64 v
     else (name \<in> set (required_string_fields schema) \<or> name \<in> set (optional_string_fields schema)) \<and> json_is_string v)"
  by (induction obj rule: check_fields.induct) auto

text \<open>
  C38. The arguments of a call are accepted exactly when they are a JSON object within the size
  limit that has every required field with a string, and whose every field is one of the
  schema's, a number field with an unsigned integer and any other with a string.
\<close>

theorem arguments_accepted_iff:
  "validate_arguments js schema v = Inr () \<longleftrightarrow>
     (\<exists>bytes obj. js_to_vec js v = Some bytes \<and> length bytes \<le> max_serialized_bytes schema \<and> v = JObject obj
        \<and> (\<forall>name \<in> set (required_string_fields schema). \<exists>w. map_of obj name = Some w \<and> json_is_string w)
        \<and> (\<forall>(name, w) \<in> set obj.
             if name \<in> set (optional_number_fields schema) then json_is_u64 w
             else (name \<in> set (required_string_fields schema) \<or> name \<in> set (optional_string_fields schema))
               \<and> json_is_string w))"
  unfolding check_fields_iff [symmetric] check_required_iff [symmetric]
  by (cases v) (auto simp: validate_arguments_def result_simps)

theorem arguments_accepted_iff_witness:
  "validate_arguments \<lparr>js_to_vec = (\<lambda>_. Some ''{}''), js_display = (\<lambda>_. ''{}'')\<rparr> (string_object [''path''] [] 10)
     (JObject [(''path'', JString ''a'')]) = Inr ()"
  by (subst arguments_accepted_iff) (simp add: string_object_def btree_set_def json_is_string_def json_as_str_def)

section \<open>The registry\<close>

lemma registry_get_Some: "registry_get registry name = Some d \<Longrightarrow> d \<in> set registry \<and> td_name d = name"
  by (auto simp: registry_get_def find_Some_iff)

lemma registry_get_None: "registry_get registry name = None \<longleftrightarrow> name \<notin> td_name ` set registry"
  by (auto simp: registry_get_def find_None_iff)

inductive registry_run :: "component_set \<Rightarrow> tool_registry \<Rightarrow> bool" for components where
  registry_start: "registry_run components (registry_for_components components)"
| registry_registered: "registry_run components registry \<Longrightarrow> snd (register_extension_tool tool registry) = registry'
    \<Longrightarrow> registry_run components registry'"
| registry_removed: "registry_run components registry \<Longrightarrow> snd (remove_extension_tools extension_id registry) = registry'
    \<Longrightarrow> registry_run components registry'"

definition registry_ok :: "component_set \<Rightarrow> tool_registry \<Rightarrow> bool" where
  "registry_ok components registry \<longleftrightarrow>
     distinct (map td_name registry)
     \<and> filter (\<lambda>d. td_owner d = BuiltIn) registry = registry_for_components components
     \<and> (\<forall>d \<in> set registry. td_owner d \<noteq> BuiltIn \<longrightarrow>
          td_name d \<notin> set BUILTIN_TOOL_NAMES \<and> is_extension_declarable (td_risk d))"

lemmas builtin_tools = project_path_info_tool_def read_text_file_tool_def search_project_tool_def
  list_project_paths_tool_def edit_text_file_tool_def create_text_file_tool_def bash_tool_def builtin_tool_def

lemma registry_start_ok: "registry_ok components (registry_for_components components)"
  by (simp add: registry_ok_def registry_for_components_def with_project_read_only_and_agent_edit_tools_def builtin_tools)

lemma register_ok:
  assumes "registry_ok components registry"
  shows "registry_ok components (snd (register_extension_tool tool registry))"
proof (cases "extension_tool_rejection registry tool")
  case None
  then have "td_name tool \<notin> set BUILTIN_TOOL_NAMES" "td_name tool \<notin> td_name ` set registry"
      "td_owner tool \<noteq> BuiltIn" "is_extension_declarable (td_risk tool)"
    by (auto simp: extension_tool_rejection_def registry_get_None [symmetric] is_extension_owner_def
        split: if_splits tool_owner.splits)
  then show ?thesis using assms None by (auto simp: register_extension_tool_def registry_ok_def)
qed (use assms in \<open>simp add: register_extension_tool_def\<close>)

lemma remove_ok:
  assumes "registry_ok components registry"
  shows "registry_ok components (snd (remove_extension_tools extension_id registry))"
proof -
  have "filter (\<lambda>d. td_owner d = BuiltIn) (filter (\<lambda>d. \<not> owned_by extension_id d) registry)
      = filter (\<lambda>d. td_owner d = BuiltIn) registry"
    by (auto simp: owned_by_def intro: filter_cong)
  then show ?thesis using assms
    by (auto simp: registry_ok_def remove_extension_tools_def intro: distinct_map_filter)
qed

text \<open>
  C39. Whatever extensions register and however often their tools are removed: no two tools of the
  registry have the same name, the built-in tools are exactly those of the enabled components,
  unchanged and in their order, and an extension's tool neither has a built-in name, not even one
  of a disabled component, nor a risk only built-in tools may have.
\<close>

theorem registry_invariant:
  assumes "registry_run components registry"
  shows "distinct (map td_name registry)
     \<and> filter (\<lambda>d. td_owner d = BuiltIn) registry = registry_for_components components
     \<and> (\<forall>d \<in> set registry. td_owner d \<noteq> BuiltIn \<longrightarrow>
          td_name d \<notin> set BUILTIN_TOOL_NAMES \<and> is_extension_declarable (td_risk d))"
proof -
  have "registry_ok components registry"
    using assms by (induction rule: registry_run.induct) (auto intro: registry_start_ok register_ok remove_ok)
  then show ?thesis by (simp add: registry_ok_def)
qed

definition demo_extension_tool :: tool_definition where
  "demo_extension_tool = extension_tool_with_version ''ext'' None ''fetch'' ''Fetch.'' (string_object [''url''] [] 100) UsesNetwork VisibleTool"

theorem registry_invariant_witness:
  "\<exists>registry. registry_run full_components registry \<and> demo_extension_tool \<in> set registry
     \<and> filter (\<lambda>d. td_owner d = BuiltIn) registry = registry_for_components full_components"
proof -
  have full: "project_tools_enabled full_components" by (simp add: project_tools_enabled_def full_preset [symmetric] preset_exact all_components_def)
  have "extension_tool_rejection (registry_for_components full_components) demo_extension_tool = None"
    by (simp add: extension_tool_rejection_def registry_for_components_def full registry_get_def is_extension_owner_def
        with_project_read_only_and_agent_edit_tools_def builtin_tools demo_extension_tool_def extension_tool_with_version_def
        BUILTIN_TOOL_NAMES_def is_extension_declarable_def)
  then have run: "registry_run full_components (registry_for_components full_components @ [demo_extension_tool])"
    by (intro registry_registered [OF registry_start, where tool = demo_extension_tool]) (simp add: register_extension_tool_def)
  show ?thesis using run registry_invariant [OF run] by auto
qed

section \<open>The catalog\<close>

lemma builtin_definition_Inr:
  "builtin_definition registry name = Inr d \<longleftrightarrow> registry_get registry name = Some d \<and> td_owner d = BuiltIn"
  by (auto simp: builtin_definition_def result_simps)

lemma extension_definition_Inr:
  "extension_definition registry rule = Inr d \<longleftrightarrow>
     registry_get registry (rr_extension_tool rule) = Some d \<and> (\<exists>version. td_owner d = ExtensionOwner (rr_extension_id rule) version)"
proof (cases "registry_get registry (rr_extension_tool rule)")
  case (Some tool)
  then show ?thesis by (cases "td_owner tool") (auto simp: extension_definition_def ok_or_def)
qed (simp add: extension_definition_def ok_or_def)

text \<open>How a resolved tool may stand for a built-in one.\<close>

definition replaces :: "tool_registry \<Rightarrow> tool_replacement_rule list \<Rightarrow> resolved_tool \<Rightarrow> bool" where
  "replaces registry rules t \<longleftrightarrow> (\<exists>rule builtin ext version. rule \<in> set rules \<and> source_trusted (rr_source rule)
     \<and> (rr_mode rule = ReplaceBuiltin \<or> rr_mode rule = ReplaceBuiltinWithExtensionContract)
     \<and> builtin \<in> set registry \<and> td_owner builtin = BuiltIn \<and> td_name builtin = rr_builtin_name rule
     \<and> ext \<in> set registry \<and> td_owner ext = ExtensionOwner (rr_extension_id rule) version \<and> td_name ext = rr_extension_tool rule
     \<and> td_risk ext = td_risk builtin
     \<and> (rr_mode rule = ReplaceBuiltin \<longrightarrow> td_input_schema ext = td_input_schema builtin)
     \<and> rt_provider_name t = td_name builtin \<and> rt_implementation_name t = td_name ext
     \<and> rt_definition t = (if rr_mode rule = ReplaceBuiltinWithExtensionContract then ext else builtin)\<lparr>td_name := td_name builtin\<rparr>
     \<and> rt_provenance t = ReplacementProvenance (rr_extension_id rule) (tool_extension_version ext) (td_name builtin)
         (source_label (rr_source rule)))"

definition replacement_ok ::
  "tool_registry \<Rightarrow> tool_permission_policy \<Rightarrow> string set \<Rightarrow> tool_replacement_rule list \<Rightarrow> replacement_state \<Rightarrow> bool" where
  "replacement_ok registry policy executable rules st \<longleftrightarrow>
     (\<forall>t \<in> set (rs_tools st). replaces registry rules t \<and> allows_provider_advertising policy (rt_definition t)
        \<and> is_provider_advertising_routable (rt_definition t) \<and> rt_implementation_name t \<in> executable
        \<and> rt_provider_name t \<in> rs_replaced st \<and> rt_implementation_name t \<in> rs_implementations st)
     \<and> rs_replaced st = rt_provider_name ` set (rs_tools st)
     \<and> rs_implementations st = rt_implementation_name ` set (rs_tools st)"

lemma replaces_mono: "set rules \<subseteq> set rules' \<Longrightarrow> replaces registry rules t \<Longrightarrow> replaces registry rules' t"
  unfolding replaces_def by (elim exE conjE, intro exI conjI) auto

lemma replace_builtin_ok:
  assumes "replace_builtin registry policy executable rule st = Inr st'" "replacement_ok registry policy executable rules st"
    and "rule \<in> set rules" "source_trusted (rr_source rule)"
    and "rr_mode rule = ReplaceBuiltin \<or> rr_mode rule = ReplaceBuiltinWithExtensionContract"
  shows "replacement_ok registry policy executable rules st'"
proof -
  obtain builtin ext version where b: "registry_get registry (rr_builtin_name rule) = Some builtin" "td_owner builtin = BuiltIn"
      and e: "registry_get registry (rr_extension_tool rule) = Some ext" "td_owner ext = ExtensionOwner (rr_extension_id rule) version"
      and risk: "td_risk ext = td_risk builtin" "rr_mode rule = ReplaceBuiltin \<longrightarrow> td_input_schema ext = td_input_schema builtin"
    using assms(1) unfolding replace_builtin_def
    by (auto simp: result_simps builtin_definition_Inr extension_definition_Inr validate_replacement_shape_def split: if_splits)
  let ?shown = "(if rr_mode rule = ReplaceBuiltinWithExtensionContract then ext else builtin)\<lparr>td_name := td_name builtin\<rparr>"
  let ?t = "\<lparr>rt_provider_name = td_name builtin, rt_implementation_name = td_name ext, rt_definition = ?shown,
      rt_provenance = ReplacementProvenance (rr_extension_id rule) (tool_extension_version ext) (td_name builtin)
        (source_label (rr_source rule))\<rparr>"
  have st': "st' = (if td_name ext \<in> executable \<and> allows_provider_advertising policy ?shown \<and> is_provider_advertising_routable ?shown
      then st\<lparr>rs_replaced := insert (td_name builtin) (rs_replaced st),
             rs_implementations := insert (td_name ext) (rs_implementations st), rs_tools := rs_tools st @ [?t]\<rparr> else st)"
    using assms(1) b e unfolding replace_builtin_def
    by (auto simp: result_simps builtin_definition_Inr extension_definition_Inr Let_def simp del: if_split split: if_splits)
  have "replaces registry rules ?t"
    unfolding replaces_def
    by (rule exI [of _ rule], rule exI [of _ builtin], rule exI [of _ ext], rule exI [of _ version])
      (use b e risk assms(3-5) registry_get_Some in auto)
  then show ?thesis using assms(2) st' by (auto simp: replacement_ok_def)
qed

lemma replacement_rules_ok:
  assumes "apply_replacement_rules registry policy executable rules st = Inr st'"
    and "replacement_ok registry policy executable all st" "set rules \<subseteq> set all"
  shows "replacement_ok registry policy executable all st' \<and> (\<forall>rule \<in> set rules. source_trusted (rr_source rule))
    \<and> rs_disabled st \<subseteq> rs_disabled st' \<and> rs_denied st \<subseteq> rs_denied st'
    \<and> (\<forall>rule \<in> set rules. rr_mode rule = DisableBuiltin \<longrightarrow> rr_builtin_name rule \<in> rs_disabled st')
    \<and> (\<forall>rule \<in> set rules. rr_mode rule = DenyTool \<longrightarrow> rr_extension_tool rule \<in> rs_denied st')"
  using assms
proof (induction rules arbitrary: st)
  case (Cons rule rules)
  obtain st1 where st1: "apply_replacement_rule registry policy executable rule st = Inr st1"
      "apply_replacement_rules registry policy executable rules st1 = Inr st'"
    using Cons.prems(1) by (auto simp: result_simps)
  have trusted: "source_trusted (rr_source rule)"
    using st1(1) by (auto simp: apply_replacement_rule_def validate_replacement_rule_source_def result_simps split: if_splits)
  have step: "replacement_ok registry policy executable all st1 \<and> rs_disabled st \<subseteq> rs_disabled st1 \<and> rs_denied st \<subseteq> rs_denied st1
      \<and> (rr_mode rule = DisableBuiltin \<longrightarrow> rr_builtin_name rule \<in> rs_disabled st1)
      \<and> (rr_mode rule = DenyTool \<longrightarrow> rr_extension_tool rule \<in> rs_denied st1)"
  proof (cases "rr_mode rule = ReplaceBuiltin \<or> rr_mode rule = ReplaceBuiltinWithExtensionContract")
    case True
    then have r: "replace_builtin registry policy executable rule st = Inr st1"
      using st1(1) trusted by (auto simp: apply_replacement_rule_def validate_replacement_rule_source_def)
    then have "rs_disabled st1 = rs_disabled st \<and> rs_denied st1 = rs_denied st"
      by (auto simp: replace_builtin_def result_simps Let_def split: if_splits)
    then show ?thesis using replace_builtin_ok [OF r Cons.prems(2) _ trusted True] Cons.prems(3) True by auto
  next
    case False
    then show ?thesis using st1(1) Cons.prems(2) trusted
      by (cases "rr_mode rule") (auto simp: apply_replacement_rule_def validate_replacement_rule_source_def result_simps
          builtin_definition_Inr replacement_ok_def dest: registry_get_Some)
  qed
  then show ?case using Cons.IH [OF st1(2)] Cons.prems(3) trusted by auto
qed simp

text \<open>
  C16. A tool of the catalog of a turn can be run, may be advertised under the user's policy, and
  is either a visible tool of the registry under its own name, neither disabled, replaced nor
  denied, or an extension's tool that stands for a built-in one: then a trusted rule names both,
  the extension owns its tool, and the two have the same risk and, unless the rule says that the
  extension's contract is shown, the same schema. A rule of an untrusted project yields no
  catalog at all.
\<close>

theorem catalog_sound:
  assumes "resolve_provider_turn_catalog_with_replacements registry policy executable rules = Inr catalog" "t \<in> set catalog"
  shows "(\<forall>rule \<in> set rules. source_trusted (rr_source rule))
    \<and> allows_provider_advertising policy (rt_definition t) \<and> is_provider_advertising_routable (rt_definition t)
    \<and> rt_implementation_name t \<in> set executable
    \<and> ((rt_definition t \<in> set registry \<and> t = resolved_as_is (rt_definition t)
         \<and> (td_owner (rt_definition t) = BuiltIn \<longrightarrow>
              (\<forall>rule \<in> set rules. rr_mode rule = DisableBuiltin \<longrightarrow> rr_builtin_name rule \<noteq> td_name (rt_definition t))
              \<and> (\<forall>u \<in> set catalog. replaces registry rules u \<longrightarrow> rt_provider_name u \<noteq> td_name (rt_definition t)))
         \<and> (td_owner (rt_definition t) \<noteq> BuiltIn \<longrightarrow>
              (\<forall>rule \<in> set rules. rr_mode rule = DenyTool \<longrightarrow> rr_extension_tool rule \<noteq> td_name (rt_definition t))))
       \<or> replaces registry rules t)"
proof -
  obtain st where st: "apply_replacement_rules registry policy (set executable) rules no_replacements = Inr st"
    and catalog: "set catalog = resolved_as_is ` {d \<in> set registry. kept_after_replacement st d \<and> advertisable policy (set executable) d}
        \<union> set (rs_tools st)"
    using assms(1) by (auto simp: resolve_provider_turn_catalog_with_replacements_def result_simps)
  have "replacement_ok registry policy (set executable) rules no_replacements"
    by (simp add: replacement_ok_def no_replacements_def)
  note ok = replacement_rules_ok [OF st this subset_refl]
  have as_is: "\<not> replaces registry rules (resolved_as_is d)" for d
    by (auto simp: replaces_def resolved_as_is_def tool_provenance_of_def split: tool_owner.splits)
  have replaced: "rt_provider_name u \<in> rs_replaced st" if "u \<in> set catalog" "replaces registry rules u" for u
    using that catalog as_is ok by (auto simp: replacement_ok_def)
  from assms(2) catalog consider d where "d \<in> set registry" "kept_after_replacement st d" "advertisable policy (set executable) d"
      "t = resolved_as_is d" | "t \<in> set (rs_tools st)" by blast
  then show ?thesis
  proof cases
    case 1
    moreover have "rt_definition t = d" "rt_implementation_name t = td_name d" using 1(4) by (simp_all add: resolved_as_is_def)
    ultimately show ?thesis using ok
      by (cases "td_owner d") (auto simp: advertisable_def kept_after_replacement_def is_extension_owner_def dest: replaced)
  next
    case 2
    then show ?thesis using ok by (auto simp: replacement_ok_def)
  qed
qed

text \<open>
  A rule that denies an extension's tool does not stop another rule from putting that tool in the
  place of a built-in one.
\<close>

definition demo_replacement :: tool_definition where
  "demo_replacement = extension_tool_with_version ''ext'' None ''ext_read'' ''Read.'' (td_input_schema read_text_file_tool)
     ReadsLocalContent VisibleTool"

definition demo_rule :: "tool_resolution_mode \<Rightarrow> tool_replacement_rule" where
  "demo_rule mode = \<lparr>rr_builtin_name = ''read_text_file'', rr_extension_id = ''ext'', rr_extension_tool = ''ext_read'',
     rr_mode = mode, rr_source = UserSource\<rparr>"

definition demo_catalog :: "(tool_resolution_error, resolved_catalog) result" where
  "demo_catalog = resolve_provider_turn_catalog_with_replacements [read_text_file_tool, demo_replacement]
     (allow_project_metadata_content_and_agent_edit_tools [] [''read_text_file'', ''ext_read''] [])
     [''read_text_file'', ''ext_read''] [demo_rule DenyTool, demo_rule ReplaceBuiltin]"

lemma read_text_file_routable:
  "is_provider_advertising_routable (read_text_file_tool\<lparr>td_name := ''read_text_file''\<rparr>)"
  "is_provider_advertising_routable read_text_file_tool"
  by (simp_all add: is_provider_advertising_routable_def project_provider_advertised_tool_def builtin_risk_def
      is_canonical_builtin_provider_tool_def canonical_tool_def read_text_file_tool_def builtin_tool_def)

lemma denied_tool_still_replaces:
  "\<exists>t. demo_catalog = Inr [t] \<and> rt_provider_name t = ''read_text_file'' \<and> rt_implementation_name t = ''ext_read''"
proof -
  have tools: "td_name read_text_file_tool = ''read_text_file''" "td_owner read_text_file_tool = BuiltIn"
      "td_risk read_text_file_tool = ReadsLocalContent" "td_name demo_replacement = ''ext_read''"
      "td_owner demo_replacement = ExtensionOwner ''ext'' None" "td_risk demo_replacement = ReadsLocalContent"
      "td_input_schema demo_replacement = td_input_schema read_text_file_tool"
    by (simp_all add: read_text_file_tool_def builtin_tool_def demo_replacement_def extension_tool_with_version_def)
  then show ?thesis
    by (simp add: demo_catalog_def resolve_provider_turn_catalog_with_replacements_def demo_rule_def apply_replacement_rule_def
        validate_replacement_rule_source_def source_trusted_def replace_builtin_def builtin_definition_def extension_definition_def
        registry_get_def validate_replacement_shape_def read_text_file_routable no_replacements_def kept_after_replacement_def
        allows_provider_advertising_def allow_project_metadata_content_and_agent_edit_tools_def deny_all_def is_extension_owner_def)
qed

theorem catalog_sound_witness:
  "\<exists>t catalog. demo_catalog = Inr catalog \<and> t \<in> set catalog \<and> rt_implementation_name t = ''ext_read''
     \<and> replaces [read_text_file_tool, demo_replacement] [demo_rule DenyTool, demo_rule ReplaceBuiltin] t"
proof -
  obtain t where t: "demo_catalog = Inr [t]" "rt_provider_name t = ''read_text_file''" "rt_implementation_name t = ''ext_read''"
    using denied_tool_still_replaces by blast
  then show ?thesis
    using catalog_sound [OF t(1) [unfolded demo_catalog_def], of t] by (fastforce simp: resolved_as_is_def)
qed

section \<open>Advertising\<close>

lemma map_of_json_map_insert [simp]: "map_of (json_map_insert key v kvs) = (map_of kvs)(key \<mapsto> v)"
  by (induction key v kvs rule: json_map_insert.induct) auto

lemma json_map_insert_values:
  "P v \<Longrightarrow> list_all P (map snd kvs) \<Longrightarrow> list_all P (map snd (json_map_insert key v kvs))"
  by (induction key v kvs rule: json_map_insert.induct) auto

lemma schema_property_ok: "kind = ''string'' \<or> kind = ''number'' \<Longrightarrow> property_schema_ok (schema_property kind tool_name name)"
  by (auto simp: property_schema_ok_def schema_property_def has_exact_keys_def json_as_str_def)

lemma fold_properties:
  "list_all P (map snd kvs) \<Longrightarrow> \<forall>n. P (f n) \<Longrightarrow> list_all P (map snd (fold (\<lambda>n. json_map_insert n (f n)) names kvs))"
  "map_of (fold (\<lambda>n. json_map_insert n (f n)) names kvs) name \<noteq> None \<longleftrightarrow> name \<in> set names \<or> map_of kvs name \<noteq> None"
  by (induction names arbitrary: kvs) (auto simp: json_map_insert_values)

lemma required_fields_ok_strings:
  "distinct names \<Longrightarrow> set names \<inter> seen = {} \<Longrightarrow> \<forall>name \<in> set names. map_of properties name \<noteq> None
     \<Longrightarrow> required_fields_ok properties seen (map JString names)"
  by (induction names arbitrary: seen) (auto simp: json_as_str_def)

lemma provider_schema_ok:
  assumes "distinct (required_string_fields schema)"
  shows "schema_structure_ok (to_provider_json_schema schema name)"
proof -
  let ?strings = "fold (\<lambda>n. json_map_insert n (schema_property ''string'' name n))
      (required_string_fields schema @ optional_string_fields schema) []"
  let ?properties = "fold (\<lambda>n. json_map_insert n (schema_property ''number'' name n)) (optional_number_fields schema) ?strings"
  have "list_all property_schema_ok (map snd ?strings)" by (rule fold_properties(1)) (simp_all add: schema_property_ok)
  then have "list_all property_schema_ok (map snd ?properties)" by (rule fold_properties(1)) (simp add: schema_property_ok)
  moreover have "required_fields_ok ?properties {} (map JString (required_string_fields schema))"
    using assms by (intro required_fields_ok_strings ballI) (simp_all only: fold_properties(2), auto)
  ultimately show ?thesis
    by (simp add: schema_structure_ok_def to_provider_json_schema_def Let_def has_exact_keys_def json_as_str_def)
qed

definition advertised :: "tool_definition \<Rightarrow> provider_advertised_tool_schema" where
  "advertised tool = \<lparr>pat_name = td_name tool, pat_description = td_description tool,
     pat_parameters = to_provider_json_schema (td_input_schema tool) (td_name tool)\<rparr>"

lemma advertised_name [simp]: "pat_name (advertised tool) = td_name tool"
  by (simp add: advertised_def)

lemma advertise_tools_Inr:
  "advertise_tools names tools = Inr as \<Longrightarrow> as = map advertised tools \<and> distinct (map td_name tools)
     \<and> td_name ` set tools \<inter> names = {}"
proof (induction tools arbitrary: names as)
  case (Cons tool tools)
  obtain rest where "td_name tool \<notin> names" "advertise_tools (insert (td_name tool) names) tools = Inr rest" "as = advertised tool # rest"
    using Cons.prems by (auto simp: result_simps validate_unique_tool_name_def project_provider_advertised_tool_def advertised_def split: if_splits)
  then show ?case using Cons.IH by fastforce
qed simp

text \<open>A tool shows a built-in name with another contract.\<close>

definition foreign_contract :: "tool_definition \<Rightarrow> bool" where
  "foreign_contract tool \<longleftrightarrow> (\<exists>canonical. canonical_tool (td_name tool) = Some canonical
     \<and> (td_description tool \<noteq> td_description canonical
        \<or> to_provider_json_schema (td_input_schema tool) (td_name tool)
          \<noteq> to_provider_json_schema (td_input_schema canonical) (td_name canonical)))"

lemma validate_advertised_schema:
  assumes "distinct (required_string_fields (td_input_schema tool))"
  shows "validate_provider_advertised_tool_schema relaxed (advertised tool)
    = (if relaxed \<or> \<not> foreign_contract tool then Inr () else Inl (UnsupportedSchema (td_name tool)))"
  using provider_schema_ok [OF assms]
  by (auto simp: validate_provider_advertised_tool_schema_def advertised_def foreign_contract_def fail_if_def split: option.splits if_splits)

lemma validate_advertised:
  assumes "\<forall>tool \<in> set tools. distinct (required_string_fields (td_input_schema tool))"
    and "distinct (map td_name tools)" "td_name ` set tools \<inter> names = {}"
  shows "if relaxed \<or> (\<forall>tool \<in> set tools. \<not> foreign_contract tool)
    then validate_advertised_tools relaxed names (map advertised tools) = Inr ()
    else \<exists>tool \<in> set tools. foreign_contract tool
       \<and> validate_advertised_tools relaxed names (map advertised tools) = Inl (UnsupportedSchema (td_name tool))"
  using assms
proof (induction tools arbitrary: names)
  case (Cons tool tools)
  let ?rest = "validate_advertised_tools relaxed (insert (td_name tool) names) (map advertised tools)"
  have rest: "if relaxed \<or> (\<forall>tool \<in> set tools. \<not> foreign_contract tool) then ?rest = Inr ()
      else \<exists>tool \<in> set tools. foreign_contract tool \<and> ?rest = Inl (UnsupportedSchema (td_name tool))"
    using Cons.prems by (intro Cons.IH) auto
  have "validate_advertised_tools relaxed names (map advertised (tool # tools))
      = (if relaxed \<or> \<not> foreign_contract tool then ?rest else Inl (UnsupportedSchema (td_name tool)))"
    using Cons.prems validate_advertised_schema by (auto simp: result_simps validate_unique_tool_name_def)
  with rest show ?case by (auto split: if_splits)
qed simp

text \<open>
  The contract of a built-in tool, \<open>bash\<close> included, and a tool that shows no built-in name or the
  contract that belongs to it.
\<close>

definition builtin_contract :: "string \<Rightarrow> tool_definition option" where
  "builtin_contract name = (if name = ''bash'' then Some bash_tool else canonical_tool name)"

definition shows_own_contract :: "tool_definition \<Rightarrow> bool" where
  "shows_own_contract tool \<longleftrightarrow> (case builtin_contract (td_name tool) of
     None \<Rightarrow> True
   | Some canonical \<Rightarrow> td_description tool = td_description canonical
       \<and> to_provider_json_schema (td_input_schema tool) (td_name tool)
         = to_provider_json_schema (td_input_schema canonical) (td_name canonical))"

lemma foreign_contract_own: "foreign_contract tool \<longleftrightarrow> td_name tool \<noteq> ''bash'' \<and> \<not> shows_own_contract tool"
  by (auto simp: foreign_contract_def shows_own_contract_def builtin_contract_def canonical_tool_def)

text \<open>
  C40. The tools advertised to a provider, distinct in name, are read back as they were, one entry
  for each tool in its order, when the encoding of the advertisement is read back as it was written:
  those of an approved request always; those of one that is not approved when every tool with a
  built-in name, \<open>bash\<close> included, has the description and the schema of that built-in tool. An
  unapproved request in which a tool has the name of a built-in tool other than \<open>bash\<close> and not its
  description or schema is refused, naming such a tool. What becomes of another contract under
  the name \<open>bash\<close> is not part of this: see \<open>bash_contract_unchecked\<close> below.
\<close>

theorem advertising_roundtrip:
  assumes "\<forall>as v. adv_to_value codec as = Some v \<longrightarrow> adv_from_value codec v = Some as"
    and "build_provider_tool_advertising_extension codec tools = Inr ext"
    and "\<forall>tool \<in> set tools. distinct (required_string_fields (td_input_schema tool))"
  shows "parse_with_approved_contracts codec [ext] = Inr (Some (map advertised tools))
    \<and> ((\<forall>tool \<in> set tools. shows_own_contract tool) \<longrightarrow>
         parse_provider_tool_advertising_extensions codec [ext] = Inr (Some (map advertised tools)))
    \<and> ((\<exists>tool \<in> set tools. td_name tool \<noteq> ''bash'' \<and> \<not> shows_own_contract tool) \<longrightarrow>
         (\<exists>tool \<in> set tools. td_name tool \<noteq> ''bash'' \<and> \<not> shows_own_contract tool
            \<and> parse_provider_tool_advertising_extensions codec [ext] = Inl (UnsupportedSchema (td_name tool))))
    \<and> distinct (map td_name tools) \<and> strip_provider_tool_advertising_extensions [ext] = []"
proof -
  obtain as v where as: "advertise_tools {} tools = Inr as" "adv_to_value codec as = Some v" "tools \<noteq> []"
      "ext = (PROVIDER_TOOL_ADVERTISING_EXTENSION_KEY, v)"
    using assms(2) by (auto simp: build_provider_tool_advertising_extension_def result_simps)
  have tools: "as = map advertised tools" "distinct (map td_name tools)" using advertise_tools_Inr [OF as(1)] by auto
  have parse: "parse_advertising codec relaxed None [ext]
      = map_sum id (\<lambda>_. Some (map advertised tools)) (validate_advertised_tools relaxed {} (map advertised tools))" for relaxed
    using assms(1) as(2,3,4) tools(1)
    by (cases "validate_advertised_tools relaxed {} (map advertised tools)") (simp_all add: result_simps validate_provider_tool_advertising_def)
  note valid = validate_advertised [OF assms(3) tools(2), where names = "{}", simplified]
  have "parse_with_approved_contracts codec [ext] = Inr (Some (map advertised tools))"
    using valid [of True] by (simp add: parse_with_approved_contracts_def parse)
  moreover have "parse_provider_tool_advertising_extensions codec [ext] = Inr (Some (map advertised tools))"
    if "\<forall>tool \<in> set tools. shows_own_contract tool"
    using valid [of False] that by (auto simp: parse_provider_tool_advertising_extensions_def parse foreign_contract_own split: if_splits)
  moreover have "\<exists>tool \<in> set tools. td_name tool \<noteq> ''bash'' \<and> \<not> shows_own_contract tool
      \<and> parse_provider_tool_advertising_extensions codec [ext] = Inl (UnsupportedSchema (td_name tool))"
    if "\<exists>tool \<in> set tools. td_name tool \<noteq> ''bash'' \<and> \<not> shows_own_contract tool"
    using valid [of False] that by (auto simp: parse_provider_tool_advertising_extensions_def parse foreign_contract_own split: if_splits)
  ultimately show ?thesis using tools(2) as(4) by (simp add: strip_provider_tool_advertising_extensions_def)
qed

definition demo_codec_adv :: advertising_codec where
  "demo_codec_adv = \<lparr>adv_to_value = (\<lambda>as. Some (JArray (map (\<lambda>a. JArray [JString (pat_name a), JString (pat_description a), pat_parameters a]) as))),
     adv_from_value = (\<lambda>v. case v of JArray vs \<Rightarrow> Some (map (\<lambda>w. case w of JArray [JString n, JString d, p] \<Rightarrow>
       \<lparr>pat_name = n, pat_description = d, pat_parameters = p\<rparr>) vs) | _ \<Rightarrow> None)\<rparr>"

theorem advertising_roundtrip_witness:
  "\<exists>ext. build_provider_tool_advertising_extension demo_codec_adv [read_text_file_tool] = Inr ext
     \<and> parse_provider_tool_advertising_extensions demo_codec_adv [ext] = Inr (Some [advertised read_text_file_tool])"
proof -
  have law: "\<forall>as v. adv_to_value demo_codec_adv as = Some v \<longrightarrow> adv_from_value demo_codec_adv v = Some as"
    by (auto simp: demo_codec_adv_def o_def intro!: map_idI)
  obtain ext where ext: "build_provider_tool_advertising_extension demo_codec_adv [read_text_file_tool] = Inr ext"
    by (simp add: build_provider_tool_advertising_extension_def validate_unique_tool_name_def project_provider_advertised_tool_def
        builtin_risk_def is_canonical_builtin_provider_tool_def canonical_tool_def read_text_file_tool_def builtin_tool_def demo_codec_adv_def)
  have "distinct (required_string_fields (td_input_schema read_text_file_tool))" "shows_own_contract read_text_file_tool"
    by (simp_all add: read_text_file_tool_def builtin_tool_def string_object_def btree_set_def shows_own_contract_def
        builtin_contract_def canonical_tool_def)
  then show ?thesis using advertising_roundtrip [OF law ext] ext by auto
qed

text \<open>The contract of \<open>bash\<close> is not among those an unapproved request is held to.\<close>

lemma bash_contract_unchecked:
  "schema_structure_ok (pat_parameters tool) \<Longrightarrow> pat_name tool = ''bash''
     \<Longrightarrow> validate_provider_advertised_tool_schema False tool = Inr ()"
  by (simp add: validate_provider_advertised_tool_schema_def canonical_tool_def)

section \<open>Validation and its record\<close>

text \<open>Whatever a catalog shows may be run, the built-in editing tools apart, which the edit layer decides.\<close>

lemma advertised_authorized:
  "allows_provider_advertising policy d \<Longrightarrow> td_risk d \<noteq> MutatesLocalState \<Longrightarrow> authorize policy d = ToolAllowed"
  by (auto simp: allows_provider_advertising_def authorize_def split: tool_risk.splits)

lemma validate_resolved_Inr:
  "validate_resolved js req policy catalog = Inr validation \<longleftrightarrow>
     (\<exists>tool. resolved_tool_named catalog (tr_tool_name req) = Some tool
        \<and> validate_arguments js (td_input_schema (rt_definition tool)) (tr_arguments req) = Inr ()
        \<and> resolved_permission policy tool \<noteq> ToolDenied
        \<and> validation = \<lparr>tv_request_id = tr_request_id req, tv_tool_name = tr_tool_name req, tv_permission = resolved_permission policy tool\<rparr>)"
  by (auto simp: validate_resolved_def result_simps validation_with_def split: if_splits)

section \<open>Continuation\<close>

lemma map_continuation_results_Inr:
  "map_continuation_results policy rs = Inr cs \<Longrightarrow>
     map ct_content cs = map ptr_content rs \<and> map (Some \<circ> ct_provider_call_id) cs = map ptr_provider_call_id rs
     \<and> (\<forall>r \<in> set rs. status_supported policy (ptr_status r) \<and> ptr_provider_call_id r \<noteq> None)"
  by (induction rs arbitrary: cs) (auto simp: result_simps)

lemma validate_continuation_results_iff:
  "validate_continuation_results policy rs = Inr () \<longleftrightarrow> (\<forall>r \<in> set rs.
     (vp_require_provider_call_id policy \<longrightarrow> ptr_provider_call_id r \<noteq> None)
     \<and> length (ptr_content r) \<le> vp_max_result_content_bytes policy
     \<and> (ptr_redacted r \<longrightarrow> vp_allow_redacted_results policy) \<and> (ptr_truncated r \<longrightarrow> vp_allow_truncated_results policy))"
  by (induction rs) (auto simp: result_simps)

lemma continuation_submits:
  assumes "build_provider_continuation_submission request policy = Inr sub"
  shows "map ct_content (cs_tool_results sub) = map ptr_content (cq_tool_results request)
    \<and> map (Some \<circ> ct_provider_call_id) (cs_tool_results sub) = map ptr_provider_call_id (cq_tool_results request)
    \<and> cs_tool_results sub \<noteq> []
    \<and> (\<forall>r \<in> set (cq_tool_results request). length (ptr_content r) \<le> vp_max_result_content_bytes policy
         \<and> ptr_status r \<in> {Completed, Failed})"
proof -
  obtain cs where cs: "validate_continuation_results policy (cq_tool_results request) = Inr ()" "cq_tool_results request \<noteq> []"
      "map_continuation_results policy (cq_tool_results request) = Inr cs" "cs_tool_results sub = cs"
    using assms by (auto simp: build_provider_continuation_submission_def validate_provider_continuation_request_def result_simps)
  moreover have "status \<in> {Completed, Failed}" if "status_supported policy status" for status
    using that by (cases status) (simp_all add: status_supported_def)
  ultimately show ?thesis using map_continuation_results_Inr [OF cs(3)]
    by (auto simp: validate_continuation_results_iff)
qed

end
