(* ===== verification/Resource_Search_Properties.thy ===== *)
theory Resource_Search_Properties
  imports Resource_Search Edit_Properties
begin

text \<open>
  What the search and the listing of \<^verbatim>\<open>resource.rs\<close> return: a search that is not cut off
  finds every matching line of every file it may look at, and nothing else; a cut off one
  finds some of them, within its limits; nothing sensitive is shown; and the descent ends.
\<close>

section \<open>Lines of one file\<close>

definition line_matches :: "string \<Rightarrow> string \<Rightarrow> nat \<Rightarrow> string list \<Rightarrow> resource_search_match list" where
  "line_matches query relative i ls =
     map (\<lambda>(j, l). \<lparr>sm_relative_path = relative, sm_line_number = j + 1, sm_line = l\<rparr>)
       (filter (\<lambda>(j, l). sublist query l) (enumerate i ls))"

lemma line_matches_simps [simp]:
  "line_matches query relative i [] = []"
  "line_matches query relative i (l # ls) =
     (if sublist query l then \<lparr>sm_relative_path = relative, sm_line_number = i + 1, sm_line = l\<rparr> # line_matches query relative (i + 1) ls
      else line_matches query relative (i + 1) ls)"
  by (simp_all add: line_matches_def)

lemma search_lines_keeps [simp]:
  "sr_searched_files (search_lines query k relative i ls r) = sr_searched_files r"
  "sr_denied_paths_excluded (search_lines query k relative i ls r) = sr_denied_paths_excluded r"
  by (induction ls arbitrary: i r) (simp_all add: Let_def)

lemma search_lines_found:
  "set (sr_matches (search_lines query k relative i ls r)) \<subseteq> set (sr_matches r) \<union> set (line_matches query relative i ls)"
proof (induction ls arbitrary: i r)
  case (Cons l ls)
  let ?m = "\<lparr>sm_relative_path = relative, sm_line_number = i + 1, sm_line = l\<rparr>"
  show ?case using Cons.IH [of "i + 1" r] Cons.IH [of "i + 1" "r\<lparr>sr_matches := sr_matches r @ [?m]\<rparr>"] by (auto simp: Let_def)
qed simp

lemma search_lines_all:
  "\<not> sr_truncated (search_lines query k relative i ls r) \<Longrightarrow>
     sr_matches (search_lines query k relative i ls r) = sr_matches r @ line_matches query relative i ls"
  by (induction ls arbitrary: i r) (auto simp: Let_def split: if_splits)

lemma search_lines_bounded:
  "length (sr_matches r) < k \<Longrightarrow> length (sr_matches (search_lines query k relative i ls r)) \<le> k"
  by (induction ls arbitrary: i r) (auto simp: Let_def)

section \<open>One file\<close>

definition file_matches :: "resource_root \<Rightarrow> fs \<Rightarrow> string \<Rightarrow> nat \<Rightarrow> spath \<Rightarrow> resource_search_match list" where
  "file_matches base s query max_bytes path =
     (case normalized_relative_path base path of
        Inl _ \<Rightarrow> []
      | Inr relative \<Rightarrow>
          if sensitive_denies base relative \<or> (case fs_metadata (nodes s) path of None \<Rightarrow> True | Some nd \<Rightarrow> fs_len nd > max_bytes)
          then []
          else (case read_text_file base s relative max_bytes of
              Inl _ \<Rightarrow> [] | Inr out \<Rightarrow> line_matches query relative 0 (str_lines (read_text out))))"

definition within_limits :: "resource_search_policy \<Rightarrow> resource_search_result \<Rightarrow> bool" where
  "within_limits policy r \<longleftrightarrow> length (sr_matches r) \<le> sp_max_matches policy \<and> sr_searched_files r \<le> sp_max_files policy"

abbreviation found_in :: "resource_root \<Rightarrow> fs \<Rightarrow> string \<Rightarrow> resource_search_policy \<Rightarrow> spath \<Rightarrow> resource_search_match set" where
  "found_in base s query policy p \<equiv> set (file_matches base s query (sp_max_file_bytes policy) p)"

text \<open>A step of the search that looks at the files \<open>P\<close>.\<close>

definition search_step ::
  "(spath \<Rightarrow> resource_search_match set) \<Rightarrow> spath set \<Rightarrow> resource_search_policy \<Rightarrow> resource_search_result
   \<Rightarrow> resource_search_result \<Rightarrow> bool" where
  "search_step F P policy r r' \<longleftrightarrow>
     set (sr_matches r') \<subseteq> set (sr_matches r) \<union> \<Union> (F ` P)
     \<and> (\<not> sr_truncated r' \<longrightarrow> set (sr_matches r') = set (sr_matches r) \<union> \<Union> (F ` P))
     \<and> (within_limits policy r \<longrightarrow> within_limits policy r')"

lemma search_step_refl [simp]: "search_step F {} policy r r"
  by (simp add: search_step_def)

lemma search_step_trans:
  "search_step F P policy r r' \<Longrightarrow> \<not> sr_truncated r' \<Longrightarrow> search_step F Q policy r' r'' \<Longrightarrow> search_step F (P \<union> Q) policy r r''"
  unfolding search_step_def by fastforce

lemma search_step_stop:
  "search_step F P policy r r' \<Longrightarrow> sr_truncated r' \<Longrightarrow> search_step F (P \<union> Q) policy r r'"
  unfolding search_step_def by fastforce

lemma search_file_step:
  assumes "search_file base s query policy path r = Inr r'"
  shows "search_step (found_in base s query policy) {path} policy r r'"
proof (cases "sr_searched_files r \<ge> sp_max_files policy \<or> length (sr_matches r) \<ge> sp_max_matches policy")
  case True
  then show ?thesis using assms by (auto simp: search_file_def search_step_def within_limits_def)
next
  case False
  obtain relative where rel: "normalized_relative_path base path = Inr relative"
    using assms False by (auto simp: search_file_def result_simps)
  show ?thesis
  proof (cases "sensitive_denies base relative
      \<or> (case fs_metadata (nodes s) path of None \<Rightarrow> True | Some nd \<Rightarrow> fs_len nd > sp_max_file_bytes policy)")
    case True
    then have "file_matches base s query (sp_max_file_bytes policy) path = []"
      using rel by (simp add: file_matches_def)
    moreover have "sr_matches r' = sr_matches r \<and> sr_searched_files r' = sr_searched_files r"
      using assms False True rel by (auto simp: search_file_def split: option.splits if_splits)
    ultimately show ?thesis by (simp add: search_step_def within_limits_def)
  next
    case searched: False
    let ?r = "r\<lparr>sr_searched_files := u64_saturating_add (sr_searched_files r) 1\<rparr>"
    have files: "sr_searched_files ?r \<le> sp_max_files policy" "length (sr_matches ?r) < sp_max_matches policy"
      using False by (auto simp: u64_saturating_add_def)
    have r': "r' = (case read_text_file base s relative (sp_max_file_bytes policy) of Inl _ \<Rightarrow> ?r
        | Inr out \<Rightarrow> search_lines query (sp_max_matches policy) relative 0 (str_lines (read_text out)) ?r)"
      using assms False searched rel by (auto simp: search_file_def Let_def split: option.splits if_splits sum.splits)
    have fm: "file_matches base s query (sp_max_file_bytes policy) path
      = (case read_text_file base s relative (sp_max_file_bytes policy) of Inl _ \<Rightarrow> []
         | Inr out \<Rightarrow> line_matches query relative 0 (str_lines (read_text out)))"
      using rel searched by (simp add: file_matches_def)
    show ?thesis
    proof (cases "read_text_file base s relative (sp_max_file_bytes policy)")
      case (Inl e)
      then show ?thesis using r' fm files by (simp add: search_step_def within_limits_def)
    next
      case (Inr out)
      let ?L = "search_lines query (sp_max_matches policy) relative 0 (str_lines (read_text out)) ?r"
      have "set (sr_matches ?L) \<subseteq> set (sr_matches r) \<union> set (line_matches query relative 0 (str_lines (read_text out)))"
        using search_lines_found [of query "sp_max_matches policy" relative 0 "str_lines (read_text out)" ?r] by simp
      moreover have "\<not> sr_truncated ?L \<Longrightarrow> sr_matches ?L = sr_matches r @ line_matches query relative 0 (str_lines (read_text out))"
        using search_lines_all [of query "sp_max_matches policy" relative 0 "str_lines (read_text out)" ?r] by simp
      moreover have "within_limits policy ?L"
        using search_lines_bounded [OF files(2)] files(1) by (simp add: within_limits_def)
      ultimately show ?thesis using Inr r' fm by (simp add: search_step_def)
    qed
  qed
qed

section \<open>The descent\<close>

text \<open>The files a search below \<open>dir\<close> looks at: regular ones, below no generated or heavy directory.\<close>

definition searchable :: "tree \<Rightarrow> spath \<Rightarrow> spath set" where
  "searchable N dir = {dir @ ns | ns. ns \<noteq> [] \<and> (\<exists>c m. N (dir @ ns) = Some (File c m))
     \<and> list_all (\<lambda>n. \<not> generated_or_heavy_resource_entry (from_utf8_lossy n)) (butlast ns)}"

definition searchable_entry :: "tree \<Rightarrow> spath \<Rightarrow> string \<Rightarrow> spath set" where
  "searchable_entry N dir name =
     (case N (dir @ [name]) of
        Some (File _ _) \<Rightarrow> {dir @ [name]}
      | Some Directory \<Rightarrow> if generated_or_heavy_resource_entry (from_utf8_lossy name) then {} else searchable N (dir @ [name])
      | _ \<Rightarrow> {})"

lemma searchable_entries:
  assumes "wf_tree N"
  shows "searchable N dir = (\<Union>name \<in> {name. N (dir @ [name]) \<noteq> None}. searchable_entry N dir name)"
proof (intro equalityI subsetI)
  fix p assume "p \<in> searchable N dir"
  then obtain ns c m where ns: "p = dir @ ns" "ns \<noteq> []" "N p = Some (File c m)"
      "list_all (\<lambda>n. \<not> generated_or_heavy_resource_entry (from_utf8_lossy n)) (butlast ns)"
    by (auto simp: searchable_def)
  then obtain n ms where n: "ns = n # ms" by (cases ns) auto
  show "p \<in> (\<Union>name \<in> {name. N (dir @ [name]) \<noteq> None}. searchable_entry N dir name)"
  proof (cases "ms = []")
    case True
    then show ?thesis using ns n by (intro UN_I [of n]) (auto simp: searchable_entry_def)
  next
    case False
    then have "N (dir @ [n]) = Some Directory" using wf_tree_prefix [OF assms, of "dir @ [n]" ms] ns n by simp
    then show ?thesis using ns n False
      by (intro UN_I [of n]) (auto simp: searchable_entry_def searchable_def)
  qed
next
  fix p assume "p \<in> (\<Union>name \<in> {name. N (dir @ [name]) \<noteq> None}. searchable_entry N dir name)"
  then obtain n where "p \<in> searchable_entry N dir n" by blast
  then consider c m where "N (dir @ [n]) = Some (File c m)" "p = dir @ [n]"
    | ms c m where "\<not> generated_or_heavy_resource_entry (from_utf8_lossy n)" "p = (dir @ [n]) @ ms" "ms \<noteq> []"
        "N ((dir @ [n]) @ ms) = Some (File c m)"
        "list_all (\<lambda>n. \<not> generated_or_heavy_resource_entry (from_utf8_lossy n)) (butlast ms)"
    by (auto simp: searchable_entry_def searchable_def split: option.splits node.splits if_splits)
  then show "p \<in> searchable N dir"
  proof cases
    case 1
    then show ?thesis unfolding searchable_def by (intro CollectI exI [of _ "[n]"]) auto
  next
    case 2
    then show ?thesis unfolding searchable_def by (intro CollectI exI [of _ "n # ms"]) auto
  qed
qed

definition read_dir_law :: "read_dir \<Rightarrow> tree \<Rightarrow> bool" where
  "read_dir_law rd N \<longleftrightarrow> (\<forall>dir names. rd dir = Some names \<longrightarrow> set names = {name. N (dir @ [name]) \<noteq> None})"

lemma set_sorted_entries [simp]: "set (sorted_entries base dir names) = set names"
  by (simp add: sorted_entries_def)

lemma search_descent:
  "search_directory fuel rd base s query policy dir r = Some (Inr r') \<Longrightarrow> nodes s dir = Some Directory
      \<Longrightarrow> \<not> sr_truncated r \<Longrightarrow> wf_tree (nodes s) \<Longrightarrow> read_dir_law rd (nodes s)
      \<Longrightarrow> search_step (found_in base s query policy) (searchable (nodes s) dir) policy r r'"
  "search_entries fuel rd base s query policy dir names r = Some (Inr r') \<Longrightarrow> nodes s dir = Some Directory
      \<Longrightarrow> \<not> sr_truncated r \<Longrightarrow> wf_tree (nodes s) \<Longrightarrow> read_dir_law rd (nodes s)
      \<Longrightarrow> search_step (found_in base s query policy) (\<Union>name \<in> set names. searchable_entry (nodes s) dir name) policy r r'"
proof (induction fuel rd base s query policy dir r and fuel rd base s query policy dir names r
    arbitrary: r' and r' rule: search_directory_search_entries.induct)
  case (1 rd base s query policy dir r)
  then show ?case by simp
next
  case (2 fuel rd base s query policy dir r)
  then obtain names where names: "rd dir = Some names"
      "search_entries fuel rd base s query policy dir (sorted_entries base dir names) r = Some (Inr r')"
    by (auto split: option.splits)
  have "set names = {name. nodes s (dir @ [name]) \<noteq> None}" using "2.prems"(5) names(1) by (auto simp: read_dir_law_def)
  then show ?case using "2.IH" [OF "2.prems"(3) names "2.prems"(2,3,4,5)] searchable_entries [OF "2.prems"(4), of dir] by simp
next
  case (3 fuel rd base s query policy dir r)
  then show ?case by simp
next
  case (4 fuel rd base s query policy dir name names r)
  let ?p = "dir @ [name]" and ?rest = "\<Union>n \<in> set names. searchable_entry (nodes s) dir n"
  have meta: "symlink_metadata (nodes s) ?p = nodes s ?p"
    using symlink_metadata_real [OF "4.prems"(4), of ?p] "4.prems"(2) by simp
  show ?case
  proof (cases "nodes s ?p")
    case None
    then have "search_entries fuel rd base s query policy dir names r = Some (Inr r')" using "4.prems"(1) meta by simp
    then show ?thesis using "4.IH"(1) "4.prems" None meta by (simp add: searchable_entry_def)
  next
    case (Some nd)
    show ?thesis
    proof (cases "nd = Directory \<and> generated_or_heavy_resource_entry (from_utf8_lossy name)")
      case True
      then have "search_entries fuel rd base s query policy dir names r = Some (Inr r')" using "4.prems"(1) meta Some by simp
      then show ?thesis using "4.IH"(2) "4.prems" Some True meta by (simp add: searchable_entry_def)
    next
      case False
      let ?visit = "case nd of Directory \<Rightarrow> search_directory fuel rd base s query policy ?p r
              | File _ _ \<Rightarrow> Some (search_file base s query policy ?p r)
              | _ \<Rightarrow> Some (Inr r)"
      obtain r1 where r1: "?visit = Some (Inr r1)" "if sr_truncated r1 then r' = r1
          else search_entries fuel rd base s query policy dir names r1 = Some (Inr r')"
        using "4.prems"(1) meta Some False by (auto split: option.splits sum.splits if_splits)
      have "search_step (found_in base s query policy) (searchable_entry (nodes s) dir name) policy r r1"
      proof (cases nd)
        case Directory
        then show ?thesis using "4.IH"(3) [of nd] r1(1) "4.prems" Some False meta by (simp add: searchable_entry_def)
      next
        case (File c m)
        then show ?thesis using search_file_step r1(1) Some by (simp add: searchable_entry_def)
      qed (use r1(1) Some in \<open>simp_all add: searchable_entry_def\<close>)
      moreover have "search_step (found_in base s query policy) ?rest policy r1 r'" if "\<not> sr_truncated r1"
        using "4.IH"(4) [of nd "Inr r1" r1] r1 that "4.prems" Some False meta by simp
      ultimately show ?thesis using search_step_trans search_step_stop r1(2) by (cases "sr_truncated r1") simp_all
    qed
  qed
qed

section \<open>The descent ends\<close>

lemma search_returns:
  "\<forall>p. nodes s p \<noteq> None \<longrightarrow> length p < length dir + fuel \<Longrightarrow> 0 < fuel \<Longrightarrow> nodes s dir = Some Directory
     \<Longrightarrow> wf_tree (nodes s) \<Longrightarrow> read_dir_law rd (nodes s)
     \<Longrightarrow> search_directory fuel rd base s query policy dir r \<noteq> None"
  "\<forall>p. nodes s p \<noteq> None \<longrightarrow> length p \<le> length dir + fuel \<Longrightarrow> nodes s dir = Some Directory
     \<Longrightarrow> wf_tree (nodes s) \<Longrightarrow> read_dir_law rd (nodes s)
     \<Longrightarrow> search_entries fuel rd base s query policy dir names r \<noteq> None"
proof (induction fuel rd base s query policy dir r and fuel rd base s query policy dir names r
    rule: search_directory_search_entries.induct)
  case (2 fuel rd base s query policy dir r)
  have "\<forall>p. nodes s p \<noteq> None \<longrightarrow> length p \<le> length dir + fuel" using "2.prems"(1) by auto
  then show ?case using "2.IH" "2.prems" by (auto split: option.splits)
next
  case (4 fuel rd base s query policy dir name names r)
  let ?p = "dir @ [name]"
  have meta: "symlink_metadata (nodes s) ?p = nodes s ?p"
    using symlink_metadata_real [OF "4.prems"(3), of ?p] "4.prems"(2) by simp
  show ?case
  proof (cases "nodes s ?p")
    case None
    then show ?thesis using "4.IH"(1) "4.prems" meta by simp
  next
    case (Some nd)
    have fuel: "0 < fuel" if "nodes s ?p = Some Directory" using "4.prems"(1) that by force
    have below: "\<forall>p. nodes s p \<noteq> None \<longrightarrow> length p < length ?p + fuel" using "4.prems"(1) by auto
    have visit: "nd = Directory \<Longrightarrow> \<not> generated_or_heavy_resource_entry (from_utf8_lossy name)
        \<Longrightarrow> search_directory fuel rd base s query policy ?p r \<noteq> None"
      using "4.IH"(3) [of nd] below fuel Some "4.prems"(3,4) meta by simp
    show ?thesis
    proof (cases "nd = Directory \<and> generated_or_heavy_resource_entry (from_utf8_lossy name)")
      case True
      then show ?thesis using "4.IH"(2) "4.prems" Some meta by simp
    next
      case False
      obtain res where res: "(case nd of Directory \<Rightarrow> search_directory fuel rd base s query policy ?p r
              | File _ _ \<Rightarrow> Some (search_file base s query policy ?p r) | _ \<Rightarrow> Some (Inr r)) = Some res"
        using visit False by (cases nd) auto
      have "search_entries fuel rd base s query policy dir names r1 \<noteq> None" if "res = Inr r1" "\<not> sr_truncated r1" for r1
        using "4.IH"(4) [of nd res r1] Some meta False res that "4.prems" by auto
      then show ?thesis using Some meta False res by (cases res) auto
    qed
  qed
qed simp_all

lemma search_text_returns:
  assumes "wf_tree (nodes s)" "read_dir_law rd (nodes s)" "nodes s (canonical_path base) = Some Directory"
    and "finite (dom (nodes s))"
  shows "\<exists>n. \<forall>fuel \<ge> n. search_text fuel rd base s query policy \<noteq> None"
proof -
  obtain d where d: "\<forall>p \<in> dom (nodes s). length p < d"
    using finite_nat_set_iff_bounded assms(4) by (metis finite_imageI imageI)
  then have "search_text fuel rd base s query policy \<noteq> None" if "fuel \<ge> Suc d" for fuel
    using search_returns(1) [of s "canonical_path base" fuel rd base query policy empty_search] assms that
    by (cases "query = ''''") (force simp: search_text_def)+
  then show ?thesis by blast
qed

section \<open>What a search shows\<close>

lemma nth_line_match:
  "m \<in> set (line_matches query relative i ls) \<longleftrightarrow>
     (\<exists>j < length ls. m = \<lparr>sm_relative_path = relative, sm_line_number = i + j + 1, sm_line = ls ! j\<rparr> \<and> sublist query (ls ! j))"
  by (induction ls arbitrary: i) (auto simp: Ex_less_Suc2)

lemma file_matches_read:
  assumes "m \<in> set (file_matches base s query max_bytes path)"
  shows "\<exists>out. read_text_file base s (sm_relative_path m) max_bytes = Inr out
      \<and> normalized_relative_path base path = Inr (sm_relative_path m) \<and> \<not> sensitive_denies base (sm_relative_path m)
      \<and> 0 < sm_line_number m \<and> sm_line_number m \<le> length (str_lines (read_text out))
      \<and> sm_line m = str_lines (read_text out) ! (sm_line_number m - 1) \<and> sublist query (sm_line m)"
proof -
  obtain relative where rel: "normalized_relative_path base path = Inr relative"
    using assms by (cases "normalized_relative_path base path") (auto simp: file_matches_def)
  then obtain out where out: "read_text_file base s relative max_bytes = Inr out" "\<not> sensitive_denies base relative"
      "m \<in> set (line_matches query relative 0 (str_lines (read_text out)))"
    using assms by (cases "read_text_file base s relative max_bytes") (auto simp: file_matches_def split: if_splits)
  then show ?thesis using rel by (auto simp: nth_line_match)
qed

text \<open>A file below a project root is read as it is.\<close>

lemma read_text_file_plain:
  assumes "wf_tree (nodes s)" "nodes s (canonical_path base @ ns) = Some (File c m)" "ns \<noteq> []"
    and "list_all (\<lambda>n. from_utf8_lossy n = n) ns" "root_kind base = Project" "\<not> deny_read s (canonical_path base @ ns)"
    and "utf8_valid c" "length c \<le> max_bytes" "\<not> sensitive_denies base (join_slash ns)"
  shows "normalized_relative_path base (canonical_path base @ ns) = Inr (join_slash ns)"
    and "\<exists>out. read_text_file base s (join_slash ns) max_bytes = Inr out \<and> read_text out = c"
proof -
  let ?p = "canonical_path base @ ns"
  have names: "map from_utf8_lossy ns = ns" using assms(4) by (simp add: list_all_iff map_idI)
  then show rel: "normalized_relative_path base ?p = Inr (join_slash ns)" by (simp add: normalized_relative_path_def)
  have real: "real_path (nodes s) ?p" using assms(2) by (simp add: real_path_def)
  have valid: "\<forall>n \<in> set ns. valid_name n"
  proof
    fix n assume "n \<in> set ns"
    then obtain as bs where "ns = as @ n # bs" by (auto dest: split_list)
    then have "real_path (nodes s) ((canonical_path base @ as) @ [n])"
      using real_path_prefix [OF assms(1) real, of "(canonical_path base @ as) @ [n]"] by simp
    then have "nodes s ((canonical_path base @ as) @ [n]) \<noteq> None" unfolding real_path_def by blast
    then show "valid_name n" using assms(1) by (metis wf_tree_def entry_name_def)
  qed
  have "canonicalize (nodes s) (map Normal (canonical_path base) @ kernel_components (join_slash ns)) = Some ?p"
    using kernel_components_join_slash [OF valid assms(3)] canonicalize_real [OF assms(1) real] by simp
  then have "resolve_existing base (nodes s) (join_slash ns) = Inr ?p"
    using not_absolute_join_slash valid assms(3,5) by (auto simp: resolve_existing_def)
  moreover have "fs_metadata (nodes s) ?p = Some (File c m)" using fs_metadata_real [OF assms(1) real] assms(2) by simp
  ultimately show "\<exists>out. read_text_file base s (join_slash ns) max_bytes = Inr out \<and> read_text out = c"
    using assms rel by (simp add: read_text_file_def resolve_file_def is_file_def fs_read_def fs_len_def)
qed

text \<open>
  C17. A search of the project that is not cut off by its limits shows exactly the matching lines:
  every line it shows is a line with the query of a readable file below the root that is not
  sensitive, and no line with the query of such a file is missing, as long as the file is not
  below a generated or heavy directory, not over the size limit, and its name is UTF-8. A
  search that is cut off shows some of these lines. The numbers of lines and of files stay
  within the limits.
\<close>

theorem search_text_exact:
  assumes "wf_tree (nodes s)" "read_dir_law rd (nodes s)" "nodes s (canonical_path base) = Some Directory"
    and "query \<noteq> ''''" "search_text fuel rd base s query policy = Some (Inr r)"
  shows "(\<forall>m \<in> set (sr_matches r). \<exists>out. read_text_file base s (sm_relative_path m) (sp_max_file_bytes policy) = Inr out
           \<and> \<not> sensitive_denies base (sm_relative_path m)
           \<and> 0 < sm_line_number m \<and> sm_line_number m \<le> length (str_lines (read_text out))
           \<and> sm_line m = str_lines (read_text out) ! (sm_line_number m - 1) \<and> sublist query (sm_line m))
    \<and> length (sr_matches r) \<le> sp_max_matches policy \<and> sr_searched_files r \<le> sp_max_files policy
    \<and> (\<not> sr_truncated r \<and> root_kind base = Project \<longrightarrow>
        (\<forall>ns c m j. nodes s (canonical_path base @ ns) = Some (File c m) \<and> ns \<noteq> []
           \<and> list_all (\<lambda>n. \<not> generated_or_heavy_resource_entry n) (butlast ns) \<and> list_all (\<lambda>n. from_utf8_lossy n = n) ns
           \<and> \<not> deny_read s (canonical_path base @ ns) \<and> utf8_valid c \<and> length c \<le> sp_max_file_bytes policy
           \<and> \<not> sensitive_denies base (join_slash ns) \<and> j < length (str_lines c) \<and> sublist query (str_lines c ! j)
           \<longrightarrow> \<lparr>sm_relative_path = join_slash ns, sm_line_number = j + 1, sm_line = str_lines c ! j\<rparr> \<in> set (sr_matches r)))"
    (is "?sound \<and> ?matches \<and> ?files \<and> ?complete")
proof -
  let ?P = "searchable (nodes s) (canonical_path base)" and ?F = "found_in base s query policy"
  have "search_directory fuel rd base s query policy (canonical_path base) empty_search = Some (Inr r)"
    using assms(4,5) by (simp add: search_text_def)
  then have step: "search_step ?F ?P policy empty_search r"
    using search_descent(1) assms(1-3) by (simp add: empty_search_def)
  then have "set (sr_matches r) \<subseteq> \<Union> (?F ` ?P)" by (auto simp: search_step_def empty_search_def)
  then have ?sound using file_matches_read by fast
  moreover have "?matches \<and> ?files" using step by (auto simp: search_step_def empty_search_def within_limits_def)
  moreover have ?complete
  proof (intro impI allI, elim conjE)
    fix ns c m j
    let ?p = "canonical_path base @ ns"
    assume a: "\<not> sr_truncated r" "root_kind base = Project" "nodes s ?p = Some (File c m)" "ns \<noteq> []"
      "list_all (\<lambda>n. \<not> generated_or_heavy_resource_entry n) (butlast ns)" "list_all (\<lambda>n. from_utf8_lossy n = n) ns"
      "\<not> deny_read s ?p" "utf8_valid c" "length c \<le> sp_max_file_bytes policy" "\<not> sensitive_denies base (join_slash ns)"
      "j < length (str_lines c)" "sublist query (str_lines c ! j)"
    obtain out where out: "normalized_relative_path base ?p = Inr (join_slash ns)"
        "read_text_file base s (join_slash ns) (sp_max_file_bytes policy) = Inr out" "read_text out = c"
      using read_text_file_plain [OF assms(1) a(3,4,6,2,7-10)] by blast
    have "fs_metadata (nodes s) ?p = Some (File c m)"
      using fs_metadata_real [OF assms(1), of ?p] a(3) by (simp add: real_path_def)
    then have "\<lparr>sm_relative_path = join_slash ns, sm_line_number = j + 1, sm_line = str_lines c ! j\<rparr> \<in> ?F ?p"
      using out a(9,10) a(11,12) by (auto simp: file_matches_def nth_line_match fs_len_def)
    moreover have "?p \<in> ?P" using a(3-6) unfolding searchable_def
      by (auto simp: list_all_iff) (metis in_set_butlastD)
    moreover have "set (sr_matches r) = \<Union> (?F ` ?P)" using step a(1) by (simp add: search_step_def empty_search_def)
    ultimately show "\<lparr>sm_relative_path = join_slash ns, sm_line_number = j + 1, sm_line = str_lines c ! j\<rparr> \<in> set (sr_matches r)"
      by blast
  qed
  ultimately show ?thesis by blast
qed

definition listing_read_dir :: "(spath \<times> node) list \<Rightarrow> read_dir" where
  "listing_read_dir xs dir = Some (map last (filter (\<lambda>p. p \<noteq> [] \<and> butlast p = dir) (map fst xs)))"

lemma listing_read_dir_law: "read_dir_law (listing_read_dir xs) (map_of xs)"
proof -
  have "set (map last (filter (\<lambda>p. p \<noteq> [] \<and> butlast p = dir) (map fst xs))) = {name. dir @ [name] \<in> fst ` set xs}" for dir
    by (auto simp: image_iff) (metis append_butlast_last_id fst_conv, metis butlast_snoc fst_conv last_snoc snoc_eq_iff_butlast)
  then show ?thesis by (auto simp: read_dir_law_def listing_read_dir_def map_of_eq_None_iff)
qed

lemma demo_entries:
  "listing_read_dir demo_listing [''p''] = Some [''a'', ''b'']" "sorted_entries demo_root [''p''] [''a'', ''b''] = [''a'', ''b'']"
  by code_simp+

lemma demo_reads:
  "read_text_file demo_root (demo_fs (\<lambda>_. False)) ''a'' 65536
     = Inr \<lparr>read_path = [''p'', ''a''], read_text = ''hello'', read_byte_count = 5, read_redacted = False, read_truncated = False\<rparr>"
  "read_text_file demo_root (demo_fs (\<lambda>_. False)) ''b'' 65536
     = Inr \<lparr>read_path = [''p'', ''b''], read_text = ''x y'', read_byte_count = 3, read_redacted = False, read_truncated = False\<rparr>"
  by (simp_all add: read_text_file_def path_defs normalized_relative_path_def demo_root_def demo_fs_def demo_listing_def
      cong: res_bind_weak)

definition demo_search :: resource_search_result where
  "demo_search = \<lparr>sr_matches = [\<lparr>sm_relative_path = ''a'', sm_line_number = 1, sm_line = ''hello''\<rparr>],
     sr_searched_files = 2, sr_truncated = False, sr_denied_paths_excluded = False\<rparr>"

lemma demo_relative:
  "normalized_relative_path demo_root [''p'', ''a''] = Inr ''a''" "normalized_relative_path demo_root [''p'', ''b''] = Inr ''b''"
  by code_simp+

lemma demo_search_lines:
  "search_lines ''l'' 64 ''a'' 0 (str_lines ''hello'') r
     = r\<lparr>sr_matches := sr_matches r @ [\<lparr>sm_relative_path = ''a'', sm_line_number = 1, sm_line = ''hello''\<rparr>],
         sr_truncated := (if 63 \<le> length (sr_matches r) then True else sr_truncated r)\<rparr>"
  "search_lines ''l'' 64 ''b'' 0 (str_lines ''x y'') r = r"
proof -
  have "str_lines ''hello'' = [''hello'']" "str_lines ''x y'' = [''x y'']" by code_simp+
  moreover have "sublist ''l'' ''hello''" "\<not> sublist ''l'' ''x y''" by code_simp+
  ultimately show "search_lines ''l'' 64 ''a'' 0 (str_lines ''hello'') r
     = r\<lparr>sr_matches := sr_matches r @ [\<lparr>sm_relative_path = ''a'', sm_line_number = 1, sm_line = ''hello''\<rparr>],
         sr_truncated := (if 63 \<le> length (sr_matches r) then True else sr_truncated r)\<rparr>"
    "search_lines ''l'' 64 ''b'' 0 (str_lines ''x y'') r = r" by (simp_all add: Let_def)
qed

lemma demo_search_result:
  "search_text 1 (listing_read_dir demo_listing) demo_root (demo_fs (\<lambda>_. False)) ''l'' small_search_policy = Some (Inr demo_search)"
proof -
  have nodes: "nodes (demo_fs (\<lambda>_. False)) [''p'', ''a''] = Some (File ''hello'' 420)"
      "nodes (demo_fs (\<lambda>_. False)) [''p'', ''b''] = Some (File ''x y'' 384)" "nodes (demo_fs (\<lambda>_. False)) [''p''] = Some Directory"
    by (simp_all add: demo_fs_def demo_listing_def)
  then have "symlink_metadata (nodes (demo_fs (\<lambda>_. False))) [''p'', ''a''] = Some (File ''hello'' 420)"
      "symlink_metadata (nodes (demo_fs (\<lambda>_. False))) [''p'', ''b''] = Some (File ''x y'' 384)"
      "fs_metadata (nodes (demo_fs (\<lambda>_. False))) [''p'', ''a''] = Some (File ''hello'' 420)"
      "fs_metadata (nodes (demo_fs (\<lambda>_. False))) [''p'', ''b''] = Some (File ''x y'' 384)"
    using symlink_metadata_real [OF demo_wf, of "[''p'', ''a'']"] symlink_metadata_real [OF demo_wf, of "[''p'', ''b'']"]
      fs_metadata_real [OF demo_wf, of _ "[''p'', ''a'']"] fs_metadata_real [OF demo_wf, of _ "[''p'', ''b'']"]
    by (simp_all add: real_path_def)
  moreover have "\<not> sensitive_denies demo_root ''a''" "\<not> sensitive_denies demo_root ''b''" "canonical_path demo_root = [''p'']"
    by code_simp+
  ultimately show ?thesis
    by (simp add: search_text_def demo_entries search_file_def demo_relative demo_reads demo_search_lines small_search_policy_def
        empty_search_def demo_search_def fs_len_def u64_saturating_add_def u64_max_def)
qed

theorem search_text_exact_witness:
  "\<exists>r. search_text 1 (listing_read_dir demo_listing) demo_root (demo_fs (\<lambda>_. False)) ''l'' small_search_policy = Some (Inr r)
     \<and> \<lparr>sm_relative_path = ''a'', sm_line_number = 1, sm_line = ''hello''\<rparr> \<in> set (sr_matches r)"
proof -
  have law: "read_dir_law (listing_read_dir demo_listing) (nodes (demo_fs (\<lambda>_. False)))"
    "nodes (demo_fs (\<lambda>_. False)) (canonical_path demo_root) = Some Directory"
    using listing_read_dir_law [of demo_listing] by (simp add: demo_fs_def) (simp add: demo_fs_def demo_root_def demo_listing_def)
  have demo: "root_kind demo_root = Project" "\<not> sr_truncated demo_search" "canonical_path demo_root = [''p'']"
    by (simp_all add: demo_root_def demo_search_def)
  have stored: "nodes (demo_fs (\<lambda>_. False)) (canonical_path demo_root @ [''a'']) = Some (File ''hello'' 420)"
      "\<not> deny_read (demo_fs (\<lambda>_. False)) (canonical_path demo_root @ [''a''])"
    by (simp_all add: demo_fs_def demo_root_def demo_listing_def)
  have lines: "from_utf8_lossy ''a'' = ''a''" "utf8_valid ''hello''" "\<not> sensitive_denies demo_root (join_slash [''a''])"
    "0 < length (str_lines ''hello'')" "sublist ''l'' (str_lines ''hello'' ! 0)" "str_lines ''hello'' ! 0 = ''hello''"
    "join_slash [''a''] = ''a''"
    by code_simp+
  have "\<lparr>sm_relative_path = join_slash [''a''], sm_line_number = 0 + 1, sm_line = str_lines ''hello'' ! 0\<rparr> \<in> set (sr_matches demo_search)"
    using mp [OF conjunct2 [OF conjunct2 [OF conjunct2 [OF search_text_exact [OF demo_wf law _ demo_search_result]]]]
        conjI [OF demo(2,1)], rule_format, of "[''a'']" "''hello''" 420 0] stored lines by (simp add: small_search_policy_def)
  then show ?thesis using demo_search_result lines(6,7) by auto
qed

section \<open>Listing\<close>

text \<open>The entries a listing of \<open>names\<close> in \<open>dir\<close> may show.\<close>

definition listable_entry :: "resource_root \<Rightarrow> tree \<Rightarrow> spath \<Rightarrow> string \<Rightarrow> resource_list_entry set" where
  "listable_entry base N dir name =
     {\<lparr>rl_relative_path = relative, rl_kind = node_kind nd, rl_byte_size = node_size nd\<rparr> | relative nd.
        normalized_relative_path base (dir @ [name]) = Inr relative \<and> \<not> sensitive_denies base relative
        \<and> \<not> generated_or_heavy_resource_entry (from_utf8_lossy name) \<and> symlink_metadata N (dir @ [name]) = Some nd}"

abbreviation listable :: "resource_root \<Rightarrow> tree \<Rightarrow> spath \<Rightarrow> string list \<Rightarrow> resource_list_entry set" where
  "listable base N dir names \<equiv> \<Union> (listable_entry base N dir ` set names)"

lemma list_entries_exact:
  assumes "list_entries base N dir k names r = Inr r'"
  shows "set (lr_entries r') \<subseteq> set (lr_entries r) \<union> listable base N dir names"
    and "\<not> lr_truncated r' \<Longrightarrow> set (lr_entries r') = set (lr_entries r) \<union> listable base N dir names"
    and "length (lr_entries r) \<le> k \<Longrightarrow> length (lr_entries r') \<le> k"
    and "lr_denied_paths_excluded r' \<Longrightarrow> \<not> lr_denied_paths_excluded r \<Longrightarrow>
      \<exists>name \<in> set names. \<exists>relative. normalized_relative_path base (dir @ [name]) = Inr relative \<and> sensitive_denies base relative"
proof -
  have "set (lr_entries r') \<subseteq> set (lr_entries r) \<union> listable base N dir names
    \<and> (\<not> lr_truncated r' \<longrightarrow> set (lr_entries r') = set (lr_entries r) \<union> listable base N dir names)
    \<and> (length (lr_entries r) \<le> k \<longrightarrow> length (lr_entries r') \<le> k)
    \<and> (lr_denied_paths_excluded r' \<longrightarrow> \<not> lr_denied_paths_excluded r \<longrightarrow>
      (\<exists>name \<in> set names. \<exists>relative. normalized_relative_path base (dir @ [name]) = Inr relative \<and> sensitive_denies base relative))"
    using assms
  proof (induction names arbitrary: r)
    case (Cons name names)
    show ?case
    proof (cases "generated_or_heavy_resource_entry (from_utf8_lossy name)")
      case True
      then have "listable_entry base N dir name = {}" by (simp add: listable_entry_def)
      then show ?thesis using Cons.IH [of r] Cons.prems True by auto
    next
      case False
      then obtain relative where rel: "normalized_relative_path base (dir @ [name]) = Inr relative"
        using Cons.prems by (auto simp: result_simps)
      consider "sensitive_denies base relative" | "\<not> sensitive_denies base relative" "k \<le> length (lr_entries r)"
        | "\<not> sensitive_denies base relative" "length (lr_entries r) < k" "symlink_metadata N (dir @ [name]) = None"
        | nd where "\<not> sensitive_denies base relative" "length (lr_entries r) < k" "symlink_metadata N (dir @ [name]) = Some nd"
        by fastforce
      then show ?thesis
      proof cases
        case 1
        then have "listable_entry base N dir name = {}" using rel by (simp add: listable_entry_def)
        then show ?thesis using Cons.IH [of "r\<lparr>lr_denied_paths_excluded := True\<rparr>"] Cons.prems False rel 1
            by auto
      next
        case 2
        then show ?thesis using Cons.prems False rel by auto
      next
        case 3
        then have "listable_entry base N dir name = {}" using rel by (simp add: listable_entry_def)
        then show ?thesis using Cons.IH [of r] Cons.prems False rel 3 by auto
      next
        case 4
        let ?e = "\<lparr>rl_relative_path = relative, rl_kind = node_kind nd, rl_byte_size = node_size nd\<rparr>"
        have "listable_entry base N dir name = {?e}" using rel 4 False by (auto simp: listable_entry_def)
        then show ?thesis using Cons.IH [of "r\<lparr>lr_entries := lr_entries r @ [?e]\<rparr>"] Cons.prems False rel 4
            by auto
      qed
    qed
  qed auto
  then show "set (lr_entries r') \<subseteq> set (lr_entries r) \<union> listable base N dir names"
    "\<not> lr_truncated r' \<Longrightarrow> set (lr_entries r') = set (lr_entries r) \<union> listable base N dir names"
    "length (lr_entries r) \<le> k \<Longrightarrow> length (lr_entries r') \<le> k"
    "lr_denied_paths_excluded r' \<Longrightarrow> \<not> lr_denied_paths_excluded r \<Longrightarrow>
      \<exists>name \<in> set names. \<exists>relative. normalized_relative_path base (dir @ [name]) = Inr relative \<and> sensitive_denies base relative"
    by blast+
qed

text \<open>
  One directory below the root that cannot be listed makes the whole search fail, with the
  error of a missing path, although a file that cannot be read is only skipped.
\<close>

lemma unreadable_directory_fails_search:
  assumes "rd (canonical_path base) = Some [name]" "symlink_metadata (nodes s) (canonical_path base @ [name]) = Some Directory"
    and "\<not> generated_or_heavy_resource_entry (from_utf8_lossy name)" "rd (canonical_path base @ [name]) = None" "query \<noteq> ''''"
  shows "search_text (Suc (Suc fuel)) rd base s query policy = Some (Inl Missing)"
  using assms by (simp add: search_text_def empty_search_def sorted_entries_def)

end
