(* ===== verification/Agent_Edit.thy ===== *)
theory Agent_Edit
  imports Edit_Access_Properties Tool_Execution
begin

text \<open>
  The tools that edit files, \<^verbatim>\<open>agent_edit_tools.rs\<close>: a call of \<open>edit_text_file\<close> or
  \<open>create_text_file\<close>, or the proposal of an extension, is normalized into a transaction,
  prepared by the edit access layer, and applied, refused or left to a review, with a trace of
  every phase. The process's counter of traces joins the state of the edit access layer. The
  clock is a parameter: the milliseconds of a phase of a trace and the timing of its
  application.
\<close>

section \<open>State\<close>

record agent_edit_env =
  ag_access :: edit_access_env
  ag_js :: json_codec
  ag_elapsed :: "string \<Rightarrow> edit_trace_phase \<Rightarrow> nat"
  ag_timing :: "string \<Rightarrow> tool_timing"

record agent_edit_state =
  ae_world :: edit_world
  ae_trace_counter :: nat

record normalized_agent_edit_tool_request =
  na_transaction :: "edit_operation list"
  na_path :: string
  na_operation :: string

record agent_edit_tool_context =
  aec_session_id :: string
  aec_turn_id :: string
  aec_edit_mode :: permission_mode
  aec_edit_policy :: edit_policy
  aec_review_policy :: review_policy
  aec_authorization_revision :: nat

datatype agent_edit_tool_prepared =
    EditToolCompleted string provider_tool_result
  | EditToolFailed string provider_tool_result
  | EditToolDenied string provider_tool_result
  | EditToolNeedsReview string string string edit_preview string string

record pending_agent_edit_tool_review =
  pr_trace_id :: string
  pr_session_id :: string
  pr_turn_id :: string
  pr_request_id :: string
  pr_provider_call_id :: string
  pr_preview_id :: string
  pr_permission_decision_id :: string
  pr_path :: string
  pr_operation :: string

definition next_agent_edit_trace_id :: "nat \<Rightarrow> string \<times> nat" where
  "next_agent_edit_trace_id n =
     (let next_n = (n + 1) mod (u64_max + 1) in (''edit-trace-'' @ show_nat next_n, next_n))"

definition agent_append ::
  "agent_edit_env \<Rightarrow> session_event list \<Rightarrow> agent_edit_state
   \<Rightarrow> (tool_continuation_error, unit) result \<times> agent_edit_state" where
  "agent_append env events st =
     (case sink_append (ag_access env) events (ae_world st) of
        (ok, w) \<Rightarrow> (if ok then Inr () else Inl (ContinuationExecution MalformedResult), st\<lparr>ae_world := w\<rparr>))"

section \<open>Texts\<close>

definition ascii_upper :: "char \<Rightarrow> char" where
  "ascii_upper c = (if 97 \<le> byte c \<and> byte c \<le> 122 then char_of (byte c - 32) else c)"

definition truncate_preview_line :: "string \<Rightarrow> nat \<Rightarrow> string" where
  "truncate_preview_line l max_chars =
     (if char_count l \<le> max_chars then l else take_chars max_chars l @ ''...'')"

definition applied_path_sha :: "applied_operation \<Rightarrow> string \<times> string" where
  "applied_path_sha op = (a_relative_path op, a_after_sha256 op)"

definition snapshot_line :: "applied_operation \<Rightarrow> string" where
  "snapshot_line op =
     (case applied_path_sha op of
        (path, sha) \<Rightarrow> ''['' @ path @ ''#'' @ map ascii_upper (take_chars 16 sha) @ '']'')"

definition important_diff_line :: "string \<Rightarrow> bool" where
  "important_diff_line l \<longleftrightarrow>
     prefix ''@@'' l \<or> prefix ''--- '' l \<or> prefix ''+++ '' l
     \<or> prefix ''+'' l \<and> \<not> prefix ''+++'' l \<or> prefix ''-'' l \<and> \<not> prefix ''---'' l"

definition applied_content :: "edit_apply_result \<Rightarrow> string" where
  "applied_content r =
     (let important = filter important_diff_line (str_lines (r_diff_summary r))
      in join_newline (notice ''applied'' # map snapshot_line (r_operations r)
           @ map (\<lambda>l. truncate_preview_line l 240) (take 14 important)
           @ (if r_diff_summary_truncated r \<or> drop 14 important \<noteq> []
              then [notice ''diff preview truncated''] else [])))"

definition rejected_content :: string where
  "rejected_content = notice ''rejected by review''"

definition denied_content :: "string \<Rightarrow> string" where
  "denied_content reason = notice (''denied: '' @ reason)"

definition failed_content :: "string \<Rightarrow> string \<Rightarrow> string" where
  "failed_content error guidance = verdict_with_guidance (''error: '' @ error) guidance"

definition agent_edit_failure_guidance :: "string \<Rightarrow> string" where
  "agent_edit_failure_guidance label =
     (if label = ''target_exists'' then
        ''The target file already exists and may have changed outside this conversation. Use read_text_file to inspect the current contents before deciding whether to edit it with edit_text_file or choose a different path.''
      else if label = ''hash_mismatch'' then
        ''The file changed since it was last read. Use read_text_file to get the current contents, then retry the edit against that fresh state.''
      else if label = ''target_missing'' \<or> label = ''parent_missing'' then
        ''The target path does not currently exist. Use list_project_paths or read_text_file to verify the current project state before retrying.''
      else if label = ''hunk_not_found'' then
        ''The exact text to replace was not found in the current file. Use read_text_file to get the current contents and retry with text that matches exactly.''
      else if label = ''sensitive_path_denied'' then
        ''This path matches the sensitive-file deny list, so tools cannot read or modify it. If access is intended, ask the user to allow the path under files.allow in .yach/config.json and retry.''
      else
        ''Use read_text_file or list_project_paths to verify the current project state before retrying.'')"

section \<open>Results and events\<close>

definition provider_result ::
  "string \<Rightarrow> string option \<Rightarrow> tool_outcome \<Rightarrow> string \<Rightarrow> string option \<Rightarrow> provider_tool_result" where
  "provider_result rid call_id status content reason =
     \<lparr>ptr_request_id = rid, ptr_provider_call_id = call_id, ptr_status = status, ptr_content = content,
      ptr_byte_count = length content, ptr_redacted = True, ptr_truncated = False, ptr_reason = reason\<rparr>"

definition result_summary :: "provider_tool_result \<Rightarrow> tool_payload_summary" where
  "result_summary r =
     \<lparr>tp_summary = ''agent edit result redacted'', tp_byte_count = ptr_byte_count r, tp_redacted = True,
      tp_truncated = False\<rparr>"

definition summarize_agent_edit_payload :: "json_codec \<Rightarrow> json \<Rightarrow> tool_payload_summary" where
  "summarize_agent_edit_payload js v =
     \<lparr>tp_summary = ''tool payload redacted'',
      tp_byte_count = (case js_to_vec js v of Some bytes \<Rightarrow> length bytes | None \<Rightarrow> 0),
      tp_redacted = True, tp_truncated = False\<rparr>"

definition agent_finished_event ::
  "agent_edit_tool_context \<Rightarrow> string \<Rightarrow> tool_outcome \<Rightarrow> string option \<Rightarrow> tool_payload_summary option
   \<Rightarrow> string option \<Rightarrow> tool_timing \<Rightarrow> session_event" where
  "agent_finished_event ctx rid outcome reason payload content timing =
     ToolExecutionFinished (aec_session_id ctx) (aec_turn_id ctx) rid outcome reason payload content
       (started_at_ms timing) (tool_duration_ms timing)"

definition append_validation_failure ::
  "agent_edit_env \<Rightarrow> agent_edit_tool_context \<Rightarrow> pending_tool_request \<Rightarrow> tool_error \<Rightarrow> string \<Rightarrow> session_event list
   \<Rightarrow> agent_edit_state \<Rightarrow> (tool_continuation_error, unit) result \<times> agent_edit_state" where
  "append_validation_failure env ctx req error reason events st =
     agent_append env
       (events
        @ [ToolRequestRecorded (aec_session_id ctx) (aec_turn_id ctx) (tr_request_id req) (tr_tool_name req)
             (tr_provider_call_id req) (Inl error) ToolDenied
             (summarize_agent_edit_payload (ag_js env) (tr_arguments req)) None,
           agent_finished_event ctx (tr_request_id req) ValidationFailed (Some reason) None None no_timing]) st"

section \<open>Traces\<close>

definition trace_operation :: "string \<Rightarrow> string option" where
  "trace_operation name = (if name \<in> {''edit_text_file'', ''create_text_file''} then Some name else None)"

definition trace_attribute :: "string \<Rightarrow> string \<Rightarrow> metric_attribute" where
  "trace_attribute key val = \<lparr>ma_key = key, ma_value = val\<rparr>"

definition trace_operation_attributes :: "string option \<Rightarrow> metric_attribute list" where
  "trace_operation_attributes op = (case op of None \<Rightarrow> [] | Some name \<Rightarrow> [trace_attribute ''operation'' name])"

fun review_state_label :: "edit_access_review_state \<Rightarrow> string" where
  "review_state_label EditAllowed = ''allowed''"
| "review_state_label NeedsUserApproval = ''needs_user_approval''"
| "review_state_label AutoReviewUnavailable = ''auto_review_unavailable''"
| "review_state_label EditHumanPerforms = ''human_performs''"

record agent_edit_trace_input =
  ti_trace_id :: string
  ti_request :: pending_tool_request
  ti_phase :: edit_trace_phase
  ti_outcome :: edit_trace_outcome
  ti_reason_label :: "string option"
  ti_preview_id :: "string option"
  ti_permission_decision_id :: "string option"
  ti_transaction_id :: "string option"
  ti_attributes :: "metric_attribute list"

definition trace_input ::
  "string \<Rightarrow> pending_tool_request \<Rightarrow> edit_trace_phase \<Rightarrow> edit_trace_outcome \<Rightarrow> string option
   \<Rightarrow> metric_attribute list \<Rightarrow> agent_edit_trace_input" where
  "trace_input tid req phase outcome reason attributes =
     \<lparr>ti_trace_id = tid, ti_request = req, ti_phase = phase, ti_outcome = outcome, ti_reason_label = reason,
      ti_preview_id = None, ti_permission_decision_id = None, ti_transaction_id = None, ti_attributes = attributes\<rparr>"

definition record_agent_edit_trace ::
  "agent_edit_env \<Rightarrow> agent_edit_tool_context \<Rightarrow> agent_edit_trace_input \<Rightarrow> session_event list \<Rightarrow> session_event list" where
  "record_agent_edit_trace env ctx inp events =
     record_edit_trace (aec_session_id ctx) (aec_turn_id ctx)
       \<lparr>et_trace_id = ti_trace_id inp, et_phase = ti_phase inp, et_source = ProviderTool,
        et_tool_name = Some (tr_tool_name (ti_request inp)),
        et_tool_request_id = Some (tr_request_id (ti_request inp)),
        et_provider_call_id = tr_provider_call_id (ti_request inp), et_preview_id = ti_preview_id inp,
        et_permission_decision_id = ti_permission_decision_id inp, et_transaction_id = ti_transaction_id inp,
        et_outcome = ti_outcome inp, et_duration_ms = ag_elapsed env (ti_trace_id inp) (ti_phase inp),
        et_reason_label = ti_reason_label inp, et_attributes = ti_attributes inp\<rparr> events"

definition record_permission_decision_trace ::
  "agent_edit_env \<Rightarrow> agent_edit_tool_context \<Rightarrow> string \<Rightarrow> pending_tool_request \<Rightarrow> edit_trace_outcome \<Rightarrow> string option
   \<Rightarrow> edit_access_prepare_diagnostics \<Rightarrow> string \<Rightarrow> session_event list \<Rightarrow> session_event list" where
  "record_permission_decision_trace env ctx tid req outcome reason diag op events =
     record_agent_edit_trace env ctx
       ((trace_input tid req PermissionDecisionPhase outcome reason
           [trace_attribute ''operation'' op, trace_attribute ''review_state'' (review_state_label (ed_review_state diag))])
          \<lparr>ti_permission_decision_id := Some (ed_permission_decision_id diag),
           ti_transaction_id := ed_transaction_id diag\<rparr>) events"

definition record_preview_trace ::
  "agent_edit_env \<Rightarrow> agent_edit_tool_context \<Rightarrow> string \<Rightarrow> pending_tool_request \<Rightarrow> edit_trace_outcome \<Rightarrow> string option
   \<Rightarrow> string option \<Rightarrow> string \<Rightarrow> string option \<Rightarrow> string \<Rightarrow> session_event list \<Rightarrow> session_event list" where
  "record_preview_trace env ctx tid req outcome reason pid did tx op events =
     record_agent_edit_trace env ctx
       ((trace_input tid req PreviewPhase outcome reason (trace_operation_attributes (Some op)))
          \<lparr>ti_preview_id := pid, ti_permission_decision_id := Some did, ti_transaction_id := tx\<rparr>) events"

definition record_result_shaping_trace ::
  "agent_edit_env \<Rightarrow> agent_edit_tool_context \<Rightarrow> string \<Rightarrow> pending_tool_request \<Rightarrow> edit_trace_outcome \<Rightarrow> string option
   \<Rightarrow> string option \<Rightarrow> session_event list \<Rightarrow> session_event list" where
  "record_result_shaping_trace env ctx tid req outcome reason op events =
     record_agent_edit_trace env ctx
       (trace_input tid req ResultShaping outcome reason (trace_operation_attributes op)) events"

definition record_review_trace ::
  "agent_edit_env \<Rightarrow> pending_agent_edit_tool_review \<Rightarrow> edit_trace_phase \<Rightarrow> edit_trace_outcome \<Rightarrow> string option
   \<Rightarrow> string option \<Rightarrow> metric_attribute list \<Rightarrow> session_event list \<Rightarrow> session_event list" where
  "record_review_trace env pend phase outcome reason tx attributes events =
     record_edit_trace (pr_session_id pend) (pr_turn_id pend)
       \<lparr>et_trace_id = pr_trace_id pend, et_phase = phase, et_source = ProviderTool,
        et_tool_name = Some (pr_operation pend), et_tool_request_id = Some (pr_request_id pend),
        et_provider_call_id = Some (pr_provider_call_id pend), et_preview_id = Some (pr_preview_id pend),
        et_permission_decision_id = Some (pr_permission_decision_id pend), et_transaction_id = tx,
        et_outcome = outcome, et_duration_ms = ag_elapsed env (pr_trace_id pend) phase,
        et_reason_label = reason, et_attributes = attributes\<rparr> events"

section \<open>Normalizing a call\<close>

definition string_argument :: "pending_tool_request \<Rightarrow> string \<Rightarrow> (tool_error, string) result" where
  "string_argument req name = ok_or (Option.bind (json_get name (tr_arguments req)) json_as_str) MalformedArguments"

text \<open>The normal components of a path, \<open>None\<close> when it is absolute or goes up.\<close>

fun plain_components :: "component list \<Rightarrow> string list option" where
  "plain_components [] = Some []"
| "plain_components (Normal n # cs) = map_option (Cons n) (plain_components cs)"
| "plain_components (CurDir # cs) = plain_components cs"
| "plain_components (ParentDir # cs) = None"
| "plain_components (RootDir # cs) = None"

definition agent_edit_metadata_path_denied :: "string \<Rightarrow> bool" where
  "agent_edit_metadata_path_denied path \<longleftrightarrow>
     plain_components (path_components path) = Some [''.yach'', ''APPEND_SYSTEM.md'']"

definition normal_component :: "component \<Rightarrow> string option" where
  "normal_component c = (case c of Normal n \<Rightarrow> Some n | _ \<Rightarrow> None)"

definition sensitive_denied_request_path :: "resource_root \<Rightarrow> pending_tool_request \<Rightarrow> bool" where
  "sensitive_denied_request_path base req =
     (case string_argument req ''path'' of
        Inl _ \<Rightarrow> False
      | Inr path \<Rightarrow>
          (let normalized = join_slash (List.map_filter normal_component (path_components path))
           in normalized \<noteq> '''' \<and> sensitive_denies base normalized))"

definition normalize_edit_text_file ::
  "edit_env \<Rightarrow> resource_root \<Rightarrow> fs \<Rightarrow> pending_tool_request \<Rightarrow> edit_policy
   \<Rightarrow> (tool_error, normalized_agent_edit_tool_request) result" where
  "normalize_edit_text_file env base s req policy =
     res_bind (string_argument req ''path'') (\<lambda>path.
     res_bind (fail_if (agent_edit_metadata_path_denied path) ToolPermissionDenied) (\<lambda>_.
     res_bind (string_argument req ''find'') (\<lambda>hunk_text.
     res_bind (string_argument req ''replace'') (\<lambda>replacement.
     res_bind (map_err (\<lambda>_. MalformedArguments) (edit_read_existing_text base s path policy)) (\<lambda>(relative, src).
       Inr \<lparr>na_transaction = [ModifyTextFile relative (sha256_hex env src)
              [\<lparr>hunk_find = hunk_text, hunk_replace = replacement\<rparr>]],
            na_path = relative, na_operation = ''edit_text_file''\<rparr>)))))"

definition normalize_create_text_file ::
  "pending_tool_request \<Rightarrow> (tool_error, normalized_agent_edit_tool_request) result" where
  "normalize_create_text_file req =
     res_bind (string_argument req ''path'') (\<lambda>path.
     res_bind (fail_if (agent_edit_metadata_path_denied path) ToolPermissionDenied) (\<lambda>_.
     res_bind (string_argument req ''content'') (\<lambda>content.
       Inr \<lparr>na_transaction = [CreateTextFile path content], na_path = path, na_operation = ''create_text_file''\<rparr>)))"

definition normalize_agent_edit_tool_request ::
  "json_codec \<Rightarrow> edit_env \<Rightarrow> tool_registry \<Rightarrow> resource_root \<Rightarrow> fs \<Rightarrow> pending_tool_request \<Rightarrow> edit_policy
   \<Rightarrow> (tool_error, normalized_agent_edit_tool_request) result" where
  "normalize_agent_edit_tool_request js env registry base s req policy =
     res_bind (validate_request_schema_only js registry req) (\<lambda>d.
       if td_name d = ''edit_text_file'' then normalize_edit_text_file env base s req policy
       else if td_name d = ''create_text_file'' then normalize_create_text_file req
       else Inl UnknownTool)"

section \<open>Applying and rejecting\<close>

text \<open>The error reported for a failed application and the reason recorded for it.\<close>

fun apply_failure :: "edit_access_error \<Rightarrow> tool_continuation_error \<times> string" where
  "apply_failure StaleAuthorization = (ContinuationExecution ExecStaleAuthorization, ''stale_authorization'')"
| "apply_failure (AccessApply e) = (ContinuationExecution MalformedResult, edit_error_label e)"
| "apply_failure _ = (ContinuationExecution MalformedResult, ''malformed_result'')"

definition pending_finished_event ::
  "pending_agent_edit_tool_review \<Rightarrow> tool_outcome \<Rightarrow> string option \<Rightarrow> provider_tool_result \<Rightarrow> tool_timing \<Rightarrow> session_event" where
  "pending_finished_event pend outcome reason r timing =
     ToolExecutionFinished (pr_session_id pend) (pr_turn_id pend) (pr_request_id pend) outcome reason
       (Some (result_summary r)) (Some (ptr_content r)) (started_at_ms timing) (tool_duration_ms timing)"

definition apply_agent_edit_tool_review ::
  "agent_edit_env \<Rightarrow> pending_agent_edit_tool_review \<Rightarrow> review_freshness option \<Rightarrow> tool_timing \<Rightarrow> agent_edit_state
   \<Rightarrow> (tool_continuation_error, provider_tool_result) result \<times> agent_edit_state" where
  "apply_agent_edit_tool_review env pend freshness prior st =
     (let (applied, w) = apply_with_evidence_sink_and_freshness (ag_access env) (pr_preview_id pend)
            (pr_permission_decision_id pend) freshness (ae_world st);
          st1 = st\<lparr>ae_world := w\<rparr>;
          timing = timing_including prior (ag_timing env (pr_trace_id pend))
      in case applied of
           Inl e \<Rightarrow>
             (let (err, reason) = apply_failure e;
                  r = provider_result (pr_request_id pend) (Some (pr_provider_call_id pend)) Failed
                    (failed_content reason (agent_edit_failure_guidance reason)) (Some reason)
              in (Inl err, snd (agent_append env [pending_finished_event pend Failed (Some reason) r timing] st1)))
         | Inr (res, persisted) \<Rightarrow>
             (let r = provider_result (pr_request_id pend) (Some (pr_provider_call_id pend)) Completed
                    (applied_content res) None;
                  reason = (if persisted then None else Some ''edit_evidence_persist_failed'');
                  traces = record_review_trace env pend ResultShaping TraceCompleted None (Some (r_transaction_id res))
                    (trace_operation_attributes (Some (pr_operation pend)))
                    (record_review_trace env pend ApplyPhase TraceCompleted reason (Some (r_transaction_id res))
                      [trace_attribute ''operation'' (pr_operation pend),
                       trace_attribute ''evidence_persisted'' (show_bool persisted)] []);
                  (stored, st2) = agent_append env [pending_finished_event pend Completed reason r timing] st1
              in (Inr (case stored of Inr _ \<Rightarrow> r | Inl _ \<Rightarrow> r\<lparr>ptr_reason := Some ''tool_evidence_persist_failed''\<rparr>),
                  snd (agent_append env traces st2))))"

text \<open>What both rejections do once the preview is rejected: two traces, the event, one append.\<close>

definition close_rejected ::
  "agent_edit_env \<Rightarrow> pending_agent_edit_tool_review \<Rightarrow> tool_outcome \<Rightarrow> string \<Rightarrow> string \<Rightarrow> tool_timing
   \<Rightarrow> session_event list \<Rightarrow> agent_edit_state
   \<Rightarrow> (tool_continuation_error, provider_tool_result) result \<times> agent_edit_state" where
  "close_rejected env pend outcome reason content prior events st =
     (let r = provider_result (pr_request_id pend) (Some (pr_provider_call_id pend)) outcome content (Some reason);
          attributes = trace_operation_attributes (Some (pr_operation pend));
          events1 = record_review_trace env pend ResultShaping TraceRejected (Some reason) None attributes
            (record_review_trace env pend RejectPhase TraceRejected (Some reason) None attributes events);
          (stored, st1) = agent_append env (events1 @ [pending_finished_event pend outcome (Some reason) r prior]) st
      in (res_bind stored (\<lambda>_. Inr r), st1))"

definition reject_agent_edit_tool_review ::
  "agent_edit_env \<Rightarrow> pending_agent_edit_tool_review \<Rightarrow> tool_timing \<Rightarrow> agent_edit_state
   \<Rightarrow> (tool_continuation_error, provider_tool_result) result \<times> agent_edit_state" where
  "reject_agent_edit_tool_review env pend prior st =
     (case reject (pr_preview_id pend) (pr_permission_decision_id pend) [] (ae_world st) of
        (Inl _, events, w) \<Rightarrow> (Inl (ContinuationExecution MalformedResult), st\<lparr>ae_world := w\<rparr>)
      | (Inr _, events, w) \<Rightarrow>
          close_rejected env pend Completed ''user_rejected'' rejected_content prior events (st\<lparr>ae_world := w\<rparr>))"

definition reject_agent_edit_tool_review_for_human_performs ::
  "agent_edit_env \<Rightarrow> pending_agent_edit_tool_review \<Rightarrow> tool_timing \<Rightarrow> agent_edit_state
   \<Rightarrow> (tool_continuation_error, provider_tool_result) result \<times> agent_edit_state" where
  "reject_agent_edit_tool_review_for_human_performs env pend prior st =
     (case reject_with_reason (pr_preview_id pend) (pr_permission_decision_id pend) ''restriction_human_performs'' False
         [] (ae_world st) of
        (Inl _, events, w) \<Rightarrow> (Inl (ContinuationExecution MalformedResult), st\<lparr>ae_world := w\<rparr>)
      | (Inr _, events, w) \<Rightarrow>
          close_rejected env pend Failed ''restriction_human_performs''
            (verdict_with_guidance ''error: restriction_human_performs''
               ''This action is reserved for the user to perform outside the agent. Describe the exact change so the user can make it, then continue.'')
            prior events (st\<lparr>ae_world := w\<rparr>))"

section \<open>Preparing\<close>

definition fail_validation ::
  "agent_edit_env \<Rightarrow> agent_edit_tool_context \<Rightarrow> string \<Rightarrow> pending_tool_request \<Rightarrow> tool_error \<Rightarrow> string \<Rightarrow> agent_edit_state
   \<Rightarrow> (tool_continuation_error, agent_edit_tool_prepared) result \<times> agent_edit_state" where
  "fail_validation env ctx tid req error reason st =
     (let op = trace_operation (tr_tool_name req);
          events = record_result_shaping_trace env ctx tid req TraceFailed (Some ''validation_failed'') op
            (record_agent_edit_trace env ctx
              (trace_input tid req ToolValidationPhase TraceFailed (Some reason) (trace_operation_attributes op)) []);
          (stored, st1) = append_validation_failure env ctx req error reason events st
      in (res_bind stored (\<lambda>_. Inl (ContinuationValidation error)), st1))"

text \<open>A call that ends before anything is applied: the trace of its result, its event, one append.\<close>

definition close_prepared ::
  "agent_edit_env \<Rightarrow> agent_edit_tool_context \<Rightarrow> string \<Rightarrow> pending_tool_request \<Rightarrow> string option \<Rightarrow> string \<Rightarrow> string \<Rightarrow> bool
   \<Rightarrow> session_event list \<Rightarrow> agent_edit_state
   \<Rightarrow> (tool_continuation_error, agent_edit_tool_prepared) result \<times> agent_edit_state" where
  "close_prepared env ctx tid req op call_id reason denied events st =
     (let outcome = (if denied then DeniedOutcome else Failed);
          r = provider_result (tr_request_id req) (Some call_id) outcome
            (if denied then denied_content reason else failed_content reason (agent_edit_failure_guidance reason))
            (Some reason);
          events1 = record_result_shaping_trace env ctx tid req (if denied then TraceDenied else TraceFailed)
            (Some reason) op events;
          (stored, st1) = agent_append env (events1 @ [agent_finished_event ctx (tr_request_id req) outcome (Some reason)
            (Some (result_summary r)) (Some (ptr_content r)) no_timing]) st
      in (res_bind stored (\<lambda>_. Inr ((if denied then EditToolDenied else EditToolFailed) tid r)), st1))"

definition edit_context_of :: "agent_edit_tool_context \<Rightarrow> pending_tool_request \<Rightarrow> edit_access_context" where
  "edit_context_of ctx req =
     \<lparr>eac_session_id = aec_session_id ctx, eac_turn_id = aec_turn_id ctx, eac_edit_mode = aec_edit_mode ctx,
      eac_edit_policy = aec_edit_policy ctx, eac_tool_request_id = Some (tr_request_id req),
      eac_review_policy = aec_review_policy ctx, eac_authorization_revision = aec_authorization_revision ctx\<rparr>"

text \<open>The end of both preparations: an allowed edit is applied, any other waits for its review.\<close>

definition settle_preview ::
  "agent_edit_env \<Rightarrow> agent_edit_tool_context \<Rightarrow> string \<Rightarrow> pending_tool_request \<Rightarrow> string \<Rightarrow> string \<Rightarrow> string \<Rightarrow> edit_preview
   \<Rightarrow> tool_timing \<Rightarrow> agent_edit_state
   \<Rightarrow> (tool_continuation_error, agent_edit_tool_prepared) result \<times> agent_edit_state" where
  "settle_preview env ctx tid req call_id path op p prior st =
     (if ep_review_state p = EditAllowed then
        (case apply_agent_edit_tool_review env
            \<lparr>pr_trace_id = tid, pr_session_id = aec_session_id ctx, pr_turn_id = aec_turn_id ctx,
             pr_request_id = tr_request_id req, pr_provider_call_id = call_id, pr_preview_id = ep_preview_id p,
             pr_permission_decision_id = ep_permission_decision_id p, pr_path = path, pr_operation = op\<rparr>
            None prior st of
           (r, st1) \<Rightarrow> (res_bind r (\<lambda>x. Inr (EditToolCompleted tid x)), st1))
      else (Inr (EditToolNeedsReview tid (tr_request_id req) call_id p path op), st))"

definition present_call_id :: "pending_tool_request \<Rightarrow> string option" where
  "present_call_id req =
     (case tr_provider_call_id req of Some cid \<Rightarrow> if cid = '''' then None else Some cid | None \<Rightarrow> None)"

definition prepare_normalized ::
  "agent_edit_env \<Rightarrow> resource_root \<Rightarrow> agent_edit_tool_context \<Rightarrow> string \<Rightarrow> pending_tool_request \<Rightarrow> string
   \<Rightarrow> normalized_agent_edit_tool_request \<Rightarrow> session_event list \<Rightarrow> agent_edit_state
   \<Rightarrow> (tool_continuation_error, agent_edit_tool_prepared) result \<times> agent_edit_state" where
  "prepare_normalized env base ctx tid req call_id na events st =
     (let op = na_operation na;
          (prepared, events1, w) = prepare_with_diagnostics (ag_access env) base (na_transaction na)
            (edit_context_of ctx req) events (ae_world st);
          st1 = st\<lparr>ae_world := w\<rparr>
      in case prepared of
           Inr (p, diag) \<Rightarrow>
             (let events2 = record_permission_decision_trace env ctx tid req TraceCompleted None diag op events1;
                  events3 = record_preview_trace env ctx tid req TraceCompleted None (Some (ep_preview_id p))
                    (ed_permission_decision_id diag) (Some (ep_transaction_id p)) op events2
              in case agent_append env events3 st1 of
                   (Inl e, st2) \<Rightarrow> (Inl e, st2)
                 | (Inr _, st2) \<Rightarrow> settle_preview env ctx tid req call_id (na_path na) op p no_timing st2)
         | Inl (PrepareDenied reason diag) \<Rightarrow>
             close_prepared env ctx tid req (Some op) call_id reason True
               (record_permission_decision_trace env ctx tid req TraceDenied (Some reason) diag op events1) st1
         | Inl (PreparePreview e diag) \<Rightarrow>
             close_prepared env ctx tid req (Some op) call_id (edit_error_label e) False
               (record_preview_trace env ctx tid req TraceFailed (ed_reason_label diag) None
                 (ed_permission_decision_id diag) None op
                 (record_permission_decision_trace env ctx tid req TraceCompleted None diag op events1)) st1)"

definition prepare_agent_edit_tool_request ::
  "agent_edit_env \<Rightarrow> tool_registry \<Rightarrow> resource_root \<Rightarrow> agent_edit_tool_context \<Rightarrow> pending_tool_request
   \<Rightarrow> agent_edit_state \<Rightarrow> (tool_continuation_error, agent_edit_tool_prepared) result \<times> agent_edit_state" where
  "prepare_agent_edit_tool_request env registry base ctx req st0 =
     (let (tid, n) = next_agent_edit_trace_id (ae_trace_counter st0);
          st = st0\<lparr>ae_trace_counter := n\<rparr>;
          op = trace_operation (tr_tool_name req)
      in if tr_turn_id req \<noteq> aec_turn_id ctx
         then fail_validation env ctx tid req MalformedArguments ''turn_id_mismatch'' st
         else (case validate_request_schema_only (ag_js env) registry req of
             Inl e \<Rightarrow> fail_validation env ctx tid req e (tool_error_label e) st
           | Inr _ \<Rightarrow> (case present_call_id req of
               None \<Rightarrow> fail_validation env ctx tid req MalformedArguments ''missing_provider_call_id'' st
             | Some call_id \<Rightarrow>
                 (let events = record_agent_edit_trace env ctx
                        (trace_input tid req ToolValidationPhase TraceCompleted None (trace_operation_attributes op)) []
                      @ [ToolRequestRecorded (aec_session_id ctx) (aec_turn_id ctx) (tr_request_id req)
                           (tr_tool_name req) (Some call_id) (Inr ()) ToolAllowed
                           (summarize_agent_edit_payload (ag_js env) (tr_arguments req))
                           (Some (js_display (ag_js env) (tr_arguments req)))];
                      normalization = (\<lambda>outcome reason attrs. record_agent_edit_trace env ctx
                        (trace_input tid req ArgumentNormalization outcome reason attrs) events)
                  in if sensitive_denied_request_path base req
                     then close_prepared env ctx tid req op call_id ''sensitive_path_denied'' False events st
                     else (case normalize_agent_edit_tool_request (ag_js env) (ea_edit (ag_access env)) registry base
                          (ew_fs (ae_world st)) req (aec_edit_policy ctx) of
                         Inr na \<Rightarrow>
                           prepare_normalized env base ctx tid req call_id na
                             (normalization TraceCompleted None (trace_operation_attributes (Some (na_operation na)))) st
                       | Inl e \<Rightarrow>
                           if e = ToolPermissionDenied
                           then close_prepared env ctx tid req op call_id ''permission_denied'' True
                             (normalization TraceDenied (Some (tool_error_label e)) (trace_operation_attributes op)) st
                           else
                             (let events1 = record_result_shaping_trace env ctx tid req TraceFailed
                                    (Some ''validation_failed'') op
                                    (normalization TraceFailed (Some (tool_error_label e)) (trace_operation_attributes op));
                                  (stored, st1) = agent_append env (events1 @ [agent_finished_event ctx (tr_request_id req)
                                    ValidationFailed (Some (tool_error_label e)) None None no_timing]) st
                              in (res_bind stored (\<lambda>_. Inl (ContinuationValidation e)), st1)))))))"

definition execute_agent_edit_tool_request ::
  "agent_edit_env \<Rightarrow> tool_registry \<Rightarrow> resource_root \<Rightarrow> agent_edit_tool_context \<Rightarrow> pending_tool_request
   \<Rightarrow> agent_edit_state \<Rightarrow> (tool_continuation_error, provider_tool_result) result \<times> agent_edit_state" where
  "execute_agent_edit_tool_request env registry base ctx req st =
     (case prepare_agent_edit_tool_request env registry base ctx req st of
        (prepared, st1) \<Rightarrow>
          (res_bind prepared (\<lambda>p. case p of
              EditToolCompleted _ r \<Rightarrow> Inr r | EditToolFailed _ r \<Rightarrow> Inr r | EditToolDenied _ r \<Rightarrow> Inr r
            | EditToolNeedsReview _ _ _ _ _ _ \<Rightarrow> Inl (ContinuationExecution ExecPermissionDenied)), st1))"

section \<open>Proposals of extensions\<close>

definition proposal_operation :: "extension_edit_operation \<Rightarrow> edit_operation" where
  "proposal_operation x = ReplaceTextFile (xo_path x) (xo_expected_sha256 x) (xo_after_text x)"

definition proposal_path :: "extension_edit_proposal \<Rightarrow> string" where
  "proposal_path proposal =
     (case xp_operations proposal of [x] \<Rightarrow> xo_path x | xs \<Rightarrow> show_nat (length xs) @ '' files'')"

definition close_proposal ::
  "agent_edit_env \<Rightarrow> agent_edit_tool_context \<Rightarrow> string \<Rightarrow> pending_tool_request \<Rightarrow> string \<Rightarrow> string \<Rightarrow> bool \<Rightarrow> tool_timing
   \<Rightarrow> session_event list \<Rightarrow> agent_edit_state
   \<Rightarrow> (tool_continuation_error, agent_edit_tool_prepared) result \<times> agent_edit_state" where
  "close_proposal env ctx tid req call_id reason denied prior events st =
     (let outcome = (if denied then DeniedOutcome else Failed);
          r = provider_result (tr_request_id req) (Some call_id) outcome
            (if denied then denied_content reason else failed_content reason (agent_edit_failure_guidance reason))
            (Some reason);
          (stored, st1) = agent_append env (events @ [agent_finished_event ctx (tr_request_id req) outcome (Some reason)
            (Some (result_summary r)) (Some (ptr_content r)) prior]) st
      in (res_bind stored (\<lambda>_. Inr ((if denied then EditToolDenied else EditToolFailed) tid r)), st1))"

definition prepare_extension_edit_proposal ::
  "agent_edit_env \<Rightarrow> resource_root \<Rightarrow> agent_edit_tool_context \<Rightarrow> pending_tool_request \<Rightarrow> extension_edit_proposal
   \<Rightarrow> tool_timing \<Rightarrow> agent_edit_state
   \<Rightarrow> (tool_continuation_error, agent_edit_tool_prepared) result \<times> agent_edit_state" where
  "prepare_extension_edit_proposal env base ctx req proposal prior st0 =
     (let (tid, n) = next_agent_edit_trace_id (ae_trace_counter st0);
          st = st0\<lparr>ae_trace_counter := n\<rparr>
      in case present_call_id req of
           None \<Rightarrow> (Inl (ContinuationValidation MalformedArguments), st)
         | Some call_id \<Rightarrow>
             if tr_turn_id req \<noteq> aec_turn_id ctx \<or> xp_operations proposal = []
             then (Inl (ContinuationValidation MalformedArguments), st)
             else
               (let (prepared, events, w) = prepare_with_diagnostics (ag_access env) base
                      (map proposal_operation (xp_operations proposal)) (edit_context_of ctx req) [] (ae_world st);
                    st1 = st\<lparr>ae_world := w\<rparr>
                in case prepared of
                     Inl (PrepareDenied reason _) \<Rightarrow> close_proposal env ctx tid req call_id reason True prior events st1
                   | Inl (PreparePreview e _) \<Rightarrow>
                       close_proposal env ctx tid req call_id (edit_error_label e) False prior events st1
                   | Inr (p, _) \<Rightarrow>
                       (case agent_append env events st1 of
                          (Inl e, st2) \<Rightarrow> (Inl e, st2)
                        | (Inr _, st2) \<Rightarrow> settle_preview env ctx tid req call_id (proposal_path proposal)
                            ''extension_edit_proposal'' p prior st2)))"

end
