(* ===== verification/Agent_Edit_Properties.thy ===== *)
theory Agent_Edit_Properties
  imports Agent_Edit
begin

text \<open>
  Properties of the tools that edit files: when a call may have touched a file, what its result
  says of it, and the records a call leaves.
\<close>

section \<open>Records of calls\<close>

definition tool_record :: "session_event \<Rightarrow> bool" where
  "tool_record e = (case e of
     ToolRequestRecorded _ _ _ _ _ _ _ _ _ \<Rightarrow> True
   | ToolExecutionFinished _ _ _ _ _ _ _ _ _ \<Rightarrow> True
   | _ \<Rightarrow> False)"

abbreviation tool_records :: "session_event list \<Rightarrow> session_event list" where
  "tool_records events \<equiv> filter tool_record events"

lemma tool_record_simps [simp]:
  "tool_record (ToolRequestRecorded s t i n c v p a x)" "tool_record (ToolExecutionFinished s t i oc rs sm ct b d)"
  "\<not> tool_record (EditTraceRecorded s t tr)" "\<not> tool_record (PermissionDecisionRecorded s t ps)"
  "\<not> tool_record (EditTransactionPrepared s t io tx es)" "\<not> tool_record (edit_finished ectx txo eo rs ees)"
  "tool_record (agent_finished_event ctx i oc rs sm ct timing)" "tool_record (pending_finished_event pend oc rs r timing)"
  by (simp_all add: tool_record_def edit_finished_def agent_finished_event_def pending_finished_event_def)

lemma tool_records_trace [simp]:
  "tool_records (record_agent_edit_trace env ctx inp events) = tool_records events"
  "tool_records (record_permission_decision_trace env ctx tid req outcome reason diag op events) = tool_records events"
  "tool_records (record_preview_trace env ctx tid req outcome reason pid did tx op events) = tool_records events"
  "tool_records (record_result_shaping_trace env ctx tid req outcome reason opo events) = tool_records events"
  "tool_records (record_review_trace env pend phase outcome reason tx attributes events) = tool_records events"
  by (simp_all add: record_agent_edit_trace_def record_permission_decision_trace_def record_preview_trace_def
      record_result_shaping_trace_def record_review_trace_def record_edit_trace_def)

lemma tool_records_override [simp]:
  "tool_records (record_permission_override ctx s outcome reason user_override events) = tool_records events"
  by (simp add: record_permission_override_def record_permission_decision_def)

lemma tool_records_write_ahead [simp]: "tool_records (write_ahead pe) = []"
  by (simp add: write_ahead_def)

text \<open>What a step adds to the store, of which only the records of calls are looked at.\<close>

definition stores :: "agent_edit_state \<Rightarrow> session_event list \<Rightarrow> agent_edit_state \<Rightarrow> bool" where
  "stores st records st' \<longleftrightarrow> (\<exists>events. ew_stored (ae_world st') = ew_stored (ae_world st) @ events \<and> tool_records events = records)"

lemma stores_refl [simp]: "stores st [] st"
  by (simp add: stores_def)

lemma stores_trans: "stores st rs st' \<Longrightarrow> stores st' rs' st'' \<Longrightarrow> stores st (rs @ rs') st''"
  by (auto simp: stores_def)

lemma stores_same: "ew_stored (ae_world st') = ew_stored (ae_world st) \<Longrightarrow> stores st rs st'' \<longleftrightarrow> stores st' rs st''"
  by (simp add: stores_def)

text \<open>The files and the pending previews are as they were.\<close>

definition edits_kept :: "agent_edit_state \<Rightarrow> agent_edit_state \<Rightarrow> bool" where
  "edits_kept st st' \<longleftrightarrow> ew_fs (ae_world st') = ew_fs (ae_world st) \<and> ew_pending (ae_world st') = ew_pending (ae_world st)"

lemma edits_kept_refl [simp]: "edits_kept st st"
  by (simp add: edits_kept_def)

lemma edits_kept_trans: "edits_kept st st' \<Longrightarrow> edits_kept st' st'' \<Longrightarrow> edits_kept st st''"
  by (simp add: edits_kept_def)

lemma agent_append_cases:
  assumes "agent_append env events st = (r, st')"
  obtains (stored) "r = Inr ()" "edits_kept st st'" "stores st (tool_records events) st'"
  | (dropped) "r = Inl (ContinuationExecution MalformedResult)" "edits_kept st st'"
      "\<not> (\<forall>n. sink_ok (ag_access env) n)"
proof (cases "sink_ok (ag_access env) (ew_sink_calls (ae_world st))")
  case True
  then show ?thesis using assms by (intro stored) (auto simp: agent_append_def sink_append_def edits_kept_def stores_def)
next
  case False
  then show ?thesis using assms by (intro dropped) (auto simp: agent_append_def sink_append_def edits_kept_def stores_def)
qed

text \<open>An event that records the end of a call with its result.\<close>

definition finished_as :: "string \<Rightarrow> string \<Rightarrow> provider_tool_result \<Rightarrow> session_event \<Rightarrow> bool" where
  "finished_as session turn x e \<longleftrightarrow> (\<exists>b d. e = ToolExecutionFinished session turn (ptr_request_id x) (ptr_status x) (ptr_reason x)
     (Some (result_summary x)) (Some (ptr_content x)) b d)"

definition result_of :: "pending_tool_request \<Rightarrow> tool_outcome \<Rightarrow> string option \<Rightarrow> provider_tool_result \<Rightarrow> bool" where
  "result_of req status reason x \<longleftrightarrow> ptr_request_id x = tr_request_id req \<and> ptr_provider_call_id x = tr_provider_call_id req
     \<and> ptr_status x = status \<and> ptr_reason x = reason"

section \<open>Preparing\<close>

lemma prepare_frame:
  assumes "prepare_with_diagnostics env base ops ctx events w = (r, events', w')"
  shows "ew_fs w' = ew_fs w" "ew_stored w' = ew_stored w" "tool_records events' = tool_records events"
    "r = Inl e \<Longrightarrow> ew_pending w' = ew_pending w"
  using assms by (auto simp: prepare_with_diagnostics_def Let_def record_permission_decision_def split: prod.splits sum.splits)

text \<open>The decision on an edit, and the preview a preparation that succeeds leaves pending.\<close>

definition edit_decided :: "edit_access_env \<Rightarrow> edit_operation list \<Rightarrow> edit_access_context \<Rightarrow> edit_world \<Rightarrow> permission_decision" where
  "edit_decided env ops ctx w =
     fst (decide (ea_words env) (permission_request_from_edit (fst (next_edit_permission_request_id (ew_request_counter w))) ops)
       (eac_edit_mode ctx) (eac_review_policy ctx) (ew_decision_counter w))"

lemma prepare_Inr:
  assumes "prepare_with_diagnostics env base ops ctx events w = (Inr (p, dg), events', w')"
  obtains pe tx n where "ew_pending w' = (ew_pending w)(ep_preview_id p \<mapsto> pe)"
    "preview (ea_edit env) base (ew_fs w) (eac_edit_policy ctx) (ew_transaction_counter w) ops = (Inr tx, n)"
    "pe_prepared pe = tx" "pe_root pe = base" "pe_context pe = ctx"
    "pe_permission_decision_id pe = ep_permission_decision_id p"
    "ep_review_state p = EditAllowed \<longleftrightarrow> is_Allowed (edit_decided env ops ctx w)"
proof -
  let ?req = "permission_request_from_edit (fst (next_edit_permission_request_id (ew_request_counter w))) ops"
  obtain d dn where d: "decide (ea_words env) ?req (eac_edit_mode ctx) (eac_review_policy ctx) (ew_decision_counter w) = (d, dn)" by fastforce
  obtain pv n where pv: "preview (ea_edit env) base (ew_fs w) (eac_edit_policy ctx) (ew_transaction_counter w) ops = (pv, n)" by fastforce
  obtain state tx where s: "review_state_of d = Inr state"
      "preview (ea_edit env) base (ew_fs w) (eac_edit_policy ctx) (ew_transaction_counter w) ops = (Inr tx, n)"
    and out: "ep_review_state p = state" "ew_pending w' = (ew_pending w)(ep_preview_id p \<mapsto>
        \<lparr>pe_context = ctx, pe_root = base, pe_prepared = tx, pe_permission_decision_id = decision_id d,
         pe_permission_summary = (summary d ?req False)\<lparr>sum_authorization_revision := eac_authorization_revision ctx\<rparr>,
         pe_policy_revision = sum_policy_revision ((summary d ?req False)\<lparr>sum_authorization_revision := eac_authorization_revision ctx\<rparr>),
         pe_authorization_revision = eac_authorization_revision ctx, pe_reviewer_generation = 0\<rparr>)"
      "ep_permission_decision_id p = decision_id d"
    using assms d pv by (auto simp: prepare_with_diagnostics_def Let_def case_prod_beta split: sum.splits)
  have "state = EditAllowed \<longleftrightarrow> is_Allowed d" using s(1) by (cases d) (auto simp: review_state_of_def split: if_splits)
  then show thesis using that [OF out(2) s(2)] out d by (simp add: edit_decided_def)
qed

lemma close_prepared_proposal:
  "close_prepared env ctx tid req op call_id reason denied events st = close_proposal env ctx tid req call_id reason denied no_timing
     (record_result_shaping_trace env ctx tid req (if denied then TraceDenied else TraceFailed) (Some reason) op events) st"
  by (simp add: close_prepared_def close_proposal_def)

lemma close_proposal_cases:
  assumes "close_proposal env ctx tid req call_id reason denied prior events st = (r, st')" "tr_provider_call_id req = Some call_id"
  obtains (closed) x e where "r = Inr ((if denied then EditToolDenied else EditToolFailed) tid x)" "edits_kept st st'"
      "result_of req (if denied then DeniedOutcome else Failed) (Some reason) x"
      "stores st (tool_records events @ [e]) st'" "finished_as (aec_session_id ctx) (aec_turn_id ctx) x e"
  | (lost) "r = Inl (ContinuationExecution MalformedResult)" "edits_kept st st'" "\<not> (\<forall>n. sink_ok (ag_access env) n)"
proof -
  let ?outcome = "if denied then DeniedOutcome else Failed"
  define x where "x = provider_result (tr_request_id req) (Some call_id) ?outcome
      (if denied then denied_content reason else failed_content reason (agent_edit_failure_guidance reason)) (Some reason)"
  define e where "e = agent_finished_event ctx (tr_request_id req) ?outcome (Some reason) (Some (result_summary x)) (Some (ptr_content x)) prior"
  obtain stored where a: "agent_append env (events @ [e]) st = (stored, st')"
      and r: "r = res_bind stored (\<lambda>_. Inr ((if denied then EditToolDenied else EditToolFailed) tid x))"
    using assms(1) unfolding close_proposal_def Let_def x_def [symmetric] e_def [symmetric] by (auto split: prod.splits)
  have x: "result_of req ?outcome (Some reason) x" "finished_as (aec_session_id ctx) (aec_turn_id ctx) x e"
    using assms(2) by (simp_all add: result_of_def finished_as_def x_def e_def provider_result_def agent_finished_event_def)
  from a show thesis
  proof (cases rule: agent_append_cases)
    case stored
    then show ?thesis using r x by (intro closed [of x e]) (simp_all add: e_def)
  next
    case dropped
    then show ?thesis using r by (intro lost) simp_all
  qed
qed

section \<open>Applying\<close>

lemma tool_records_take [simp]: "tool_records events = [] \<Longrightarrow> tool_records (take n events) = []"
  by (auto simp: filter_empty_conv dest: in_set_takeD)

lemma apply_stores:
  assumes "apply_with_evidence_sink_and_freshness env pid did current w = (r, w')"
  shows "\<exists>events. ew_stored w' = ew_stored w @ events \<and> tool_records events = []"
    "\<forall>n. sink_ok env n \<Longrightarrow> r = Inr (res, persisted) \<Longrightarrow> persisted"
  using assms
  by (auto simp: apply_with_evidence_sink_and_freshness_def sink_append_def Let_def split: option.splits if_splits prod.splits sum.splits)

lemma apply_review_cases:
  assumes "apply_agent_edit_tool_review env pend freshness prior st = (r, st')"
  obtains (applied) pe res x e where "r = Inr x" "ew_pending (ae_world st) (pr_preview_id pend) = Some pe"
      "pe_permission_decision_id pe = pr_permission_decision_id pend" "\<not> stale pe freshness"
      "edit_apply (ea_edit (ag_access env)) (pe_root pe) (pe_prepared pe) (eac_edit_policy (pe_context pe)) (ew_fs (ae_world st))
        = (Inr res, ew_fs (ae_world st'))"
      "ew_pending (ae_world st') = (ew_pending (ae_world st))(pr_preview_id pend := None)"
      "ptr_request_id x = pr_request_id pend" "ptr_provider_call_id x = Some (pr_provider_call_id pend)"
      "ptr_status x = Completed" "ptr_content x = applied_content res"
      "\<forall>n. sink_ok (ag_access env) n \<Longrightarrow> ptr_reason x = None \<and> stores st [e] st' \<and> finished_as (pr_session_id pend) (pr_turn_id pend) x e"
  | (failed) err x e where "r = Inl (ContinuationExecution err)" "ptr_request_id x = pr_request_id pend" "ptr_status x = Failed"
      "\<forall>n. sink_ok (ag_access env) n \<Longrightarrow> stores st [e] st' \<and> finished_as (pr_session_id pend) (pr_turn_id pend) x e"
proof -
  obtain applied w where ap: "apply_with_evidence_sink_and_freshness (ag_access env) (pr_preview_id pend) (pr_permission_decision_id pend)
      freshness (ae_world st) = (applied, w)" by fastforce
  let ?st1 = "st\<lparr>ae_world := w\<rparr>" and ?timing = "timing_including prior (ag_timing env (pr_trace_id pend))"
  have st1: "stores st [] ?st1" using apply_stores(1) [OF ap] by (simp add: stores_def)
  show thesis
  proof (cases applied)
    case (Inl ae)
    obtain err0 reason where err0: "apply_failure ae = (err0, reason)" by fastforce
    then obtain err where err: "err0 = ContinuationExecution err" by (cases ae rule: apply_failure.cases) auto
    define x where "x = provider_result (pr_request_id pend) (Some (pr_provider_call_id pend)) Failed
        (failed_content reason (agent_edit_failure_guidance reason)) (Some reason)"
    define e where "e = pending_finished_event pend Failed (Some reason) x ?timing"
    obtain stored where a: "agent_append env [e] ?st1 = (stored, st')" and r: "r = Inl err0"
      using assms ap Inl err0 by (auto simp: apply_agent_edit_tool_review_def Let_def x_def e_def prod_eq_iff)
    have fin: "finished_as (pr_session_id pend) (pr_turn_id pend) x e"
      by (simp add: finished_as_def e_def x_def pending_finished_event_def provider_result_def)
    have "stores st [e] st'" if "\<forall>n. sink_ok (ag_access env) n"
      using a that by (cases rule: agent_append_cases) (use stores_trans [OF st1] in \<open>fastforce simp: e_def\<close>)+
    then show ?thesis using r err fin by (intro failed [of err x e]) (simp_all add: x_def provider_result_def)
  next
    case (Inr y)
    obtain res persisted where y: "y = (res, persisted)" by fastforce
    let ?reason = "if persisted then None else Some ''edit_evidence_persist_failed''"
    define x where "x = provider_result (pr_request_id pend) (Some (pr_provider_call_id pend)) Completed (applied_content res) None"
    define e where "e = pending_finished_event pend Completed ?reason x ?timing"
    define traces where "traces = record_review_trace env pend ResultShaping TraceCompleted None (Some (r_transaction_id res))
        (trace_operation_attributes (Some (pr_operation pend)))
        (record_review_trace env pend ApplyPhase TraceCompleted ?reason (Some (r_transaction_id res))
          [trace_attribute ''operation'' (pr_operation pend), trace_attribute ''evidence_persisted'' (show_bool persisted)] [])"
    obtain stored st2 where a: "agent_append env [e] ?st1 = (stored, st2)" by fastforce
    have r: "r = Inr (case stored of Inr _ \<Rightarrow> x | Inl _ \<Rightarrow> x\<lparr>ptr_reason := Some ''tool_evidence_persist_failed''\<rparr>)"
      and b: "st' = snd (agent_append env traces st2)" "tool_records traces = []"
      using assms ap Inr y a [unfolded e_def x_def]
      by (auto simp: apply_agent_edit_tool_review_def Let_def x_def traces_def split: sum.splits)
    obtain stored2 where b2: "agent_append env traces st2 = (stored2, st')" using b by (metis prod.collapse)
    have kept: "edits_kept ?st1 st'"
      using a b2 by (auto elim!: agent_append_cases intro: edits_kept_trans)
    from ap obtain pe where pe: "ew_pending (ae_world st) (pr_preview_id pend) = Some pe"
        "pe_permission_decision_id pe = pr_permission_decision_id pend" "\<not> stale pe freshness"
        "edit_apply (ea_edit (ag_access env)) (pe_root pe) (pe_prepared pe) (eac_edit_policy (pe_context pe)) (ew_fs (ae_world st))
          = (Inr res, ew_fs w)" "ew_pending w = (ew_pending (ae_world st))(pr_preview_id pend := None)"
      by (cases rule: apply_fresh_cases) (use Inr y in auto)
    have "ptr_reason x' = None \<and> stores st [e] st' \<and> finished_as (pr_session_id pend) (pr_turn_id pend) x' e"
      if ok: "\<forall>n. sink_ok (ag_access env) n" and "r = Inr x'" for x'
    proof -
      have "persisted" using apply_stores(2) [OF ap ok] Inr y by simp
      moreover have "stored = Inr ()" "stores ?st1 [e] st2" using a ok by (auto elim!: agent_append_cases simp: e_def)
      moreover have "stores st2 [] st'" using b2 b(2) ok by (auto elim!: agent_append_cases)
      ultimately show ?thesis using r that(2) stores_trans [OF stores_trans [OF st1]]
        by (fastforce simp: x_def e_def finished_as_def pending_finished_event_def provider_result_def)
    qed
    then show ?thesis
      using r pe kept by (intro applied [of _ pe res e]) (auto simp: edits_kept_def x_def provider_result_def split: sum.splits)
  qed
qed

section \<open>The contract of an edit call\<close>

text \<open>
  What preparing a call promises of a transaction \<open>ops\<close>: the files change only under a decision
  that allows it; a completed call has previewed and applied the transaction; one that awaits a
  review has left its preview pending under the decision shown to the user; one that failed or
  was denied has left files and previews alone. A settled call has, after \<open>records\<close>, one record of
  its end, which carries its result.
\<close>

definition call_settled ::
  "agent_edit_tool_context \<Rightarrow> agent_edit_state \<Rightarrow> session_event list \<Rightarrow> provider_tool_result \<Rightarrow> agent_edit_state \<Rightarrow> bool" where
  "call_settled ctx st records x st' \<longleftrightarrow>
     (\<exists>e. stores st (records @ [e]) st' \<and> finished_as (aec_session_id ctx) (aec_turn_id ctx) x e)"

definition edit_outcome ::
  "agent_edit_env \<Rightarrow> resource_root \<Rightarrow> agent_edit_tool_context \<Rightarrow> pending_tool_request \<Rightarrow> edit_operation list
   \<Rightarrow> session_event list \<Rightarrow> agent_edit_state \<Rightarrow> (tool_continuation_error, agent_edit_tool_prepared) result \<Rightarrow> agent_edit_state \<Rightarrow> bool" where
  "edit_outcome env base ctx req ops records st r st' =
     (let w = ae_world st; w' = ae_world st'; healthy = (\<forall>n. sink_ok (ag_access env) n);
          allowed = is_Allowed (edit_decided (ag_access env) ops (edit_context_of ctx req) w);
          edit = ea_edit (ag_access env);
          previewed = (\<lambda>tx. \<exists>n. preview edit base (ew_fs w) (aec_edit_policy ctx) (ew_transaction_counter w) ops = (Inr tx, n))
      in case r of
           Inr (EditToolCompleted _ x) \<Rightarrow> allowed \<and> result_of req Completed (ptr_reason x) x
             \<and> (\<exists>tx res. previewed tx \<and> edit_apply edit base tx (aec_edit_policy ctx) (ew_fs w) = (Inr res, ew_fs w')
                  \<and> ptr_content x = applied_content res)
             \<and> (healthy \<longrightarrow> ptr_reason x = None \<and> call_settled ctx st records x st')
         | Inr (EditToolFailed _ x) \<Rightarrow> edits_kept st st' \<and> result_of req Failed (ptr_reason x) x \<and> call_settled ctx st records x st'
         | Inr (EditToolDenied _ x) \<Rightarrow> edits_kept st st' \<and> result_of req DeniedOutcome (ptr_reason x) x \<and> call_settled ctx st records x st'
         | Inr (EditToolNeedsReview _ rid call_id p _ _) \<Rightarrow> \<not> allowed \<and> ew_fs w' = ew_fs w
             \<and> rid = tr_request_id req \<and> tr_provider_call_id req = Some call_id
             \<and> (\<exists>pe. ew_pending w' = (ew_pending w)(ep_preview_id p \<mapsto> pe) \<and> previewed (pe_prepared pe) \<and> pe_root pe = base
                  \<and> pe_permission_decision_id pe = ep_permission_decision_id p)
             \<and> stores st records st'
         | Inl (ContinuationExecution _) \<Rightarrow> (\<not> allowed \<longrightarrow> ew_fs w' = ew_fs w)
             \<and> (healthy \<longrightarrow> (\<exists>x. ptr_request_id x = tr_request_id req \<and> ptr_status x = Failed \<and> call_settled ctx st records x st'))
         | Inl _ \<Rightarrow> False)"

lemma edit_outcome_cong:
  assumes "ae_world st1 = ae_world st"
  shows "edit_outcome env base ctx req ops records st1 r st' = edit_outcome env base ctx req ops records st r st'"
  unfolding edit_outcome_def edits_kept_def call_settled_def stores_def assms by (rule refl)

lemma close_proposal_outcome:
  assumes "close_proposal env ctx tid req call_id reason denied prior events st1 = (r, st')" "tr_provider_call_id req = Some call_id"
    "edits_kept st st1" "ew_stored (ae_world st1) = ew_stored (ae_world st)"
  shows "edit_outcome env base ctx req ops (tool_records events) st r st'"
  using assms(1,2)
proof (cases rule: close_proposal_cases)
  case (closed x e)
  moreover have "call_settled ctx st (tool_records events) x st'"
    using closed assms(4) by (auto simp: call_settled_def stores_def)
  ultimately show ?thesis
    using assms(3) by (auto simp: edit_outcome_def result_of_def intro: edits_kept_trans)
next
  case lost
  then show ?thesis using assms(3) by (auto simp: edit_outcome_def edits_kept_def)
qed

lemma settle_outcome:
  assumes "settle_preview env ctx tid req call_id path op p prior st2 = (r, st')" "tr_provider_call_id req = Some call_id"
    and prep: "prepare_with_diagnostics (ag_access env) base ops (edit_context_of ctx req) events0 (ae_world st) = (Inr (p, dg), events, w)"
    and st2: "edits_kept (st\<lparr>ae_world := w\<rparr>) st2" "stores st records st2"
  shows "edit_outcome env base ctx req ops records st r st'"
proof -
  have fs: "ew_fs (ae_world st2) = ew_fs (ae_world st)" using prepare_frame(1) [OF prep] st2(1) by (simp add: edits_kept_def)
  from prep obtain pe tx n where pe: "ew_pending w = (ew_pending (ae_world st))(ep_preview_id p \<mapsto> pe)"
      "preview (ea_edit (ag_access env)) base (ew_fs (ae_world st)) (aec_edit_policy ctx) (ew_transaction_counter (ae_world st)) ops = (Inr tx, n)"
      "pe_prepared pe = tx" "pe_root pe = base" "pe_context pe = edit_context_of ctx req"
      "pe_permission_decision_id pe = ep_permission_decision_id p"
      "ep_review_state p = EditAllowed \<longleftrightarrow> is_Allowed (edit_decided (ag_access env) ops (edit_context_of ctx req) (ae_world st))"
    by (rule prepare_Inr) (simp add: edit_context_of_def)
  have at2: "ew_pending (ae_world st2) = ew_pending w" using st2(1) by (simp add: edits_kept_def)
  show ?thesis
  proof (cases "ep_review_state p = EditAllowed")
    case False
    then show ?thesis using assms(1,2) pe fs at2 st2(2) by (auto simp: settle_preview_def edit_outcome_def Let_def)
  next
    case True
    let ?pend = "\<lparr>pr_trace_id = tid, pr_session_id = aec_session_id ctx, pr_turn_id = aec_turn_id ctx,
        pr_request_id = tr_request_id req, pr_provider_call_id = call_id, pr_preview_id = ep_preview_id p,
        pr_permission_decision_id = ep_permission_decision_id p, pr_path = path, pr_operation = op\<rparr>"
    obtain r1 where a: "apply_agent_edit_tool_review env ?pend None prior st2 = (r1, st')" "r = res_bind r1 (\<lambda>x. Inr (EditToolCompleted tid x))"
      using assms(1) True by (auto simp: settle_preview_def split: prod.splits)
    have settled: "call_settled ctx st records x st'" if "stores st2 [e] st'" "finished_as (aec_session_id ctx) (aec_turn_id ctx) x e" for x e
      using stores_trans [OF st2(2) that(1)] that(2) by (auto simp: call_settled_def)
    from a(1) show ?thesis
    proof (cases rule: apply_review_cases)
      case (applied pe' res x e)
      then have "pe' = pe" using at2 pe(1) by simp
      then show ?thesis using applied a(2) pe True fs assms(2) settled
        by (auto simp: edit_outcome_def result_of_def edit_context_of_def Let_def)
    next
      case (failed err x e)
      then show ?thesis using a(2) True pe settled by (auto simp: edit_outcome_def Let_def)
    qed
  qed
qed

lemma prepare_normalized_outcome:
  assumes "prepare_normalized env base ctx tid req call_id na events st = (r, st')" "tr_provider_call_id req = Some call_id"
  shows "edit_outcome env base ctx req (na_transaction na) (tool_records events) st r st'"
proof -
  obtain prepared events1 w where p: "prepare_with_diagnostics (ag_access env) base (na_transaction na) (edit_context_of ctx req) events
      (ae_world st) = (prepared, events1, w)" by (metis prod_cases3)
  let ?st1 = "st\<lparr>ae_world := w\<rparr>"
  note frame = prepare_frame [OF p]
  show ?thesis
  proof (cases prepared)
    case (Inl err)
    have kept: "edits_kept st ?st1" "ew_stored (ae_world ?st1) = ew_stored (ae_world st)"
      using frame Inl by (simp_all add: edits_kept_def)
    show ?thesis
    proof (cases err)
      case (PrepareDenied reason diag)
      with assms(1) p Inl have "close_prepared env ctx tid req (Some (na_operation na)) call_id reason True
          (record_permission_decision_trace env ctx tid req TraceDenied (Some reason) diag (na_operation na) events1) ?st1 = (r, st')"
        by (simp add: prepare_normalized_def Let_def)
      from close_proposal_outcome [OF this [unfolded close_prepared_proposal] assms(2) kept] show ?thesis using frame(3) by simp
    next
      case (PreparePreview e diag)
      with assms(1) p Inl have "close_prepared env ctx tid req (Some (na_operation na)) call_id (edit_error_label e) False
          (record_preview_trace env ctx tid req TraceFailed (ed_reason_label diag) None (ed_permission_decision_id diag) None (na_operation na)
            (record_permission_decision_trace env ctx tid req TraceCompleted None diag (na_operation na) events1)) ?st1 = (r, st')"
        by (simp add: prepare_normalized_def Let_def)
      from close_proposal_outcome [OF this [unfolded close_prepared_proposal] assms(2) kept] show ?thesis using frame(3) by simp
    qed
  next
    case (Inr y)
    obtain pv dg where y: "y = (pv, dg)" by fastforce
    obtain events3 stored st2 where a: "agent_append env events3 ?st1 = (stored, st2)" "tool_records events3 = tool_records events"
      and out: "(r, st') = (case stored of Inl e \<Rightarrow> (Inl e, st2)
          | Inr _ \<Rightarrow> settle_preview env ctx tid req call_id (na_path na) (na_operation na) pv no_timing st2)"
      using assms(1) p Inr y frame(3) by (fastforce simp: prepare_normalized_def Let_def split: prod.splits sum.splits)
    have st1: "stores st [] ?st1" using frame(2) by (simp add: stores_def)
    from a(1) show ?thesis
    proof (cases rule: agent_append_cases)
      case stored
      show ?thesis
        using settle_outcome [OF _ assms(2) p [unfolded Inr y] stored(2) stores_trans [OF st1 stored(3)]] out stored(1) a(2) by simp
    next
      case dropped
      then show ?thesis using out frame(1) by (auto simp: edit_outcome_def edits_kept_def)
    qed
  qed
qed

section \<open>Calls of the tools\<close>

text \<open>The end of a call that asks for no transaction.\<close>

definition refused_outcome ::
  "agent_edit_tool_context \<Rightarrow> pending_tool_request \<Rightarrow> session_event list \<Rightarrow> agent_edit_state
   \<Rightarrow> (tool_continuation_error, agent_edit_tool_prepared) result \<Rightarrow> agent_edit_state \<Rightarrow> bool" where
  "refused_outcome ctx req records st r st' \<longleftrightarrow> edits_kept st st'
     \<and> (case r of Inr (EditToolFailed _ x) \<Rightarrow> result_of req Failed (ptr_reason x) x \<and> call_settled ctx st records x st'
          | Inr (EditToolDenied _ x) \<Rightarrow> result_of req DeniedOutcome (ptr_reason x) x \<and> call_settled ctx st records x st'
          | Inr _ \<Rightarrow> False | Inl _ \<Rightarrow> True)"

text \<open>
  The contract as an interface: the transaction a call asks for, if it gets that far, and the
  records that precede its end. What follows holds of the built-in tools and of the proposals of
  extensions alike.
\<close>

locale edit_tool =
  fixes env :: agent_edit_env and base :: resource_root and ctx :: agent_edit_tool_context
    and asks :: "pending_tool_request \<Rightarrow> agent_edit_state \<Rightarrow> edit_operation list option"
    and records :: "pending_tool_request \<Rightarrow> session_event list"
    and run :: "pending_tool_request \<Rightarrow> agent_edit_state
      \<Rightarrow> (tool_continuation_error, agent_edit_tool_prepared) result \<times> agent_edit_state"
  assumes asked: "run req st = (r, st') \<Longrightarrow> asks req st = Some ops \<Longrightarrow> edit_outcome env base ctx req ops (records req) st r st'"
    and refused: "run req st = (r, st') \<Longrightarrow> asks req st = None \<Longrightarrow> refused_outcome ctx req (records req) st r st'"
begin

lemma files_change_only_allowed:
  assumes "run req st = (r, st')" "ew_fs (ae_world st') \<noteq> ew_fs (ae_world st)"
  shows "\<exists>ops. asks req st = Some ops \<and> is_Allowed (edit_decided (ag_access env) ops (edit_context_of ctx req) (ae_world st))
    \<and> ((\<exists>tid x. r = Inr (EditToolCompleted tid x)) \<or> (\<exists>e. r = Inl (ContinuationExecution e)))"
proof (cases "asks req st")
  case None
  then show ?thesis using refused [OF assms(1)] assms(2) by (simp add: refused_outcome_def edits_kept_def)
next
  case (Some ops)
  with asked [OF assms(1)] have "edit_outcome env base ctx req ops (records req) st r st'" by simp
  then show ?thesis using Some assms(2)
    by (auto simp: edit_outcome_def Let_def edits_kept_def split: sum.splits agent_edit_tool_prepared.splits tool_continuation_error.splits)
qed

lemma completed_applied:
  assumes "run req st = (Inr (EditToolCompleted tid x), st')"
  obtains ops tx n res where "asks req st = Some ops"
    "is_Allowed (edit_decided (ag_access env) ops (edit_context_of ctx req) (ae_world st))"
    "preview (ea_edit (ag_access env)) base (ew_fs (ae_world st)) (aec_edit_policy ctx) (ew_transaction_counter (ae_world st)) ops = (Inr tx, n)"
    "edit_apply (ea_edit (ag_access env)) base tx (aec_edit_policy ctx) (ew_fs (ae_world st)) = (Inr res, ew_fs (ae_world st'))"
    "ptr_content x = applied_content res" "result_of req Completed (ptr_reason x) x"
proof (cases "asks req st")
  case None
  then show ?thesis using refused [OF assms] by (simp add: refused_outcome_def)
next
  case (Some ops)
  with asked [OF assms] have "edit_outcome env base ctx req ops (records req) st (Inr (EditToolCompleted tid x)) st'" by simp
  then show ?thesis using that [OF Some] by (auto simp: edit_outcome_def Let_def)
qed

lemma settled_once:
  assumes "run req st = (r, st')" "\<forall>n. sink_ok (ag_access env) n"
    and "r = Inr (EditToolCompleted tid x) \<or> r = Inr (EditToolFailed tid x) \<or> r = Inr (EditToolDenied tid x)"
  shows "call_settled ctx st (records req) x st' \<and> result_of req (ptr_status x) (ptr_reason x) x"
proof (cases "asks req st")
  case None
  then show ?thesis using refused [OF assms(1)] assms(3) by (auto simp: refused_outcome_def result_of_def)
next
  case (Some ops)
  with asked [OF assms(1)] have "edit_outcome env base ctx req ops (records req) st r st'" by simp
  then show ?thesis using assms(2,3) by (auto simp: edit_outcome_def Let_def result_of_def)
qed

end

definition call_asks ::
  "agent_edit_env \<Rightarrow> tool_registry \<Rightarrow> resource_root \<Rightarrow> agent_edit_tool_context \<Rightarrow> pending_tool_request \<Rightarrow> agent_edit_state
   \<Rightarrow> edit_operation list option" where
  "call_asks env registry base ctx req st =
     (if tr_turn_id req = aec_turn_id ctx \<and> present_call_id req \<noteq> None \<and> \<not> sensitive_denied_request_path base req
      then (case normalize_agent_edit_tool_request (ag_js env) (ea_edit (ag_access env)) registry base (ew_fs (ae_world st)) req
          (aec_edit_policy ctx) of Inr na \<Rightarrow> Some (na_transaction na) | Inl _ \<Rightarrow> None)
      else None)"

definition request_record :: "agent_edit_env \<Rightarrow> agent_edit_tool_context \<Rightarrow> pending_tool_request \<Rightarrow> session_event" where
  "request_record env ctx req = ToolRequestRecorded (aec_session_id ctx) (aec_turn_id ctx) (tr_request_id req) (tr_tool_name req)
     (tr_provider_call_id req) (Inr ()) ToolAllowed (summarize_agent_edit_payload (ag_js env) (tr_arguments req))
     (Some (js_display (ag_js env) (tr_arguments req)))"

lemma fail_validation_refused:
  "fail_validation env ctx tid req error reason (st\<lparr>ae_trace_counter := n\<rparr>) = (r, st') \<Longrightarrow> refused_outcome ctx req records st r st'"
  by (auto simp: refused_outcome_def edits_kept_def fail_validation_def append_validation_failure_def Let_def split: prod.splits elim!: agent_append_cases)

lemma close_prepared_refused:
  assumes "close_prepared env ctx tid req op call_id reason denied events (st\<lparr>ae_trace_counter := n\<rparr>) = (r, st')"
    "present_call_id req = Some call_id" "tool_records events = records"
  shows "refused_outcome ctx req records st r st'"
proof -
  have "tr_provider_call_id req = Some call_id" using assms(2) by (auto simp: present_call_id_def split: option.splits if_splits)
  with assms(1) [unfolded close_prepared_proposal] show ?thesis
  proof (cases rule: close_proposal_cases)
    case (closed x e)
    then show ?thesis using assms(3)
      by (auto simp: refused_outcome_def edits_kept_def call_settled_def stores_def result_of_def)
  next
    case lost
    then show ?thesis by (simp add: refused_outcome_def edits_kept_def)
  qed
qed

lemma present_call_id_Some: "present_call_id req = Some cid \<longleftrightarrow> tr_provider_call_id req = Some cid \<and> cid \<noteq> ''''"
  by (auto simp: present_call_id_def split: option.splits)

lemma normalize_validates:
  "normalize_agent_edit_tool_request js env registry base s req policy = Inr na \<Longrightarrow> \<exists>d. validate_request_schema_only js registry req = Inr d"
  by (auto simp: normalize_agent_edit_tool_request_def result_simps)

interpretation builtin_edit: edit_tool env base ctx "call_asks env registry base ctx" "\<lambda>req. [request_record env ctx req]"
    "prepare_agent_edit_tool_request env registry base ctx" for env registry base ctx
proof
  fix req st r st'
  assume run: "prepare_agent_edit_tool_request env registry base ctx req st = (r, st')"
  obtain tid n where tid: "next_agent_edit_trace_id (ae_trace_counter st) = (tid, n)" by fastforce
  let ?st = "st\<lparr>ae_trace_counter := n\<rparr>" and ?op = "trace_operation (tr_tool_name req)"
  let ?normalized = "normalize_agent_edit_tool_request (ag_js env) (ea_edit (ag_access env)) registry base (ew_fs (ae_world st)) req (aec_edit_policy ctx)"
  define events where "events = record_agent_edit_trace env ctx (trace_input tid req ToolValidationPhase TraceCompleted None
      (trace_operation_attributes ?op)) [] @ [request_record env ctx req]"
  have records: "tool_records events = [request_record env ctx req]" by (simp add: events_def request_record_def)
  have kept: "edits_kept st ?st" "ew_stored (ae_world ?st) = ew_stored (ae_world st)" by (simp_all add: edits_kept_def)
  note unfolded = run [unfolded prepare_agent_edit_tool_request_def tid Let_def prod.case]
  { fix ops
    assume "call_asks env registry base ctx req st = Some ops"
    then obtain na cid where na: "?normalized = Inr na" "ops = na_transaction na" "tr_turn_id req = aec_turn_id ctx"
        "present_call_id req = Some cid" "\<not> sensitive_denied_request_path base req"
      by (auto simp: call_asks_def split: if_splits sum.splits)
    let ?events1 = "record_agent_edit_trace env ctx (trace_input tid req ArgumentNormalization TraceCompleted None
        (trace_operation_attributes (Some (na_operation na)))) events"
    have "prepare_normalized env base ctx tid req cid na ?events1 ?st = (r, st')"
      using unfolded na normalize_validates [OF na(1)] present_call_id_Some [of req cid]
      by (auto simp: events_def request_record_def)
    from prepare_normalized_outcome [OF this] show "edit_outcome env base ctx req ops [request_record env ctx req] st r st'"
      using na(2,4) present_call_id_Some records by (simp add: edit_outcome_cong [of ?st st])
  next
    assume none: "call_asks env registry base ctx req st = None"
    show "refused_outcome ctx req [request_record env ctx req] st r st'"
    proof (cases "tr_turn_id req = aec_turn_id ctx \<and> (\<exists>d. validate_request_schema_only (ag_js env) registry req = Inr d)
        \<and> present_call_id req \<noteq> None")
      case False
      then show ?thesis using unfolded
        by (auto split: if_splits sum.splits option.splits intro: fail_validation_refused)
    next
      case True
      then obtain d cid where valid: "tr_turn_id req = aec_turn_id ctx" "validate_request_schema_only (ag_js env) registry req = Inr d"
          "present_call_id req = Some cid" by blast
      then have cid: "tr_provider_call_id req = Some cid" using present_call_id_Some by simp
      show ?thesis
      proof (cases "sensitive_denied_request_path base req")
        case True
        then have "close_prepared env ctx tid req ?op cid ''sensitive_path_denied'' False events ?st = (r, st')"
          using unfolded valid cid by (simp add: events_def request_record_def)
        then show ?thesis using valid(3) records by (rule close_prepared_refused)
      next
        case False
        then obtain e where e: "?normalized = Inl e"
          using none valid by (auto simp: call_asks_def split: sum.splits)
        let ?trace = "\<lambda>outcome. record_agent_edit_trace env ctx (trace_input tid req ArgumentNormalization outcome
            (Some (tool_error_label e)) (trace_operation_attributes ?op)) events"
        show ?thesis
        proof (cases "e = ToolPermissionDenied")
          case True
          then have "close_prepared env ctx tid req ?op cid ''permission_denied'' True (?trace TraceDenied) ?st = (r, st')"
            using unfolded valid cid False e by (simp add: events_def request_record_def)
          then show ?thesis using valid(3) by (rule close_prepared_refused) (simp add: records)
        next
          case denied: False
          then obtain stored evs where "agent_append env evs ?st = (stored, st')" "r = res_bind stored (\<lambda>_. Inl (ContinuationValidation e))"
            using unfolded valid cid False e by (auto split: prod.splits)
          then show ?thesis
            by (auto simp: refused_outcome_def edits_kept_def elim!: agent_append_cases)
        qed
      qed
    qed
  }
qed

section \<open>Proposals\<close>

definition proposal_asks ::
  "agent_edit_tool_context \<Rightarrow> extension_edit_proposal \<Rightarrow> pending_tool_request \<Rightarrow> agent_edit_state \<Rightarrow> edit_operation list option" where
  "proposal_asks ctx proposal req st =
     (if present_call_id req \<noteq> None \<and> tr_turn_id req = aec_turn_id ctx \<and> xp_operations proposal \<noteq> []
      then Some (map proposal_operation (xp_operations proposal)) else None)"

interpretation proposed_edit: edit_tool env base ctx "proposal_asks ctx proposal" "\<lambda>_. []"
    "\<lambda>req. prepare_extension_edit_proposal env base ctx req proposal prior" for env base ctx proposal prior
proof
  fix req st r st'
  assume run: "prepare_extension_edit_proposal env base ctx req proposal prior st = (r, st')"
  obtain tid n where tid: "next_agent_edit_trace_id (ae_trace_counter st) = (tid, n)" by fastforce
  let ?st = "st\<lparr>ae_trace_counter := n\<rparr>"
  note unfolded = run [unfolded prepare_extension_edit_proposal_def tid Let_def prod.case]
  {
    fix ops
    assume "proposal_asks ctx proposal req st = Some ops"
    then obtain cid where asks: "present_call_id req = Some cid" "tr_turn_id req = aec_turn_id ctx" "xp_operations proposal \<noteq> []"
        "ops = map proposal_operation (xp_operations proposal)"
      by (auto simp: proposal_asks_def split: if_splits)
    then have cid: "tr_provider_call_id req = Some cid" using present_call_id_Some by simp
    obtain prepared events w where p: "prepare_with_diagnostics (ag_access env) base ops (edit_context_of ctx req) [] (ae_world ?st)
        = (prepared, events, w)" by (metis prod_cases3)
    let ?st1 = "?st\<lparr>ae_world := w\<rparr>"
    note frame = prepare_frame [OF p]
    have "edit_outcome env base ctx req ops [] ?st r st'"
    proof (cases prepared)
      case (Inl err)
      have kept: "edits_kept ?st ?st1" "ew_stored (ae_world ?st1) = ew_stored (ae_world ?st)"
        using frame Inl by (simp_all add: edits_kept_def)
      obtain reason denied where "close_proposal env ctx tid req cid reason denied prior events ?st1 = (r, st')"
        using unfolded asks p Inl by (cases err) auto
      from close_proposal_outcome [OF this cid kept] show ?thesis using frame(3) by simp
    next
      case (Inr y)
      obtain pv dg where y: "y = (pv, dg)" by fastforce
      obtain stored st2 where a: "agent_append env events ?st1 = (stored, st2)" by fastforce
      have out: "(r, st') = (case stored of Inl e \<Rightarrow> (Inl e, st2)
          | Inr _ \<Rightarrow> settle_preview env ctx tid req cid (proposal_path proposal) ''extension_edit_proposal'' pv prior st2)"
        using unfolded asks p Inr y a by (auto split: sum.splits)
      have st1: "stores ?st [] ?st1" using frame(2) by (simp add: stores_def)
      from a show ?thesis
      proof (cases rule: agent_append_cases)
        case stored
        show ?thesis
          using settle_outcome [OF _ cid p [unfolded Inr y] stored(2) stores_trans [OF st1 stored(3)]] out stored(1) frame(3) by simp
      next
        case dropped
        then show ?thesis using out frame(1) by (auto simp: edit_outcome_def edits_kept_def)
      qed
    qed
    then show "edit_outcome env base ctx req ops [] st r st'" by (simp add: edit_outcome_cong [of ?st st])
  next
    assume "proposal_asks ctx proposal req st = None"
    then show "refused_outcome ctx req [] st r st'"
      using unfolded by (auto simp: proposal_asks_def refused_outcome_def edits_kept_def split: if_splits option.splits)
  }
qed

section \<open>An allowed edit is made\<close>

lemma apply_review_completes:
  assumes "ew_pending (ae_world st) (pr_preview_id pend) = Some pe" "pe_permission_decision_id pe = pr_permission_decision_id pend"
    and "\<forall>n. sink_ok (ag_access env) n"
    and "edit_apply (ea_edit (ag_access env)) (pe_root pe) (pe_prepared pe) (eac_edit_policy (pe_context pe)) (ew_fs (ae_world st)) = (Inr res, t)"
  shows "\<exists>x st'. apply_agent_edit_tool_review env pend None prior st = (Inr x, st')"
  using assms by (auto simp: apply_agent_edit_tool_review_def apply_with_evidence_sink_and_freshness_def stale_def sink_append_def
      Let_def split: prod.splits)

lemma prepare_normalized_completes:
  assumes "is_Allowed (edit_decided (ag_access env) (na_transaction na) (edit_context_of ctx req) (ae_world st))"
    and "preview (ea_edit (ag_access env)) base (ew_fs (ae_world st)) (aec_edit_policy ctx) (ew_transaction_counter (ae_world st))
      (na_transaction na) = (Inr tx, n)"
    and "\<forall>n. sink_ok (ag_access env) n"
    and "edit_apply (ea_edit (ag_access env)) base tx (aec_edit_policy ctx) (ew_fs (ae_world st)) = (Inr res, t)"
  shows "\<exists>x st'. prepare_normalized env base ctx tid req call_id na events st = (Inr (EditToolCompleted tid x), st')"
proof -
  obtain r events1 w where p: "prepare_with_diagnostics (ag_access env) base (na_transaction na) (edit_context_of ctx req) events
      (ae_world st) = (r, events1, w)" by (metis prod_cases3)
  have "\<exists>y. r = Inr y"
    using p assms(1,2) by (auto simp: prepare_with_diagnostics_def Let_def case_prod_beta edit_decided_def edit_context_of_def
        review_state_of_def split: permission_decision.splits if_splits)
  then obtain pv dg where pv: "r = Inr (pv, dg)" by auto
  from p [unfolded pv] obtain pe tx' n' where pe: "ew_pending w = (ew_pending (ae_world st))(ep_preview_id pv \<mapsto> pe)"
      "preview (ea_edit (ag_access env)) base (ew_fs (ae_world st)) (aec_edit_policy ctx) (ew_transaction_counter (ae_world st)) (na_transaction na) = (Inr tx', n')"
      "pe_prepared pe = tx'" "pe_root pe = base" "pe_context pe = edit_context_of ctx req"
      "pe_permission_decision_id pe = ep_permission_decision_id pv" "ep_review_state pv = EditAllowed"
    by (rule prepare_Inr) (use assms(1) in \<open>simp add: edit_context_of_def\<close>)
  have append: "\<exists>st2. agent_append env evs (st\<lparr>ae_world := w\<rparr>) = (Inr (), st2) \<and> ew_pending (ae_world st2) = ew_pending w
      \<and> ew_fs (ae_world st2) = ew_fs (ae_world st)" for evs
    using assms(3) prepare_frame(1) [OF p] by (simp add: agent_append_def sink_append_def)
  have settle: "\<exists>x st'. settle_preview env ctx tid req call_id (na_path na) (na_operation na) pv no_timing st2 = (Inr (EditToolCompleted tid x), st')"
    if st2: "ew_pending (ae_world st2) = ew_pending w" "ew_fs (ae_world st2) = ew_fs (ae_world st)" for st2
  proof -
    let ?pend = "\<lparr>pr_trace_id = tid, pr_session_id = aec_session_id ctx, pr_turn_id = aec_turn_id ctx,
        pr_request_id = tr_request_id req, pr_provider_call_id = call_id, pr_preview_id = ep_preview_id pv,
        pr_permission_decision_id = ep_permission_decision_id pv, pr_path = na_path na, pr_operation = na_operation na\<rparr>"
    have "\<exists>x st'. apply_agent_edit_tool_review env ?pend None no_timing st2 = (Inr x, st')"
      by (rule apply_review_completes [of st2 ?pend pe env res t]) (use st2 pe assms(2-4) in \<open>simp_all add: edit_context_of_def\<close>)
    then show ?thesis using pe(7) by (auto simp: settle_preview_def)
  qed
  define events3 where "events3 = record_preview_trace env ctx tid req TraceCompleted None (Some (ep_preview_id pv)) (ed_permission_decision_id dg)
      (Some (ep_transaction_id pv)) (na_operation na)
      (record_permission_decision_trace env ctx tid req TraceCompleted None dg (na_operation na) events1)"
  obtain st2 where st2: "agent_append env events3 (st\<lparr>ae_world := w\<rparr>) = (Inr (), st2)" "ew_pending (ae_world st2) = ew_pending w"
      "ew_fs (ae_world st2) = ew_fs (ae_world st)"
    using append by blast
  have "prepare_normalized env base ctx tid req call_id na events st
      = settle_preview env ctx tid req call_id (na_path na) (na_operation na) pv no_timing st2"
    using st2(1) by (simp add: prepare_normalized_def Let_def p pv events3_def)
  then show ?thesis using settle [OF st2(2,3)] by simp
qed

lemma call_completes:
  assumes "call_asks env registry base ctx req st = Some ops"
    and "is_Allowed (edit_decided (ag_access env) ops (edit_context_of ctx req) (ae_world st))"
    and "preview (ea_edit (ag_access env)) base (ew_fs (ae_world st)) (aec_edit_policy ctx) (ew_transaction_counter (ae_world st)) ops = (Inr tx, n)"
    and "edit_apply (ea_edit (ag_access env)) base tx (aec_edit_policy ctx) (ew_fs (ae_world st)) = (Inr res, t)"
    and "\<forall>n. sink_ok (ag_access env) n"
  shows "\<exists>tid x st'. prepare_agent_edit_tool_request env registry base ctx req st = (Inr (EditToolCompleted tid x), st')"
proof -
  obtain na cid where na: "normalize_agent_edit_tool_request (ag_js env) (ea_edit (ag_access env)) registry base (ew_fs (ae_world st)) req
        (aec_edit_policy ctx) = Inr na" "ops = na_transaction na" "tr_turn_id req = aec_turn_id ctx" "present_call_id req = Some cid"
        "\<not> sensitive_denied_request_path base req"
    using assms(1) by (auto simp: call_asks_def split: if_splits sum.splits)
  obtain d where d: "validate_request_schema_only (ag_js env) registry req = Inr d" using normalize_validates [OF na(1)] by blast
  obtain tid k where tid: "next_agent_edit_trace_id (ae_trace_counter st) = (tid, k)" by fastforce
  have "\<exists>x st'. prepare_normalized env base ctx tid req cid na events (st\<lparr>ae_trace_counter := k\<rparr>) = (Inr (EditToolCompleted tid x), st')" for events
    using assms(2-5) na(2) by (intro prepare_normalized_completes) simp_all
  then show ?thesis
    unfolding prepare_agent_edit_tool_request_def tid Let_def prod.case using na d by simp blast
qed

lemma asks_one: "call_asks env registry base ctx req st = Some ops \<Longrightarrow> \<exists>op. ops = [op]"
  by (auto simp: call_asks_def normalize_agent_edit_tool_request_def normalize_edit_text_file_def normalize_create_text_file_def
      result_simps Let_def split: if_splits sum.splits)

section \<open>What a call does\<close>

text \<open>
  C10. A call of \<open>edit_text_file\<close> or \<open>create_text_file\<close> changes a file only when it belongs to the
  turn, its path is not on the deny list, it asks for a transaction and the permission engine
  allows that transaction; and when it reports the edit as completed, the transaction was
  previewed in the files as they were and applied, the files are as the edit engine left them,
  and the result carries the ids of the call and describes that application.
\<close>

theorem agent_edit_writes_only_allowed:
  assumes "prepare_agent_edit_tool_request env registry base ctx req st = (r, st')"
  shows "(ew_fs (ae_world st') \<noteq> ew_fs (ae_world st) \<longrightarrow>
      (\<exists>ops. call_asks env registry base ctx req st = Some ops
         \<and> is_Allowed (edit_decided (ag_access env) ops (edit_context_of ctx req) (ae_world st))))
    \<and> (\<forall>tid x. r = Inr (EditToolCompleted tid x) \<longrightarrow>
        (\<exists>ops tx n res. call_asks env registry base ctx req st = Some ops
           \<and> is_Allowed (edit_decided (ag_access env) ops (edit_context_of ctx req) (ae_world st))
           \<and> preview (ea_edit (ag_access env)) base (ew_fs (ae_world st)) (aec_edit_policy ctx) (ew_transaction_counter (ae_world st)) ops
               = (Inr tx, n)
           \<and> edit_apply (ea_edit (ag_access env)) base tx (aec_edit_policy ctx) (ew_fs (ae_world st)) = (Inr res, ew_fs (ae_world st'))
           \<and> ptr_content x = applied_content res \<and> result_of req Completed (ptr_reason x) x))"
  using builtin_edit.files_change_only_allowed [OF assms] builtin_edit.completed_applied assms by (metis (no_types, lifting))

definition demo_edit_env :: agent_edit_env where
  "demo_edit_env = \<lparr>ag_access = demo_access_env, ag_js = \<lparr>js_to_vec = (\<lambda>_. Some ''{}''), js_display = (\<lambda>_. ''{}'')\<rparr>,
     ag_elapsed = (\<lambda>_ _. 0), ag_timing = (\<lambda>_. no_timing)\<rparr>"

definition demo_edit_context :: agent_edit_tool_context where
  "demo_edit_context = \<lparr>aec_session_id = ''s'', aec_turn_id = ''turn-0'', aec_edit_mode = Allow, aec_edit_policy = conservative,
     aec_review_policy = empty_review_policy, aec_authorization_revision = 0\<rparr>"

definition demo_edit_request :: pending_tool_request where
  "demo_edit_request = \<lparr>tr_request_id = ''q'', tr_turn_id = ''turn-0'', tr_tool_name = ''edit_text_file'',
     tr_provider_call_id = Some ''c'', tr_arguments = JObject [(''find'', JString ''e''), (''path'', JString ''a''),
       (''replace'', JString ''u'')]\<rparr>"

definition demo_edit_state :: agent_edit_state where
  "demo_edit_state = \<lparr>ae_world = demo_world, ae_trace_counter = 0\<rparr>"

abbreviation demo_hunk_edit :: "edit_operation list" where
  "demo_hunk_edit \<equiv> [ModifyTextFile ''a'' (sha256_hex demo_env ''hello'') [\<lparr>hunk_find = ''e'', hunk_replace = ''u''\<rparr>]]"

lemma conservative_flags:
  "allow_modify conservative" "max_operations conservative = 1" "max_file_bytes conservative = 262144"
  "max_transaction_bytes conservative = 131072" "max_diff_summary_bytes conservative = 32768"
  by (simp_all add: conservative_def)

lemma conservative_read:
  assumes "nodes s [] = Some Directory" "nodes s [''p''] = Some Directory"
    "nodes s demo_a = Some (File ''hello'' m)" "\<not> deny_read s demo_a"
  shows "read_existing_text demo_root s ''a'' conservative = Inr (''a'', demo_a, ''hello'')"
  using assms unfolding demo_a_def by (simp add: path_defs demo_root_def conservative_def cong: res_bind_weak)

lemma demo_hunk_preview:
  "\<exists>tx. preview demo_env demo_root (demo_fs (\<lambda>_. False)) conservative 0 demo_hunk_edit = (Inr tx, 1)
     \<and> operations tx = [demo_modify] \<and> apply_payloads tx = [ModifyPayload ''hullo''] \<and> transaction_id tx = ''edit-0''"
proof -
  have zero: "show_nat 0 = ''0''" by code_simp
  have hunks: "apply_hunks ''a'' ''hello'' [\<lparr>hunk_find = ''e'', hunk_replace = ''u''\<rparr>] = Inr ''hullo''" by code_simp
  show ?thesis
    by (simp add: zero hunks preview_def demo_start conservative_read conservative_flags demo_flags estimate_request_bytes_def Let_def
        next_edit_transaction_id_def reject_duplicate_target_def truncate_diff_summary_def
        render_diff_summary_def demo_modify_def u64_max_def cong: res_bind_weak)
qed

lemma demo_hunk_fresh:
  assumes "preview demo_env demo_root (demo_fs (\<lambda>_. False)) conservative 0 demo_hunk_edit = (Inr tx, n)"
  shows "\<forall>q \<in> set (operations tx). utf8_valid (last (p_resolved_path q))
       \<and> nodes (demo_fs (\<lambda>_. False)) (temp_path_for demo_env (p_resolved_path q) (transaction_id tx)) = None
       \<and> entry_name (last (temp_path_for demo_env (p_resolved_path q) (transaction_id tx)))"
proof -
  have "operations tx = [demo_modify]" "transaction_id tx = ''edit-0''" using demo_hunk_preview assms by auto
  then show ?thesis using demo_paths(2) by (simp add: demo_modify_def demo_scratch demo_start demo_utf8)
qed

lemma demo_no_fault: "no_fault (demo_fs (\<lambda>_. False))"
  by (simp add: no_fault_def demo_start)

lemma demo_hunk_applies:
  assumes "preview demo_env demo_root (demo_fs (\<lambda>_. False)) conservative 0 demo_hunk_edit = (Inr tx, n)"
  shows "\<exists>res t. edit_apply demo_env demo_root tx conservative (demo_fs (\<lambda>_. False)) = (Inr res, t)
    \<and> transaction_committed demo_env demo_root tx (demo_fs (\<lambda>_. False)) t"
  using preview_apply_succeeds [OF demo_wf demo_no_fault assms demo_hunk_fresh [OF assms]] by blast

lemma demo_validates:
  "\<exists>d. validate_request_schema_only (ag_js demo_edit_env) with_agent_edit_tools demo_edit_request = Inr d \<and> td_name d = ''edit_text_file''"
  by (simp add: validate_request_schema_only_def with_agent_edit_tools_def registry_get_def edit_text_file_tool_def builtin_tool_def
      demo_edit_request_def demo_edit_env_def validate_arguments_def string_object_def btree_set_def json_is_string_def json_as_str_def)

lemma demo_decided:
  "is_Allowed (fst (decide (\<lambda>_. None) (permission_request_from_edit rid ops) Allow empty_review_policy n))"
  by (simp add: decide_def check_restrictions_None selected_restriction_spec strongest_spec_None empty_review_policy_def
      case_prod_beta edit_decision_def permission_request_from_edit_def extension_self_approval_requested_def)

lemma demo_normalizes:
  "normalize_agent_edit_tool_request (ag_js demo_edit_env) demo_env with_agent_edit_tools demo_root (demo_fs (\<lambda>_. False))
     demo_edit_request conservative = Inr \<lparr>na_transaction = demo_hunk_edit, na_path = ''a'', na_operation = ''edit_text_file''\<rparr>"
proof -
  obtain d where d: "validate_request_schema_only (ag_js demo_edit_env) with_agent_edit_tools demo_edit_request = Inr d" "td_name d = ''edit_text_file''"
    using demo_validates by blast
  have path: "\<not> agent_edit_metadata_path_denied ''a''" by code_simp
  have read: "edit_read_existing_text demo_root (demo_fs (\<lambda>_. False)) ''a'' conservative = Inr (''a'', ''hello'')"
    by (simp add: edit_read_existing_text_def conservative_read demo_start conservative_flags demo_flags cong: res_bind_weak)
  have "string_argument demo_edit_request ''path'' = Inr ''a''" "string_argument demo_edit_request ''find'' = Inr ''e''"
      "string_argument demo_edit_request ''replace'' = Inr ''u''"
    by (simp_all add: string_argument_def demo_edit_request_def json_get_def json_as_str_def)
  then show ?thesis
    by (simp add: normalize_agent_edit_tool_request_def d normalize_edit_text_file_def path read)
qed

lemma demo_call_asks:
  "call_asks demo_edit_env with_agent_edit_tools demo_root demo_edit_context demo_edit_request demo_edit_state = Some demo_hunk_edit"
proof -
  have "\<not> sensitive_denied_request_path demo_root demo_edit_request" by code_simp
  moreover have "present_call_id demo_edit_request \<noteq> None" "tr_turn_id demo_edit_request = aec_turn_id demo_edit_context"
    by (simp_all add: present_call_id_def demo_edit_request_def demo_edit_context_def)
  moreover have "ea_edit (ag_access demo_edit_env) = demo_env" "ew_fs (ae_world demo_edit_state) = demo_fs (\<lambda>_. False)"
      "aec_edit_policy demo_edit_context = conservative"
    by (simp_all add: demo_edit_env_def demo_access_env_def demo_edit_state_def demo_world_def demo_edit_context_def)
  ultimately show ?thesis by (simp add: call_asks_def demo_normalizes)
qed

lemma demo_edit_allowed:
  "is_Allowed (edit_decided (ag_access demo_edit_env) ops (edit_context_of demo_edit_context req) (ae_world demo_edit_state))"
  by (simp add: edit_decided_def demo_edit_env_def demo_access_env_def edit_context_of_def demo_edit_context_def demo_decided)

lemma demo_edit_parts [simp]:
  "ea_edit (ag_access demo_edit_env) = demo_env" "ew_fs (ae_world demo_edit_state) = demo_fs (\<lambda>_. False)"
  "aec_edit_policy demo_edit_context = conservative" "ew_transaction_counter (ae_world demo_edit_state) = 0"
  "sink_ok (ag_access demo_edit_env) n"
  by (simp_all add: demo_edit_env_def demo_access_env_def demo_edit_state_def demo_world_def demo_edit_context_def)

text \<open>
  C37. A call that asks for an edit which the permission engine allows and the preview accepts is
  completed when nothing fails: no call of the file system, which holds no file under the
  temporary name of the edit, and no append to the session store. The prepared transaction is then
  committed exactly, no temporary file is left, and the result carries the ids of the call.
\<close>

theorem agent_edit_completes:
  fixes env base ctx st
  defines "edit \<equiv> ea_edit (ag_access env)" and "s \<equiv> ew_fs (ae_world st)"
  assumes "call_asks env registry base ctx req st = Some ops"
    and "is_Allowed (edit_decided (ag_access env) ops (edit_context_of ctx req) (ae_world st))"
    and "preview edit base s (aec_edit_policy ctx) (ew_transaction_counter (ae_world st)) ops = (Inr tx, n)"
    and "wf_tree (nodes s)" "no_fault s" "\<forall>n. sink_ok (ag_access env) n"
    and "\<forall>q \<in> set (operations tx). utf8_valid (last (p_resolved_path q))
       \<and> nodes s (temp_path_for edit (p_resolved_path q) (transaction_id tx)) = None
       \<and> entry_name (last (temp_path_for edit (p_resolved_path q) (transaction_id tx)))"
  shows "\<exists>tid x st'. prepare_agent_edit_tool_request env registry base ctx req st = (Inr (EditToolCompleted tid x), st')
    \<and> transaction_committed edit base tx s (ew_fs (ae_world st'))
    \<and> (\<forall>q \<in> set (operations tx). nodes (ew_fs (ae_world st')) (temp_path_for edit (p_resolved_path q) (transaction_id tx)) = None)
    \<and> result_of req Completed (ptr_reason x) x"
proof -
  obtain op where op: "ops = [op]" using asks_one [OF assms(3)] by blast
  obtain res t where applied: "edit_apply edit base tx (aec_edit_policy ctx) s = (Inr res, t)" "transaction_committed edit base tx s t"
      "\<forall>q \<in> set (operations tx). nodes t (temp_path_for edit (p_resolved_path q) (transaction_id tx)) = None"
    using preview_apply_succeeds [OF assms(6,7) assms(5) [unfolded op] assms(9)] by blast
  obtain tid x st' where run: "prepare_agent_edit_tool_request env registry base ctx req st = (Inr (EditToolCompleted tid x), st')"
    using call_completes [OF assms(3,4) assms(5) [unfolded edit_def s_def] applied(1) [unfolded edit_def s_def] assms(8)] by blast
  from run have "ew_fs (ae_world st') = t \<and> result_of req Completed (ptr_reason x) x"
    by (rule builtin_edit.completed_applied) (use assms(3,5) applied(1) in \<open>simp add: edit_def s_def\<close>)
  then show ?thesis using run applied by blast
qed

theorem agent_edit_completes_witness:
  "\<exists>tid x st'. prepare_agent_edit_tool_request demo_edit_env with_agent_edit_tools demo_root demo_edit_context demo_edit_request
     demo_edit_state = (Inr (EditToolCompleted tid x), st') \<and> result_of demo_edit_request Completed (ptr_reason x) x"
proof -
  obtain tx where tx: "preview demo_env demo_root (demo_fs (\<lambda>_. False)) conservative 0 demo_hunk_edit = (Inr tx, 1)" using demo_hunk_preview by blast
  show ?thesis
    using agent_edit_completes [OF demo_call_asks demo_edit_allowed, of tx 1] tx demo_wf demo_no_fault demo_hunk_fresh [OF tx]
    by (simp only: demo_edit_parts simp_thms) blast
qed

lemma demo_edit_runs:
  "\<exists>tid x st'. prepare_agent_edit_tool_request demo_edit_env with_agent_edit_tools demo_root demo_edit_context demo_edit_request
     demo_edit_state = (Inr (EditToolCompleted tid x), st') \<and> nodes (ew_fs (ae_world st')) demo_a = Some (File ''hullo'' 420)"
proof -
  obtain tx where tx: "preview demo_env demo_root (demo_fs (\<lambda>_. False)) conservative 0 demo_hunk_edit = (Inr tx, 1)"
      "operations tx = [demo_modify]" "apply_payloads tx = [ModifyPayload ''hullo'']" using demo_hunk_preview by blast
  obtain res t where applied: "edit_apply demo_env demo_root tx conservative (demo_fs (\<lambda>_. False)) = (Inr res, t)"
      and "transaction_committed demo_env demo_root tx (demo_fs (\<lambda>_. False)) t" using demo_hunk_applies [OF tx(1)] by blast
  then have "committed demo_env (demo_fs (\<lambda>_. False)) t demo_modify (ModifyPayload ''hullo'')"
    by (simp add: transaction_committed_def tx)
  then have changed: "nodes t demo_a = Some (File ''hullo'' 420)"
    by cases (auto simp: demo_modify_def demo_start)
  obtain tid x st' where run: "prepare_agent_edit_tool_request demo_edit_env with_agent_edit_tools demo_root demo_edit_context demo_edit_request
     demo_edit_state = (Inr (EditToolCompleted tid x), st')"
    using call_completes [OF demo_call_asks demo_edit_allowed] tx(1) applied by fastforce
  then have "ew_fs (ae_world st') = t"
    by (rule builtin_edit.completed_applied) (use demo_call_asks tx(1) applied in simp)
  then show ?thesis using run changed by blast
qed

theorem agent_edit_writes_only_allowed_witness:
  "\<exists>tid x st' ops. prepare_agent_edit_tool_request demo_edit_env with_agent_edit_tools demo_root demo_edit_context demo_edit_request
       demo_edit_state = (Inr (EditToolCompleted tid x), st') \<and> result_of demo_edit_request Completed (ptr_reason x) x
     \<and> call_asks demo_edit_env with_agent_edit_tools demo_root demo_edit_context demo_edit_request demo_edit_state = Some ops
     \<and> is_Allowed (edit_decided (ag_access demo_edit_env) ops (edit_context_of demo_edit_context demo_edit_request) (ae_world demo_edit_state))"
proof -
  obtain tid x st' where run: "prepare_agent_edit_tool_request demo_edit_env with_agent_edit_tools demo_root demo_edit_context demo_edit_request
     demo_edit_state = (Inr (EditToolCompleted tid x), st')" using demo_edit_runs by blast
  show ?thesis using agent_edit_writes_only_allowed [OF run] run by blast
qed

text \<open>
  While the session store takes the records, a call that completed, failed or was denied has
  left exactly one record of the request and one of its end, in this order, the second with the
  ids, status, reason and content of the result.
\<close>

lemma agent_edit_recorded_once:
  assumes "prepare_agent_edit_tool_request env registry base ctx req st = (r, st')" "\<forall>n. sink_ok (ag_access env) n"
    and "r = Inr (EditToolCompleted tid x) \<or> r = Inr (EditToolFailed tid x) \<or> r = Inr (EditToolDenied tid x)"
  shows "\<exists>events e. ew_stored (ae_world st') = ew_stored (ae_world st) @ events
    \<and> tool_records events = [request_record env ctx req, e]
    \<and> finished_as (aec_session_id ctx) (aec_turn_id ctx) x e \<and> result_of req (ptr_status x) (ptr_reason x) x"
  using builtin_edit.settled_once [OF assms] by (auto simp: call_settled_def stores_def)

lemma agent_edit_recorded_once_witness:
  "\<exists>tid x st' events. prepare_agent_edit_tool_request demo_edit_env with_agent_edit_tools demo_root demo_edit_context demo_edit_request
       demo_edit_state = (Inr (EditToolCompleted tid x), st') \<and> ew_stored (ae_world st') = events \<and> length (tool_records events) = 2"
proof -
  obtain tid x st' where run: "prepare_agent_edit_tool_request demo_edit_env with_agent_edit_tools demo_root demo_edit_context demo_edit_request
     demo_edit_state = (Inr (EditToolCompleted tid x), st')" using demo_edit_runs by blast
  have "ew_stored (ae_world demo_edit_state) = []" by (simp add: demo_edit_state_def demo_world_def)
  then show ?thesis using agent_edit_recorded_once [OF run] run by fastforce
qed

text \<open>The same of the proposal of an extension.\<close>

lemma proposal_writes_only_allowed:
  assumes "prepare_extension_edit_proposal env base ctx req proposal prior st = (r, st')" "ew_fs (ae_world st') \<noteq> ew_fs (ae_world st)"
  shows "xp_operations proposal \<noteq> [] \<and> is_Allowed (edit_decided (ag_access env) (map proposal_operation (xp_operations proposal))
    (edit_context_of ctx req) (ae_world st))"
  using proposed_edit.files_change_only_allowed [OF assms] by (auto simp: proposal_asks_def split: if_splits)

text \<open>
  A file that \<open>edit_text_file\<close> cannot read is a malformed call, which ends the turn, and not a
  failure the model is told of.
\<close>

lemma unreadable_target_is_malformed:
  assumes "edit_read_existing_text base s path policy = Inl e" "string_argument req ''path'' = Inr path" "\<not> agent_edit_metadata_path_denied path"
  shows "normalize_edit_text_file env base s req policy = Inl MalformedArguments"
  using assms by (cases "string_argument req ''find''"; cases "string_argument req ''replace''")
    (auto simp: normalize_edit_text_file_def string_argument_def ok_or_def split: option.splits)

section \<open>Rejecting\<close>

lemma rejected_keeps_files:
  assumes "reject_agent_edit_tool_review env pend prior st = (r, st')
    \<or> reject_agent_edit_tool_review_for_human_performs env pend prior st = (r, st')"
  shows "ew_fs (ae_world st') = ew_fs (ae_world st)
    \<and> (\<forall>x. r = Inr x \<longrightarrow> ew_pending (ae_world st') = (ew_pending (ae_world st))(pr_preview_id pend := None)
         \<and> ptr_request_id x = pr_request_id pend \<and> ptr_reason x \<noteq> None)"
  using assms
  by (auto simp: reject_agent_edit_tool_review_def reject_agent_edit_tool_review_for_human_performs_def reject_def reject_with_reason_def
      close_rejected_def Let_def provider_result_def edits_kept_def split: option.splits if_splits prod.splits elim!: agent_append_cases)

end
