(* ===== verification/Tool_Batch.thy ===== *)
theory Tool_Batch
  imports Agent_Edit_Properties Shell_Tool_Properties
begin

text \<open>
  A round of tool calls, \<open>execute_native_provider_agent_tool_batch\<close> of
  \<^verbatim>\<open>yach-backend/src/runner.rs\<close> with the handlers it dispatches to: every call of the
  round is validated, run by the handler of its implementation, given a result and recorded,
  in order, until one ends the round. The state joins that of the bash handler, of the edit
  tools and the budget of the loop. The events the edit layer appends are buffered until they
  are drained into the log of the turn; those that are stored at once are then listed as one
  entry of the store. The buffer takes events only after the store did, so it is a sink that
  keeps none of a failed append (\<open>sink_kept\<close> constantly 0); what such an append leaves in the
  file of the store is not among the effects listed here. A poisoned lock around that buffer is
  not modelled.
\<close>

section \<open>The budget of the loop\<close>

record tool_loop_policy =
  lp_max_tool_rounds :: "nat option"
  lp_max_tool_calls_per_round :: nat
  lp_max_total_tool_calls :: nat
  lp_max_result_bytes_per_tool :: nat
  lp_max_total_result_bytes :: nat

definition agent_default :: tool_loop_policy where
  "agent_default = \<lparr>lp_max_tool_rounds = None, lp_max_tool_calls_per_round = 16, lp_max_total_tool_calls = 200,
     lp_max_result_bytes_per_tool = 64 * 1024, lp_max_total_result_bytes = 512 * 1024\<rparr>"

record tool_loop_budget =
  lb_policy :: tool_loop_policy
  lb_tool_rounds :: nat
  lb_total_tool_calls :: nat
  lb_total_result_bytes :: nat

definition new_budget :: "tool_loop_policy \<Rightarrow> tool_loop_budget" where
  "new_budget policy = \<lparr>lb_policy = policy, lb_tool_rounds = 0, lb_total_tool_calls = 0, lb_total_result_bytes = 0\<rparr>"

definition begin_tool_round :: "nat \<Rightarrow> tool_loop_budget \<Rightarrow> (provider_round_error, tool_loop_budget) result" where
  "begin_tool_round count budget =
     (let policy = lb_policy budget; next_total = u64_saturating_add (lb_total_tool_calls budget) count
      in if (case lp_max_tool_rounds policy of Some n \<Rightarrow> lb_tool_rounds budget \<ge> n | None \<Rightarrow> False)
         then Inl (ToolContinuation ''tool_loop_too_many_rounds'')
         else if count > lp_max_tool_calls_per_round policy then Inl (ToolContinuation ''tool_round_too_many_calls'')
         else if next_total > lp_max_total_tool_calls policy
         then Inl (ToolContinuation ''tool_loop_too_many_total_calls'')
         else Inr (budget\<lparr>lb_tool_rounds := lb_tool_rounds budget + 1, lb_total_tool_calls := next_total\<rparr>))"

definition record_tool_result :: "string \<Rightarrow> nat \<Rightarrow> tool_loop_budget \<Rightarrow> (provider_round_error, tool_loop_budget) result" where
  "record_tool_result rid bytes budget =
     (let policy = lb_policy budget; next_total = u64_saturating_add (lb_total_result_bytes budget) bytes
      in if bytes > lp_max_result_bytes_per_tool policy then Inl (ToolContinuation (''tool_result_too_large:'' @ rid))
         else if next_total > lp_max_total_result_bytes policy
         then Inl (ToolContinuation ''tool_loop_total_result_too_large'')
         else Inr (budget\<lparr>lb_total_result_bytes := next_total\<rparr>))"

definition provider_tool_batch_result_budget_failure :: "provider_round_error \<Rightarrow> provider_round_error \<times> string" where
  "provider_tool_batch_result_budget_failure e =
     (case e of
        ToolContinuation label \<Rightarrow>
          if prefix ''tool_result_too_large:'' label
          then (ToolContinuation ''tool_round_result_too_large'', ''tool_round_result_too_large'')
          else (ToolContinuation label, label)
      | _ \<Rightarrow> (e, ''tool_round_result_too_large''))"

section \<open>State\<close>

record continuation_edit_trace =
  cet_trace_id :: string
  cet_tool_name :: string
  cet_tool_request_id :: string
  cet_provider_call_id :: "string option"
  cet_preview_id :: "string option"
  cet_permission_decision_id :: "string option"

record tool_batch =
  tb_bash :: bash_batch
  tb_edit :: agent_edit_state
  tb_budget :: tool_loop_budget
  tb_edit_traces :: "continuation_edit_trace list"

text \<open>
  The surroundings of a round: what is fixed during it, and for each call by its index the
  surroundings of the bash handler, the answers of the extension hosts, the timing, what the
  world has done to the files before it, whether the turn was found cancelled, and the shared
  review state at the three points where the edit handler reads it.
\<close>

record tool_batch_env =
  te_js :: json_codec
  te_parse :: "string \<Rightarrow> json option"
  te_registry :: tool_registry
  te_catalog :: resolved_catalog
  te_permission :: tool_permission_policy
  te_root :: resource_root
  te_read_root :: "resource_root option"
  te_read_dir :: "nat \<Rightarrow> read_dir"
  te_edit :: agent_edit_env
  te_extensions :: "nat \<Rightarrow> extension_router option"
  te_bash :: "nat \<Rightarrow> bash_env"
  te_store_ok :: "nat \<Rightarrow> bool"
  te_ui_ok :: "nat \<Rightarrow> bool"
  te_timing :: "nat \<Rightarrow> tool_timing"
  te_outside :: "nat \<Rightarrow> fs \<Rightarrow> fs"
  te_cancelled_at_start :: bool
  te_cancelled :: "nat \<Rightarrow> bool"
  te_moments :: "nat \<Rightarrow> nat \<Rightarrow> moments"

type_synonym 'a tool_step = "tool_batch \<Rightarrow> (provider_round_error, 'a) result \<times> tool_batch"

definition tool_return :: "'a \<Rightarrow> 'a tool_step" where
  "tool_return x b = (Inr x, b)"

definition tool_fail :: "provider_round_error \<Rightarrow> 'a tool_step" where
  "tool_fail e b = (Inl e, b)"

definition tool_bind :: "'a tool_step \<Rightarrow> ('a \<Rightarrow> 'b tool_step) \<Rightarrow> 'b tool_step" where
  "tool_bind m f b = (case m b of (Inl e, b') \<Rightarrow> (Inl e, b') | (Inr x, b') \<Rightarrow> f x b')"

definition tool_modify :: "(tool_batch \<Rightarrow> tool_batch) \<Rightarrow> unit tool_step" where
  "tool_modify f b = (Inr (), f b)"

definition lift_bash :: "'a bash_step \<Rightarrow> 'a tool_step" where
  "lift_bash m b = (case m (tb_bash b) of (r, x) \<Rightarrow> (r, b\<lparr>tb_bash := x\<rparr>))"

text \<open>An operation of the edit tools; the counter of permission decisions is one for the process.\<close>

definition lift_edit :: "(agent_edit_state \<Rightarrow> 'a \<times> agent_edit_state) \<Rightarrow> 'a tool_step" where
  "lift_edit f b =
     (let st = (tb_edit b)\<lparr>ae_world := (ae_world (tb_edit b))\<lparr>ew_decision_counter := bb_decision_counter (tb_bash b)\<rparr>\<rparr>
      in case f st of
           (r, st') \<Rightarrow> (Inr r, b\<lparr>tb_edit := st',
             tb_bash := (tb_bash b)\<lparr>bb_decision_counter := ew_decision_counter (ae_world st')\<rparr>\<rparr>))"

definition call_env :: "tool_batch_env \<Rightarrow> nat \<Rightarrow> bash_env" where
  "call_env env i = (te_bash env i)\<lparr>be_store_ok := te_store_ok env, be_ui_ok := te_ui_ok env\<rparr>"

abbreviation batch_log :: "tool_batch \<Rightarrow> session_event list" where
  "batch_log b \<equiv> bb_log (tb_bash b)"

abbreviation batch_pending :: "tool_batch \<Rightarrow> session_event list" where
  "batch_pending b \<equiv> bb_pending (tb_bash b)"

abbreviation batch_fs :: "tool_batch \<Rightarrow> fs" where
  "batch_fs b \<equiv> ew_fs (ae_world (tb_edit b))"

text \<open>Events pushed to the log and then copied to the pending events.\<close>

definition extend_tool_events :: "session_event list \<Rightarrow> tool_batch \<Rightarrow> tool_batch" where
  "extend_tool_events events b =
     b\<lparr>tb_bash := (tb_bash b)\<lparr>bb_log := batch_log b @ events, bb_pending := batch_pending b @ events\<rparr>\<rparr>"

definition defers_until_terminal_enrichment :: "session_event \<Rightarrow> bool" where
  "defers_until_terminal_enrichment e = (case e of
     ToolRequestRecorded _ _ _ _ _ _ _ _ _ \<Rightarrow> True
   | ToolExecutionFinished _ _ _ _ _ _ _ _ _ \<Rightarrow> True
   | _ \<Rightarrow> False)"

definition drain_edit_sink_events :: "tool_batch \<Rightarrow> tool_batch" where
  "drain_edit_sink_events b =
     (let x = tb_bash b; events = ew_stored (ae_world (tb_edit b));
          at_once = filter (\<lambda>e. \<not> defers_until_terminal_enrichment e) events
      in b\<lparr>tb_edit := (tb_edit b)\<lparr>ae_world := (ae_world (tb_edit b))\<lparr>ew_stored := []\<rparr>\<rparr>,
           tb_bash := x\<lparr>bb_log := bb_log x @ events,
             bb_pending := bb_pending x @ filter (\<lambda>e. \<not> bb_has_store x \<or> defers_until_terminal_enrichment e) events,
             bb_effects := bb_effects x @ (if bb_has_store x \<and> at_once \<noteq> [] then [Stored at_once] else [])\<rparr>\<rparr>)"

definition batch_finished ::
  "tool_batch \<Rightarrow> string \<Rightarrow> tool_outcome \<Rightarrow> string option \<Rightarrow> tool_payload_summary option \<Rightarrow> string option \<Rightarrow> tool_timing
   \<Rightarrow> session_event" where
  "batch_finished b rid outcome reason payload content timing =
     ToolExecutionFinished (bb_session_id (tb_bash b)) (bb_turn_id (tb_bash b)) rid outcome reason payload content
       (started_at_ms timing) (tool_duration_ms timing)"

definition bash_request_of :: "pending_tool_request \<Rightarrow> bash_request" where
  "bash_request_of req =
     \<lparr>br_request_id = tr_request_id req, br_provider_call_id = tr_provider_call_id req,
      br_command = Option.bind (json_get ''command'' (tr_arguments req)) json_as_str,
      br_workdir = Option.bind (json_get ''workdir'' (tr_arguments req)) json_as_str,
      br_timeout = Option.bind (json_get ''timeout'' (tr_arguments req))
        (\<lambda>v. case v of JNumber t \<Rightarrow> parse_u64 t | _ \<Rightarrow> None)\<rparr>"

definition validate_call ::
  "tool_batch_env \<Rightarrow> pending_tool_request \<Rightarrow> tool_batch \<Rightarrow> (tool_error, tool_validation) result \<times> session_event list" where
  "validate_call env req b =
     (case record_native_tool_validation_with_resolved_catalog (te_js env) (bb_session_id (tb_bash b)) req
         (te_permission env) (te_catalog env) (batch_log b) of
        (validation, events) \<Rightarrow> (validation, drop (length (batch_log b)) events))"

definition persist_pending :: "tool_batch_env \<Rightarrow> nat \<Rightarrow> unit tool_step" where
  "persist_pending env i b =
     (if bb_has_store (tb_bash b)
      then (case append_pending (call_env env i) (tb_bash b) of
          (ok, x) \<Rightarrow> (if ok then Inr () else Inl (ToolContinuation ''tool_event_persist_failed''), b\<lparr>tb_bash := x\<rparr>))
      else (Inr (), b))"

text \<open>Recording a result in the budget, with the error an overrun is reported as.\<close>

definition charge :: "string \<Rightarrow> nat \<Rightarrow> unit tool_step" where
  "charge rid bytes b =
     (case record_tool_result rid bytes (tb_budget b) of
        Inl e \<Rightarrow> (Inl (fst (provider_tool_batch_result_budget_failure e)), b)
      | Inr budget \<Rightarrow> (Inr (), b\<lparr>tb_budget := budget\<rparr>))"

section \<open>Read-only tools\<close>

definition SENSITIVE_PATH_DENIED_GUIDANCE :: string where
  "SENSITIVE_PATH_DENIED_GUIDANCE = ''This path matches the sensitive-file deny list, so its contents are not available to tools. If access is intended, ask the user to allow the path under files.allow in .yach/config.json and retry.''"

definition RESOURCE_READ_TOO_LARGE_GUIDANCE :: string where
  "RESOURCE_READ_TOO_LARGE_GUIDANCE = ''The file exceeds the read_text_file size limit (32KB). Use the bash tool to sample it instead (for example `head -c 20000 <path>`, `wc -l <path>`, or `sed -n '' @ [CHR 0x27] @ ''1,50p'' @ [CHR 0x27] @ '' <path>`), or read a smaller file.''"

definition RESOURCE_READ_NOT_UTF8_GUIDANCE :: string where
  "RESOURCE_READ_NOT_UTF8_GUIDANCE = ''The file is not valid UTF-8 text. Use the bash tool to inspect it (for example `file <path>` or `head -c 200 <path> | xxd`), or skip it.''"

fun resource_path_failure :: "resource_path_error \<Rightarrow> string \<times> string" where
  "resource_path_failure RootUnavailable =
     (''resource_root_unavailable'', ''The project resource root is unavailable.'')"
| "resource_path_failure Missing =
     (''path_missing'', ''The path does not exist. Use list_project_paths to inspect the project layout.'')"
| "resource_path_failure EscapesRoot =
     (''path_outside_project'', ''Paths must stay inside the project root. Use project-relative paths.'')"
| "resource_path_failure SymlinkEscapesRoot =
     (''symlink_outside_project'', ''The path is a symlink that resolves outside the project root. Inspect a project-owned source file instead.'')"
| "resource_path_failure ExpectedFile =
     (''expected_file'', ''The path is a directory. Use list_project_paths to browse it, or name a file.'')"
| "resource_path_failure ExpectedDirectory =
     (''expected_directory'', ''The path is a file, not a directory. Use read_text_file for file contents.'')"
| "resource_path_failure SensitiveDenied = (''sensitive_path_denied'', SENSITIVE_PATH_DENIED_GUIDANCE)"

fun recoverable_readonly_failure :: "tool_execution_error \<Rightarrow> (string \<times> string) option" where
  "recoverable_readonly_failure ResourceReadTooLarge = Some (''resource_read_too_large'', RESOURCE_READ_TOO_LARGE_GUIDANCE)"
| "recoverable_readonly_failure ResourceReadNotUtf8 = Some (''resource_read_not_utf8'', RESOURCE_READ_NOT_UTF8_GUIDANCE)"
| "recoverable_readonly_failure ExecStaleAuthorization = Some (''stale_authorization'',
     ''The edit preview is stale because policy or reviewer state changed; request a new preview.'')"
| "recoverable_readonly_failure (ResourcePath e) =
     (if e = RootUnavailable \<or> e = SensitiveDenied then None else Some (resource_path_failure e))"
| "recoverable_readonly_failure _ = None"

definition sensitive_denied_tool_result :: "pending_tool_request \<Rightarrow> provider_tool_result" where
  "sensitive_denied_tool_result req =
     (let content = verdict_with_guidance ''error: sensitive_path_denied'' SENSITIVE_PATH_DENIED_GUIDANCE
      in \<lparr>ptr_request_id = tr_request_id req, ptr_provider_call_id = tr_provider_call_id req, ptr_status = Failed,
          ptr_content = content, ptr_byte_count = length content, ptr_redacted = True, ptr_truncated = False,
          ptr_reason = Some ''sensitive_path_denied''\<rparr>)"

definition failure_summary :: "string \<Rightarrow> provider_tool_result \<Rightarrow> tool_payload_summary" where
  "failure_summary reason r =
     \<lparr>tp_summary = reason, tp_byte_count = ptr_byte_count r, tp_redacted = True, tp_truncated = False\<rparr>"

definition execute_native_provider_readonly_tool_request ::
  "tool_batch_env \<Rightarrow> nat \<Rightarrow> pending_tool_request \<Rightarrow> provider_tool_result tool_step" where
  "execute_native_provider_readonly_tool_request env i req b =
     (let (validation, recorded) = validate_call env req b; rid = tr_request_id req; timing = te_timing env i;
          finished = batch_finished b rid;
          failed_with = (\<lambda>reason r. (Inr r, extend_tool_events (recorded @ [finished Failed (Some reason)
            (Some (failure_summary reason r)) (Some (ptr_content r)) timing]) b))
      in case validation of
           Inl _ \<Rightarrow> (Inl (ToolContinuation ''tool_round_validation_failed''), extend_tool_events recorded b)
         | Inr v \<Rightarrow>
             (case read_only_execute \<lparr>re_read_dir = te_read_dir env i, re_fs = batch_fs b\<rparr> (te_read_root env)
                 (te_registry env) req v of
                Inl e \<Rightarrow>
                  if e = ResourcePath SensitiveDenied
                  then failed_with ''sensitive_path_denied'' (sensitive_denied_tool_result req)
                  else (case recoverable_readonly_failure e of
                      Some (reason, guidance) \<Rightarrow> failed_with reason (failed_tool_result (bash_request_of req) reason guidance)
                    | None \<Rightarrow> (Inl (ToolContinuation ''tool_round_execution_failed''), extend_tool_events
                        (recorded @ [finished Failed (Some ''tool_round_execution_failed'') None None timing]) b))
              | Inr x \<Rightarrow>
                  (case record_tool_result rid (te_byte_count x) (tb_budget b) of
                     Inl e \<Rightarrow>
                       (case provider_tool_batch_result_budget_failure e of
                          (e', reason) \<Rightarrow> (Inl e', extend_tool_events
                            (recorded @ [finished Failed (Some reason) None None timing]) b))
                   | Inr budget \<Rightarrow>
                       (Inr (execution_to_provider req x),
                        extend_tool_events (recorded @ [finished Completed None
                          (Some (provider_tool_result_summary (tr_tool_name req) x)) (Some (te_summary x)) timing])
                          (b\<lparr>tb_budget := budget\<rparr>)))))"

section \<open>Editing tools\<close>

definition edit_permission_mode :: "approval_mode \<Rightarrow> permission_mode" where
  "edit_permission_mode mode =
     (case mode of Review \<Rightarrow> Ask | AcceptEdits \<Rightarrow> Allow | FullAccess \<Rightarrow> Allow | AutoReview \<Rightarrow> ModeAutoReview)"

definition agent_edit_context :: "tool_batch_env \<Rightarrow> nat \<Rightarrow> edit_policy \<Rightarrow> tool_batch \<Rightarrow> agent_edit_tool_context" where
  "agent_edit_context env i policy b =
     \<lparr>aec_session_id = bb_session_id (tb_bash b), aec_turn_id = bb_turn_id (tb_bash b),
      aec_edit_mode = edit_permission_mode (bb_approval_mode (tb_bash b)), aec_edit_policy = policy,
      aec_review_policy = review_policy_snapshot (tb_bash b),
      aec_authorization_revision =
        (case Option.bind (bb_coordinator (tb_bash b)) (\<lambda>_. snapshot (te_moments env i 0) 0) of
           Some fr \<Rightarrow> fr_authorization_revision fr | None \<Rightarrow> 0)\<rparr>"

definition tool_round_error_label :: "tool_continuation_error \<Rightarrow> string" where
  "tool_round_error_label e =
     (case e of
        TooManyToolCalls _ _ \<Rightarrow> ''tool_round_too_many_calls''
      | ContinuationValidation _ \<Rightarrow> ''tool_round_validation_failed''
      | ContinuationExecution x \<Rightarrow>
          if x = ExecStaleAuthorization then ''tool_round_stale_authorization'' else ''tool_round_execution_failed''
      | ResultTooLarge _ _ _ \<Rightarrow> ''tool_round_result_too_large'')"

text \<open>An operation of the edit tools, the drain that follows it, and its error as that of the round.\<close>

definition edit_then_drain ::
  "(agent_edit_state \<Rightarrow> (tool_continuation_error, 'a) result \<times> agent_edit_state) \<Rightarrow> 'a tool_step" where
  "edit_then_drain f =
     tool_bind (lift_edit f) (\<lambda>r.
     tool_bind (tool_modify drain_edit_sink_events) (\<lambda>_.
       case r of Inl e \<Rightarrow> tool_fail (ToolContinuation (tool_round_error_label e)) | Inr x \<Rightarrow> tool_return x))"

definition push_edit_trace :: "continuation_edit_trace \<Rightarrow> unit tool_step" where
  "push_edit_trace t = tool_modify (\<lambda>b. b\<lparr>tb_edit_traces := tb_edit_traces b @ [t]\<rparr>)"

definition charged :: "provider_tool_result \<Rightarrow> provider_tool_result tool_step" where
  "charged r = tool_bind (charge (ptr_request_id r) (ptr_byte_count r)) (\<lambda>_. tool_return r)"

definition record_interrupted_prepared_edit :: "string \<Rightarrow> string \<Rightarrow> tool_timing \<Rightarrow> tool_batch \<Rightarrow> tool_batch" where
  "record_interrupted_prepared_edit rid reason timing b =
     b\<lparr>tb_bash := push_native_session_event (batch_finished b rid Cancelled (Some reason) None None timing) (tb_bash b)\<rparr>"

definition interrupt_edit :: "string \<Rightarrow> string \<Rightarrow> tool_timing \<Rightarrow> provider_round_error \<Rightarrow> 'a tool_step" where
  "interrupt_edit rid reason timing e =
     tool_bind (tool_modify (record_interrupted_prepared_edit rid reason timing)) (\<lambda>_. tool_fail e)"

definition pending_review ::
  "tool_batch \<Rightarrow> string \<Rightarrow> string \<Rightarrow> string \<Rightarrow> edit_preview \<Rightarrow> string \<Rightarrow> string \<Rightarrow> pending_agent_edit_tool_review" where
  "pending_review b tid rid call_id p path op =
     \<lparr>pr_trace_id = tid, pr_session_id = bb_session_id (tb_bash b), pr_turn_id = bb_turn_id (tb_bash b),
      pr_request_id = rid, pr_provider_call_id = call_id, pr_preview_id = ep_preview_id p,
      pr_permission_decision_id = ep_permission_decision_id p, pr_path = path, pr_operation = op\<rparr>"

definition reviewed_trace :: "string \<Rightarrow> pending_agent_edit_tool_review \<Rightarrow> string option \<Rightarrow> continuation_edit_trace" where
  "reviewed_trace tool_name pend call_id =
     \<lparr>cet_trace_id = pr_trace_id pend, cet_tool_name = tool_name, cet_tool_request_id = pr_request_id pend,
      cet_provider_call_id = call_id, cet_preview_id = Some (pr_preview_id pend),
      cet_permission_decision_id = Some (pr_permission_decision_id pend)\<rparr>"

definition hand_off_edit ::
  "tool_batch_env \<Rightarrow> string \<Rightarrow> pending_agent_edit_tool_review \<Rightarrow> tool_timing \<Rightarrow> provider_tool_result tool_step" where
  "hand_off_edit env tool_name pend prior =
     tool_bind (edit_then_drain (reject_agent_edit_tool_review_for_human_performs (te_edit env) pend prior)) (\<lambda>r.
     tool_bind (push_edit_trace (reviewed_trace tool_name pend (ptr_provider_call_id r))) (\<lambda>_. charged r))"

definition edit_review_request :: "string \<Rightarrow> string \<Rightarrow> string \<Rightarrow> permission_request" where
  "edit_review_request rid op path =
     \<lparr>request_id = rid, actor = Provider, capability = EditTransaction, target = \<lparr>operation = op, resource = path\<rparr>,
      risk = WorkspaceWrite, requested_reviewer = Some AutoReviewer, command = None\<rparr>"

text \<open>The reviewer on an edit: the generation of the preview is bound to the reviewer's, then it is asked.\<close>

definition review_edit ::
  "tool_batch_env \<Rightarrow> nat \<Rightarrow> review_env \<Rightarrow> review_coordinator \<Rightarrow> pending_agent_edit_tool_review \<Rightarrow> edit_preview \<Rightarrow> tool_timing
   \<Rightarrow> review_route tool_step" where
  "review_edit env i renv co pend p prior =
     tool_bind (lift_edit (\<lambda>st. (case review_action_for_preview (ep_preview_id p) (ae_world st) of
         Some a \<Rightarrow> a | None \<Rightarrow> ReviewEditTransaction [] [], st))) (\<lambda>action.
     tool_bind (lift_edit (\<lambda>st. case snapshot (te_moments env i 1) 0 of
         None \<Rightarrow> (False, st)
       | Some fr \<Rightarrow> (case rebind_reviewer_generation (ep_preview_id p) (fr_reviewer_generation fr) (ae_world st) of
           (ok, w) \<Rightarrow> (ok, st\<lparr>ae_world := w\<rparr>)))) (\<lambda>_ b.
       let item = (\<lambda>name kind excerpt cut_off. \<lparr>ev_id = name, ev_source = ''edit_preview'', ev_kind = kind,
             ev_excerpt = excerpt, ev_truncated = cut_off\<rparr>)
       in case user_message_evidence (user_messages_newest_first (batch_log b)) (bb_turn_id (tb_bash b)) of
            IssuingTurnOverBudget \<Rightarrow> (Inr (Hold EvidenceOverBudget []), b)
          | EvidenceReady items om \<Rightarrow>
              if be_review_cancelled (te_bash env i)
              then interrupt_edit (pr_request_id pend) ''native provider prompt cancelled'' prior
                (RoundCancelled ''native provider prompt cancelled'') b
              else (Inr (fst (review_within_deadline renv co (be_moments (te_bash env i))
                  (edit_review_request (pr_request_id pend) (pr_operation pend) (pr_path pend)) action
                  (items @ [item ''diff_summary'' ''diff_summary'' (ep_diff_summary p) (ep_diff_summary_truncated p),
                            item ''path'' ''target_path'' (pr_path pend) False]) [] om)), b)))"

fun local_edit_review_state_of :: "edit_access_review_state \<Rightarrow> local_edit_review_state" where
  "local_edit_review_state_of EditAllowed = LocalAllowed"
| "local_edit_review_state_of NeedsUserApproval = LocalNeedsUserApproval"
| "local_edit_review_state_of AutoReviewUnavailable = LocalAutoReviewUnavailable"
| "local_edit_review_state_of EditHumanPerforms = LocalHumanPerforms"

definition local_edit_preview_summary_of :: "edit_preview \<Rightarrow> string \<Rightarrow> string \<Rightarrow> local_edit_preview_summary" where
  "local_edit_preview_summary_of p path op =
     \<lparr>le_preview_id = ep_preview_id p, le_transaction_id = ep_transaction_id p,
      le_permission_decision_id = ep_permission_decision_id p, le_path = path, le_operation = op,
      le_review_state = local_edit_review_state_of (ep_review_state p), le_diff_summary = ep_diff_summary p,
      le_diff_summary_truncated = ep_diff_summary_truncated p, le_review_origin = None\<rparr>"

definition wait_for_agent_edit_review_decision ::
  "review_input \<Rightarrow> pending_agent_edit_tool_review \<Rightarrow> (provider_round_error, tool_review_decision) result" where
  "wait_for_agent_edit_review_decision input pend =
     (case input of
        InputCancelled \<Rightarrow> Inl (RoundCancelled ''native provider prompt cancelled'')
      | InputClosed \<Rightarrow> Inl (RoundCancelled ''tool review decision channel closed'')
      | InputDecision r p d decision \<Rightarrow>
          if r = pr_request_id pend \<and> p = pr_preview_id pend \<and> d = pr_permission_decision_id pend then Inr decision
          else Inl (ToolContinuation ''stale_tool_review_decision''))"

definition review_wait_error_outcome :: "provider_round_error \<Rightarrow> edit_trace_outcome" where
  "review_wait_error_outcome e = (case e of RoundCancelled _ \<Rightarrow> TraceCancelled | _ \<Rightarrow> TraceFailed)"

definition record_review_wait_trace ::
  "agent_edit_env \<Rightarrow> pending_agent_edit_tool_review \<Rightarrow> edit_trace_outcome \<Rightarrow> string option \<Rightarrow> agent_edit_state
   \<Rightarrow> unit \<times> agent_edit_state" where
  "record_review_wait_trace env pend outcome reason st =
     ((), snd (agent_append env (record_review_trace env pend ReviewWait outcome reason None
        [trace_attribute ''operation'' (pr_operation pend)] []) st))"

definition wait_outcome :: "(provider_round_error, tool_review_decision) result \<Rightarrow> edit_trace_outcome \<times> string option" where
  "wait_outcome d =
     (case d of
        Inr decision \<Rightarrow> (if decision = Reject then TraceRejected else TraceCompleted, None)
      | Inl e \<Rightarrow> (review_wait_error_outcome e, Some (provider_round_error_label e)))"

definition bump_after_decision :: "tool_batch \<Rightarrow> tool_batch" where
  "bump_after_decision b =
     (if bb_coordinator (tb_bash b) \<noteq> None
      then b\<lparr>tb_bash := (tb_bash b)\<lparr>bb_shared := bump_authorization_revision (bb_shared (tb_bash b))\<rparr>\<rparr> else b)"

text \<open>The review of an edit by the user, whose client can show it or not.\<close>

definition await_edit_review ::
  "tool_batch_env \<Rightarrow> nat \<Rightarrow> string \<Rightarrow> pending_agent_edit_tool_review \<Rightarrow> edit_preview \<Rightarrow> tool_timing
   \<Rightarrow> provider_tool_result tool_step" where
  "await_edit_review env i tool_name pend p prior =
     (let benv = call_env env i; rid = pr_request_id pend; session = pr_session_id pend; turn = pr_turn_id pend;
          payload = local_edit_preview_summary_of p (pr_path pend) (pr_operation pend);
          persist = (\<lambda>e. lift_bash (persist_tool_review_event benv e));
          decided = wait_for_agent_edit_review_decision (be_input benv) pend
      in tool_bind (persist (ToolReviewRequested session turn rid tool_name (LocalEditPayload payload))) (\<lambda>_.
         tool_bind (lift_bash (\<lambda>x. case send_ui benv (EditReviewRequestedMessage rid tool_name payload) x of
             (ok, x') \<Rightarrow> (Inr ok, x'))) (\<lambda>delivered.
         if \<not> delivered then
           tool_bind (persist (ToolReviewInterrupted session turn rid ''ui_receiver_dropped'')) (\<lambda>_.
             interrupt_edit rid ''ui_receiver_dropped'' prior (RoundCancelled ''ui receiver dropped during tool review''))
         else
           tool_bind (lift_edit (record_review_wait_trace (te_edit env) pend (fst (wait_outcome decided))
               (snd (wait_outcome decided)))) (\<lambda>_.
           tool_bind (tool_modify drain_edit_sink_events) (\<lambda>_.
             case decided of
               Inl e \<Rightarrow>
                 tool_bind (persist (ToolReviewInterrupted session turn rid (provider_round_error_label e))) (\<lambda>_.
                   interrupt_edit rid (provider_round_error_label e) prior e)
             | Inr decision \<Rightarrow>
                 tool_bind (persist (ToolReviewDecisionRecorded session turn rid decision)) (\<lambda>_.
                 tool_bind (tool_modify bump_after_decision) (\<lambda>_.
                 tool_bind (edit_then_drain (if decision = Reject
                     then reject_agent_edit_tool_review (te_edit env) pend prior
                     else apply_agent_edit_tool_review (te_edit env) pend None prior)) (\<lambda>r.
                 tool_bind (push_edit_trace (reviewed_trace tool_name pend (Some (pr_provider_call_id pend)))) (\<lambda>_.
                   charged r)))))))))"

definition ask_user_for_edit ::
  "tool_batch_env \<Rightarrow> nat \<Rightarrow> string \<Rightarrow> pending_agent_edit_tool_review \<Rightarrow> edit_preview \<Rightarrow> tool_timing
   \<Rightarrow> provider_tool_result tool_step" where
  "ask_user_for_edit env i tool_name pend p prior b =
     (if \<not> bb_structured_review_rows (tb_bash b)
      then interrupt_edit (pr_request_id pend) ''structured_review_rows_not_negotiated'' prior
        (ToolContinuation ''structured_review_rows_not_negotiated'') b
      else await_edit_review env i tool_name pend p prior b)"

definition finish_prepared_edit_tool_request ::
  "tool_batch_env \<Rightarrow> nat \<Rightarrow> string \<Rightarrow> agent_edit_tool_prepared \<Rightarrow> tool_timing \<Rightarrow> provider_tool_result tool_step" where
  "finish_prepared_edit_tool_request env i tool_name prepared prior b =
     (let settled = (\<lambda>tid r. tool_bind (push_edit_trace
            \<lparr>cet_trace_id = tid, cet_tool_name = tool_name, cet_tool_request_id = ptr_request_id r,
             cet_provider_call_id = ptr_provider_call_id r, cet_preview_id = None,
             cet_permission_decision_id = None\<rparr>) (\<lambda>_. charged r))
      in case prepared of
           EditToolCompleted tid r \<Rightarrow> settled tid r b
         | EditToolFailed tid r \<Rightarrow> settled tid r b
         | EditToolDenied _ r \<Rightarrow>
             (Inl (ToolExecutionDenied (ptr_request_id r) tool_name
                (case ptr_reason r of Some reason \<Rightarrow> reason | None \<Rightarrow> ''denied'')), b)
         | EditToolNeedsReview tid rid call_id p path op \<Rightarrow>
             (let pend = pending_review b tid rid call_id p path op;
                  manual = ask_user_for_edit env i tool_name pend p prior
              in if ep_review_state p = EditHumanPerforms then hand_off_edit env tool_name pend prior b
                 else (case bb_coordinator (tb_bash b) of
                     Some (renv, co) \<Rightarrow>
                       if ep_review_state p \<noteq> AutoReviewUnavailable then manual b
                       else
                         tool_bind (review_edit env i renv co pend p prior) (\<lambda>route.
                           case route of
                             Execute \<Rightarrow>
                               tool_bind (edit_then_drain (apply_agent_edit_tool_review (te_edit env) pend
                                   (snapshot (te_moments env i 2) 0) prior)) (\<lambda>r.
                               tool_bind (push_edit_trace (reviewed_trace tool_name pend
                                   (Some (case ptr_provider_call_id r of Some c \<Rightarrow> c | None \<Rightarrow> '''')))) (\<lambda>_.
                                 charged r))
                           | Hold (RestrictionApplies (HumanPerforms _ _)) _ \<Rightarrow> hand_off_edit env tool_name pend prior
                           | _ \<Rightarrow> manual) b
                   | None \<Rightarrow> manual b)))"

definition execute_native_provider_edit_tool_request ::
  "tool_batch_env \<Rightarrow> nat \<Rightarrow> pending_tool_request \<Rightarrow> provider_tool_result tool_step" where
  "execute_native_provider_edit_tool_request env i req =
     tool_bind (persist_pending env i) (\<lambda>_ b.
     tool_bind (edit_then_drain (prepare_agent_edit_tool_request (te_edit env) (te_registry env) (te_root env)
         (agent_edit_context env i conservative b) req)) (\<lambda>prepared.
       finish_prepared_edit_tool_request env i (tr_tool_name req) prepared no_timing) b)"

section \<open>Tools of extensions\<close>

datatype extension_resource_result = ResourceCompleted string string string | ResourceFailed string string

definition extension_resource_failure :: "resource_read_error \<Rightarrow> string \<times> string" where
  "extension_resource_failure e =
     (case e of
        PathError p \<Rightarrow> resource_path_failure p
      | TooLarge _ _ \<Rightarrow> (''resource_read_too_large'', RESOURCE_READ_TOO_LARGE_GUIDANCE)
      | NotUtf8 \<Rightarrow> (''resource_read_not_utf8'', RESOURCE_READ_NOT_UTF8_GUIDANCE)
      | IoError \<Rightarrow> (''resource_read_failed'', ''The resource could not be read because of an I/O error.''))"

definition broker_execute :: "edit_env \<Rightarrow> resource_root \<Rightarrow> fs \<Rightarrow> string \<Rightarrow> nat \<Rightarrow> extension_resource_result" where
  "broker_execute env base s path max_bytes =
     (case read_text_file base s path (min max_bytes (512 * 1024)) of
        Inr r \<Rightarrow> ResourceCompleted path (read_text r) (sha256_hex env (read_text r))
      | Inl e \<Rightarrow> (case extension_resource_failure e of (reason, message) \<Rightarrow> ResourceFailed reason message))"

definition extension_outcome :: "extension_tool_result_status \<Rightarrow> tool_outcome" where
  "extension_outcome status = (case status of ExtensionCompleted \<Rightarrow> Completed | ExtensionFailed \<Rightarrow> Failed)"

definition push_tool_events :: "session_event list \<Rightarrow> tool_batch \<Rightarrow> tool_batch" where
  "push_tool_events events b = b\<lparr>tb_bash := (tb_bash b)\<lparr>bb_log := batch_log b @ events\<rparr>\<rparr>"

definition execute_native_provider_extension_tool_request ::
  "tool_batch_env \<Rightarrow> nat \<Rightarrow> pending_tool_request \<Rightarrow> string \<Rightarrow> provider_tool_result tool_step" where
  "execute_native_provider_extension_tool_request env i req implementation b =
     (let (validation, recorded) = validate_call env req b; rid = tr_request_id req; timing = te_timing env i;
          abort = (\<lambda>reason t. (Inl (ToolContinuation ''tool_round_execution_failed''),
            extend_tool_events (recorded @ [batch_finished b rid Failed (Some reason) None None t]) b))
      in case validation of
           Inl _ \<Rightarrow> (Inl (ToolContinuation ''tool_round_validation_failed''), extend_tool_events recorded b)
         | Inr v \<Rightarrow>
             (case te_extensions env i of
                None \<Rightarrow> abort ''tool_round_execution_failed'' no_timing
              | Some router \<Rightarrow>
                  (case execute_with_resources (te_parse env) router (te_registry env)
                      (req\<lparr>tr_tool_name := implementation\<rparr>) v of
                     Inl _ \<Rightarrow> abort ''tool_round_execution_failed'' timing
                   | Inr (ExtensionResult x status reason) \<Rightarrow>
                       (case record_tool_result rid (te_byte_count x) (tb_budget b) of
                          Inl e \<Rightarrow>
                            (case provider_tool_batch_result_budget_failure e of
                               (e', why) \<Rightarrow> (Inl e', extend_tool_events
                                 (recorded @ [batch_finished b rid Failed (Some why) None None timing]) b))
                        | Inr budget \<Rightarrow>
                            (Inr ((execution_to_provider req x)\<lparr>ptr_status := extension_outcome status, ptr_reason := reason\<rparr>),
                             extend_tool_events (recorded @ [batch_finished b rid (extension_outcome status) reason
                               (Some (provider_tool_result_summary (tr_tool_name req) x)) (Some (te_summary x)) timing])
                               (b\<lparr>tb_budget := budget\<rparr>)))
                   | Inr (ExtensionProposal proposal) \<Rightarrow>
                       if map_option td_risk (registry_get (te_registry env) implementation) \<noteq> Some MutatesLocalState
                       then abort ''extension_edit_proposal_risk_mismatch'' timing
                       else
                         tool_bind (persist_pending env i) (\<lambda>_ b1.
                         tool_bind (edit_then_drain (prepare_extension_edit_proposal (te_edit env) (te_root env)
                             (agent_edit_context env i extension_proposal b1) req proposal timing)) (\<lambda>prepared.
                           finish_prepared_edit_tool_request env i (tr_tool_name req) prepared timing) b1)
                         (push_tool_events recorded b))))"

section \<open>Messages\<close>

definition harness_outcome_kind_of :: "tool_outcome \<Rightarrow> string option \<Rightarrow> harness_outcome_kind option" where
  "harness_outcome_kind_of outcome reason =
     (case outcome of
        Completed \<Rightarrow> if reason = Some ''user_rejected'' then Some KindDenied else None
      | Failed \<Rightarrow>
          Some (if reason \<in> Some ` {''user_rejected'', ''permission_denied'', ''sensitive_path_denied''} then KindDenied
            else if reason \<in> Some ` {''invalid_request'', ''malformed_patch'', ''empty_transaction'',
                ''too_many_operations'', ''transaction_too_large'', ''duplicate_target'', ''empty_hunks'', ''empty_find''}
            then KindBlocked else KindFailed)
      | DeniedOutcome \<Rightarrow> Some KindDenied
      | Cancelled \<Rightarrow> Some KindCancelled
      | ValidationFailed \<Rightarrow> Some KindBlocked)"

definition preview_argument :: "string \<Rightarrow> string option" where
  "preview_argument name =
     (if name \<in> {''read_text_file'', ''project_path_info'', ''list_project_paths'', ''edit_text_file'', ''create_text_file''}
      then Some ''path''
      else if name = ''search_project'' then Some ''query''
      else if name = ''bash'' then Some ''command'' else None)"

definition provider_tool_call_preview :: "string \<Rightarrow> json \<Rightarrow> string option" where
  "provider_tool_call_preview name arguments =
     Option.bind (preview_argument name) (\<lambda>argument.
     Option.bind (json_get argument arguments) (\<lambda>v.
     Option.bind (json_as_str v) (\<lambda>src.
       let first_line = trim (case str_lines src of [] \<Rightarrow> '''' | l # _ \<Rightarrow> l); shown = take_chars 80 first_line
       in if first_line = '''' then None
          else Some (if char_count (trim src) > char_count shown then shown @ ''...'' else shown))))"

definition batch_send :: "tool_batch_env \<Rightarrow> nat \<Rightarrow> server_event \<Rightarrow> tool_batch \<Rightarrow> provider_round_error option \<times> tool_batch" where
  "batch_send env i m b =
     (case send_ui (call_env env i) m (tb_bash b) of
        (ok, x) \<Rightarrow> (if ok then None else Some (RoundCancelled ''ui receiver dropped during tool progress''), b\<lparr>tb_bash := x\<rparr>))"

definition started_message :: "pending_tool_request \<Rightarrow> server_event" where
  "started_message req = ToolCallStartedMessage (tr_request_id req) (tr_tool_name req)
     (provider_tool_call_preview (tr_tool_name req) (tr_arguments req))"

definition finished_message :: "string \<Rightarrow> provider_tool_result \<Rightarrow> server_event" where
  "finished_message name r =
     ToolCallFinishedMessage \<lparr>tm_tool_call_id = Some (ptr_request_id r), tm_tool_name = name, tm_output = ptr_content r,
       tm_is_error = (ptr_status r \<noteq> Completed), tm_outcome_kind = harness_outcome_kind_of (ptr_status r) (ptr_reason r),
       tm_byte_count = ptr_byte_count r, tm_truncated = ptr_truncated r, tm_reason = ptr_reason r\<rparr>"

section \<open>Results and records of a call that ended the round\<close>

definition finished_content ::
  "pending_tool_request \<Rightarrow> session_event \<Rightarrow> (tool_outcome \<times> string option \<times> string) option" where
  "finished_content req e =
     (case e of
        ToolExecutionFinished _ turn rid outcome reason _ (Some content) _ _ \<Rightarrow>
          if turn = tr_turn_id req \<and> rid = tr_request_id req then Some (outcome, reason, content) else None
      | _ \<Rightarrow> None)"

definition provider_tool_batch_terminal_result ::
  "session_event list \<Rightarrow> pending_tool_request \<Rightarrow> provider_round_error \<Rightarrow> bool \<Rightarrow> provider_tool_result" where
  "provider_tool_batch_terminal_result events req e unstarted =
     (case find_map (finished_content req) (rev events) of
        Some (outcome, reason, content) \<Rightarrow>
          \<lparr>ptr_request_id = tr_request_id req, ptr_provider_call_id = tr_provider_call_id req, ptr_status = outcome,
           ptr_content = content, ptr_byte_count = length content, ptr_redacted = True, ptr_truncated = False,
           ptr_reason = reason\<rparr>
      | None \<Rightarrow>
          (case e of
             RoundCancelled detail \<Rightarrow>
               (failed_tool_result (bash_request_of req) ''tool_round_cancelled''
                  (if unstarted
                   then ''This tool call was not started because the tool batch stopped before execution. Review the terminal error before retrying.''
                   else ''This tool call was cancelled: '' @ detail
                     @ ''. Retry it if the cancellation condition is resolved.''))\<lparr>ptr_status := Cancelled\<rparr>
           | _ \<Rightarrow>
               (let reason = provider_round_error_label e
                in failed_tool_result (bash_request_of req) reason
                     (if reason = ''tool_round_validation_failed''
                      then ''The tool call could not be validated. Check the tool name and arguments, then retry.''
                      else ''The tool call could not be completed. Review the error and retry.''))))"

text \<open>The first element that an update applies to, from the end of a list.\<close>

fun update_first :: "('a \<Rightarrow> 'a option) \<Rightarrow> 'a list \<Rightarrow> 'a list" where
  "update_first f [] = []"
| "update_first f (x # xs) = (case f x of Some y \<Rightarrow> y # xs | None \<Rightarrow> x # update_first f xs)"

definition update_last :: "('a \<Rightarrow> 'a option) \<Rightarrow> 'a list \<Rightarrow> 'a list" where
  "update_last f xs = rev (update_first f (rev xs))"

definition is_request_of :: "pending_tool_request \<Rightarrow> session_event \<Rightarrow> bool" where
  "is_request_of req e =
     (case e of ToolRequestRecorded _ turn rid _ _ _ _ _ _ \<Rightarrow> turn = tr_turn_id req \<and> rid = tr_request_id req | _ \<Rightarrow> False)"

definition is_finish_of :: "pending_tool_request \<Rightarrow> session_event \<Rightarrow> bool" where
  "is_finish_of req e =
     (case e of ToolExecutionFinished _ turn rid _ _ _ _ _ _ \<Rightarrow> turn = tr_turn_id req \<and> rid = tr_request_id req | _ \<Rightarrow> False)"

definition evidence_of :: "provider_tool_result \<Rightarrow> tool_payload_summary" where
  "evidence_of r =
     \<lparr>tp_summary = (case ptr_reason r of Some reason \<Rightarrow> reason | None \<Rightarrow> ''tool result''),
      tp_byte_count = ptr_byte_count r, tp_redacted = ptr_redacted r, tp_truncated = ptr_truncated r\<rparr>"

text \<open>A record with the content it lacks; \<open>None\<close> when it lacks none.\<close>

definition lacking_filled :: "string \<Rightarrow> provider_tool_result \<Rightarrow> session_event \<Rightarrow> session_event option" where
  "lacking_filled content r e =
     (case e of
        ToolRequestRecorded s t i n c v p a None \<Rightarrow> Some (ToolRequestRecorded s t i n c v p a (Some content))
      | ToolExecutionFinished s t i oc reason _ None st d \<Rightarrow>
          Some (ToolExecutionFinished s t i oc reason (Some (evidence_of r)) (Some (ptr_content r)) st d)
      | _ \<Rightarrow> None)"

text \<open>In the log the last record of the call is looked at, among the pending events the last that lacks its content.\<close>

definition fill_log ::
  "(session_event \<Rightarrow> bool) \<Rightarrow> string \<Rightarrow> provider_tool_result \<Rightarrow> session_event list \<Rightarrow> session_event list" where
  "fill_log mine content r events = update_last (\<lambda>e. if mine e
     then Some (case lacking_filled content r e of Some e' \<Rightarrow> e' | None \<Rightarrow> e) else None) events"

definition fill_pending ::
  "(session_event \<Rightarrow> bool) \<Rightarrow> string \<Rightarrow> provider_tool_result \<Rightarrow> session_event list \<Rightarrow> session_event list" where
  "fill_pending mine content r events =
     update_last (\<lambda>e. if mine e then lacking_filled content r e else None) events"

definition record_missing_provider_tool_batch_events ::
  "tool_batch_env \<Rightarrow> pending_tool_request \<Rightarrow> provider_tool_result \<Rightarrow> tool_batch \<Rightarrow> tool_batch" where
  "record_missing_provider_tool_batch_events env req r b =
     (let x = tb_bash b; content = js_display (te_js env) (tr_arguments req);
          missing_request = (if list_ex (is_request_of req) (bb_log x) then [] else
            [ToolRequestRecorded (bb_session_id x) (bb_turn_id x) (tr_request_id req) (tr_tool_name req)
               (tr_provider_call_id req) (Inr ()) ToolAllowed
               \<lparr>tp_summary = ''terminal batch evidence'', tp_byte_count = length content, tp_redacted = True,
                tp_truncated = False\<rparr> (Some content)]);
          missing_finish = (if list_ex (is_finish_of req) (bb_log x) then [] else
            [ToolExecutionFinished (bb_session_id x) (bb_turn_id x) (tr_request_id req) (ptr_status r) (ptr_reason r)
               (Some (evidence_of r)) (Some (ptr_content r)) None None]);
          fill = (\<lambda>f events. f (is_finish_of req) content r (f (is_request_of req) content r events))
      in b\<lparr>tb_bash := x\<lparr>bb_log := fill fill_log (bb_log x) @ missing_request @ missing_finish,
           bb_pending := fill fill_pending (bb_pending x) @ missing_request @ missing_finish\<rparr>\<rparr>)"

section \<open>The round\<close>

definition run_bash :: "tool_batch_env \<Rightarrow> nat \<Rightarrow> pending_tool_request \<Rightarrow> provider_tool_result tool_step" where
  "run_bash env i req b =
     (let (validation, recorded) = validate_call env req b;
          budget_after = (\<lambda>bytes. record_tool_result (tr_request_id req) bytes (tb_budget b));
          benv = (call_env env i)\<lparr>be_validation := (case validation of Inr _ \<Rightarrow> True | Inl _ \<Rightarrow> False, recorded),
            be_tree := nodes (batch_fs b),
            be_budget := (\<lambda>bytes. case budget_after bytes of
               Inl e \<Rightarrow> Some (fst (provider_tool_batch_result_budget_failure e)) | Inr _ \<Rightarrow> None)\<rparr>
      in case execute_bash benv (bash_request_of req) ((tb_bash b)\<lparr>bb_root := canonical_path (te_root env)\<rparr>) of
           (r, x) \<Rightarrow> (r, b\<lparr>tb_bash := x, tb_budget :=
             (case r of
                Inr y \<Rightarrow> if ptr_status y = Completed
                  then (case budget_after (ptr_byte_count y) of Inr budget \<Rightarrow> budget | Inl _ \<Rightarrow> tb_budget b)
                  else tb_budget b
              | Inl _ \<Rightarrow> tb_budget b)\<rparr>))"

definition is_extension_tool :: "tool_registry \<Rightarrow> string \<Rightarrow> bool" where
  "is_extension_tool registry name =
     (case registry_get registry name of Some d \<Rightarrow> is_extension_owner (td_owner d) | None \<Rightarrow> False)"

definition dispatch_call :: "tool_batch_env \<Rightarrow> nat \<Rightarrow> pending_tool_request \<Rightarrow> provider_tool_result tool_step" where
  "dispatch_call env i req b =
     (case implementation_name_for_provider_tool (te_catalog env) (tr_tool_name req) of
        Some name \<Rightarrow>
          if name \<in> {''project_path_info'', ''read_text_file'', ''search_project'', ''list_project_paths''}
          then execute_native_provider_readonly_tool_request env i req b
          else if name \<in> {''edit_text_file'', ''create_text_file''}
          then execute_native_provider_edit_tool_request env i req b
          else if name = ''bash'' then run_bash env i req b
          else if is_extension_tool (te_registry env) name
          then execute_native_provider_extension_tool_request env i req name b
          else (Inl (ToolContinuation ''tool_round_validation_failed''),
                extend_tool_events (snd (validate_call env req b)) b)
      | None \<Rightarrow> (Inl (ToolContinuation ''tool_round_validation_failed''),
          extend_tool_events (snd (validate_call env req b)) b))"

text \<open>One call; \<open>None\<close> is a panic. The error, if any, ends the round.\<close>

definition run_call ::
  "tool_batch_env \<Rightarrow> nat \<Rightarrow> pending_tool_request \<Rightarrow> tool_batch
   \<Rightarrow> (provider_tool_result \<times> provider_round_error option \<times> tool_batch) option" where
  "run_call env i req b =
     (case batch_send env i (started_message req) b of
        (Some e, b1) \<Rightarrow>
          (let r = provider_tool_batch_terminal_result (batch_log b1) req e False
           in Some (r, Some e, record_missing_provider_tool_batch_events env req r b1))
      | (None, b1) \<Rightarrow>
          (case dispatch_call env i req b1 of
             (Inr r, b2) \<Rightarrow>
               (case batch_send env i (finished_message (tr_tool_name req) r)
                   (record_missing_provider_tool_batch_events env req r b2) of (e, b3) \<Rightarrow> Some (r, e, b3))
           | (Inl e, b2) \<Rightarrow>
               if e = RoundPanicked then None
               else
                 (let r = provider_tool_batch_terminal_result (batch_log b2) req e False
                  in case batch_send env i (finished_message (tr_tool_name req) r)
                       (record_missing_provider_tool_batch_events env req r b2) of (_, b3) \<Rightarrow> Some (r, Some e, b3))))"

fun stop_calls ::
  "tool_batch_env \<Rightarrow> provider_round_error \<Rightarrow> pending_tool_request list \<Rightarrow> tool_batch \<Rightarrow> provider_tool_result list \<times> tool_batch" where
  "stop_calls env e [] b = ([], b)"
| "stop_calls env e (req # reqs) b =
     (let r = provider_tool_batch_terminal_result (batch_log b) req e True;
          (rs, b') = stop_calls env e reqs (record_missing_provider_tool_batch_events env req r b)
      in (r # rs, b'))"

definition outside_changes :: "tool_batch_env \<Rightarrow> nat \<Rightarrow> tool_batch \<Rightarrow> tool_batch" where
  "outside_changes env i b =
     b\<lparr>tb_edit := (tb_edit b)\<lparr>ae_world := (ae_world (tb_edit b))\<lparr>ew_fs := te_outside env i (batch_fs b)\<rparr>\<rparr>\<rparr>"

type_synonym batch_outcome = "provider_tool_result list \<times> provider_round_error option"

fun run_calls ::
  "tool_batch_env \<Rightarrow> nat \<Rightarrow> pending_tool_request list \<Rightarrow> tool_batch \<Rightarrow> (batch_outcome \<times> tool_batch) option" where
  "run_calls env i [] b = Some (([], None), b)"
| "run_calls env i (req # reqs) b =
     (if te_cancelled env i then
        (let e = RoundCancelled ''native provider prompt cancelled''; (rs, b') = stop_calls env e (req # reqs) b
         in Some ((rs, Some e), b'))
      else (case run_call env i req (outside_changes env i b) of
          None \<Rightarrow> None
        | Some (r, Some e, b1) \<Rightarrow>
            (let (rs, b2) = stop_calls env (RoundCancelled ''tool batch stopped'') reqs b1
             in Some ((r # rs, Some e), b2))
        | Some (r, None, b1) \<Rightarrow>
            (case run_calls env (i + 1) reqs b1 of
               None \<Rightarrow> None
             | Some ((rs, t), b2) \<Rightarrow> Some ((r # rs, t), b2))))"

definition batch_requests :: "nat \<Rightarrow> string \<Rightarrow> provider_tool_call list \<Rightarrow> pending_tool_request list" where
  "batch_requests round_index turn calls =
     map (\<lambda>(i, call). pending_tool_request_from_provider_call
        (''tool-request-'' @ show_nat round_index @ ''-'' @ show_nat (i + 1)) turn call) (enumerate 0 calls)"

definition flush_batch :: "tool_batch_env \<Rightarrow> tool_batch \<Rightarrow> bool \<times> tool_batch" where
  "flush_batch env b =
     (if bb_has_store (tb_bash b)
      then (case append_pending (call_env env 0) (tb_bash b) of (ok, x) \<Rightarrow> (ok, b\<lparr>tb_bash := x\<rparr>))
      else (True, b))"

definition execute_native_provider_agent_tool_batch ::
  "tool_batch_env \<Rightarrow> nat \<Rightarrow> provider_tool_call list \<Rightarrow> tool_batch \<Rightarrow> (batch_outcome \<times> tool_batch) option" where
  "execute_native_provider_agent_tool_batch env round_index calls b =
     (let reqs = batch_requests round_index (bb_turn_id (tb_bash b)) calls;
          stopped = (\<lambda>e why. case stop_calls env why reqs b of (rs, b1) \<Rightarrow> Some ((rs, Some e), snd (flush_batch env b1)))
      in if te_cancelled_at_start env
         then stopped (RoundCancelled ''native provider prompt cancelled'') (RoundCancelled ''native provider prompt cancelled'')
         else (case begin_tool_round (length reqs) (tb_budget b) of
             Inl e \<Rightarrow> stopped e (RoundCancelled ''tool batch stopped'')
           | Inr budget \<Rightarrow>
               (case run_calls env 0 reqs (b\<lparr>tb_budget := budget\<rparr>) of
                  None \<Rightarrow> None
                | Some ((rs, t), b1) \<Rightarrow>
                    (case flush_batch env b1 of
                       (ok, b2) \<Rightarrow> Some ((rs, if \<not> ok \<and> t = None then Some (ToolContinuation ''tool_event_persist_failed'')
                           else t), b2)))))"

end
