(* ===== verification/Tool_Handler_Properties.thy ===== *)
theory Tool_Handler_Properties
  imports Tool_Batch
begin

text \<open>
  The contract of the handlers of tool calls: a result carries the ids of its call, the log of
  the turn only grows, the budget stays within its bounds and the only panic is that of a bad
  timeout configuration. The relation is proved step by step through the bash handler and the
  edit handler, stated as the locale \<open>tool_handler\<close> and interpreted on the dispatcher.
\<close>

section \<open>Steps that keep a relation between states\<close>

text \<open>
  A step keeps a relation when every run of it does, its value satisfies \<open>P\<close> and its error, with
  the state it ends in, \<open>E\<close>.
\<close>

definition keeps ::
  "('s \<Rightarrow> 's \<Rightarrow> bool) \<Rightarrow> ('e \<Rightarrow> 's \<Rightarrow> bool) \<Rightarrow> ('a \<Rightarrow> bool) \<Rightarrow> ('s \<Rightarrow> ('e, 'a) result \<times> 's) \<Rightarrow> bool" where
  "keeps rel E P m \<longleftrightarrow> (\<forall>s r s'. m s = (r, s') \<longrightarrow> rel s s' \<and> (\<forall>x. r = Inr x \<longrightarrow> P x) \<and> (\<forall>e. r = Inl e \<longrightarrow> E e s'))"

lemma keepsD:
  "keeps rel E P m \<Longrightarrow> m s = (r, s') \<Longrightarrow> rel s s'" "keeps rel E P m \<Longrightarrow> m s = (Inr x, s') \<Longrightarrow> P x"
  "keeps rel E P m \<Longrightarrow> m s = (Inl e, s') \<Longrightarrow> E e s'"
  by (auto simp: keeps_def)

lemma keeps_weaken: "keeps rel E P m \<Longrightarrow> (\<And>x. P x \<Longrightarrow> Q x) \<Longrightarrow> keeps rel E Q m"
  by (auto simp: keeps_def)

lemma keeps_at: "(\<And>s. keeps rel E P (f s)) \<Longrightarrow> keeps rel E P (\<lambda>s. f s s)"
  by (simp add: keeps_def)

text \<open>The laws a relation needs for sequences of steps to keep it.\<close>

locale step_relation =
  fixes rel :: "'s \<Rightarrow> 's \<Rightarrow> bool"
  assumes rel_refl: "rel s s" and rel_trans: "rel s t \<Longrightarrow> rel t u \<Longrightarrow> rel s u"
begin

lemma keeps_sequence:
  assumes "keeps rel E Q m" "\<And>x. Q x \<Longrightarrow> keeps rel E P (f x)"
  shows "keeps rel E P (\<lambda>s. case m s of (Inl e, s') \<Rightarrow> (Inl e, s') | (Inr x, s') \<Rightarrow> f x s')"
proof (unfold keeps_def, intro allI impI)
  fix s r s'
  assume run: "(case m s of (Inl e, s') \<Rightarrow> (Inl e, s') | (Inr x, s') \<Rightarrow> f x s') = (r, s')"
  obtain r1 s1 where m: "m s = (r1, s1)" by fastforce
  then have s1: "rel s s1" by (rule keepsD(1) [OF assms(1)])
  show "rel s s' \<and> (\<forall>x. r = Inr x \<longrightarrow> P x) \<and> (\<forall>e. r = Inl e \<longrightarrow> E e s')"
  proof (cases r1)
    case (Inl e)
    then show ?thesis using run m s1 assms(1) by (auto simp: keeps_def)
  next
    case (Inr x)
    then have "Q x" "f x s1 = (r, s')" using m run assms(1) by (auto simp: keeps_def)
    then show ?thesis using assms(2) s1 rel_trans unfolding keeps_def by blast
  qed
qed

lemma keeps_pure: "(\<And>x. r = Inr x \<Longrightarrow> P x) \<Longrightarrow> (\<And>e s. r = Inl e \<Longrightarrow> E e s) \<Longrightarrow> keeps rel E P (\<lambda>s. (r, s))"
  using rel_refl by (auto simp: keeps_def)

lemma keeps_update: "(\<And>s. rel s (f s)) \<Longrightarrow> P x \<Longrightarrow> keeps rel E P (\<lambda>s. (Inr x, f s))"
  by (auto simp: keeps_def)

lemma keeps_after: "(\<And>s. rel s (g s)) \<Longrightarrow> keeps rel E P m \<Longrightarrow> keeps rel E P (\<lambda>s. m (g s))"
  using rel_trans unfolding keeps_def by blast

end

section \<open>The bash handler\<close>

definition bash_extends :: "bash_batch \<Rightarrow> bash_batch \<Rightarrow> bool" where
  "bash_extends b b' \<longleftrightarrow> prefix (bb_log b) (bb_log b') \<and> bb_session_id b' = bb_session_id b \<and> bb_turn_id b' = bb_turn_id b
     \<and> bb_shell_policy b' = bb_shell_policy b"

interpretation bash_steps: step_relation bash_extends
  by unfold_locales (auto simp: bash_extends_def)

text \<open>The only panic is that of \<open>clamp\<close>, on a configured maximum below the minimum.\<close>

definition bash_error :: "provider_round_error \<Rightarrow> bash_batch \<Rightarrow> bool" where
  "bash_error e b \<longleftrightarrow> (e = RoundPanicked \<longrightarrow> max_timeout_ms (config (bb_shell_policy b)) < SHELL_MIN_TIMEOUT_MS)"

abbreviation bash_keeps :: "('a \<Rightarrow> bool) \<Rightarrow> 'a bash_step \<Rightarrow> bool" where
  "bash_keeps \<equiv> keeps bash_extends bash_error"

lemma bash_error_simps [simp]: "bash_error (ToolContinuation l) b" "bash_error (RoundCancelled l) b"
  "bash_error (ToolExecutionDenied i n why) b"
  by (simp_all add: bash_error_def)

text \<open>A result with the ids of its call, which the budget allows when it is a completed one.\<close>

definition bash_answers :: "bash_env \<Rightarrow> bash_request \<Rightarrow> provider_tool_result \<Rightarrow> bool" where
  "bash_answers env req r \<longleftrightarrow> ptr_request_id r = br_request_id req \<and> ptr_provider_call_id r = br_provider_call_id req
     \<and> (ptr_status r = Completed \<longrightarrow> be_budget env (ptr_byte_count r) = None)"

lemma bash_bind_kept:
  "bash_keeps Q m \<Longrightarrow> (\<And>x. Q x \<Longrightarrow> bash_keeps P (f x)) \<Longrightarrow> bash_keeps P (bash_bind m f)"
  using bash_steps.keeps_sequence [of bash_error Q m P f] by (simp add: bash_bind_def [abs_def])

lemma bash_return_kept: "P x \<Longrightarrow> bash_keeps P (bash_return x)"
  using bash_steps.keeps_pure [of "Inr x" P bash_error] by (simp add: bash_return_def [abs_def])

lemma bash_fail_kept: "(\<And>b. bash_error e b) \<Longrightarrow> bash_keeps P (bash_fail e)"
  by (simp add: keeps_def bash_fail_def bash_steps.rel_refl)

lemma bash_modify_kept: "(\<And>b. bash_extends b (f b)) \<Longrightarrow> P () \<Longrightarrow> bash_keeps P (bash_modify f)"
  using bash_steps.keeps_update [of f P "()" bash_error] by (simp add: bash_modify_def [abs_def])

lemma append_pending_extends [simp]: "bash_extends b (snd (append_pending env b))"
  by (simp add: append_pending_def bash_extends_def)

lemma send_ui_extends [simp]: "bash_extends b (snd (send_ui env m b))"
  by (simp add: send_ui_def bash_extends_def)

lemma push_event_extends: "bash_extends b (push_native_session_event e b)"
  by (simp add: push_native_session_event_def bash_extends_def)

lemma persist_event_kept: "P () \<Longrightarrow> bash_keeps P (persist_tool_review_event env e)"
proof (unfold keeps_def, intro allI impI)
  fix b r b'
  assume p: "P ()" and run: "persist_tool_review_event env e b = (r, b')"
  let ?b1 = "push_native_session_event e b"
  let ?b2 = "snd (if bb_has_store ?b1 then append_pending env ?b1 else (True, ?b1))"
  have "bash_extends ?b1 ?b2" using bash_steps.rel_refl by simp
  then have b2: "bash_extends b ?b2" using push_event_extends bash_steps.rel_trans by blast
  have "b' = ?b2 \<or> (\<exists>m. b' = snd (send_ui env m ?b2))"
    using run by (auto simp: persist_tool_review_event_def Let_def case_prod_beta split: if_splits option.splits)
  then have "bash_extends ?b2 b'" using bash_steps.rel_refl send_ui_extends by metis
  moreover have "bash_error x b'" if "r = Inl x" for x
    using run that by (auto simp: persist_tool_review_event_def Let_def case_prod_beta split: if_splits option.splits)
  ultimately show "bash_extends b b' \<and> (\<forall>x. r = Inr x \<longrightarrow> P x) \<and> (\<forall>e. r = Inl e \<longrightarrow> bash_error e b')"
    using b2 bash_steps.rel_trans p by auto
qed

lemma finished_event_extends: "bash_extends b (record_native_bash_finished_event timing rid outcome reason r b)"
  by (simp add: record_native_bash_finished_event_def push_event_extends)

lemma finish_failed_kept: "bash_keeps (bash_answers env req) (finish_failed timing req reason guidance)"
  by (auto simp: keeps_def finish_failed_def Let_def finished_event_extends bash_answers_def failed_tool_result_def)

definition answers_some :: "bash_env \<Rightarrow> bash_request \<Rightarrow> provider_tool_result option \<Rightarrow> bool" where
  "answers_some env req r = (case r of Some x \<Rightarrow> bash_answers env req x | None \<Rightarrow> True)"

lemma answers_some_simps [simp]: "answers_some env req (Some x) = bash_answers env req x" "answers_some env req None"
  by (simp_all add: answers_some_def)

lemma wrap_some_kept:
  "bash_keeps (bash_answers env req) m \<Longrightarrow> bash_keeps (answers_some env req) (bash_bind m (\<lambda>r. bash_return (Some r)))"
  by (rule bash_bind_kept [where Q = "bash_answers env req"]) (simp_all add: bash_return_kept)

abbreviation anything :: "'a \<Rightarrow> bool" where
  "anything \<equiv> \<lambda>_. True"

lemma persist_decision_kept: "bash_keeps anything (persist_shell_permission_decision env req d)"
  unfolding persist_shell_permission_decision_def Let_def
  by (rule keeps_at) (rule bash_bind_kept [where Q = anything], simp_all add: persist_event_kept bash_return_kept)

lemma persist_resolution_kept: "bash_keeps anything (persist_shell_review_resolution env s decision)"
  unfolding persist_shell_review_resolution_def Let_def
  by (rule keeps_at, rule bash_steps.keeps_after) (simp_all add: bash_extends_def persist_event_kept)

lemma handoff_kept: "bash_keeps (bash_answers env req) (human_performs_handoff env req s)"
  unfolding human_performs_handoff_def
  by (rule keeps_at) (rule bash_bind_kept [where Q = anything], simp_all add: persist_event_kept finish_failed_kept)

lemma grant_extends [simp]: "bash_extends b (grant cmd cwd b)" "bash_extends b b"
  by (simp_all add: bash_extends_def grant_def)

lemma command_wait_error: "wait_for_command_review_decision input rid review did = Inl e \<Longrightarrow> bash_error e b"
  by (auto simp: wait_for_command_review_decision_def split: review_input.splits if_splits)

lemma ask_user_kept: "bash_keeps (answers_some env req) (ask_user env req prepared s did origin)"
proof -
  have send: "bash_keeps anything (\<lambda>b. case send_ui env m b of (ok, b') \<Rightarrow> (Inr ok, b'))" for m
    by (auto simp: keeps_def send_ui_def bash_extends_def split: if_splits)
  have modify: "bash_keeps anything (bash_modify f)" if "\<And>b. bash_extends b (f b)" for f
    using that by (rule bash_modify_kept) simp
  show ?thesis
    unfolding ask_user_def Let_def case_prod_beta [of _ "next_command_review_id n" for n]
    by (rule keeps_at, intro bash_bind_kept [where Q = anything] modify persist_event_kept send)
      (auto simp: bash_extends_def grant_def split: sum.splits
        intro!: bash_bind_kept [where Q = anything] persist_event_kept persist_resolution_kept wrap_some_kept
          finish_failed_kept bash_return_kept bash_fail_kept modify dest: command_wait_error)
qed

lemma review_command_kept: "bash_keeps anything (review_command env renv co req prepared)"
  by (auto simp: keeps_def review_command_def Let_def split: user_message_evidence.splits if_splits)

lemma handle_route_kept: "bash_keeps (answers_some env req) (handle_route env req prepared s did rows route)"
  unfolding handle_route_def
  by (auto split: review_route.split shell_hold_disposition.split intro!: wrap_some_kept finish_failed_kept handoff_kept ask_user_kept bash_return_kept)

lemma route_to_reviewer_kept: "bash_keeps (answers_some env req) (route_to_reviewer env req prepared s did)"
proof -
  have "bash_keeps (answers_some env req) (\<lambda>b. case co of
      None \<Rightarrow> bash_bind (finish_failed no_timing req reason guidance) (\<lambda>r. bash_return (Some r)) b
    | Some (renv, c) \<Rightarrow> bash_bind (review_command env renv c req prepared) (handle_route env req prepared s did rows) b)"
    for co rows reason guidance
    by (cases co) (auto intro!: wrap_some_kept finish_failed_kept
        bash_bind_kept [where Q = anything] review_command_kept handle_route_kept)
  then show ?thesis unfolding route_to_reviewer_def by (rule keeps_at)
qed

lemma authorize_kept: "bash_keeps (answers_some env req) (authorize_command env req prepared d s)"
proof -
  have "bash_keeps (answers_some env req) (\<lambda>b. if \<not> bb_structured_review_rows b
      then bash_bind (finish_failed no_timing req reason guidance) (\<lambda>r. bash_return (Some r)) b
      else ask_user env req prepared s did None b)" for reason guidance did
    using wrap_some_kept [OF finish_failed_kept] ask_user_kept unfolding keeps_def by (metis (no_types, lifting))
  then show ?thesis
    unfolding authorize_command_def
    by (auto split: permission_decision.split intro!: wrap_some_kept finish_failed_kept handoff_kept route_to_reviewer_kept bash_return_kept)
qed

lemma deny_kept: "bash_keeps (bash_answers env req) (deny_and_finish env req reason guidance)"
  unfolding deny_and_finish_def Let_def case_prod_beta
  by (rule keeps_at, intro bash_bind_kept [where Q = anything] bash_modify_kept persist_decision_kept finish_failed_kept)
    (simp_all add: bash_extends_def)

lemma flush_kept:
  "bash_keeps anything (\<lambda>b. if bb_has_store b then (case append_pending env b of (ok, b') \<Rightarrow>
     (if ok then Inr () else Inl (ToolContinuation reason), b')) else (Inr (), b))"
  by (auto simp: keeps_def append_pending_def bash_extends_def split: if_splits)

abbreviation budget_errors :: "bash_env \<Rightarrow> bool" where
  "budget_errors env \<equiv> \<forall>n. be_budget env n \<noteq> Some RoundPanicked"

lemma run_command_kept: "budget_errors env \<Longrightarrow> bash_keeps (bash_answers env req) (run_command env req prepared)"
proof -
  assume budget: "budget_errors env"
  have modify: "bash_keeps anything (bash_modify f)" if "\<And>b. bash_extends b (f b)" for f
    using that by (rule bash_modify_kept) simp
  have ran: "bash_extends b (b\<lparr>bb_effects := x\<rparr>)" for b x by (simp add: bash_extends_def)
  have done_ids: "bash_answers env req (completed_result req out)" if "be_budget env (ptr_byte_count (completed_result req out)) = None" for out
    using that by (simp add: bash_answers_def completed_result_def Let_def)
  have failure: "bash_keeps P (bash_fail e)" if "be_budget env n = Some e" for e n P
    using budget that by (intro bash_fail_kept) (auto simp: bash_error_def)
  have cancelled: "bash_keeps P (bash_fail (RoundCancelled l))" for P l by (rule bash_fail_kept) simp
  show ?thesis
    unfolding run_command_def Let_def
    by (intro bash_bind_kept [where Q = anything] modify ran)
      (auto split: run_end.splits sum.splits command_spawn_error.splits option.splits
        intro!: bash_bind_kept [where Q = anything] modify finished_event_extends finish_failed_kept flush_kept bash_return_kept
          cancelled done_ids failure)
qed

lemma decide_and_run_kept: "budget_errors env \<Longrightarrow> bash_keeps (bash_answers env req) (decide_and_run env req prepared)"
proof -
  assume budget: "budget_errors env"
  have cont: "bash_keeps (bash_answers env req) (case x of Some r \<Rightarrow> bash_return r | None \<Rightarrow> run_command env req prepared)"
    if "answers_some env req x" for x
    using that budget by (auto split: option.splits intro: bash_return_kept run_command_kept)
  show ?thesis
    unfolding decide_and_run_def Let_def case_prod_beta
    by (rule keeps_at, intro bash_bind_kept [where Q = anything] bash_modify_kept persist_decision_kept
        bash_bind_kept [OF authorize_kept cont]) (simp_all add: bash_extends_def)
qed

lemma execute_bash_kept:
  assumes budget: "budget_errors env"
  shows "bash_keeps (bash_answers env req) (execute_bash env req)"
proof (unfold keeps_def, intro allI impI)
  fix b0 r b'
  assume run: "execute_bash env req b0 = (r, b')"
  obtain valid events where v: "be_validation env = (valid, events)" by fastforce
  let ?b = "b0\<lparr>bb_log := bb_log b0 @ events, bb_pending := bb_pending b0 @ events\<rparr>"
  let ?kept = "\<lambda>b r b'. bash_extends b b' \<and> (\<forall>x. r = Inr x \<longrightarrow> bash_answers env req x) \<and> (\<forall>e. r = Inl e \<longrightarrow> bash_error e b')"
  have panic: "bash_error RoundPanicked b" if "prepare_command env (bb_shell_policy b) req cwd = None" for b cwd
    using that by (auto simp: bash_error_def prepare_command_def clamp_timeout_ms_def rust_clamp_def split: if_splits)
  have "?kept ?b r b'"
    using run unfolding execute_bash_def Let_def v prod.case
    by (auto simp: panic bash_steps.rel_refl split: if_splits option.splits
        dest: keepsD [OF deny_kept] keepsD [OF decide_and_run_kept [OF budget]])
  moreover have "bash_extends b0 ?b" by (simp add: bash_extends_def)
  ultimately show "?kept b0 r b'" using bash_steps.rel_trans by blast
qed

section \<open>The other handlers\<close>

definition budget_ok :: "tool_loop_budget \<Rightarrow> bool" where
  "budget_ok budget \<longleftrightarrow> lb_total_result_bytes budget \<le> lp_max_total_result_bytes (lb_policy budget)
     \<and> lb_total_tool_calls budget \<le> lp_max_total_tool_calls (lb_policy budget)"

definition batch_extends :: "tool_batch \<Rightarrow> tool_batch \<Rightarrow> bool" where
  "batch_extends b b' \<longleftrightarrow> bash_extends (tb_bash b) (tb_bash b') \<and> lb_policy (tb_budget b') = lb_policy (tb_budget b)
     \<and> lb_total_tool_calls (tb_budget b') = lb_total_tool_calls (tb_budget b)
     \<and> (budget_ok (tb_budget b) \<longrightarrow> budget_ok (tb_budget b'))"

interpretation tool_steps: step_relation batch_extends
  by unfold_locales (auto simp: batch_extends_def intro: bash_steps.rel_trans)

abbreviation batch_error :: "provider_round_error \<Rightarrow> tool_batch \<Rightarrow> bool" where
  "batch_error e b \<equiv> bash_error e (tb_bash b)"

abbreviation batch_keeps :: "('a \<Rightarrow> bool) \<Rightarrow> 'a tool_step \<Rightarrow> bool" where
  "batch_keeps \<equiv> keeps batch_extends batch_error"

definition answers :: "pending_tool_request \<Rightarrow> provider_tool_result \<Rightarrow> bool" where
  "answers req r \<longleftrightarrow> ptr_request_id r = tr_request_id req \<and> ptr_provider_call_id r = tr_provider_call_id req"

lemma tool_bind_kept:
  "batch_keeps Q m \<Longrightarrow> (\<And>x. Q x \<Longrightarrow> batch_keeps P (f x)) \<Longrightarrow> batch_keeps P (tool_bind m f)"
  using tool_steps.keeps_sequence [of batch_error Q m P f] by (simp add: tool_bind_def [abs_def])

lemma tool_return_kept: "P x \<Longrightarrow> batch_keeps P (tool_return x)"
  using tool_steps.keeps_pure [of "Inr x" P batch_error] by (simp add: tool_return_def [abs_def])

lemma tool_fail_kept: "(\<And>b. batch_error e b) \<Longrightarrow> batch_keeps P (tool_fail e)"
  by (simp add: keeps_def tool_fail_def tool_steps.rel_refl)

lemma tool_modify_kept: "(\<And>b. batch_extends b (f b)) \<Longrightarrow> batch_keeps anything (tool_modify f)"
  using tool_steps.keeps_update [of f anything "()" batch_error] by (simp add: tool_modify_def [abs_def])

lemma lift_bash_kept: "bash_keeps P m \<Longrightarrow> batch_keeps P (lift_bash m)"
  by (auto simp: keeps_def lift_bash_def batch_extends_def split: prod.splits)

lemma lift_edit_kept: "(\<And>st r st'. f st = (r, st') \<Longrightarrow> P r) \<Longrightarrow> batch_keeps P (lift_edit f)"
  by (fastforce simp: keeps_def lift_edit_def batch_extends_def bash_extends_def Let_def split: prod.splits)

lemma drain_extends: "batch_extends b (drain_edit_sink_events b)"
  by (simp add: drain_edit_sink_events_def batch_extends_def bash_extends_def Let_def)

lemma edit_then_drain_kept:
  assumes "\<And>st x st'. f st = (Inr x, st') \<Longrightarrow> P x"
  shows "batch_keeps P (edit_then_drain f)"
proof -
  have "batch_keeps (\<lambda>r. \<forall>x. r = Inr x \<longrightarrow> P x) (lift_edit f)"
    using assms by (intro lift_edit_kept) blast
  then show ?thesis
    unfolding edit_then_drain_def
    by (rule tool_bind_kept) (auto intro!: tool_bind_kept [where Q = anything] tool_modify_kept drain_extends tool_fail_kept
        tool_return_kept split: sum.splits)
qed

lemma push_trace_kept: "batch_keeps anything (push_edit_trace t)"
  unfolding push_edit_trace_def by (intro tool_modify_kept) (simp add: batch_extends_def)

lemma record_tool_result_kept:
  "record_tool_result rid bytes budget = Inr budget' \<Longrightarrow> lb_policy budget' = lb_policy budget
     \<and> lb_total_tool_calls budget' = lb_total_tool_calls budget \<and> (budget_ok budget \<longrightarrow> budget_ok budget')"
  by (auto simp: record_tool_result_def Let_def budget_ok_def split: if_splits)

lemma budget_failure_no_panic:
  "record_tool_result rid bytes budget = Inl e \<Longrightarrow> fst (provider_tool_batch_result_budget_failure e) \<noteq> RoundPanicked"
  by (auto simp: record_tool_result_def provider_tool_batch_result_budget_failure_def Let_def split: if_splits)

lemma budget_failure_error:
  "record_tool_result rid bytes budget = Inl e \<Longrightarrow> provider_tool_batch_result_budget_failure e = (e', why) \<Longrightarrow> bash_error e' b"
  using budget_failure_no_panic by (force simp: bash_error_def)

lemma charged_kept: "answers req r \<Longrightarrow> batch_keeps (answers req) (charged r)"
proof -
  have "batch_keeps anything (charge rid bytes)" for rid bytes
    by (auto simp: keeps_def charge_def batch_extends_def record_tool_result_kept bash_error_def budget_failure_no_panic split: sum.splits)
  then show "answers req r \<Longrightarrow> ?thesis"
    unfolding charged_def by (rule tool_bind_kept) (rule tool_return_kept)
qed

lemma interrupt_edit_kept: "(\<And>b. batch_error e b) \<Longrightarrow> batch_keeps P (interrupt_edit rid reason timing e)"
  unfolding interrupt_edit_def
  by (rule tool_bind_kept, rule tool_modify_kept)
    (simp_all add: record_interrupted_prepared_edit_def batch_extends_def push_event_extends tool_fail_kept)

lemma persist_pending_kept: "batch_keeps anything (persist_pending env i)"
  by (auto simp: keeps_def persist_pending_def append_pending_def batch_extends_def bash_extends_def split: if_splits)

definition reviews :: "pending_tool_request \<Rightarrow> pending_agent_edit_tool_review \<Rightarrow> bool" where
  "reviews req pend \<longleftrightarrow> pr_request_id pend = tr_request_id req \<and> Some (pr_provider_call_id pend) = tr_provider_call_id req"

lemma applied_answers: "reviews req pend \<Longrightarrow> apply_agent_edit_tool_review env pend fr prior st = (Inr x, st') \<Longrightarrow> answers req x"
  by (erule apply_review_cases) (auto simp: reviews_def answers_def)

lemma close_rejected_answers: "reviews req pend \<Longrightarrow> close_rejected env pend outcome reason content prior events st = (Inr x, st') \<Longrightarrow> answers req x"
  by (auto simp: close_rejected_def Let_def reviews_def answers_def provider_result_def result_simps split: prod.splits)

lemma rejected_answers:
  "reviews req pend \<Longrightarrow> reject_agent_edit_tool_review env pend prior st = (Inr x, st') \<Longrightarrow> answers req x"
  "reviews req pend \<Longrightarrow> reject_agent_edit_tool_review_for_human_performs env pend prior st = (Inr x, st') \<Longrightarrow> answers req x"
  by (auto simp: reject_agent_edit_tool_review_def reject_agent_edit_tool_review_for_human_performs_def
      split: prod.splits sum.splits dest: close_rejected_answers)

lemma hand_off_kept: "reviews req pend \<Longrightarrow> batch_keeps (answers req) (hand_off_edit env name pend prior)"
  unfolding hand_off_edit_def
  by (rule tool_bind_kept, rule edit_then_drain_kept [where P = "answers req"])
    (auto intro: rejected_answers(2) intro!: tool_bind_kept [where Q = anything] push_trace_kept charged_kept)

lemma interrupted_kept:
  "batch_keeps P (interrupt_edit rid reason timing (RoundCancelled l))" "batch_keeps P (interrupt_edit rid reason timing (ToolContinuation l))"
  by (rule interrupt_edit_kept, simp)+

lemma review_edit_kept: "batch_keeps anything (review_edit env i renv co pend p prior)"
proof -
  have "batch_keeps anything (\<lambda>b. let item = it in case ev b of
      IssuingTurnOverBudget \<Rightarrow> (Inr (Hold EvidenceOverBudget []), b)
    | EvidenceReady items om \<Rightarrow> if cancelled then interrupt_edit rid reason prior (RoundCancelled l) b else (Inr (route items om), b))"
    for it ev cancelled rid reason l route
    by (auto simp: keeps_def tool_steps.rel_refl split: user_message_evidence.splits if_splits
        dest: keepsD(1,3) [OF interrupted_kept(1)])
  then show ?thesis
    unfolding review_edit_def
    by (intro tool_bind_kept [where Q = anything] lift_edit_kept) (simp_all add: Let_def)
qed

lemma await_edit_review_kept:
  assumes "reviews req pend"
  shows "batch_keeps (answers req) (await_edit_review env i name pend p prior)"
proof -
  have persist: "batch_keeps anything (lift_bash (persist_tool_review_event benv e))" for benv e
    by (intro lift_bash_kept persist_event_kept) simp
  have send: "batch_keeps anything (lift_bash (\<lambda>x. case send_ui benv m x of (ok, x') \<Rightarrow> (Inr ok, x')))" for benv m
    by (intro lift_bash_kept) (auto simp: keeps_def send_ui_def bash_extends_def split: if_splits)
  have bump: "batch_extends b (bump_after_decision b)" for b
    by (simp add: bump_after_decision_def batch_extends_def bash_extends_def)
  have reviewed: "batch_keeps (answers req) (edit_then_drain (if reject_it
      then reject_agent_edit_tool_review (te_edit env) pend prior else apply_agent_edit_tool_review (te_edit env) pend None prior))" for reject_it
    using applied_answers [OF assms] rejected_answers(1) [OF assms] by (intro edit_then_drain_kept) (auto split: if_splits)
  have wait: "batch_keeps anything (lift_edit (record_review_wait_trace (te_edit env) pend outcome reason))" for outcome reason
    by (intro lift_edit_kept) simp
  have decided: "batch_keeps (answers req) (case decided of
        Inl e \<Rightarrow> tool_bind (lift_bash (persist_tool_review_event benv (refused e))) (\<lambda>_. interrupt_edit rid (label e) prior e)
      | Inr decision \<Rightarrow> tool_bind (lift_bash (persist_tool_review_event benv (taken decision))) (\<lambda>_.
          tool_bind (tool_modify bump_after_decision) (\<lambda>_.
          tool_bind (edit_then_drain (if decision = Reject then reject_agent_edit_tool_review (te_edit env) pend prior
              else apply_agent_edit_tool_review (te_edit env) pend None prior)) (\<lambda>r.
          tool_bind (push_edit_trace t) (\<lambda>_. charged r)))))"
    if "\<And>e b. decided = Inl e \<Longrightarrow> batch_error e b" for decided refused label taken t benv rid
    using that by (cases decided)
      (simp_all only: sum.case, rule tool_bind_kept [OF persist interrupt_edit_kept], simp,
        rule tool_bind_kept [OF persist tool_bind_kept [OF tool_modify_kept [OF bump]
          tool_bind_kept [OF reviewed tool_bind_kept [OF push_trace_kept charged_kept]]]])
  have waited: "batch_error e b" if "wait_for_agent_edit_review_decision input pend = Inl e" for input e b
    using that by (auto simp: wait_for_agent_edit_review_decision_def split: review_input.splits if_splits)
  show ?thesis
    unfolding await_edit_review_def Let_def
    by (intro tool_bind_kept [where Q = anything] persist send)
      (auto intro!: decided waited tool_bind_kept [where Q = anything] interrupted_kept persist wait tool_modify_kept drain_extends simp del: if_split)
qed

lemma ask_user_for_edit_kept:
  "reviews req pend \<Longrightarrow> batch_keeps (answers req) (ask_user_for_edit env i name pend p prior)"
  by (auto simp: keeps_def ask_user_for_edit_def split: if_splits
      dest: keepsD(1,3) [OF interrupted_kept(2)] keepsD [OF await_edit_review_kept] keepsD(2) [OF interrupted_kept(2) [where P = "\<lambda>_. False"]])

fun prepared_for :: "pending_tool_request \<Rightarrow> agent_edit_tool_prepared \<Rightarrow> bool" where
  "prepared_for req (EditToolCompleted _ r) = answers req r"
| "prepared_for req (EditToolFailed _ r) = answers req r"
| "prepared_for req (EditToolDenied _ r) = answers req r"
| "prepared_for req (EditToolNeedsReview _ rid call_id _ _ _) =
     (rid = tr_request_id req \<and> tr_provider_call_id req = Some call_id)"

context edit_tool
begin

lemma prepared_ids: "run req st = (Inr p, st') \<Longrightarrow> prepared_for req p"
  using asked [of req st "Inr p" st'] refused [of req st "Inr p" st']
  by (cases "asks req st"; cases p)
    (auto simp: edit_outcome_def refused_outcome_def Let_def result_of_def answers_def)

end

lemma finish_prepared_kept:
  assumes "prepared_for req prepared"
  shows "batch_keeps (answers req) (finish_prepared_edit_tool_request env i name prepared prior)"
proof -
  have settled: "batch_keeps (answers req) (tool_bind (push_edit_trace t) (\<lambda>_. charged r))" if "answers req r" for t r
    using that by (intro tool_bind_kept [OF push_trace_kept] charged_kept)
  show ?thesis
  proof (cases prepared)
    case (EditToolNeedsReview tid rid call_id p path op)
    have pend: "reviews req (pending_review b tid rid call_id p path op)" for b
      using assms EditToolNeedsReview by (simp add: reviews_def pending_review_def)
    have applied: "batch_keeps (answers req) (tool_bind (edit_then_drain (apply_agent_edit_tool_review (te_edit env) pend fr prior))
        (\<lambda>r. tool_bind (push_edit_trace (t r)) (\<lambda>_. charged r)))" if "reviews req pend" for pend fr t
      using applied_answers [OF that] by (intro tool_bind_kept [OF edit_then_drain_kept settled])
    have route: "batch_keeps (answers req) (tool_bind (review_edit env i renv co pend p prior) (\<lambda>route.
        case route of
          Execute \<Rightarrow> tool_bind (edit_then_drain (apply_agent_edit_tool_review (te_edit env) pend fr prior))
            (\<lambda>r. tool_bind (push_edit_trace (t r)) (\<lambda>_. charged r))
        | Hold (RestrictionApplies (HumanPerforms _ _)) _ \<Rightarrow> hand_off_edit env name pend prior
        | _ \<Rightarrow> ask_user_for_edit env i name pend p prior))" if "reviews req pend" for renv co pend fr t
      by (rule tool_bind_kept [OF review_edit_kept])
        (auto split: review_route.split hold_reason.split review_restriction.split intro!: applied hand_off_kept ask_user_for_edit_kept that)
    have "batch_extends b b' \<and> (\<forall>x. r = Inr x \<longrightarrow> answers req x) \<and> (\<forall>e. r = Inl e \<longrightarrow> batch_error e b')"
      if run: "finish_prepared_edit_tool_request env i name prepared prior b = (r, b')" for b r b'
    proof -
      note kept = hand_off_kept [OF pend [of b]] ask_user_for_edit_kept [OF pend [of b]] route [OF pend [of b]]
      show ?thesis
        using run EditToolNeedsReview kept [unfolded keeps_def]
        by (auto simp: finish_prepared_edit_tool_request_def Let_def split: if_splits option.splits)
    qed
    then show ?thesis by (simp add: keeps_def)
  qed (use assms settled in \<open>auto simp: finish_prepared_edit_tool_request_def [abs_def] keeps_def tool_steps.rel_refl\<close>)
qed

section \<open>The interface of a handler\<close>

text \<open>
  What the round relies on of every handler: a result carries the ids of its call, the log only
  grows, the budget stays within its bounds.
\<close>

locale tool_handler =
  fixes run :: "nat \<Rightarrow> pending_tool_request \<Rightarrow> provider_tool_result tool_step"
  assumes handled: "batch_keeps (answers req) (run i req)"

lemma edit_handler: "batch_keeps (answers req) (execute_native_provider_edit_tool_request env i req)"
proof -
  have "batch_keeps (answers req) (\<lambda>b. tool_bind (edit_then_drain (prepare_agent_edit_tool_request (te_edit env) (te_registry env)
      (te_root env) (agent_edit_context env i conservative b) req)) (\<lambda>prepared.
      finish_prepared_edit_tool_request env i (tr_tool_name req) prepared no_timing) b)"
    by (rule keeps_at, rule tool_bind_kept [OF edit_then_drain_kept finish_prepared_kept]) (rule builtin_edit.prepared_ids)
  then show ?thesis
    unfolding execute_native_provider_edit_tool_request_def by (intro tool_bind_kept [OF persist_pending_kept])
qed

lemma extend_events_extends: "batch_extends b (extend_tool_events events b)"
  by (simp add: extend_tool_events_def batch_extends_def bash_extends_def)

lemma extend_charged_extends:
  "record_tool_result rid bytes (tb_budget b) = Inr budget \<Longrightarrow> batch_extends b (extend_tool_events events (b\<lparr>tb_budget := budget\<rparr>))"
  by (simp add: extend_tool_events_def batch_extends_def bash_extends_def record_tool_result_kept)

lemma failed_answers:
  "answers req (failed_tool_result (bash_request_of req) reason guidance)" "answers req (sensitive_denied_tool_result req)"
  "answers req (execution_to_provider req x)"
  by (simp_all add: answers_def failed_tool_result_def bash_request_of_def sensitive_denied_tool_result_def execution_to_provider_def Let_def)

lemma readonly_handler: "batch_keeps (answers req) (execute_native_provider_readonly_tool_request env i req)"
  by (auto simp: keeps_def execute_native_provider_readonly_tool_request_def Let_def failed_answers extend_events_extends
      extend_charged_extends budget_failure_error split: prod.splits sum.splits if_splits option.splits)

lemma extension_handler: "batch_keeps (answers req) (execute_native_provider_extension_tool_request env i req name)"
proof (unfold keeps_def, intro allI impI)
  fix b r b'
  assume run: "execute_native_provider_extension_tool_request env i req name b = (r, b')"
  obtain validation recorded where v: "validate_call env req b = (validation, recorded)" by fastforce
  let ?m = "\<lambda>proposal. tool_bind (persist_pending env i) (\<lambda>_ b1.
      tool_bind (edit_then_drain (prepare_extension_edit_proposal (te_edit env) (te_root env)
          (agent_edit_context env i extension_proposal b1) req proposal (te_timing env i))) (\<lambda>prepared.
        finish_prepared_edit_tool_request env i (tr_tool_name req) prepared (te_timing env i)) b1)"
  have "batch_keeps (answers req) (\<lambda>b1. tool_bind (edit_then_drain (prepare_extension_edit_proposal (te_edit env) (te_root env)
      (agent_edit_context env i extension_proposal b1) req proposal (te_timing env i))) (\<lambda>prepared.
      finish_prepared_edit_tool_request env i (tr_tool_name req) prepared (te_timing env i)) b1)" for proposal
    by (rule keeps_at, rule tool_bind_kept [OF edit_then_drain_kept finish_prepared_kept]) (rule proposed_edit.prepared_ids)
  then have proposed: "batch_keeps (answers req) (?m proposal)" for proposal
    by (intro tool_bind_kept [OF persist_pending_kept])
  have pushed: "batch_extends b (push_tool_events events b)" for events
    by (simp add: push_tool_events_def batch_extends_def bash_extends_def)
  let ?kept = "batch_extends b b' \<and> (\<forall>x. r = Inr x \<longrightarrow> answers req x) \<and> (\<forall>e. r = Inl e \<longrightarrow> batch_error e b')"
  have "?kept" if "?m proposal (push_tool_events recorded b) = (r, b')" for proposal
    using proposed that pushed tool_steps.rel_trans unfolding keeps_def by blast
  then show ?kept
    using run v
    by (auto simp: execute_native_provider_extension_tool_request_def Let_def extend_events_extends extend_charged_extends
        execution_to_provider_def answers_def budget_failure_error
        split: prod.splits sum.splits if_splits option.splits extension_tool_execution.splits)
qed

lemma bash_handler: "batch_keeps (answers req) (run_bash env i req)"
proof (unfold keeps_def, intro allI impI)
  fix b r b'
  assume run: "run_bash env i req b = (r, b')"
  let ?start = "(tb_bash b)\<lparr>bb_root := canonical_path (te_root env)\<rparr>"
  have "\<exists>benv. budget_errors benv \<and> execute_bash benv (bash_request_of req) ?start = (r, tb_bash b')"
      and budget: "tb_budget b' = tb_budget b
        \<or> (\<exists>bytes. record_tool_result (tr_request_id req) bytes (tb_budget b) = Inr (tb_budget b'))"
    using run budget_failure_no_panic
    by (auto simp: run_bash_def Let_def split: prod.splits sum.splits if_splits intro!: exI)
  then obtain benv where benv: "budget_errors benv" and x: "execute_bash benv (bash_request_of req) ?start = (r, tb_bash b')"
    by blast
  note kept = execute_bash_kept [OF benv]
  have "bash_extends (tb_bash b) (tb_bash b')"
    using keepsD(1) [OF kept x] by (simp add: bash_extends_def)
  moreover have "answers req y" if "r = Inr y" for y
    using keepsD(2) [OF kept x [unfolded that]] by (simp add: answers_def bash_answers_def bash_request_of_def)
  moreover have "batch_error e b'" if "r = Inl e" for e
    using keepsD(3) [OF kept x [unfolded that]] .
  ultimately show "batch_extends b b' \<and> (\<forall>y. r = Inr y \<longrightarrow> answers req y) \<and> (\<forall>e. r = Inl e \<longrightarrow> batch_error e b')"
    using budget record_tool_result_kept by (auto simp: batch_extends_def)
qed

interpretation dispatched: tool_handler "dispatch_call env" for env
proof
  fix req i
  show "batch_keeps (answers req) (dispatch_call env i req)"
    using readonly_handler [of req env i] edit_handler [of req env i] bash_handler [of req env i] extension_handler [of req env i]
    by (auto simp: keeps_def dispatch_call_def extend_events_extends split: option.splits if_splits)
qed

end
