(* ===== verification/Tool_Budget.thy ===== *)
theory Tool_Budget
  imports Tool_Handler_Properties
begin

text \<open>
  What the handlers of tool calls do to the budget of the loop: a step either leaves it as it is,
  or it is the last one of a call and charges the result the call returns. The locale
  \<open>accounting_handler\<close> states this of a handler, extending what a round relies on of it, and is
  interpreted on the dispatcher; the charges are then summed over the calls of a round.
\<close>

section \<open>Steps that leave the budget alone\<close>

definition same_budget :: "tool_batch \<Rightarrow> tool_batch \<Rightarrow> bool" where
  "same_budget b b' \<longleftrightarrow> tb_budget b' = tb_budget b"

interpretation budget_steps: step_relation same_budget
  by unfold_locales (simp_all add: same_budget_def)

abbreviation unbudgeted :: "'a tool_step \<Rightarrow> bool" where
  "unbudgeted \<equiv> keeps same_budget (\<lambda>_ _. True) anything"

named_theorems unbudgeted_intros "steps that leave the budget alone"

lemma unbudgetedD: "unbudgeted m \<Longrightarrow> m b = (r, b') \<Longrightarrow> tb_budget b' = tb_budget b"
  by (simp add: keeps_def same_budget_def)

lemma unbudgeted_bind [unbudgeted_intros]: "unbudgeted m \<Longrightarrow> (\<And>x. unbudgeted (f x)) \<Longrightarrow> unbudgeted (tool_bind m f)"
  using budget_steps.keeps_sequence [of "\<lambda>_ _. True" anything m anything f] by (simp add: tool_bind_def [abs_def])

lemma unbudgeted_modify: "(\<And>b. tb_budget (f b) = tb_budget b) \<Longrightarrow> unbudgeted (tool_modify f)"
  by (simp add: keeps_def tool_modify_def same_budget_def)

lemma unbudgeted_simple [unbudgeted_intros]:
  "unbudgeted (tool_return x)" "unbudgeted (tool_fail e)" "unbudgeted (lift_bash m)" "unbudgeted (lift_edit g)"
  "unbudgeted (push_edit_trace t)" "unbudgeted (persist_pending env i)" "unbudgeted (tool_modify drain_edit_sink_events)"
  "unbudgeted (tool_modify bump_after_decision)" "unbudgeted (tool_modify (record_interrupted_prepared_edit rid reason timing))"
  by (auto simp: keeps_def same_budget_def tool_return_def tool_fail_def lift_bash_def lift_edit_def push_edit_trace_def tool_modify_def
      persist_pending_def drain_edit_sink_events_def bump_after_decision_def record_interrupted_prepared_edit_def Let_def
      split: prod.splits if_splits)

lemma unbudgeted_drain [unbudgeted_intros]: "unbudgeted (edit_then_drain f)"
  unfolding edit_then_drain_def by (intro unbudgeted_intros) (auto split: sum.splits intro: unbudgeted_intros)

lemma unbudgeted_interrupt [unbudgeted_intros]: "unbudgeted (interrupt_edit rid reason timing e)"
  unfolding interrupt_edit_def by (intro unbudgeted_intros)

lemma unbudgeted_review [unbudgeted_intros]: "unbudgeted (review_edit env i renv co pend p prior)"
proof -
  have "unbudgeted (\<lambda>b. case ev b of
      IssuingTurnOverBudget \<Rightarrow> (Inr (Hold EvidenceOverBudget []), b)
    | EvidenceReady items om \<Rightarrow> if cancelled then interrupt_edit rid reason prior (RoundCancelled l) b else (Inr (route items om), b))"
    for ev cancelled rid reason l route
    using unbudgetedD [OF unbudgeted_interrupt]
    by (auto simp: keeps_def same_budget_def split: user_message_evidence.splits if_splits)
  then show ?thesis unfolding review_edit_def by (intro unbudgeted_intros) (simp_all add: Let_def)
qed

section \<open>Steps that end a call\<close>

text \<open>A result is charged in full, or it is not a completed one and nothing is charged for it.\<close>

definition charged_for :: "provider_tool_result \<Rightarrow> tool_loop_budget \<Rightarrow> tool_loop_budget \<Rightarrow> bool" where
  "charged_for x u u' \<longleftrightarrow> record_tool_result (ptr_request_id x) (ptr_byte_count x) u = Inr u'
     \<or> ptr_status x \<noteq> Completed \<and> u' = u"

definition call_closed :: "tool_loop_budget \<Rightarrow> (provider_round_error, provider_tool_result) result \<times> tool_batch \<Rightarrow> bool" where
  "call_closed u out = (case fst out of
     Inl e \<Rightarrow> tb_budget (snd out) = u
   | Inr x \<Rightarrow> charged_for x u (tb_budget (snd out)))"

lemma call_closed_simps [simp]:
  "call_closed u (Inl e, b) \<longleftrightarrow> tb_budget b = u" "call_closed u (Inr x, b) \<longleftrightarrow> charged_for x u (tb_budget b)"
  by (simp_all add: call_closed_def)

definition accounts :: "provider_tool_result tool_step \<Rightarrow> bool" where
  "accounts m \<longleftrightarrow> (\<forall>b. call_closed (tb_budget b) (m b))"

named_theorems accounts_intros "steps that charge the result they return"

lemma accountsI: "(\<And>b. call_closed (tb_budget b) (m b)) \<Longrightarrow> accounts m"
  by (simp add: accounts_def)

lemma accountsD: "accounts m \<Longrightarrow> call_closed (tb_budget b) (m b)"
  by (simp add: accounts_def)

lemma accounts_at: "(\<And>b. accounts (f b)) \<Longrightarrow> accounts (\<lambda>b. f b b)"
  by (simp add: accounts_def)

lemma accounts_bind [accounts_intros]:
  assumes "unbudgeted m" "\<And>x. accounts (f x)"
  shows "accounts (tool_bind m f)"
proof (rule accountsI)
  fix b
  obtain r b1 where m: "m b = (r, b1)" by fastforce
  note b1 = unbudgetedD [OF assms(1) m]
  then show "call_closed (tb_budget b) (tool_bind m f b)"
    using m accountsD [OF assms(2), of b1] by (cases r) (simp_all add: tool_bind_def)
qed

lemma accounts_charged [accounts_intros]: "accounts (charged r)"
  by (auto intro!: accountsI simp: charged_def charge_def tool_bind_def tool_return_def charged_for_def split: sum.splits)

lemma accounts_interrupt [accounts_intros]: "accounts (interrupt_edit rid reason timing e)"
  unfolding interrupt_edit_def by (intro accounts_intros unbudgeted_intros) (simp add: accounts_def tool_fail_def)

lemma accounts_hand_off [accounts_intros]: "accounts (hand_off_edit env name pend prior)"
  unfolding hand_off_edit_def by (intro accounts_intros unbudgeted_intros)

lemma accounts_await [accounts_intros]: "accounts (await_edit_review env i name pend p prior)"
  unfolding await_edit_review_def Let_def
  by (auto split: sum.split intro!: accounts_intros unbudgeted_intros simp del: if_split)

lemma accounts_ask [accounts_intros]: "accounts (ask_user_for_edit env i name pend p prior)"
  using accountsD [OF accounts_interrupt] accountsD [OF accounts_await] by (auto intro!: accountsI simp: ask_user_for_edit_def)

lemma accounts_settle [accounts_intros]: "accounts (finish_prepared_edit_tool_request env i name prepared prior)"
proof -
  have settled: "accounts (tool_bind (push_edit_trace t) (\<lambda>_. charged r))" for t r
    by (intro accounts_intros unbudgeted_intros)
  have route: "accounts (tool_bind (review_edit env i renv co pend p prior) (\<lambda>route.
      case route of
        Execute \<Rightarrow> tool_bind (edit_then_drain (apply_agent_edit_tool_review (te_edit env) pend fr prior))
          (\<lambda>r. tool_bind (push_edit_trace (t r)) (\<lambda>_. charged r))
      | Hold (RestrictionApplies (HumanPerforms _ _)) _ \<Rightarrow> hand_off_edit env name pend prior
      | _ \<Rightarrow> ask_user_for_edit env i name pend p prior))" for renv co pend p fr t
    by (rule accounts_bind [OF unbudgeted_review])
      (auto split: review_route.split hold_reason.split review_restriction.split intro!: accounts_intros unbudgeted_intros)
  show ?thesis
  proof (rule accountsI)
    fix b
    note closed = accountsD [OF settled] accountsD [OF accounts_hand_off] accountsD [OF accounts_ask] accountsD [OF route]
    show "call_closed (tb_budget b) (finish_prepared_edit_tool_request env i name prepared prior b)"
      unfolding finish_prepared_edit_tool_request_def Let_def
      by (cases prepared; simp only: agent_edit_tool_prepared.case closed call_closed_simps)
        (simp add: closed split: option.split)
  qed
qed

section \<open>The handlers\<close>

lemma accounts_edit: "accounts (execute_native_provider_edit_tool_request env i req)"
  unfolding execute_native_provider_edit_tool_request_def
  by (rule accounts_bind [OF unbudgeted_simple(6)], rule accounts_at) (intro accounts_intros unbudgeted_intros)

lemma events_keep_budget [simp]:
  "tb_budget (extend_tool_events events b) = tb_budget b" "tb_budget (push_tool_events events b) = tb_budget b"
  by (simp_all add: extend_tool_events_def push_tool_events_def)

lemma failed_uncharged: "ptr_status x = Failed \<Longrightarrow> charged_for x u u"
  by (simp add: charged_for_def)

lemma failed_results [simp]:
  "ptr_status (failed_tool_result req reason guidance) = Failed" "ptr_status (sensitive_denied_tool_result treq) = Failed"
  by (simp_all add: failed_tool_result_def sensitive_denied_tool_result_def Let_def)

lemma executed_charged:
  assumes "record_tool_result (tr_request_id req) (te_byte_count x) u = Inr u'"
  shows "charged_for (execution_to_provider req x) u u'"
    "charged_for ((execution_to_provider req x)\<lparr>ptr_status := status, ptr_reason := reason\<rparr>) u u'"
  using assms by (simp_all add: charged_for_def execution_to_provider_def)

lemma accounts_readonly: "accounts (execute_native_provider_readonly_tool_request env i req)"
  by (rule accountsI) (auto simp: execute_native_provider_readonly_tool_request_def Let_def failed_uncharged executed_charged
      split: prod.split sum.split option.split)

lemma accounts_extension: "accounts (execute_native_provider_extension_tool_request env i req name)"
proof (rule accountsI)
  fix b
  have "accounts (tool_bind (persist_pending env i) (\<lambda>_ b1.
      tool_bind (edit_then_drain (prepare_extension_edit_proposal (te_edit env) (te_root env)
          (agent_edit_context env i extension_proposal b1) req proposal timing)) (\<lambda>prepared.
        finish_prepared_edit_tool_request env i (tr_tool_name req) prepared timing) b1))" for proposal timing
    by (rule accounts_bind [OF unbudgeted_simple(6)], rule accounts_at) (intro accounts_intros unbudgeted_intros)
  from accountsD [OF this, of "push_tool_events events b" for events, simplified]
  show "call_closed (tb_budget b) (execute_native_provider_extension_tool_request env i req name b)"
    by (simp add: execute_native_provider_extension_tool_request_def Let_def executed_charged
        split: prod.split sum.split option.split extension_tool_execution.split)
qed

text \<open>The bash handler charges what it completed, and completes only what the budget allows.\<close>

lemma accounts_bash: "accounts (run_bash env i req)"
proof (rule accountsI)
  fix b
  obtain validation recorded where v: "validate_call env req b = (validation, recorded)" by fastforce
  define benv where "benv = (call_env env i)\<lparr>be_validation := (case validation of Inr _ \<Rightarrow> True | Inl _ \<Rightarrow> False, recorded),
      be_tree := nodes (batch_fs b),
      be_budget := (\<lambda>bytes. case record_tool_result (tr_request_id req) bytes (tb_budget b) of
         Inl e \<Rightarrow> Some (fst (provider_tool_batch_result_budget_failure e)) | Inr _ \<Rightarrow> None)\<rparr>"
  obtain r x where run: "execute_bash benv (bash_request_of req) ((tb_bash b)\<lparr>bb_root := canonical_path (te_root env)\<rparr>) = (r, x)"
    by fastforce
  have errors: "budget_errors benv" using budget_failure_no_panic by (auto simp: benv_def split: sum.splits)
  have "charged_for y (tb_budget b) (case record_tool_result (tr_request_id req) (ptr_byte_count y) (tb_budget b) of
      Inr budget \<Rightarrow> budget | Inl _ \<Rightarrow> tb_budget b)" if "r = Inr y" "ptr_status y = Completed" for y
    using keepsD(2) [OF execute_bash_kept [OF errors] run [unfolded that]] that(2)
    by (auto simp: bash_answers_def bash_request_of_def benv_def charged_for_def split: sum.splits)
  then show "call_closed (tb_budget b) (run_bash env i req b)"
    using run unfolding run_bash_def v Let_def prod.case benv_def [symmetric]
    by (cases r) (auto simp: charged_for_def)
qed

section \<open>The interface of a handler\<close>

locale accounting_handler = tool_handler +
  assumes accounting: "accounts (run i req)"
begin

lemma result_charged: "run i req b = (Inr x, b') \<Longrightarrow> charged_for x (tb_budget b) (tb_budget b')"
  using accountsD [OF accounting, of b i req] by simp

lemma error_uncharged: "run i req b = (Inl e, b') \<Longrightarrow> tb_budget b' = tb_budget b"
  using accountsD [OF accounting, of b i req] by simp

end

interpretation dispatched_budget: accounting_handler "dispatch_call env" for env
proof
  fix i req
  show "accounts (dispatch_call env i req)"
    using accountsD [OF accounts_readonly] accountsD [OF accounts_edit] accountsD [OF accounts_bash] accountsD [OF accounts_extension]
    by (auto intro!: accountsI simp: dispatch_call_def split: option.split)
qed

section \<open>A sequence of calls\<close>

abbreviation byte_sum :: "provider_tool_result list \<Rightarrow> nat" where
  "byte_sum rs \<equiv> sum_list (map ptr_byte_count rs)"

abbreviation completed :: "provider_tool_result list \<Rightarrow> provider_tool_result list" where
  "completed rs \<equiv> filter (\<lambda>r. ptr_status r = Completed) rs"

text \<open>
  What the results of a sequence of calls cost: never more than their sizes, and, when no error
  ended the sequence, at least the sizes of the completed ones, each within the limit of a tool.
\<close>

definition spends :: "provider_tool_result list \<Rightarrow> bool \<Rightarrow> tool_loop_budget \<Rightarrow> tool_loop_budget \<Rightarrow> bool" where
  "spends rs ended u u' \<longleftrightarrow>
     u' = u\<lparr>lb_total_result_bytes := lb_total_result_bytes u'\<rparr>
     \<and> lb_total_result_bytes u' \<le> lb_total_result_bytes u + byte_sum rs
     \<and> (ended \<or> lb_total_result_bytes u + byte_sum (completed rs) \<le> lb_total_result_bytes u'
          \<and> (\<forall>r \<in> set (completed rs). ptr_byte_count r \<le> lp_max_result_bytes_per_tool (lb_policy u)))"

lemma spends_none: "spends rs True u u"
  by (simp add: spends_def)

lemma spends_Nil: "spends [] ended u u"
  by (simp add: spends_def)

lemma charged_spends:
  assumes "charged_for x u u'" "lp_max_total_result_bytes (lb_policy u) < u64_max"
  shows "spends [x] ended u u'"
  using assms by (auto simp: charged_for_def spends_def record_tool_result_def Let_def u64_saturating_add_def split: if_splits)

lemma spends_policy: "spends rs ended u u' \<Longrightarrow> lb_policy u' = lb_policy u"
  by (cases u; cases u') (simp add: spends_def)

lemma spends_Cons:
  assumes "spends [r] ended u u1" "spends rs ended u1 u2"
  shows "spends (r # rs) ended u u2"
proof -
  have "lb_policy u1 = lb_policy u" using assms(1) by (rule spends_policy)
  moreover have "u2 = u\<lparr>lb_total_result_bytes := lb_total_result_bytes u2\<rparr>"
    using assms by (cases u; cases u1; cases u2) (simp add: spends_def)
  ultimately show ?thesis using assms by (auto simp: spends_def split: if_splits)
qed

lemma steps_keep_budget [simp]:
  "tb_budget (record_missing_provider_tool_batch_events env req r b) = tb_budget b" "tb_budget (outside_changes env i b) = tb_budget b"
  "tb_budget (snd (flush_batch env b)) = tb_budget b"
  by (simp_all add: record_missing_provider_tool_batch_events_def outside_changes_def flush_batch_def Let_def case_prod_beta)

lemma batch_send_budget: "batch_send env i m b = (e, b') \<Longrightarrow> tb_budget b' = tb_budget b"
  by (auto simp: batch_send_def split: prod.splits)

lemma stop_calls_budget: "stop_calls env e reqs b = (rs, b') \<Longrightarrow> tb_budget b' = tb_budget b"
  by (induction reqs arbitrary: b rs b') (auto simp: Let_def split: prod.splits)

lemma run_call_spends:
  assumes "run_call env i req b = Some (r, e, b')" "lp_max_total_result_bytes (lb_policy (tb_budget b)) < u64_max"
  shows "spends [r] (e \<noteq> None) (tb_budget b) (tb_budget b')"
proof -
  obtain e1 b1 where send: "batch_send env i (started_message req) b = (e1, b1)" by fastforce
  obtain y b2 where d: "dispatch_call env i req b1 = (y, b2)" by fastforce
  note b1 = batch_send_budget [OF send]
  show ?thesis
  proof (cases e1)
    case (Some x)
    then show ?thesis using assms(1) send b1 by (auto simp: run_call_def Let_def spends_none)
  next
    case None
    show ?thesis
    proof (cases y)
      case (Inl z)
      then have "tb_budget b2 = tb_budget b" using dispatched_budget.error_uncharged d b1 by metis
      then show ?thesis using assms(1) send None d Inl
        by (auto simp: run_call_def Let_def spends_none split: if_splits prod.splits dest!: batch_send_budget)
    next
      case (Inr x)
      then have "spends [x] ended (tb_budget b) (tb_budget b2)" for ended
        using dispatched_budget.result_charged d b1 charged_spends assms(2) by metis
      then show ?thesis using assms(1) send None d Inr
        by (auto simp: run_call_def split: prod.splits dest!: batch_send_budget)
    qed
  qed
qed

lemma run_calls_spend:
  "run_calls env i reqs b = Some ((rs, t), b') \<Longrightarrow> lp_max_total_result_bytes (lb_policy (tb_budget b)) < u64_max
     \<Longrightarrow> spends rs (t \<noteq> None) (tb_budget b) (tb_budget b')"
proof (induction reqs arbitrary: i b rs t b')
  case Nil
  then show ?case by (simp add: spends_Nil)
next
  case (Cons req reqs)
  show ?case
  proof (cases "te_cancelled env i")
    case True
    then obtain e where "stop_calls env e (req # reqs) b = (rs, b')" "t \<noteq> None"
      using Cons.prems(1) by (auto simp: Let_def simp del: stop_calls.simps split: prod.splits)
    then show ?thesis using stop_calls_budget spends_none by metis
  next
    case False
    then obtain r e b1 where call: "run_call env i req (outside_changes env i b) = Some (r, e, b1)"
      using Cons.prems(1) by (auto split: option.splits)
    have first: "spends [r] (e \<noteq> None) (tb_budget b) (tb_budget b1)"
      using run_call_spends [OF call] Cons.prems(2) by simp
    show ?thesis
    proof (cases e)
      case (Some x)
      then obtain rest where "stop_calls env (RoundCancelled ''tool batch stopped'') reqs b1 = (rest, b')" "rs = r # rest" "t = Some x"
        using Cons.prems(1) False call by (auto simp: Let_def split: prod.splits)
      then have "spends rest True (tb_budget b1) (tb_budget b')" using stop_calls_budget spends_none by simp
      then show ?thesis using spends_Cons [of r True] first Some \<open>rs = r # rest\<close> \<open>t = Some x\<close> by simp
    next
      case None
      then obtain rest where rest: "run_calls env (i + 1) reqs b1 = Some ((rest, t), b')" "rs = r # rest"
        using Cons.prems(1) False call by (auto split: option.splits)
      have "spends rest (t \<noteq> None) (tb_budget b1) (tb_budget b')"
        using Cons.IH [OF rest(1)] Cons.prems(2) spends_policy [OF first] by simp
      moreover have "spends [r] (t \<noteq> None) (tb_budget b) (tb_budget b1)" using first None by (auto simp: spends_def)
      ultimately show ?thesis using spends_Cons rest(2) by blast
    qed
  qed
qed

end
