(* ===== verification/Tool_Batch_Properties.thy ===== *)
theory Tool_Batch_Properties
  imports Tool_Budget
begin

text \<open>
  Properties of a round of tool calls: it returns, every call has a result and its records, in
  order, and the budget of the loop is kept.
\<close>

section \<open>Records of the calls\<close>

definition has_content :: "session_event \<Rightarrow> bool" where
  "has_content e = (case e of
     ToolRequestRecorded _ _ _ _ _ _ _ _ content \<Rightarrow> content \<noteq> None
   | ToolExecutionFinished _ _ _ _ _ _ content _ _ \<Rightarrow> content \<noteq> None
   | _ \<Rightarrow> False)"

text \<open>A log with the request of a call and its end, each with its content.\<close>

definition call_recorded :: "pending_tool_request \<Rightarrow> session_event list \<Rightarrow> bool" where
  "call_recorded req events \<longleftrightarrow> (\<exists>e \<in> set events. is_request_of req e \<and> has_content e)
     \<and> (\<exists>e \<in> set events. is_finish_of req e \<and> has_content e)"

lemma update_first_cases:
  obtains (unchanged) "update_first f xs = xs" "\<forall>x \<in> set xs. f x = None"
  | (changed) a x y c where "xs = a @ x # c" "f x = Some y" "update_first f xs = a @ y # c"
proof (induction xs arbitrary: thesis)
  case Nil
  then show ?case by simp
next
  case (Cons x xs)
  show ?case
  proof (cases "f x")
    case (Some y)
    then show ?thesis using Cons.prems(2) [of "[]" x xs y] by simp
  next
    case None
    show ?thesis
    proof (rule Cons.IH)
      assume "update_first f xs = xs" "\<forall>x \<in> set xs. f x = None"
      then show thesis using Cons.prems(1) None by simp
    next
      fix a z y c
      assume "xs = a @ z # c" "f z = Some y" "update_first f xs = a @ y # c"
      then show thesis using Cons.prems(2) [of "x # a" z c y] None by simp
    qed
  qed
qed

lemma update_last_cases:
  obtains (unchanged) "update_last f xs = xs" "\<forall>x \<in> set xs. f x = None"
  | (changed) a x y c where "xs = a @ x # c" "f x = Some y" "update_last f xs = a @ y # c"
proof (rule update_first_cases [of f "rev xs"])
  assume "update_first f (rev xs) = rev xs" "\<forall>x \<in> set (rev xs). f x = None"
  then show thesis using unchanged by (simp add: update_last_def)
next
  fix a x y c
  assume "rev xs = a @ x # c" "f x = Some y" "update_first f (rev xs) = a @ y # c"
  then show thesis using changed [of "rev c" x "rev a" y] by (simp add: update_last_def rev_swap)
qed

text \<open>A filled record is the record with its content.\<close>

lemma lacking_filled_Some:
  assumes "lacking_filled content r e = Some e'"
  shows "has_content e' \<and> (\<forall>req. is_request_of req e' = is_request_of req e \<and> is_finish_of req e' = is_finish_of req e)"
  using assms by (auto simp: lacking_filled_def has_content_def is_request_of_def is_finish_of_def split: session_event.splits option.splits)

lemma lacking_filled_None: "lacking_filled content r e = None \<Longrightarrow> is_request_of req e \<or> is_finish_of req e \<Longrightarrow> has_content e"
  by (auto simp: lacking_filled_def has_content_def is_request_of_def is_finish_of_def split: session_event.splits option.splits)

abbreviation refill :: "(session_event \<Rightarrow> bool) \<Rightarrow> string \<Rightarrow> provider_tool_result \<Rightarrow> session_event \<Rightarrow> session_event option" where
  "refill mine content r \<equiv> \<lambda>e. if mine e then Some (case lacking_filled content r e of Some e' \<Rightarrow> e' | None \<Rightarrow> e) else None"

lemma refill_Some:
  assumes "refill mine content r x = Some y"
  shows "mine x \<and> (has_content x \<longrightarrow> has_content y) \<and> (is_request_of req x \<or> is_finish_of req x \<longrightarrow> has_content y)
    \<and> is_request_of req y = is_request_of req x \<and> is_finish_of req y = is_finish_of req x"
  using assms lacking_filled_Some [of content r x y] lacking_filled_None [of content r x req]
  by (auto split: if_splits option.splits)

text \<open>Filling keeps every record, and fills the last of those it looks at.\<close>

lemma fill_log_keeps:
  assumes "e \<in> set events"
  shows "\<exists>e' \<in> set (fill_log mine content r events). (has_content e \<longrightarrow> has_content e')
    \<and> is_request_of req e' = is_request_of req e \<and> is_finish_of req e' = is_finish_of req e"
proof (cases rule: update_last_cases [of "refill mine content r" events])
  case unchanged
  then show ?thesis using assms by (auto simp: fill_log_def)
next
  case (changed a x y c)
  then have "set (fill_log mine content r events) = set a \<union> {y} \<union> set c" by (simp add: fill_log_def)
  then show ?thesis using assms changed(1) refill_Some [where mine = mine and content = content and r = r and x = x and y = y and req = req, OF changed(2)] by auto
qed

lemma fill_log_fills:
  assumes "list_ex mine events" "mine = is_request_of req \<or> mine = is_finish_of req"
  shows "\<exists>e \<in> set (fill_log mine content r events). mine e \<and> has_content e"
proof (cases rule: update_last_cases [of "refill mine content r" events])
  case unchanged
  then show ?thesis using assms(1) by (auto simp: list_ex_iff)
next
  case (changed a x y c)
  then have "y \<in> set (fill_log mine content r events)" by (simp add: fill_log_def)
  moreover have "mine y \<and> has_content y" using refill_Some [where mine = mine and content = content and r = r and x = x and y = y and req = req, OF changed(2)] assms(2) by auto
  ultimately show ?thesis by blast
qed

lemma call_recorded_append: "call_recorded req events \<Longrightarrow> call_recorded req (events @ more_events)"
  by (auto simp: call_recorded_def)

lemma call_recorded_fill: "call_recorded req events \<Longrightarrow> call_recorded req (fill_log mine content r events)"
  using fill_log_keeps [of _ events mine content r req] unfolding call_recorded_def by metis

definition round_keeps :: "tool_batch \<Rightarrow> tool_batch \<Rightarrow> bool" where
  "round_keeps b b' \<longleftrightarrow> (\<forall>req. call_recorded req (batch_log b) \<longrightarrow> call_recorded req (batch_log b'))
     \<and> bb_turn_id (tb_bash b') = bb_turn_id (tb_bash b) \<and> bb_shell_policy (tb_bash b') = bb_shell_policy (tb_bash b)
     \<and> lb_policy (tb_budget b') = lb_policy (tb_budget b)
     \<and> lb_total_tool_calls (tb_budget b') = lb_total_tool_calls (tb_budget b)
     \<and> (budget_ok (tb_budget b) \<longrightarrow> budget_ok (tb_budget b'))"

interpretation round_steps: step_relation round_keeps
  by unfold_locales (auto simp: round_keeps_def)

lemma extends_round_keeps: "batch_extends b b' \<Longrightarrow> round_keeps b b'"
  by (auto simp: batch_extends_def bash_extends_def round_keeps_def prefix_def call_recorded_append)

lemma record_missing_keeps: "round_keeps b (record_missing_provider_tool_batch_events env req r b)"
  by (auto simp: round_keeps_def record_missing_provider_tool_batch_events_def Let_def
      intro!: call_recorded_append call_recorded_fill)

lemma record_missing_records:
  assumes "tr_turn_id req = bb_turn_id (tb_bash b)"
  shows "call_recorded req (batch_log (record_missing_provider_tool_batch_events env req r b))"
proof -
  let ?content = "js_display (te_js env) (tr_arguments req)" and ?events = "batch_log b"
  let ?log1 = "fill_log (is_request_of req) ?content r ?events"
  let ?log2 = "fill_log (is_finish_of req) ?content r ?log1"
  note kept = fill_log_keeps [where req = req]
  have request: "\<exists>e \<in> set ?log2. is_request_of req e \<and> has_content e" if present: "list_ex (is_request_of req) ?events"
  proof -
    obtain e where "e \<in> set ?log1" "is_request_of req e" "has_content e"
      using fill_log_fills [OF present, of req] by blast
    then show ?thesis using kept [of e ?log1 "is_finish_of req" ?content r] by blast
  qed
  have finish: "\<exists>e \<in> set ?log2. is_finish_of req e \<and> has_content e" if present: "list_ex (is_finish_of req) ?events"
  proof -
    obtain e where "e \<in> set ?events" "is_finish_of req e" using present by (auto simp: list_ex_iff)
    then have "list_ex (is_finish_of req) ?log1"
      using kept [of e ?events "is_request_of req" ?content r] by (auto simp: list_ex_iff)
    then show ?thesis using fill_log_fills [of "is_finish_of req" ?log1 req] by blast
  qed
  show ?thesis
    using request finish assms
    by (auto simp: call_recorded_def record_missing_provider_tool_batch_events_def Let_def is_request_of_def is_finish_of_def has_content_def)
qed

section \<open>Calls in order\<close>

lemma batch_send_keeps: "batch_send env i m b = (e, b') \<Longrightarrow> round_keeps b b' \<and> batch_log b' = batch_log b"
  by (auto simp: batch_send_def round_keeps_def send_ui_def split: if_splits)

lemma terminal_result_answers: "answers req (provider_tool_batch_terminal_result events req e unstarted)"
  by (auto simp: provider_tool_batch_terminal_result_def answers_def failed_tool_result_def bash_request_of_def Let_def
      split: option.splits provider_round_error.splits)

text \<open>
  What a sequence of calls gives: a result for every call, in order, the records of every call,
  and what a round keeps.
\<close>

definition calls_done ::
  "pending_tool_request list \<Rightarrow> provider_tool_result list \<Rightarrow> tool_batch \<Rightarrow> tool_batch \<Rightarrow> bool" where
  "calls_done reqs rs b b' \<longleftrightarrow> list_all2 answers reqs rs \<and> round_keeps b b'
     \<and> (\<forall>req \<in> set reqs. call_recorded req (batch_log b'))"

abbreviation of_turn :: "tool_batch \<Rightarrow> pending_tool_request \<Rightarrow> bool" where
  "of_turn b req \<equiv> tr_turn_id req = bb_turn_id (tb_bash b)"

lemma calls_done_Nil: "calls_done [] [] b b"
  by (simp add: calls_done_def round_steps.rel_refl)

lemma calls_done_Cons:
  assumes "answers req r" "round_keeps b b1" "call_recorded req (batch_log b1)" "calls_done reqs rs b1 b2"
  shows "calls_done (req # reqs) (r # rs) b b2"
  using assms round_steps.rel_trans by (auto simp: calls_done_def round_keeps_def)

lemma stop_calls_done:
  "list_all (of_turn b) reqs \<Longrightarrow> stop_calls env e reqs b = (rs, b') \<Longrightarrow> calls_done reqs rs b b'"
proof (induction reqs arbitrary: b rs b')
  case Nil
  then show ?case by (simp add: calls_done_Nil)
next
  case (Cons req reqs)
  let ?r = "provider_tool_batch_terminal_result (batch_log b) req e True"
  let ?b1 = "record_missing_provider_tool_batch_events env req ?r b"
  obtain rs1 b1 where rest: "stop_calls env e reqs ?b1 = (rs1, b1)" by fastforce
  have kept: "round_keeps b ?b1" by (rule record_missing_keeps)
  then have "list_all (of_turn ?b1) reqs" using Cons.prems(1) by (simp add: round_keeps_def)
  then have "calls_done reqs rs1 ?b1 b1" using rest by (rule Cons.IH)
  moreover have "call_recorded req (batch_log ?b1)" using Cons.prems(1) by (intro record_missing_records) simp
  ultimately have "calls_done (req # reqs) (?r # rs1) b b1"
    using calls_done_Cons [OF terminal_result_answers kept] by blast
  then show ?case using Cons.prems(2) rest by (simp add: Let_def)
qed

lemma run_call_done:
  assumes turn: "of_turn b req" and run: "run_call env i req b = Some (r, e, b')"
  shows "answers req r \<and> round_keeps b b' \<and> call_recorded req (batch_log b')"
proof -
  obtain e1 b1 where send: "batch_send env i (started_message req) b = (e1, b1)" by fastforce
  note b1 = conjunct1 [OF batch_send_keeps [OF send]]
  have recorded: "round_keeps b b3 \<and> call_recorded req (batch_log b3)"
    if "round_keeps b b2" "round_keeps (record_missing_provider_tool_batch_events env req x b2) b3" for b2 b3 x
  proof -
    have "tr_turn_id req = bb_turn_id (tb_bash b2)" using turn that(1) by (simp add: round_keeps_def)
    from record_missing_records [OF this, of env x] show ?thesis
      using that record_missing_keeps [of b2 env req x] round_steps.rel_trans by (meson round_keeps_def)
  qed
  show ?thesis
  proof (cases e1)
    case (Some x)
    then show ?thesis
      using run send recorded [OF b1 round_steps.rel_refl] terminal_result_answers by (auto simp: run_call_def Let_def)
  next
    case None
    obtain y b2 where d: "dispatch_call env i req b1 = (y, b2)" by fastforce
    note kept = dispatched.handled [of req env i]
    have b2: "round_keeps b b2"
      using round_steps.rel_trans [OF b1 extends_round_keeps [OF keepsD(1) [OF kept d]]] .
    have sent: "round_keeps b b3 \<and> call_recorded req (batch_log b3)"
      if "batch_send env i m (record_missing_provider_tool_batch_events env req x b2) = (e3, b3)" for m x e3 b3
      using recorded [OF b2 conjunct1 [OF batch_send_keeps [OF that]]] .
    show ?thesis
    proof (cases y)
      case (Inl z)
      then show ?thesis using run send None d sent terminal_result_answers
        by (auto simp: run_call_def Let_def split: if_splits prod.splits)
    next
      case (Inr x)
      then show ?thesis using run send None d sent keepsD(2) [OF kept d [unfolded Inr]]
        by (auto simp: run_call_def split: prod.splits)
    qed
  qed
qed

lemma outside_changes_keeps: "round_keeps b (outside_changes env i b)"
  by (simp add: outside_changes_def round_keeps_def)

lemma run_calls_done:
  "list_all (of_turn b) reqs \<Longrightarrow> run_calls env i reqs b = Some ((rs, t), b') \<Longrightarrow> calls_done reqs rs b b'"
proof (induction reqs arbitrary: i b rs t b')
  case Nil
  then show ?case by (simp add: calls_done_Nil)
next
  case (Cons req reqs)
  let ?b0 = "outside_changes env i b"
  show ?case
  proof (cases "te_cancelled env i")
    case True
    then show ?thesis
      using Cons.prems stop_calls_done [OF Cons.prems(1)] by (auto simp: Let_def split: prod.splits)
  next
    case False
    then obtain r e b1 where call: "run_call env i req ?b0 = Some (r, e, b1)" using Cons.prems(2) by (auto split: option.splits)
    have "of_turn ?b0 req" using Cons.prems(1) outside_changes_keeps [of b env i] by (simp add: round_keeps_def)
    from run_call_done [OF this call]
    have first: "answers req r" "round_keeps b b1" "call_recorded req (batch_log b1)"
      using outside_changes_keeps round_steps.rel_trans by blast+
    then have turn: "list_all (of_turn b1) reqs" using Cons.prems(1) by (simp add: round_keeps_def)
    show ?thesis
    proof (cases e)
      case (Some x)
      then show ?thesis
        using Cons.prems(2) False call calls_done_Cons [OF first stop_calls_done [OF turn]]
        by (auto simp: Let_def split: prod.splits)
    next
      case None
      then show ?thesis
        using Cons.prems(2) False call calls_done_Cons [OF first Cons.IH [OF turn]]
        by (auto split: option.splits)
    qed
  qed
qed

section \<open>The round\<close>

lemma batch_requests_nth:
  "length (batch_requests k turn calls) = length calls"
  "i < length calls \<Longrightarrow> batch_requests k turn calls ! i = pending_tool_request_from_provider_call
     (''tool-request-'' @ show_nat k @ ''-'' @ show_nat (i + 1)) turn (calls ! i)"
  by (simp_all add: batch_requests_def nth_enumerate_eq)

lemma batch_requests_of_turn: "list_all (of_turn b) (batch_requests k (bb_turn_id (tb_bash b)) calls)"
  by (auto simp: list_all_length batch_requests_nth pending_tool_request_from_provider_call_def)

lemma flush_keeps: "flush_batch env b = (ok, b') \<Longrightarrow> round_keeps b b' \<and> batch_log b' = batch_log b"
  by (auto simp: flush_batch_def append_pending_def round_keeps_def split: if_splits)

lemma calls_done_flush: "calls_done reqs rs b b1 \<Longrightarrow> flush_batch env b1 = (ok, b2) \<Longrightarrow> calls_done reqs rs b b2"
  using flush_keeps round_steps.rel_trans unfolding calls_done_def by metis

text \<open>A round that opens is counted within the bounds.\<close>

lemma begin_round_ok:
  assumes "begin_tool_round n budget = Inr budget'" "budget_ok budget"
  shows "budget_ok budget' \<and> lb_policy budget' = lb_policy budget \<and> n \<le> lp_max_tool_calls_per_round (lb_policy budget)
    \<and> lb_total_tool_calls budget' = u64_saturating_add (lb_total_tool_calls budget) n"
  using assms by (auto simp: begin_tool_round_def budget_ok_def Let_def split: if_splits option.splits)

text \<open>Every way a round returns is a sequence of calls from its own budget.\<close>

lemma batch_cases:
  assumes "execute_native_provider_agent_tool_batch env k calls b = Some ((rs, t), b')"
  defines "reqs \<equiv> batch_requests k (bb_turn_id (tb_bash b)) calls"
  obtains (refused) "calls_done reqs rs b b'" "t \<noteq> None"
  | (opened) budget where "begin_tool_round (length calls) (tb_budget b) = Inr budget"
      "calls_done reqs rs (b\<lparr>tb_budget := budget\<rparr>) b'"
proof -
  have stopped: thesis
    if run: "(case stop_calls env why reqs b of (rs, b1) \<Rightarrow> Some ((rs, Some e), snd (flush_batch env b1))) = Some ((rs, t), b')"
    for e why
  proof (rule refused)
    obtain b1 where "stop_calls env why reqs b = (rs, b1)" "snd (flush_batch env b1) = b'"
      using run by (auto split: prod.splits)
    then show "calls_done reqs rs b b'"
      using calls_done_flush [OF stop_calls_done] batch_requests_of_turn reqs_def by (metis surjective_pairing)
    show "t \<noteq> None" using run by (auto split: prod.splits)
  qed
  show thesis
  proof (cases "te_cancelled_at_start env")
    case True
    then show thesis using assms(1) stopped by (simp add: execute_native_provider_agent_tool_batch_def Let_def reqs_def)
  next
    case False
    show thesis
    proof (cases "begin_tool_round (length calls) (tb_budget b)")
      case (Inl e)
      then show thesis using assms(1) stopped False
        by (simp add: execute_native_provider_agent_tool_batch_def Let_def reqs_def batch_requests_nth)
    next
      case (Inr budget)
      then obtain t1 b1 ok where run: "run_calls env 0 reqs (b\<lparr>tb_budget := budget\<rparr>) = Some ((rs, t1), b1)" "flush_batch env b1 = (ok, b')"
        using assms(1) False
        by (auto simp: execute_native_provider_agent_tool_batch_def Let_def reqs_def batch_requests_nth split: option.splits prod.splits)
      have "list_all (of_turn (b\<lparr>tb_budget := budget\<rparr>)) reqs" using batch_requests_of_turn [of b] by (simp add: reqs_def)
      from calls_done_flush [OF run_calls_done [OF this run(1)] run(2)] show thesis by (rule opened [OF Inr])
    qed
  qed
qed

lemma calls_done_results:
  assumes "calls_done (batch_requests k turn calls) rs b b'"
  shows "length rs = length calls"
    "i < length calls \<Longrightarrow> ptr_request_id (rs ! i) = ''tool-request-'' @ show_nat k @ ''-'' @ show_nat (i + 1)
       \<and> ptr_provider_call_id (rs ! i) = Some (ptc_call_id (calls ! i))"
proof -
  have all: "list_all2 answers (batch_requests k turn calls) rs" using assms by (simp add: calls_done_def)
  then show len: "length rs = length calls" using list_all2_lengthD batch_requests_nth(1) by metis
  show "ptr_request_id (rs ! i) = ''tool-request-'' @ show_nat k @ ''-'' @ show_nat (i + 1)
       \<and> ptr_provider_call_id (rs ! i) = Some (ptc_call_id (calls ! i))" if "i < length calls"
    using list_all2_nthD [OF all, of i] that
    by (simp add: batch_requests_nth answers_def pending_tool_request_from_provider_call_def)
qed

text \<open>A round returns: the only panic needs a configured maximum below the minimum.\<close>

definition timeouts_ok :: "tool_batch \<Rightarrow> bool" where
  "timeouts_ok b \<longleftrightarrow> SHELL_MIN_TIMEOUT_MS \<le> max_timeout_ms (config (bb_shell_policy (tb_bash b)))"

lemma round_keeps_timeouts: "round_keeps b b' \<Longrightarrow> timeouts_ok b' = timeouts_ok b"
  by (simp add: round_keeps_def timeouts_ok_def)

lemma run_call_returns:
  assumes "timeouts_ok b"
  shows "\<exists>r e b'. run_call env i req b = Some (r, e, b')"
proof -
  obtain e1 b1 where send: "batch_send env i (started_message req) b = (e1, b1)" by fastforce
  obtain y b2 where d: "dispatch_call env i req b1 = (y, b2)" by fastforce
  note kept = dispatched.handled [of req env i]
  have "round_keeps b b2"
    using batch_send_keeps [OF send] extends_round_keeps [OF keepsD(1) [OF kept d]] round_steps.rel_trans by blast
  then have "timeouts_ok b2" using assms round_keeps_timeouts by blast
  then have "y \<noteq> Inl RoundPanicked"
    using keepsD(3) [OF kept, of b1 RoundPanicked b2] d by (auto simp: bash_error_def timeouts_ok_def)
  then show ?thesis using send d by (cases e1; cases y) (auto simp: run_call_def Let_def split: prod.splits)
qed

lemma run_calls_return:
  "list_all (of_turn b) reqs \<Longrightarrow> timeouts_ok b \<Longrightarrow> \<exists>rs t b'. run_calls env i reqs b = Some ((rs, t), b')"
proof (induction reqs arbitrary: i b)
  case Nil
  then show ?case by simp
next
  case (Cons req reqs)
  let ?b0 = "outside_changes env i b"
  have b0: "timeouts_ok ?b0" "of_turn ?b0 req"
    using Cons.prems outside_changes_keeps [of b env i] by (simp_all add: round_keeps_def timeouts_ok_def)
  then obtain r e b1 where call: "run_call env i req ?b0 = Some (r, e, b1)" using run_call_returns by blast
  have "round_keeps b b1" using run_call_done [OF b0(2) call] outside_changes_keeps round_steps.rel_trans by blast
  then have "list_all (of_turn b1) reqs" "timeouts_ok b1" using Cons.prems by (auto simp: round_keeps_def timeouts_ok_def)
  then show ?case using Cons.IH [of b1 "i + 1"] call by (cases e) (auto simp: Let_def split: prod.splits)
qed

lemma batch_returns:
  assumes "timeouts_ok b"
  shows "\<exists>rs t b'. execute_native_provider_agent_tool_batch env k calls b = Some ((rs, t), b')"
proof -
  have "\<exists>rs t b'. run_calls env 0 (batch_requests k (bb_turn_id (tb_bash b)) calls) (b\<lparr>tb_budget := budget\<rparr>) = Some ((rs, t), b')" for budget
    using assms batch_requests_of_turn [of b k calls] by (intro run_calls_return) (simp_all add: timeouts_ok_def)
  note calls = this
  show ?thesis
  proof (cases "te_cancelled_at_start env")
    case True
    then show ?thesis by (simp add: execute_native_provider_agent_tool_batch_def Let_def split: prod.splits)
  next
    case False
    show ?thesis
    proof (cases "begin_tool_round (length calls) (tb_budget b)")
      case (Inl e)
      then show ?thesis using False
        by (simp add: execute_native_provider_agent_tool_batch_def Let_def batch_requests_nth split: prod.splits)
    next
      case (Inr budget)
      obtain rs t b1 where "run_calls env 0 (batch_requests k (bb_turn_id (tb_bash b)) calls) (b\<lparr>tb_budget := budget\<rparr>) = Some ((rs, t), b1)"
        using calls by blast
      then show ?thesis using False Inr
        by (simp add: execute_native_provider_agent_tool_batch_def Let_def batch_requests_nth split: prod.splits)
    qed
  qed
qed

text \<open>
  C5. A round of tool calls always returns, unless the configured maximum timeout is below the
  minimum, and then answers every call of the provider's message: there is one result per
  call, in the order of the calls, under the request id of the round and with the provider's id
  of the call, and the log of the turn holds the request of every call and its end, each with
  its content - whether the call ran, failed, was refused, or was stopped because the turn was
  cancelled, the budget exceeded, the client gone or an earlier call ended the round.
\<close>

theorem round_answers_every_call:
  assumes "timeouts_ok b"
  shows "\<exists>rs t b'. execute_native_provider_agent_tool_batch env k calls b = Some ((rs, t), b') \<and> length rs = length calls
    \<and> (\<forall>i < length calls. ptr_request_id (rs ! i) = ''tool-request-'' @ show_nat k @ ''-'' @ show_nat (i + 1)
         \<and> ptr_provider_call_id (rs ! i) = Some (ptc_call_id (calls ! i)))
    \<and> (\<forall>req \<in> set (batch_requests k (bb_turn_id (tb_bash b)) calls). call_recorded req (batch_log b'))"
proof -
  let ?reqs = "batch_requests k (bb_turn_id (tb_bash b)) calls"
  obtain rs t b' where run: "execute_native_provider_agent_tool_batch env k calls b = Some ((rs, t), b')"
    using batch_returns [OF assms] by blast
  obtain start where "calls_done ?reqs rs start b'"
    using run by (cases rule: batch_cases) blast+
  then show ?thesis using run calls_done_results [of k "bb_turn_id (tb_bash b)" calls rs start b'] by (auto simp: calls_done_def)
qed

definition demo_round_env :: tool_batch_env where
  "demo_round_env = \<lparr>te_js = ag_js demo_edit_env, te_parse = (\<lambda>_. None), te_registry = with_agent_edit_tools, te_catalog = [],
     te_permission = deny_all, te_root = demo_root, te_read_root = None, te_read_dir = (\<lambda>_ _. None),
     te_edit = demo_edit_env, te_extensions = (\<lambda>_. None), te_bash = (\<lambda>_. demo_bash_env InputClosed),
     te_store_ok = (\<lambda>_. True), te_ui_ok = (\<lambda>_. True), te_timing = (\<lambda>_. no_timing), te_outside = (\<lambda>_ t. t),
     te_cancelled_at_start = False, te_cancelled = (\<lambda>_. False), te_moments = (\<lambda>_ _ _. demo_shared 1)\<rparr>"

definition demo_round :: tool_batch where
  "demo_round = \<lparr>tb_bash = demo_bash_batch, tb_edit = demo_edit_state, tb_budget = new_budget agent_default, tb_edit_traces = []\<rparr>"

definition demo_calls :: "provider_tool_call list" where
  "demo_calls = [\<lparr>ptc_call_id = ''c1'', ptc_name = ''bash'', ptc_arguments = JObject []\<rparr>,
     \<lparr>ptc_call_id = ''c2'', ptc_name = ''edit_text_file'', ptc_arguments = JObject []\<rparr>]"

lemma demo_round_ok: "timeouts_ok demo_round" "budget_ok (tb_budget demo_round)"
  by (simp_all add: timeouts_ok_def demo_round_def demo_bash_batch_def default_shell_config_def SHELL_MIN_TIMEOUT_MS_def
      SHELL_MAX_TIMEOUT_MS_def budget_ok_def new_budget_def agent_default_def)

theorem round_answers_every_call_witness:
  "timeouts_ok demo_round \<and> (\<exists>rs t b'. execute_native_provider_agent_tool_batch demo_round_env 1 demo_calls demo_round = Some ((rs, t), b')
     \<and> length rs = 2 \<and> ptr_request_id (rs ! 1) = ''tool-request-1-2'' \<and> ptr_provider_call_id (rs ! 1) = Some ''c2'')"
proof -
  have calls: "length demo_calls = 2" "1 < length demo_calls" "ptc_call_id (demo_calls ! 1) = ''c2''"
    by (simp_all add: demo_calls_def)
  have ids: "''tool-request-'' @ show_nat 1 @ ''-'' @ show_nat (1 + 1) = ''tool-request-1-2''" by code_simp
  show ?thesis
    using round_answers_every_call [OF demo_round_ok(1), of demo_round_env 1 demo_calls] demo_round_ok(1) calls
    unfolding ids [symmetric] by metis
qed

text \<open>A round that is not opened.\<close>

lemma record_missing_quiet [simp]:
  "tb_edit (record_missing_provider_tool_batch_events env req r b) = tb_edit b"
  "bb_effects (tb_bash (record_missing_provider_tool_batch_events env req r b)) = bb_effects (tb_bash b)"
  by (simp_all add: record_missing_provider_tool_batch_events_def Let_def)

lemma stop_calls_quiet:
  "tb_edit (snd (stop_calls env e reqs b)) = tb_edit b \<and> tb_budget (snd (stop_calls env e reqs b)) = tb_budget b
     \<and> bb_effects (tb_bash (snd (stop_calls env e reqs b))) = bb_effects (tb_bash b)"
  by (induction reqs arbitrary: b) (simp_all add: Let_def case_prod_beta)

lemma flush_stores:
  "tb_edit (snd (flush_batch env b)) = tb_edit b \<and> tb_budget (snd (flush_batch env b)) = tb_budget b
     \<and> (\<exists>es. bb_effects (tb_bash (snd (flush_batch env b))) = bb_effects (tb_bash b) @ map Stored es)"
  by (auto simp: flush_batch_def append_pending_def intro: exI [of _ "[]"] exI [of _ "[x]" for x])

text \<open>Opening a round, where the total of the calls does not saturate.\<close>

lemma begin_round_eq:
  assumes "lp_max_total_tool_calls (lb_policy u) < u64_max"
  shows "begin_tool_round n u =
    (if \<exists>m. lp_max_tool_rounds (lb_policy u) = Some m \<and> m \<le> lb_tool_rounds u then Inl (ToolContinuation ''tool_loop_too_many_rounds'')
     else if lp_max_tool_calls_per_round (lb_policy u) < n then Inl (ToolContinuation ''tool_round_too_many_calls'')
     else if lp_max_total_tool_calls (lb_policy u) < lb_total_tool_calls u + n
     then Inl (ToolContinuation ''tool_loop_too_many_total_calls'')
     else Inr (u\<lparr>lb_tool_rounds := lb_tool_rounds u + 1, lb_total_tool_calls := lb_total_tool_calls u + n\<rparr>))"
  using assms by (auto simp: begin_tool_round_def Let_def u64_saturating_add_def split: option.splits)

lemma batch_opened:
  assumes "execute_native_provider_agent_tool_batch env k calls b = Some ((rs, t), b')" "\<not> te_cancelled_at_start env"
    and "begin_tool_round (length calls) (tb_budget b) = Inr u" "lp_max_total_result_bytes (lb_policy u) < u64_max"
  shows "spends rs (t \<noteq> None) u (tb_budget b')"
proof -
  obtain t1 b1 ok where run: "run_calls env 0 (batch_requests k (bb_turn_id (tb_bash b)) calls) (b\<lparr>tb_budget := u\<rparr>) = Some ((rs, t1), b1)"
      "flush_batch env b1 = (ok, b')" "t1 \<noteq> None \<longrightarrow> t \<noteq> None"
    using assms(1-3) by (auto simp: execute_native_provider_agent_tool_batch_def Let_def batch_requests_nth split: option.splits prod.splits if_splits)
  have "tb_budget b' = tb_budget b1" using flush_stores [of env b1] run(2) by simp
  moreover have "spends rs (t1 \<noteq> None) u (tb_budget b1)" using run_calls_spend [OF run(1)] assms(4) by simp
  ultimately show ?thesis using run(3) by (auto simp: spends_def)
qed

lemma batch_refused:
  assumes "execute_native_provider_agent_tool_batch env k calls b = Some ((rs, t), b')"
  shows "te_cancelled_at_start env \<Longrightarrow> tb_budget b' = tb_budget b \<and> t = Some (RoundCancelled ''native provider prompt cancelled'')"
    "\<not> te_cancelled_at_start env \<Longrightarrow> begin_tool_round (length calls) (tb_budget b) = Inl e \<Longrightarrow> tb_budget b' = tb_budget b \<and> t = Some e"
  using assms flush_stores stop_calls_quiet
  by (auto simp: execute_native_provider_agent_tool_batch_def Let_def batch_requests_nth split: prod.splits dest: stop_calls_budget)

text \<open>
  C11. The budget of the loop is kept and charged: a round that starts within the totals of its
  policy ends within them, whatever its calls return. A cancelled round, one round too many, a
  round of more calls than the policy has per round, and one that would exceed the total of the
  calls are refused, each with its error, and change nothing of the budget. Any other round is
  counted, once, with all of its calls, and its results are charged, never with more than their
  sizes. When no error ends it, every completed result is within the limit of a tool, and at least the
  sizes of all completed results were added to the total. The limits of the policy are below the
  greatest 64-bit number, where the counters saturate.
\<close>

theorem round_within_budget:
  fixes b b' :: tool_batch
  defines "u \<equiv> tb_budget b" and "u' \<equiv> tb_budget b'"
  assumes "execute_native_provider_agent_tool_batch env k calls b = Some ((rs, t), b')" "budget_ok u"
    and "lp_max_total_tool_calls (lb_policy u) < u64_max" "lp_max_total_result_bytes (lb_policy u) < u64_max"
  shows "budget_ok u' \<and> lb_policy u' = lb_policy u
    \<and> (if te_cancelled_at_start env then u' = u \<and> t = Some (RoundCancelled ''native provider prompt cancelled'')
       else if (\<exists>n. lp_max_tool_rounds (lb_policy u) = Some n \<and> n \<le> lb_tool_rounds u)
       then u' = u \<and> t = Some (ToolContinuation ''tool_loop_too_many_rounds'')
       else if lp_max_tool_calls_per_round (lb_policy u) < length calls
       then u' = u \<and> t = Some (ToolContinuation ''tool_round_too_many_calls'')
       else if lp_max_total_tool_calls (lb_policy u) < lb_total_tool_calls u + length calls
       then u' = u \<and> t = Some (ToolContinuation ''tool_loop_too_many_total_calls'')
       else lb_tool_rounds u' = lb_tool_rounds u + 1
         \<and> lb_total_tool_calls u' = lb_total_tool_calls u + length calls
         \<and> lb_total_result_bytes u' \<le> lb_total_result_bytes u + byte_sum rs
         \<and> (t = None \<longrightarrow> lb_total_result_bytes u + byte_sum (completed rs) \<le> lb_total_result_bytes u'
              \<and> (\<forall>r \<in> set (completed rs). ptr_byte_count r \<le> lp_max_result_bytes_per_tool (lb_policy u))))"
proof -
  note run = assms(3) and limits = assms(4-6)
  have kept: "budget_ok u' \<and> lb_policy u' = lb_policy u"
    using run by (cases rule: batch_cases) (use limits(1) begin_round_ok in \<open>fastforce simp: calls_done_def round_keeps_def u_def u'_def\<close>)+
  note begun = begin_round_eq [OF limits(2), of "length calls"]
  show ?thesis
  proof (cases "te_cancelled_at_start env")
    case True
    then show ?thesis using kept batch_refused(1) [OF run] by (simp add: u_def u'_def)
  next
    case False
    show ?thesis
    proof (cases "begin_tool_round (length calls) u")
      case (Inl e)
      then have "u' = u \<and> t = Some e" using batch_refused(2) [OF run False] by (simp add: u_def u'_def)
      then show ?thesis using kept False Inl unfolding begun by (auto split: if_splits)
    next
      case (Inr v)
      then have v: "lb_policy v = lb_policy u" unfolding begun by (auto split: if_splits)
      then have "spends rs (t \<noteq> None) v u'"
        using batch_opened [OF run False, of v] Inr limits(3) by (simp add: u_def u'_def)
      moreover have "lb_tool_rounds u' = lb_tool_rounds v" "lb_total_tool_calls u' = lb_total_tool_calls v"
        using \<open>spends rs (t \<noteq> None) v u'\<close> by (cases v; cases u'; simp add: spends_def)+
      ultimately show ?thesis using kept False Inr v unfolding begun by (auto simp: spends_def split: if_splits)
    qed
  qed
qed

theorem round_within_budget_witness:
  "\<exists>rs t b'. execute_native_provider_agent_tool_batch demo_round_env 1 demo_calls demo_round = Some ((rs, t), b')
     \<and> lb_tool_rounds (tb_budget b') = 1 \<and> lb_total_tool_calls (tb_budget b') = 2 \<and> budget_ok (tb_budget b')"
proof -
  obtain rs t b' where run: "execute_native_provider_agent_tool_batch demo_round_env 1 demo_calls demo_round = Some ((rs, t), b')"
    using batch_returns [OF demo_round_ok(1)] by blast
  have "lb_tool_rounds (tb_budget demo_round) = 0" "lb_total_tool_calls (tb_budget demo_round) = 0"
      "lb_policy (tb_budget demo_round) = agent_default" "\<not> te_cancelled_at_start demo_round_env" "length demo_calls = 2"
    by (simp_all add: demo_round_def new_budget_def demo_round_env_def demo_calls_def)
  then show ?thesis
    using round_within_budget [OF run demo_round_ok(2)] run by (simp add: agent_default_def u64_max_def)
qed

text \<open>
  C36. A round that is not opened - the turn is already cancelled, or the budget refuses it -
  runs nothing: no command, no edit, no message; only the records of its calls are stored. The
  round ends with the error that refused it.
\<close>

theorem refused_round_runs_nothing:
  assumes "te_cancelled_at_start env \<or> begin_tool_round (length calls) (tb_budget b) = Inl e"
  shows "\<exists>rs why b' es. execute_native_provider_agent_tool_batch env k calls b = Some ((rs, Some why), b')
    \<and> tb_edit b' = tb_edit b \<and> tb_budget b' = tb_budget b
    \<and> bb_effects (tb_bash b') = bb_effects (tb_bash b) @ map Stored es \<and> (te_cancelled_at_start env \<or> why = e)"
proof -
  let ?reqs = "batch_requests k (bb_turn_id (tb_bash b)) calls"
  let ?stop = "\<lambda>why. snd (flush_batch env (snd (stop_calls env why ?reqs b)))"
  have quiet: "tb_edit (?stop why) = tb_edit b \<and> tb_budget (?stop why) = tb_budget b
      \<and> (\<exists>es. bb_effects (tb_bash (?stop why)) = bb_effects (tb_bash b) @ map Stored es)" for why
    using flush_stores [of env "snd (stop_calls env why ?reqs b)"] stop_calls_quiet [of env why ?reqs b] by simp
  obtain why cause where "execute_native_provider_agent_tool_batch env k calls b
      = Some ((fst (stop_calls env cause ?reqs b), Some why), ?stop cause)" "te_cancelled_at_start env \<or> why = e"
    using assms by (cases "te_cancelled_at_start env")
      (auto simp: execute_native_provider_agent_tool_batch_def Let_def case_prod_beta batch_requests_nth)
  then show ?thesis using quiet [of cause] by blast
qed

theorem refused_round_runs_nothing_witness:
  "begin_tool_round (length (replicate 17 (hd demo_calls))) (tb_budget demo_round) = Inl (ToolContinuation ''tool_round_too_many_calls'')
   \<and> (\<exists>rs b' es. execute_native_provider_agent_tool_batch demo_round_env 1 (replicate 17 (hd demo_calls)) demo_round
        = Some ((rs, Some (ToolContinuation ''tool_round_too_many_calls'')), b') \<and> tb_edit b' = tb_edit demo_round
      \<and> bb_effects (tb_bash b') = bb_effects (tb_bash demo_round) @ map Stored es)"
proof -
  have over: "begin_tool_round (length (replicate 17 (hd demo_calls))) (tb_budget demo_round) = Inl (ToolContinuation ''tool_round_too_many_calls'')"
    by (simp add: begin_tool_round_def demo_round_def new_budget_def agent_default_def Let_def)
  moreover have "\<not> te_cancelled_at_start demo_round_env" by (simp add: demo_round_env_def)
  ultimately show ?thesis
    using refused_round_runs_nothing [of demo_round_env "replicate 17 (hd demo_calls)" demo_round _ 1] by metis
qed

end
