(* ===== verification/Edit_Approval_Properties.thy ===== *)
theory Edit_Approval_Properties
  imports Tool_Batch_Properties
begin

text \<open>
  What lets an edit through: the handler of edit calls changes a file only when the permission
  engine allows the edit outright, the reviewer routes it to execution, or the user approves the
  very preview that was shown.
\<close>

section \<open>Steps that keep the files\<close>

definition same_files :: "tool_batch \<Rightarrow> tool_batch \<Rightarrow> bool" where
  "same_files b b' \<longleftrightarrow> batch_fs b' = batch_fs b"

interpretation file_steps: step_relation same_files
  by unfold_locales (auto simp: same_files_def)

abbreviation files_kept :: "'a tool_step \<Rightarrow> bool" where
  "files_kept \<equiv> keeps same_files (\<lambda>_ _. True) anything"

lemma files_keptD: "files_kept m \<Longrightarrow> m b = (r, b') \<Longrightarrow> batch_fs b' = batch_fs b"
  by (auto simp: keeps_def same_files_def)

lemma files_bind [intro]: "files_kept m \<Longrightarrow> (\<And>x. files_kept (f x)) \<Longrightarrow> files_kept (tool_bind m f)"
  using file_steps.keeps_sequence [of "\<lambda>_ _. True" anything m anything f] by (simp add: tool_bind_def [abs_def])

lemma files_simple [intro]:
  "files_kept (tool_return x)" "files_kept (tool_fail e)" "files_kept (lift_bash m)" "files_kept (push_edit_trace t)"
  "files_kept (charged r)" "files_kept (persist_pending env i)"
  by (auto simp: keeps_def same_files_def tool_return_def tool_fail_def lift_bash_def push_edit_trace_def tool_modify_def
      charged_def charge_def tool_bind_def persist_pending_def split: prod.splits sum.splits if_splits)

lemma files_modify: "(\<And>b. batch_fs (f b) = batch_fs b) \<Longrightarrow> files_kept (tool_modify f)"
  by (auto simp: keeps_def same_files_def tool_modify_def)

lemma files_drain [intro]: "files_kept (tool_modify drain_edit_sink_events)"
  by (rule files_modify) (simp add: drain_edit_sink_events_def Let_def)

lemma files_lift_edit: "(\<And>st r st'. f st = (r, st') \<Longrightarrow> ew_fs (ae_world st') = ew_fs (ae_world st)) \<Longrightarrow> files_kept (lift_edit f)"
  by (fastforce simp: keeps_def same_files_def lift_edit_def Let_def split: prod.splits)

lemma files_edit_then_drain:
  "(\<And>st r st'. f st = (r, st') \<Longrightarrow> ew_fs (ae_world st') = ew_fs (ae_world st)) \<Longrightarrow> files_kept (edit_then_drain f)"
  unfolding edit_then_drain_def by (intro files_bind files_lift_edit files_drain) (auto split: sum.split)

lemma files_interrupt [intro]: "files_kept (interrupt_edit rid reason timing e)"
  unfolding interrupt_edit_def by (intro files_bind files_modify files_simple) (simp add: record_interrupted_prepared_edit_def)

lemma files_hand_off [intro]: "files_kept (hand_off_edit env name pend prior)"
  unfolding hand_off_edit_def
  by (intro files_bind files_edit_then_drain files_simple) (use rejected_keeps_files in blast)

section \<open>Approval\<close>

definition user_approves :: "tool_batch_env \<Rightarrow> nat \<Rightarrow> pending_agent_edit_tool_review \<Rightarrow> bool" where
  "user_approves env i pend \<longleftrightarrow> (\<exists>d. be_input (te_bash env i)
     = InputDecision (pr_request_id pend) (pr_preview_id pend) (pr_permission_decision_id pend) d \<and> d \<noteq> Reject)"

definition reviewer_executes ::
  "tool_batch_env \<Rightarrow> nat \<Rightarrow> pending_agent_edit_tool_review \<Rightarrow> edit_preview \<Rightarrow> tool_timing \<Rightarrow> tool_batch \<Rightarrow> bool" where
  "reviewer_executes env i pend p prior b \<longleftrightarrow> ep_review_state p = AutoReviewUnavailable
     \<and> (\<exists>renv co b1. bb_coordinator (tb_bash b) = Some (renv, co) \<and> review_edit env i renv co pend p prior b = (Inr Execute, b1))"

lemma await_keeps_files: "\<not> user_approves env i pend \<Longrightarrow> files_kept (await_edit_review env i name pend p prior)"
proof -
  assume no: "\<not> user_approves env i pend"
  have rejected: "decision = Reject" if "wait_for_agent_edit_review_decision (be_input (te_bash env i)) pend = Inr decision" for decision
    using that no by (auto simp: wait_for_agent_edit_review_decision_def user_approves_def split: review_input.splits if_splits)
  have waits: "files_kept (lift_edit (record_review_wait_trace (te_edit env) pend outcome reason))" for outcome reason
    by (rule files_lift_edit) (auto simp: record_review_wait_trace_def agent_append_def sink_append_def split: if_splits prod.splits)
  have bump: "files_kept (tool_modify bump_after_decision)" by (rule files_modify) (simp add: bump_after_decision_def)
  have rejects: "files_kept (edit_then_drain (reject_agent_edit_tool_review (te_edit env) pend prior))"
    by (rule files_edit_then_drain) (use rejected_keeps_files in blast)
  have input: "be_input (call_env env i) = be_input (te_bash env i)" by (simp add: call_env_def)
  show ?thesis
    unfolding await_edit_review_def Let_def input
    by (auto intro!: files_bind files_simple files_interrupt files_drain waits bump split: sum.split dest!: rejected intro: rejects)
qed

lemma ask_keeps_files:
  "\<not> (bb_structured_review_rows (tb_bash b) \<and> user_approves env i pend) \<Longrightarrow> ask_user_for_edit env i name pend p prior b = (r, b')
   \<Longrightarrow> batch_fs b' = batch_fs b"
  using files_keptD [OF files_interrupt] files_keptD [OF await_keeps_files]
  by (auto simp: ask_user_for_edit_def split: if_splits)

lemma review_edit_keeps_files: "files_kept (review_edit env i renv co pend p prior)"
proof -
  have bind: "files_kept (lift_edit (\<lambda>st. case snap of
      None \<Rightarrow> (False, st)
    | Some fr \<Rightarrow> (case rebind_reviewer_generation pid (fr_reviewer_generation fr) (ae_world st) of (ok, w) \<Rightarrow> (ok, st\<lparr>ae_world := w\<rparr>))))"
    for snap pid
    by (rule files_lift_edit) (auto simp: rebind_reviewer_generation_def split: option.splits prod.splits if_splits)
  have asked: "files_kept (\<lambda>b. case ev b of
      IssuingTurnOverBudget \<Rightarrow> (Inr (Hold EvidenceOverBudget []), b)
    | EvidenceReady items om \<Rightarrow> if cancelled then interrupt_edit rid reason prior e b else (Inr (route items om), b))"
    for ev cancelled rid reason e route
    using files_keptD [OF files_interrupt]
    by (auto simp: keeps_def same_files_def split: user_message_evidence.splits if_splits)
  show ?thesis
    unfolding review_edit_def Let_def by (intro files_bind bind asked files_lift_edit) simp
qed

lemma review_edit_rows:
  "review_edit env i renv co pend p prior b = (Inr route, b1) \<Longrightarrow> bb_structured_review_rows (tb_bash b1) = bb_structured_review_rows (tb_bash b)"
  by (auto simp: review_edit_def tool_bind_def lift_edit_def Let_def interrupt_edit_def tool_modify_def tool_fail_def
      split: prod.splits option.splits user_message_evidence.splits if_splits)

text \<open>A preview that needs a review changes files only when it is approved.\<close>

lemma reviewed_edit_needs_approval:
  assumes "finish_prepared_edit_tool_request env i name (EditToolNeedsReview tid rid call_id p path op) prior b = (r, b')"
    and "batch_fs b' \<noteq> batch_fs b"
  defines "pend \<equiv> pending_review b tid rid call_id p path op"
  shows "ep_review_state p \<noteq> EditHumanPerforms
    \<and> (bb_structured_review_rows (tb_bash b) \<and> user_approves env i pend \<or> reviewer_executes env i pend p prior b)"
proof (rule ccontr)
  assume no: "\<not> ?thesis"
  note run = assms(1) [unfolded finish_prepared_edit_tool_request_def Let_def agent_edit_tool_prepared.case, folded pend_def]
  show False
  proof (cases "ep_review_state p = EditHumanPerforms")
    case True
    then show False using run files_keptD [OF files_hand_off] assms(2) by simp
  next
    case human: False
    with no have user: "\<not> (bb_structured_review_rows (tb_bash b) \<and> user_approves env i pend)"
        and reviewer: "\<not> reviewer_executes env i pend p prior b" by auto
    have manual: False if "ask_user_for_edit env i name pend p prior b = (r, b')"
      using ask_keeps_files [OF user that] assms(2) by simp
    show False
    proof (cases "ep_review_state p = AutoReviewUnavailable \<and> bb_coordinator (tb_bash b) \<noteq> None")
      case False
      then show False using run human manual by (auto split: option.splits if_splits)
    next
      case True
      then obtain renv co where co: "bb_coordinator (tb_bash b) = Some (renv, co)" by auto
      obtain x b1 where route: "review_edit env i renv co pend p prior b = (x, b1)" by fastforce
      have b1: "batch_fs b1 = batch_fs b" using files_keptD [OF review_edit_keeps_files route] .
      show False
      proof (cases x)
        case (Inl e)
        then show False using run human True co route b1 assms(2) by (simp add: tool_bind_def)
      next
        case (Inr y)
        have "y \<noteq> Execute" using reviewer True co route Inr by (auto simp: reviewer_executes_def)
        then have "hand_off_edit env name pend prior b1 = (r, b') \<or> ask_user_for_edit env i name pend p prior b1 = (r, b')"
          using run human True co route Inr
          by (auto simp: tool_bind_def split: review_route.splits hold_reason.splits review_restriction.splits)
        moreover have "\<not> (bb_structured_review_rows (tb_bash b1) \<and> user_approves env i pend)"
          using user review_edit_rows route Inr by blast
        ultimately show False using files_keptD [OF files_hand_off] ask_keeps_files b1 assms(2) by metis
      qed
    qed
  qed
qed

section \<open>The handler\<close>

text \<open>The state in which the edit layer is called.\<close>

definition edit_start :: "tool_batch_env \<Rightarrow> nat \<Rightarrow> tool_batch \<Rightarrow> tool_batch" where
  "edit_start env i b = snd (persist_pending env i b)"

definition edit_layer :: "tool_batch \<Rightarrow> agent_edit_state" where
  "edit_layer b = (tb_edit b)\<lparr>ae_world := (ae_world (tb_edit b))\<lparr>ew_decision_counter := bb_decision_counter (tb_bash b)\<rparr>\<rparr>"

lemma edit_then_drain_cases:
  assumes "edit_then_drain f b = (x, b1)" "f (edit_layer b) = (y, st')"
  shows "batch_fs b1 = ew_fs (ae_world st') \<and> (x = (case y of Inl e \<Rightarrow> Inl (ToolContinuation (tool_round_error_label e)) | Inr z \<Rightarrow> Inr z))
    \<and> bb_coordinator (tb_bash b1) = bb_coordinator (tb_bash b)"
  using assms by (auto simp: edit_then_drain_def tool_bind_def lift_edit_def edit_layer_def Let_def tool_modify_def tool_fail_def
      tool_return_def drain_edit_sink_events_def split: sum.splits)

lemma settled_keeps_files:
  "finish_prepared_edit_tool_request env i name prepared prior b = (r, b') \<Longrightarrow> batch_fs b' \<noteq> batch_fs b
   \<Longrightarrow> \<exists>tid rid call_id p path op. prepared = EditToolNeedsReview tid rid call_id p path op"
  using files_keptD [OF files_bind [OF files_simple(4) files_simple(5)]]
  by (cases prepared) (auto simp: finish_prepared_edit_tool_request_def Let_def)

text \<open>
  C4. The handler of \<open>edit_text_file\<close> and \<open>create_text_file\<close> changes a file only in one of three cases: the
  permission engine allows the transaction of the call outright; or it asks for a review, the
  preview is not reserved for the user, and either the reviewer routes this action to execution, or
  the client can show reviews and the user answers with the ids of this request, preview and
  decision, and does not reject it.
\<close>

theorem edit_changes_only_approved:
  assumes "execute_native_provider_edit_tool_request env i req b = (r, b')" "batch_fs b' \<noteq> batch_fs b"
  defines "start \<equiv> edit_start env i b"
  defines "ctx \<equiv> agent_edit_context env i conservative start"
  defines "asking \<equiv> prepare_agent_edit_tool_request (te_edit env) (te_registry env) (te_root env) ctx req"
  defines "prepared \<equiv> snd (edit_then_drain asking start)"
  shows "(\<exists>ops. call_asks (te_edit env) (te_registry env) (te_root env) ctx req (edit_layer start) = Some ops
       \<and> is_Allowed (edit_decided (ag_access (te_edit env)) ops (edit_context_of ctx req) (ae_world (edit_layer start))))
    \<or> (\<exists>tid rid call_id p path op. fst (asking (edit_layer start)) = Inr (EditToolNeedsReview tid rid call_id p path op)
       \<and> ep_review_state p \<noteq> EditHumanPerforms
       \<and> (let pend = pending_review prepared tid rid call_id p path op
          in bb_structured_review_rows (tb_bash prepared) \<and> user_approves env i pend
             \<or> reviewer_executes env i pend p no_timing prepared))"
proof -
  have start: "batch_fs start = batch_fs b"
    using files_keptD [OF files_simple(6)] unfolding start_def edit_start_def by (metis surjective_pairing)
  obtain y st' where y: "asking (edit_layer start) = (y, st')" by fastforce
  obtain x b1 where x: "edit_then_drain asking start = (x, b1)" by fastforce
  note ran = edit_then_drain_cases [OF x y]
  show ?thesis
  proof (cases "batch_fs b1 = batch_fs b")
    case False
    then have "ew_fs (ae_world st') \<noteq> ew_fs (ae_world (edit_layer start))" using ran start by (simp add: edit_layer_def)
    from builtin_edit.files_change_only_allowed [OF y [unfolded asking_def] this] show ?thesis by blast
  next
    case True
    have "\<exists>z. y = Inr z \<and> finish_prepared_edit_tool_request env i (tr_tool_name req) z no_timing b1 = (r, b')"
      using assms(1,2) x ran True start
      by (auto simp: execute_native_provider_edit_tool_request_def tool_bind_def start_def edit_start_def ctx_def asking_def
          split: prod.splits sum.splits)
    then obtain z where z: "y = Inr z" "finish_prepared_edit_tool_request env i (tr_tool_name req) z no_timing b1 = (r, b')" by blast
    have changed: "batch_fs b' \<noteq> batch_fs b1" using assms(2) True by simp
    obtain tid rid call_id p path op where review: "z = EditToolNeedsReview tid rid call_id p path op"
      using settled_keeps_files [OF z(2) changed] by blast
    from reviewed_edit_needs_approval [OF z(2) [unfolded review] changed] y z(1) review x show ?thesis
      by (auto simp: Let_def prepared_def)
  qed
qed


text \<open>An edit in the mode that accepts edits.\<close>

definition demo_edit_round :: tool_batch where
  "demo_edit_round = demo_round\<lparr>tb_bash := demo_bash_batch\<lparr>bb_turn_id := ''turn-0'', bb_approval_mode := AcceptEdits\<rparr>\<rparr>"

lemma demo_edit_start:
  "agent_edit_context demo_round_env 0 conservative (edit_start demo_round_env 0 demo_edit_round) = demo_edit_context"
  "edit_layer (edit_start demo_round_env 0 demo_edit_round) = demo_edit_state"
  "batch_fs (edit_start demo_round_env 0 demo_edit_round) = demo_fs (\<lambda>_. False)"
  "fst (persist_pending demo_round_env 0 demo_edit_round) = Inr ()"
  by (simp_all add: edit_start_def persist_pending_def append_pending_def call_env_def demo_round_env_def demo_edit_round_def
      demo_round_def demo_bash_batch_def agent_edit_context_def demo_edit_context_def review_policy_snapshot_def edit_layer_def
      demo_edit_state_def demo_world_def edit_permission_mode_def)

lemma demo_round_parts:
  "te_edit demo_round_env = demo_edit_env" "te_registry demo_round_env = with_agent_edit_tools" "te_root demo_round_env = demo_root"
  by (simp_all add: demo_round_env_def)

lemma demo_edit_changes:
  "\<exists>r b'. execute_native_provider_edit_tool_request demo_round_env 0 demo_edit_request demo_edit_round = (r, b')
     \<and> batch_fs b' \<noteq> batch_fs demo_edit_round"
proof -
  let ?start = "edit_start demo_round_env 0 demo_edit_round"
  let ?ask = "prepare_agent_edit_tool_request demo_edit_env with_agent_edit_tools demo_root demo_edit_context demo_edit_request"
  obtain tid x st' where run: "?ask (edit_layer ?start) = (Inr (EditToolCompleted tid x), st')"
      and changed: "nodes (ew_fs (ae_world st')) demo_a = Some (File ''hullo'' 420)"
    unfolding demo_edit_start using demo_edit_runs by blast
  obtain y b1 where drained: "edit_then_drain ?ask ?start = (y, b1)" by fastforce
  note ran = edit_then_drain_cases [OF drained run]
  obtain r b' where fin: "finish_prepared_edit_tool_request demo_round_env 0 (tr_tool_name demo_edit_request)
      (EditToolCompleted tid x) no_timing b1 = (r, b')" by fastforce
  have "batch_fs b' = batch_fs b1" using settled_keeps_files [OF fin] by auto
  then have "batch_fs b' \<noteq> batch_fs demo_edit_round"
    using ran changed demo_start(3) [of "\<lambda>_. False"]
    by (auto simp: demo_edit_round_def demo_round_def demo_edit_state_def demo_world_def)
  moreover have "execute_native_provider_edit_tool_request demo_round_env 0 demo_edit_request demo_edit_round = (r, b')"
  proof -
    have "persist_pending demo_round_env 0 demo_edit_round = (Inr (), ?start)"
      using demo_edit_start(4) by (simp add: edit_start_def prod_eq_iff)
    then show ?thesis
      using drained ran fin by (simp add: execute_native_provider_edit_tool_request_def tool_bind_def demo_round_parts demo_edit_start)
  qed
  ultimately show ?thesis by blast
qed

theorem edit_changes_only_approved_witness:
  "\<exists>r b' ops. execute_native_provider_edit_tool_request demo_round_env 0 demo_edit_request demo_edit_round = (r, b')
     \<and> batch_fs b' \<noteq> batch_fs demo_edit_round
     \<and> call_asks demo_edit_env with_agent_edit_tools demo_root demo_edit_context demo_edit_request demo_edit_state = Some ops
     \<and> is_Allowed (edit_decided (ag_access demo_edit_env) ops (edit_context_of demo_edit_context demo_edit_request) (ae_world demo_edit_state))"
proof -
  obtain r b' where run: "execute_native_provider_edit_tool_request demo_round_env 0 demo_edit_request demo_edit_round = (r, b')"
      "batch_fs b' \<noteq> batch_fs demo_edit_round" using demo_edit_changes by blast
  from edit_changes_only_approved [OF run] run show ?thesis
    using demo_edit_runs unfolding demo_edit_start demo_round_parts by auto
qed

end
