(* ===== verification/Spec2Isabelle.thy ===== *)
theory Spec2Isabelle
  imports Edit_Properties Permission Shell_Grammar Shell_Output Review_Coordinator Shell_Tool_Properties
    Session_Properties Edit_Access_Properties Compaction_Run_Properties Tools_Properties
    Resource_Search_Properties Edit_Approval_Properties
begin

text \<open>
  Verification of the trusted core of yach, a coding agent: the code that decides what a
  language model may do to the user's files and machine, and that carries it out. All of it
  is in the crate \<^verbatim>\<open>yach-backend\<close> (\<^verbatim>\<open>src/crates/yach-backend/src\<close>, the directory of
  the file names below).

  \<^bold>\<open>The parts and how they interact.\<close> The tools of a turn are resolved from a registry of
  built-in tools and of tools that extensions register, under the user's rules (\<^verbatim>\<open>tools.rs\<close>,
  \<^verbatim>\<open>components.rs\<close>), and advertised to the provider. A turn of the model asks for tools, several at
  once: a round (\<^verbatim>\<open>runner.rs\<close>) validates each call, hands it to the handler of its
  implementation, records it and answers it, in order, within the budget of the loop. A call that
  reads or searches goes to a resource root (\<^verbatim>\<open>resource.rs\<close>), which confines paths to the project and
  refuses sensitive ones (\<^verbatim>\<open>sensitive_paths.rs\<close>). A call that edits is normalized into a
  transaction (\<^verbatim>\<open>agent_edit_tools.rs\<close>), previewed and later applied by the edit engine
  (\<^verbatim>\<open>edit.rs\<close>). A shell
  command goes through the \<^verbatim>\<open>bash\<close> handler of \<^verbatim>\<open>runner.rs\<close>, which asks the permission
  engine (\<^verbatim>\<open>permission.rs\<close>) under the standing restrictions the user stores in the review
  policy (\<^verbatim>\<open>review/policy.rs\<close>); the engine consults the shell policy's allowlist and the
  session's grants (\<^verbatim>\<open>shell.rs\<close>), and what it does not allow goes to the user or, in
  auto-review mode, to the review coordinator (\<^verbatim>\<open>review/\<close>), which binds the request and its
  evidence to the revisions of the policy, the user's authorization and the reviewer, asks a
  reviewer program, validates and routes its answer. A command that may run is executed by
  the host executor of \<^verbatim>\<open>shell.rs\<close>, its output captured within bounds and streamed live.
  An edit goes through the access layer (\<^verbatim>\<open>edit_access.rs\<close>), which keeps previews pending until
  they are approved and records what it does before it does it. Everything is an event of
  the session log, stored as lines of JSON (\<^verbatim>\<open>session.rs\<close>, \<^verbatim>\<open>session_store.rs\<close>). The messages of
  the next provider request are rebuilt from that log, the request is retried when it fails
  (\<^verbatim>\<open>runner.rs\<close>), and when the context grows too large the log is compacted: old tool results
  are masked and older turns replaced by a summary, or by a window the provider returns, which
  is replayed verbatim (\<^verbatim>\<open>compaction.rs\<close>, \<^verbatim>\<open>responses_replay.rs\<close>).

  \<^bold>\<open>Theories.\<close>
  \<^item> \<open>Prelude\<close>: results with errors as values (\<open>Inl\<close> the error), \<open>u64\<close> arithmetic, UTF-8 texts as
    byte lists with their characters and boundaries, lossy decoding, decimal numbers.
  \<^item> \<open>Paths\<close>, \<open>Filesystem\<close>: \<open>std::path\<close> components and the file system the code runs on: a tree
    with directories, files with modes and symbolic links, canonicalization, and every call
    the code makes, each of which may fail by an oracle of the state.
  \<^item> \<open>Sensitive_Paths\<close>, \<open>Resource\<close>: \<^verbatim>\<open>SensitivePathPolicy\<close> and the confined reads of
    \<^verbatim>\<open>ResourceRoot\<close>. The glob matcher is a parameter. \<open>Resource_Search\<close>: path metadata, listing
    and search; \<open>Resource_Search_Properties\<close>: what they return.
  \<^item> \<open>Edit\<close>: validation of paths, resolution of targets, hunks, the diff summary and
    \<^verbatim>\<open>EditHarness::preview\<close>. \<open>Edit_Apply\<close>: applying one operation or several at once with
    staging, publication, rollback and clean-up. \<open>Edit_Properties\<close>: what the engine promises.
  \<^item> \<open>Review_Policy\<close>: the store of the user's restrictions with its atomic write.
  \<^item> \<open>Permission\<close>: the two decision procedures, restriction matching and selection, redacted
    summaries, the persisted approval mode.
  \<^item> \<open>Shell\<close>: configuration, the command lexer and the allowlist, the environment of a command,
    bounded capture, live chunks, the executor's reading loop. \<open>Shell_Grammar\<close> gives the lexer
    a grammar, \<open>Shell_Output\<close> the properties of captured output.
  \<^item> \<open>Review\<close>: bounded texts, signals, requests, evidence, assessments and routing;
    \<open>Review_Properties\<close>: their properties; \<open>Review_Coordinator\<close>: one review from the snapshot of
    the revisions to the routed answer.
  \<^item> \<open>Shell_Tool\<close>: the \<^verbatim>\<open>bash\<close> handler, which composes the components;
    \<open>Shell_Tool_Properties\<close>: what has to have happened before a command runs.
  \<^item> \<open>Session\<close>: every variant of \<^verbatim>\<open>SessionEvent\<close>, what is read off a log, the store with its
    appends; \<open>Session_Properties\<close>: what a later load returns, also after an interrupted append.
  \<^item> \<open>Edit_Access\<close>: preparing, applying, rejecting and rebinding pending edits;
    \<open>Edit_Access_Properties\<close>: freshness, and single use as an invariant of runs of the layer.
  \<^item> \<open>Round_Error\<close>: the errors of a provider and of a round. \<open>Provider\<close>: the messages of a
    request, rebuilt from the log, and the collection of an answer. \<open>Provider_Retry\<close>: the retry
    loop; \<open>Provider_Retry_Properties\<close>: how often it tries and what its answer is.
  \<^item> \<open>Compaction\<close>: token estimates, masks, the cut, the summary prompt, checkpoints, settings;
    \<open>Compaction_Run\<close>: one compaction of a run; \<open>Native_Replay\<close>: the window the provider
    returned and its replay. \<open>Compaction_Properties\<close>, \<open>Context_Properties\<close> and
    \<open>Compaction_Run_Properties\<close>: what is cut, what the next request then holds, and that a
    failed compaction changes nothing.

  \<^item> \<open>Components\<close>: components and presets. \<open>Tools\<close>: schemas, definitions, advertising, permissions,
    the registry, the catalog of a turn with replacements, validation of calls;
    \<open>Tools_Properties\<close>: their properties. \<open>Tool_Execution\<close>: the executors and the continuation.
  \<^item> \<open>Agent_Edit\<close>: the two edit tools and the edit proposals of extensions, above the access
    layer; \<open>Agent_Edit_Properties\<close>: what a call does, in the locale \<open>edit_tool\<close> that both ways are
    interpreted in.
  \<^item> \<open>Tool_Batch\<close>: a round of tool calls with its handlers. \<open>Tool_Handler_Properties\<close>: the contract of a
    handler (locale \<open>tool_handler\<close>), proved over the locale \<open>step_relation\<close> and interpreted on the
    dispatcher; \<open>Tool_Budget\<close>: what a handler charges to the budget (locale \<open>accounting_handler\<close>, which
    extends it); \<open>Tool_Batch_Properties\<close>: the round; \<open>Edit_Approval_Properties\<close>: what lets an edit
    through.

  \<^bold>\<open>How code becomes definitions.\<close> Structs are records, enums datatypes with the source's
  constructors, functions definitions of (nearly) the source's names. Texts are lists of
  bytes. Code that mutates takes and returns its state: the file system for the edit engine,
  the batch for the \<^verbatim>\<open>bash\<close> handler and for the round, with early returns as errors of a small
  monad each.
  Atomic counters are naturals that are threaded; mutexes another thread may change are read
  as functions of the moment (\<open>moments\<close>), with \<open>None\<close> for a poisoned lock. What is outside the
  repository is an argument: SHA-256, the glob matcher, the shell word splitter, upper case,
  JSON parsing of configuration and answers, the reviewer program, the process run, the hosts of
  extensions, the names in a directory. What the world does to the files between two calls of a
  round is a function of the index of the call.

  \<^bold>\<open>What the lemmas show.\<close>
  \<^item> Edit engine: an applied transaction changes exactly its targets to exactly the previewed
    texts, and only if they still are what was previewed; a failed one leaves every file as it
    was (as long as the failing system call is the only one to fail); a previewed edit applies
    when nothing has changed; previews stay inside the project and off metadata and sensitive
    paths; hunks apply exactly when they match once.
  \<^item> Permission engine, stated once for both procedures in the locale \<open>restriction_first\<close> and
    interpreted on each: the user's restrictions come before every mode, allowlist and grant,
    and the strongest restriction is selected; the exact conditions under which something is
    allowed; summaries are redacted; the dangerous modes are never stored.
  \<^item> Shell: of the commands without the syntax the lexer does not know (comments, ANSI-C quoting,
    continued lines, parentheses, expansions in braces), the allowlist allows exactly the lists of
    a grammar whose every segment starts with an entry, and lemmas show what such syntax hides from
    the lexer; a project's configuration grants nothing; the captured output refines
    the abstract head and tail of what was written; the reading loop ends.
  \<^item> Review: an answer executes only when it is fresh, valid and all signals are below the
    thresholds; a restriction for an observed class is honoured; malformed routing holds
    everything; evidence is recorded before the reviewer is called; a review goes stale exactly
    when a revision changed while the reviewer answered.
  \<^item> The \<^verbatim>\<open>bash\<close> handler: nothing runs but what the permission engine, the user or a fresh
    review permits, and not before the decision was appended to the session store.
  \<^item> Tools: exactly which arguments a schema accepts; the registry keeps names unique and built-in
    tools unchanged; a tool of the catalog is one the user's policy and rules allow; what is
    advertised is read back, unapproved contracts of project tools are refused; a search shows exactly the matching lines of the files that may be
    read.
  \<^item> Edit calls: a file changes only when the permission engine allows the transaction, the
    reviewer executes it, or the user approves the very preview; a call whose edit is allowed and
    previewed is completed when nothing fails; every settled call is recorded once.
  \<^item> A round: it returns, has one result per call in order with its ids, and leaves the request
    and the end of every call in the log, however it ended; the round and its calls are counted,
    every completed result is charged and the limits hold; a round that is refused runs nothing.
  \<^item> Sessions: what is appended is loaded again; an append that fails keeps what was stored,
    with the one exception the lemmas name.
  \<^item> Edit access: an approved edit reaches the engine only when its policy, grants and preview
    are still the ones that were reviewed, and at most once. A failed append may leave any initial
    part of its events in the store (\<open>sink_kept\<close>).
  \<^item> Provider: every tool call sent has its result right after it; at most three attempts
    within the delay budget, each recorded; the answer is the concatenation of what was streamed.
  \<^item> Compaction: the cut falls on a user's entry and keeps the recent tokens; a mask saves what
    is claimed; the request after a compaction is the summary and the kept turns; when storing
    the checkpoint fails the context stays what it was; a native window survives a restart.

  \<^bold>\<open>Bounds.\<close> Canonicalization follows at most forty symbolic links, as the kernel does. A search
  descends at most \<open>search_levels\<close> = 4097 directories: a path has at most 4096 bytes, so no
  tree a call can name is deeper, and with enough levels a search is shown to return
  (\<open>search_text_returns\<close>). No other definition needs
  fuel. A round is total but for the one panic of its configuration, a maximum timeout below the
  minimum, which is \<open>None\<close>. Loops are structural or have a \<open>termination\<close> proof; the reading loop
  of the executor runs over the finite list of the events it sees, and is shown to stop exactly
  when both streams have closed.

  \<^bold>\<open>Not modelled.\<close> The asynchronous loop that alternates provider requests and rounds, with its
  streaming and channels; HTTP adapters, the terminal interface and the command line (third-party
  libraries decide what they do); installing and hosting extensions (processes and their
  transport); the instruction files of the static context and the user's configuration file; the
  JSON encodings of \<^verbatim>\<open>serde\<close>; timings and traces of performance.
\<close>

end
